(* ===== verification/JsPrelude.thy ===== *)
theory JsPrelude
  imports Main "HOL-Library.Word" "HOL-Library.AList" "HOL-Library.Multiset"
begin

text \<open>
  Shared vocabulary of the development: exceptions as values, the string and number
  operations of JavaScript that the modelled files call, JavaScript values, and the
  collections of facts that the component theories extend.

  Strings are lists of \<^typ>\<open>char\<close>: the model covers UTF-16 code units below 256, and the
  case mapping is the ASCII one.  Finite numbers are decimals \<open>m * 10 ^ -s\<close>; this agrees
  with IEEE doubles for literals of at most 15 significant digits.
\<close>

named_theorems js_simps \<open>unfolding rules of the string helpers\<close>
named_theorems progress \<open>how far an operation moves a cursor or an offset\<close>

section \<open>Exceptions\<close>

datatype js_error =
    JsError string
  | TypeError string
  | RangeError string
  | DriverError string

type_synonym 'a result = "js_error + 'a"

text \<open>Sequencing: the first exception ends the computation.\<close>

definition rbind :: "'a result \<Rightarrow> ('a \<Rightarrow> 'b result) \<Rightarrow> 'b result" where
  "rbind m f = (case m of Inl e \<Rightarrow> Inl e | Inr x \<Rightarrow> f x)"

lemma rbind_simps [simp]:
  "rbind (Inl e) f = Inl e"
  "rbind (Inr x) f = f x"
  by (simp_all add: rbind_def)

lemma rbind_cong [fundef_cong]:
  "m = m' \<Longrightarrow> (\<And>x. m' = Inr x \<Longrightarrow> f x = f' x) \<Longrightarrow> rbind m f = rbind m' f'"
  by (cases m') auto

lemma rbind_Inr_iff: "rbind m f = Inr y \<longleftrightarrow> (\<exists>x. m = Inr x \<and> f x = Inr y)"
  by (cases m) auto

lemma rbind_Inl_iff: "rbind m f = Inl e \<longleftrightarrow> m = Inl e \<or> (\<exists>x. m = Inr x \<and> f x = Inl e)"
  by (cases m) auto

lemma rbind_assoc: "rbind (rbind m f) g = rbind m (\<lambda>x. rbind (f x) g)"
  by (cases m) auto

text \<open>\<open>throw new Error\<close> unless the guard holds.\<close>

definition rguard :: "bool \<Rightarrow> js_error \<Rightarrow> unit result" where
  "rguard b e = (if b then Inr () else Inl e)"

lemma rguard_simps [simp]: "rguard True e = Inr ()" "rguard False e = Inl e"
  by (simp_all add: rguard_def)

lemma rguard_Inr_iff: "rguard b e = Inr u \<longleftrightarrow> b"
  by (simp add: rguard_def)

section \<open>Characters and strings\<close>

definition char_lower :: "char \<Rightarrow> char" where
  "char_lower c = (let n = of_char c :: nat in if 65 \<le> n \<and> n \<le> 90 then char_of (n + 32) else c)"

definition char_upper :: "char \<Rightarrow> char" where
  "char_upper c = (let n = of_char c :: nat in if 97 \<le> n \<and> n \<le> 122 then char_of (n - 32) else c)"

definition js_lower :: "string \<Rightarrow> string" where
  "js_lower = map char_lower"

definition js_upper :: "string \<Rightarrow> string" where
  "js_upper = map char_upper"

definition is_digit :: "char \<Rightarrow> bool" where
  "is_digit c = (let n = of_char c :: nat in 48 \<le> n \<and> n \<le> 57)"

definition digit_val :: "char \<Rightarrow> nat" where
  "digit_val c = of_char c - 48"

definition is_space :: "char \<Rightarrow> bool" where
  "is_space c = (let n = of_char c :: nat in (9 \<le> n \<and> n \<le> 13) \<or> n = 32 \<or> n = 160)"

definition newline :: char where
  "newline = char_of (10 :: nat)"

definition tab :: char where
  "tab = char_of (9 :: nat)"

definition carriage_return :: char where
  "carriage_return = char_of (13 :: nat)"

definition quote1 :: char where
  "quote1 = char_of (39 :: nat)"

definition js_trim :: "string \<Rightarrow> string" where
  "js_trim s = rev (dropWhile is_space (rev (dropWhile is_space s)))"

definition js_starts_with :: "string \<Rightarrow> string \<Rightarrow> bool" where
  "js_starts_with s p = (take (length p) s = p)"

definition js_ends_with :: "string \<Rightarrow> string \<Rightarrow> bool" where
  "js_ends_with s p = (length p \<le> length s \<and> drop (length s - length p) s = p)"

fun js_includes :: "string \<Rightarrow> string \<Rightarrow> bool" where
  "js_includes [] p = (p = [])"
| "js_includes (c # s) p = (js_starts_with (c # s) p \<or> js_includes s p)"

text \<open>\<open>xs.join(sep)\<close>.\<close>

fun js_join :: "string \<Rightarrow> string list \<Rightarrow> string" where
  "js_join sep [] = []"
| "js_join sep [x] = x"
| "js_join sep (x # y # ys) = x @ sep @ js_join sep (y # ys)"

text \<open>\<open>s.replace(/c/g, r)\<close> for a single character \<open>c\<close>.\<close>

definition replace_char :: "char \<Rightarrow> string \<Rightarrow> string \<Rightarrow> string" where
  "replace_char c r s = concat (map (\<lambda>d. if d = c then r else [d]) s)"

text \<open>\<open>s.replace(/p/g, r)\<close> for a literal \<open>p\<close>: leftmost, not overlapping.\<close>

fun replace_all_from :: "nat \<Rightarrow> string \<Rightarrow> string \<Rightarrow> string \<Rightarrow> string" where
  "replace_all_from k p r [] = []"
| "replace_all_from (Suc k) p r (c # s) = replace_all_from k p r s"
| "replace_all_from 0 p r (c # s) =
     (if p \<noteq> [] \<and> js_starts_with (c # s) p
      then r @ replace_all_from (length p - 1) p r s
      else c # replace_all_from 0 p r s)"

definition replace_all :: "string \<Rightarrow> string \<Rightarrow> string \<Rightarrow> string" where
  "replace_all p r s = replace_all_from 0 p r s"

text \<open>\<open>s.replace(p, r)\<close> for a string \<open>p\<close>: the first occurrence only.\<close>

fun replace_first :: "string \<Rightarrow> string \<Rightarrow> string \<Rightarrow> string" where
  "replace_first p r [] = (if p = [] then r else [])"
| "replace_first p r (c # s) =
     (if js_starts_with (c # s) p then r @ drop (length p) (c # s)
      else c # replace_first p r s)"

text \<open>\<open>s.split(sep)\<close> for a separator that is not empty.\<close>

fun split_from :: "nat \<Rightarrow> string \<Rightarrow> string \<Rightarrow> string \<Rightarrow> string list" where
  "split_from k sep acc [] = [rev acc]"
| "split_from (Suc k) sep acc (c # s) = split_from k sep acc s"
| "split_from 0 sep acc (c # s) =
     (if sep \<noteq> [] \<and> js_starts_with (c # s) sep
      then rev acc # split_from (length sep - 1) sep [] s
      else split_from 0 sep (c # acc) s)"

definition js_split :: "string \<Rightarrow> string \<Rightarrow> string list" where
  "js_split sep s = split_from 0 sep [] s"

text \<open>\<open>xs.findIndex(p)\<close>; \<^term>\<open>None\<close> stands for \<open>-1\<close>.\<close>

fun find_index :: "('a \<Rightarrow> bool) \<Rightarrow> 'a list \<Rightarrow> nat option" where
  "find_index P [] = None"
| "find_index P (x # xs) = (if P x then Some 0 else map_option Suc (find_index P xs))"

text \<open>A string is falsy when it is empty; \<open>undefined\<close> is \<^term>\<open>None\<close>.\<close>

definition truthy_str :: "string option \<Rightarrow> bool" where
  "truthy_str s = (case s of None \<Rightarrow> False | Some t \<Rightarrow> t \<noteq> [])"

text \<open>\<open>xs.filter(Boolean)\<close> on an array of optional strings.\<close>

definition filter_boolean :: "string option list \<Rightarrow> string list" where
  "filter_boolean xs = map the (filter truthy_str xs)"

lemma find_index_Some: "find_index P xs = Some i \<Longrightarrow> i < length xs \<and> P (xs ! i)"
  by (induction xs arbitrary: i) (auto split: if_splits)

lemma truthy_str_simps [simp]: "truthy_str None = False" "truthy_str (Some t) = (t \<noteq> [])"
  by (simp_all add: truthy_str_def)

lemma filter_boolean_simps [simp]:
  "filter_boolean [] = []"
  "filter_boolean (None # xs) = filter_boolean xs"
  "filter_boolean (Some t # xs) = (if t = [] then filter_boolean xs else t # filter_boolean xs)"
  by (simp_all add: filter_boolean_def)

lemma js_starts_with_append [simp]: "js_starts_with (p @ s) p"
  by (simp add: js_starts_with_def)

lemma js_starts_with_iff: "js_starts_with s p \<longleftrightarrow> (\<exists>t. s = p @ t)"
  unfolding js_starts_with_def by (metis append_take_drop_id append_eq_conv_conj)

lemma js_starts_with_Nil [simp]: "js_starts_with s []"
  by (simp add: js_starts_with_def)

lemma js_starts_with_Nil2 [simp]: "js_starts_with [] p \<longleftrightarrow> p = []"
  by (auto simp: js_starts_with_def)

lemma js_starts_with_Cons [simp]:
  "js_starts_with (c # s) (d # p) \<longleftrightarrow> c = d \<and> js_starts_with s p"
  by (simp add: js_starts_with_def)

lemma js_includes_iff: "js_includes s p \<longleftrightarrow> (\<exists>u v. s = u @ p @ v)"
proof (induction s)
  case Nil
  then show ?case by auto
next
  case (Cons c s)
  show ?case
  proof
    assume "js_includes (c # s) p"
    then consider "js_starts_with (c # s) p" | "js_includes s p" by auto
    then show "\<exists>u v. c # s = u @ p @ v"
    proof cases
      case 1
      then obtain t where "c # s = [] @ p @ t" by (auto simp: js_starts_with_iff)
      then show ?thesis by blast
    next
      case 2
      with Cons.IH obtain u v where "s = u @ p @ v" by auto
      then have "c # s = (c # u) @ p @ v" by simp
      then show ?thesis by blast
    qed
  next
    assume "\<exists>u v. c # s = u @ p @ v"
    then obtain u v where eq: "c # s = u @ p @ v" by blast
    show "js_includes (c # s) p"
    proof (cases u)
      case Nil
      with eq have "js_starts_with (c # s) p" by (auto simp: js_starts_with_iff)
      then show ?thesis by simp
    next
      case (Cons d u')
      with eq have "s = u' @ p @ v" by simp
      with Cons.IH show ?thesis by auto
    qed
  qed
qed

lemma js_includes_append1: "js_includes s p \<Longrightarrow> js_includes (s @ t) p"
  unfolding js_includes_iff by (metis append.assoc)

lemma js_includes_append2: "js_includes t p \<Longrightarrow> js_includes (s @ t) p"
  unfolding js_includes_iff by (metis append.assoc)

lemma js_includes_self [simp]: "js_includes p p"
  by (metis append.left_neutral append.right_neutral js_includes_iff)

lemma js_lower_append [simp]: "js_lower (s @ t) = js_lower s @ js_lower t"
  by (simp add: js_lower_def)

lemma js_lower_Nil_iff [simp]: "js_lower s = [] \<longleftrightarrow> s = []"
  by (simp add: js_lower_def)

lemma char_lower_idem [simp]: "char_lower (char_lower c) = char_lower c"
proof (cases "65 \<le> (of_char c :: nat) \<and> (of_char c :: nat) \<le> 90")
  case True
  then have "(of_char (char_of (of_char c + 32 :: nat) :: char) :: nat) = of_char c + 32"
    by (simp add: of_char_of)
  with True show ?thesis by (simp add: char_lower_def Let_def)
next
  case False
  then show ?thesis by (auto simp: char_lower_def Let_def)
qed

lemma js_lower_idem [simp]: "js_lower (js_lower s) = js_lower s"
  by (simp add: js_lower_def)

lemma js_join_Cons: "xs \<noteq> [] \<Longrightarrow> js_join sep (x # xs) = x @ sep @ js_join sep xs"
  by (cases xs) auto

lemma js_join_Nil_iff: "(\<forall>x \<in> set xs. x \<noteq> []) \<Longrightarrow> js_join sep xs = [] \<longleftrightarrow> xs = []"
  by (induction sep xs rule: js_join.induct) auto

lemma replace_char_simps [simp]:
  "replace_char c r [] = []"
  "replace_char c r (d # s) = (if d = c then r else [d]) @ replace_char c r s"
  by (simp_all add: replace_char_def)

lemma replace_char_append: "replace_char c r (s @ t) = replace_char c r s @ replace_char c r t"
  by (simp add: replace_char_def)

lemma replace_char_id: "c \<notin> set s \<Longrightarrow> replace_char c r s = s"
  by (induction s) auto

lemma split_no_sep: "c \<notin> set s \<Longrightarrow> split_from 0 [c] acc (s @ c # rest) = (rev acc @ s) # split_from 0 [c] [] rest"
  by (induction s arbitrary: acc) auto

lemma split_end: "c \<notin> set s \<Longrightarrow> split_from 0 [c] acc s = [rev acc @ s]"
  by (induction s arbitrary: acc) auto

lemma js_split_join: "ls \<noteq> [] \<Longrightarrow> list_all (\<lambda>l. c \<notin> set l) ls \<Longrightarrow> js_split [c] (js_join [c] ls) = ls"
proof (induction ls)
  case (Cons l ls)
  then show ?case
    by (cases "ls = []") (simp_all add: js_split_def js_join_Cons split_no_sep split_end)
qed simp

section \<open>Sorting with a comparison\<close>

text \<open>\<open>xs.sort(cmp)\<close>, which is stable, for a consistent comparison; \<open>le a b\<close> says \<open>cmp(a, b) <= 0\<close>.\<close>

fun insert_by :: "('a \<Rightarrow> 'a \<Rightarrow> bool) \<Rightarrow> 'a \<Rightarrow> 'a list \<Rightarrow> 'a list" where
  "insert_by le x [] = [x]"
| "insert_by le x (y # ys) = (if le x y then x # y # ys else y # insert_by le x ys)"

definition sort_by :: "('a \<Rightarrow> 'a \<Rightarrow> bool) \<Rightarrow> 'a list \<Rightarrow> 'a list" where
  "sort_by le xs = foldr (insert_by le) xs []"

lemma mset_insert_by [simp]: "mset (insert_by le x xs) = add_mset x (mset xs)"
  by (induction xs) auto

lemma mset_sort_by [simp]: "mset (sort_by le xs) = mset xs"
  unfolding sort_by_def by (induction xs) simp_all

lemma set_sort_by [simp]: "set (sort_by le xs) = set xs"
  by (metis mset_sort_by set_mset_mset)

text \<open>\<open>xs.sort()\<close> of texts: by their characters.\<close>

fun text_le :: "string \<Rightarrow> string \<Rightarrow> bool" where
  "text_le [] t = True"
| "text_le (c # s) [] = False"
| "text_le (c # s) (d # t) =
     (if c = d then text_le s t else (of_char c :: nat) < of_char d)"

lemma text_le_refl: "text_le s s"
  by (induction s) simp_all

lemma text_le_total: "text_le s t \<or> text_le t s"
proof (induction s t rule: text_le.induct)
  case (3 c s d t)
  have "c \<noteq> d \<Longrightarrow> (of_char c :: nat) < of_char d \<or> (of_char d :: nat) < of_char c"
    by (metis nat_neq_iff of_char_eq_iff)
  then show ?case using 3 by (cases "c = d") auto
qed simp_all

lemma text_le_trans: "text_le s t \<Longrightarrow> text_le t u \<Longrightarrow> text_le s u"
proof (induction s t arbitrary: u rule: text_le.induct)
  case (3 c s d t)
  then show ?case by (cases u) (auto split: if_splits)
qed (auto elim: text_le.elims)

end
