(* ===== verification/JsValue.thy ===== *)
theory JsValue
  imports JsPrelude
begin

text \<open>
  JavaScript numbers and values, and plain objects used as records.  A plain object is the
  list of its own properties in insertion order, with distinct keys; \<open>obj_entries\<close> gives
  the enumeration order of \<open>Object.entries\<close>, array indices first.
\<close>

section \<open>Numbers\<close>

text \<open>
  \<open>Dec m s\<close> is \<open>m * 10 ^ -s\<close>; the canonical form has no trailing zero after the point.
  Zero has no sign here.
\<close>

datatype jsnum = NaN | Infinite bool | Dec int nat

fun mk_dec :: "int \<Rightarrow> nat \<Rightarrow> jsnum" where
  "mk_dec m 0 = Dec m 0"
| "mk_dec m (Suc s) = (if m mod 10 = 0 then mk_dec (m div 10) s else Dec m (Suc s))"

definition num_of_int :: "int \<Rightarrow> jsnum" where
  "num_of_int i = Dec i 0"

fun num_neg :: "jsnum \<Rightarrow> jsnum" where
  "num_neg NaN = NaN"
| "num_neg (Infinite b) = Infinite (\<not> b)"
| "num_neg (Dec m s) = Dec (- m) s"

fun num_truthy :: "jsnum \<Rightarrow> bool" where
  "num_truthy NaN = False"
| "num_truthy (Infinite b) = True"
| "num_truthy (Dec m s) = (m \<noteq> 0)"

fun nat_digits :: "nat \<Rightarrow> string" where
  "nat_digits n =
     (if n < 10 then [char_of (48 + n)] else nat_digits (n div 10) @ [char_of (48 + n mod 10)])"

declare nat_digits.simps [simp del]

definition int_str :: "int \<Rightarrow> string" where
  "int_str i = (if i < 0 then CHR ''-'' # nat_digits (nat (- i)) else nat_digits (nat i))"

definition dec_str :: "int \<Rightarrow> nat \<Rightarrow> string" where
  "dec_str m s =
     (let ds = nat_digits (nat \<bar>m\<bar>);
          pad = replicate (Suc s - length ds) (CHR ''0'') @ ds;
          k = length pad - s
      in (if m < 0 then ''-'' else []) @ take k pad @ CHR ''.'' # drop k pad)"

fun num_str :: "jsnum \<Rightarrow> string" where
  "num_str NaN = ''NaN''"
| "num_str (Infinite neg) = (if neg then ''-Infinity'' else ''Infinity'')"
| "num_str (Dec m 0) = int_str m"
| "num_str (Dec m (Suc s)) = dec_str m (Suc s)"

text \<open>The characters of printed numbers.\<close>

lemma nat_digits_not_Nil [simp]: "nat_digits n \<noteq> []"
  by (simp add: nat_digits.simps [of n])

lemma nat_digits_all: "(\<And>k. k < 10 \<Longrightarrow> P (char_of (48 + k :: nat))) \<Longrightarrow> list_all P (nat_digits n)"
proof (induction n rule: nat_digits.induct)
  case (1 n)
  then show ?case by (cases "n < 10") (simp_all add: nat_digits.simps [of n])
qed

lemma list_all_take_drop: "list_all P xs \<Longrightarrow> list_all P (take n xs) \<and> list_all P (drop n xs)"
  by (metis append_take_drop_id list_all_append)

lemma int_str_all:
  "(\<And>k. k < 10 \<Longrightarrow> P (char_of (48 + k :: nat))) \<Longrightarrow> P (CHR ''-'') \<Longrightarrow> list_all P (int_str i)"
  by (simp add: int_str_def nat_digits_all)

lemma dec_str_all:
  assumes "\<And>k. k < 10 \<Longrightarrow> P (char_of (48 + k :: nat))" and "P (CHR ''-'')" and "P (CHR ''.'')"
  shows "list_all P (dec_str m s)"
proof -
  let ?ds = "nat_digits (nat \<bar>m\<bar>)"
  let ?pad = "replicate (Suc s - length ?ds) (CHR ''0'') @ ?ds"
  have "char_of (48 :: nat) = CHR ''0''" by code_simp
  then have "P (CHR ''0'')" using assms(1) [of 0] by simp
  then have "list_all P (replicate n (CHR ''0''))" for n by (induction n) simp_all
  then have "list_all P ?pad" using nat_digits_all [of P, OF assms(1)] by simp
  from list_all_take_drop [OF this, of "length ?pad - s"] show ?thesis
    using assms by (simp add: dec_str_def Let_def)
qed

lemma int_str_not_Nil [simp]: "int_str i \<noteq> []"
  by (simp add: int_str_def)

lemma dec_str_not_Nil [simp]: "dec_str m s \<noteq> []"
  by (simp add: dec_str_def Let_def)

text \<open>A property of the ten digits is checked digit by digit.\<close>

lemma digits_check: "list_all (\<lambda>k. P (char_of (48 + k :: nat))) [0..<10] \<Longrightarrow> k < 10 \<Longrightarrow>
     P (char_of (48 + k :: nat))"
  by (simp add: list_all_iff)

definition digits_val :: "string \<Rightarrow> nat" where
  "digits_val ds = foldl (\<lambda>n c. 10 * n + digit_val c) 0 ds"

lemma digit_val_digit: "k < 10 \<Longrightarrow> digit_val (char_of (48 + k :: nat)) = k"
  by (simp add: digit_val_def of_char_of)

lemma digits_val_nat_digits [simp]: "digits_val (nat_digits n) = n"
proof (induction n rule: nat_digits.induct)
  case (1 n)
  show ?case
  proof (cases "n < 10")
    case True
    then show ?thesis by (simp add: nat_digits.simps [of n] digits_val_def digit_val_digit)
  next
    case False
    with 1 have "digits_val (nat_digits (n div 10)) = n div 10" by simp
    then show ?thesis
      using False by (simp add: nat_digits.simps [of n] digits_val_def digit_val_digit)
  qed
qed

lemma nat_digits_inj [simp]: "nat_digits m = nat_digits n \<longleftrightarrow> m = n"
  by (metis digits_val_nat_digits)

text \<open>\<open>Number(s)\<close>: the decimal literals with an optional point and exponent.\<close>

definition scale_dec :: "int \<Rightarrow> int \<Rightarrow> jsnum" where
  "scale_dec m e = (if 0 \<le> e then Dec (m * 10 ^ nat e) 0 else mk_dec m (nat (- e)))"

fun parse_exponent :: "string \<Rightarrow> int option" where
  "parse_exponent [] = Some 0"
| "parse_exponent (c # cs) =
     (if c \<noteq> CHR ''e'' \<and> c \<noteq> CHR ''E'' then None
      else case cs of
        [] \<Rightarrow> None
      | d # ds \<Rightarrow>
          (let sgn = (if d = CHR ''-'' then - 1 else 1 :: int);
               rest = (if d = CHR ''-'' \<or> d = CHR ''+'' then ds else d # ds)
           in if rest \<noteq> [] \<and> list_all is_digit rest then Some (sgn * int (digits_val rest))
              else None))"

definition parse_unsigned :: "string \<Rightarrow> jsnum" where
  "parse_unsigned t =
     (let ip = takeWhile is_digit t;
          r1 = dropWhile is_digit t;
          point = (r1 \<noteq> [] \<and> hd r1 = CHR ''.'');
          fp = (if point then takeWhile is_digit (tl r1) else []);
          r2 = (if point then dropWhile is_digit (tl r1) else r1)
      in if t = ''Infinity'' then Infinite False
         else if ip = [] \<and> fp = [] then NaN
         else case parse_exponent r2 of
             None \<Rightarrow> NaN
           | Some e \<Rightarrow> scale_dec (int (digits_val (ip @ fp))) (e - int (length fp)))"

definition js_Number :: "string \<Rightarrow> jsnum" where
  "js_Number s =
     (let t = js_trim s
      in if t = [] then Dec 0 0
         else if hd t = CHR ''-'' then num_neg (parse_unsigned (tl t))
         else if hd t = CHR ''+'' then parse_unsigned (tl t)
         else parse_unsigned t)"

lemma js_Number_examples:
  "js_Number ''5.50'' = Dec 55 1" "js_Number ''-12'' = Dec (- 12) 0"
  "js_Number ''2e2'' = Dec 200 0" "js_Number ''x'' = NaN" "num_str (Dec (- 55) 3) = ''-0.055''"
  by code_simp+

section \<open>Values\<close>

text \<open>\<open>Number.prototype.toFixed\<close> of a quotient of natural numbers that a double holds exactly.\<close>

definition to_fixed :: "nat \<Rightarrow> nat \<Rightarrow> nat \<Rightarrow> string" where
  "to_fixed f n d =
     (let k = (2 * n * 10 ^ f + d) div (2 * d); frac = nat_digits (k mod 10 ^ f) in
      nat_digits (k div 10 ^ f)
      @ (if f = 0 then [] else ''.'' @ replicate (f - length frac) (CHR ''0'') @ frac))"

type_synonym byte = "8 word"

datatype jsval =
    Undefined
  | Null
  | Boolean bool
  | Num jsnum
  | BigInt int
  | Str string
  | ArrayBuffer "byte list"
  | Uint8Array "byte list"
  | JsArray "jsval list"
  | JsObject "(string \<times> jsval) list"

type_synonym 'v obj = "(string \<times> 'v) list"

text \<open>Truthiness of a value (\<open>if (v)\<close>, \<open>!!v\<close>).\<close>

fun truthy :: "jsval \<Rightarrow> bool" where
  "truthy Undefined = False"
| "truthy Null = False"
| "truthy (Boolean b) = b"
| "truthy (Num n) = num_truthy n"
| "truthy (BigInt i) = (i \<noteq> 0)"
| "truthy (Str s) = (s \<noteq> [])"
| "truthy _ = True"

definition nullish :: "jsval \<Rightarrow> bool" where
  "nullish v = (v = Null \<or> v = Undefined)"

lemma nullish_simps [simp]: "nullish Null" "nullish Undefined"
  by (simp_all add: nullish_def)

section \<open>Objects as records\<close>

text \<open>\<open>o[k]\<close>, \<open>o[k] = v\<close>, \<open>delete o[k]\<close>, \<open>k in o\<close>, \<open>{...a, ...b}\<close>.\<close>

definition obj_at :: "jsval obj \<Rightarrow> string \<Rightarrow> jsval" where
  "obj_at ob k = (case map_of ob k of None \<Rightarrow> Undefined | Some v \<Rightarrow> v)"

definition obj_has :: "'v obj \<Rightarrow> string \<Rightarrow> bool" where
  "obj_has ob k = (map_of ob k \<noteq> None)"

definition obj_set :: "string \<Rightarrow> 'v \<Rightarrow> 'v obj \<Rightarrow> 'v obj" where
  "obj_set k v ob = AList.update k v ob"

definition obj_del :: "string \<Rightarrow> 'v obj \<Rightarrow> 'v obj" where
  "obj_del k ob = AList.delete k ob"

definition obj_spread :: "'v obj \<Rightarrow> 'v obj \<Rightarrow> 'v obj" where
  "obj_spread a b = foldl (\<lambda>ob (k, v). obj_set k v ob) a b"

text \<open>
  \<open>Object.entries\<close>: keys that are array indices come first, in ascending order; the
  other keys follow in insertion order.
\<close>

definition is_index_key :: "string \<Rightarrow> bool" where
  "is_index_key k = (k \<noteq> [] \<and> list_all is_digit k \<and> (k = ''0'' \<or> hd k \<noteq> CHR ''0'')
                     \<and> digits_val k < 4294967295)"

definition obj_entries :: "'v obj \<Rightarrow> (string \<times> 'v) list" where
  "obj_entries ob = sort_key (\<lambda>(k, v). digits_val k) (filter (\<lambda>(k, v). is_index_key k) ob)
                    @ filter (\<lambda>(k, v). \<not> is_index_key k) ob"

lemma set_obj_entries [simp]: "set (obj_entries ob) = set ob"
  by (auto simp: obj_entries_def)

lemma obj_entries_Nil_iff [simp]: "obj_entries ob = [] \<longleftrightarrow> ob = []"
  by (metis set_empty set_obj_entries)

lemma length_obj_entries [simp]: "length (obj_entries ob) = length ob"
  by (simp add: obj_entries_def sum_length_filter_compl split_def)

lemma obj_entries_no_index:
  "(\<And>k v. (k, v) \<in> set ob \<Longrightarrow> \<not> is_index_key k) \<Longrightarrow> obj_entries ob = ob"
proof -
  assume h: "\<And>k v. (k, v) \<in> set ob \<Longrightarrow> \<not> is_index_key k"
  have "filter (\<lambda>(k, v). is_index_key k) ob = []"
    using h by (auto simp: filter_empty_conv)
  moreover have "filter (\<lambda>(k, v). \<not> is_index_key k) ob = ob"
    using h by (auto simp: filter_id_conv)
  ultimately show ?thesis by (simp add: obj_entries_def)
qed

lemma obj_set_new: "k \<notin> fst ` set ob \<Longrightarrow> obj_set k v ob = ob @ [(k, v)]"
  unfolding obj_set_def by (induction ob) auto

lemma obj_set_keys: "fst ` set (obj_set k v ob) = insert k (fst ` set ob)"
  by (simp add: obj_set_def dom_update)

lemma distinct_obj_set: "distinct (map fst ob) \<Longrightarrow> distinct (map fst (obj_set k v ob))"
  unfolding obj_set_def by (rule distinct_update)

lemma map_of_obj_set [simp]: "map_of (obj_set k v ob) = (map_of ob)(k \<mapsto> v)"
  by (simp add: obj_set_def update_conv')

lemma map_of_obj_del: "map_of (obj_del k ob) = (map_of ob)(k := None)"
  by (simp add: obj_del_def delete_conv')

lemma obj_set_not_Nil [simp]: "obj_set k v ob \<noteq> []"
  by (cases ob) (auto simp: obj_set_def)

lemma obj_at_set [simp]: "obj_at (obj_set k v ob) k' = (if k' = k then v else obj_at ob k')"
  by (simp add: obj_at_def)

lemma obj_at_Nil [simp]: "obj_at [] k = Undefined"
  by (simp add: obj_at_def)

lemma obj_has_set [simp]: "obj_has (obj_set k v ob) k' \<longleftrightarrow> k' = k \<or> obj_has ob k'"
  by (simp add: obj_has_def)

lemma obj_has_del [simp]: "obj_has (obj_del k ob) k' \<longleftrightarrow> k' \<noteq> k \<and> obj_has ob k'"
  by (simp add: obj_has_def map_of_obj_del)

lemma obj_at_del [simp]:
  "obj_at (obj_del k ob) k' = (if k' = k then Undefined else obj_at ob k')"
  by (simp add: obj_at_def map_of_obj_del)

lemma obj_at_not_has: "\<not> obj_has ob k \<Longrightarrow> obj_at ob k = Undefined"
  by (simp add: obj_has_def obj_at_def)

lemma obj_at_defined_has: "\<not> nullish (obj_at ob k) \<Longrightarrow> obj_has ob k"
  by (metis nullish_simps(2) obj_at_not_has)

lemma obj_has_not_Nil: "obj_has ob k \<Longrightarrow> ob \<noteq> []"
  by (auto simp: obj_has_def)

lemma map_of_obj_spread: "distinct (map fst b) \<Longrightarrow> map_of (obj_spread a b) = map_of a ++ map_of b"
proof (induction b arbitrary: a)
  case Nil
  then show ?case by (simp add: obj_spread_def)
next
  case (Cons p b)
  obtain k v where p: "p = (k, v)" by (cases p)
  have "map_of (obj_spread a (p # b)) = map_of (obj_spread (obj_set k v a) b)"
    by (simp add: obj_spread_def p)
  also have "\<dots> = (map_of a)(k \<mapsto> v) ++ map_of b"
    using Cons by simp
  also have "\<dots> = map_of a ++ map_of (p # b)"
    using Cons.prems p by (simp add: map_add_upd_left map_of_eq_None_iff dom_map_of_conv_image_fst)
  finally show ?case .
qed

text \<open>
  What the clients of plain objects rely on: reading back a property that was set or
  deleted.  The lemma below is the loop that the source writes with \<open>reduce\<close>.
\<close>

locale record_store =
  fixes empty :: "'o"
    and get :: "'o \<Rightarrow> string \<Rightarrow> 'v"
    and put :: "string \<Rightarrow> 'v \<Rightarrow> 'o \<Rightarrow> 'o"
    and undef :: 'v
  assumes get_empty: "get empty k = undef"
    and get_put: "get (put k v ob) k' = (if k' = k then v else get ob k')"
begin

lemma get_reduce:
  "get (foldl (\<lambda>a k. put k (f k) a) ob ks) k = (if k \<in> set ks then f k else get ob k)"
  by (induction ks arbitrary: ob) (auto simp: get_put)

lemma get_reduce_empty:
  "get (foldl (\<lambda>a k. put k (f k) a) empty ks) k = (if k \<in> set ks then f k else undef)"
  by (simp add: get_reduce get_empty)

end

interpretation js_obj: record_store "[] :: jsval obj" obj_at obj_set Undefined
  by unfold_locales simp_all

end
