(* ===== verification/DatabaseTypes.thy ===== *)
theory DatabaseTypes
  imports JsValue
begin

text \<open>
  The data model that the drivers share (\<open>admin/src/drivers/base-driver.ts\<close>): columns,
  constraints, table schemas, triggers, views, schema changes, table operations, results
  and driver flags.

  The fields of a constraint are own properties that can be absent, present with the value
  \<open>undefined\<close>, or present with a value; the difference decides what \<open>{...a, ...b}\<close> keeps.
\<close>

datatype 'a field = Absent | Undef | Is 'a

fun field_opt :: "'a field \<Rightarrow> 'a option" where
  "field_opt (Is x) = Some x"
| "field_opt _ = None"

fun field_of :: "'a option \<Rightarrow> 'a field" where
  "field_of None = Undef"
| "field_of (Some x) = Is x"

definition field_over :: "'a field \<Rightarrow> 'a field \<Rightarrow> 'a field" where
  "field_over a b = (if b = Absent then a else b)"

lemma field_over_simps [simp]:
  "field_over a Absent = a" "field_over a Undef = Undef" "field_over a (Is x) = Is x"
  by (simp_all add: field_over_def)

lemma field_opt_field_of [simp]: "field_opt (field_of x) = x"
  by (cases x) auto

lemma field_over_Absent_left [simp]: "field_over Absent b = b"
  by (simp add: field_over_def)

lemma field_over_assoc: "field_over (field_over a b) c = field_over a (field_over b c)"
  by (simp add: field_over_def)

section \<open>Columns and constraints\<close>

datatype ColumnType = ColumnTEXT | ColumnINTEGER | ColumnREAL | ColumnBLOB

fun describeTableColumnType :: "ColumnType \<Rightarrow> string" where
  "describeTableColumnType ColumnTEXT = ''TEXT''"
| "describeTableColumnType ColumnINTEGER = ''INTEGER''"
| "describeTableColumnType ColumnREAL = ''REAL''"
| "describeTableColumnType ColumnBLOB = ''BLOB''"

datatype SqlOrder = ASC | DESC

fun order_str :: "SqlOrder \<Rightarrow> string" where
  "order_str ASC = ''ASC''"
| "order_str DESC = ''DESC''"

datatype GeneratedType = STORED | VIRTUAL

fun generated_str :: "GeneratedType \<Rightarrow> string" where
  "generated_str STORED = ''STORED''"
| "generated_str VIRTUAL = ''VIRTUAL''"

record DatabaseForeignKeyClause =
  foreignSchemaName :: "string option"
  foreignTableName :: "string option"
  foreignColumns :: "string list option"
  fkColumns :: "string list option"

record DatabaseTableColumnConstraint =
  conName :: "string field"
  primaryKey :: "bool field"
  primaryColumns :: "string list field"
  primaryKeyOrder :: "SqlOrder field"
  primaryKeyConflict :: "string field"
  autoIncrement :: "bool field"
  notNull :: "bool field"
  notNullConflict :: "string field"
  unique :: "bool field"
  uniqueColumns :: "string list field"
  uniqueConflict :: "string field"
  checkExpression :: "string field"
  defaultValue :: "jsval field"
  defaultExpression :: "string field"
  collate :: "string field"
  generatedExpression :: "string field"
  generatedType :: "GeneratedType field"
  foreignKey :: "DatabaseForeignKeyClause field"

definition no_constraint :: DatabaseTableColumnConstraint where
  "no_constraint =
     \<lparr>conName = Absent, primaryKey = Absent, primaryColumns = Absent, primaryKeyOrder = Absent,
      primaryKeyConflict = Absent, autoIncrement = Absent, notNull = Absent,
      notNullConflict = Absent, unique = Absent, uniqueColumns = Absent, uniqueConflict = Absent,
      checkExpression = Absent, defaultValue = Absent, defaultExpression = Absent,
      collate = Absent, generatedExpression = Absent, generatedType = Absent,
      foreignKey = Absent\<rparr>"

text \<open>\<open>{...a, ...b}\<close> on constraints, and the spread of \<open>undefined\<close>.\<close>

definition spread_constraint ::
  "DatabaseTableColumnConstraint \<Rightarrow> DatabaseTableColumnConstraint \<Rightarrow> DatabaseTableColumnConstraint"
where
  "spread_constraint a b =
     \<lparr>conName = field_over (conName a) (conName b),
      primaryKey = field_over (primaryKey a) (primaryKey b),
      primaryColumns = field_over (primaryColumns a) (primaryColumns b),
      primaryKeyOrder = field_over (primaryKeyOrder a) (primaryKeyOrder b),
      primaryKeyConflict = field_over (primaryKeyConflict a) (primaryKeyConflict b),
      autoIncrement = field_over (autoIncrement a) (autoIncrement b),
      notNull = field_over (notNull a) (notNull b),
      notNullConflict = field_over (notNullConflict a) (notNullConflict b),
      unique = field_over (unique a) (unique b),
      uniqueColumns = field_over (uniqueColumns a) (uniqueColumns b),
      uniqueConflict = field_over (uniqueConflict a) (uniqueConflict b),
      checkExpression = field_over (checkExpression a) (checkExpression b),
      defaultValue = field_over (defaultValue a) (defaultValue b),
      defaultExpression = field_over (defaultExpression a) (defaultExpression b),
      collate = field_over (collate a) (collate b),
      generatedExpression = field_over (generatedExpression a) (generatedExpression b),
      generatedType = field_over (generatedType a) (generatedType b),
      foreignKey = field_over (foreignKey a) (foreignKey b)\<rparr>"

definition spread_opt ::
  "DatabaseTableColumnConstraint \<Rightarrow> DatabaseTableColumnConstraint option \<Rightarrow>
   DatabaseTableColumnConstraint"
where
  "spread_opt a b = (case b of None \<Rightarrow> a | Some c \<Rightarrow> spread_constraint a c)"

lemma spread_opt_simps [simp]:
  "spread_opt a None = a"
  "spread_opt a (Some b) = spread_constraint a b"
  by (simp_all add: spread_opt_def)

lemma spread_no_constraint [simp]:
  "spread_constraint a no_constraint = a"
  "spread_constraint no_constraint b = b"
  by (simp_all add: spread_constraint_def no_constraint_def)

lemma spread_constraint_assoc:
  "spread_constraint (spread_constraint a b) c = spread_constraint a (spread_constraint b c)"
  by (simp add: spread_constraint_def field_over_assoc)

record DatabaseTableColumn =
  colName :: string
  colType :: string
  colPk :: "bool option"
  colConstraint :: "DatabaseTableColumnConstraint option"

text \<open>\<open>col.constraint?.f\<close> for a field \<open>f\<close> of the constraint.\<close>

definition con_get :: "DatabaseTableColumn \<Rightarrow> (DatabaseTableColumnConstraint \<Rightarrow> 'a field) \<Rightarrow> 'a option"
where
  "con_get col f = (case colConstraint col of None \<Rightarrow> None | Some c \<Rightarrow> field_opt (f c))"

section \<open>Tables, triggers and views\<close>

record DatabaseTableFts5 =
  ftsContent :: "string option"
  ftsContentRowId :: "string option"

datatype TableKind = KindTable | KindView | KindTrigger | KindSchema

record DatabaseTableSchema =
  tsColumns :: "DatabaseTableColumn list"
  tsPk :: "string list"
  tsAutoIncrement :: bool
  tsSchemaName :: string
  tsTableName :: "string option"
  tsConstraints :: "DatabaseTableColumnConstraint list option"
  tsCreateScript :: "string option"
  tsFts5 :: "DatabaseTableFts5 option"
  tsType :: "TableKind option"
  tsWithoutRowId :: "bool option"
  tsStrict :: "bool option"
  tsSizeInByte :: "jsnum option"

record DatabaseSchemaItem =
  itemType :: TableKind
  itemName :: string
  itemSchemaName :: string
  itemTableName :: "string option"
  itemTableSchema :: "DatabaseTableSchema option"

type_synonym DatabaseSchemas = "DatabaseSchemaItem list obj"

datatype TriggerWhen = BEFORE | AFTER | INSTEAD_OF

datatype TriggerOperation = TriggerINSERT | TriggerUPDATE | TriggerDELETE

fun when_str :: "TriggerWhen \<Rightarrow> string" where
  "when_str BEFORE = ''BEFORE''"
| "when_str AFTER = ''AFTER''"
| "when_str INSTEAD_OF = ''INSTEAD_OF''"

fun operation_str :: "TriggerOperation \<Rightarrow> string" where
  "operation_str TriggerINSERT = ''INSERT''"
| "operation_str TriggerUPDATE = ''UPDATE''"
| "operation_str TriggerDELETE = ''DELETE''"

record DatabaseTriggerSchema =
  trName :: string
  trOperation :: TriggerOperation
  trWhen :: TriggerWhen
  trSchemaName :: string
  trTableName :: string
  trColumnNames :: "string list option"
  trWhenExpression :: string
  trStatement :: string

record DatabaseViewSchema =
  vwName :: string
  vwSchemaName :: string
  vwStatement :: string

section \<open>Operations on table data, results, changes, flags\<close>

datatype DatabaseTableOperation =
    OpInsert (op_values: "jsval obj") (op_autoIncrementPkColumn: "string option")
      (op_pk: "string list option")
  | OpUpdate (op_values: "jsval obj") (op_where: "jsval obj")
  | OpDelete (op_where: "jsval obj")

record DatabaseTableOperationReslt =
  resLastId :: "jsnum option"
  resRecord :: "jsval obj option"

record DatabaseHeader =
  hdName :: string
  hdDisplayName :: string
  hdOriginalType :: "string option"
  hdType :: "ColumnType option"
  hdTable :: "string option"
  hdSchema :: "string option"
  hdOriginalName :: "string option"

record DatabaseResultStat =
  rowsAffected :: jsnum
  rowsRead :: "jsnum option"
  rowsWritten :: "jsnum option"
  queryDurationMs :: "jsnum option"

record DatabaseResultSet =
  rsRows :: "jsval obj list"
  rsHeaders :: "DatabaseHeader list"
  rsStat :: DatabaseResultStat
  rsLastInsertRowid :: "jsnum option"

record ColumnSortOption =
  soColumnName :: string
  soBy :: SqlOrder

record SelectFromTableOptions =
  whereRaw :: "string option"
  optLimit :: jsnum
  optOffset :: jsnum
  orderBy :: "ColumnSortOption list option"

record DatabaseTableColumnChange =
  ccKey :: string
  ccOld :: "DatabaseTableColumn option"
  ccNew :: "DatabaseTableColumn option"

record DatabaseTableConstraintChange =
  kcId :: string
  kcOld :: "DatabaseTableColumnConstraint option"
  kcNew :: "DatabaseTableColumnConstraint option"

record DatabaseTableSchemaChange =
  chSchemaName :: "string option"
  chOldName :: "string option"
  chNewName :: "string option"
  chColumns :: "DatabaseTableColumnChange list"
  chConstraints :: "DatabaseTableConstraintChange list"
  chCreateScript :: "string option"

record DatabaseSchemaChange =
  dcOldName :: "string option"
  dcNewName :: "string option"
  dcCollate :: "string option"

datatype SupportedDialect = Sqlite | Mysql | Postgres | Dolt

record DriverFlags =
  defaultSchema :: string
  optionalSchema :: bool
  supportBigInt :: bool
  supportCreateUpdateTable :: bool
  supportModifyColumn :: bool
  dialect :: SupportedDialect
  supportUseStatement :: "bool option"
  supportInsertReturning :: bool
  supportUpdateReturning :: bool
  supportRowId :: bool
  supportCreateUpdateDatabase :: bool
  supportCreateUpdateTrigger :: bool

end
