(* ===== verification/SqlText.thy ===== *)
theory SqlText
  imports DatabaseTypes
begin

text \<open>
  Escaping and reading SQL text: \<open>admin/src/drivers/sqlite/sql-helper.ts\<close>,
  \<open>admin/src/lib/bit-operation.ts\<close>, \<open>parseUserInput\<close> of \<open>admin/src/lib/export-helper.ts\<close>,
  \<open>admin/src/drivers/sql-helper.ts\<close> and the \<open>escapeId\<close> methods of the drivers.

  The interface \<open>quoting\<close> is what every generator of SQL text relies on: quoted text can be
  read back, so that no identifier and no string ends its own quotation.
\<close>

section \<open>Conversions\<close>

definition strip_leading :: "(char \<Rightarrow> bool) \<Rightarrow> string \<Rightarrow> string" where
  "strip_leading P s = (if s \<noteq> [] \<and> P (hd s) then tl s else s)"

definition strip_trailing :: "(char \<Rightarrow> bool) \<Rightarrow> string \<Rightarrow> string" where
  "strip_trailing P s = (if s \<noteq> [] \<and> P (last s) then butlast s else s)"

definition escapeIdentity :: "string \<Rightarrow> string" where
  "escapeIdentity str = CHR 0x22 # replace_char (CHR 0x22) [CHR 0x22, CHR 0x22] str @ [CHR 0x22]"

definition unescapeIdentity :: "string \<Rightarrow> string" where
  "unescapeIdentity str =
     (let r1 = strip_leading (\<lambda>c. c = CHR 0x22 \<or> c = CHR ''`'' \<or> c = CHR ''['') str;
          r2 = strip_trailing (\<lambda>c. c = CHR 0x22 \<or> c = CHR ''`'' \<or> c = CHR '']'') r1
      in replace_all [CHR 0x22, CHR 0x22] [CHR 0x22] r2)"

definition mysqlEscapeId :: "string \<Rightarrow> string" where
  "mysqlEscapeId ident = CHR ''`'' # replace_char (CHR ''`'') ''``'' ident @ ''`''"

definition escapeSqlString :: "string \<Rightarrow> string" where
  "escapeSqlString str = quote1 # replace_char quote1 [quote1, quote1] str @ [quote1]"

definition hex_digit :: "nat \<Rightarrow> char" where
  "hex_digit n = (if n < 10 then char_of (48 + n) else char_of (55 + n))"

definition byteToHex :: "byte \<Rightarrow> string" where
  "byteToHex b = [hex_digit (unat b div 16), hex_digit (unat b mod 16)]"

definition hex :: "byte list \<Rightarrow> string" where
  "hex buff = concat (map byteToHex buff)"

definition escapeSqlBinary :: "byte list \<Rightarrow> string" where
  "escapeSqlBinary v = CHR ''x'' # quote1 # hex v @ [quote1]"

text \<open>
  \<open>parseUserInput\<close>: one enclosing quotation mark on each side, then the escapes in the
  order of the source.
\<close>

definition parseUserInput :: "string \<Rightarrow> string" where
  "parseUserInput input =
     (let s0 = strip_trailing (\<lambda>c. c = CHR 0x22) (strip_leading (\<lambda>c. c = CHR 0x22) input);
          s1 = replace_all [CHR 0x5C, CHR ''n''] [newline] s0;
          s2 = replace_all [CHR 0x5C, CHR ''t''] [tab] s1;
          s3 = replace_all [CHR 0x5C, CHR 0x5C] [CHR 0x5C] s2
      in replace_all [CHR 0x5C, CHR ''r''] [carriage_return] s3)"

text \<open>
  \<open>String(v)\<close>, \<open>Number(v)\<close> and the conversion of an array element to a byte in
  \<open>Uint8Array.from\<close>; arrays come from JSON and hold no \<open>bigint\<close>.
\<close>

function (sequential) js_String :: "jsval \<Rightarrow> string" where
  "js_String Undefined = ''undefined''"
| "js_String Null = ''null''"
| "js_String (Boolean b) = (if b then ''true'' else ''false'')"
| "js_String (Num n) = num_str n"
| "js_String (BigInt i) = int_str i"
| "js_String (Str s) = s"
| "js_String (ArrayBuffer bs) = ''[object ArrayBuffer]''"
| "js_String (Uint8Array bs) = js_join '','' (map (\<lambda>b. nat_digits (unat b)) bs)"
| "js_String (JsArray vs) = js_join '','' (map (\<lambda>v. if nullish v then [] else js_String v) vs)"
| "js_String (JsObject kvs) = ''[object Object]''"
  by pat_completeness auto
termination
  by (relation "measure size") (auto simp: less_Suc_eq_le size_list_estimation')

fun js_ToNumber :: "jsval \<Rightarrow> jsnum" where
  "js_ToNumber Undefined = NaN"
| "js_ToNumber Null = Dec 0 0"
| "js_ToNumber (Boolean b) = Dec (if b then 1 else 0) 0"
| "js_ToNumber (Num n) = n"
| "js_ToNumber (BigInt i) = Dec i 0"
| "js_ToNumber v = js_Number (js_String v)"

definition to_uint8 :: "jsval \<Rightarrow> byte" where
  "to_uint8 v = (case js_ToNumber v of
       Dec m s \<Rightarrow> of_int (sgn m * (\<bar>m\<bar> div 10 ^ s))
     | _ \<Rightarrow> 0)"

fun escapeSqlValue :: "jsval \<Rightarrow> string \<Rightarrow> string" where
  "escapeSqlValue Undefined nullValue = ''DEFAULT''"
| "escapeSqlValue Null nullValue = parseUserInput nullValue"
| "escapeSqlValue (Str s) nullValue = escapeSqlString s"
| "escapeSqlValue (Num n) nullValue = num_str n"
| "escapeSqlValue (BigInt i) nullValue = int_str i"
| "escapeSqlValue (ArrayBuffer b) nullValue = escapeSqlBinary b"
| "escapeSqlValue (JsArray vs) nullValue = escapeSqlBinary (map to_uint8 vs)"
| "escapeSqlValue _ nullValue = ''Invalid Value''"

definition escapeValue :: "jsval \<Rightarrow> string" where
  "escapeValue v = escapeSqlValue v ''NULL''"

definition convertSqliteType :: "string option \<Rightarrow> ColumnType option" where
  "convertSqliteType ty =
     (if ty = Some [] then None
      else case ty of
        None \<Rightarrow> Some ColumnBLOB
      | Some t0 \<Rightarrow>
         (let t = js_upper t0 in
            if js_includes t ''CHAR'' then Some ColumnTEXT
            else if js_includes t ''TEXT'' then Some ColumnTEXT
            else if js_includes t ''CLOB'' then Some ColumnTEXT
            else if js_includes t ''STRING'' then Some ColumnTEXT
            else if js_includes t ''INT'' then Some ColumnINTEGER
            else if js_includes t ''NUMBER'' then Some ColumnINTEGER
            else if js_includes t ''BLOB'' then Some ColumnBLOB
            else if js_includes t ''REAL'' \<or> js_includes t ''DOUBLE'' \<or> js_includes t ''FLOAT''
              then Some ColumnREAL
            else Some ColumnTEXT))"

text \<open>
  \<open>escapeDelimitedValue\<close>.  The encloser is used as a regular expression by the source; the
  model covers enclosers without special characters, such as the quotation marks.
\<close>

definition escapeDelimitedValue ::
  "jsval \<Rightarrow> string \<Rightarrow> string \<Rightarrow> string \<Rightarrow> string \<Rightarrow> string" where
  "escapeDelimitedValue v fieldSeparator lineTerminator encloser nullValue =
     (if nullish v then nullValue
      else let stringValue = js_String v;
               needsEscaping = js_includes stringValue fieldSeparator
                             \<or> js_includes stringValue lineTerminator
                             \<or> js_includes stringValue encloser
           in if needsEscaping
              then encloser @ replace_all encloser (encloser @ encloser) stringValue @ encloser
              else stringValue)"

section \<open>Kinds of statements\<close>

datatype SQLStatementType =
    StSELECT | StINSERT | StUPDATE | StCREATE_TABLE | StALTER_TABLE | StDROP_TABLE
  | StCREATE_INDEX | StDROP_INDEX | StCREATE_VIEW | StDROP_VIEW | StCREATE_TRIGGER
  | StDROP_TRIGGER | StOTHER

fun collapse_spaces :: "string \<Rightarrow> string" where
  "collapse_spaces [] = []"
| "collapse_spaces (c # s) =
     (if is_space c
      then (case s of [] \<Rightarrow> '' '' | d # _ \<Rightarrow> if is_space d then collapse_spaces s
                                            else CHR '' '' # collapse_spaces s)
      else c # collapse_spaces s)"

definition getSQLStatementType :: "string \<Rightarrow> SQLStatementType" where
  "getSQLStatementType statement =
     (let t = replace_first ''IF NOT EXISTS'' [] (collapse_spaces (js_upper (js_trim statement))) in
        if js_starts_with t ''SELECT'' then StSELECT
        else if js_starts_with t ''INSERT'' then StINSERT
        else if js_starts_with t ''UPDATE'' then StUPDATE
        else if js_starts_with t ''CREATE TABLE'' then StCREATE_TABLE
        else if js_starts_with t ''ALTER TABLE'' then StALTER_TABLE
        else if js_starts_with t ''DROP TABLE'' then StDROP_TABLE
        else if js_starts_with t ''CREATE INDEX'' then StCREATE_INDEX
        else if js_starts_with t ''DROP INDEX'' then StDROP_INDEX
        else if js_starts_with t ''CREATE VIEW'' then StCREATE_VIEW
        else if js_starts_with t ''DROP VIEW'' then StDROP_VIEW
        else if js_starts_with t ''CREATE TRIGGER'' then StCREATE_TRIGGER
        else if js_starts_with t ''DROP TRIGGER'' then StDROP_TRIGGER
        else StOTHER)"

section \<open>Reading quoted text back\<close>

text \<open>
  The lexical rule of SQL for quoted text: it starts with the quotation mark, a doubled mark
  stands for one, and a single mark ends it.  \<open>read_quoted q s\<close> gives the text and the rest.
\<close>

fun read_body :: "char \<Rightarrow> string \<Rightarrow> (string \<times> string) option" where
  "read_body q [] = None"
| "read_body q [c] = (if c = q then Some ([], []) else None)"
| "read_body q (c # d # s) =
     (if c = q
      then if d = q then map_option (\<lambda>(t, r). (q # t, r)) (read_body q s) else Some ([], d # s)
      else map_option (\<lambda>(t, r). (c # t, r)) (read_body q (d # s)))"

definition read_quoted :: "char \<Rightarrow> string \<Rightarrow> (string \<times> string) option" where
  "read_quoted q s = (case s of [] \<Rightarrow> None | c # t \<Rightarrow> if c = q then read_body q t else None)"

definition closes :: "char \<Rightarrow> string \<Rightarrow> bool" where
  "closes q rest = (rest = [] \<or> hd rest \<noteq> q)"

lemma closes_simps [simp]: "closes q []" "closes q (c # s) \<longleftrightarrow> c \<noteq> q"
  by (simp_all add: closes_def)

lemma read_body_doubled:
  "closes q rest \<Longrightarrow> read_body q (replace_char q [q, q] s @ q # rest) = Some (s, rest)"
proof (induction s)
  case Nil
  then show ?case by (cases rest) auto
next
  case (Cons c s)
  show ?case
  proof (cases "c = q")
    case True
    with Cons show ?thesis by simp
  next
    case False
    obtain d u where "replace_char q [q, q] s @ q # rest = d # u"
      by (cases "replace_char q [q, q] s") auto
    with Cons False show ?thesis by simp
  qed
qed

locale quoting =
  fixes escape :: "string \<Rightarrow> string"
    and mark :: char
  assumes read_back: "closes mark rest \<Longrightarrow> read_quoted mark (escape s @ rest) = Some (s, rest)"
begin

lemma read_alone: "read_quoted mark (escape s) = Some (s, [])"
  using read_back [of "[]" s] by simp

lemma escape_inj: "escape s = escape t \<longleftrightarrow> s = t"
  by (metis option.inject prod.inject read_alone)

lemma escape_not_Nil: "escape s \<noteq> []"
  using read_alone [of s] by (auto simp: read_quoted_def)

lemma escape_hd: "hd (escape s) = mark"
  using read_alone [of s] by (auto simp: read_quoted_def split: list.splits if_splits)

lemma escape_prefix_free:
  "escape s @ u = escape t @ v \<Longrightarrow> closes mark u \<Longrightarrow> closes mark v \<Longrightarrow> s = t \<and> u = v"
  by (metis option.inject prod.inject read_back)

end

interpretation sqlite_id: quoting escapeIdentity "CHR 0x22"
  by unfold_locales (simp add: escapeIdentity_def read_quoted_def read_body_doubled)

interpretation mysql_id: quoting mysqlEscapeId "CHR ''`''"
  by unfold_locales (simp add: mysqlEscapeId_def read_quoted_def read_body_doubled)

interpretation sql_string: quoting escapeSqlString quote1
  by unfold_locales (simp add: escapeSqlString_def read_quoted_def read_body_doubled)

end
