(* ===== verification/SqlCursor.thy ===== *)
theory SqlCursor
  imports SqlText
begin

text \<open>
  The class \<open>CursorV2\<close> of \<open>admin/src/drivers/sqlite/sql-parse-table.ts\<close>: a pointer into the
  tokens of a statement.  A method that moves the pointer returns the new cursor.  The
  tokens come from \<open>tokenizeSql\<close> of \<open>@outerbase/sdk-transform\<close>, which is not part of the
  repository.

  The abstraction \<open>view\<close> is the list of tokens from the pointer on that are not white
  space; the interface \<open>token_stream\<close> says that the cursor behaves as this list.
\<close>

section \<open>The class\<close>

datatype token_type = WHITESPACE | STRING | OPERATOR | NUMBER | OtherType string

record token =
  tkType :: token_type
  tkValue :: string

record CursorV2 =
  tokens :: "token list"
  ptr :: nat

definition is_ws :: "token \<Rightarrow> bool" where
  "is_ws t = (tkType t = WHITESPACE)"

definition new_cursor :: "token list \<Rightarrow> CursorV2" where
  "new_cursor ts = \<lparr>tokens = rev (dropWhile is_ws (rev (dropWhile is_ws ts))), ptr = 0\<rparr>"

definition getPointer :: "CursorV2 \<Rightarrow> nat" where
  "getPointer c = ptr c"

definition tokens_str :: "token list \<Rightarrow> string" where
  "tokens_str ts = concat (map tkValue ts)"

definition toStringRange :: "CursorV2 \<Rightarrow> nat \<Rightarrow> nat \<Rightarrow> string" where
  "toStringRange c start stop = tokens_str (drop start (take stop (tokens c)))"

definition cend :: "CursorV2 \<Rightarrow> bool" where
  "cend c = (length (tokens c) \<le> ptr c)"

definition cread :: "CursorV2 \<Rightarrow> string" where
  "cread c = (if cend c then [] else tkValue (tokens c ! ptr c))"

definition currentType :: "CursorV2 \<Rightarrow> token_type result" where
  "currentType c =
     (if cend c then Inl (TypeError ''Cannot read properties of undefined'')
      else Inr (tkType (tokens c ! ptr c)))"

text \<open>The loop of \<open>next\<close>: one step forward, then over the white space.\<close>

definition cnext :: "CursorV2 \<Rightarrow> CursorV2" where
  "cnext c = c\<lparr>ptr := Suc (ptr c) + length (takeWhile is_ws (drop (Suc (ptr c)) (tokens c)))\<rparr>"

definition cmatch :: "CursorV2 \<Rightarrow> string \<Rightarrow> bool" where
  "cmatch c v = (if cend c then False else js_lower (cread c) = js_lower v)"

definition matchTokens :: "CursorV2 \<Rightarrow> string list \<Rightarrow> bool" where
  "matchTokens c vs = list_ex (\<lambda>v. js_lower (cread c) = js_lower v) vs"

definition cursor_str :: "CursorV2 \<Rightarrow> string" where
  "cursor_str c = tokens_str (tokens c)"

definition toStringWithParen :: "CursorV2 \<Rightarrow> string" where
  "toStringWithParen c = ''('' @ cursor_str c @ '')''"

lemma ptr_cnext [progress]: "ptr c < ptr (cnext c)"
  by (simp add: cnext_def)

lemma tokens_cnext [simp]: "tokens (cnext c) = tokens c"
  by (simp add: cnext_def)

definition left :: "CursorV2 \<Rightarrow> nat" where
  "left c = length (tokens c) - ptr c"

lemma left_cnext: "\<not> cend c \<Longrightarrow> left (cnext c) < left c"
  using ptr_cnext [of c] by (simp add: left_def cend_def)

lemma left_cnext_le [progress]: "left (cnext c) \<le> left c"
  using ptr_cnext [of c] by (simp add: left_def)

lemma cmatch_not_end: "cmatch c v \<Longrightarrow> \<not> cend c"
  by (auto simp: cmatch_def)

text \<open>The loop of \<open>consumeParen\<close>: \<open>counter\<close> brackets are open.\<close>

definition depth_step :: "string \<Rightarrow> nat \<Rightarrow> nat" where
  "depth_step v counter =
     (let k = (if v = ''('' then Suc counter else counter) in if v = '')'' then k - 1 else k)"

lemma depth_step_simps [simp]:
  "depth_step ''('' k = Suc k"
  "depth_step '')'' k = k - 1"
  "v \<noteq> ''('' \<Longrightarrow> v \<noteq> '')'' \<Longrightarrow> depth_step v k = k"
  by (simp_all add: depth_step_def)

function find_close :: "CursorV2 \<Rightarrow> nat \<Rightarrow> CursorV2 result" where
  "find_close c counter =
     (if cend (cnext c) then Inl (JsError ''Expecting closing paren'')
      else if 0 < depth_step (cread (cnext c)) counter
           then find_close (cnext c) (depth_step (cread (cnext c)) counter)
      else Inr (cnext c))"
  by pat_completeness auto
termination
proof (relation "measure (\<lambda>(c, k). left c)", goal_cases)
  case 1
  then show ?case by simp
next
  case (2 c counter)
  then show ?case
    using ptr_cnext [of c] by (simp add: left_def cend_def)
qed

declare find_close.simps [simp del]

definition consumeParen :: "CursorV2 \<Rightarrow> (CursorV2 \<times> CursorV2) result" where
  "consumeParen c =
     (if cread c \<noteq> ''('' then Inl (JsError ''Expecting ('')
      else rbind (find_close c 1) (\<lambda>c1.
        Inr (new_cursor (drop (Suc (ptr c)) (take (ptr c1) (tokens c))), cnext c1)))"

definition consume :: "CursorV2 \<Rightarrow> string \<times> CursorV2" where
  "consume c = (cread c, cnext c)"

definition consumeIdentifier :: "CursorV2 \<Rightarrow> string \<times> CursorV2" where
  "consumeIdentifier c = (unescapeIdentity (cread c), cnext c)"

definition consumeBlock :: "CursorV2 \<Rightarrow> (string \<times> CursorV2) result" where
  "consumeBlock c =
     (if cmatch c ''('' then rbind (consumeParen c) (\<lambda>(p, c1). Inr (cursor_str p, c1))
      else Inr (consume c))"

definition expectToken :: "string \<Rightarrow> CursorV2 \<Rightarrow> CursorV2 result" where
  "expectToken v c = (if cmatch c v then Inr (cnext c) else Inl (JsError (''Expecting '' @ v)))"

definition expectTokenOptional :: "string \<Rightarrow> CursorV2 \<Rightarrow> CursorV2" where
  "expectTokenOptional v c = (if cmatch c v then cnext c else c)"

fun expectTokens :: "string list \<Rightarrow> CursorV2 \<Rightarrow> CursorV2 result" where
  "expectTokens [] c = Inr c"
| "expectTokens (v # vs) c = rbind (expectToken v c) (expectTokens vs)"

fun expectTokensOptional :: "string list \<Rightarrow> CursorV2 \<Rightarrow> CursorV2 result" where
  "expectTokensOptional [] c = Inr c"
| "expectTokensOptional (v # vs) c =
     (if cread c = v then expectTokens vs (cnext c) else Inr c)"

section \<open>Progress\<close>

lemma find_close_progress:
  "find_close c k = Inr c1 \<Longrightarrow> tokens c1 = tokens c \<and> ptr c < ptr c1"
proof (induction c k rule: find_close.induct)
  case (1 c k)
  have step: "ptr c < ptr (cnext c)" by (rule ptr_cnext)
  show ?case
  proof (cases "\<not> cend (cnext c) \<and> 0 < depth_step (cread (cnext c)) k")
    case True
    with "1.prems" have "find_close (cnext c) (depth_step (cread (cnext c)) k) = Inr c1"
      by (simp add: find_close.simps [of c k])
    with True "1.IH" have "tokens c1 = tokens c \<and> ptr (cnext c) < ptr c1"
      by simp
    with step show ?thesis by simp
  next
    case False
    with "1.prems" have "c1 = cnext c"
      by (auto simp: find_close.simps [of c k] split: if_splits)
    with step show ?thesis by simp
  qed
qed

lemma consumeParen_progress:
  assumes "consumeParen c = Inr (p, c1)"
  shows "tokens c1 = tokens c \<and> ptr c < ptr c1"
proof -
  obtain c2 where "find_close c 1 = Inr c2" "c1 = cnext c2"
    using assms by (auto simp: consumeParen_def rbind_Inr_iff split: if_splits)
  then show ?thesis
    using find_close_progress [of c 1 c2] ptr_cnext [of c2] by simp
qed

lemma consumeParen_left:
  assumes "consumeParen c = Inr (p, c1)"
  shows "left c1 \<le> left c"
  using consumeParen_progress [OF assms] by (simp add: left_def diff_le_mono2)

lemma length_new_cursor: "length (tokens (new_cursor ts)) \<le> length ts"
proof -
  have "length (dropWhile is_ws (rev (dropWhile is_ws ts))) \<le> length (dropWhile is_ws ts)"
    by (metis length_dropWhile_le length_rev)
  also have "\<dots> \<le> length ts" by (rule length_dropWhile_le)
  finally show ?thesis by (simp add: new_cursor_def)
qed

section \<open>The stream of significant tokens\<close>

definition view :: "CursorV2 \<Rightarrow> token list" where
  "view c = filter (\<lambda>t. \<not> is_ws t) (drop (ptr c) (tokens c))"

definition cursor_ok :: "CursorV2 \<Rightarrow> bool" where
  "cursor_ok c = (cend c \<or> \<not> is_ws (tokens c ! ptr c))"

lemma view_at:
  assumes "cursor_ok c" and "\<not> cend c"
  shows "view c = tokens c ! ptr c # filter (\<lambda>t. \<not> is_ws t) (drop (Suc (ptr c)) (tokens c))"
proof -
  from assms have lt: "ptr c < length (tokens c)" and sig: "\<not> is_ws (tokens c ! ptr c)"
    by (auto simp: cursor_ok_def cend_def)
  have "drop (ptr c) (tokens c) = tokens c ! ptr c # drop (Suc (ptr c)) (tokens c)"
    using lt by (rule Cons_nth_drop_Suc [symmetric])
  with sig show ?thesis by (simp only: view_def filter.simps if_True simp_thms)
qed

lemma filter_skip: "filter (\<lambda>t. \<not> is_ws t) (drop (length (takeWhile is_ws ts)) ts)
    = filter (\<lambda>t. \<not> is_ws t) ts"
  by (induction ts) auto

lemma view_cnext: "view (cnext c) = filter (\<lambda>t. \<not> is_ws t) (drop (Suc (ptr c)) (tokens c))"
  using filter_skip [of "drop (Suc (ptr c)) (tokens c)"]
  by (simp add: view_def cnext_def add.commute)

lemma cursor_ok_cnext [simp]: "cursor_ok (cnext c)"
proof -
  let ?ts = "drop (Suc (ptr c)) (tokens c)"
  have *: "dropWhile is_ws ?ts = [] \<or> \<not> is_ws (hd (dropWhile is_ws ?ts))"
    using hd_dropWhile by blast
  have "dropWhile is_ws ?ts = drop (ptr (cnext c)) (tokens c)"
    by (simp add: dropWhile_eq_drop cnext_def add.commute)
  with * show ?thesis
    by (auto simp: cursor_ok_def cend_def hd_drop_conv_nth not_le)
qed

lemma view_end: "cursor_ok c \<Longrightarrow> cend c \<longleftrightarrow> view c = []"
  by (cases "cend c") (simp add: view_def cend_def, simp add: view_at)

locale token_stream =
  fixes ok :: "'c \<Rightarrow> bool"
    and stream :: "'c \<Rightarrow> token list"
    and rd :: "'c \<Rightarrow> string"
    and nxt :: "'c \<Rightarrow> 'c"
    and at_end :: "'c \<Rightarrow> bool"
  assumes ok_nxt: "ok c \<Longrightarrow> ok (nxt c)"
    and stream_nxt: "ok c \<Longrightarrow> stream (nxt c) = tl (stream c)"
    and rd_stream: "ok c \<Longrightarrow> rd c = (case stream c of [] \<Rightarrow> [] | t # _ \<Rightarrow> tkValue t)"
    and at_end_stream: "ok c \<Longrightarrow> at_end c \<longleftrightarrow> stream c = []"
begin

lemma ok_iterate: "ok c \<Longrightarrow> ok ((nxt ^^ n) c)"
  by (induction n) (auto simp: ok_nxt)

lemma stream_iterate: "ok c \<Longrightarrow> stream ((nxt ^^ n) c) = drop n (stream c)"
  by (induction n) (auto simp: stream_nxt ok_iterate tl_drop drop_Suc)

lemma rd_iterate: "ok c \<Longrightarrow> n < length (stream c) \<Longrightarrow> rd ((nxt ^^ n) c) = tkValue (stream c ! n)"
  by (simp add: rd_stream ok_iterate stream_iterate flip: Cons_nth_drop_Suc)

lemma at_end_iterate: "ok c \<Longrightarrow> at_end ((nxt ^^ n) c) \<longleftrightarrow> length (stream c) \<le> n"
  by (simp add: at_end_stream ok_iterate stream_iterate)

end

interpretation cursor: token_stream cursor_ok view cread cnext cend
proof
  fix c
  assume ok: "cursor_ok c"
  show "cursor_ok (cnext c)" by simp
  show "cend c \<longleftrightarrow> view c = []" using ok by (rule view_end)
  show "view (cnext c) = tl (view c)"
  proof (cases "cend c")
    case True
    then have "view (cnext c) = []" "view c = []"
      by (simp_all add: view_cnext view_def [of c] cend_def)
    then show ?thesis by simp
  next
    case False
    then show ?thesis using ok by (simp add: view_cnext view_at)
  qed
  show "cread c = (case view c of [] \<Rightarrow> [] | t # _ \<Rightarrow> tkValue t)"
    using ok by (cases "cend c") (auto simp: cread_def view_at view_end)
qed

lemma cmatch_view:
  "cursor_ok c \<Longrightarrow> cmatch c v \<longleftrightarrow>
     (case view c of [] \<Rightarrow> False | t # _ \<Rightarrow> js_lower (tkValue t) = js_lower v)"
  by (simp add: cmatch_def cursor.rd_stream view_end split: list.splits)

lemma currentType_view:
  "cursor_ok c \<Longrightarrow> view c = t # ts \<Longrightarrow> currentType c = Inr (tkType t)"
  by (cases "cend c") (auto simp: currentType_def view_at view_end)

lemma cursor_ok_new [simp]: "cursor_ok (new_cursor ts)"
proof -
  have front: "dropWhile is_ws ts = [] \<or> \<not> is_ws (hd (dropWhile is_ws ts))"
    using hd_dropWhile by blast
  let ?d = "dropWhile is_ws ts"
  have "rev (takeWhile is_ws (rev ?d) @ dropWhile is_ws (rev ?d)) = ?d"
    by (simp only: takeWhile_dropWhile_id rev_rev_ident)
  then obtain us where us: "?d = tokens (new_cursor ts) @ us"
    by (metis CursorV2.select_convs(1) new_cursor_def rev_append)
  show ?thesis
  proof (cases "tokens (new_cursor ts)")
    case Nil
    then show ?thesis by (simp add: cursor_ok_def cend_def)
  next
    case (Cons t u)
    with us front have "\<not> is_ws t" by auto
    with Cons show ?thesis by (simp add: cursor_ok_def new_cursor_def)
  qed
qed

lemma filter_dropWhile_ws: "filter (\<lambda>t. \<not> is_ws t) (dropWhile is_ws ts) = filter (\<lambda>t. \<not> is_ws t) ts"
  by (induction ts) auto

lemma view_new_cursor [simp]: "view (new_cursor ts) = filter (\<lambda>t. \<not> is_ws t) ts"
  by (simp add: view_def new_cursor_def filter_dropWhile_ws flip: rev_filter)


section \<open>The matching bracket\<close>

text \<open>
  \<open>open_after k ts\<close> reads \<open>ts\<close> with \<open>k\<close> open brackets: the number open at its end, or
  \<^term>\<open>None\<close> when all are closed on the way.
\<close>

fun open_after :: "nat \<Rightarrow> token list \<Rightarrow> nat option" where
  "open_after k [] = Some k"
| "open_after k (t # ts) =
     (if 0 < depth_step (tkValue t) k then open_after (depth_step (tkValue t) k) ts else None)"

definition balanced :: "token list \<Rightarrow> bool" where
  "balanced ts = (open_after 1 ts = Some 1)"

lemma find_close_view:
  "cursor_ok c \<Longrightarrow> view c = t # inner @ cl # rest \<Longrightarrow> tkValue cl = '')'' \<Longrightarrow>
     open_after k inner = Some 1 \<Longrightarrow>
     \<exists>c1. find_close c k = Inr c1 \<and> cursor_ok c1 \<and> view c1 = cl # rest"
proof (induction inner arbitrary: c t k)
  case Nil
  have ok1: "cursor_ok (cnext c)" by simp
  have v1: "view (cnext c) = cl # rest"
    using Nil.prems cursor.stream_nxt [of c] by simp
  have e1: "\<not> cend (cnext c)"
    using v1 view_end [OF ok1] by simp
  have r1: "cread (cnext c) = '')''"
    using v1 Nil.prems(3) cursor.rd_stream [OF ok1] by simp
  from Nil.prems(4) have "k = 1" by simp
  with e1 r1 have "find_close c k = Inr (cnext c)"
    by (simp add: find_close.simps [of c "Suc 0"])
  with ok1 v1 show ?case by blast
next
  case (Cons u inner)
  have ok1: "cursor_ok (cnext c)" by simp
  have v1: "view (cnext c) = u # inner @ cl # rest"
    using Cons.prems cursor.stream_nxt [of c] by simp
  have e1: "\<not> cend (cnext c)"
    using v1 view_end [OF ok1] by simp
  have r1: "cread (cnext c) = tkValue u"
    using v1 cursor.rd_stream [OF ok1] by simp
  from Cons.prems(4) have pos: "0 < depth_step (tkValue u) k"
    and opn: "open_after (depth_step (tkValue u) k) inner = Some 1"
    by (simp_all split: if_splits)
  obtain c1 where "find_close (cnext c) (depth_step (tkValue u) k) = Inr c1"
    "cursor_ok c1" "view c1 = cl # rest"
    using Cons.IH [OF ok1 v1 Cons.prems(3) opn] by blast
  with e1 r1 pos show ?case
    by (simp add: find_close.simps [of c k])
qed

lemma view_split:
  assumes "tokens c1 = tokens c" and "ptr c \<le> ptr c1"
  shows "view c = filter (\<lambda>t. \<not> is_ws t) (drop (ptr c) (take (ptr c1) (tokens c))) @ view c1"
proof -
  have "drop (ptr c) (tokens c)
      = drop (ptr c) (take (ptr c1) (tokens c)) @ drop (ptr c1) (tokens c)"
    using assms(2) by (metis append_take_drop_id drop_append drop_drop drop_take
        le_add_diff_inverse2 take_drop)
  then show ?thesis using assms(1) by (simp add: view_def)
qed

lemma consumeParen_view:
  assumes "cursor_ok c" and "view c = op # inner @ cl # rest"
    and "tkValue op = ''(''" and "tkValue cl = '')''" and "balanced inner"
  shows "\<exists>p c1. consumeParen c = Inr (p, c1) \<and> cursor_ok p \<and> view p = inner
           \<and> cursor_ok c1 \<and> view c1 = rest"
proof -
  obtain c1 where c1: "find_close c 1 = Inr c1" "cursor_ok c1" "view c1 = cl # rest"
    using find_close_view [OF assms(1,2,4)] assms(5) by (auto simp: balanced_def)
  have tk: "tokens c1 = tokens c" and lt: "ptr c < ptr c1"
    using find_close_progress [OF c1(1)] by auto
  let ?seg = "drop (Suc (ptr c)) (take (ptr c1) (tokens c))"
  have nend: "\<not> cend c" using view_end [OF assms(1)] assms(2) by simp
  have "view c = tokens c ! ptr c # filter (\<lambda>t. \<not> is_ws t) ?seg @ view c1"
    using view_split [of c1 "c\<lparr>ptr := Suc (ptr c)\<rparr>"] tk lt view_at [OF assms(1) nend]
    by (simp add: view_def)
  with assms(2) c1(3) have seg: "filter (\<lambda>t. \<not> is_ws t) ?seg = inner" by simp
  have rd: "cread c = ''(''"
    using cursor.rd_stream [OF assms(1)] assms(2,3) by simp
  have "consumeParen c = Inr (new_cursor ?seg, cnext c1)"
    using rd c1(1) by (simp add: consumeParen_def)
  moreover have "view (cnext c1) = rest"
    using cursor.stream_nxt [OF c1(2)] c1(3) by simp
  ultimately show ?thesis using seg by simp
qed

end
