(* ===== verification/ParseTable.thy ===== *)
theory ParseTable
  imports SqlCursor
begin

text \<open>
  The parser of \<open>CREATE TABLE\<close> scripts, \<open>admin/src/drivers/sqlite/sql-parse-table.ts\<close>, one
  definition per function.  Where the source builds \<open>{...a, ...parse(cursor)}\<close> the model
  uses \<^const>\<open>spread_opt\<close>; where it throws, the result is \<^const>\<open>Inl\<close>.  Every recursion ends
  because the pointer moves forward (\<^const>\<open>left\<close> gets smaller).
\<close>

section \<open>Constraints\<close>

definition parseConstraintConflict :: "CursorV2 \<Rightarrow> string option \<times> CursorV2" where
  "parseConstraintConflict c =
     (if \<not> cmatch c ''ON'' then (None, c)
      else if \<not> cmatch (cnext c) ''CONFLICT'' then (None, cnext c)
      else let c2 = cnext (cnext c)
           in if \<not> cend c2 then (Some (js_upper (cread c2)), cnext c2) else (None, c2))"

function parseColumnList :: "CursorV2 \<Rightarrow> string list \<times> CursorV2" where
  "parseColumnList c =
     (if cend c then ([], c)
      else if cmatch (cnext c) '',''
           then (unescapeIdentity (cread c) # fst (parseColumnList (cnext (cnext c))),
                 snd (parseColumnList (cnext (cnext c))))
      else ([unescapeIdentity (cread c)], cnext c))"
  by pat_completeness auto
termination
  by (relation "measure left") (auto intro: le_less_trans [OF left_cnext_le] left_cnext)

declare parseColumnList.simps [simp del]

text \<open>The value of a \<open>DEFAULT\<close> clause; the cursor is behind the keyword.\<close>

definition parseDefault ::
  "CursorV2 \<Rightarrow> ((jsval option \<times> string option) \<times> CursorV2) result" where
  "parseDefault c =
     rbind (currentType c) (\<lambda>ty.
       if ty = STRING then Inr ((Some (Str (butlast (tl (cread c)))), None), cnext c)
       else if ty = OPERATOR then
         (if cmatch c ''+'' then
            Inr ((Some (Num (js_Number (cread (cnext c)))), None), cnext (cnext c))
          else if cmatch c ''-'' then
            Inr ((Some (Num (num_neg (js_Number (cread (cnext c))))), None), cnext (cnext c))
          else Inr ((None, None), c))
       else if ty = NUMBER then Inr ((Some (Num (js_Number (cread c))), None), cnext c)
       else if cmatch c ''('' then
         rbind (consumeParen c) (\<lambda>(p, c1). Inr ((None, Some (cursor_str p)), c1))
       else if cmatch c ''current_timestamp'' \<or> cmatch c ''current_time''
               \<or> cmatch c ''current_date'' \<or> cmatch c ''true'' \<or> cmatch c ''false''
               \<or> cmatch c ''null''
         then Inr ((None, Some (cread c)), cnext c)
       else Inr ((None, None), c))"

text \<open>The loop of \<open>REFERENCES\<close> that looks for the bracket.\<close>

function skip_to_paren :: "CursorV2 \<Rightarrow> CursorV2" where
  "skip_to_paren c =
     (if \<not> cend c \<and> \<not> cmatch c ''('' \<and> \<not> cmatch c '','' then skip_to_paren (cnext c) else c)"
  by pat_completeness auto
termination
  by (relation "measure left") (auto intro: left_cnext)

declare skip_to_paren.simps [simp del]

text \<open>An optional bracketed list of columns.\<close>

definition paren_columns :: "CursorV2 \<Rightarrow> (string list \<times> CursorV2) result" where
  "paren_columns c = rbind (consumeParen c) (\<lambda>(p, c1). Inr (fst (parseColumnList p), c1))"

lemma left_conflict [progress]: "left (snd (parseConstraintConflict c)) \<le> left c"
  using left_cnext_le [of c] left_cnext_le [of "cnext c"] left_cnext_le [of "cnext (cnext c)"]
  by (auto simp: parseConstraintConflict_def Let_def)

lemma left_paren_columns: "paren_columns c = Inr (cs, c1) \<Longrightarrow> left c1 \<le> left c"
  by (auto simp: paren_columns_def rbind_Inr_iff dest: consumeParen_left)

lemma left_parseDefault: "parseDefault c = Inr (v, c1) \<Longrightarrow> left c1 \<le> left c"
  using left_cnext_le [of c] left_cnext_le [of "cnext c"]
  by (auto simp: parseDefault_def rbind_Inr_iff split: if_splits dest: consumeParen_left)

lemma left_skip_to_paren [progress]: "left (skip_to_paren c) \<le> left c"
proof (induction c rule: skip_to_paren.induct)
  case (1 c)
  then show ?case
    using left_cnext_le [of c] by (subst skip_to_paren.simps) fastforce
qed

lemma left_consumeBlock: "consumeBlock c = Inr (s, c1) \<Longrightarrow> left c1 \<le> left c"
  using left_cnext_le [of c]
  by (auto simp: consumeBlock_def consume_def rbind_Inr_iff split: if_splits
      dest: consumeParen_left)

text \<open>
  The clauses of \<open>parseColumnConstraint\<close> up to their recursive call: what the clause sets,
  and the cursor behind it.
\<close>

definition optional_columns :: "bool \<Rightarrow> CursorV2 \<Rightarrow> (string list option \<times> CursorV2) result" where
  "optional_columns b c =
     (if b then rbind (paren_columns c) (\<lambda>(cs, c1). Inr (Some cs, c1)) else Inr (None, c))"

definition primaryOrder :: "CursorV2 \<Rightarrow> SqlOrder option \<times> CursorV2" where
  "primaryOrder c = (if cmatch c ''ASC'' then (Some ASC, cnext c)
                     else if cmatch c ''DESC'' then (Some DESC, cnext c) else (None, c))"

definition primaryAuto :: "CursorV2 \<Rightarrow> bool \<times> CursorV2" where
  "primaryAuto c = (if cmatch c ''AUTOINCREMENT'' then (True, cnext c) else (False, c))"

definition primaryClause ::
  "CursorV2 \<Rightarrow> (DatabaseTableColumnConstraint \<times> CursorV2) result" where
  "primaryClause c0 =
     (let c = cnext c0 in
      if \<not> cmatch c ''KEY'' then Inl (JsError ''PRIMARY must follow by KEY'')
      else rbind (optional_columns (cmatch (cnext c) ''('') (cnext c)) (\<lambda>(cols, c1).
        let (ord, c2) = primaryOrder c1;
            (conflict, c3) = parseConstraintConflict c2;
            (auto, c4) = primaryAuto c3
        in Inr (no_constraint\<lparr>primaryKey := Is True, primaryKeyOrder := field_of ord,
                  primaryColumns := field_of cols, autoIncrement := Is auto,
                  primaryKeyConflict := field_of conflict\<rparr>, c4)))"

definition notClause :: "CursorV2 \<Rightarrow> (DatabaseTableColumnConstraint \<times> CursorV2) result" where
  "notClause c0 =
     (let c = cnext c0 in
      if \<not> cmatch c ''NULL'' then Inl (JsError ''NOT should follow by NULL'')
      else let (conflict, c1) = parseConstraintConflict (cnext c)
           in Inr (no_constraint\<lparr>notNull := Is True, notNullConflict := field_of conflict\<rparr>, c1))"

definition uniqueClause ::
  "CursorV2 \<Rightarrow> (DatabaseTableColumnConstraint \<times> CursorV2) result" where
  "uniqueClause c0 =
     (let c = cnext c0 in
      rbind (optional_columns (cread c = ''('') c) (\<lambda>(cols, c1).
        let (conflict, c2) = parseConstraintConflict c1
        in Inr (no_constraint\<lparr>unique := Is True, uniqueConflict := field_of conflict,
                  uniqueColumns := field_of cols\<rparr>, c2)))"

definition defaultClause ::
  "CursorV2 \<Rightarrow> (DatabaseTableColumnConstraint \<times> CursorV2) result" where
  "defaultClause c0 =
     rbind (parseDefault (cnext c0)) (\<lambda>((dv, de), c1).
       Inr (no_constraint\<lparr>defaultValue := field_of dv, defaultExpression := field_of de\<rparr>, c1))"

definition checkClause :: "CursorV2 \<Rightarrow> (DatabaseTableColumnConstraint \<times> CursorV2) result" where
  "checkClause c0 =
     Inr (no_constraint\<lparr>checkExpression := Is (cread (cnext c0))\<rparr>, cnext (cnext c0))"

definition collateClause ::
  "CursorV2 \<Rightarrow> (DatabaseTableColumnConstraint \<times> CursorV2) result" where
  "collateClause c0 = Inr (no_constraint\<lparr>collate := Is (cread (cnext c0))\<rparr>, cnext (cnext c0))"

definition referencesClause ::
  "string \<Rightarrow> CursorV2 \<Rightarrow> (DatabaseTableColumnConstraint \<times> CursorV2) result" where
  "referencesClause schemaName c0 =
     (let (tableName, c1) = consumeIdentifier (cnext c0);
          c2 = skip_to_paren c1
      in rbind (if cmatch c2 ''('' then paren_columns c2 else Inr ([], c2)) (\<lambda>(cols, c3).
           Inr (no_constraint\<lparr>foreignKey := Is
                  \<lparr>foreignSchemaName = Some schemaName, foreignTableName = Some tableName,
                   foreignColumns = Some cols, fkColumns = None\<rparr>\<rparr>, c3)))"

definition generatedClause ::
  "CursorV2 \<Rightarrow> (DatabaseTableColumnConstraint \<times> CursorV2) result" where
  "generatedClause c0 =
     (let c1 = cnext c0 in
      if \<not> cmatch c1 ''ALWAYS'' then Inl (JsError ''GENERATED should follow by ALWAYS'')
      else let c2 = cnext c1 in
      if \<not> cmatch c2 ''AS'' then Inl (JsError ''GENERATED ALWAYS should follow by AS'')
      else rbind (consumeBlock (cnext c2)) (\<lambda>(expr, c3).
        let c4 = cnext c3
        in Inr (no_constraint\<lparr>
             generatedType := Is (if cmatch c4 ''STORED'' then STORED else VIRTUAL),
             generatedExpression := Is expr\<rparr>, c4)))"

definition foreignClause :: "CursorV2 \<Rightarrow> (string list \<times> CursorV2) result" where
  "foreignClause c0 =
     (let c = cnext c0 in
      if \<not> cmatch c ''KEY'' then Inl (JsError ''FOREIGN should follow by KEY'')
      else paren_columns (cnext c))"

lemma left_next2: "left (cnext (cnext c)) \<le> left c"
  using left_cnext_le [of c] left_cnext_le [of "cnext c"] by simp

lemmas clause_defs = primaryClause_def notClause_def uniqueClause_def defaultClause_def
  checkClause_def collateClause_def referencesClause_def generatedClause_def foreignClause_def

lemma left_optional_columns: "optional_columns b c = Inr (v, c1) \<Longrightarrow> left c1 \<le> left c"
  by (auto simp: optional_columns_def rbind_Inr_iff split: if_splits dest!: left_paren_columns)

lemma left_primaryOrder: "left (snd (primaryOrder c)) \<le> left c"
  by (simp add: primaryOrder_def left_cnext_le)

lemma left_primaryAuto: "left (snd (primaryAuto c)) \<le> left c"
  by (simp add: primaryAuto_def left_cnext_le)

lemma left_primary:
  assumes "primaryClause c0 = Inr (k, c1)"
  shows "left c1 \<le> left (cnext c0)"
proof -
  let ?q = "\<lambda>c. snd (parseConstraintConflict (snd (primaryOrder c)))"
  obtain cols c where c: "optional_columns (cmatch (cnext (cnext c0)) ''('') (cnext (cnext c0))
      = Inr (cols, c)" and eq: "c1 = snd (primaryAuto (?q c))"
    using assms by (auto simp: primaryClause_def Let_def rbind_Inr_iff split_beta split: if_splits)
  have "left c1 \<le> left (?q c)" unfolding eq by (rule left_primaryAuto)
  also have "\<dots> \<le> left (snd (primaryOrder c))" by (rule left_conflict)
  also have "\<dots> \<le> left c" by (rule left_primaryOrder)
  also have "\<dots> \<le> left (cnext (cnext c0))" using c by (rule left_optional_columns)
  also have "\<dots> \<le> left (cnext c0)" by (rule left_cnext_le)
  finally show ?thesis .
qed

lemma left_not: "notClause c0 = Inr (k, c1) \<Longrightarrow> left c1 \<le> left (cnext c0)"
  using left_conflict [of "cnext (cnext c0)"] left_cnext_le [of "cnext c0"]
  by (auto simp: notClause_def Let_def split_beta split: if_splits)

lemma left_unique:
  assumes "uniqueClause c0 = Inr (k, c1)"
  shows "left c1 \<le> left (cnext c0)"
proof -
  obtain cols c where c: "optional_columns (cread (cnext c0) = ''('') (cnext c0) = Inr (cols, c)"
    and eq: "c1 = snd (parseConstraintConflict c)"
    using assms by (auto simp: uniqueClause_def Let_def rbind_Inr_iff split_beta)
  have "left c1 \<le> left c" unfolding eq by (rule left_conflict)
  also have "\<dots> \<le> left (cnext c0)" using c by (rule left_optional_columns)
  finally show ?thesis .
qed

lemma left_default: "defaultClause c0 = Inr (k, c1) \<Longrightarrow> left c1 \<le> left (cnext c0)"
  by (auto simp: defaultClause_def rbind_Inr_iff dest!: left_parseDefault)

lemma left_check: "checkClause c0 = Inr (k, c1) \<Longrightarrow> left c1 \<le> left (cnext c0)"
  by (auto simp: checkClause_def left_cnext_le)

lemma left_collate: "collateClause c0 = Inr (k, c1) \<Longrightarrow> left c1 \<le> left (cnext c0)"
  by (auto simp: collateClause_def left_cnext_le)

lemma left_references: "referencesClause sn c0 = Inr (k, c1) \<Longrightarrow> left c1 \<le> left (cnext c0)"
  using left_skip_to_paren [of "cnext (cnext c0)"] left_cnext_le [of "cnext c0"]
  by (auto simp: referencesClause_def Let_def consumeIdentifier_def rbind_Inr_iff
      split: if_splits dest!: left_paren_columns)

lemma left_generated:
  assumes "generatedClause c0 = Inr (k, c1)"
  shows "left c1 \<le> left (cnext c0)"
proof -
  obtain e c3 where "consumeBlock (cnext (cnext (cnext c0))) = Inr (e, c3)" "c1 = cnext c3"
    using assms by (auto simp: generatedClause_def Let_def rbind_Inr_iff split: if_splits)
  then show ?thesis
    using left_consumeBlock [of "cnext (cnext (cnext c0))"] left_cnext_le [of c3]
      left_next2 [of "cnext c0"] by simp
qed

lemma left_foreign: "foreignClause c0 = Inr (k, c1) \<Longrightarrow> left c1 \<le> left (cnext c0)"
  using left_cnext_le [of "cnext c0"]
  by (auto simp: foreignClause_def Let_def split: if_splits dest!: left_paren_columns)

lemmas clause_progress = left_primary left_not left_unique left_default left_check left_collate
  left_references left_generated left_foreign

text \<open>\<open>parseColumnConstraint\<close>: \<^term>\<open>None\<close> is the value \<open>undefined\<close>.\<close>

function parseColumnConstraint ::
  "string \<Rightarrow> CursorV2 \<Rightarrow> (DatabaseTableColumnConstraint option \<times> CursorV2) result" where
  "parseColumnConstraint schemaName c =
     (if cmatch c ''CONSTRAINT'' then
        rbind (parseColumnConstraint schemaName (cnext (cnext c))) (\<lambda>(rest, c1).
          Inr (Some (spread_constraint (spread_opt no_constraint rest)
                 (no_constraint\<lparr>conName := Is (cread (cnext c))\<rparr>)), c1))
      else if cmatch c ''PRIMARY'' then
        rbind (primaryClause c) (\<lambda>(k, c1).
          rbind (parseColumnConstraint schemaName c1) (\<lambda>(rest, c2).
            Inr (Some (spread_opt k rest), c2)))
      else if cmatch c ''NOT'' then
        rbind (notClause c) (\<lambda>(k, c1).
          rbind (parseColumnConstraint schemaName c1) (\<lambda>(rest, c2).
            Inr (Some (spread_opt k rest), c2)))
      else if cmatch c ''UNIQUE'' then
        rbind (uniqueClause c) (\<lambda>(k, c1).
          rbind (parseColumnConstraint schemaName c1) (\<lambda>(rest, c2).
            Inr (Some (spread_opt k rest), c2)))
      else if cmatch c ''DEFAULT'' then
        rbind (defaultClause c) (\<lambda>(k, c1).
          rbind (parseColumnConstraint schemaName c1) (\<lambda>(rest, c2).
            Inr (Some (spread_opt k rest), c2)))
      else if cmatch c ''CHECK'' then
        rbind (checkClause c) (\<lambda>(k, c1).
          rbind (parseColumnConstraint schemaName c1) (\<lambda>(rest, c2).
            Inr (Some (spread_opt k rest), c2)))
      else if cmatch c ''COLLATE'' then
        rbind (collateClause c) (\<lambda>(k, c1).
          rbind (parseColumnConstraint schemaName c1) (\<lambda>(rest, c2).
            Inr (Some (spread_opt k rest), c2)))
      else if cmatch c ''FOREIGN'' then
        rbind (foreignClause c) (\<lambda>(cols, c1).
          rbind (parseColumnConstraint schemaName c1) (\<lambda>(ref, c2).
            let fk = Option.bind ref (\<lambda>r. field_opt (foreignKey r));
                tableName = Option.bind fk foreignTableName;
                columns = Option.bind fk foreignColumns
            in Inr (Some (no_constraint\<lparr>foreignKey := Is
                 \<lparr>foreignSchemaName = Some schemaName,
                  foreignTableName = Some (case tableName of None \<Rightarrow> [] | Some t \<Rightarrow> t),
                  foreignColumns = Some (case columns of None \<Rightarrow> [] | Some cs \<Rightarrow> cs),
                  fkColumns = Some cols\<rparr>\<rparr>), c2)))
      else if cmatch c ''REFERENCES'' then
        rbind (referencesClause schemaName c) (\<lambda>(k, c1).
          rbind (parseColumnConstraint schemaName c1) (\<lambda>(rest, c2).
            Inr (Some (spread_opt k rest), c2)))
      else if cmatch c ''GENERATED'' then
        rbind (generatedClause c) (\<lambda>(k, c1).
          rbind (parseColumnConstraint schemaName c1) (\<lambda>(rest, c2).
            Inr (Some (spread_opt k rest), c2)))
      else Inr (None, c))"
  by pat_completeness auto
termination
proof (relation "measure (\<lambda>(s, c). left c)", goal_cases)
  case (2 s c)
  then show ?case
    using left_cnext [of c] left_cnext_le [of "cnext c"] by (simp add: cmatch_not_end)
qed (auto dest!: clause_progress cmatch_not_end intro: le_less_trans left_cnext)

declare parseColumnConstraint.simps [simp del]

lemma left_constraint:
  "parseColumnConstraint schemaName c = Inr (k, c1) \<Longrightarrow> left c1 \<le> left c"
proof (induction "left c" arbitrary: c k c1 rule: less_induct)
  case less
  have IH: "left d \<le> left c" if "left b \<le> left (cnext c)" "cmatch c v"
    "parseColumnConstraint schemaName b = Inr (r, d)" for b r d v
  proof -
    have "left b < left c"
      using that left_cnext [of c] by (auto dest: cmatch_not_end)
    with less.hyps [of b] that(3) show ?thesis by fastforce
  qed
  have "left (cnext (cnext c)) \<le> left (cnext c)" by (rule left_cnext_le)
  with less.prems show ?case
    by (subst (asm) parseColumnConstraint.simps)
       (auto simp: rbind_Inr_iff Let_def split: if_splits dest: clause_progress IH)
qed

section \<open>Columns and tables\<close>

definition parseColumnDef ::
  "string \<Rightarrow> CursorV2 \<Rightarrow> (DatabaseTableColumn option \<times> CursorV2) result" where
  "parseColumnDef schemaName c =
     (let (columnName, c1) = consumeIdentifier c in
      if columnName = [] then Inr (None, c1)
      else let dataType = cread c1; c2 = cnext c1 in
      rbind (if cmatch c2 ''(''
             then rbind (consumeParen c2) (\<lambda>(p, c3). Inr (dataType @ toStringWithParen p, c3))
             else Inr (dataType, c2)) (\<lambda>(ty, c3).
        rbind (parseColumnConstraint schemaName c3) (\<lambda>(con, c4).
          Inr (Some \<lparr>colName = columnName, colType = ty,
                 colPk = Option.bind con (\<lambda>k. field_opt (primaryKey k)),
                 colConstraint = con\<rparr>, c4))))"

lemma left_columnDef:
  assumes "parseColumnDef schemaName c = Inr (k, c1)"
  shows "left c1 \<le> left c"
proof (cases "unescapeIdentity (cread c) = []")
  case True
  with assms show ?thesis
    by (auto simp: parseColumnDef_def consumeIdentifier_def left_cnext_le)
next
  case False
  then obtain ty c3 con c4 where c3: "(if cmatch (cnext (cnext c)) ''(''
      then rbind (consumeParen (cnext (cnext c)))
             (\<lambda>(p, c3). Inr (cread (cnext c) @ toStringWithParen p, c3))
      else Inr (cread (cnext c), cnext (cnext c))) = Inr (ty, c3)"
    and c4: "parseColumnConstraint schemaName c3 = Inr (con, c4)" and "c1 = c4"
    using assms
    by (auto simp: parseColumnDef_def consumeIdentifier_def Let_def rbind_Inr_iff split_beta)
  from c3 have "left c3 \<le> left (cnext (cnext c))"
    by (auto simp: rbind_Inr_iff split: if_splits dest: consumeParen_left)
  with left_constraint [OF c4] left_next2 [of c] \<open>c1 = c4\<close> show ?thesis by simp
qed

text \<open>The inner loop of \<open>parseTableDefinition\<close>: forward to the next comma.\<close>

function skip_to_comma :: "CursorV2 \<Rightarrow> CursorV2" where
  "skip_to_comma c = (if cread c \<noteq> '','' \<and> \<not> cend c then skip_to_comma (cnext c) else c)"
  by pat_completeness auto
termination
  by (relation "measure left") (auto intro: left_cnext)

declare skip_to_comma.simps [simp del]

lemma left_skip_to_comma [progress]: "left (skip_to_comma c) \<le> left c"
proof (induction c rule: skip_to_comma.induct)
  case (1 c)
  then show ?case
    using left_cnext_le [of c] by (subst skip_to_comma.simps) fastforce
qed

text \<open>One round of the loop before the skip: the columns and constraints so far, and \<open>moveNext\<close>.\<close>

type_synonym definition_lists = "DatabaseTableColumn list \<times> DatabaseTableColumnConstraint list"

definition table_item ::
  "string \<Rightarrow> CursorV2 \<Rightarrow> definition_lists \<Rightarrow> ((definition_lists \<times> bool) \<times> CursorV2) result" where
  "table_item schemaName c acc =
     (if matchTokens c [''CONSTRAINT'', ''PRIMARY'', ''UNIQUE'', ''CHECK'', ''FOREIGN''] then
        rbind (parseColumnConstraint schemaName c) (\<lambda>(con, c1).
          case con of
            None \<Rightarrow> Inr ((acc, False), c1)
          | Some k \<Rightarrow> Inr (((fst acc, snd acc @ [k]), True), c1))
      else
        rbind (parseColumnDef schemaName c) (\<lambda>(col, c1).
          case col of
            None \<Rightarrow> Inr ((acc, False), c1)
          | Some k \<Rightarrow> Inr (((fst acc @ [k], snd acc), True), c1)))"

lemma left_table_item: "table_item schemaName c acc = Inr (v, c1) \<Longrightarrow> left c1 \<le> left c"
  by (auto simp: table_item_def rbind_Inr_iff split: if_splits option.splits
      dest: left_constraint left_columnDef)

function table_loop :: "string \<Rightarrow> CursorV2 \<Rightarrow> definition_lists \<Rightarrow> definition_lists result" where
  "table_loop schemaName c acc =
     rbind (table_item schemaName c acc) (\<lambda>(r, c1).
       if cend (skip_to_comma c1) then Inr (fst r)
       else if snd r then table_loop schemaName (cnext (skip_to_comma c1)) (fst r)
       else Inr (fst r))"
  by pat_completeness auto
termination
  by (relation "measure (\<lambda>(s, c, acc). left c)")
     (auto dest!: left_table_item intro: less_le_trans [OF left_cnext]
        order_trans [OF left_skip_to_comma])

declare table_loop.simps [simp del]

text \<open>\<open>columns.find(...)\<close>, and \<open>column.pk = true\<close> on the column that was found.\<close>

fun mark_pk :: "string \<Rightarrow> DatabaseTableColumn list \<Rightarrow> DatabaseTableColumn list" where
  "mark_pk pkColumn [] = []"
| "mark_pk pkColumn (col # cols) =
     (if js_lower pkColumn = js_lower (colName col) then col\<lparr>colPk := Some True\<rparr> # cols
      else col # mark_pk pkColumn cols)"

definition mark_constraint ::
  "DatabaseTableColumnConstraint \<Rightarrow> DatabaseTableColumn list \<Rightarrow> DatabaseTableColumn list" where
  "mark_constraint con cols =
     (case (field_opt (primaryKey con), field_opt (primaryColumns con)) of
       (Some True, Some pks) \<Rightarrow> fold mark_pk pks cols
     | _ \<Rightarrow> cols)"

definition default_fk :: "DatabaseTableColumn \<Rightarrow> DatabaseTableColumn" where
  "default_fk col =
     (case colConstraint col of
       None \<Rightarrow> col
     | Some con \<Rightarrow>
        (case field_opt (foreignKey con) of
          None \<Rightarrow> col
        | Some fk \<Rightarrow>
            if foreignColumns fk = Some []
            then col\<lparr>colConstraint := Some (con\<lparr>foreignKey :=
                   Is (fk\<lparr>foreignColumns := Some [colName col]\<rparr>)\<rparr>)\<rparr>
            else col))"

definition parseTableDefinition :: "string \<Rightarrow> CursorV2 \<Rightarrow> definition_lists result" where
  "parseTableDefinition schemaName c =
     rbind (table_loop schemaName c ([], [])) (\<lambda>(columns, constraints).
       Inr (map default_fk (fold mark_constraint constraints columns), constraints))"

section \<open>Virtual tables, options, the script\<close>

definition fts_value :: "CursorV2 \<Rightarrow> string option \<Rightarrow> string option \<times> CursorV2" where
  "fts_value c old =
     (if cmatch (cnext c) ''='' then
        let c2 = cnext (cnext c)
        in if \<not> cend c2 then (Some (unescapeIdentity (cread c2)), cnext c2) else (old, c2)
      else (old, cnext c))"

lemma left_fts_value: "left (snd (fts_value c old)) \<le> left c"
  using left_cnext_le [of c] left_next2 [of c] left_cnext_le [of "cnext (cnext c)"]
  by (auto simp: fts_value_def Let_def)

function fts_loop :: "CursorV2 \<Rightarrow> string option \<Rightarrow> string option \<Rightarrow> DatabaseTableFts5" where
  "fts_loop c content contentRowId =
     (if cend c then \<lparr>ftsContent = content, ftsContentRowId = contentRowId\<rparr>
      else if cmatch c ''content''
        then fts_loop (cnext (snd (fts_value c content))) (fst (fts_value c content)) contentRowId
      else if cmatch c ''content_rowid''
        then fts_loop (cnext (snd (fts_value c contentRowId))) content
               (fst (fts_value c contentRowId))
      else fts_loop (cnext c) content contentRowId)"
  by pat_completeness auto
termination
proof (relation "measure (\<lambda>(c, a, b). left c)", goal_cases)
  case (2 c content rowid)
  then have "ptr c < length (tokens c)" by (simp add: cend_def)
  moreover have "tokens (cnext (snd (fts_value c content))) = tokens c"
    "ptr c < ptr (cnext (snd (fts_value c content)))"
    using ptr_cnext [of c] ptr_cnext [of "cnext c"] ptr_cnext [of "cnext (cnext c)"]
      ptr_cnext [of "cnext (cnext (cnext c))"]
    by (auto simp: fts_value_def Let_def)
  ultimately show ?case by (simp add: left_def)
next
  case (3 c content rowid)
  then have "ptr c < length (tokens c)" by (simp add: cend_def)
  moreover have "tokens (cnext (snd (fts_value c rowid))) = tokens c"
    "ptr c < ptr (cnext (snd (fts_value c rowid)))"
    using ptr_cnext [of c] ptr_cnext [of "cnext c"] ptr_cnext [of "cnext (cnext c)"]
      ptr_cnext [of "cnext (cnext (cnext c))"]
    by (auto simp: fts_value_def Let_def)
  ultimately show ?case by (simp add: left_def)
qed (auto intro: left_cnext)

declare fts_loop.simps [simp del]

definition parseFTS5 :: "CursorV2 \<Rightarrow> DatabaseTableFts5" where
  "parseFTS5 c = fts_loop c None None"

text \<open>\<open>parseTableOption\<close>: the pair of \<open>strict\<close> and \<open>withoutRowId\<close>; both absent stands for
  \<open>undefined\<close>, whose spread adds nothing.\<close>

function parseTableOption :: "CursorV2 \<Rightarrow> bool option \<times> bool option" where
  "parseTableOption c =
     (if cmatch c ''WITHOUT'' then
        (if cmatch (cnext c) ''ROWID'' then
           if cmatch (cnext (cnext c)) '',''
           then (fst (parseTableOption (cnext (cnext (cnext c)))), Some True)
           else (None, Some True)
         else (None, None))
      else if cmatch c ''STRICT'' then
        (if cmatch (cnext c) '',''
         then (Some True, snd (parseTableOption (cnext (cnext c))))
         else (Some True, None))
      else (None, None))"
  by pat_completeness auto
termination
proof (relation "measure left", goal_cases)
  case (2 c)
  then have "left (cnext c) < left c" by (auto intro: left_cnext dest: cmatch_not_end)
  with left_next2 [of "cnext c"] show ?case by simp
next
  case (3 c)
  then have "left (cnext c) < left c" by (auto intro: left_cnext dest: cmatch_not_end)
  with left_cnext_le [of "cnext c"] show ?case by simp
qed simp

declare parseTableOption.simps [simp del]

definition script_head :: "string list \<Rightarrow> string \<Rightarrow> CursorV2 \<Rightarrow> (string \<times> CursorV2) result" where
  "script_head optional kind c =
     rbind (expectToken ''CREATE'' c) (\<lambda>c1.
       rbind (expectToken kind (fold expectTokenOptional optional c1)) (\<lambda>c2.
         rbind (expectTokensOptional [''IF'', ''NOT'', ''EXIST''] c2) (\<lambda>c3.
           Inr (consumeIdentifier c3))))"

definition parseCreateTableScript ::
  "(string \<Rightarrow> token list) \<Rightarrow> string \<Rightarrow> string \<Rightarrow> DatabaseTableSchema result" where
  "parseCreateTableScript tokenizeSql schemaName sql =
     rbind (script_head [''TEMP'', ''TEMPORARY'', ''VIRTUAL''] ''TABLE''
              (new_cursor (tokenizeSql sql))) (\<lambda>(tableName, c1).
       rbind (if cmatch c1 ''USING'' then
                (if cmatch (cnext c1) ''FTS5''
                 then rbind (consumeParen (cnext (cnext c1))) (\<lambda>(p, c2).
                        Inr (Some (parseFTS5 p), c2))
                 else Inr (None, cnext c1))
              else Inr (None, c1)) (\<lambda>(fts5, c2).
         rbind (if cmatch c2 ''(''
                then rbind (consumeParen c2) (\<lambda>(p, c3).
                       rbind (parseTableDefinition schemaName p) (\<lambda>defs. Inr (defs, c3)))
                else Inr (([], []), c2)) (\<lambda>((columns, constraints), c3).
           let (strict, withoutRowId) = parseTableOption c3
           in Inr \<lparr>tsColumns = columns,
                   tsPk = map colName (filter (\<lambda>col. colPk col = Some True) columns),
                   tsAutoIncrement = list_ex (\<lambda>col. con_get col autoIncrement = Some True) columns,
                   tsSchemaName = schemaName, tsTableName = Some tableName,
                   tsConstraints = Some constraints, tsCreateScript = None, tsFts5 = fts5,
                   tsType = None, tsWithoutRowId = withoutRowId, tsStrict = strict,
                   tsSizeInByte = None\<rparr>)))"

end
