(* ===== verification/ParseTriggerView.thy ===== *)
theory ParseTriggerView
  imports ParseTable
begin

text \<open>
  The parsers of \<open>CREATE TRIGGER\<close> and \<open>CREATE VIEW\<close> scripts:
  \<open>admin/src/drivers/sqlite/sql-parse-trigger.ts\<close> and \<open>sql-parse-view.ts\<close>.
\<close>

section \<open>Triggers\<close>

text \<open>The loop up to \<open>BEGIN\<close>: the last pointer it saw, and the cursor.\<close>

function when_loop :: "CursorV2 \<Rightarrow> nat option \<Rightarrow> nat option \<times> CursorV2" where
  "when_loop c toExpr =
     (if cend c then (toExpr, c)
      else if cmatch c ''BEGIN'' then (Some (ptr c), c)
      else when_loop (cnext c) (Some (ptr c)))"
  by pat_completeness auto
termination
  by (relation "measure (\<lambda>(c, t). left c)") (auto intro: left_cnext)

declare when_loop.simps [simp del]

text \<open>The loop up to \<open>; END\<close>.\<close>

function body_loop :: "CursorV2 \<Rightarrow> nat option \<Rightarrow> nat option \<times> CursorV2" where
  "body_loop c toStmt =
     (if cend c then (toStmt, c)
      else if cmatch c '';'' then
        (if cmatch (cnext c) ''END'' then (Some (ptr c), cnext c)
         else body_loop (cnext c) (Some (ptr c)))
      else body_loop (cnext c) (Some (ptr c)))"
  by pat_completeness auto
termination
  by (relation "measure (\<lambda>(c, t). left c)") (auto intro: left_cnext)

declare body_loop.simps [simp del]

text \<open>\<open>if (from && to)\<close>: both are numbers that are not zero.\<close>

definition range_text :: "CursorV2 \<Rightarrow> nat \<Rightarrow> nat option \<Rightarrow> nat \<Rightarrow> string" where
  "range_text c fromPtr toPtr extra =
     (case toPtr of
        None \<Rightarrow> []
      | Some t \<Rightarrow> if fromPtr \<noteq> 0 \<and> t \<noteq> 0 then toStringRange c fromPtr (t + extra) else [])"

definition trigger_when :: "CursorV2 \<Rightarrow> (TriggerWhen \<times> CursorV2) result" where
  "trigger_when c =
     (if cmatch c ''BEFORE'' then Inr (BEFORE, cnext c)
      else if cmatch c ''AFTER'' then Inr (AFTER, cnext c)
      else if cmatch c ''INSTEAD'' then
        rbind (expectTokens [''INSTEAD'', ''OF''] c) (\<lambda>c1. Inr (INSTEAD_OF, c1))
      else Inr (BEFORE, c))"

definition trigger_operation ::
  "CursorV2 \<Rightarrow> (TriggerOperation \<times> string list option) \<times> CursorV2" where
  "trigger_operation c =
     (if cmatch c ''DELETE'' then ((TriggerDELETE, None), cnext c)
      else if cmatch c ''INSERT'' then ((TriggerINSERT, None), cnext c)
      else if cmatch c ''UPDATE'' then
        (if cmatch (cnext c) ''OF''
         then let (cols, c1) = parseColumnList (cnext (cnext c))
              in ((TriggerUPDATE, Some cols), c1)
         else ((TriggerUPDATE, None), cnext c))
      else ((TriggerINSERT, None), c))"

definition parseCreateTriggerScript ::
  "(string \<Rightarrow> token list) \<Rightarrow> string \<Rightarrow> string \<Rightarrow> DatabaseTriggerSchema result" where
  "parseCreateTriggerScript tokenizeSql schemaName sql =
     rbind (script_head [''TEMP'', ''TEMPORARY''] ''TRIGGER''
              (new_cursor (tokenizeSql sql))) (\<lambda>(name, c1).
       rbind (trigger_when c1) (\<lambda>(wh, c2).
         let ((op, columnNames), c3) = trigger_operation c2 in
         rbind (expectToken ''ON'' c3) (\<lambda>c4.
           let (tableName, c5) = consumeIdentifier c4 in
           rbind (expectTokensOptional [''FOR'', ''EACH'', ''ROW''] c5) (\<lambda>c6.
             let fromExpression = getPointer c6;
                 (toExpression, c7) = (if cmatch c6 ''WHEN'' then when_loop (cnext c6) None
                                       else (None, c6)) in
             rbind (expectToken ''BEGIN'' c7) (\<lambda>c8.
               let fromStatement = getPointer c8;
                   (toStatement, c9) = body_loop c8 None
               in Inr \<lparr>trName = name, trOperation = op, trWhen = wh, trSchemaName = schemaName,
                       trTableName = tableName, trColumnNames = columnNames,
                       trWhenExpression = range_text c6 fromExpression toExpression 0,
                       trStatement = range_text c8 fromStatement toStatement 1\<rparr>)))))"

section \<open>Views\<close>

function view_loop :: "CursorV2 \<Rightarrow> nat option \<Rightarrow> nat option \<times> CursorV2" where
  "view_loop c toStmt =
     (if cend c then (toStmt, c)
      else if cmatch c '';'' then (Some (ptr c), c)
      else view_loop (cnext c) (Some (ptr c)))"
  by pat_completeness auto
termination
  by (relation "measure (\<lambda>(c, t). left c)") (auto intro: left_cnext)

declare view_loop.simps [simp del]

definition parseCreateViewScript ::
  "(string \<Rightarrow> token list) \<Rightarrow> string \<Rightarrow> string \<Rightarrow> DatabaseViewSchema result" where
  "parseCreateViewScript tokenizeSql schemaName sql =
     rbind (script_head [''TEMP'', ''TEMPORARY''] ''VIEW''
              (new_cursor (tokenizeSql sql))) (\<lambda>(name, c1).
       rbind (expectToken ''AS'' c1) (\<lambda>c2.
         let fromStatement = getPointer c2;
             (toStatement, c3) = view_loop c2 None
         in Inr \<lparr>vwName = name, vwSchemaName = schemaName,
                 vwStatement = range_text c2 fromStatement toStatement 0\<rparr>))"

end
