(* ===== verification/ParserFacts.thy ===== *)
theory ParserFacts
  imports ParseTriggerView
begin

text \<open>
  What the parsers of \<open>CREATE TABLE\<close> and \<open>CREATE VIEW\<close> scripts compute.  An abstract syntax
  of column definitions (\<open>clause\<close>, \<open>coldef\<close>) with its tokens and its meaning is the
  specification; the parser reads the tokens of a definition back to its meaning.
\<close>

section \<open>Keywords\<close>

lemma lower_keywords [simp]:
  "js_lower ''CONSTRAINT'' = ''constraint''" "js_lower ''PRIMARY'' = ''primary''"
  "js_lower ''KEY'' = ''key''" "js_lower ''NOT'' = ''not''" "js_lower ''NULL'' = ''null''"
  "js_lower ''UNIQUE'' = ''unique''" "js_lower ''DEFAULT'' = ''default''"
  "js_lower ''CHECK'' = ''check''" "js_lower ''COLLATE'' = ''collate''"
  "js_lower ''FOREIGN'' = ''foreign''" "js_lower ''REFERENCES'' = ''references''"
  "js_lower ''GENERATED'' = ''generated''" "js_lower ''ALWAYS'' = ''always''"
  "js_lower ''AS'' = ''as''" "js_lower ''STORED'' = ''stored''" "js_lower ''ON'' = ''on''"
  "js_lower ''CONFLICT'' = ''conflict''" "js_lower ''ASC'' = ''asc''"
  "js_lower ''DESC'' = ''desc''" "js_lower ''AUTOINCREMENT'' = ''autoincrement''"
  "js_lower ''CREATE'' = ''create''" "js_lower ''TABLE'' = ''table''"
  "js_lower ''TEMP'' = ''temp''" "js_lower ''TEMPORARY'' = ''temporary''"
  "js_lower ''VIRTUAL'' = ''virtual''" "js_lower ''VIEW'' = ''view''"
  "js_lower ''IF'' = ''if''" "js_lower ''EXIST'' = ''exist''" "js_lower ''EXISTS'' = ''exists''"
  "js_lower ''USING'' = ''using''" "js_lower ''WITHOUT'' = ''without''"
  "js_lower ''STRICT'' = ''strict''"
  by code_simp+

lemma lower_marks [simp]:
  "js_lower ''('' = ''(''" "js_lower '')'' = '')''" "js_lower '','' = '',''"
  "js_lower '';'' = '';''" "js_lower ''+'' = ''+''" "js_lower ''-'' = ''-''"
  by code_simp+

lemmas stream_simps = cmatch_view view_end cursor.rd_stream cursor.stream_nxt

section \<open>Column constraints\<close>

datatype clause =
    CPrimary "SqlOrder option" bool
  | CNotNull
  | CUnique
  | CDefaultNumber string
  | CDefaultString string
  | CCollate string
  | CReferences string "string list"

definition word :: "string \<Rightarrow> token" where
  "word v = \<lparr>tkType = OtherType ''WORD'', tkValue = v\<rparr>"

fun comma_tokens :: "string list \<Rightarrow> token list" where
  "comma_tokens [] = []"
| "comma_tokens [n] = [word n]"
| "comma_tokens (n # m # ns) = word n # word '','' # comma_tokens (m # ns)"

fun clause_tokens :: "clause \<Rightarrow> token list" where
  "clause_tokens (CPrimary ord auto) =
     [word ''PRIMARY'', word ''KEY''] @ (case ord of None \<Rightarrow> [] | Some d \<Rightarrow> [word (order_str d)])
     @ (if auto then [word ''AUTOINCREMENT''] else [])"
| "clause_tokens CNotNull = [word ''NOT'', word ''NULL'']"
| "clause_tokens CUnique = [word ''UNIQUE'']"
| "clause_tokens (CDefaultNumber n) =
     [word ''DEFAULT'', \<lparr>tkType = NUMBER, tkValue = n\<rparr>]"
| "clause_tokens (CDefaultString s) =
     [word ''DEFAULT'', \<lparr>tkType = STRING, tkValue = quote1 # s @ [quote1]\<rparr>]"
| "clause_tokens (CCollate n) = [word ''COLLATE'', word n]"
| "clause_tokens (CReferences t cs) =
     [word ''REFERENCES'', word t, word ''(''] @ comma_tokens cs @ [word '')'']"

fun clause_constraint :: "string \<Rightarrow> clause \<Rightarrow> DatabaseTableColumnConstraint" where
  "clause_constraint sn (CPrimary ord auto) =
     no_constraint\<lparr>primaryKey := Is True, primaryKeyOrder := field_of ord,
       primaryColumns := Undef, autoIncrement := Is auto, primaryKeyConflict := Undef\<rparr>"
| "clause_constraint sn CNotNull = no_constraint\<lparr>notNull := Is True, notNullConflict := Undef\<rparr>"
| "clause_constraint sn CUnique =
     no_constraint\<lparr>unique := Is True, uniqueConflict := Undef, uniqueColumns := Undef\<rparr>"
| "clause_constraint sn (CDefaultNumber n) =
     no_constraint\<lparr>defaultValue := Is (Num (js_Number n)), defaultExpression := Undef\<rparr>"
| "clause_constraint sn (CDefaultString s) =
     no_constraint\<lparr>defaultValue := Is (Str s), defaultExpression := Undef\<rparr>"
| "clause_constraint sn (CCollate n) = no_constraint\<lparr>collate := Is n\<rparr>"
| "clause_constraint sn (CReferences t cs) =
     no_constraint\<lparr>foreignKey := Is
       \<lparr>foreignSchemaName = Some sn, foreignTableName = Some (unescapeIdentity t),
        foreignColumns = Some (map unescapeIdentity cs), fkColumns = None\<rparr>\<rparr>"

text \<open>A word that is no bracket and no separator.\<close>

definition plain_word :: "string \<Rightarrow> bool" where
  "plain_word v = (v \<notin> {''('', '')'', '',''})"

fun clause_ok :: "clause \<Rightarrow> bool" where
  "clause_ok (CReferences t cs) = list_all plain_word cs"
| "clause_ok _ = True"

definition clauses_constraint ::
  "string \<Rightarrow> clause list \<Rightarrow> DatabaseTableColumnConstraint option" where
  "clauses_constraint sn ks =
     foldr (\<lambda>k rest. Some (spread_opt (clause_constraint sn k) rest)) ks None"

text \<open>What may stand behind a clause: another clause, a comma, or the end.\<close>

definition follow :: "token list \<Rightarrow> bool" where
  "follow ts = (case ts of [] \<Rightarrow> True | t # _ \<Rightarrow> js_lower (tkValue t) \<in>
     {''constraint'', ''primary'', ''not'', ''unique'', ''default'', ''check'', ''collate'',
      ''foreign'', ''references'', ''generated'', '',''})"

lemma follow_simps [simp]:
  "follow []"
  "follow (word '','' # ts)"
  by (simp_all add: follow_def word_def)

lemma follow_clause [simp]: "follow (clause_tokens k @ ts)"
  by (cases k) (auto simp: follow_def word_def)

lemma tkValue_word [simp]: "tkValue (word v) = v"
  by (simp add: word_def)

lemma not_ws_word [simp]: "\<not> is_ws (word v)"
  by (simp add: word_def is_ws_def)

lemma follow_conflict:
  "cursor_ok c \<Longrightarrow> follow (view c) \<Longrightarrow> parseConstraintConflict c = (None, c)"
  by (auto simp: parseConstraintConflict_def stream_simps follow_def split: list.splits)

text \<open>The columns between brackets.\<close>

lemma parseColumnList_view:
  "cursor_ok c \<Longrightarrow> view c = comma_tokens cs \<Longrightarrow> list_all plain_word cs \<Longrightarrow>
     fst (parseColumnList c) = map unescapeIdentity cs"
proof (induction cs arbitrary: c rule: comma_tokens.induct)
  case (3 n m ns)
  then show ?case by (simp add: parseColumnList.simps [of c] stream_simps)
qed (simp_all add: parseColumnList.simps stream_simps)

lemma open_after_plain: "plain_word v \<Longrightarrow> 0 < k \<Longrightarrow> open_after k (word v # ts) = open_after k ts"
  by (simp add: plain_word_def)

lemma balanced_comma: "list_all plain_word cs \<Longrightarrow> balanced (comma_tokens cs)"
proof (induction cs rule: comma_tokens.induct)
  case 1
  show ?case by (simp add: balanced_def)
next
  case (2 n)
  then show ?case by (simp add: balanced_def open_after_plain del: open_after.simps) simp
next
  case (3 n m ns)
  then show ?case
    by (simp add: balanced_def open_after_plain del: open_after.simps) (simp add: word_def)
qed

lemma paren_columns_view:
  assumes "cursor_ok c" and "view c = word ''('' # comma_tokens cs @ word '')'' # rest"
    and "list_all plain_word cs"
  shows "\<exists>c1. paren_columns c = Inr (map unescapeIdentity cs, c1) \<and> cursor_ok c1 \<and> view c1 = rest"
proof -
  obtain p c1 where "consumeParen c = Inr (p, c1)" "cursor_ok p" "view p = comma_tokens cs"
    "cursor_ok c1" "view c1 = rest"
    using consumeParen_view [OF assms(1,2)] balanced_comma [OF assms(3)] by auto
  with parseColumnList_view [of p cs] assms(3) show ?thesis
    by (simp add: paren_columns_def)
qed


lemma follow_not: "cursor_ok c \<Longrightarrow> follow (view c) \<Longrightarrow>
  js_lower v \<notin> {''constraint'', ''primary'', ''not'', ''unique'', ''default'', ''check'', ''collate'',
      ''foreign'', ''references'', ''generated'', '',''} \<Longrightarrow> \<not> cmatch c v"
  by (auto simp: stream_simps follow_def split: list.splits)

lemma follow_read: "cursor_ok c \<Longrightarrow> follow (view c) \<Longrightarrow> cread c \<noteq> ''(''"
  using follow_not [of c "''(''"] by (auto simp: cmatch_def stream_simps split: list.splits)

text \<open>Each clause reads its own tokens.\<close>

lemma primary_view:
  assumes "cursor_ok c" and "view c = clause_tokens (CPrimary ord auto) @ rest" and "follow rest"
  shows "\<exists>c1. primaryClause c = Inr (clause_constraint sn (CPrimary ord auto), c1)
           \<and> cursor_ok c1 \<and> view c1 = rest"
proof -
  let ?c2 = "cnext (cnext c)"
  have v: "view ?c2 = (case ord of None \<Rightarrow> [] | Some d \<Rightarrow> [word (order_str d)])
     @ (if auto then [word ''AUTOINCREMENT''] else []) @ rest"
    using assms by (simp add: stream_simps)
  have k: "cmatch (cnext c) ''KEY''" using assms by (simp add: stream_simps)
  have no: "\<not> cmatch ?c2 ''(''"
    using v assms(3)
    by (cases ord; cases auto; cases rest; case_tac "the ord")
       (auto simp: stream_simps follow_def)
  obtain c3 where o3: "primaryOrder ?c2 = (ord, c3)" "cursor_ok c3"
    "view c3 = (if auto then [word ''AUTOINCREMENT''] else []) @ rest"
    using v assms(3)
    by (cases ord; cases auto; cases rest; case_tac "the ord")
       (auto simp: stream_simps follow_def primaryOrder_def)
  have c4: "parseConstraintConflict c3 = (None, c3)"
  proof (cases auto)
    case True
    with o3 show ?thesis by (simp add: parseConstraintConflict_def stream_simps)
  next
    case False
    with o3 assms(3) show ?thesis by (simp add: follow_conflict)
  qed
  obtain c5 where "primaryAuto c3 = (auto, c5)" "cursor_ok c5" "view c5 = rest"
    using o3 assms(3) follow_not [of c3 "''AUTOINCREMENT''"]
    by (cases auto) (auto simp: stream_simps primaryAuto_def)
  with k no o3 c4 show ?thesis
    by (simp add: primaryClause_def optional_columns_def)
qed

lemma other_view:
  assumes "cursor_ok c" and "view c = clause_tokens k @ rest" and "follow rest" and "clause_ok k"
  shows
    "k = CNotNull \<Longrightarrow> \<exists>c1. notClause c = Inr (clause_constraint sn k, c1)
       \<and> cursor_ok c1 \<and> view c1 = rest"
    "k = CUnique \<Longrightarrow> \<exists>c1. uniqueClause c = Inr (clause_constraint sn k, c1)
       \<and> cursor_ok c1 \<and> view c1 = rest"
    "k = CDefaultNumber n \<Longrightarrow> \<exists>c1. defaultClause c = Inr (clause_constraint sn k, c1)
       \<and> cursor_ok c1 \<and> view c1 = rest"
    "k = CDefaultString n \<Longrightarrow> \<exists>c1. defaultClause c = Inr (clause_constraint sn k, c1)
       \<and> cursor_ok c1 \<and> view c1 = rest"
    "k = CCollate n \<Longrightarrow> \<exists>c1. collateClause c = Inr (clause_constraint sn k, c1)
       \<and> cursor_ok c1 \<and> view c1 = rest"
    "k = CReferences n cs \<Longrightarrow> \<exists>c1. referencesClause sn c = Inr (clause_constraint sn k, c1)
       \<and> cursor_ok c1 \<and> view c1 = rest"
proof -
  show "k = CNotNull \<Longrightarrow> \<exists>c1. notClause c = Inr (clause_constraint sn k, c1)
       \<and> cursor_ok c1 \<and> view c1 = rest"
    using assms by (simp add: notClause_def stream_simps follow_conflict)
  show "k = CUnique \<Longrightarrow> \<exists>c1. uniqueClause c = Inr (clause_constraint sn k, c1)
       \<and> cursor_ok c1 \<and> view c1 = rest"
    using assms follow_read [of "cnext c"]
    by (simp add: uniqueClause_def stream_simps follow_conflict optional_columns_def Let_def)
  show "k = CDefaultNumber n \<Longrightarrow> \<exists>c1. defaultClause c = Inr (clause_constraint sn k, c1)
       \<and> cursor_ok c1 \<and> view c1 = rest"
    using assms currentType_view [of "cnext c"]
    by (auto simp: defaultClause_def parseDefault_def stream_simps)
  show "k = CDefaultString n \<Longrightarrow> \<exists>c1. defaultClause c = Inr (clause_constraint sn k, c1)
       \<and> cursor_ok c1 \<and> view c1 = rest"
    using assms currentType_view [of "cnext c"]
    by (auto simp: defaultClause_def parseDefault_def stream_simps)
  show "k = CCollate n \<Longrightarrow> \<exists>c1. collateClause c = Inr (clause_constraint sn k, c1)
       \<and> cursor_ok c1 \<and> view c1 = rest"
    using assms by (simp add: collateClause_def stream_simps)
  assume k: "k = CReferences n cs"
  let ?c2 = "cnext (cnext c)"
  have v: "view ?c2 = word ''('' # comma_tokens cs @ word '')'' # rest"
    using assms k by (simp add: stream_simps)
  then have m: "cmatch ?c2 ''(''" by (simp add: stream_simps)
  then have s: "skip_to_paren ?c2 = ?c2" by (simp add: skip_to_paren.simps)
  show "\<exists>c1. referencesClause sn c = Inr (clause_constraint sn k, c1)
       \<and> cursor_ok c1 \<and> view c1 = rest"
    using paren_columns_view [OF _ v] assms k m s
    by (auto simp: referencesClause_def consumeIdentifier_def stream_simps)
qed

lemma clause_step:
  assumes "cursor_ok c" and "view c = clause_tokens k @ rest" and "follow rest" and "clause_ok k"
  shows "\<exists>c1. cursor_ok c1 \<and> view c1 = rest \<and> left c1 < left c \<and>
     parseColumnConstraint sn c = rbind (parseColumnConstraint sn c1) (\<lambda>(r, c2).
       Inr (Some (spread_opt (clause_constraint sn k) r), c2))"
proof -
  have nend: "\<not> cend c"
    using assms(1,2) by (cases k) (auto simp: view_end)
  note step = less_le_trans [OF _ left_cnext [OF nend, THEN Suc_leI], simplified less_Suc_eq_le]
  show ?thesis
  proof (cases k)
    case (CPrimary ord auto)
    then show ?thesis
      using primary_view [of c ord auto rest sn] assms step left_primary [of c]
      by (fastforce simp: parseColumnConstraint.simps [of sn c] stream_simps)
  next
    case CNotNull
    then show ?thesis
      using other_view(1) [OF assms] assms step left_not [of c]
      by (fastforce simp: parseColumnConstraint.simps [of sn c] stream_simps)
  next
    case CUnique
    then show ?thesis
      using other_view(2) [OF assms] assms step left_unique [of c]
      by (fastforce simp: parseColumnConstraint.simps [of sn c] stream_simps)
  next
    case (CDefaultNumber n)
    then show ?thesis
      using other_view(3) [OF assms] assms step left_default [of c]
      by (fastforce simp: parseColumnConstraint.simps [of sn c] stream_simps)
  next
    case (CDefaultString n)
    then show ?thesis
      using other_view(4) [OF assms] assms step left_default [of c]
      by (fastforce simp: parseColumnConstraint.simps [of sn c] stream_simps)
  next
    case (CCollate n)
    then show ?thesis
      using other_view(5) [OF assms] assms step left_collate [of c]
      by (fastforce simp: parseColumnConstraint.simps [of sn c] stream_simps)
  next
    case (CReferences n cs)
    then show ?thesis
      using other_view(6) [OF assms] assms step left_references [of sn c]
      by (fastforce simp: parseColumnConstraint.simps [of sn c] stream_simps)
  qed
qed

section \<open>Column definitions\<close>

definition stops :: "token list \<Rightarrow> bool" where
  "stops ts = (case ts of [] \<Rightarrow> True | t # _ \<Rightarrow> tkValue t = '','')"

lemma stops_simps [simp]: "stops []" "stops (word '','' # ts)"
  by (simp_all add: stops_def)

lemma stops_follow: "stops ts \<Longrightarrow> follow ts"
  by (auto simp: stops_def follow_def split: list.splits)

lemma stop_constraint:
  "cursor_ok c \<Longrightarrow> stops (view c) \<Longrightarrow> parseColumnConstraint sn c = Inr (None, c)"
  by (auto simp: parseColumnConstraint.simps [of sn c] stream_simps stops_def split: list.splits)

lemma clauses_view:
  "cursor_ok c \<Longrightarrow> view c = concat (map clause_tokens ks) @ rest \<Longrightarrow> stops rest \<Longrightarrow>
     list_all clause_ok ks \<Longrightarrow>
     \<exists>c1. cursor_ok c1 \<and> view c1 = rest \<and>
       parseColumnConstraint sn c = Inr (clauses_constraint sn ks, c1)"
proof (induction ks arbitrary: c)
  case Nil
  then show ?case by (auto simp: stop_constraint clauses_constraint_def)
next
  case (Cons k ks)
  have "follow (concat (map clause_tokens ks) @ rest)"
    using Cons.prems(3) by (cases ks) (auto simp: stops_follow)
  then obtain c1 where c1: "cursor_ok c1" "view c1 = concat (map clause_tokens ks) @ rest"
    "parseColumnConstraint sn c = rbind (parseColumnConstraint sn c1) (\<lambda>(r, c2).
       Inr (Some (spread_opt (clause_constraint sn k) r), c2))"
    using clause_step [of c k "concat (map clause_tokens ks) @ rest" sn] Cons.prems by auto
  with Cons.IH [OF c1(1,2)] Cons.prems show ?case
    by (auto simp: clauses_constraint_def)
qed

record coldef =
  cdName :: string
  cdType :: string
  cdClauses :: "clause list"

definition is_primary :: "clause \<Rightarrow> bool" where
  "is_primary k = (case k of CPrimary _ _ \<Rightarrow> True | _ \<Rightarrow> False)"

definition coldef_tokens :: "coldef \<Rightarrow> token list" where
  "coldef_tokens d = word (cdName d) # word (cdType d) # concat (map clause_tokens (cdClauses d))"

definition coldef_column :: "string \<Rightarrow> coldef \<Rightarrow> DatabaseTableColumn" where
  "coldef_column sn d =
     \<lparr>colName = unescapeIdentity (cdName d), colType = cdType d,
      colPk = (if list_ex is_primary (cdClauses d) then Some True else None),
      colConstraint = clauses_constraint sn (cdClauses d)\<rparr>"

definition coldef_ok :: "coldef \<Rightarrow> bool" where
  "coldef_ok d =
     (unescapeIdentity (cdName d) \<noteq> []
      \<and> js_lower (cdName d) \<notin> {''constraint'', ''primary'', ''unique'', ''check'', ''foreign''}
      \<and> list_all clause_ok (cdClauses d))"

lemma clauses_constraint_simps:
  "clauses_constraint sn [] = None"
  "clauses_constraint sn (k # ks) =
     Some (spread_opt (clause_constraint sn k) (clauses_constraint sn ks))"
  by (simp_all add: clauses_constraint_def)

lemma primaryKey_spread_opt:
  "primaryKey (spread_opt a None) = primaryKey a"
  "primaryKey (spread_constraint a b) = field_over (primaryKey a) (primaryKey b)"
  "spread_opt a (Some b) = spread_constraint a b"
  by (simp_all add: spread_opt_def spread_constraint_def)

lemma primaryKey_clause:
  "primaryKey (clause_constraint sn k) = (if is_primary k then Is True else Absent)"
  by (cases k) (simp_all add: no_constraint_def is_primary_def)

lemma clauses_primaryKey:
  "clauses_constraint sn ks = Some con \<Longrightarrow>
     primaryKey con = (if list_ex is_primary ks then Is True else Absent)"
proof (induction ks arbitrary: con)
  case Nil
  then show ?case by (simp add: clauses_constraint_def)
next
  case (Cons k ks)
  show ?case
  proof (cases "clauses_constraint sn ks")
    case None
    then have "ks = []" by (cases ks) (simp_all add: clauses_constraint_simps)
    with Cons.prems show ?thesis
      by (auto simp: clauses_constraint_simps primaryKey_spread_opt primaryKey_clause)
  next
    case (Some r)
    with Cons.prems Cons.IH [OF Some] show ?thesis
      by (auto simp: clauses_constraint_simps primaryKey_spread_opt primaryKey_clause field_over_def)
  qed
qed

lemma clauses_pk:
  "Option.bind (clauses_constraint sn ks) (\<lambda>k. field_opt (primaryKey k)) =
     (if list_ex is_primary ks then Some True else None)"
proof (cases "clauses_constraint sn ks")
  case None
  then show ?thesis by (cases ks) (simp_all add: clauses_constraint_def)
next
  case (Some con)
  then show ?thesis using clauses_primaryKey [OF Some] by simp
qed

lemma columnDef_view:
  assumes "cursor_ok c" and "view c = coldef_tokens d @ rest" and "stops rest" and "coldef_ok d"
  shows "\<exists>c1. parseColumnDef sn c = Inr (Some (coldef_column sn d), c1)
           \<and> cursor_ok c1 \<and> view c1 = rest"
proof -
  let ?c2 = "cnext (cnext c)"
  have v: "view ?c2 = concat (map clause_tokens (cdClauses d)) @ rest"
    using assms(1,2) by (simp add: coldef_tokens_def stream_simps)
  have "follow (view ?c2)"
    unfolding v using assms(3) by (cases "cdClauses d") (auto simp: stops_follow)
  then have "\<not> cmatch ?c2 ''(''" by (intro follow_not) simp_all
  moreover obtain c1 where "cursor_ok c1" "view c1 = rest"
    "parseColumnConstraint sn ?c2 = Inr (clauses_constraint sn (cdClauses d), c1)"
    using clauses_view [OF _ v assms(3), of sn] assms(4) by (auto simp: coldef_ok_def)
  ultimately show ?thesis
    using assms
    by (simp add: parseColumnDef_def consumeIdentifier_def stream_simps coldef_tokens_def
        coldef_ok_def coldef_column_def clauses_pk)
qed

fun coldefs_tokens :: "coldef list \<Rightarrow> token list" where
  "coldefs_tokens [] = []"
| "coldefs_tokens [d] = coldef_tokens d"
| "coldefs_tokens (d # e # ds) = coldef_tokens d @ word '','' # coldefs_tokens (e # ds)"

lemma coldef_not_table_constraint:
  "cursor_ok c \<Longrightarrow> view c = coldef_tokens d @ rest \<Longrightarrow> coldef_ok d \<Longrightarrow>
     \<not> matchTokens c [''CONSTRAINT'', ''PRIMARY'', ''UNIQUE'', ''CHECK'', ''FOREIGN'']"
  by (simp add: matchTokens_def cursor.rd_stream coldef_tokens_def coldef_ok_def)

lemma table_loop_view:
  "cursor_ok c \<Longrightarrow> view c = coldefs_tokens ds \<Longrightarrow> ds \<noteq> [] \<Longrightarrow> list_all coldef_ok ds \<Longrightarrow>
     table_loop sn c acc = Inr (fst acc @ map (coldef_column sn) ds, snd acc)"
proof (induction ds arbitrary: c acc rule: coldefs_tokens.induct)
  case (2 d)
  then obtain c1 where "parseColumnDef sn c = Inr (Some (coldef_column sn d), c1)" "cursor_ok c1"
    "view c1 = []"
    using columnDef_view [of c d "[]" sn] by auto
  with 2 show ?case
    using coldef_not_table_constraint [of c d "[]"]
    by (simp add: table_loop.simps [of sn c] table_item_def skip_to_comma.simps [of c1] stream_simps)
next
  case (3 d e ds)
  let ?rest = "word '','' # coldefs_tokens (e # ds)"
  obtain c1 where c1: "parseColumnDef sn c = Inr (Some (coldef_column sn d), c1)" "cursor_ok c1"
    "view c1 = ?rest"
    using columnDef_view [of c d ?rest sn] "3.prems" by auto
  have "table_loop sn (cnext c1) (fst acc @ [coldef_column sn d], snd acc)
    = Inr (fst acc @ map (coldef_column sn) (d # e # ds), snd acc)"
    using "3.IH" [of "cnext c1"] "3.prems" c1 by (simp add: stream_simps)
  with "3.prems" c1 show ?case
    using coldef_not_table_constraint [of c d ?rest]
    by (simp add: table_loop.simps [of sn c] table_item_def skip_to_comma.simps [of c1] stream_simps)
qed simp

section \<open>Scripts\<close>

definition table_script :: "string \<Rightarrow> coldef list \<Rightarrow> token list" where
  "table_script name ds =
     [word ''CREATE'', word ''TABLE'', word name, word ''('']
     @ coldefs_tokens ds @ [word '')'']"

definition coldef_balanced :: "coldef \<Rightarrow> bool" where
  "coldef_balanced d =
     (plain_word (cdName d) \<and> plain_word (cdType d)
      \<and> list_all (\<lambda>k. case k of CCollate n \<Rightarrow> plain_word n | CDefaultNumber n \<Rightarrow> plain_word n
          | CReferences t cs \<Rightarrow> plain_word t | _ \<Rightarrow> True) (cdClauses d))"

lemma open_after_append:
  "open_after k xs = Some m \<Longrightarrow> open_after k (xs @ ys) = open_after m ys"
  by (induction xs arbitrary: k) (auto split: if_splits)

lemma plain_quoted: "plain_word (quote1 # s @ [quote1])"
  by (simp add: plain_word_def)

lemma open_after_plain_token:
  "plain_word (tkValue t) \<Longrightarrow> 0 < k \<Longrightarrow> open_after k (t # ts) = open_after k ts"
  by (simp add: plain_word_def)

lemma open_after_comma: "0 < k \<Longrightarrow> open_after k (word '','' # ts) = open_after k ts"
  by simp

lemma open_after_columns:
  "list_all plain_word cs \<Longrightarrow> 0 < k \<Longrightarrow> open_after k (comma_tokens cs) = Some k"
proof (induction cs rule: comma_tokens.induct)
  case (3 n m ns)
  then show ?case by (simp add: open_after_plain open_after_comma del: open_after.simps(2))
qed (simp_all add: open_after_plain del: open_after.simps(2))

lemma open_after_clause:
  assumes "clause_ok k" and "case k of CCollate n \<Rightarrow> plain_word n | CDefaultNumber n \<Rightarrow> plain_word n
          | CReferences t cs \<Rightarrow> plain_word t | _ \<Rightarrow> True"
  shows "open_after 1 (clause_tokens k) = Some 1"
proof (cases k)
  case (CPrimary ord auto)
  then show ?thesis by (cases ord; cases "the ord") auto
next
  case (CReferences t cs)
  then have "open_after 2 (comma_tokens cs) = Some 2"
    using assms by (intro open_after_columns) simp_all
  then show ?thesis
    using CReferences assms open_after_append [of 2 "comma_tokens cs" 2 "[word '')'']"]
    by (simp add: plain_word_def numeral_2_eq_2)
qed (use assms in \<open>auto simp: plain_word_def\<close>)

lemma open_after_clauses:
  "list_all clause_ok ks \<Longrightarrow> list_all (\<lambda>k. case k of CCollate n \<Rightarrow> plain_word n
      | CDefaultNumber n \<Rightarrow> plain_word n | CReferences t cs \<Rightarrow> plain_word t | _ \<Rightarrow> True) ks \<Longrightarrow>
     open_after 1 (concat (map clause_tokens ks)) = Some 1"
proof (induction ks)
  case (Cons k ks)
  then have "open_after 1 (clause_tokens k) = Some 1" by (intro open_after_clause) simp_all
  from open_after_append [OF this] Cons show ?case by simp
qed simp

lemma balanced_coldefs:
  "list_all coldef_ok ds \<Longrightarrow> list_all coldef_balanced ds \<Longrightarrow> balanced (coldefs_tokens ds)"
proof (induction ds rule: coldefs_tokens.induct)
  case 1
  show ?case by (simp add: balanced_def)
next
  case (2 d)
  then show ?case
    using open_after_clauses [of "cdClauses d"]
    by (simp add: balanced_def coldef_tokens_def coldef_ok_def coldef_balanced_def open_after_plain
        del: open_after.simps(2))
next
  case (3 d e ds)
  have "open_after 1 (coldef_tokens d) = Some 1"
    using open_after_clauses [of "cdClauses d"] "3.prems"
    by (simp add: coldef_tokens_def coldef_ok_def coldef_balanced_def open_after_plain
        del: open_after.simps(2))
  from open_after_append [OF this] 3 show ?case
    by (simp add: balanced_def)
qed

lemma script_head_table:
  assumes "cursor_ok c" and "view c = word ''CREATE'' # word ''TABLE'' # word name # rest"
    and "name \<noteq> ''IF''"
  shows "\<exists>c1. script_head [''TEMP'', ''TEMPORARY'', ''VIRTUAL''] ''TABLE'' c
            = Inr (unescapeIdentity name, c1) \<and> cursor_ok c1 \<and> view c1 = rest"
  using assms
  by (simp add: script_head_def expectToken_def expectTokenOptional_def consumeIdentifier_def
      stream_simps)

text \<open>The column that stands for a definition in the result: a reference without columns means
  the column itself.\<close>

definition coldef_result :: "string \<Rightarrow> coldef \<Rightarrow> DatabaseTableColumn" where
  "coldef_result sn d = default_fk (coldef_column sn d)"

lemma default_fk_pk [simp]: "colName (default_fk col) = colName col" "colPk (default_fk col) = colPk col"
  by (simp_all add: default_fk_def split: option.splits)

lemma parseTableDefinition_view:
  assumes "cursor_ok c" and "view c = coldefs_tokens ds" and "ds \<noteq> []" and "list_all coldef_ok ds"
  shows "parseTableDefinition sn c = Inr (map (coldef_result sn) ds, [])"
  using table_loop_view [OF assms] by (simp add: parseTableDefinition_def coldef_result_def)


definition example_table :: "coldef list" where
  "example_table =
     [\<lparr>cdName = ''id'', cdType = ''INTEGER'', cdClauses = [CPrimary (Some DESC) True, CNotNull]\<rparr>,
      \<lparr>cdName = ''[b]'', cdType = ''TEXT'', cdClauses = [CReferences ''u'' []]\<rparr>]"

lemma example_table_names:
  "map (\<lambda>d. unescapeIdentity (cdName d)) example_table = [''id'', ''b'']"
  "map (\<lambda>d. unescapeIdentity (cdName d))
     (filter (\<lambda>d. list_ex is_primary (cdClauses d)) example_table) = [''id'']"
  by code_simp+


end
