(* ===== verification/Effects.thy ===== *)
theory Effects
  imports DatabaseTypes
begin

text \<open>
  Asynchronous code that talks to the outside: a computation takes the state of the outside
  world (the database behind a connection) and returns its result or exception with the new
  state.  \<open>await\<close> is the sequencing \<open>io_bind\<close>; an exception ends the computation and keeps what
  the world has already seen.
\<close>

type_synonym ('w, 'a) io = "'w \<Rightarrow> 'a result \<times> 'w"

definition io_return :: "'a \<Rightarrow> ('w, 'a) io" where
  "io_return x = (\<lambda>w. (Inr x, w))"

definition io_throw :: "js_error \<Rightarrow> ('w, 'a) io" where
  "io_throw e = (\<lambda>w. (Inl e, w))"

definition io_bind :: "('w, 'a) io \<Rightarrow> ('a \<Rightarrow> ('w, 'b) io) \<Rightarrow> ('w, 'b) io" where
  "io_bind m f = (\<lambda>w. case m w of (Inl e, w1) \<Rightarrow> (Inl e, w1) | (Inr x, w1) \<Rightarrow> f x w1)"

definition io_lift :: "'a result \<Rightarrow> ('w, 'a) io" where
  "io_lift r = (\<lambda>w. (r, w))"

text \<open>\<open>try { m } catch { h }\<close>.\<close>

definition io_catch :: "('w, 'a) io \<Rightarrow> (js_error \<Rightarrow> ('w, 'a) io) \<Rightarrow> ('w, 'a) io" where
  "io_catch m h = (\<lambda>w. case m w of (Inl e, w1) \<Rightarrow> h e w1 | (Inr x, w1) \<Rightarrow> (Inr x, w1))"

lemma io_simps [simp]:
  "io_return x w = (Inr x, w)"
  "io_throw e w = (Inl e, w)"
  "io_lift r w = (r, w)"
  by (simp_all add: io_return_def io_throw_def io_lift_def)

lemma io_bind_run:
  "m w = (Inr x, w1) \<Longrightarrow> io_bind m f w = f x w1"
  "m w = (Inl e, w1) \<Longrightarrow> io_bind m f w = (Inl e, w1)"
  by (simp_all add: io_bind_def)

lemma io_bind_simps [simp]:
  "io_bind (io_return x) f = f x"
  "io_bind (io_throw e) f = io_throw e"
  "io_bind (io_lift (Inr x)) f = f x"
  "io_bind (io_lift (Inl e)) f = io_throw e"
  by (simp_all add: io_bind_def io_return_def io_throw_def io_lift_def)

lemma io_bind_Pair [simp]:
  "io_bind (Pair (Inr x)) f = f x"
  "io_bind (Pair (Inl e)) f = Pair (Inl e)"
  by (simp_all add: io_bind_def)

lemma io_bind_assoc: "io_bind (io_bind m f) g = io_bind m (\<lambda>x. io_bind (f x) g)"
  by (rule ext) (simp add: io_bind_def split: prod.splits sum.splits)

lemma io_bind_Inr_iff:
  "io_bind m f w = (Inr y, w2) \<longleftrightarrow> (\<exists>x w1. m w = (Inr x, w1) \<and> f x w1 = (Inr y, w2))"
  by (auto simp: io_bind_def split: prod.splits sum.splits)

lemma io_bind_Inl_iff:
  "io_bind m f w = (Inl e, w2) \<longleftrightarrow>
     m w = (Inl e, w2) \<or> (\<exists>x w1. m w = (Inr x, w1) \<and> f x w1 = (Inl e, w2))"
  by (auto simp: io_bind_def split: prod.splits sum.splits)

lemma io_catch_run:
  "m w = (Inr x, w1) \<Longrightarrow> io_catch m h w = (Inr x, w1)"
  "m w = (Inl e, w1) \<Longrightarrow> io_catch m h w = h e w1"
  by (simp_all add: io_catch_def)

text \<open>\<open>for (const x of xs) result.push(await f(x))\<close>.\<close>

fun io_map :: "('a \<Rightarrow> ('w, 'b) io) \<Rightarrow> 'a list \<Rightarrow> ('w, 'b list) io" where
  "io_map f [] = io_return []"
| "io_map f (x # xs) =
     io_bind (f x) (\<lambda>y. io_bind (io_map f xs) (\<lambda>ys. io_return (y # ys)))"

lemma io_map_length: "io_map f xs w = (Inr ys, w1) \<Longrightarrow> length ys = length xs"
  by (induction xs arbitrary: ys w w1) (auto simp: io_bind_Inr_iff)

text \<open>The methods of a connection (\<open>QueryableBaseDriver\<close>): the database is not in the repository.\<close>

record 'w Connection =
  dbQuery :: "string \<Rightarrow> ('w, DatabaseResultSet) io"
  dbTransaction :: "string list \<Rightarrow> ('w, DatabaseResultSet list) io"

text \<open>A driver's own methods that the shared code calls.\<close>

record Dialect =
  dEscapeId :: "string \<Rightarrow> string"
  dEscapeValue :: "jsval \<Rightarrow> string"
  dFlags :: DriverFlags

end
