(* ===== verification/QueryBuilder.thy ===== *)
theory QueryBuilder
  imports SqlText Effects
begin

text \<open>
  Statements on rows: \<open>admin/src/drivers/query-builder.ts\<close>, \<open>validateOperation\<close> of
  \<open>admin/src/lib/validation.ts\<close> and the class \<open>CommonSQLImplement\<close> of
  \<open>admin/src/drivers/common-sql-imp.ts\<close>.
\<close>

section \<open>The query builder\<close>

definition condition :: "Dialect \<Rightarrow> string \<times> jsval \<Rightarrow> string" where
  "condition d = (\<lambda>(columnName, v). dEscapeId d columnName @ '' = '' @ dEscapeValue d v)"

definition generateWhere :: "Dialect \<Rightarrow> jsval obj \<Rightarrow> string option" where
  "generateWhere d wh =
     (let conditions = js_join '' AND '' (map (condition d) (obj_entries wh))
      in if 0 < length conditions then Some (''WHERE '' @ conditions) else None)"

definition generateSet :: "Dialect \<Rightarrow> jsval obj \<Rightarrow> string" where
  "generateSet d wh = js_join '', '' (map (condition d) (obj_entries wh))"

definition generateInsertValue :: "Dialect \<Rightarrow> jsval obj \<Rightarrow> string" where
  "generateInsertValue d values =
     ''('' @ js_join '', '' (map (\<lambda>(k, v). dEscapeId d k) (obj_entries values)) @ '') VALUES(''
     @ js_join '', '' (map (\<lambda>(k, v). dEscapeValue d v) (obj_entries values)) @ '')''"

definition is_integer :: "jsnum option \<Rightarrow> bool" where
  "is_integer n = (case n of Some (Dec m s) \<Rightarrow> m mod 10 ^ s = 0 | _ \<Rightarrow> False)"

definition generateLimit :: "jsnum option \<Rightarrow> jsnum option \<Rightarrow> string option" where
  "generateLimit limit offset =
     (if \<not> is_integer limit then None
      else if \<not> is_integer offset then None
      else Some (''LIMIT '' @ num_str (the limit) @ '' OFFSET '' @ num_str (the offset)))"

definition qualifiedName :: "Dialect \<Rightarrow> string \<Rightarrow> string \<Rightarrow> string" where
  "qualifiedName d schema table = dEscapeId d schema @ ''.'' @ dEscapeId d table"

definition selectFrom ::
  "Dialect \<Rightarrow> string \<Rightarrow> string \<Rightarrow> jsval obj \<Rightarrow> (jsnum option \<times> jsnum option) option \<Rightarrow> string"
where
  "selectFrom d schema table wh options =
     js_join '' '' (filter_boolean
       [Some ''SELECT'', Some ''*'', Some ''FROM'', Some (qualifiedName d schema table),
        generateWhere d wh,
        generateLimit (Option.bind options fst) (Option.bind options snd)])"

definition returning :: "bool \<Rightarrow> bool \<Rightarrow> string" where
  "returning withReturning withRowId =
     (if withReturning then ''RETURNING '' @ (if withRowId then ''rowid, '' else []) @ ''*''
      else [])"

definition insertInto ::
  "Dialect \<Rightarrow> string \<Rightarrow> string \<Rightarrow> jsval obj \<Rightarrow> bool \<Rightarrow> bool \<Rightarrow> string" where
  "insertInto d schema table v withReturning withRowId =
     js_join '' ''
       [''INSERT INTO'', qualifiedName d schema table, generateInsertValue d v,
        returning withReturning withRowId]"

definition updateTable ::
  "Dialect \<Rightarrow> string \<Rightarrow> string \<Rightarrow> jsval obj \<Rightarrow> jsval obj \<Rightarrow> bool \<Rightarrow> bool \<Rightarrow> string" where
  "updateTable d schema table v wh withReturning withRowId =
     js_join '' '' (filter_boolean
       [Some ''UPDATE'', Some (qualifiedName d schema table), Some ''SET'', Some (generateSet d v),
        generateWhere d wh, Some (returning withReturning withRowId)])"

definition deleteFrom :: "Dialect \<Rightarrow> string \<Rightarrow> string \<Rightarrow> jsval obj \<Rightarrow> string" where
  "deleteFrom d schema table wh =
     js_join '' '' (filter_boolean
       [Some ''DELETE FROM'', Some (qualifiedName d schema table), generateWhere d wh])"

section \<open>Validation\<close>

definition noPrimaryKeyReason :: string where
  "noPrimaryKeyReason =
     ''This table does not have any primary key. It is not safe to perform any update/delete/insert operation.''"

definition validateOperation ::
  "DatabaseTableOperation \<Rightarrow> DatabaseTableSchema \<Rightarrow> bool \<times> string option" where
  "validateOperation op validateSchema =
     (let pks = tsPk validateSchema;
          originalValue = (case op of OpInsert v a p \<Rightarrow> [] | OpUpdate v w \<Rightarrow> w | OpDelete w \<Rightarrow> w);
          changeValue = (case op of OpInsert v a p \<Rightarrow> v | OpUpdate v w \<Rightarrow> v | OpDelete w \<Rightarrow> []);
          autoIncrement = tsAutoIncrement validateSchema;
          hasAnyPrimaryKeyNull = list_ex nullish (map (obj_at originalValue) pks);
          hasAnyUpdatePrimaryKeyNull = list_ex nullish (map (\<lambda>k.
            if obj_at changeValue k = Undefined then obj_at originalValue k
            else obj_at changeValue k) pks)
      in if pks = [] then (False, Some noPrimaryKeyReason)
         else case op of
           OpDelete w \<Rightarrow>
             if hasAnyPrimaryKeyNull
             then (False, Some ''It is not safe to remove row with NULL in primary key column'')
             else (True, None)
         | OpUpdate v w \<Rightarrow>
             if hasAnyPrimaryKeyNull
             then (False, Some ''It is not safe to update row with NULL in primary key column'')
             else if hasAnyUpdatePrimaryKeyNull
             then (False, Some ''It is not safe to update row to NULL in primary key column'')
             else (True, None)
         | OpInsert v a p \<Rightarrow>
             if autoIncrement \<and> hd pks \<noteq> [] \<and> obj_at changeValue (hd pks) = Null
             then (False, Some ''It is not safe to insert row with NULL in primary key column'')
             else if \<not> autoIncrement \<and> hasAnyUpdatePrimaryKeyNull
             then (False, Some ''It is not safe to insert row with NULL in primary key column'')
             else (True, None))"

section \<open>CommonSQLImplement\<close>

fun validateUpdateOperation ::
  "DatabaseTableOperation list \<Rightarrow> DatabaseTableSchema \<Rightarrow> unit result" where
  "validateUpdateOperation [] validateSchema = Inr ()"
| "validateUpdateOperation (op # ops) validateSchema =
     (let (valid, reason) = validateOperation op validateSchema
      in if \<not> valid then Inl (JsError (case reason of None \<Rightarrow> [] | Some r \<Rightarrow> r))
         else validateUpdateOperation ops validateSchema)"

definition batch :: "'w Connection \<Rightarrow> string list \<Rightarrow> ('w, DatabaseResultSet list) io" where
  "batch db stmts = io_map (dbQuery db) stmts"

definition findFirst_sql :: "Dialect \<Rightarrow> string \<Rightarrow> string \<Rightarrow> jsval obj \<Rightarrow> string" where
  "findFirst_sql d schemaName tableName key =
     (let wherePart = js_join '' AND ''
            (map (\<lambda>(c, v). dEscapeId d c @ '' = '' @ escapeValue v) (obj_entries key))
      in ''SELECT * FROM '' @ qualifiedName d schemaName tableName @ '' ''
         @ (if wherePart \<noteq> [] then ''WHERE '' @ wherePart else []) @ '' LIMIT 1 OFFSET 0'')"

definition findFirst ::
  "Dialect \<Rightarrow> 'w Connection \<Rightarrow> string \<Rightarrow> string \<Rightarrow> jsval obj \<Rightarrow> ('w, DatabaseResultSet) io" where
  "findFirst d db schemaName tableName key = dbQuery db (findFirst_sql d schemaName tableName key)"

definition operation_sql ::
  "Dialect \<Rightarrow> string \<Rightarrow> string \<Rightarrow> DatabaseTableOperation \<Rightarrow> string" where
  "operation_sql d schemaName tableName op =
     (case op of
        OpInsert v a p \<Rightarrow> insertInto d schemaName tableName v
          (supportInsertReturning (dFlags d)) (supportRowId (dFlags d))
      | OpDelete w \<Rightarrow> deleteFrom d schemaName tableName w
      | OpUpdate v w \<Rightarrow> updateTable d schemaName tableName v w
          (supportInsertReturning (dFlags d)) (supportRowId (dFlags d)))"

definition first_row :: "DatabaseResultSet \<Rightarrow> jsval obj option" where
  "first_row r = (case rsRows r of [] \<Rightarrow> None | x # _ \<Rightarrow> Some x)"

definition no_result :: DatabaseTableOperationReslt where
  "no_result = \<lparr>resLastId = None, resRecord = None\<rparr>"

definition rowid_value :: "jsnum option \<Rightarrow> jsval" where
  "rowid_value n = (case n of None \<Rightarrow> Undefined | Some i \<Rightarrow> Num i)"

text \<open>The body of the loop over the results; \<open>findRow\<close> is the method \<open>findFirst\<close> of the class.\<close>

definition operation_result ::
  "(jsval obj \<Rightarrow> ('w, DatabaseResultSet) io) \<Rightarrow> DatabaseTableOperation option \<Rightarrow>
   DatabaseResultSet \<Rightarrow> ('w, DatabaseTableOperationReslt) io" where
  "operation_result findRow op r =
     (case op of
        None \<Rightarrow> io_return no_result
      | Some (OpUpdate v w) \<Rightarrow>
          if length (rsRows r) = 1 then io_return (no_result\<lparr>resRecord := first_row r\<rparr>)
          else io_bind (findRow w) (\<lambda>s.
            io_return \<lparr>resLastId = rsLastInsertRowid r, resRecord = first_row s\<rparr>)
      | Some (OpInsert v a p) \<Rightarrow>
          if length (rsRows r) = 1 then io_return (no_result\<lparr>resRecord := first_row r\<rparr>)
          else if truthy_str a then
            io_bind (findRow [(the a, rowid_value (rsLastInsertRowid r))]) (\<lambda>s.
              io_return \<lparr>resLastId = rsLastInsertRowid r, resRecord = first_row s\<rparr>)
          else if p \<noteq> None \<and> 0 < length (the p) then
            io_bind (findRow (foldl (\<lambda>o1 k. obj_set k (obj_at v k) o1) [] (the p))) (\<lambda>s.
              io_return \<lparr>resLastId = rsLastInsertRowid r, resRecord = first_row s\<rparr>)
          else io_return no_result
      | Some (OpDelete w) \<Rightarrow> io_return no_result)"

fun collect_results ::
  "(jsval obj \<Rightarrow> ('w, DatabaseResultSet) io) \<Rightarrow> DatabaseTableOperation list \<Rightarrow>
   DatabaseResultSet list \<Rightarrow> ('w, DatabaseTableOperationReslt list) io" where
  "collect_results findRow ops [] = io_return []"
| "collect_results findRow ops (r # rs) =
     io_bind (operation_result findRow (case ops of [] \<Rightarrow> None | x # _ \<Rightarrow> Some x) r) (\<lambda>y.
       io_bind (collect_results findRow (tl ops) rs) (\<lambda>ys. io_return (y # ys)))"

definition updateTableData ::
  "Dialect \<Rightarrow> 'w Connection \<Rightarrow>
   (string \<Rightarrow> string \<Rightarrow> jsval obj \<Rightarrow> ('w, DatabaseResultSet) io) \<Rightarrow>
   string \<Rightarrow> string \<Rightarrow> DatabaseTableOperation list \<Rightarrow> DatabaseTableSchema option \<Rightarrow>
   ('w, DatabaseTableOperationReslt list) io" where
  "updateTableData d db findRow schemaName tableName ops validateSchema =
     io_bind (io_lift (case validateSchema of
                None \<Rightarrow> Inr () | Some s \<Rightarrow> validateUpdateOperation ops s)) (\<lambda>_.
       io_bind (dbTransaction db (map (operation_sql d schemaName tableName) ops)) (\<lambda>rs.
         collect_results (findRow schemaName tableName) ops rs))"

definition order_part :: "Dialect \<Rightarrow> SelectFromTableOptions \<Rightarrow> string" where
  "order_part d opts =
     (case orderBy opts of
        None \<Rightarrow> []
      | Some os \<Rightarrow> if 0 < length os
          then js_join '', '' (map (\<lambda>r. dEscapeId d (soColumnName r) @ '' '' @ order_str (soBy r)) os)
          else [])"

definition select_sql ::
  "Dialect \<Rightarrow> string \<Rightarrow> string \<Rightarrow> string \<Rightarrow> SelectFromTableOptions \<Rightarrow> string" where
  "select_sql d prefix schemaName tableName opts =
     (let whereText = map_option js_trim (whereRaw opts)
      in ''SELECT '' @ prefix @ ''* FROM '' @ qualifiedName d schemaName tableName
         @ (if truthy_str whereText then '' WHERE '' @ the whereText @ '' '' else [])
         @ '' '' @ (if order_part d opts \<noteq> [] then '' ORDER BY '' @ order_part d opts else [])
         @ '' LIMIT '' @ escapeValue (Num (optLimit opts))
         @ '' OFFSET '' @ escapeValue (Num (optOffset opts)) @ '';'')"

definition selectTable ::
  "Dialect \<Rightarrow> 'w Connection \<Rightarrow> (string \<Rightarrow> string \<Rightarrow> ('w, DatabaseTableSchema) io) \<Rightarrow>
   string \<Rightarrow> string \<Rightarrow> SelectFromTableOptions \<Rightarrow>
   ('w, DatabaseResultSet \<times> DatabaseTableSchema) io" where
  "selectTable d db tableSchema schemaName tableName opts =
     io_bind (dbQuery db (select_sql d [] schemaName tableName opts)) (\<lambda>res.
       io_bind (tableSchema schemaName tableName) (\<lambda>s. io_return (res, s)))"

definition dropTable :: "Dialect \<Rightarrow> 'w Connection \<Rightarrow> string \<Rightarrow> string \<Rightarrow> ('w, unit) io" where
  "dropTable d db schemaName tableName =
     io_bind (dbQuery db (''DROP TABLE '' @ qualifiedName d schemaName tableName @ '';''))
       (\<lambda>_. io_return ())"

definition emptyTable :: "Dialect \<Rightarrow> 'w Connection \<Rightarrow> string \<Rightarrow> string \<Rightarrow> ('w, unit) io" where
  "emptyTable d db schemaName tableName =
     io_bind (dbQuery db (''DELETE FROM '' @ qualifiedName d schemaName tableName @ '';''))
       (\<lambda>_. io_return ())"

end
