(* ===== verification/Dialects.thy ===== *)
theory Dialects
  imports QueryBuilder
begin

text \<open>
  The drivers' own methods \<open>escapeId\<close>, \<open>escapeValue\<close> and \<open>getFlags\<close>
  (\<open>sqlite-base-driver.ts\<close>, \<open>postgres/postgres-driver.ts\<close>, \<open>mysql/mysql-driver.ts\<close>).
  The interface \<open>row_dialect\<close> says what the readers of generated statements need of a driver.
  A reader of conditions, assignments and literals, with the lexical rules of SQL, is the
  specification: the text of a statement on rows reads back to what was asked for, whatever
  characters names and values have.
\<close>

definition sqlite_flags :: "bool \<Rightarrow> DriverFlags" where
  "sqlite_flags bigint =
     \<lparr>defaultSchema = ''main'', optionalSchema = True, supportBigInt = bigint,
      supportCreateUpdateTable = True, supportModifyColumn = False, dialect = Sqlite,
      supportUseStatement = None, supportInsertReturning = True, supportUpdateReturning = True,
      supportRowId = True, supportCreateUpdateDatabase = False,
      supportCreateUpdateTrigger = True\<rparr>"

definition mysql_flags :: "string \<Rightarrow> DriverFlags" where
  "mysql_flags selectedDatabase =
     \<lparr>defaultSchema = selectedDatabase, optionalSchema = (selectedDatabase \<noteq> []),
      supportBigInt = False, supportCreateUpdateTable = True, supportModifyColumn = True,
      dialect = Mysql, supportUseStatement = Some True, supportInsertReturning = False,
      supportUpdateReturning = False, supportRowId = False,
      supportCreateUpdateDatabase = (selectedDatabase = []), supportCreateUpdateTrigger = True\<rparr>"

definition postgres_flags :: DriverFlags where
  "postgres_flags =
     \<lparr>defaultSchema = ''public'', optionalSchema = False, supportBigInt = False,
      supportCreateUpdateTable = True, supportModifyColumn = True, dialect = Postgres,
      supportUseStatement = Some True, supportInsertReturning = True,
      supportUpdateReturning = True, supportRowId = False, supportCreateUpdateDatabase = False,
      supportCreateUpdateTrigger = False\<rparr>"

definition sqlite_dialect :: Dialect where
  "sqlite_dialect = \<lparr>dEscapeId = escapeIdentity, dEscapeValue = escapeValue,
     dFlags = sqlite_flags False\<rparr>"

definition mysql_dialect :: Dialect where
  "mysql_dialect = \<lparr>dEscapeId = mysqlEscapeId, dEscapeValue = escapeValue, dFlags = mysql_flags []\<rparr>"

definition postgres_dialect :: Dialect where
  "postgres_dialect = \<lparr>dEscapeId = escapeIdentity, dEscapeValue = escapeValue,
     dFlags = postgres_flags\<rparr>"

section \<open>Reading literals\<close>

datatype literal = LitString string | LitBlob string | LitWord string

definition word_char :: "char \<Rightarrow> bool" where
  "word_char c = (c \<notin> {CHR '' '', CHR '','', CHR '')'', CHR '';'', quote1})"

fun value_literal :: "jsval \<Rightarrow> literal" where
  "value_literal (Str s) = LitString s"
| "value_literal (ArrayBuffer b) = LitBlob (hex b)"
| "value_literal (JsArray vs) = LitBlob (hex (map to_uint8 vs))"
| "value_literal v = LitWord (escapeValue v)"

text \<open>The values that SQL has: the others are printed as \<open>Invalid Value\<close>.\<close>

fun sql_value :: "jsval \<Rightarrow> bool" where
  "sql_value (Boolean b) = False"
| "sql_value (Uint8Array b) = False"
| "sql_value (JsObject kvs) = False"
| "sql_value _ = True"

definition read_literal :: "string \<Rightarrow> (literal \<times> string) option" where
  "read_literal s =
     (if js_starts_with s [quote1]
      then map_option (\<lambda>(t, r). (LitString t, r)) (read_quoted quote1 s)
      else if js_starts_with s [CHR ''x'', quote1]
      then map_option (\<lambda>(t, r). (LitBlob t, r)) (read_quoted quote1 (tl s))
      else if takeWhile word_char s = [] then None
      else Some (LitWord (takeWhile word_char s), dropWhile word_char s))"

definition read_condition :: "char \<Rightarrow> string \<Rightarrow> ((string \<times> literal) \<times> string) option" where
  "read_condition mark s =
     (case read_quoted mark s of
        None \<Rightarrow> None
      | Some (k, r) \<Rightarrow>
         if js_starts_with r '' = ''
         then map_option (\<lambda>(l, r2). ((k, l), r2)) (read_literal (drop 3 r))
         else None)"

fun read_conditions ::
  "char \<Rightarrow> string \<Rightarrow> nat \<Rightarrow> string \<Rightarrow> ((string \<times> literal) list \<times> string) option" where
  "read_conditions mark sep 0 s = None"
| "read_conditions mark sep (Suc n) s =
     (case read_condition mark s of
        None \<Rightarrow> None
      | Some (c, r) \<Rightarrow>
         if js_starts_with r sep
         then map_option (\<lambda>(cs, r2). (c # cs, r2)) (read_conditions mark sep n (drop (length sep) r))
         else Some ([c], r))"

definition read_name :: "char \<Rightarrow> string \<Rightarrow> ((string \<times> string) \<times> string) option" where
  "read_name mark s =
     (case read_quoted mark s of
        None \<Rightarrow> None
      | Some (schema, r) \<Rightarrow>
         if js_starts_with r ''.''
         then map_option (\<lambda>(t, r2). ((schema, t), r2)) (read_quoted mark (tl r))
         else None)"

text \<open>\<open>skip p s\<close>: the text behind the words \<open>p\<close>.\<close>

definition skip :: "string \<Rightarrow> string \<Rightarrow> string option" where
  "skip p s = (if js_starts_with s p then Some (drop (length p) s) else None)"

definition read_where ::
  "char \<Rightarrow> string \<Rightarrow> ((string \<times> literal) list \<times> string) option" where
  "read_where mark s =
     Option.bind (skip ''WHERE '' s) (\<lambda>r. read_conditions mark '' AND '' (length r) r)"

definition read_delete ::
  "char \<Rightarrow> string \<Rightarrow> ((string \<times> string) \<times> (string \<times> literal) list \<times> string) option" where
  "read_delete mark s =
     Option.bind (skip ''DELETE FROM '' s) (\<lambda>r.
       Option.bind (read_name mark r) (\<lambda>(n, r1).
         Option.bind (skip '' '' r1) (\<lambda>r2.
           map_option (\<lambda>(cs, r3). (n, cs, r3)) (read_where mark r2))))"

definition read_update ::
  "char \<Rightarrow> string \<Rightarrow> ((string \<times> string) \<times> (string \<times> literal) list \<times> (string \<times> literal) list
     \<times> string) option" where
  "read_update mark s =
     Option.bind (skip ''UPDATE '' s) (\<lambda>r.
       Option.bind (read_name mark r) (\<lambda>(n, r1).
         Option.bind (skip '' SET '' r1) (\<lambda>r2.
           Option.bind (read_conditions mark '', '' (length r2) r2) (\<lambda>(sets, r3).
             Option.bind (skip '' '' r3) (\<lambda>r4.
               map_option (\<lambda>(cs, r5). (n, sets, cs, r5)) (read_where mark r4))))))"

lemma skip_append [simp]: "skip p (p @ s) = Some s"
  by (simp add: skip_def)

section \<open>Literals read back\<close>

lemma quote1_char: "quote1 = CHR 0x27"
  by code_simp

definition ends :: "string \<Rightarrow> bool" where
  "ends r = (r = [] \<or> (\<not> word_char (hd r) \<and> hd r \<noteq> quote1))"

lemma ends_simps [simp]:
  "ends []" "ends (CHR '' '' # r)" "ends (CHR '','' # r)" "ends (CHR '')'' # r)"
  by (simp_all add: ends_def word_char_def quote1_char)

lemma ends_closes: "ends r \<Longrightarrow> closes quote1 r"
  by (auto simp: ends_def closes_def)

text \<open>Numbers are printed with digits, a sign, a point, or as a name.\<close>

definition plain_text :: "string \<Rightarrow> bool" where
  "plain_text t = (t \<noteq> [] \<and> list_all word_char t \<and> hd t \<noteq> CHR ''x'')"

lemma digit_word_char:
  "k < 10 \<Longrightarrow> word_char (char_of (48 + k :: nat)) \<and> char_of (48 + k :: nat) \<noteq> CHR ''x''"
  by (rule digits_check [of "\<lambda>c. word_char c \<and> c \<noteq> CHR ''x''"]) code_simp

lemma plain_text_chars:
  "t \<noteq> [] \<Longrightarrow> list_all (\<lambda>c. word_char c \<and> c \<noteq> CHR ''x'') t \<Longrightarrow> plain_text t"
  by (cases t) (auto simp: plain_text_def list_all_iff)

lemma word_char_marks:
  "word_char (CHR ''-'')" "word_char (CHR ''.'')" "word_char (CHR ''0'')"
  by (simp_all add: word_char_def quote1_char)

lemma int_str_plain: "plain_text (int_str i)"
  by (intro plain_text_chars int_str_all int_str_not_Nil) (auto simp: digit_word_char word_char_marks)

lemma dec_str_plain: "plain_text (dec_str m s)"
  by (intro plain_text_chars dec_str_all dec_str_not_Nil) (auto simp: digit_word_char word_char_marks)

lemma num_str_plain: "plain_text (num_str n)"
proof (cases n)
  case (Dec m s)
  then show ?thesis by (cases s) (simp_all add: int_str_plain dec_str_plain)
qed (auto simp: plain_text_def word_char_def quote1_char)

lemma read_word:
  assumes "plain_text t" and "ends r"
  shows "read_literal (t @ r) = Some (LitWord t, r)"
proof -
  obtain c u where t: "t = c # u" using assms(1) by (cases t) (auto simp: plain_text_def)
  have w: "\<And>d. d \<in> set t \<Longrightarrow> word_char d" using assms(1) by (auto simp: plain_text_def list_all_iff)
  have tw: "takeWhile word_char (t @ r) = t" "dropWhile word_char (t @ r) = r"
    using w assms(2)
    by (cases r; auto simp: ends_def takeWhile_append dropWhile_append dropWhile_eq_Nil_conv)+
  have "c \<noteq> quote1" "c \<noteq> CHR ''x''"
    using w [of c] t assms(1) by (auto simp: plain_text_def word_char_def)
  with tw t show ?thesis by (simp add: read_literal_def)
qed

lemma hex_no_quote: "list_all (\<lambda>c. c \<noteq> quote1) (hex bs)"
proof -
  have "list_all (\<lambda>n. hex_digit n \<noteq> quote1) [0..<16]" by code_simp
  then have "hex_digit n \<noteq> quote1" if "n < 16" for n
    using that by (auto simp: list_all_iff)
  moreover have "unat b div 16 < 16" for b :: byte
  proof -
    have "unat b < 256" using unsigned_less [of b, where ?'a = nat] by simp
    then show ?thesis by simp
  qed
  ultimately show ?thesis
    by (induction bs) (auto simp: hex_def byteToHex_def)
qed

lemma read_blob: "closes quote1 r \<Longrightarrow> read_literal (escapeSqlBinary bs @ r) = Some (LitBlob (hex bs), r)"
proof -
  assume r: "closes quote1 r"
  have "quote1 \<notin> set (hex bs)" using hex_no_quote [of bs] by (auto simp: list_all_iff)
  then have "read_quoted quote1 (quote1 # hex bs @ quote1 # r) = Some (hex bs, r)"
    using sql_string.read_back [OF r, of "hex bs"]
    by (simp add: escapeSqlString_def replace_char_id)
  then show ?thesis by (simp add: read_literal_def escapeSqlBinary_def quote1_char)
qed

lemma read_value:
  assumes "sql_value v" and "ends r"
  shows "read_literal (escapeValue v @ r) = Some (value_literal v, r)"
proof (cases v)
  case (Str s)
  have "read_quoted quote1 (escapeSqlString s @ r) = Some (s, r)"
    using sql_string.read_back [OF ends_closes [OF assms(2)]] .
  with Str show ?thesis
    by (simp add: escapeValue_def read_literal_def) (simp add: escapeSqlString_def)
next
  case (Num n)
  then show ?thesis using read_word [OF num_str_plain assms(2)] by (simp add: escapeValue_def)
next
  case (BigInt i)
  then show ?thesis using read_word [OF int_str_plain assms(2)] by (simp add: escapeValue_def)
next
  case Undefined
  have "plain_text ''DEFAULT''" by (simp add: plain_text_def word_char_def quote1_char)
  with Undefined show ?thesis using read_word [of "''DEFAULT''" r] assms(2) by (simp add: escapeValue_def)
next
  case Null
  have "parseUserInput ''NULL'' = ''NULL''" by code_simp
  moreover have "plain_text ''NULL''" by (simp add: plain_text_def word_char_def quote1_char)
  ultimately show ?thesis using Null read_word [of "''NULL''" r] assms(2) by (simp add: escapeValue_def)
qed (use assms in \<open>auto simp: escapeValue_def read_blob ends_closes\<close>)

section \<open>Statements read back\<close>

locale row_dialect =
  fixes d :: Dialect
    and mark :: char
  assumes id_read_back:
      "closes mark rest \<Longrightarrow> read_quoted mark (dEscapeId d s @ rest) = Some (s, rest)"
    and value_text: "dEscapeValue d v = escapeValue v"
    and mark_visible: "word_char mark \<and> mark \<noteq> CHR ''.''"
begin

lemma mark_not_separator [simp]:
  "CHR '' '' \<noteq> mark" "CHR ''.'' \<noteq> mark" "CHR '')'' \<noteq> mark"
  using mark_visible by (auto simp: word_char_def)

lemma ends_closes_mark: "ends r \<Longrightarrow> mark \<noteq> quote1 \<Longrightarrow> closes mark r"
  using mark_visible by (auto simp: ends_def closes_def)

lemma read_name_back:
  "closes mark rest \<Longrightarrow> read_name mark (qualifiedName d schema t @ rest) = Some ((schema, t), rest)"
  using id_read_back [of "CHR ''.'' # dEscapeId d t @ rest" schema] id_read_back [of rest t]
  by (simp add: read_name_def qualifiedName_def)

lemma read_condition_back:
  assumes "sql_value v" and "ends rest"
  shows "read_condition mark (condition d (k, v) @ rest) = Some ((k, value_literal v), rest)"
  using id_read_back [of "'' = '' @ escapeValue v @ rest" k] read_value [OF assms]
  by (simp add: read_condition_def condition_def value_text)

lemma read_conditions_back:
  assumes "sep = '' AND '' \<or> sep = '', ''" and "ends rest" and "\<not> js_starts_with rest sep"
  shows "kvs \<noteq> [] \<Longrightarrow> list_all (\<lambda>(k, v). sql_value v) kvs \<Longrightarrow> length kvs \<le> n \<Longrightarrow>
    read_conditions mark sep n (js_join sep (map (condition d) kvs) @ rest)
      = Some (map (\<lambda>(k, v). (k, value_literal v)) kvs, rest)"
proof (induction kvs arbitrary: n)
  case (Cons kv kvs)
  obtain k v where kv: "kv = (k, v)" by (cases kv)
  obtain m where n: "n = Suc m" using Cons.prems(3) by (cases n) auto
  show ?case
  proof (cases kvs)
    case Nil
    then show ?thesis
      using read_condition_back [of v rest k] Cons.prems assms kv n by simp
  next
    case (Cons kv2 kvs2)
    let ?tail = "js_join sep (map (condition d) kvs) @ rest"
    have "ends (sep @ ?tail)" using assms(1) by auto
    then have "read_condition mark (condition d kv @ sep @ ?tail)
        = Some ((k, value_literal v), sep @ ?tail)"
      using read_condition_back [of v _ k] Cons.prems(2) kv by simp
    then show ?thesis
      using Cons.IH [of m] Cons.prems Cons kv n by simp
  qed
qed simp

lemma condition_not_Nil: "condition d kv \<noteq> []"
  by (simp add: condition_def split_beta)

lemma conditions_length: "length kvs \<le> length (js_join sep (map (condition d) kvs))"
proof (induction kvs)
  case (Cons kv kvs)
  have "Suc 0 \<le> length (condition d kv)"
    using condition_not_Nil [of kv] by (cases "condition d kv") simp_all
  with Cons show ?case by (cases kvs) auto
qed simp

lemma generateWhere_text:
  "generateWhere d wh =
     (if wh = [] then None
      else Some (''WHERE '' @ js_join '' AND '' (map (condition d) (obj_entries wh))))"
proof -
  have "js_join '' AND '' (map (condition d) (obj_entries wh)) = [] \<longleftrightarrow> wh = []"
    by (subst js_join_Nil_iff) (auto simp: condition_not_Nil)
  then show ?thesis by (simp add: generateWhere_def)
qed

lemma read_where_back:
  assumes "list_all (\<lambda>(k, v). sql_value v) wh" and "wh \<noteq> []"
    and "ends rest" and "\<not> js_starts_with rest '' AND ''"
  shows "read_where mark (the (generateWhere d wh) @ rest)
     = Some (map (\<lambda>(k, v). (k, value_literal v)) (obj_entries wh), rest)"
proof -
  let ?t = "js_join '' AND '' (map (condition d) (obj_entries wh)) @ rest"
  have "list_all (\<lambda>(k, v). sql_value v) (obj_entries wh)"
    using assms(1) by (simp add: list_all_iff)
  moreover have "length (obj_entries wh) \<le> length ?t"
    using conditions_length [of "obj_entries wh" "'' AND ''"] by simp
  ultimately have "read_conditions mark '' AND '' (length ?t) ?t
      = Some (map (\<lambda>(k, v). (k, value_literal v)) (obj_entries wh), rest)"
    using assms by (intro read_conditions_back) simp_all
  moreover have "the (generateWhere d wh) @ rest = ''WHERE '' @ ?t"
    using assms(2) by (simp add: generateWhere_text)
  moreover have "skip ''WHERE '' (''WHERE '' @ ?t) = Some ?t" by (rule skip_append)
  ultimately show ?thesis by (simp only: read_where_def Option.bind.simps)
qed

lemma read_delete_back:
  assumes "list_all (\<lambda>(k, v). sql_value v) wh" and "wh \<noteq> []"
  shows "read_delete mark (deleteFrom d schema t wh)
     = Some ((schema, t), map (\<lambda>(k, v). (k, value_literal v)) (obj_entries wh), [])"
proof -
  obtain w where w: "generateWhere d wh = Some w" "w \<noteq> []"
    using assms(2) by (simp add: generateWhere_text)
  have name: "qualifiedName d schema t \<noteq> []" by (simp add: qualifiedName_def)
  have "deleteFrom d schema t wh = ''DELETE FROM '' @ qualifiedName d schema t @ '' '' @ w"
    using w name by (simp add: deleteFrom_def)
  moreover have "skip ''DELETE FROM '' (''DELETE FROM '' @ qualifiedName d schema t @ '' '' @ w)
      = Some (qualifiedName d schema t @ '' '' @ w)"
    by (rule skip_append)
  moreover have "read_name mark (qualifiedName d schema t @ '' '' @ w) = Some ((schema, t), '' '' @ w)"
    by (rule read_name_back) simp
  moreover have "skip '' '' ('' '' @ w) = Some w" by (rule skip_append)
  moreover have "read_where mark w
      = Some (map (\<lambda>(k, v). (k, value_literal v)) (obj_entries wh), [])"
    using read_where_back [OF assms, of "[]"] w by simp
  ultimately show ?thesis by (simp only: read_delete_def Option.bind.simps split_beta) simp
qed

lemma read_update_back:
  assumes "list_all (\<lambda>(k, v). sql_value v) v" and "v \<noteq> []"
    and "list_all (\<lambda>(k, v). sql_value v) wh" and "wh \<noteq> []"
  shows "read_update mark (updateTable d schema t v wh ret rowid)
     = Some ((schema, t), map (\<lambda>(k, v). (k, value_literal v)) (obj_entries v),
         map (\<lambda>(k, v). (k, value_literal v)) (obj_entries wh),
         if ret then CHR '' '' # returning ret rowid else [])"
proof -
  obtain w where w: "generateWhere d wh = Some w" "w \<noteq> []" "js_starts_with w ''W''"
    using assms(4) by (simp add: generateWhere_text)
  let ?tail = "if ret then CHR '' '' # returning ret rowid else []"
  let ?set = "generateSet d v"
  have name: "qualifiedName d schema t \<noteq> []" by (simp add: qualifiedName_def)
  have set: "?set \<noteq> []"
    unfolding generateSet_def using assms(2) by (subst js_join_Nil_iff) (auto simp: condition_not_Nil)
  have "updateTable d schema t v wh ret rowid
      = ''UPDATE '' @ qualifiedName d schema t @ '' SET '' @ ?set @ '' '' @ w @ ?tail"
    using w name set by (simp add: updateTable_def returning_def)
  moreover have "skip ''UPDATE '' (''UPDATE '' @ qualifiedName d schema t @ '' SET '' @ ?set @ '' '' @ w @ ?tail)
      = Some (qualifiedName d schema t @ '' SET '' @ ?set @ '' '' @ w @ ?tail)"
    by (rule skip_append)
  moreover have "read_name mark (qualifiedName d schema t @ '' SET '' @ ?set @ '' '' @ w @ ?tail)
      = Some ((schema, t), '' SET '' @ ?set @ '' '' @ w @ ?tail)"
    by (rule read_name_back) simp
  moreover have "skip '' SET '' ('' SET '' @ ?set @ '' '' @ w @ ?tail) = Some (?set @ '' '' @ w @ ?tail)"
    by (rule skip_append)
  moreover have "read_conditions mark '', '' (length (?set @ '' '' @ w @ ?tail)) (?set @ '' '' @ w @ ?tail)
      = Some (map (\<lambda>(k, v). (k, value_literal v)) (obj_entries v), '' '' @ w @ ?tail)"
    unfolding generateSet_def using assms conditions_length [of "obj_entries v" "'', ''"]
    by (intro read_conditions_back) (auto simp: list_all_iff)
  moreover have "skip '' '' ('' '' @ w @ ?tail) = Some (w @ ?tail)" by (rule skip_append)
  moreover have "read_where mark (w @ ?tail)
      = Some (map (\<lambda>(k, v). (k, value_literal v)) (obj_entries wh), ?tail)"
    using read_where_back [OF assms(3,4), of ?tail] w by (simp add: returning_def)
  ultimately show ?thesis by (simp only: read_update_def Option.bind.simps split_beta) simp
qed

end

interpretation sqlite_rows: row_dialect sqlite_dialect "CHR 0x22"
  by unfold_locales
     (simp_all add: sqlite_dialect_def sqlite_id.read_back word_char_def quote1_char)

interpretation postgres_rows: row_dialect postgres_dialect "CHR 0x22"
  by unfold_locales
     (simp_all add: postgres_dialect_def sqlite_id.read_back word_char_def quote1_char)

interpretation mysql_rows: row_dialect mysql_dialect "CHR ''`''"
  by unfold_locales
     (simp_all add: mysql_dialect_def mysql_id.read_back word_char_def quote1_char)

end
