(* ===== verification/RowFacts.thy ===== *)
theory RowFacts
  imports Dialects
begin

text \<open>
  The properties of statements on rows: what the generated text says, what validation
  guarantees of it, and what the database sees of \<open>updateTableData\<close>.
\<close>

fun driver_dialect :: "SupportedDialect \<Rightarrow> Dialect" where
  "driver_dialect Sqlite = sqlite_dialect"
| "driver_dialect Postgres = postgres_dialect"
| "driver_dialect Mysql = mysql_dialect"
| "driver_dialect Dolt = mysql_dialect"

fun id_mark :: "SupportedDialect \<Rightarrow> char" where
  "id_mark Sqlite = CHR 0x22"
| "id_mark Postgres = CHR 0x22"
| "id_mark _ = CHR ''`''"

definition conditions_of :: "jsval obj \<Rightarrow> (string \<times> literal) list" where
  "conditions_of wh = map (\<lambda>(k, v). (k, value_literal v)) (obj_entries wh)"





section \<open>Validation\<close>

lemma valid_pk:
  assumes "validateOperation op s = (True, r)" and "k \<in> set (tsPk s)"
  shows "(case op of OpDelete w \<Rightarrow> \<not> nullish (obj_at w k)
    | OpUpdate v w \<Rightarrow> \<not> nullish (obj_at w k) \<and> obj_at v k \<noteq> Null
    | OpInsert v a p \<Rightarrow> tsAutoIncrement s \<or> \<not> nullish (obj_at v k))"
proof (cases op)
  case (OpDelete w)
  with assms have "\<not> list_ex nullish (map (obj_at w) (tsPk s))"
    by (simp add: validateOperation_def Let_def split: if_splits)
  with assms(2) OpDelete show ?thesis by (simp add: list_ex_iff)
next
  case (OpUpdate v w)
  let ?new = "\<lambda>k. if obj_at v k = Undefined then obj_at w k else obj_at v k"
  from OpUpdate assms have "\<not> list_ex nullish (map (obj_at w) (tsPk s))"
    "\<not> list_ex nullish (map ?new (tsPk s))"
    by (simp_all add: validateOperation_def Let_def split: if_splits)
  with assms(2) have "\<not> nullish (obj_at w k)" "\<not> nullish (?new k)"
    by (simp_all only: list_ex_iff set_map) blast+
  then show ?thesis using OpUpdate by (auto simp: nullish_def)
next
  case (OpInsert v a p)
  let ?new = "\<lambda>k. if obj_at v k = Undefined then obj_at [] k else obj_at v k"
  show ?thesis
  proof (cases "tsAutoIncrement s")
    case False
    with OpInsert assms have "\<not> list_ex nullish (map ?new (tsPk s))"
      by (simp add: validateOperation_def Let_def split: if_splits)
    with assms(2) have "\<not> nullish (?new k)"
      by (simp only: list_ex_iff set_map) blast
    then show ?thesis using OpInsert by (simp split: if_splits)
  qed (simp add: OpInsert)
qed

lemma valid_pk_nonempty: "validateOperation op s = (True, r) \<Longrightarrow> tsPk s \<noteq> []"
  by (auto simp: validateOperation_def Let_def)

lemma obj_at_in_set: "\<not> nullish (obj_at w k) \<Longrightarrow> (k, obj_at w k) \<in> set w"
  by (auto simp: obj_at_def nullish_def split: option.splits dest: map_of_SomeD)

definition op_where_values :: "DatabaseTableOperation \<Rightarrow> jsval obj" where
  "op_where_values op = (case op of OpInsert v a p \<Rightarrow> [] | OpUpdate v w \<Rightarrow> w | OpDelete w \<Rightarrow> w)"

definition literal_of_null :: "literal \<Rightarrow> bool" where
  "literal_of_null l = (l = LitWord ''NULL'' \<or> l = LitWord ''DEFAULT'')"

lemma plain_not_null:
  assumes "list_all (\<lambda>c. c \<noteq> CHR ''L'' \<and> c \<noteq> CHR ''D'') t"
  shows "\<not> literal_of_null (LitWord t)"
  using assms by (auto simp: literal_of_null_def)

lemma digit_no_letter:
  "k < 10 \<Longrightarrow> char_of (48 + k :: nat) \<noteq> CHR ''L'' \<and> char_of (48 + k :: nat) \<noteq> CHR ''D''"
  by (rule digits_check [of "\<lambda>c. c \<noteq> CHR ''L'' \<and> c \<noteq> CHR ''D''"]) code_simp

lemma int_str_no_letter: "list_all (\<lambda>c. c \<noteq> CHR ''L'' \<and> c \<noteq> CHR ''D'') (int_str i)"
  by (rule int_str_all) (auto simp: digit_no_letter)

lemma dec_str_no_letter: "list_all (\<lambda>c. c \<noteq> CHR ''L'' \<and> c \<noteq> CHR ''D'') (dec_str m s)"
  by (rule dec_str_all) (auto simp: digit_no_letter)

lemma value_not_null:
  assumes "sql_value v" and "\<not> nullish v"
  shows "\<not> literal_of_null (value_literal v)"
proof (cases v)
  case (Num n)
  have "\<not> literal_of_null (LitWord (num_str n))"
  proof (cases n)
    case (Dec m s)
    then show ?thesis
      using plain_not_null [OF int_str_no_letter] plain_not_null [OF dec_str_no_letter]
      by (cases s) simp_all
  qed (auto simp: literal_of_null_def)
  with Num show ?thesis by (simp add: escapeValue_def)
next
  case (BigInt i)
  then show ?thesis using plain_not_null [OF int_str_no_letter] by (simp add: escapeValue_def)
qed (use assms in \<open>auto simp: literal_of_null_def\<close>)


definition example_schema :: DatabaseTableSchema where
  "example_schema =
     \<lparr>tsColumns = [], tsPk = [''id''], tsAutoIncrement = True, tsSchemaName = ''main'',
      tsTableName = Some ''t'', tsConstraints = None, tsCreateScript = None, tsFts5 = None,
      tsType = None, tsWithoutRowId = None, tsStrict = None, tsSizeInByte = None\<rparr>"


section \<open>What the database sees\<close>

definition invalid_reason :: "DatabaseTableSchema \<Rightarrow> DatabaseTableOperation \<Rightarrow> string" where
  "invalid_reason s op = (case snd (validateOperation op s) of None \<Rightarrow> [] | Some r \<Rightarrow> r)"

lemma validateUpdateOperation_eq:
  "validateUpdateOperation ops s =
     (case filter (\<lambda>op. \<not> fst (validateOperation op s)) ops of
        [] \<Rightarrow> Inr ()
      | op # _ \<Rightarrow> Inl (JsError (invalid_reason s op)))"
  by (induction ops) (auto simp: invalid_reason_def split_beta Let_def)

text \<open>
  C25. Validation is all or nothing: when any operation of a batch is invalid, \<open>updateTableData\<close>
  throws the reason of the first invalid one and nothing at all is sent to the database.
\<close>

theorem invalid_batch_not_sent:
  assumes "op \<in> set ops" and "\<not> fst (validateOperation op s)"
  shows "updateTableData d db findRow schema table ops (Some s) w
     = (Inl (JsError (invalid_reason s (hd (filter (\<lambda>op. \<not> fst (validateOperation op s)) ops)))), w)"
proof -
  have "filter (\<lambda>op. \<not> fst (validateOperation op s)) ops \<noteq> []"
    using assms by (auto simp: filter_empty_conv)
  then show ?thesis
    by (auto simp: updateTableData_def validateUpdateOperation_eq neq_Nil_conv)
qed

theorem invalid_batch_not_sent_witness:
  "updateTableData sqlite_dialect \<lparr>dbQuery = \<lambda>s w. (Inl (DriverError s), Suc w),
       dbTransaction = \<lambda>ss w. (Inr [], Suc w)\<rparr> (\<lambda>_ _ _. io_return undefined) ''main'' ''t''
       [OpDelete [(''id'', Str ''a'')], OpDelete [(''name'', Str ''a'')]] (Some example_schema) (0 :: nat)
     = (Inl (JsError ''It is not safe to remove row with NULL in primary key column''), 0)"
proof -
  let ?bad = "OpDelete [(''name'', Str ''a'')]"
  have "validateOperation ?bad example_schema
      = (False, Some ''It is not safe to remove row with NULL in primary key column'')"
    "validateOperation (OpDelete [(''id'', Str ''a'')]) example_schema = (True, None)"
    by code_simp+
  then show ?thesis
    using invalid_batch_not_sent [of ?bad "[OpDelete [(''id'', Str ''a'')], ?bad]" example_schema]
    by (simp add: invalid_reason_def)
qed

lemma collect_results_length:
  "collect_results findRow ops rs w = (Inr ys, w1) \<Longrightarrow> length ys = length rs"
  by (induction findRow ops rs arbitrary: ys w w1 rule: collect_results.induct)
     (auto simp: io_bind_Inr_iff)

definition returned_record :: "DatabaseTableOperation \<Rightarrow> DatabaseResultSet \<Rightarrow> DatabaseTableOperationReslt"
where
  "returned_record op r =
     (case op of OpDelete w \<Rightarrow> no_result | _ \<Rightarrow> no_result\<lparr>resRecord := first_row r\<rparr>)"

lemma operation_result_returned:
  "length (rsRows r) = 1 \<or> (\<exists>w. op = OpDelete w) \<Longrightarrow>
     operation_result findRow (Some op) r = io_return (returned_record op r)"
  by (cases op) (auto simp: operation_result_def returned_record_def)

lemma collect_results_returned:
  "list_all2 (\<lambda>op r. length (rsRows r) = 1 \<or> (\<exists>w. op = OpDelete w)) ops rs \<Longrightarrow>
     collect_results findRow ops rs = io_return (map2 returned_record ops rs)"
  by (induction ops rs rule: list_all2_induct) (simp_all add: operation_result_returned)

text \<open>
  A valid batch is one transaction, with one statement per operation in the order of the
  operations; when the database returns the row that each insertion and each update has written,
  the results are these rows in the same order, and no further query is sent.
\<close>

theorem valid_batch_results:
  assumes "list_all (\<lambda>op. fst (validateOperation op s)) ops"
    and "dbTransaction db (map (operation_sql d schema table) ops) w = (Inr rs, w1)"
    and "list_all2 (\<lambda>op r. length (rsRows r) = 1 \<or> (\<exists>w. op = OpDelete w)) ops rs"
  shows "updateTableData d db findRow schema table ops (Some s) w
     = (Inr (map2 returned_record ops rs), w1)"
proof -
  have "filter (\<lambda>op. \<not> fst (validateOperation op s)) ops = []"
    using assms(1) by (auto simp: filter_empty_conv list_all_iff)
  then show ?thesis
    using assms(2) collect_results_returned [OF assms(3), of "findRow schema table"]
    by (simp add: updateTableData_def validateUpdateOperation_eq io_bind_run(1))
qed

definition one_row :: DatabaseResultSet where
  "one_row = \<lparr>rsRows = [[(''id'', Num (Dec 1 0))]], rsHeaders = [],
     rsStat = \<lparr>rowsAffected = Dec 1 0, rowsRead = None, rowsWritten = None, queryDurationMs = None\<rparr>,
     rsLastInsertRowid = None\<rparr>"

theorem valid_batch_results_witness:
  "updateTableData sqlite_dialect \<lparr>dbQuery = \<lambda>s w. (Inl (DriverError s), w @ [s]),
       dbTransaction = \<lambda>ss w. (Inr (map (\<lambda>_. one_row) ss), w @ ss)\<rparr> (\<lambda>_ _ _. io_return undefined)
       ''main'' ''t'' [OpDelete [(''id'', Str ''a'')]] (Some example_schema) []
     = (Inr [no_result], [deleteFrom sqlite_dialect ''main'' ''t'' [(''id'', Str ''a'')]])"
proof -
  have "list_all (\<lambda>op. fst (validateOperation op example_schema)) [OpDelete [(''id'', Str ''a'')]]"
    by code_simp
  then show ?thesis
    by (subst valid_batch_results [where rs = "[one_row]"])
       (simp_all add: operation_sql_def returned_record_def)
qed

section \<open>Backslashes in MySQL\<close>

text \<open>
  MySQL's rule for strings, unless the server runs with \<open>NO_BACKSLASH_ESCAPES\<close>: a backslash
  takes the next character with it.
\<close>

fun read_mysql_body :: "string \<Rightarrow> (string \<times> string) option" where
  "read_mysql_body [] = None"
| "read_mysql_body [c] = (if c = quote1 then Some ([], []) else None)"
| "read_mysql_body (c # d # s) =
     (if c = CHR 0x5C then map_option (\<lambda>(t, r). (d # t, r)) (read_mysql_body s)
      else if c = quote1
      then if d = quote1 then map_option (\<lambda>(t, r). (quote1 # t, r)) (read_mysql_body s)
           else Some ([], d # s)
      else map_option (\<lambda>(t, r). (c # t, r)) (read_mysql_body (d # s)))"

definition read_mysql_string :: "string \<Rightarrow> (string \<times> string) option" where
  "read_mysql_string s = (case s of [] \<Rightarrow> None | c # t \<Rightarrow> if c = quote1 then read_mysql_body t else None)"

lemma read_mysql_no_backslash:
  "CHR 0x5C \<notin> set s \<Longrightarrow> closes quote1 rest \<Longrightarrow>
     read_mysql_body (replace_char quote1 [quote1, quote1] s @ quote1 # rest) = Some (s, rest)"
proof (induction s)
  case Nil
  have "quote1 \<noteq> CHR 0x5C" by code_simp
  with Nil show ?case by (cases rest) auto
next
  case (Cons c s)
  have q: "quote1 \<noteq> CHR 0x5C" by code_simp
  show ?case
  proof (cases "c = quote1")
    case True
    with Cons q show ?thesis by simp
  next
    case False
    obtain d u where "replace_char quote1 [quote1, quote1] s @ quote1 # rest = d # u"
      by (cases "replace_char quote1 [quote1, quote1] s") auto
    with Cons False show ?thesis by (simp split: if_splits) (auto simp: Cons.prems)
  qed
qed

text \<open>
  The string literals that the MySQL driver sends are those of \<open>escapeSqlString\<close>, which
  doubles quotation marks and leaves backslashes alone.  Under MySQL's default rule a string
  without backslashes reads back, and there is a string with one whose literal ends early: the
  rest of the value is read as SQL.
\<close>

theorem mysql_string_literals:
  "(\<forall>s. CHR 0x5C \<notin> set s \<longrightarrow> read_mysql_string (dEscapeValue mysql_dialect (Str s)) = Some (s, []))
   \<and> read_mysql_string (dEscapeValue mysql_dialect (Str (CHR 0x5C # quote1 # '' OR 1=1 -- '')))
      = Some ([quote1], '' OR 1=1 -- '' @ [quote1])"
proof
  have q: "read_mysql_string (quote1 # t) = read_mysql_body t" for t
    by (simp add: read_mysql_string_def)
  show "\<forall>s. CHR 0x5C \<notin> set s \<longrightarrow> read_mysql_string (dEscapeValue mysql_dialect (Str s)) = Some (s, [])"
    using read_mysql_no_backslash [of _ "[]"]
    by (simp add: mysql_dialect_def escapeValue_def escapeSqlString_def q)
  show "read_mysql_string (dEscapeValue mysql_dialect (Str (CHR 0x5C # quote1 # '' OR 1=1 -- '')))
      = Some ([quote1], '' OR 1=1 -- '' @ [quote1])"
    by code_simp
qed

theorem mysql_string_literals_witness:
  "read_mysql_string (dEscapeValue mysql_dialect (Str ''it is'')) = Some (''it is'', [])"
  using mysql_string_literals by simp

end
