(* ===== verification/SchemaGen.thy ===== *)
theory SchemaGen
  imports Dialects
begin

text \<open>
  The generators of \<open>CREATE TABLE\<close> and \<open>ALTER TABLE\<close>: \<open>sqlite/sqlite-generate-schema.ts\<close>,
  \<open>mysql/generate-schema.ts\<close>, \<open>postgres/generate-schema.ts\<close> of \<open>admin/src/drivers\<close>, and the drafts
  of schema changes, \<open>admin/src/lib/sql/sql-generate.schema.ts\<close>.

  \<open>isEqual\<close> of lodash and \<open>deepEqual\<close> are parameters.  A template that prints an absent value
  prints \<open>undefined\<close>.
\<close>

section \<open>Shared pieces\<close>

definition wrapped :: "string \<Rightarrow> bool" where
  "wrapped str = (2 \<le> length str \<and> js_starts_with str ''('' \<and> js_ends_with str '')'')"

definition undefined_text :: "string option \<Rightarrow> string" where
  "undefined_text t = (case t of None \<Rightarrow> ''undefined'' | Some s \<Rightarrow> s)"

definition escaped_list :: "(string \<Rightarrow> string) \<Rightarrow> string list option \<Rightarrow> string" where
  "escaped_list esc cs = undefined_text (map_option (\<lambda>xs. js_join '', '' (map esc xs)) cs)"

definition is_set :: "bool option \<Rightarrow> bool" where
  "is_set b = (b = Some True)"

definition on_conflict :: "string option \<Rightarrow> string option" where
  "on_conflict c = (if truthy_str c then Some (''ON CONFLICT '' @ the c) else None)"

definition omit_name :: "DatabaseTableColumn \<Rightarrow> DatabaseTableColumn" where
  "omit_name col = col\<lparr>colName := []\<rparr>"

text \<open>\<open>col.constraint?.foreignKey\<close>, and the first of its columns.\<close>

definition fk_get :: "DatabaseTableColumn \<Rightarrow> (DatabaseForeignKeyClause \<Rightarrow> 'a option) \<Rightarrow> 'a option" where
  "fk_get col f = Option.bind (con_get col foreignKey) f"

definition fk_first :: "DatabaseTableColumn \<Rightarrow> string option" where
  "fk_first col = (case fk_get col foreignColumns of Some (c # cs) \<Rightarrow> Some c | _ \<Rightarrow> None)"

definition name_or :: "string option \<Rightarrow> string \<Rightarrow> string" where
  "name_or n fallback = (case n of None \<Rightarrow> fallback | Some s \<Rightarrow> s)"

definition is_create :: "DatabaseTableSchemaChange \<Rightarrow> bool" where
  "is_create change = (\<not> truthy_str (chOldName change))"

definition indented :: "string \<Rightarrow> string" where
  "indented line = ''  '' @ line"

section \<open>SQLite\<close>

definition sqliteWrapParen :: "string \<Rightarrow> string" where
  "sqliteWrapParen str = (if wrapped str then str else ''('' @ str @ '')'')"

definition sqliteCreateColumn :: "DatabaseTableColumn \<Rightarrow> string" where
  "sqliteCreateColumn col = js_join '' ''
     ([escapeIdentity (colName col), colType col]
      @ (if is_set (con_get col primaryKey)
         then [js_join '' '' (filter_boolean
                 [Some ''PRIMARY KEY'', map_option order_str (con_get col primaryKeyOrder),
                  on_conflict (con_get col primaryKeyConflict),
                  if is_set (con_get col autoIncrement) then Some ''AUTOINCREMENT'' else None])]
         else [])
      @ (if is_set (con_get col unique)
         then [js_join '' '' (filter_boolean
                 [Some ''UNIQUE'', on_conflict (con_get col uniqueConflict)])]
         else [])
      @ (if is_set (con_get col notNull)
         then [js_join '' '' (filter_boolean
                 [Some ''NOT NULL'', on_conflict (con_get col notNullConflict)])]
         else [])
      @ (case con_get col defaultValue of
           None \<Rightarrow> []
         | Some v \<Rightarrow> if truthy v then [''DEFAULT '' @ escapeValue v] else [])
      @ (if truthy_str (con_get col defaultExpression)
         then [''DEFAULT '' @ sqliteWrapParen (the (con_get col defaultExpression))] else [])
      @ (if truthy_str (con_get col generatedExpression)
         then [''GENERATED ALWAYS AS '' @ sqliteWrapParen (the (con_get col generatedExpression)) @ '' ''
               @ (case con_get col generatedType of None \<Rightarrow> [] | Some g \<Rightarrow> generated_str g)]
         else [])
      @ (if truthy_str (con_get col checkExpression)
         then [''CHECK '' @ sqliteWrapParen (the (con_get col checkExpression))] else [])
      @ (if truthy_str (fk_get col foreignTableName) \<and> truthy_str (fk_first col)
         then [''REFERENCES '' @ escapeIdentity (the (fk_get col foreignTableName))
               @ ''('' @ escapeIdentity (the (fk_first col)) @ '')'']
         else []))"

definition sqliteConstraintScript :: "DatabaseTableColumnConstraint \<Rightarrow> string option" where
  "sqliteConstraintScript con =
     (if is_set (field_opt (primaryKey con))
      then Some (''PRIMARY KEY ('' @ escaped_list escapeIdentity (field_opt (primaryColumns con)) @ '')'')
      else if is_set (field_opt (unique con))
      then Some (''UNIQUE ('' @ escaped_list escapeIdentity (field_opt (uniqueColumns con)) @ '')'')
      else case field_opt (checkExpression con) of
        Some e \<Rightarrow> Some (''CHECK ('' @ e @ '')'')
      | None \<Rightarrow> map_option (\<lambda>fk.
          ''FOREIGN KEY ('' @ escaped_list escapeIdentity (fkColumns fk) @ '') REFERENCES ''
          @ escapeIdentity (name_or (foreignTableName fk) []) @ '' (''
          @ escaped_list escapeIdentity (foreignColumns fk) @ '')'') (field_opt (foreignKey con)))"

text \<open>The lines of one column change, of one constraint change, and the script.\<close>

definition sqlite_column_lines ::
  "(DatabaseTableColumn \<Rightarrow> DatabaseTableColumn \<Rightarrow> bool) \<Rightarrow> DatabaseTableSchemaChange \<Rightarrow>
   DatabaseTableColumnChange \<Rightarrow> string list" where
  "sqlite_column_lines isEqual change col =
     (case (ccNew col, ccOld col) of
        (None, old) \<Rightarrow> [''DROP COLUMN '' @ undefined_text (map_option colName old)]
      | (Some new, None) \<Rightarrow>
          if is_create change then [sqliteCreateColumn new]
          else [''ADD '' @ sqliteCreateColumn new]
      | (Some new, Some old) \<Rightarrow>
          (if colName new \<noteq> colName old
           then [''RENAME COLUMN '' @ escapeIdentity (colName old) @ '' TO '' @ escapeIdentity (colName new)]
           else [])
          @ (if \<not> isEqual (omit_name old) (omit_name new)
             then [''ALTER COLUMN '' @ escapeIdentity (colName new) @ '' TO '' @ sqliteCreateColumn new]
             else []))"

definition sqlite_constraint_lines ::
  "DatabaseTableSchemaChange \<Rightarrow> DatabaseTableConstraintChange \<Rightarrow> string list" where
  "sqlite_constraint_lines change con =
     (case kcNew con of
        None \<Rightarrow> []
      | Some k \<Rightarrow> if is_create change then [undefined_text (sqliteConstraintScript k)] else [])"

definition sqlite_lines ::
  "(DatabaseTableColumn \<Rightarrow> DatabaseTableColumn \<Rightarrow> bool) \<Rightarrow> DatabaseTableSchemaChange \<Rightarrow> string list"
where
  "sqlite_lines isEqual change =
     concat (map (sqlite_column_lines isEqual change) (chColumns change))
     @ concat (map (sqlite_constraint_lines change) (chConstraints change))
     @ (if \<not> is_create change \<and> chNewName change \<noteq> chOldName change
        then [''RENAME TO '' @ escapeIdentity (name_or (chNewName change) [])]
        else [])"

definition sqliteSchemaChange ::
  "(DatabaseTableColumn \<Rightarrow> DatabaseTableColumn \<Rightarrow> bool) \<Rightarrow> DatabaseTableSchemaChange \<Rightarrow> string list"
where
  "sqliteSchemaChange isEqual change =
     (if is_create change
      then [''CREATE TABLE '' @ escapeIdentity (name_or (chSchemaName change) ''main'') @ ''.''
            @ escapeIdentity (if truthy_str (chNewName change) then the (chNewName change)
                              else ''no_table_name'')
            @ ''('' @ [newline]
            @ js_join ('','' @ [newline]) (map indented (sqlite_lines isEqual change))
            @ [newline] @ '')'']
      else map (\<lambda>line. ''ALTER TABLE '' @ escapeIdentity (name_or (chSchemaName change) ''main'') @ ''.''
                 @ escapeIdentity (name_or (chOldName change) []) @ '' '' @ line)
             (sqlite_lines isEqual change))"

section \<open>MySQL\<close>

definition mysqlWrapParen :: "string \<Rightarrow> string" where
  "mysqlWrapParen str = (if js_upper str = ''NULL'' then str else if wrapped str then str else ''('' @ str @ '')'')"

definition mysqlCreateColumn :: "Dialect \<Rightarrow> DatabaseTableColumn \<Rightarrow> string" where
  "mysqlCreateColumn driver col = js_join '' ''
     ([dEscapeId driver (colName col), colType col]
      @ (if is_set (con_get col primaryKey)
         then [js_join '' '' (filter_boolean
                 [Some ''PRIMARY KEY'', map_option order_str (con_get col primaryKeyOrder),
                  on_conflict (con_get col primaryKeyConflict),
                  if is_set (con_get col autoIncrement) then Some ''AUTO_INCREMENT'' else None])]
         else [])
      @ (if is_set (con_get col unique)
         then [js_join '' '' (filter_boolean
                 [Some ''UNIQUE'', on_conflict (con_get col uniqueConflict)])]
         else [])
      @ (if is_set (con_get col notNull)
         then [js_join '' '' (filter_boolean
                 [Some ''NOT NULL'', on_conflict (con_get col notNullConflict)])]
         else [])
      @ (case con_get col defaultValue of
           None \<Rightarrow> []
         | Some v \<Rightarrow> if truthy v then [''DEFAULT '' @ dEscapeValue driver v] else [])
      @ (if truthy_str (con_get col defaultExpression)
         then [''DEFAULT '' @ mysqlWrapParen (the (con_get col defaultExpression))] else [])
      @ (if truthy_str (con_get col generatedExpression)
         then [''GENERATED ALWAYS AS '' @ mysqlWrapParen (the (con_get col generatedExpression)) @ '' ''
               @ (case con_get col generatedType of None \<Rightarrow> [] | Some g \<Rightarrow> generated_str g)]
         else [])
      @ (if truthy_str (con_get col collate)
         then [''COLLATE '' @ dEscapeValue driver (Str (the (con_get col collate)))] else [])
      @ (if truthy_str (con_get col checkExpression)
         then [''CHECK '' @ mysqlWrapParen (the (con_get col checkExpression))] else [])
      @ (if truthy_str (fk_get col foreignTableName) \<and> truthy_str (fk_first col)
         then [''REFERENCES '' @ dEscapeId driver (the (fk_get col foreignTableName))
               @ ''('' @ dEscapeId driver (the (fk_first col)) @ '')'']
         else []))"

definition mysqlConstraintScript :: "Dialect \<Rightarrow> DatabaseTableColumnConstraint \<Rightarrow> string option" where
  "mysqlConstraintScript driver con =
     (if is_set (field_opt (primaryKey con))
      then Some (''PRIMARY KEY ('' @ escaped_list (dEscapeId driver) (field_opt (primaryColumns con)) @ '')'')
      else if is_set (field_opt (unique con))
      then Some (''UNIQUE ('' @ escaped_list (dEscapeId driver) (field_opt (uniqueColumns con)) @ '')'')
      else case field_opt (checkExpression con) of
        Some e \<Rightarrow> Some (''CHECK ('' @ e @ '')'')
      | None \<Rightarrow> map_option (\<lambda>fk.
          ''FOREIGN KEY ('' @ escaped_list (dEscapeId driver) (fkColumns fk) @ '') REFERENCES ''
          @ dEscapeId driver (name_or (foreignTableName fk) []) @ '' (''
          @ escaped_list (dEscapeId driver) (foreignColumns fk) @ '')'') (field_opt (foreignKey con)))"

text \<open>The trigger and the database of MySQL.\<close>

definition mysqlTriggerSchema :: "Dialect \<Rightarrow> DatabaseTriggerSchema \<Rightarrow> string list" where
  "mysqlTriggerSchema driver change =
     [''CREATE TRIGGER '' @ dEscapeId driver (trSchemaName change) @ ''.''
      @ dEscapeId driver (trName change) @ '' '' @ [newline] @ when_str (trWhen change) @ '' ''
      @ operation_str (trOperation change) @ '' ON '' @ dEscapeId driver (trTableName change)
      @ '' '' @ [newline] @ ''FOR EACH ROW '' @ [newline] @ ''BEGIN '' @ [newline, tab]
      @ trStatement change @ '' '' @ [newline] @ ''END'']"

definition mysqlDatabaseSchema :: "DatabaseSchemaChange \<Rightarrow> string list" where
  "mysqlDatabaseSchema change =
     (let line = (if truthy_str (dcCollate change)
                  then '' COLLATE `'' @ the (dcCollate change) @ ''`'' else [])
      in if \<not> truthy_str (dcOldName change)
         then [''CREATE DATABASE `'' @ undefined_text (dcNewName change) @ ''`'' @ line]
         else [''ALTER DATABASE `'' @ undefined_text (dcOldName change) @ ''`'' @ line])"

text \<open>The lines of one column change, of one constraint change, and the script.\<close>

definition mysql_column_lines ::
  "Dialect \<Rightarrow> (DatabaseTableColumn \<Rightarrow> DatabaseTableColumn \<Rightarrow> bool) \<Rightarrow> DatabaseTableSchemaChange \<Rightarrow>
   DatabaseTableColumnChange \<Rightarrow> string list" where
  "mysql_column_lines driver isEqual change col =
     (case (ccNew col, ccOld col) of
        (None, old) \<Rightarrow> [''DROP COLUMN '' @ undefined_text (map_option colName old)]
      | (Some new, None) \<Rightarrow>
          if is_create change then [mysqlCreateColumn driver new]
          else [''ADD '' @ mysqlCreateColumn driver new]
      | (Some new, Some old) \<Rightarrow>
          (if colName new \<noteq> colName old
           then [''RENAME COLUMN '' @ dEscapeId driver (colName old) @ '' TO '' @ dEscapeId driver (colName new)]
           else [])
          @ (if \<not> isEqual (omit_name old) (omit_name new)
             then [''MODIFY COLUMN '' @ mysqlCreateColumn driver new]
             else []))"

definition mysql_constraint_lines ::
  "Dialect \<Rightarrow> DatabaseTableSchemaChange \<Rightarrow> DatabaseTableConstraintChange \<Rightarrow> string list" where
  "mysql_constraint_lines driver change con =
     (case kcNew con of
        None \<Rightarrow> []
      | Some k \<Rightarrow> if is_create change then [undefined_text (mysqlConstraintScript driver k)] else [])"

definition mysql_lines ::
  "Dialect \<Rightarrow> (DatabaseTableColumn \<Rightarrow> DatabaseTableColumn \<Rightarrow> bool) \<Rightarrow> DatabaseTableSchemaChange \<Rightarrow> string list"
where
  "mysql_lines driver isEqual change =
     concat (map (mysql_column_lines driver isEqual change) (chColumns change))
     @ concat (map (mysql_constraint_lines driver change) (chConstraints change))
     @ (if \<not> is_create change \<and> chNewName change \<noteq> chOldName change
        then [''RENAME TO '' @ dEscapeId driver (name_or (chSchemaName change) ''main'') @ ''.'' @ dEscapeId driver (name_or (chNewName change) [])]
        else [])"

definition mysqlSchemaChange ::
  "Dialect \<Rightarrow> (DatabaseTableColumn \<Rightarrow> DatabaseTableColumn \<Rightarrow> bool) \<Rightarrow> DatabaseTableSchemaChange \<Rightarrow> string list"
where
  "mysqlSchemaChange driver isEqual change =
     (if is_create change
      then [''CREATE TABLE '' @ dEscapeId driver (name_or (chSchemaName change) ''main'') @ ''.''
            @ dEscapeId driver (if truthy_str (chNewName change) then the (chNewName change)
                              else ''no_table_name'')
            @ ''('' @ [newline]
            @ js_join ('','' @ [newline]) (map indented (mysql_lines driver isEqual change))
            @ [newline] @ '')'']
      else map (\<lambda>line. ''ALTER TABLE '' @ dEscapeId driver (name_or (chSchemaName change) ''main'') @ ''.''
                 @ dEscapeId driver (name_or (chOldName change) []) @ '' '' @ line)
             (mysql_lines driver isEqual change))"

section \<open>PostgreSQL\<close>

definition postgresWrapParen :: "string \<Rightarrow> string" where
  "postgresWrapParen str = (if js_upper str = ''NULL'' then str else if wrapped str then str else ''('' @ str @ '')'')"

definition postgresCreateColumn :: "Dialect \<Rightarrow> DatabaseTableColumn \<Rightarrow> bool \<Rightarrow> string" where
  "postgresCreateColumn driver col edit = js_join '' ''
     ((if edit then [dEscapeId driver (colName col), ''TYPE'', colType col, ''USING'',
          dEscapeId driver (colName col) @ ''::'' @ colType col]
        else [dEscapeId driver (colName col), colType col])
      @ (if is_set (con_get col primaryKey)
         then [js_join '' '' (filter_boolean
                 [Some ''PRIMARY KEY'', map_option order_str (con_get col primaryKeyOrder),
                  on_conflict (con_get col primaryKeyConflict),
                  if is_set (con_get col autoIncrement) then Some ''GENERATED ALWAYS AS IDENTITY'' else None])]
         else [])
      @ (if is_set (con_get col unique)
         then [js_join '' '' (filter_boolean
                 [Some ''UNIQUE'', on_conflict (con_get col uniqueConflict)])]
         else [])
      @ (if is_set (con_get col notNull)
         then [js_join '' '' (filter_boolean
                 [Some ''NOT NULL'', on_conflict (con_get col notNullConflict)])]
         else [])
      @ (case con_get col defaultValue of
           None \<Rightarrow> []
         | Some v \<Rightarrow> if truthy v then [''DEFAULT '' @ dEscapeValue driver v] else [])
      @ (if truthy_str (con_get col defaultExpression)
         then [''DEFAULT '' @ postgresWrapParen (the (con_get col defaultExpression))] else [])
      @ (if truthy_str (con_get col generatedExpression)
         then [''GENERATED ALWAYS AS '' @ postgresWrapParen (the (con_get col generatedExpression)) @ '' ''
               @ (case con_get col generatedType of None \<Rightarrow> [] | Some g \<Rightarrow> generated_str g)]
         else [])
      @ (if truthy_str (con_get col collate)
         then [''COLLATE '' @ dEscapeValue driver (Str (the (con_get col collate)))] else [])
      @ (if truthy_str (con_get col checkExpression)
         then [''CHECK '' @ postgresWrapParen (the (con_get col checkExpression))] else [])
      @ (if truthy_str (fk_get col foreignTableName) \<and> truthy_str (fk_first col)
         then [''FOREIGN KEY REFERENCES '' @ dEscapeId driver (the (fk_get col foreignTableName))
               @ ''('' @ dEscapeId driver (the (fk_first col)) @ '')'']
         else []))"

definition postgresConstraintScript :: "Dialect \<Rightarrow> DatabaseTableColumnConstraint \<Rightarrow> string option" where
  "postgresConstraintScript driver con =
     (if is_set (field_opt (primaryKey con))
      then Some (''PRIMARY KEY ('' @ escaped_list (dEscapeId driver) (field_opt (primaryColumns con)) @ '')'')
      else if is_set (field_opt (unique con))
      then Some (''UNIQUE ('' @ escaped_list (dEscapeId driver) (field_opt (uniqueColumns con)) @ '')'')
      else case field_opt (checkExpression con) of
        Some e \<Rightarrow> Some (''CHECK ('' @ e @ '')'')
      | None \<Rightarrow> map_option (\<lambda>fk.
          ''FOREIGN KEY ('' @ escaped_list (dEscapeId driver) (fkColumns fk) @ '') REFERENCES ''
          @ dEscapeId driver (name_or (foreignTableName fk) []) @ '' (''
          @ escaped_list (dEscapeId driver) (foreignColumns fk) @ '')'') (field_opt (foreignKey con)))"

definition joined_text :: "string list option \<Rightarrow> string" where
  "joined_text cs = undefined_text (map_option concat cs)"

definition postgresConstraintModifyScript ::
  "Dialect \<Rightarrow> DatabaseTableColumnConstraint \<Rightarrow> string \<Rightarrow> string list" where
  "postgresConstraintModifyScript driver con tableName =
     (let keyName0 = (if is_set (field_opt (primaryKey con)) then tableName @ ''_pkey'' else []);
          keyName1 = (case field_opt (foreignKey con) of
                        None \<Rightarrow> keyName0
                      | Some fk \<Rightarrow> tableName @ ''_'' @ undefined_text (foreignTableName fk) @ ''_''
                                   @ joined_text (fkColumns fk) @ ''_fkey'');
          keyName = (if is_set (field_opt (unique con))
                     then tableName @ ''_'' @ joined_text (field_opt (uniqueColumns con)) @ ''_key''
                     else keyName1)
      in [''DROP CONSTRAINT IF EXISTS '' @ keyName,
          ''ADD CONSTRAINT '' @ keyName @ '' ''
          @ undefined_text (postgresConstraintScript driver con)])"

definition empty_fk :: DatabaseForeignKeyClause where
  "empty_fk = \<lparr>foreignSchemaName = None, foreignTableName = None, foreignColumns = None,
     fkColumns = None\<rparr>"

text \<open>The constraint that is handed on for a changed column.\<close>

definition modified_constraint ::
  "string \<Rightarrow> DatabaseTableColumnConstraint \<Rightarrow> DatabaseTableColumnConstraint" where
  "modified_constraint name con =
     con\<lparr>primaryColumns := Is [name], uniqueColumns := Is [name],
        foreignKey := Is ((case field_opt (foreignKey con) of None \<Rightarrow> empty_fk | Some fk \<Rightarrow> fk)
                            \<lparr>fkColumns := Some [name]\<rparr>)\<rparr>"

text \<open>The lines of one column change, of one constraint change, and the script.\<close>

definition postgres_column_lines ::
  "Dialect \<Rightarrow> (DatabaseTableColumn \<Rightarrow> DatabaseTableColumn \<Rightarrow> bool) \<Rightarrow> DatabaseTableSchemaChange \<Rightarrow>
   DatabaseTableColumnChange \<Rightarrow> string list" where
  "postgres_column_lines driver isEqual change col =
     (case (ccNew col, ccOld col) of
        (None, old) \<Rightarrow> [''DROP COLUMN '' @ undefined_text (map_option colName old)]
      | (Some new, None) \<Rightarrow>
          if is_create change then [postgresCreateColumn driver new False]
          else [''ADD '' @ postgresCreateColumn driver new False]
      | (Some new, Some old) \<Rightarrow>
          (if colName new \<noteq> colName old
           then [''RENAME COLUMN '' @ dEscapeId driver (colName old) @ '' TO '' @ dEscapeId driver (colName new)]
           else [])
          @ (if \<not> isEqual (omit_name old) (omit_name new)
             then 
               (''ALTER COLUMN '' @ postgresCreateColumn driver
                  \<lparr>colName = colName new, colType = colType new, colPk = colPk new,
                   colConstraint = Some no_constraint\<rparr> True)
               # (case colConstraint new of
                    None \<Rightarrow> []
                  | Some con \<Rightarrow> postgresConstraintModifyScript driver
                      (modified_constraint (colName new) con) (name_or (chOldName change) []))
             else []))"

definition postgres_constraint_lines ::
  "Dialect \<Rightarrow> DatabaseTableSchemaChange \<Rightarrow> DatabaseTableConstraintChange \<Rightarrow> string list" where
  "postgres_constraint_lines driver change con =
     (case kcNew con of
        None \<Rightarrow> []
      | Some k \<Rightarrow> if is_create change then [undefined_text (postgresConstraintScript driver k)] else [])"

definition postgres_lines ::
  "Dialect \<Rightarrow> (DatabaseTableColumn \<Rightarrow> DatabaseTableColumn \<Rightarrow> bool) \<Rightarrow> DatabaseTableSchemaChange \<Rightarrow> string list"
where
  "postgres_lines driver isEqual change =
     concat (map (postgres_column_lines driver isEqual change) (chColumns change))
     @ concat (map (postgres_constraint_lines driver change) (chConstraints change))
     @ (if \<not> is_create change \<and> chNewName change \<noteq> chOldName change
        then [''RENAME TO '' @ dEscapeId driver (name_or (chSchemaName change) ''main'') @ ''.'' @ dEscapeId driver (name_or (chNewName change) [])]
        else [])"

definition postgresSchemaChange ::
  "Dialect \<Rightarrow> (DatabaseTableColumn \<Rightarrow> DatabaseTableColumn \<Rightarrow> bool) \<Rightarrow> DatabaseTableSchemaChange \<Rightarrow> string list"
where
  "postgresSchemaChange driver isEqual change =
     (if is_create change
      then [''CREATE TABLE '' @ dEscapeId driver (name_or (chSchemaName change) ''main'') @ ''.''
            @ dEscapeId driver (if truthy_str (chNewName change) then the (chNewName change)
                              else ''no_table_name'')
            @ ''('' @ [newline]
            @ js_join ('','' @ [newline]) (map indented (postgres_lines driver isEqual change))
            @ [newline] @ '')'']
      else map (\<lambda>line. ''ALTER TABLE '' @ dEscapeId driver (name_or (chSchemaName change) ''main'') @ ''.''
                 @ dEscapeId driver (name_or (chOldName change) []) @ '' '' @ line)
             (postgres_lines driver isEqual change))"

section \<open>Drafts\<close>

definition checkSchemaColumnChange ::
  "(DatabaseTableColumn option \<Rightarrow> DatabaseTableColumn option \<Rightarrow> bool) \<Rightarrow>
   DatabaseTableColumnChange \<Rightarrow> bool" where
  "checkSchemaColumnChange deepEqual change = (\<not> deepEqual (ccOld change) (ccNew change))"

definition checkSchemaChange ::
  "(DatabaseTableColumn option \<Rightarrow> DatabaseTableColumn option \<Rightarrow> bool) \<Rightarrow>
   DatabaseTableSchemaChange \<Rightarrow> bool" where
  "checkSchemaChange deepEqual change =
     (if chNewName change \<noteq> chOldName change then True
      else list_ex (checkSchemaColumnChange deepEqual) (chColumns change))"

text \<open>\<open>generateId n\<close> is the \<open>n\<close>-th identifier that is drawn.\<close>

definition createTableSchemaDraft ::
  "(nat \<Rightarrow> string) \<Rightarrow> string \<Rightarrow> DatabaseTableSchema \<Rightarrow> DatabaseTableSchemaChange" where
  "createTableSchemaDraft generateId schemaName schema =
     (let cols = tsColumns schema;
          cons = (case tsConstraints schema of None \<Rightarrow> [] | Some cs \<Rightarrow> cs)
      in \<lparr>chSchemaName = Some schemaName, chOldName = tsTableName schema,
          chNewName = tsTableName schema,
          chColumns = map2 (\<lambda>i col. \<lparr>ccKey = generateId i, ccOld = Some col, ccNew = Some col\<rparr>)
                        [0..<length cols] cols,
          chConstraints = map2 (\<lambda>i con. \<lparr>kcId = generateId i, kcOld = Some con, kcNew = Some con\<rparr>)
                        [length cols..<length cols + length cons] cons,
          chCreateScript = tsCreateScript schema\<rparr>)"

end
