(* ===== verification/SchemaFacts.thy ===== *)
theory SchemaFacts
  imports SchemaGen RowFacts
begin

text \<open>
  Properties of generated schema changes: an unedited draft changes nothing, every statement
  names its table so that the name reads back, a rename is one statement.
\<close>

text \<open>The generator that each driver calls in \<open>createUpdateTableSchema\<close>.\<close>

fun schema_change ::
  "SupportedDialect \<Rightarrow> (DatabaseTableColumn \<Rightarrow> DatabaseTableColumn \<Rightarrow> bool) \<Rightarrow>
   DatabaseTableSchemaChange \<Rightarrow> string list" where
  "schema_change Sqlite isEqual change = sqliteSchemaChange isEqual change"
| "schema_change Postgres isEqual change = postgresSchemaChange postgres_dialect isEqual change"
| "schema_change Mysql isEqual change = mysqlSchemaChange mysql_dialect isEqual change"
| "schema_change Dolt isEqual change = mysqlSchemaChange mysql_dialect isEqual change"

section \<open>Drafts\<close>

lemma draft_columns:
  "col \<in> set (chColumns (createTableSchemaDraft gen schemaName schema)) \<Longrightarrow> ccNew col = ccOld col"
  "col \<in> set (chColumns (createTableSchemaDraft gen schemaName schema)) \<Longrightarrow> ccOld col \<noteq> None"
  by (auto simp: createTableSchemaDraft_def Let_def set_zip)

lemma draft_names:
  "chOldName (createTableSchemaDraft gen schemaName schema) = tsTableName schema"
  "chNewName (createTableSchemaDraft gen schemaName schema) = tsTableName schema"
  by (simp_all add: createTableSchemaDraft_def Let_def)

lemma unedited_lines:
  assumes "\<And>c. isEqual c c" and "\<not> is_create change" and "chNewName change = chOldName change"
    and "\<And>col. col \<in> set (chColumns change) \<Longrightarrow> ccNew col = ccOld col \<and> ccOld col \<noteq> None"
  shows "sqlite_lines isEqual change = []" "mysql_lines d isEqual change = []"
    "postgres_lines d isEqual change = []"
  using assms
  by (auto simp: sqlite_lines_def mysql_lines_def postgres_lines_def sqlite_column_lines_def
      mysql_column_lines_def postgres_column_lines_def sqlite_constraint_lines_def
      mysql_constraint_lines_def postgres_constraint_lines_def split: option.splits)

text \<open>
  Opening a table in the editor and saving it unchanged does nothing: the draft of an
  existing table counts as unchanged, and every dialect's generator makes no statement of it.
\<close>

theorem unedited_draft_no_statement:
  assumes "\<And>c. isEqual c c" and "\<And>c. deepEqual c c"
    and "tsTableName schema = Some t" and "t \<noteq> []"
  shows "schema_change k isEqual (createTableSchemaDraft gen schemaName schema) = []
     \<and> \<not> checkSchemaChange deepEqual (createTableSchemaDraft gen schemaName schema)"
proof -
  let ?change = "createTableSchemaDraft gen schemaName schema"
  have nc: "\<not> is_create ?change" using assms(3,4) by (simp add: is_create_def draft_names)
  have same: "ccNew col = ccOld col \<and> ccOld col \<noteq> None" if "col \<in> set (chColumns ?change)" for col
    using draft_columns that by blast
  have names: "chNewName ?change = chOldName ?change" by (simp add: draft_names)
  note lines = unedited_lines [where isEqual = isEqual, OF assms(1) nc names same]
  have "schema_change k isEqual ?change = []"
    using nc lines by (cases k) (simp_all add: sqliteSchemaChange_def mysqlSchemaChange_def
        postgresSchemaChange_def)
  moreover have "\<not> checkSchemaChange deepEqual ?change"
    using names same assms(2)
    by (auto simp: checkSchemaChange_def checkSchemaColumnChange_def list_ex_iff)
  ultimately show ?thesis by simp
qed

definition example_column :: DatabaseTableColumn where
  "example_column = \<lparr>colName = ''id'', colType = ''INTEGER'', colPk = Some True,
     colConstraint = Some (no_constraint\<lparr>primaryKey := Is True, autoIncrement := Is True\<rparr>)\<rparr>"

theorem unedited_draft_no_statement_witness:
  "schema_change Postgres (=) (createTableSchemaDraft (\<lambda>n. nat_digits n) ''main''
       (example_schema\<lparr>tsColumns := [example_column]\<rparr>)) = []"
  using unedited_draft_no_statement [of "(=)" "(=)" "example_schema\<lparr>tsColumns := [example_column]\<rparr>"
      "''t''" Postgres "\<lambda>n. nat_digits n" "''main''"]
  by (simp add: example_schema_def)

section \<open>The table a statement is about\<close>

definition read_target :: "char \<Rightarrow> string \<Rightarrow> (string \<times> string) option" where
  "read_target mark s =
     map_option fst (Option.bind
       (case skip ''CREATE TABLE '' s of Some r \<Rightarrow> Some r | None \<Rightarrow> skip ''ALTER TABLE '' s)
       (read_name mark))"

lemma skip_create_alter: "skip ''CREATE TABLE '' (''ALTER TABLE '' @ s) = None"
  by (simp add: skip_def)

lemma read_target_text:
  assumes "read_name mark r = Some (n, r2)"
  shows "read_target mark (''CREATE TABLE '' @ r) = Some n" "read_target mark (''ALTER TABLE '' @ r) = Some n"
  using assms skip_append [of "''CREATE TABLE ''" r] skip_append [of "''ALTER TABLE ''" r] skip_create_alter [of r]
  by (simp_all only: read_target_def option.case Option.bind.simps option.map fst_conv)

definition change_target :: "DatabaseTableSchemaChange \<Rightarrow> string \<times> string" where
  "change_target change =
     (name_or (chSchemaName change) ''main'',
      if is_create change
      then (if truthy_str (chNewName change) then the (chNewName change) else ''no_table_name'')
      else name_or (chOldName change) [])"

lemma read_two_names:
  assumes "row_dialect d mark"
  shows "read_name mark (dEscapeId d a @ CHR ''.'' # dEscapeId d b @ CHR ''('' # rest) = Some ((a, b), CHR ''('' # rest)
      \<or> mark = CHR ''(''"
    "read_name mark (dEscapeId d a @ CHR ''.'' # dEscapeId d b @ CHR '' '' # rest) = Some ((a, b), CHR '' '' # rest)"
  using row_dialect.read_name_back [OF assms, of "CHR ''('' # rest" a b]
    row_dialect.read_name_back [OF assms, of "CHR '' '' # rest" a b]
    row_dialect.mark_not_separator [OF assms]
  by (auto simp: qualifiedName_def)

lemmas change_defs = sqliteSchemaChange_def mysqlSchemaChange_def postgresSchemaChange_def

lemma sqlite_escape: "dEscapeId sqlite_dialect = escapeIdentity"
  by (simp add: sqlite_dialect_def)

lemma driver_rows: "row_dialect (driver_dialect k) (id_mark k)"
  by (cases k) (simp_all add: sqlite_rows.row_dialect_axioms mysql_rows.row_dialect_axioms
      postgres_rows.row_dialect_axioms)

text \<open>Every statement has the schema and the table at its front.\<close>

lemma statement_front:
  assumes "s \<in> set (schema_change k isEqual change)"
  shows "\<exists>a b rest. change_target change = (a, b) \<and>
     (s = ''CREATE TABLE '' @ dEscapeId (driver_dialect k) a @ CHR ''.'' # dEscapeId (driver_dialect k) b
            @ CHR ''('' # rest
      \<or> s = ''ALTER TABLE '' @ dEscapeId (driver_dialect k) a @ CHR ''.'' # dEscapeId (driver_dialect k) b
            @ CHR '' '' # rest)"
  using assms
  by (cases k)
     (auto simp: change_defs change_target_def sqlite_escape split: if_splits)

text \<open>
  C30. Every statement of a schema change, in every dialect, creates or alters exactly the table
  of the change: read with SQL's rules, the names at its front are the schema of the change
  and, for a new table, its new name, for an existing one, its old name.
\<close>

theorem schema_statements_target:
  "\<forall>s \<in> set (schema_change k isEqual change). read_target (id_mark k) s = Some (change_target change)"
proof
  fix s
  assume "s \<in> set (schema_change k isEqual change)"
  then obtain a b rest where t: "change_target change = (a, b)"
    and s: "s = ''CREATE TABLE '' @ dEscapeId (driver_dialect k) a @ CHR ''.'' # dEscapeId (driver_dialect k) b
            @ CHR ''('' # rest
      \<or> s = ''ALTER TABLE '' @ dEscapeId (driver_dialect k) a @ CHR ''.'' # dEscapeId (driver_dialect k) b
            @ CHR '' '' # rest"
    using statement_front by blast
  have "id_mark k \<noteq> CHR ''(''" by (cases k) simp_all
  then show "read_target (id_mark k) s = Some (change_target change)"
    using s t read_two_names [OF driver_rows, of k a b rest] read_target_text by fastforce
qed

theorem schema_statements_target_witness:
  "schema_change Sqlite (=) \<lparr>chSchemaName = None, chOldName = Some ''a\"b'', chNewName = Some ''c'',
       chColumns = [], chConstraints = [], chCreateScript = None\<rparr>
     = [''ALTER TABLE \"main\".\"a\"\"b\" RENAME TO \"c\"''] \<and>
   list_all (\<lambda>s. read_target (CHR 0x22) s = Some (''main'', ''a\"b''))
     (schema_change Sqlite (=) \<lparr>chSchemaName = None, chOldName = Some ''a\"b'', chNewName = Some ''c'',
       chColumns = [], chConstraints = [], chCreateScript = None\<rparr>)"
proof (rule conjI)
  show "list_all (\<lambda>s. read_target (CHR 0x22) s = Some (''main'', ''a\"b''))
     (schema_change Sqlite (=) \<lparr>chSchemaName = None, chOldName = Some ''a\"b'', chNewName = Some ''c'',
       chColumns = [], chConstraints = [], chCreateScript = None\<rparr>)"
    using schema_statements_target [of Sqlite "(=)" "\<lparr>chSchemaName = None, chOldName = Some ''a\"b'',
         chNewName = Some ''c'', chColumns = [], chConstraints = [], chCreateScript = None\<rparr>"]
    by (simp add: change_target_def is_create_def name_or_def list_all_iff)
qed code_simp

section \<open>Renaming, defaults, dropping\<close>

text \<open>
  A pure rename of a column is one statement in every dialect, and it does not touch the
  column's type or constraints: \<open>ALTER TABLE ... RENAME COLUMN\<close> from the old to the new name.
\<close>

theorem rename_column_statement:
  assumes "\<And>c. isEqual c c" and "new \<noteq> colName old" and "chOldName change = Some t" and "t \<noteq> []"
    and "chNewName change = Some t"
    and "chColumns change = [\<lparr>ccKey = key, ccOld = Some old, ccNew = Some (old\<lparr>colName := new\<rparr>)\<rparr>]"
  shows "schema_change k isEqual change =
     [''ALTER TABLE '' @ qualifiedName (driver_dialect k) (name_or (chSchemaName change) ''main'') t
      @ '' RENAME COLUMN '' @ dEscapeId (driver_dialect k) (colName old) @ '' TO ''
      @ dEscapeId (driver_dialect k) new]"
proof -
  have nc: "\<not> is_create change" using assms(3,4) by (simp add: is_create_def)
  have om: "omit_name (old\<lparr>colName := new\<rparr>) = omit_name old" by (simp add: omit_name_def)
  have cons: "concat (map (sqlite_constraint_lines change) cs) = []"
    "concat (map (mysql_constraint_lines d change) cs) = []"
    "concat (map (postgres_constraint_lines d change) cs) = []" for d cs
    using nc by (auto simp: sqlite_constraint_lines_def mysql_constraint_lines_def
        postgres_constraint_lines_def split: option.splits)
  show ?thesis
    using assms nc om cons
    by (cases k)
       (simp_all add: change_defs sqlite_lines_def mysql_lines_def postgres_lines_def
          sqlite_column_lines_def mysql_column_lines_def postgres_column_lines_def
          qualifiedName_def sqlite_escape name_or_def)
qed

theorem rename_column_statement_witness:
  "schema_change Mysql (=) \<lparr>chSchemaName = Some ''d'', chOldName = Some ''t'', chNewName = Some ''t'',
       chColumns = [\<lparr>ccKey = ''1'', ccOld = Some example_column, ccNew = Some (example_column\<lparr>colName := ''n''\<rparr>)\<rparr>],
       chConstraints = [], chCreateScript = None\<rparr>
     = [''ALTER TABLE `d`.`t` RENAME COLUMN `id` TO `n`'']"
  by (subst rename_column_statement [where new = "''n''" and old = example_column and t = "''t''" and key = "''1''"])
     (simp_all add: example_column_def qualifiedName_def mysql_dialect_def name_or_def mysqlEscapeId_def)

text \<open>
  The three generators drop a default value that JavaScript counts as false: a column with
  \<open>DEFAULT 0\<close>, \<open>DEFAULT ''\<close> or \<open>DEFAULT false\<close> is created as if it had no default at all.
\<close>

theorem falsy_default_dropped:
  assumes "\<not> truthy v"
  shows "sqliteCreateColumn (col\<lparr>colConstraint := Some (con\<lparr>defaultValue := Is v\<rparr>)\<rparr>)
       = sqliteCreateColumn (col\<lparr>colConstraint := Some (con\<lparr>defaultValue := Absent\<rparr>)\<rparr>)
     \<and> mysqlCreateColumn d (col\<lparr>colConstraint := Some (con\<lparr>defaultValue := Is v\<rparr>)\<rparr>)
       = mysqlCreateColumn d (col\<lparr>colConstraint := Some (con\<lparr>defaultValue := Absent\<rparr>)\<rparr>)
     \<and> postgresCreateColumn d (col\<lparr>colConstraint := Some (con\<lparr>defaultValue := Is v\<rparr>)\<rparr>) edit
       = postgresCreateColumn d (col\<lparr>colConstraint := Some (con\<lparr>defaultValue := Absent\<rparr>)\<rparr>) edit"
  using assms
  by (simp add: sqliteCreateColumn_def mysqlCreateColumn_def postgresCreateColumn_def con_get_def
      fk_get_def fk_first_def cong: if_cong)

theorem falsy_default_dropped_witness:
  "sqliteCreateColumn \<lparr>colName = ''n'', colType = ''INTEGER'', colPk = None,
       colConstraint = Some (no_constraint\<lparr>defaultValue := Is (Num (Dec 0 0))\<rparr>)\<rparr>
     = ''\"n\" INTEGER''"
proof -
  have "sqliteCreateColumn \<lparr>colName = ''n'', colType = ''INTEGER'', colPk = None,
      colConstraint = Some no_constraint\<rparr> = ''\"n\" INTEGER''"
    by code_simp
  then show ?thesis
    using falsy_default_dropped [where v = "Num (Dec 0 0)" and con = no_constraint
        and col = "\<lparr>colName = ''n'', colType = ''INTEGER'', colPk = None, colConstraint = None\<rparr>"]
    by (simp add: no_constraint_def)
qed

text \<open>The name of a dropped column is printed as it is, without quotation.\<close>

lemma drop_column_not_quoted:
  "sqliteSchemaChange (=) \<lparr>chSchemaName = None, chOldName = Some ''t'', chNewName = Some ''t'',
     chColumns = [\<lparr>ccKey = [], ccOld = Some (example_column\<lparr>colName := ''a b''\<rparr>), ccNew = None\<rparr>],
     chConstraints = [], chCreateScript = None\<rparr>
   = [''ALTER TABLE \"main\".\"t\" DROP COLUMN a b'']"
  by (simp add: sqliteSchemaChange_def is_create_def sqlite_lines_def sqlite_column_lines_def
      name_or_def undefined_text_def escapeIdentity_def)

text \<open>
  The constraint of a changed PostgreSQL column is dropped and added under a foreign key's name,
  even when the column has no foreign key.
\<close>

lemma postgres_primary_key_name:
  "hd (postgresConstraintModifyScript postgres_dialect
     (modified_constraint ''id'' (no_constraint\<lparr>primaryKey := Is True\<rparr>)) ''t'')
   = ''DROP CONSTRAINT IF EXISTS t_undefined_id_fkey''"
  by code_simp

end
