(* ===== verification/SqliteDriver.thy ===== *)
theory SqliteDriver
  imports Dialects SchemaGen ParseTriggerView
begin

text \<open>
  The class \<open>SqliteLikeBaseDriver\<close>, \<open>admin/src/drivers/sqlite-base-driver.ts\<close>, over the
  connection \<open>_db\<close>.  The columns \<open>name\<close>, \<open>tbl_name\<close> of \<open>sqlite_schema\<close> and \<open>name\<close>, \<open>type\<close> of
  \<open>pragma_table_info\<close> are text.
\<close>

definition as_text :: "jsval \<Rightarrow> string" where
  "as_text v = (case v of Str s \<Rightarrow> s | _ \<Rightarrow> js_String v)"

text \<open>What a parser does with a value: \<open>tokenizeSql\<close> needs a string.\<close>

definition parse_text :: "(string \<Rightarrow> 'a result) \<Rightarrow> jsval \<Rightarrow> 'a result" where
  "parse_text f v = (case v of Str s \<Rightarrow> f s | _ \<Rightarrow> Inl (TypeError ''sql is not a string''))"

definition num_positive :: "jsnum \<Rightarrow> bool" where
  "num_positive n = (case n of NaN \<Rightarrow> False | Infinite neg \<Rightarrow> \<not> neg | Dec m s \<Rightarrow> 0 < m)"

section \<open>The list of a schema\<close>

definition schema_item ::
  "(string \<Rightarrow> token list) \<Rightarrow> string \<Rightarrow> jsval obj \<Rightarrow> DatabaseSchemaItem option" where
  "schema_item tokenizeSql schemaName row =
     (let name = as_text (obj_at row ''name'') in
      if obj_at row ''type'' = Str ''table'' then
        Some \<lparr>itemType = KindTable, itemName = name, itemSchemaName = schemaName,
              itemTableName = None,
              itemTableSchema =
                (case parse_text (parseCreateTableScript tokenizeSql schemaName) (obj_at row ''sql'') of
                   Inl e \<Rightarrow> None | Inr s \<Rightarrow> Some s)\<rparr>
      else if obj_at row ''type'' = Str ''trigger'' then
        Some \<lparr>itemType = KindTrigger, itemName = name, itemSchemaName = schemaName,
              itemTableName = Some (as_text (obj_at row ''tbl_name'')), itemTableSchema = None\<rparr>
      else if obj_at row ''type'' = Str ''view'' then
        Some \<lparr>itemType = KindView, itemName = name, itemSchemaName = schemaName,
              itemTableName = None, itemTableSchema = None\<rparr>
      else None)"

definition getSchemaList ::
  "(string \<Rightarrow> token list) \<Rightarrow> DatabaseResultSet \<Rightarrow> string \<Rightarrow> DatabaseSchemaItem list" where
  "getSchemaList tokenizeSql res schemaName =
     List.map_filter (schema_item tokenizeSql schemaName) (rsRows res)"

text \<open>The loop of \<open>reduce\<close>: \<open>databaseList[idx]\<close> fails behind the end.\<close>

fun collect_schemas ::
  "(string \<Rightarrow> token list) \<Rightarrow> string list \<Rightarrow> DatabaseResultSet list \<Rightarrow> DatabaseSchemas \<Rightarrow>
   DatabaseSchemas result" where
  "collect_schemas tokenizeSql names [] a = Inr a"
| "collect_schemas tokenizeSql [] (b # bs) a =
     Inl (TypeError ''Cannot read properties of undefined'')"
| "collect_schemas tokenizeSql (n # ns) (b # bs) a =
     collect_schemas tokenizeSql ns bs (obj_set n (getSchemaList tokenizeSql b n) a)"

definition schemas ::
  "(string \<Rightarrow> token list) \<Rightarrow> bool \<Rightarrow> 'w Connection \<Rightarrow> ('w, DatabaseSchemas) io" where
  "schemas tokenizeSql supportPragmaList db =
     io_bind
       (if supportPragmaList
        then io_catch
               (io_bind (dbQuery db ''PRAGMA database_list;'') (\<lambda>r.
                  io_return (map (\<lambda>row. as_text (obj_at row ''name'')) (rsRows r))))
               (\<lambda>_. io_return [''main''])
        else io_return [''main''])
       (\<lambda>names. io_bind
          (dbTransaction db (map (\<lambda>n. ''SELECT * FROM '' @ escapeIdentity n @ ''.sqlite_schema;'') names))
          (\<lambda>rs. io_lift (collect_schemas tokenizeSql names rs [])))"

section \<open>The schema of a table\<close>

definition legacy_column :: "jsval obj \<Rightarrow> DatabaseTableColumn" where
  "legacy_column row =
     \<lparr>colName = as_text (obj_at row ''name''), colType = as_text (obj_at row ''type''),
      colPk = Some (truthy (obj_at row ''pk'')), colConstraint = None\<rparr>"

definition sequence_count :: "DatabaseResultSet \<Rightarrow> bool" where
  "sequence_count r =
     (case rsRows r of
        [] \<Rightarrow> False
      | seqRow # _ \<Rightarrow>
          num_positive (js_ToNumber (if nullish (obj_at seqRow ''0'') then Num (Dec 0 0)
                                     else obj_at seqRow ''0'')))"

definition legacyTableSchema ::
  "'w Connection \<Rightarrow> string \<Rightarrow> string \<Rightarrow> ('w, DatabaseTableSchema) io" where
  "legacyTableSchema db schemaName tableName =
     io_bind (dbQuery db (''SELECT * FROM '' @ escapeIdentity schemaName @ ''.pragma_table_info(''
                          @ escapeValue (Str tableName) @ '');'')) (\<lambda>r.
       let columns = map legacy_column (rsRows r) in
       io_bind
         (io_catch
            (io_bind (dbQuery db (''SELECT COUNT(*) AS total FROM '' @ escapeIdentity schemaName
                       @ ''.sqlite_sequence WHERE name='' @ escapeValue (Str tableName) @ '';''))
               (\<lambda>s. io_return (sequence_count s)))
            (\<lambda>_. io_return False))
         (\<lambda>auto. io_return
            \<lparr>tsColumns = columns, tsPk = map colName (filter (\<lambda>c. colPk c = Some True) columns),
             tsAutoIncrement = auto, tsSchemaName = schemaName, tsTableName = None,
             tsConstraints = None, tsCreateScript = None, tsFts5 = None, tsType = None,
             tsWithoutRowId = None, tsStrict = None, tsSizeInByte = None\<rparr>))"

text \<open>The inner \<open>try\<close>: the schema that the create script gives, if there is one and it parses.\<close>

definition parsed_schema ::
  "(string \<Rightarrow> token list) \<Rightarrow> string \<Rightarrow> DatabaseResultSet \<Rightarrow> DatabaseTableSchema option" where
  "parsed_schema tokenizeSql schemaName r =
     (case find (\<lambda>row. obj_at row ''type'' = Str ''table'') (rsRows r) of
        None \<Rightarrow> None
      | Some row \<Rightarrow>
          (case parse_text (parseCreateTableScript tokenizeSql schemaName) (obj_at row ''sql'') of
             Inl e \<Rightarrow> None
           | Inr s \<Rightarrow> Some (s\<lparr>tsCreateScript := Some (as_text (obj_at row ''sql'')),
                            tsSchemaName := schemaName, tsType := Some KindTable\<rparr>)))"

definition tableSchema ::
  "(string \<Rightarrow> token list) \<Rightarrow> 'w Connection \<Rightarrow> string \<Rightarrow> string \<Rightarrow> ('w, DatabaseTableSchema) io" where
  "tableSchema tokenizeSql db schemaName tableName =
     io_bind (dbQuery db (''SELECT * FROM '' @ escapeIdentity schemaName
                @ ''.sqlite_schema WHERE tbl_name = '' @ escapeValue (Str tableName) @ '';'')) (\<lambda>r.
       case parsed_schema tokenizeSql schemaName r of
         Some s \<Rightarrow> io_return s
       | None \<Rightarrow> legacyTableSchema db schemaName tableName)"

section \<open>Triggers and views\<close>

definition trigger ::
  "(string \<Rightarrow> token list) \<Rightarrow> 'w Connection \<Rightarrow> string \<Rightarrow> string \<Rightarrow> ('w, DatabaseTriggerSchema) io" where
  "trigger tokenizeSql db schemaName name =
     io_bind (dbQuery db (''SELECT * FROM '' @ escapeIdentity schemaName
                @ ''.sqlite_schema WHERE \"type\"='' @ [quote1] @ ''trigger'' @ [quote1]
                @ '' AND name='' @ escapeValue (Str name) @ '';'')) (\<lambda>r.
       case rsRows r of
         [] \<Rightarrow> io_throw (JsError ''Trigger does not exist'')
       | row # _ \<Rightarrow> io_lift (parse_text (parseCreateTriggerScript tokenizeSql schemaName) (obj_at row ''sql'')))"

definition viewSchema ::
  "(string \<Rightarrow> token list) \<Rightarrow> 'w Connection \<Rightarrow> string \<Rightarrow> string \<Rightarrow> ('w, DatabaseViewSchema) io" where
  "viewSchema tokenizeSql db schemaName name =
     io_bind (dbQuery db (''SELECT * FROM '' @ escapeIdentity schemaName
                @ ''.sqlite_schema WHERE type = '' @ [quote1] @ ''view'' @ [quote1]
                @ '' AND name = '' @ escapeValue (Str name) @ '';'')) (\<lambda>r.
       case rsRows r of
         [] \<Rightarrow> io_throw (JsError ''View dose not exist'')
       | row # _ \<Rightarrow> io_lift (parse_text (parseCreateViewScript tokenizeSql schemaName) (obj_at row ''sql'')))"

definition createTrigger :: "DatabaseTriggerSchema \<Rightarrow> string" where
  "createTrigger change =
     ''CREATE TRIGGER '' @ escapeIdentity (trName change) @ '' '' @ [newline]
     @ when_str (trWhen change) @ '' '' @ operation_str (trOperation change) @ '' ON ''
     @ escapeIdentity (trTableName change) @ '' '' @ [newline] @ ''FOR EACH ROW '' @ [newline]
     @ ''BEGIN '' @ [newline, tab] @ trStatement change @ '' '' @ [newline] @ ''END''"

definition dropTrigger :: "string \<Rightarrow> string \<Rightarrow> string" where
  "dropTrigger schemaName name =
     ''DROP TRIGGER IF EXISTS '' @ escapeIdentity schemaName @ ''.'' @ escapeIdentity name"

definition createView :: "DatabaseViewSchema \<Rightarrow> string" where
  "createView v =
     ''CREATE VIEW '' @ escapeIdentity (vwSchemaName v) @ ''.'' @ escapeIdentity (vwName v)
     @ '' AS '' @ vwStatement v"

definition dropView :: "string \<Rightarrow> string \<Rightarrow> string" where
  "dropView schemaName name =
     ''DROP VIEW IF EXISTS '' @ escapeIdentity schemaName @ ''.'' @ escapeIdentity name"

section \<open>Reading rows\<close>

definition dropdownNormalized :: "string \<Rightarrow> string" where
  "dropdownNormalized typeName =
     (case convertSqliteType (Some typeName) of
        None \<Rightarrow> ''TEXT''
      | Some ColumnINTEGER \<Rightarrow> ''INTEGER''
      | Some ColumnREAL \<Rightarrow> ''REAL''
      | Some ColumnBLOB \<Rightarrow> ''BLOB''
      | Some ColumnTEXT \<Rightarrow> ''TEXT'')"

definition inferTypeFromHeader :: "DatabaseTableColumn option \<Rightarrow> ColumnType option" where
  "inferTypeFromHeader header =
     (case header of None \<Rightarrow> None | Some h \<Rightarrow> convertSqliteType (Some (colType h)))"

definition sqliteFindFirst_sql :: "string \<Rightarrow> string \<Rightarrow> jsval obj \<Rightarrow> string" where
  "sqliteFindFirst_sql schemaName tableName key =
     (let wherePart = js_join '', ''
            (map (\<lambda>(c, v). escapeIdentity c @ '' = '' @ escapeValue v) (obj_entries key));
          hasRowId = truthy (obj_at key ''rowid'')
      in ''SELECT '' @ (if hasRowId then ''rowid, '' else []) @ ''* FROM ''
         @ escapeIdentity schemaName @ ''.'' @ escapeIdentity tableName @ '' ''
         @ (if wherePart \<noteq> [] then ''WHERE '' @ wherePart else []) @ '' LIMIT 1 OFFSET 0'')"

definition sqliteFindFirst ::
  "'w Connection \<Rightarrow> string \<Rightarrow> string \<Rightarrow> jsval obj \<Rightarrow> ('w, DatabaseResultSet) io" where
  "sqliteFindFirst db schemaName tableName key =
     dbQuery db (sqliteFindFirst_sql schemaName tableName key)"

definition rowid_column :: DatabaseTableColumn where
  "rowid_column = \<lparr>colName = ''rowid'', colType = ''INTEGER'', colPk = None,
     colConstraint = Some (no_constraint\<lparr>primaryKey := Is True, autoIncrement := Is True\<rparr>)\<rparr>"

definition injects_rowid :: "DatabaseTableSchema \<Rightarrow> bool" where
  "injects_rowid schema =
     (length (tsPk schema) = 0 \<and> tsWithoutRowId schema \<noteq> Some True
      \<and> \<not> list_ex (\<lambda>c. colName c = ''rowid'') (tsColumns schema)
      \<and> tsType schema = Some KindTable)"

definition inject_rowid :: "DatabaseTableSchema \<Rightarrow> DatabaseTableSchema" where
  "inject_rowid schema =
     (if injects_rowid schema
      then schema\<lparr>tsColumns := rowid_column # tsColumns schema, tsPk := [''rowid''],
                  tsAutoIncrement := True\<rparr>
      else schema)"

definition schema_header :: "DatabaseTableColumn \<Rightarrow> DatabaseHeader" where
  "schema_header col =
     \<lparr>hdName = colName col, hdDisplayName = colName col, hdOriginalType = Some (colType col),
      hdType = None, hdTable = None, hdSchema = None, hdOriginalName = None\<rparr>"

definition with_headers :: "DatabaseTableSchema \<Rightarrow> DatabaseResultSet \<Rightarrow> DatabaseResultSet" where
  "with_headers schema res =
     (if length (rsHeaders res) = 0 \<and> length (rsRows res) = 0
      then res\<lparr>rsHeaders := map schema_header (tsColumns schema)\<rparr> else res)"

definition sqliteSelectTable ::
  "(string \<Rightarrow> token list) \<Rightarrow> 'w Connection \<Rightarrow> string \<Rightarrow> string \<Rightarrow> SelectFromTableOptions \<Rightarrow>
   ('w, DatabaseResultSet \<times> DatabaseTableSchema) io" where
  "sqliteSelectTable tokenizeSql db schemaName tableName opts =
     io_bind (tableSchema tokenizeSql db schemaName tableName) (\<lambda>schema0.
       let injectRowIdColumn = injects_rowid schema0;
           schema = inject_rowid schema0
       in io_bind (dbQuery db (select_sql sqlite_dialect (if injectRowIdColumn then ''rowid, '' else [])
                    schemaName tableName opts)) (\<lambda>res.
            io_return (with_headers schema res, schema)))"

end
