(* ===== verification/SqliteFacts.thy ===== *)
theory SqliteFacts
  imports SqliteDriver RowFacts ParserFacts
begin

text \<open>
  Properties of the SQLite driver: schemas are found whatever the scripts look like, and a
  table is only offered for editing with a key.
\<close>

section \<open>Lists of schema items\<close>

definition listed_row :: "jsval obj \<Rightarrow> bool" where
  "listed_row row = (obj_at row ''type'' \<in> {Str ''table'', Str ''trigger'', Str ''view''})"

lemma schema_item_listed: "schema_item tok sn row \<noteq> None \<longleftrightarrow> listed_row row"
  by (simp add: schema_item_def listed_row_def Let_def)

lemma schema_item_name:
  "schema_item tok sn row = Some i \<Longrightarrow> itemName i = as_text (obj_at row ''name'') \<and> itemSchemaName i = sn"
  by (auto simp: schema_item_def Let_def split: if_splits)

lemma map_filter_names:
  "map itemName (List.map_filter (schema_item tok sn) rows)
     = map (\<lambda>row. as_text (obj_at row ''name'')) (filter listed_row rows)"
proof (induction rows)
  case (Cons row rows)
  then show ?case
    using schema_item_listed [of tok sn row] schema_item_name [of tok sn row]
    by (cases "schema_item tok sn row") (auto simp: List.map_filter_simps)
qed (simp add: List.map_filter_simps)

text \<open>
  A create script that cannot be parsed hides nothing: whatever the tokenizer and the
  scripts are, the list of a schema has exactly one item for each table, trigger and view of
  \<open>sqlite_schema\<close>, in its order, under its name.
\<close>

theorem schema_list_complete:
  "map itemName (getSchemaList tokenizeSql res sn)
     = map (\<lambda>row. as_text (obj_at row ''name'')) (filter listed_row (rsRows res))
   \<and> (\<forall>i \<in> set (getSchemaList tokenizeSql res sn). itemSchemaName i = sn)"
proof
  show "map itemName (getSchemaList tokenizeSql res sn)
      = map (\<lambda>row. as_text (obj_at row ''name'')) (filter listed_row (rsRows res))"
    unfolding getSchemaList_def by (rule map_filter_names)
  show "\<forall>i \<in> set (getSchemaList tokenizeSql res sn). itemSchemaName i = sn"
    by (auto simp: getSchemaList_def List.map_filter_def dest: schema_item_name)
qed

theorem schema_list_complete_witness:
  "map itemName (getSchemaList (\<lambda>_. []) (one_row\<lparr>rsRows := [[(''type'', Str ''table''), (''name'', Str ''t'')],
     [(''type'', Str ''index''), (''name'', Str ''i'')]]\<rparr>) ''main'') = [''t'']"
  using schema_list_complete [of "\<lambda>_. []" "one_row\<lparr>rsRows := [[(''type'', Str ''table''), (''name'', Str ''t'')],
     [(''type'', Str ''index''), (''name'', Str ''i'')]]\<rparr>" "''main''"]
  by (simp add: listed_row_def obj_at_def as_text_def)

section \<open>Schemas of tables\<close>

definition answers :: "'w Connection \<Rightarrow> bool" where
  "answers db = (\<forall>q w. \<exists>r w1. dbQuery db q w = (Inr r, w1))"

lemma legacy_returns:
  assumes "\<exists>r w1. dbQuery db (''SELECT * FROM '' @ escapeIdentity sn @ ''.pragma_table_info(''
             @ escapeValue (Str t) @ '');'') w = (Inr r, w1)"
  shows "\<exists>s w2. legacyTableSchema db sn t w = (Inr s, w2)"
proof -
  obtain r w1 where q: "dbQuery db (''SELECT * FROM '' @ escapeIdentity sn @ ''.pragma_table_info(''
      @ escapeValue (Str t) @ '');'') w = (Inr r, w1)"
    using assms by blast
  let ?count = "dbQuery db (''SELECT COUNT(*) AS total FROM '' @ escapeIdentity sn
      @ ''.sqlite_sequence WHERE name='' @ escapeValue (Str t) @ '';'')"
  have c: "\<exists>b w2. io_catch (io_bind ?count (\<lambda>s. io_return (sequence_count s))) (\<lambda>_. io_return False) w1
      = (Inr b, w2)"
    by (cases "?count w1"; cases "fst (?count w1)") (auto simp: io_catch_def io_bind_def)
  from q c show ?thesis
    by (auto simp: legacyTableSchema_def Let_def io_bind_def)
qed

text \<open>
  The schema of a table is always found when the database answers: no create script, not
  even one that the parser rejects, makes \<open>tableSchema\<close> fail; the schema then comes from
  \<open>pragma_table_info\<close>, also when \<open>sqlite_sequence\<close> cannot be read.
\<close>

theorem table_schema_total:
  assumes "answers db"
  shows "\<exists>s w1. tableSchema tokenizeSql db sn t w = (Inr s, w1)"
proof -
  obtain r w1 where q: "dbQuery db (''SELECT * FROM '' @ escapeIdentity sn
      @ ''.sqlite_schema WHERE tbl_name = '' @ escapeValue (Str t) @ '';'') w = (Inr r, w1)"
    using assms unfolding answers_def by blast
  have "\<exists>s w2. legacyTableSchema db sn t w1 = (Inr s, w2)"
    using assms by (intro legacy_returns) (simp add: answers_def)
  then show ?thesis
    using q by (cases "parsed_schema tokenizeSql sn r") (auto simp: tableSchema_def io_bind_def)
qed

definition one_row_db :: "nat Connection" where
  "one_row_db = \<lparr>dbQuery = \<lambda>q w. (Inr one_row, Suc w), dbTransaction = \<lambda>qs w. (Inr [], w)\<rparr>"

theorem table_schema_total_witness:
  "\<exists>s w1. tableSchema (\<lambda>_. []) one_row_db ''main'' ''t'' 0 = (Inr s, w1)"
  by (rule table_schema_total) (simp add: answers_def one_row_db_def)

section \<open>Keys\<close>

text \<open>
  A table without a primary key is edited by its \<open>rowid\<close>: when the schema is a rowid
  table's without a key and without a column of that name, \<open>selectTable\<close> asks for \<open>rowid\<close>, the
  schema it returns has \<open>rowid\<close> as its key and its first column, and an operation that names a
  row by a \<open>rowid\<close> passes validation.
\<close>

theorem rowid_table_editable:
  assumes "tableSchema tokenizeSql db sn t w = (Inr s0, w1)"
    and "tsPk s0 = []" and "tsType s0 = Some KindTable" and "tsWithoutRowId s0 \<noteq> Some True"
    and "\<not> list_ex (\<lambda>c. colName c = ''rowid'') (tsColumns s0)"
    and "dbQuery db (select_sql sqlite_dialect ''rowid, '' sn t opts) w1 = (Inr r, w2)"
  shows "\<exists>s. sqliteSelectTable tokenizeSql db sn t opts w = (Inr (with_headers s r, s), w2)
     \<and> tsPk s = [''rowid''] \<and> tsColumns s = rowid_column # tsColumns s0
     \<and> (\<forall>v. \<not> nullish v \<longrightarrow> validateOperation (OpDelete [(''rowid'', v)]) s = (True, None)
          \<and> validateOperation (OpUpdate [(''a'', Null)] [(''rowid'', v)]) s = (True, None))"
proof -
  have inj: "injects_rowid s0" using assms(2-5) by (simp add: injects_rowid_def)
  have "sqliteSelectTable tokenizeSql db sn t opts w
      = (Inr (with_headers (inject_rowid s0) r, inject_rowid s0), w2)"
    using assms(1,6) inj by (simp add: sqliteSelectTable_def io_bind_def Let_def)
  moreover have "validateOperation (OpDelete [(''rowid'', v)]) (inject_rowid s0) = (True, None)"
    "validateOperation (OpUpdate [(''a'', Null)] [(''rowid'', v)]) (inject_rowid s0) = (True, None)"
    if "\<not> nullish v" for v
    using inj that by (simp_all add: validateOperation_def inject_rowid_def obj_at_def)
  ultimately show ?thesis using inj by (auto simp: inject_rowid_def)
qed

definition keyless_row :: "jsval obj" where
  "keyless_row = [(''type'', Str ''table''), (''sql'', Str ''s'')]"

definition keyless_db :: "nat Connection" where
  "keyless_db = \<lparr>dbQuery = \<lambda>q w. (Inr (one_row\<lparr>rsRows := [keyless_row]\<rparr>), Suc w),
     dbTransaction = \<lambda>qs w. (Inr [], w)\<rparr>"

lemma keyless_parsed:
  "parsed_schema (\<lambda>_. [word ''CREATE'', word ''TABLE'', word ''t'']) ''main'' (one_row\<lparr>rsRows := [keyless_row]\<rparr>)
    = Some (example_schema\<lparr>tsPk := [], tsAutoIncrement := False, tsConstraints := Some [],
        tsCreateScript := Some ''s'', tsType := Some KindTable\<rparr>)"
proof -
  let ?toks = "[word ''CREATE'', word ''TABLE'', word ''t'']"
  have "view (new_cursor ?toks) = [word ''CREATE'', word ''TABLE'', word ''t'']"
    by simp
  then obtain c where "script_head [''TEMP'', ''TEMPORARY'', ''VIRTUAL''] ''TABLE'' (new_cursor ?toks)
      = Inr (unescapeIdentity ''t'', c)" "cursor_ok c" "view c = []"
    using script_head_table [of "new_cursor ?toks" "''t''" "[]"] by auto
  moreover have "unescapeIdentity ''t'' = ''t''" by code_simp
  ultimately have "parseCreateTableScript (\<lambda>_. ?toks) ''main'' ''s''
      = Inr (example_schema\<lparr>tsPk := [], tsAutoIncrement := False, tsConstraints := Some []\<rparr>)"
    by (simp add: parseCreateTableScript_def stream_simps parseTableOption.simps [of c]
        example_schema_def)
  then show ?thesis
    by (simp add: parsed_schema_def keyless_row_def obj_at_def parse_text_def as_text_def
        example_schema_def)
qed

theorem rowid_table_editable_witness:
  "\<exists>s. sqliteSelectTable (\<lambda>_. [word ''CREATE'', word ''TABLE'', word ''t'']) keyless_db ''main'' ''t''
        \<lparr>whereRaw = None, optLimit = Dec 50 0, optOffset = Dec 0 0, orderBy = None\<rparr> 0
      = (Inr (with_headers s (one_row\<lparr>rsRows := [keyless_row]\<rparr>), s), 2) \<and> tsPk s = [''rowid'']"
proof -
  have t: "tableSchema (\<lambda>_. [word ''CREATE'', word ''TABLE'', word ''t'']) keyless_db ''main'' ''t'' 0
      = (Inr (example_schema\<lparr>tsPk := [], tsAutoIncrement := False, tsConstraints := Some [],
        tsCreateScript := Some ''s'', tsType := Some KindTable\<rparr>), 1)"
    by (simp add: tableSchema_def io_bind_def keyless_db_def keyless_parsed)
  have "dbQuery keyless_db q 1 = (Inr (one_row\<lparr>rsRows := [keyless_row]\<rparr>), 2)" for q
    by (simp add: keyless_db_def)
  from rowid_table_editable [OF t _ _ _ _ this] show ?thesis
    by (auto simp: example_schema_def)
qed

section \<open>Finding a row again\<close>

text \<open>
  \<open>findFirst\<close> of the SQLite driver asks for one row by one condition: with a key of a single
  column its condition reads back.  With a key of two columns the conditions are joined by a
  comma, so that reading the condition stops behind the first one.
\<close>

theorem find_first_condition:
  "(\<forall>c v. sql_value v \<longrightarrow> (\<exists>front rest. sqliteFindFirst_sql sn t [(c, v)] = front @ rest
       \<and> read_where (CHR 0x22) rest = Some ([(c, value_literal v)], '' LIMIT 1 OFFSET 0'')))
   \<and> (\<exists>front rest. sqliteFindFirst_sql ''main'' ''t'' [(''a'', Num (Dec 1 0)), (''b'', Num (Dec 2 0))] = front @ rest
       \<and> read_where (CHR 0x22) rest = Some ([(''a'', LitWord ''1'')], '', \"b\" = 2 LIMIT 1 OFFSET 0''))"
proof (intro conjI allI impI)
  fix c v
  assume v: "sql_value v"
  let ?rest = "the (generateWhere sqlite_dialect [(c, v)]) @ '' LIMIT 1 OFFSET 0''"
  have "obj_entries [(c, v)] = [(c, v)]" by (cases "is_index_key c") (simp_all add: obj_entries_def)
  then have "generateWhere sqlite_dialect [(c, v)] = Some (''WHERE '' @ escapeIdentity c @ '' = '' @ escapeValue v)"
    by (simp add: generateWhere_def condition_def sqlite_dialect_def)
  then have "sqliteFindFirst_sql sn t [(c, v)] = (''SELECT '' @ (if truthy (obj_at [(c, v)] ''rowid'') then ''rowid, '' else [])
      @ ''* FROM '' @ escapeIdentity sn @ ''.'' @ escapeIdentity t @ '' '') @ ?rest"
    using \<open>obj_entries [(c, v)] = [(c, v)]\<close> by (simp add: sqliteFindFirst_sql_def Let_def)
  moreover have "read_where (CHR 0x22) ?rest = Some ([(c, value_literal v)], '' LIMIT 1 OFFSET 0'')"
    using sqlite_rows.read_where_back [of "[(c, v)]" "'' LIMIT 1 OFFSET 0''"] v
      \<open>obj_entries [(c, v)] = [(c, v)]\<close> by simp
  ultimately show "\<exists>front rest. sqliteFindFirst_sql sn t [(c, v)] = front @ rest
       \<and> read_where (CHR 0x22) rest = Some ([(c, value_literal v)], '' LIMIT 1 OFFSET 0'')"
    by blast
next
  have "sqliteFindFirst_sql ''main'' ''t'' [(''a'', Num (Dec 1 0)), (''b'', Num (Dec 2 0))]
      = ''SELECT * FROM \"main\".\"t\" '' @ ''WHERE \"a\" = 1, \"b\" = 2 LIMIT 1 OFFSET 0''"
    by code_simp
  moreover have "read_where (CHR 0x22) ''WHERE \"a\" = 1, \"b\" = 2 LIMIT 1 OFFSET 0''
      = Some ([(''a'', LitWord ''1'')], '', \"b\" = 2 LIMIT 1 OFFSET 0'')"
    by code_simp
  ultimately show "\<exists>front rest. sqliteFindFirst_sql ''main'' ''t'' [(''a'', Num (Dec 1 0)), (''b'', Num (Dec 2 0))] = front @ rest
       \<and> read_where (CHR 0x22) rest = Some ([(''a'', LitWord ''1'')], '', \"b\" = 2 LIMIT 1 OFFSET 0'')"
    by blast
qed

theorem find_first_condition_witness:
  "\<exists>front rest. sqliteFindFirst_sql ''main'' ''t'' [(''id'', Str ''x'')] = front @ rest
       \<and> read_where (CHR 0x22) rest = Some ([(''id'', LitString ''x'')], '' LIMIT 1 OFFSET 0'')"
  using find_first_condition [of "''main''" "''t''", THEN conjunct1, rule_format, of "Str ''x''" "''id''"]
  by simp

end
