(* ===== verification/V8.thy ===== *)
theory V8
  imports JsValue
begin

unbundle bit_operations_syntax

text \<open>
  The reader of V8's serialization format, \<open>admin/src/lib/v8-derialization/index.ts\<close>.

  Objects and arrays can be shared and cyclic, so they live in the registry, a list indexed by
  their identifiers, and a value refers to them (\<open>VRef\<close>).  \<open>TextDecoder\<close> belongs to the browser
  and is a parameter, as is the text of a double used as a property key; doubles stay bit
  patterns.  The mutual recursion runs on fuel; \<^term>\<open>None\<close> is fuel that ran out, and
  \<open>V8Facts\<close> shows that the fuel of \<open>deserializeV8\<close> is enough for every buffer.
\<close>

section \<open>Values and the registry\<close>

datatype v8 =
    VUndefined
  | VNull
  | VBool bool
  | VInt int
  | VDouble "64 word"
  | VBigInt int
  | VString string
  | VDate "64 word"
  | VRef nat

datatype encoding = UTF16LE | ASCII | UTF8

datatype heap_object =
    HObject "v8 obj"
  | HArray "v8 option list" "v8 obj"

type_synonym ObjectRegistry = "heap_object list"

definition register :: "heap_object \<Rightarrow> ObjectRegistry \<Rightarrow> nat \<times> ObjectRegistry" where
  "register ob reg = (length reg, reg @ [ob])"

definition available_ids :: "ObjectRegistry \<Rightarrow> string" where
  "available_ids reg = js_join '', '' (map nat_digits [0..<length reg])"

definition registry_get :: "nat \<Rightarrow> ObjectRegistry \<Rightarrow> v8 result" where
  "registry_get i reg =
     (if i < length reg then Inr (VRef i)
      else Inl (JsError (''Object reference not found: '' @ nat_digits i @ '' (available: ''
                         @ available_ids reg @ '')'')))"

section \<open>Bytes\<close>

definition out_of_bounds :: js_error where
  "out_of_bounds = RangeError ''Offset is outside the bounds of the DataView''"

definition getUint8 :: "byte list \<Rightarrow> nat \<Rightarrow> byte result" where
  "getUint8 df offset = (if offset < length df then Inr (df ! offset) else Inl out_of_bounds)"

definition getFloat64 :: "byte list \<Rightarrow> nat \<Rightarrow> 64 word result" where
  "getFloat64 df offset =
     (if offset + 8 \<le> length df
      then Inr (foldr (\<lambda>b w. ucast b OR push_bit 8 w) (take 8 (drop offset df)) 0)
      else Inl out_of_bounds)"

text \<open>The loop of \<open>decodeVarint\<close> over the bytes from the offset on; \<open>|=\<close> and \<open><<\<close> are on 32 bits.\<close>

fun varint_loop :: "byte list \<Rightarrow> 32 word \<Rightarrow> nat \<Rightarrow> nat \<Rightarrow> (32 word \<times> nat) result" where
  "varint_loop [] res shift bytesRead =
     (if 32 \<le> shift then Inl (JsError ''Varint is too large'') else Inl out_of_bounds)"
| "varint_loop (currentByte # bs) res shift bytesRead =
     (if 32 \<le> shift then Inl (JsError ''Varint is too large'')
      else let res1 = res OR push_bit shift (ucast (currentByte AND 0x7F))
           in if currentByte AND 0x80 \<noteq> 0
              then varint_loop bs res1 (shift + 7) (bytesRead + 1)
              else Inr (res1, bytesRead + 1))"

definition decodeVarint :: "byte list \<Rightarrow> nat \<Rightarrow> (nat \<times> nat) result" where
  "decodeVarint df offset =
     rbind (varint_loop (drop offset df) 0 0 0) (\<lambda>(w, n). Inr (unat w, n))"

definition decodeZigZag :: "byte list \<Rightarrow> nat \<Rightarrow> (int \<times> nat) result" where
  "decodeZigZag df offset =
     rbind (decodeVarint df offset) (\<lambda>(v, n).
       let w = of_nat v :: 32 word
       in Inr (sint (drop_bit 1 w XOR - (w AND 1)), n))"

definition deserializeString ::
  "(encoding \<Rightarrow> byte list \<Rightarrow> string) \<Rightarrow> byte list \<Rightarrow> nat \<Rightarrow> encoding \<Rightarrow> (v8 \<times> nat) result" where
  "deserializeString decode df offset encoding =
     rbind (decodeVarint df offset) (\<lambda>(len, lengthBytesRead).
       let stringStart = offset + lengthBytesRead
       in if stringStart + len \<le> length df
          then Inr (VString (decode encoding (take len (drop stringStart df))), stringStart + len)
          else Inl (RangeError (''Invalid typed array length: '' @ nat_digits len)))"

text \<open>The loop of \<open>deserializeBigInt\<close>.\<close>

fun bigint_loop :: "byte list \<Rightarrow> nat \<Rightarrow> nat \<Rightarrow> nat \<Rightarrow> int \<Rightarrow> int result" where
  "bigint_loop df start i 0 v = Inr v"
| "bigint_loop df start i (Suc n) v =
     rbind (getUint8 df (start + i)) (\<lambda>b.
       bigint_loop df start (Suc i) n (v + push_bit (8 * i) (uint b)))"

definition deserializeBigInt :: "byte list \<Rightarrow> nat \<Rightarrow> (v8 \<times> nat) result" where
  "deserializeBigInt df offset =
     rbind (decodeVarint df offset) (\<lambda>(bitfield, bytesReadForBitfield).
       let isNegative = (bitfield mod 2 = 1);
           byteLength = bitfield div 2;
           digitsStart = offset + bytesReadForBitfield
       in rbind (bigint_loop df digitsStart 0 byteLength 0) (\<lambda>v.
            Inr (VBigInt (if isNegative then - v else v), digitsStart + byteLength)))"

section \<open>Properties of objects and arrays\<close>

text \<open>The property key of a string or number; other keys are dropped.\<close>

definition property_key :: "(64 word \<Rightarrow> string) \<Rightarrow> v8 \<Rightarrow> string option" where
  "property_key double_text k =
     (case k of VString s \<Rightarrow> Some s | VInt i \<Rightarrow> Some (int_str i) | VDouble w \<Rightarrow> Some (double_text w)
      | _ \<Rightarrow> None)"

definition object_set :: "(64 word \<Rightarrow> string) \<Rightarrow> v8 \<Rightarrow> v8 \<Rightarrow> heap_object \<Rightarrow> heap_object" where
  "object_set double_text key v ob =
     (case (property_key double_text key, ob) of
        (Some k, HObject ps) \<Rightarrow> HObject (obj_set k v ps)
      | _ \<Rightarrow> ob)"

definition resize :: "nat \<Rightarrow> v8 option list \<Rightarrow> v8 option list" where
  "resize n xs = take n xs @ replicate (n - length xs) None"

definition invalid_length :: js_error where
  "invalid_length = RangeError ''Invalid array length''"

text \<open>
  The conversion of a value that is assigned to \<open>length\<close>; doubles and objects are not
  converted, they count as invalid.
\<close>

definition js_length :: "v8 \<Rightarrow> nat result" where
  "js_length v =
     (let check = (\<lambda>i. if 0 \<le> i \<and> i < 4294967296 then Inr (nat i) else Inl invalid_length)
      in case v of
           VInt i \<Rightarrow> check i
         | VNull \<Rightarrow> Inr 0
         | VBool b \<Rightarrow> Inr (if b then 1 else 0)
         | VString s \<Rightarrow> (case js_Number s of Dec m 0 \<Rightarrow> check m | _ \<Rightarrow> Inl invalid_length)
         | VBigInt i \<Rightarrow> Inl (TypeError ''Cannot convert a BigInt value to a number'')
         | _ \<Rightarrow> Inl invalid_length)"

definition array_set ::
  "(64 word \<Rightarrow> string) \<Rightarrow> v8 \<Rightarrow> v8 \<Rightarrow> heap_object \<Rightarrow> heap_object result" where
  "array_set double_text key v ob =
     (case (property_key double_text key, ob) of
        (Some k, HArray xs ps) \<Rightarrow>
          if is_index_key k
          then let i = digits_val k
               in Inr (HArray ((resize (max (Suc i) (length xs)) xs)[i := Some v]) ps)
          else if k = ''length''
          then rbind (js_length v) (\<lambda>n. Inr (HArray (resize n xs) ps))
          else Inr (HArray xs (obj_set k v ps))
      | _ \<Rightarrow> Inr ob)"

definition array_push :: "v8 \<Rightarrow> heap_object \<Rightarrow> heap_object" where
  "array_push v ob = (case ob of HArray xs ps \<Rightarrow> HArray (xs @ [Some v]) ps | _ \<Rightarrow> ob)"

definition set_length :: "nat \<Rightarrow> heap_object \<Rightarrow> heap_object" where
  "set_length n ob = (case ob of HArray xs ps \<Rightarrow> HArray (resize n xs) ps | _ \<Rightarrow> ob)"

definition update_at :: "nat \<Rightarrow> (heap_object \<Rightarrow> heap_object) \<Rightarrow> ObjectRegistry \<Rightarrow> ObjectRegistry" where
  "update_at i f reg = reg[i := f (reg ! i)]"

section \<open>The recursive reader\<close>

text \<open>A step that may run out of fuel or throw.\<close>

type_synonym 'a step = "'a result option"

definition sbind :: "'a step \<Rightarrow> ('a \<Rightarrow> 'b step) \<Rightarrow> 'b step" where
  "sbind m f = (case m of None \<Rightarrow> None | Some (Inl e) \<Rightarrow> Some (Inl e) | Some (Inr x) \<Rightarrow> f x)"

lemma sbind_cong [fundef_cong]:
  "m = m' \<Longrightarrow> (\<And>x. m' = Some (Inr x) \<Longrightarrow> f x = f' x) \<Longrightarrow> sbind m f = sbind m' f'"
  by (cases m') (auto simp: sbind_def split: sum.splits)

lemma sbind_simps [simp]:
  "sbind None f = None"
  "sbind (Some (Inl e)) f = Some (Inl e)"
  "sbind (Some (Inr x)) f = f x"
  by (simp_all add: sbind_def)

record v8_env =
  df :: "byte list"
  decodeText :: "encoding \<Rightarrow> byte list \<Rightarrow> string"
  doubleText :: "64 word \<Rightarrow> string"

definition tag :: "char \<Rightarrow> byte" where
  "tag c = of_nat (of_char c)"

definition unsupported :: "byte \<Rightarrow> js_error" where
  "unsupported b = JsError (''Unsupported type: '' @ [char_of (unat b)] @ '' ('' @ nat_digits (unat b) @ '')'')"

text \<open>The values without parts.\<close>

definition simple_value ::
  "v8_env \<Rightarrow> nat \<Rightarrow> ObjectRegistry \<Rightarrow> byte \<Rightarrow> (v8 \<times> nat) result" where
  "simple_value env offset reg ty =
     (if ty = tag (CHR ''I'') then
        rbind (decodeZigZag (df env) (offset + 1)) (\<lambda>(v, n). Inr (VInt v, offset + 1 + n))
      else if ty = tag (CHR ''U'') then
        rbind (decodeVarint (df env) (offset + 1)) (\<lambda>(v, n). Inr (VInt (int v), offset + 1 + n))
      else if ty = tag (CHR ''c'') then
        deserializeString (decodeText env) (df env) (offset + 1) UTF16LE
      else if ty = tag (CHR 0x22) then
        deserializeString (decodeText env) (df env) (offset + 1) ASCII
      else if ty = tag (CHR ''S'') then
        deserializeString (decodeText env) (df env) (offset + 1) UTF8
      else if ty = tag (CHR ''F'') then Inr (VBool False, offset + 1)
      else if ty = tag (CHR ''T'') then Inr (VBool True, offset + 1)
      else if ty = tag (CHR ''0'') then Inr (VNull, offset + 1)
      else if ty = tag (CHR ''_'') then Inr (VUndefined, offset + 1)
      else if ty = tag (CHR ''N'') then
        rbind (getFloat64 (df env) (offset + 1)) (\<lambda>v. Inr (VDouble v, offset + 1 + 8))
      else if ty = tag (CHR ''Z'') then deserializeBigInt (df env) (offset + 1)
      else if ty = tag (CHR ''D'') then
        rbind (getFloat64 (df env) (offset + 1)) (\<lambda>v. Inr (VDate v, offset + 1 + 8))
      else if ty = tag (CHR ''^'') then
        rbind (decodeVarint (df env) (offset + 1)) (\<lambda>(refId, n).
          rbind (registry_get refId reg) (\<lambda>v. Inr (v, offset + 1 + n)))
      else Inl (unsupported ty))"

text \<open>What follows the properties of an object, and the elements of an array.\<close>

definition object_end :: "v8_env \<Rightarrow> nat \<Rightarrow> nat \<Rightarrow> nat result" where
  "object_end env currentOffset propertyCount =
     rbind (decodeVarint (df env) (currentOffset + 1)) (\<lambda>(numProperties, n).
       if propertyCount \<noteq> numProperties
       then Inl (JsError (''Expected '' @ nat_digits numProperties @ '' properties, but read ''
                          @ nat_digits propertyCount))
       else Inr (currentOffset + 1 + n))"

definition array_end :: "v8_env \<Rightarrow> nat \<Rightarrow> (nat \<times> nat \<times> nat) result" where
  "array_end env currentOffset =
     rbind (getUint8 (df env) currentOffset) (\<lambda>b.
       if b \<noteq> tag (CHR ''$'') then Inl (JsError ''Expected end of array marker'')
       else rbind (decodeVarint (df env) (currentOffset + 1)) (\<lambda>(numProperties, n).
         rbind (decodeVarint (df env) (currentOffset + 1 + n)) (\<lambda>(arrayLength, k).
           Inr (numProperties, arrayLength, currentOffset + 1 + n + k))))"

text \<open>
  The loops take the reader of one value as an argument, as does everything below; the reader
  itself recurses on the depth of nesting.
\<close>

type_synonym reader = "nat \<Rightarrow> ObjectRegistry \<Rightarrow> (v8 \<times> nat \<times> ObjectRegistry) step"

fun object_loop ::
  "v8_env \<Rightarrow> reader \<Rightarrow> nat \<Rightarrow> nat \<Rightarrow> nat \<Rightarrow> nat \<Rightarrow> ObjectRegistry \<Rightarrow> (nat \<times> nat \<times> ObjectRegistry) step"
where
  "object_loop env read 0 i propertyCount currentOffset reg = None"
| "object_loop env read (Suc fuel) i propertyCount currentOffset reg =
     sbind (Some (getUint8 (df env) currentOffset)) (\<lambda>b.
       if b = tag (CHR ''{'') then Some (Inr (propertyCount, currentOffset, reg))
       else
         sbind (read currentOffset reg) (\<lambda>(key, off1, reg1).
         sbind (read off1 reg1) (\<lambda>(v, off2, reg2).
           object_loop env read fuel i (propertyCount + 1) off2
             (update_at i (object_set (doubleText env) key v) reg2))))"

fun element_loop ::
  "reader \<Rightarrow> nat \<Rightarrow> nat \<Rightarrow> nat \<Rightarrow> ObjectRegistry \<Rightarrow> (nat \<times> ObjectRegistry) step" where
  "element_loop read i 0 currentOffset reg = Some (Inr (currentOffset, reg))"
| "element_loop read i (Suc n) currentOffset reg =
     sbind (read currentOffset reg) (\<lambda>(v, off1, reg1).
       element_loop read i n off1 (update_at i (array_push v) reg1))"

fun property_loop ::
  "v8_env \<Rightarrow> reader \<Rightarrow> nat \<Rightarrow> nat \<Rightarrow> nat \<Rightarrow> ObjectRegistry \<Rightarrow> (nat \<times> ObjectRegistry) step" where
  "property_loop env read i 0 currentOffset reg = Some (Inr (currentOffset, reg))"
| "property_loop env read i (Suc n) currentOffset reg =
     sbind (read currentOffset reg) (\<lambda>(key, off1, reg1).
     sbind (read off1 reg1) (\<lambda>(v, off2, reg2).
     sbind (Some (array_set (doubleText env) key v (reg2 ! i))) (\<lambda>ob.
       property_loop env read i n off2 (reg2[i := ob]))))"

definition deserializeJSObject :: "v8_env \<Rightarrow> reader \<Rightarrow> reader" where
  "deserializeJSObject env read offset reg =
     (let (i, reg1) = register (HObject []) reg in
      sbind (object_loop env read (Suc (length (df env))) i 0 offset reg1)
        (\<lambda>(propertyCount, off2, reg2).
      sbind (Some (object_end env off2 propertyCount)) (\<lambda>off3. Some (Inr (VRef i, off3, reg2)))))"

definition deserializeDenseJSArray :: "v8_env \<Rightarrow> reader \<Rightarrow> reader" where
  "deserializeDenseJSArray env read offset reg =
     (let (i, reg1) = register (HArray [] []) reg in
      sbind (Some (decodeVarint (df env) offset)) (\<lambda>(len, n).
      sbind (element_loop read i len (offset + n) reg1) (\<lambda>(off2, reg2).
      sbind (Some (array_end env off2)) (\<lambda>(numProperties, arrayLength, off3).
      sbind (property_loop env read i numProperties off3 reg2) (\<lambda>(off4, reg4).
        Some (Inr (VRef i, off4, update_at i (set_length arrayLength) reg4)))))))"

primrec deserializeValue :: "v8_env \<Rightarrow> nat \<Rightarrow> reader" where
  "deserializeValue env 0 = (\<lambda>offset reg. None)"
| "deserializeValue env (Suc fuel) = (\<lambda>offset reg.
     sbind (Some (getUint8 (df env) offset)) (\<lambda>ty.
       if ty = tag (CHR ''A'')
       then deserializeDenseJSArray env (deserializeValue env fuel) (offset + 1) reg
       else if ty = tag (CHR ''o'')
       then deserializeJSObject env (deserializeValue env fuel) (offset + 1) reg
       else sbind (Some (simple_value env offset reg ty)) (\<lambda>(v, off2). Some (Inr (v, off2, reg)))))"

text \<open>The answer: the message of an error, or the value with the objects it refers to.\<close>

fun error_message :: "js_error \<Rightarrow> string" where
  "error_message (JsError m) = m"
| "error_message (TypeError m) = m"
| "error_message (RangeError m) = m"
| "error_message (DriverError m) = m"

record DeserializationResponse =
  respError :: "string option"
  respValue :: v8
  respObjects :: ObjectRegistry

definition failed :: "string \<Rightarrow> DeserializationResponse" where
  "failed m = \<lparr>respError = Some m, respValue = VUndefined, respObjects = []\<rparr>"

definition deserializeV8 :: "v8_env \<Rightarrow> DeserializationResponse step" where
  "deserializeV8 env =
     sbind (Some (getUint8 (df env) 0)) (\<lambda>b0.
       if b0 \<noteq> 0xFF then Some (Inr (failed ''Invalid data format''))
       else sbind (Some (getUint8 (df env) 1)) (\<lambda>b1.
         if b1 \<noteq> 0x0F then Some (Inr (failed ''We only support deserialize version 15''))
         else case deserializeValue env (length (df env)) 2 [] of
             None \<Rightarrow> None
           | Some (Inl e) \<Rightarrow> Some (Inr (failed (error_message e)))
           | Some (Inr (v, off, reg)) \<Rightarrow>
               Some (Inr \<lparr>respError = None, respValue = v, respObjects = reg\<rparr>)))"

end
