(* ===== verification/V8Facts.thy ===== *)
theory V8Facts
  imports V8
begin

text \<open>
  Properties of the V8 reader: numbers written by the format's encoders read back, the reader
  always returns, and its result has no dangling reference.
\<close>

section \<open>Variable-length integers\<close>

text \<open>The writer of V8: seven bits per byte, the lowest first, the high bit on all but the last.\<close>

fun encode_varint :: "nat \<Rightarrow> byte list" where
  "encode_varint n =
     (if n < 128 then [of_nat n] else of_nat (n mod 128 + 128) # encode_varint (n div 128))"

declare encode_varint.simps [simp del]

lemma last_byte:
  assumes "n < 128"
  shows "(of_nat n :: byte) AND 0x80 = 0" "ucast ((of_nat n :: byte) AND 0x7F) = (of_nat n :: 32 word)"
proof -
  have "list_all (\<lambda>n. (of_nat n :: byte) AND 0x80 = 0
      \<and> ucast ((of_nat n :: byte) AND 0x7F) = (of_nat n :: 32 word)) [0..<128]"
    by code_simp
  with assms show "(of_nat n :: byte) AND 0x80 = 0"
    "ucast ((of_nat n :: byte) AND 0x7F) = (of_nat n :: 32 word)"
    by (auto simp: list_all_iff)
qed

lemma more_byte:
  assumes "n < 128"
  shows "(of_nat (n + 128) :: byte) AND 0x80 \<noteq> 0"
    "ucast ((of_nat (n + 128) :: byte) AND 0x7F) = (of_nat n :: 32 word)"
proof -
  have "list_all (\<lambda>n. (of_nat (n + 128) :: byte) AND 0x80 \<noteq> 0
      \<and> ucast ((of_nat (n + 128) :: byte) AND 0x7F) = (of_nat n :: 32 word)) [0..<128]"
    by code_simp
  with assms show "(of_nat (n + 128) :: byte) AND 0x80 \<noteq> 0"
    "ucast ((of_nat (n + 128) :: byte) AND 0x7F) = (of_nat n :: 32 word)"
    by (auto simp: list_all_iff)
qed

lemma split_seven:
  "(of_nat n :: 32 word) = of_nat (n mod 128) OR push_bit 7 (of_nat (n div 128))"
proof -
  have "n = take_bit 7 n OR push_bit 7 (drop_bit 7 n)"
  proof (rule bit_eqI)
    fix m
    show "bit n m = bit (take_bit 7 n OR push_bit 7 (drop_bit 7 n)) m"
      by (cases "m < 7") (simp_all add: bit_simps)
  qed
  then have "n = n mod 128 OR push_bit 7 (n div 128)"
    by (simp add: take_bit_eq_mod drop_bit_eq_div)
  then have "(of_nat n :: 32 word) = of_nat (n mod 128 OR push_bit 7 (n div 128))"
    by simp
  also have "\<dots> = of_nat (n mod 128) OR push_bit 7 (of_nat (n div 128))"
    by (simp add: of_nat_or_eq of_nat_push_bit)
  finally show ?thesis .
qed

lemma varint_loop_encoded:
  "n < 2 ^ (32 - 7 * k) \<Longrightarrow> k \<le> 4 \<Longrightarrow>
     varint_loop (encode_varint n @ rest) res (7 * k) k
       = Inr (res OR push_bit (7 * k) (of_nat n), k + length (encode_varint n))"
proof (induction n arbitrary: k res rule: encode_varint.induct)
  case (1 n)
  show ?case
  proof (cases "n < 128")
    case True
    with "1.prems" show ?thesis
      by (simp add: encode_varint.simps [of n] last_byte)
  next
    case False
    have "k \<noteq> 4"
    proof
      assume "k = 4"
      with "1.prems"(1) False show False by simp
    qed
    with "1.prems"(2) have k: "k \<le> 3" by simp
    have "n div 128 < 2 ^ (32 - 7 * Suc k)"
    proof -
      have "(2 :: nat) ^ (32 - 7 * k) = 2 ^ (32 - 7 * Suc k) * 128"
      proof -
        have "32 - 7 * k = (32 - 7 * Suc k) + 7" using k by arith
        then have "(2 :: nat) ^ (32 - 7 * k) = 2 ^ (32 - 7 * Suc k) * 2 ^ 7"
          by (simp only: power_add)
        then show ?thesis by simp
      qed
      with "1.prems"(1) show ?thesis by (simp add: less_mult_imp_div_less)
    qed
    from "1.IH" [OF False this, of "res OR push_bit (7 * k) (of_nat (n mod 128))"] k
    have "varint_loop (encode_varint (n div 128) @ rest) (res OR push_bit (7 * k) (of_nat (n mod 128)))
        (7 * k + 7) (Suc k)
      = Inr (res OR push_bit (7 * k) (of_nat (n mod 128)) OR push_bit (7 * k + 7) (of_nat (n div 128)),
          Suc k + length (encode_varint (n div 128)))"
      by (simp add: add.commute or.assoc)
    moreover have "res OR push_bit (7 * k) (of_nat (n mod 128)) OR push_bit (7 * k + 7) (of_nat (n div 128))
        = res OR push_bit (7 * k) (of_nat n :: 32 word)"
      by (subst split_seven [of n]) (simp add: push_bit_or or.assoc)
    ultimately show ?thesis
      using False k more_byte [of "n mod 128"]
      by (simp add: encode_varint.simps [of n])
  qed
qed

lemma decodeVarint_encoded:
  "n < 2 ^ 32 \<Longrightarrow>
     decodeVarint (front @ encode_varint n @ rest) (length front) = Inr (n, length (encode_varint n))"
  using varint_loop_encoded [of n 0 rest 0] by (simp add: decodeVarint_def unat_of_nat)

text \<open>
  Every 32-bit number that V8 writes as a variable-length integer is read back, wherever it
  stands in the buffer, together with the number of its bytes.
\<close>

theorem varint_roundtrip:
  assumes "n < 2 ^ 32"
  shows "decodeVarint (front @ encode_varint n @ rest) (length front) = Inr (n, length (encode_varint n))"
  using assms by (rule decodeVarint_encoded)

theorem varint_roundtrip_witness:
  "decodeVarint ([0xFF] @ encode_varint 300 @ [1]) 1 = Inr (300, 2) \<and> encode_varint 300 = [0xAC, 2]"
proof -
  have e: "encode_varint 300 = [0xAC, 2]" by (simp add: encode_varint.simps)
  then show ?thesis using varint_roundtrip [of 300 "[0xFF]" "[1]"] by simp
qed

section \<open>Signed integers\<close>

definition zigzag :: "int \<Rightarrow> nat" where
  "zigzag i = (if 0 \<le> i then nat (2 * i) else nat (- 2 * i - 1))"

lemma half_word:
  assumes "v < 2 ^ 32"
  shows "drop_bit 1 (of_nat v :: 32 word) = of_nat (v div 2)"
proof -
  have "unat (drop_bit 1 (of_nat v :: 32 word)) = drop_bit 1 (unat (of_nat v :: 32 word))"
    by (rule unat_drop_bit_eq)
  also have "\<dots> = v div 2"
    using assms by (simp add: unat_of_nat drop_bit_eq_div)
  also have "\<dots> = unat (of_nat (v div 2) :: 32 word)"
    using assms by (simp add: unat_of_nat)
  finally show ?thesis by (rule unsigned_word_eqI)
qed

lemma low_bit: "(of_nat v :: 32 word) AND 1 = (if odd v then 1 else 0)"
  by (simp add: and_one_eq mod2_eq_if)

lemma sint_small:
  "- (2 ^ 31) \<le> i \<Longrightarrow> i < 2 ^ 31 \<Longrightarrow> sint (of_int i :: 32 word) = i"
  by (simp add: signed_of_int signed_take_bit_int_eq_self)

lemma decode_zigzag_word:
  assumes "- (2 ^ 31) \<le> i" and "i < 2 ^ 31"
  shows "sint (drop_bit 1 (of_nat (zigzag i) :: 32 word) XOR - (of_nat (zigzag i) AND 1)) = i"
proof (cases "0 \<le> i")
  case True
  then have v: "zigzag i = 2 * nat i" by (simp add: zigzag_def nat_mult_distrib)
  have "zigzag i < 2 ^ 32" using v assms True by simp
  then have "drop_bit 1 (of_nat (zigzag i) :: 32 word) = of_nat (zigzag i div 2)"
    by (rule half_word)
  also have "\<dots> = of_int i" using v True by simp
  finally have d: "drop_bit 1 (of_nat (zigzag i) :: 32 word) = of_int i" .
  have l: "(of_nat (zigzag i) :: 32 word) AND 1 = 0" unfolding low_bit using v by simp
  show ?thesis unfolding d l using sint_small [OF assms] by simp
next
  case False
  then have v: "zigzag i = 2 * nat (- i - 1) + 1"
    by (simp add: zigzag_def)
  have "zigzag i < 2 ^ 32" using v assms False by simp
  then have "drop_bit 1 (of_nat (zigzag i) :: 32 word) = of_nat (zigzag i div 2)"
    by (rule half_word)
  also have "\<dots> = of_nat (nat (- i - 1))" using v by simp
  also have "\<dots> = of_int (- i - 1)" using False by simp
  finally have d: "drop_bit 1 (of_nat (zigzag i) :: 32 word) = NOT (of_int i)"
    by (simp add: not_eq_complement)
  have l: "(of_nat (zigzag i) :: 32 word) AND 1 = 1" unfolding low_bit using v by simp
  have "NOT (of_int i :: 32 word) XOR - 1 = of_int i" by simp
  with sint_small [OF assms] show ?thesis unfolding d l by simp
qed

text \<open>
  Every signed 32-bit integer that V8 writes (zigzag, then variable-length) is read back
  with its sign.
\<close>

theorem zigzag_roundtrip:
  assumes "- (2 ^ 31) \<le> i" and "i < 2 ^ 31"
  shows "decodeZigZag (front @ encode_varint (zigzag i) @ rest) (length front)
     = Inr (i, length (encode_varint (zigzag i)))"
proof -
  have "zigzag i < 2 ^ 32" using assms by (auto simp: zigzag_def)
  then have "decodeVarint (front @ encode_varint (zigzag i) @ rest) (length front)
      = Inr (zigzag i, length (encode_varint (zigzag i)))"
    by (rule decodeVarint_encoded)
  with decode_zigzag_word [OF assms] show ?thesis by (simp add: decodeZigZag_def Let_def)
qed

theorem zigzag_roundtrip_witness: "decodeZigZag ([0x49] @ [5]) 1 = Inr (- 3, 1)"
proof -
  have "encode_varint (zigzag (- 3)) = [5]" by (simp add: zigzag_def encode_varint.simps)
  then show ?thesis using zigzag_roundtrip [of "- 3" "[0x49]" "[]"] by simp
qed

section \<open>Big integers\<close>

fun le_bytes :: "nat \<Rightarrow> nat \<Rightarrow> byte list" where
  "le_bytes 0 x = []"
| "le_bytes (Suc n) x = of_nat (x mod 256) # le_bytes n (x div 256)"

lemma length_le_bytes [simp]: "length (le_bytes n x) = n"
  by (induction n arbitrary: x) simp_all

lemma bigint_loop_bytes:
  "x < 256 ^ n \<Longrightarrow> start + i = length front \<Longrightarrow>
     bigint_loop (front @ le_bytes n x @ rest) start i n v = Inr (v + push_bit (8 * i) (int x))"
proof (induction n arbitrary: x front i v)
  case (Suc n)
  have small: "x div 256 < 256 ^ n" using Suc.prems(1) by (simp add: less_mult_imp_div_less mult.commute)
  have next_front: "start + Suc i = length (front @ [of_nat (x mod 256)])" using Suc.prems(2) by simp
  have byte: "uint (of_nat (x mod 256) :: byte) = int (x mod 256)"
    by (simp add: unsigned_of_nat take_bit_eq_mod)
  have "push_bit (8 * i) (int x)
      = push_bit (8 * i) (int (x mod 256)) + push_bit (8 * Suc i) (int (x div 256))"
  proof -
    have "x = x mod 256 + 256 * (x div 256)" by simp
    then have "int x = int (x mod 256) + 256 * int (x div 256)"
      by (metis of_nat_add of_nat_mult of_nat_numeral)
    then have "push_bit (8 * i) (int x) = (int (x mod 256) + 256 * int (x div 256)) * 2 ^ (8 * i)"
      by (simp add: push_bit_eq_mult)
    then show ?thesis by (simp add: push_bit_eq_mult power_add algebra_simps)
  qed
  moreover have "getUint8 (front @ le_bytes (Suc n) x @ rest) (start + i) = Inr (of_nat (x mod 256))"
    using Suc.prems(2) by (simp add: getUint8_def nth_append)
  ultimately show ?case
    using Suc.IH [OF small next_front, of "v + push_bit (8 * i) (int (x mod 256))"] byte
    by (simp add: add.assoc)
qed simp

definition encode_bigint :: "int \<Rightarrow> nat \<Rightarrow> byte list" where
  "encode_bigint i n = encode_varint (2 * n + (if i < 0 then 1 else 0)) @ le_bytes n (nat \<bar>i\<bar>)"

text \<open>
  A big integer of any size that V8 writes (sign and length, then its bytes, the lowest
  first) is read back exactly, and the reader stops right behind it.
\<close>

theorem bigint_roundtrip:
  assumes "nat \<bar>i\<bar> < 256 ^ n" and "n < 2 ^ 31"
  shows "deserializeBigInt (front @ encode_bigint i n @ rest) (length front)
     = Inr (VBigInt i, length front + length (encode_bigint i n))"
proof -
  let ?b = "2 * n + (if i < 0 then 1 else 0)"
  let ?buf = "front @ encode_varint ?b @ le_bytes n (nat \<bar>i\<bar>) @ rest"
  have "?b < 2 ^ 32" using assms(2) by simp
  then have v: "decodeVarint ?buf (length front) = Inr (?b, length (encode_varint ?b))"
    by (rule decodeVarint_encoded)
  have "bigint_loop ((front @ encode_varint ?b) @ le_bytes n (nat \<bar>i\<bar>) @ rest)
      (length front + length (encode_varint ?b)) 0 n 0 = Inr (0 + push_bit (8 * 0) (int (nat \<bar>i\<bar>)))"
    using assms(1) by (intro bigint_loop_bytes) simp_all
  with v show ?thesis
    by (cases "i < 0") (simp_all add: deserializeBigInt_def encode_bigint_def Let_def)
qed

theorem bigint_roundtrip_witness:
  "deserializeBigInt (encode_bigint (- 258) 2) 0 = Inr (VBigInt (- 258), 3)
   \<and> encode_bigint (- 258) 2 = [5, 2, 1]"
proof -
  have e: "encode_bigint (- 258) 2 = [5, 2, 1]"
    by (simp add: encode_bigint_def encode_varint.simps numeral_2_eq_2)
  then show ?thesis using bigint_roundtrip [of "- 258" 2 "[]" "[]"] by simp
qed

section \<open>The reader returns\<close>

definition advances :: "reader \<Rightarrow> bool" where
  "advances read = (\<forall>off reg v off1 reg1. read off reg = Some (Inr (v, off1, reg1)) \<longrightarrow> off < off1)"

lemma read_forward: "advances read \<Longrightarrow> read off reg = Some (Inr (v, off1, reg1)) \<Longrightarrow> off < off1"
  unfolding advances_def by blast

lemma sbind_Inr_iff: "sbind m f = Some (Inr y) \<longleftrightarrow> (\<exists>x. m = Some (Inr x) \<and> f x = Some (Inr y))"
  by (auto simp: sbind_def split: option.splits sum.splits)

lemma sbind_None_iff: "sbind m f = None \<longleftrightarrow> m = None \<or> (\<exists>x. m = Some (Inr x) \<and> f x = None)"
  by (auto simp: sbind_def split: option.splits sum.splits)

lemma object_loop_step:
  assumes "object_loop env read (Suc fuel) i c off reg = Some (Inr (n, off1, reg1))"
  shows "(off1 = off \<and> reg1 = reg) \<or> (\<exists>key off2 reg2 v off3 reg3.
     read off reg = Some (Inr (key, off2, reg2)) \<and> read off2 reg2 = Some (Inr (v, off3, reg3))
     \<and> object_loop env read fuel i (c + 1) off3
         (update_at i (object_set (doubleText env) key v) reg3) = Some (Inr (n, off1, reg1)))"
  using assms by (auto simp: sbind_Inr_iff split: if_splits)

lemma object_loop_advances:
  "advances read \<Longrightarrow> object_loop env read fuel i c off reg = Some (Inr (n, off1, reg1)) \<Longrightarrow> off \<le> off1"
proof (induction fuel arbitrary: c off reg)
  case (Suc fuel)
  from object_loop_step [OF Suc.prems(2)] show ?case
  proof (elim disjE exE conjE)
    fix key off2 reg2 v off3 reg3
    assume steps: "read off reg = Some (Inr (key, off2, reg2))" "read off2 reg2 = Some (Inr (v, off3, reg3))"
      and loop: "object_loop env read fuel i (c + 1) off3
         (update_at i (object_set (doubleText env) key v) reg3) = Some (Inr (n, off1, reg1))"
    have "off < off2" "off2 < off3" using Suc.prems(1) steps unfolding advances_def by blast+
    with Suc.IH [OF Suc.prems(1) loop] show ?thesis by simp
  qed simp
qed simp

lemma element_loop_advances:
  "advances read \<Longrightarrow> element_loop read i n off reg = Some (Inr (off1, reg1)) \<Longrightarrow> off \<le> off1"
proof (induction n arbitrary: off reg)
  case (Suc n)
  then obtain v off2 reg2 where "read off reg = Some (Inr (v, off2, reg2))"
    "element_loop read i n off2 (update_at i (array_push v) reg2) = Some (Inr (off1, reg1))"
    by (auto simp: sbind_Inr_iff)
  with Suc.IH [of off2] Suc.prems(1) show ?case unfolding advances_def by fastforce
qed simp

lemma property_loop_advances:
  "advances read \<Longrightarrow> property_loop env read i n off reg = Some (Inr (off1, reg1)) \<Longrightarrow> off \<le> off1"
proof (induction n arbitrary: off reg)
  case (Suc n)
  from Suc.prems(2) obtain k v off2 reg2 off3 reg3 ob where s: "read off reg = Some (Inr (k, off2, reg2))"
    "read off2 reg2 = Some (Inr (v, off3, reg3))"
    "property_loop env read i n off3 (reg3[i := ob]) = Some (Inr (off1, reg1))"
    by (auto simp: sbind_Inr_iff)
  have "off < off2" "off2 < off3" "off3 \<le> off1"
    using s(1,2) Suc.IH [OF Suc.prems(1) s(3)] by (auto intro: read_forward [OF Suc.prems(1)])
  then show ?case by simp
qed simp

lemma simple_value_advances: "simple_value env off reg ty = Inr (v, off1) \<Longrightarrow> off < off1"
  by (auto simp: simple_value_def rbind_Inr_iff deserializeString_def deserializeBigInt_def Let_def
      split: if_splits)

lemma array_end_advances: "array_end env off = Inr (np, al, off1) \<Longrightarrow> off < off1"
  by (auto simp: array_end_def rbind_Inr_iff split: if_splits)

text \<open>The steps of an object and of an array that were read.\<close>

lemma object_steps:
  assumes "deserializeJSObject env read off reg = Some (Inr (v, off1, reg1))"
  shows "\<exists>c off2 k. v = VRef (length reg) \<and>
     object_loop env read (Suc (length (df env))) (length reg) 0 off (reg @ [HObject []])
       = Some (Inr (c, off2, reg1)) \<and> off1 = off2 + 1 + k"
  using assms
  by (fastforce simp: deserializeJSObject_def register_def object_end_def sbind_Inr_iff rbind_Inr_iff
      split: if_splits)

lemma dense_array_steps:
  assumes "deserializeDenseJSArray env read off reg = Some (Inr (v, off1, reg1))"
  shows "\<exists>len n off2 reg2 np al off3 reg4. v = VRef (length reg) \<and>
     element_loop read (length reg) len (off + n) (reg @ [HArray [] []]) = Some (Inr (off2, reg2)) \<and>
     array_end env off2 = Inr (np, al, off3) \<and>
     property_loop env read (length reg) np off3 reg2 = Some (Inr (off1, reg4)) \<and>
     reg1 = update_at (length reg) (set_length al) reg4"
proof -
  obtain len n where 1: "decodeVarint (df env) off = Inr (len, n)"
    using assms by (auto simp: deserializeDenseJSArray_def register_def sbind_Inr_iff)
  with assms obtain off2 reg2 where 2: "element_loop read (length reg) len (off + n) (reg @ [HArray [] []])
      = Some (Inr (off2, reg2))"
    by (auto simp: deserializeDenseJSArray_def register_def sbind_Inr_iff)
  with 1 assms obtain np al off3 where 3: "array_end env off2 = Inr (np, al, off3)"
    by (auto simp: deserializeDenseJSArray_def register_def sbind_Inr_iff)
  with 1 2 assms obtain off4 reg4 where 4: "property_loop env read (length reg) np off3 reg2
      = Some (Inr (off4, reg4))"
    by (auto simp: deserializeDenseJSArray_def register_def sbind_Inr_iff)
  with 1 2 3 assms have "v = VRef (length reg)" "off1 = off4"
    "reg1 = update_at (length reg) (set_length al) reg4"
    by (simp_all add: deserializeDenseJSArray_def register_def)
  with 2 3 4 show ?thesis by blast
qed

lemma reader_advances: "advances (deserializeValue env fuel)"
proof (induction fuel)
  case 0
  show ?case by (simp add: advances_def)
next
  case (Suc fuel)
  let ?read = "deserializeValue env fuel"
  have obj: "deserializeJSObject env ?read off reg = Some (Inr (v, off1, reg1)) \<Longrightarrow> off \<le> off1"
    for off reg v off1 reg1
    by (auto dest!: object_steps object_loop_advances [OF Suc.IH])
  have arr: "off \<le> off1"
    if "deserializeDenseJSArray env ?read off reg = Some (Inr (v, off1, reg1))" for off reg v off1 reg1
  proof -
    note h = that
    obtain len n off2 reg2 np al off3 reg4 where
      "element_loop ?read (length reg) len (off + n) (reg @ [HArray [] []]) = Some (Inr (off2, reg2))"
      "array_end env off2 = Inr (np, al, off3)"
      "property_loop env ?read (length reg) np off3 reg2 = Some (Inr (off1, reg4))"
      using dense_array_steps [OF h] by auto
    then have "off + n \<le> off2" "off2 < off3" "off3 \<le> off1"
      using element_loop_advances [OF Suc.IH] array_end_advances property_loop_advances [OF Suc.IH] by blast+
    then show ?thesis by simp
  qed
  show ?case
    unfolding advances_def
    using simple_value_advances obj arr
    by (fastforce simp: sbind_Inr_iff split: if_splits)
qed

lemma sbind_None_cont: "sbind m f = None \<Longrightarrow> m \<noteq> None \<Longrightarrow> \<exists>x. m = Some (Inr x) \<and> f x = None"
  by (auto simp: sbind_None_iff)

text \<open>A reader that returns from an offset on.\<close>

definition returns_from :: "reader \<Rightarrow> nat \<Rightarrow> bool" where
  "returns_from read off = (\<forall>off1 reg. off \<le> off1 \<longrightarrow> read off1 reg \<noteq> None)"

lemma returns_from_le: "returns_from read off \<Longrightarrow> off \<le> off1 \<Longrightarrow> returns_from read off1"
  by (auto simp: returns_from_def)

lemma read_returns: "returns_from read off \<Longrightarrow> off \<le> off1 \<Longrightarrow> read off1 reg \<noteq> None"
  by (simp add: returns_from_def)

lemma object_loop_None:
  assumes "object_loop env read (Suc fuel) i c off reg = None"
  shows "off < length (df env) \<and> (read off reg = None \<or> (\<exists>key off2 reg2.
     read off reg = Some (Inr (key, off2, reg2)) \<and> (read off2 reg2 = None \<or> (\<exists>v off3 reg3.
       read off2 reg2 = Some (Inr (v, off3, reg3)) \<and>
       object_loop env read fuel i (c + 1) off3
         (update_at i (object_set (doubleText env) key v) reg3) = None))))"
  using assms by (auto simp: sbind_None_iff getUint8_def split: if_splits)

lemma object_loop_returns:
  "advances read \<Longrightarrow> returns_from read off \<Longrightarrow> length (df env) < off + fuel \<Longrightarrow>
     0 < fuel \<Longrightarrow> object_loop env read fuel i c off reg \<noteq> None"
proof (induction fuel arbitrary: c off reg)
  case (Suc fuel)
  show ?case
  proof
    assume none: "object_loop env read (Suc fuel) i c off reg = None"
    have lt: "off < length (df env)" using object_loop_None [OF none] by blast
    obtain key off2 reg2 where s1: "read off reg = Some (Inr (key, off2, reg2))"
      using object_loop_None [OF none] read_returns [OF Suc.prems(2), of off reg] by blast
    have l1: "off < off2" by (rule read_forward [OF Suc.prems(1) s1])
    have ne: "read off2 reg2 \<noteq> None" using l1 by (intro read_returns [OF Suc.prems(2)]) simp
    obtain v off3 reg3 where s2: "read off2 reg2 = Some (Inr (v, off3, reg3))"
      and loop: "object_loop env read fuel i (c + 1) off3
         (update_at i (object_set (doubleText env) key v) reg3) = None"
      using object_loop_None [OF none] s1 ne by auto
    have l2: "off2 < off3" by (rule read_forward [OF Suc.prems(1) s2])
    have ret: "returns_from read off3" by (rule returns_from_le [OF Suc.prems(2)]) (use l1 l2 in simp)
    have "length (df env) < off3 + fuel" "0 < fuel" using lt l1 l2 Suc.prems(3) by simp_all
    from Suc.IH [OF Suc.prems(1) ret this] loop show False by blast
  qed
qed simp

lemma element_loop_returns:
  "advances read \<Longrightarrow> returns_from read off \<Longrightarrow> element_loop read i n off reg \<noteq> None"
proof (induction n arbitrary: off reg)
  case (Suc n)
  show ?case
  proof
    assume none: "element_loop read i (Suc n) off reg = None"
    have "read off reg \<noteq> None" by (rule read_returns [OF Suc.prems(2)]) simp
    with none obtain v off2 reg2 where s: "read off reg = Some (Inr (v, off2, reg2))"
      "element_loop read i n off2 (update_at i (array_push v) reg2) = None"
      by (auto simp: sbind_None_iff)
    have "off < off2" by (rule read_forward [OF Suc.prems(1) s(1)])
    then have "returns_from read off2" by (intro returns_from_le [OF Suc.prems(2)]) simp
    from Suc.IH [OF Suc.prems(1) this] s(2) show False by blast
  qed
qed simp

lemma property_loop_returns:
  "advances read \<Longrightarrow> returns_from read off \<Longrightarrow> property_loop env read i n off reg \<noteq> None"
proof (induction n arbitrary: off reg)
  case (Suc n)
  show ?case
  proof
    assume none: "property_loop env read i (Suc n) off reg = None"
    have ne: "read off reg \<noteq> None" by (rule read_returns [OF Suc.prems(2)]) simp
    obtain k off2 reg2 where s1: "read off reg = Some (Inr (k, off2, reg2))"
      and n1: "sbind (read off2 reg2) (\<lambda>(v, off2, reg2).
        sbind (Some (array_set (doubleText env) k v (reg2 ! i))) (\<lambda>ob.
          property_loop env read i n off2 (reg2[i := ob]))) = None"
      using sbind_None_cont [OF none [unfolded property_loop.simps] ne] by auto
    have l1: "off < off2" by (rule read_forward [OF Suc.prems(1) s1])
    have ne2: "read off2 reg2 \<noteq> None" using l1 by (intro read_returns [OF Suc.prems(2)]) simp
    obtain v off3 reg3 where s2: "read off2 reg2 = Some (Inr (v, off3, reg3))"
      and n2: "sbind (Some (array_set (doubleText env) k v (reg3 ! i))) (\<lambda>ob.
          property_loop env read i n off3 (reg3[i := ob])) = None"
      using sbind_None_cont [OF n1 ne2] by auto
    obtain ob where n3: "property_loop env read i n off3 (reg3[i := ob]) = None"
      using sbind_None_cont [OF n2] by auto
    have l2: "off2 < off3" by (rule read_forward [OF Suc.prems(1) s2])
    have "returns_from read off3" by (rule returns_from_le [OF Suc.prems(2)]) (use l1 l2 in simp)
    from Suc.IH [OF Suc.prems(1) this] n3 show False by blast
  qed
qed simp

lemma dense_array_returns:
  assumes "advances read" and "returns_from read off"
  shows "deserializeDenseJSArray env read off reg \<noteq> None"
proof (cases "decodeVarint (df env) off")
  case (Inr p)
  obtain len n where p: "p = (len, n)" by (cases p)
  let ?elements = "element_loop read (length reg) len (off + n) (reg @ [HArray [] []])"
  have rn: "returns_from read (off + n)" using assms(2) by (auto intro: returns_from_le)
  show ?thesis
  proof (cases ?elements)
    case None
    with element_loop_returns [OF assms(1) rn] show ?thesis by blast
  next
    case (Some r)
    show ?thesis
    proof (cases r)
      case (Inl e)
      with Some Inr p show ?thesis by (simp add: deserializeDenseJSArray_def register_def)
    next
      case (Inr q)
      obtain off2 reg2 where q: "q = (off2, reg2)" by (cases q)
      with Inr Some have el: "?elements = Some (Inr (off2, reg2))" by simp
      show ?thesis
      proof (cases "array_end env off2")
        case (Inl e)
        with el \<open>decodeVarint (df env) off = Inr p\<close> p show ?thesis
          by (simp add: deserializeDenseJSArray_def register_def)
      next
        case (Inr t)
        obtain np al off3 where t: "t = (np, al, off3)" by (cases t)
        have "off \<le> off3"
          using element_loop_advances [OF assms(1) el] array_end_advances [of env off2] Inr t by fastforce
        then have "property_loop env read (length reg) np off3 reg2 \<noteq> None"
          using property_loop_returns [OF assms(1)] returns_from_le [OF assms(2)] by blast
        with el \<open>decodeVarint (df env) off = Inr p\<close> p Inr t show ?thesis
          by (auto simp: deserializeDenseJSArray_def register_def sbind_None_iff)
      qed
    qed
  qed
qed (simp add: deserializeDenseJSArray_def register_def)

lemma reader_returns: "length (df env) < off + fuel \<Longrightarrow> 0 < fuel \<Longrightarrow> deserializeValue env fuel off reg \<noteq> None"
proof (induction fuel arbitrary: off reg)
  case (Suc fuel)
  let ?read = "deserializeValue env fuel"
  show ?case
  proof (cases "off < length (df env)")
    case False
    then show ?thesis by (simp add: getUint8_def)
  next
    case True
    have r: "returns_from ?read (off + 1)"
      unfolding returns_from_def using Suc True by auto
    have adv: "advances ?read" by (rule reader_advances)
    have "deserializeJSObject env ?read (off + 1) reg \<noteq> None"
      using object_loop_returns [OF adv r, of env "Suc (length (df env))"]
      by (auto simp: deserializeJSObject_def sbind_None_iff Let_def split_beta)
    moreover have "deserializeDenseJSArray env ?read (off + 1) reg \<noteq> None"
      by (rule dense_array_returns [OF adv r])
    moreover have "sbind (Some r) (\<lambda>(v, off2). Some (Inr (v, off2, reg))) \<noteq> None"
      for r :: "(v8 \<times> nat) result"
      by (cases r) (auto simp: split_beta)
    moreover obtain ty where "getUint8 (df env) off = Inr ty"
      using True by (simp add: getUint8_def)
    ultimately show ?thesis by simp
  qed
qed simp

text \<open>
  C28. \<open>deserializeV8\<close> always returns: for every buffer the reader ends, whatever nesting,
  counts and references the bytes claim.  It throws exactly when the buffer is too short for
  the two bytes of the header, because these are read outside of the \<open>try\<close> block; every other
  failure is an answer with an error.
\<close>

theorem deserialize_total:
  "(\<exists>e. deserializeV8 env = Some (Inl e) \<and> (df env = [] \<or> df env = [0xFF]))
   \<or> (\<exists>r. deserializeV8 env = Some (Inr r) \<and> df env \<noteq> [] \<and> df env \<noteq> [0xFF])"
proof (cases "df env")
  case Nil
  then show ?thesis by (simp add: deserializeV8_def getUint8_def)
next
  case (Cons b0 bs)
  show ?thesis
  proof (cases "b0 = 0xFF \<and> bs \<noteq> []")
    case True
    then obtain b1 cs where bs: "bs = b1 # cs" by (cases bs) auto
    have "deserializeValue env (length (df env)) 2 [] \<noteq> None"
      using Cons bs by (intro reader_returns) simp_all
    then obtain s where s: "deserializeValue env (length (df env)) 2 [] = Some s" by auto
    with Cons bs True show ?thesis
      by (cases s) (auto simp: deserializeV8_def getUint8_def)
  next
    case False
    with Cons show ?thesis by (cases bs) (auto simp: deserializeV8_def getUint8_def)
  qed
qed

section \<open>References\<close>

definition ref_ok :: "nat \<Rightarrow> v8 \<Rightarrow> bool" where
  "ref_ok n v = (case v of VRef i \<Rightarrow> i < n | _ \<Rightarrow> True)"

fun object_ok :: "nat \<Rightarrow> heap_object \<Rightarrow> bool" where
  "object_ok n (HObject ps) = (\<forall>(k, v) \<in> set ps. ref_ok n v)"
| "object_ok n (HArray xs ps) =
     ((\<forall>x \<in> set xs. case x of None \<Rightarrow> True | Some v \<Rightarrow> ref_ok n v) \<and> (\<forall>(k, v) \<in> set ps. ref_ok n v))"

definition registry_ok :: "ObjectRegistry \<Rightarrow> bool" where
  "registry_ok reg = (\<forall>ob \<in> set reg. object_ok (length reg) ob)"

lemma ref_ok_mono: "ref_ok n v \<Longrightarrow> n \<le> m \<Longrightarrow> ref_ok m v"
  by (auto simp: ref_ok_def split: v8.splits)

lemma object_ok_mono: "object_ok n ob \<Longrightarrow> n \<le> m \<Longrightarrow> object_ok m ob"
  by (cases ob) (fastforce intro: ref_ok_mono split: option.splits)+

lemma set_obj_set: "set (obj_set k v ps) \<subseteq> insert (k, v) (set ps)"
  unfolding obj_set_def by (induction ps) auto

lemma object_set_ok: "object_ok n ob \<Longrightarrow> ref_ok n v \<Longrightarrow> object_ok n (object_set dt k v ob)"
  using set_obj_set by (cases ob) (fastforce simp: object_set_def split: option.splits)+

lemma set_resize: "set (resize n xs) \<subseteq> insert None (set xs)"
  by (auto simp: resize_def dest: in_set_takeD)

lemma resize_ok:
  "\<forall>x \<in> set xs. case x of None \<Rightarrow> True | Some v \<Rightarrow> ref_ok n v \<Longrightarrow>
     \<forall>x \<in> set (resize m xs). case x of None \<Rightarrow> True | Some v \<Rightarrow> ref_ok n v"
  using set_resize [of m xs] by (auto split: option.splits)

lemma array_set_ok:
  assumes "array_set dt k v ob = Inr ob1" and "object_ok n ob" and "ref_ok n v"
  shows "object_ok n ob1"
proof (cases ob)
  case (HObject ps)
  with assms(1,2) show ?thesis by (auto simp: array_set_def split: option.splits)
next
  case (HArray xs ps)
  note res = resize_ok [of xs n] assms(2) [unfolded HArray object_ok.simps]
  have upd: "object_ok n (HArray ((resize m xs)[i := Some v]) ps)" for m i
    using res assms(3) set_update_subset_insert [of "resize m xs" i "Some v"] by fastforce
  have props: "object_ok n (HArray xs (obj_set k' v ps))" for k'
    using res(2) assms(3) set_obj_set [of k' v ps] by fastforce
  have len: "object_ok n (HArray (resize m xs) ps)" for m
    using res by simp
  show ?thesis
    using assms(1,2) HArray upd props len
    by (auto simp: array_set_def Let_def rbind_Inr_iff split: option.splits if_splits)
qed

lemma array_push_ok: "object_ok n ob \<Longrightarrow> ref_ok n v \<Longrightarrow> object_ok n (array_push v ob)"
  by (cases ob) (auto simp: array_push_def)

lemma set_length_ok: "object_ok n ob \<Longrightarrow> object_ok n (set_length m ob)"
proof (cases ob)
  case (HArray xs ps)
  assume "object_ok n ob"
  with HArray resize_ok [of xs n m] show ?thesis by (simp add: set_length_def)
qed (simp add: set_length_def)

lemma registry_update_ok:
  "registry_ok reg \<Longrightarrow> (i < length reg \<Longrightarrow> object_ok (length reg) ob) \<Longrightarrow> registry_ok (reg[i := ob])"
proof -
  assume reg: "registry_ok reg" and ob: "i < length reg \<Longrightarrow> object_ok (length reg) ob"
  show ?thesis
  proof (cases "i < length reg")
    case True
    have "set (reg[i := ob]) \<subseteq> insert ob (set reg)" by (rule set_update_subset_insert)
    with reg ob True show ?thesis by (auto simp: registry_ok_def)
  next
    case False
    then have "reg[i := ob] = reg" by (simp add: list_update_beyond)
    with reg show ?thesis by simp
  qed
qed

lemma update_at_ok:
  "registry_ok reg \<Longrightarrow> (\<And>ob. object_ok (length reg) ob \<Longrightarrow> object_ok (length reg) (f ob)) \<Longrightarrow>
     registry_ok (update_at i f reg)"
  unfolding update_at_def by (rule registry_update_ok) (simp_all add: registry_ok_def)

lemma length_update_at [simp]: "length (update_at i f reg) = length reg"
  by (simp add: update_at_def)

definition sound :: "reader \<Rightarrow> bool" where
  "sound read = (\<forall>off reg v off1 reg1. registry_ok reg \<longrightarrow> read off reg = Some (Inr (v, off1, reg1)) \<longrightarrow>
     registry_ok reg1 \<and> ref_ok (length reg1) v \<and> length reg \<le> length reg1)"

lemma soundD:
  assumes "sound read" and "registry_ok reg" and "read off reg = Some (Inr (v, off1, reg1))"
  shows "registry_ok reg1" "ref_ok (length reg1) v" "length reg \<le> length reg1"
  using assms unfolding sound_def by blast+

lemma object_loop_sound:
  "sound read \<Longrightarrow> registry_ok reg \<Longrightarrow>
     object_loop env read fuel i c off reg = Some (Inr (n, off1, reg1)) \<Longrightarrow>
     registry_ok reg1 \<and> length reg \<le> length reg1"
proof (induction fuel arbitrary: c off reg)
  case (Suc fuel)
  from object_loop_step [OF Suc.prems(3)] show ?case
  proof (elim disjE exE conjE)
    fix key off2 reg2 v off3 reg3
    assume s1: "read off reg = Some (Inr (key, off2, reg2))"
      and s2: "read off2 reg2 = Some (Inr (v, off3, reg3))"
      and loop: "object_loop env read fuel i (c + 1) off3
         (update_at i (object_set (doubleText env) key v) reg3) = Some (Inr (n, off1, reg1))"
    note f1 = soundD [OF Suc.prems(1,2) s1]
    note f2 = soundD [OF Suc.prems(1) f1(1) s2]
    have "registry_ok (update_at i (object_set (doubleText env) key v) reg3)"
      using f2 by (intro update_at_ok object_set_ok)
    from Suc.IH [OF Suc.prems(1) this loop] f1 f2 show ?thesis by simp
  qed (use Suc.prems in simp)
qed simp

lemma element_loop_sound:
  "sound read \<Longrightarrow> registry_ok reg \<Longrightarrow> element_loop read i n off reg = Some (Inr (off1, reg1)) \<Longrightarrow>
     registry_ok reg1 \<and> length reg \<le> length reg1"
proof (induction n arbitrary: off reg)
  case (Suc n)
  from Suc.prems(3) obtain v off2 reg2 where s1: "read off reg = Some (Inr (v, off2, reg2))"
    and loop: "element_loop read i n off2 (update_at i (array_push v) reg2) = Some (Inr (off1, reg1))"
    by (auto simp: sbind_Inr_iff)
  note f1 = soundD [OF Suc.prems(1,2) s1]
  have "registry_ok (update_at i (array_push v) reg2)"
    using f1 by (intro update_at_ok array_push_ok)
  from Suc.IH [OF Suc.prems(1) this loop] f1 show ?case by simp
qed simp

lemma property_loop_sound:
  "sound read \<Longrightarrow> registry_ok reg \<Longrightarrow> i < length reg \<Longrightarrow>
     property_loop env read i n off reg = Some (Inr (off1, reg1)) \<Longrightarrow>
     registry_ok reg1 \<and> length reg \<le> length reg1"
proof (induction n arbitrary: off reg)
  case (Suc n)
  from Suc.prems(4) obtain k off2 reg2 v off3 reg3 ob where
    s1: "read off reg = Some (Inr (k, off2, reg2))" and
    s2: "read off2 reg2 = Some (Inr (v, off3, reg3))" and
    ob: "array_set (doubleText env) k v (reg3 ! i) = Inr ob" and
    loop: "property_loop env read i n off3 (reg3[i := ob]) = Some (Inr (off1, reg1))"
    by (auto simp: sbind_Inr_iff)
  note f1 = soundD [OF Suc.prems(1,2) s1]
  note f2 = soundD [OF Suc.prems(1) f1(1) s2]
  have lt: "i < length reg3" using Suc.prems(3) f1 f2 by simp
  then have "object_ok (length reg3) (reg3 ! i)" using f2(1) by (simp add: registry_ok_def)
  then have "object_ok (length reg3) ob" using array_set_ok [OF ob _ f2(2)] by simp
  then have "registry_ok (reg3[i := ob])" using f2(1) by (intro registry_update_ok) simp_all
  from Suc.IH [OF Suc.prems(1) this _ loop] lt f1 f2 show ?case by simp
qed simp

lemma register_ok:
  assumes "registry_ok reg"
  shows "registry_ok (reg @ [HObject []])" "registry_ok (reg @ [HArray [] []])"
  using assms by (auto simp: registry_ok_def intro: object_ok_mono)

lemma simple_value_ok:
  "simple_value env off reg ty = Inr (v, off1) \<Longrightarrow> ref_ok (length reg) v"
  by (auto simp: simple_value_def rbind_Inr_iff deserializeString_def deserializeBigInt_def Let_def
      ref_ok_def registry_get_def split: if_splits)

lemma reader_step:
  assumes "deserializeValue env (Suc fuel) off reg = Some (Inr (v, off1, reg1))"
  shows "deserializeDenseJSArray env (deserializeValue env fuel) (off + 1) reg = Some (Inr (v, off1, reg1))
   \<or> deserializeJSObject env (deserializeValue env fuel) (off + 1) reg = Some (Inr (v, off1, reg1))
   \<or> (\<exists>ty. simple_value env off reg ty = Inr (v, off1) \<and> reg1 = reg)"
proof (cases "getUint8 (df env) off")
  case (Inr ty)
  then have "deserializeValue env (Suc fuel) off reg =
     (if ty = tag (CHR ''A'') then deserializeDenseJSArray env (deserializeValue env fuel) (off + 1) reg
      else if ty = tag (CHR ''o'') then deserializeJSObject env (deserializeValue env fuel) (off + 1) reg
      else sbind (Some (simple_value env off reg ty)) (\<lambda>(v, off2). Some (Inr (v, off2, reg))))"
    by simp
  with assms show ?thesis
    by (cases "simple_value env off reg ty") (auto split: if_splits)
qed (use assms in simp)

lemma reader_sound: "sound (deserializeValue env fuel)"
proof (induction fuel)
  case 0
  show ?case by (simp add: sound_def)
next
  case (Suc fuel)
  let ?read = "deserializeValue env fuel"
  have obj: "registry_ok reg1 \<and> ref_ok (length reg1) v \<and> length reg \<le> length reg1"
    if h: "registry_ok reg" "deserializeJSObject env ?read off reg = Some (Inr (v, off1, reg1))"
    for off reg v off1 reg1
  proof -
    obtain c off2 where o: "v = VRef (length reg)"
      "object_loop env ?read (Suc (length (df env))) (length reg) 0 off (reg @ [HObject []])
        = Some (Inr (c, off2, reg1))"
      using object_steps [OF h(2)] by auto
    from object_loop_sound [OF Suc.IH register_ok(1) [OF h(1)] o(2)] o(1) show ?thesis
      by (simp add: ref_ok_def)
  qed
  have arr: "registry_ok reg1 \<and> ref_ok (length reg1) v \<and> length reg \<le> length reg1"
    if h: "registry_ok reg" "deserializeDenseJSArray env ?read off reg = Some (Inr (v, off1, reg1))"
    for off reg v off1 reg1
  proof -
    obtain len n off2 reg2 np al off3 reg4 where v: "v = VRef (length reg)" and
      el: "element_loop ?read (length reg) len (off + n) (reg @ [HArray [] []]) = Some (Inr (off2, reg2))" and
      pl: "property_loop env ?read (length reg) np off3 reg2 = Some (Inr (off1, reg4))" and
      reg1: "reg1 = update_at (length reg) (set_length al) reg4"
      using dense_array_steps [OF h(2)] by auto
    note f1 = element_loop_sound [OF Suc.IH register_ok(2) [OF h(1)] el]
    have "length reg < length reg2" using f1 by simp
    note f2 = property_loop_sound [OF Suc.IH f1 [THEN conjunct1] this pl]
    have "registry_ok reg1" unfolding reg1 using f2 by (intro update_at_ok set_length_ok) auto
    with f1 f2 v reg1 show ?thesis by (simp add: ref_ok_def)
  qed
  show ?case
    unfolding sound_def
  proof (intro allI impI)
    fix off reg v off1 reg1
    assume reg: "registry_ok reg" and r: "deserializeValue env (Suc fuel) off reg = Some (Inr (v, off1, reg1))"
    from reader_step [OF r] consider
        "deserializeDenseJSArray env ?read (off + 1) reg = Some (Inr (v, off1, reg1))"
      | "deserializeJSObject env ?read (off + 1) reg = Some (Inr (v, off1, reg1))"
      | ty where "simple_value env off reg ty = Inr (v, off1)" "reg1 = reg"
      by blast
    then show "registry_ok reg1 \<and> ref_ok (length reg1) v \<and> length reg \<le> length reg1"
      using reg arr obj simple_value_ok by cases blast+
  qed
qed

text \<open>
  C29. Shared and cyclic references are sound: in an answer without an error, the value and every
  property and element of every object refer to objects of the answer, so that no reference,
  however the bytes are forged, points to an object that was never read.
\<close>

theorem no_dangling_reference:
  assumes "deserializeV8 env = Some (Inr r)"
  shows "ref_ok (length (respObjects r)) (respValue r) \<and> registry_ok (respObjects r)"
proof -
  have nil: "registry_ok []" by (simp add: registry_ok_def)
  have failed: "ref_ok (length (respObjects (failed m))) (respValue (failed m))
      \<and> registry_ok (respObjects (failed m))" for m
    using nil by (simp add: failed_def ref_ok_def)
  obtain b0 where b0: "getUint8 (df env) 0 = Inr b0"
    using assms by (auto simp: deserializeV8_def sbind_Inr_iff)
  show ?thesis
  proof (cases "b0 = 0xFF")
    case False
    with assms b0 have "r = failed ''Invalid data format''" by (simp add: deserializeV8_def)
    with failed show ?thesis by simp
  next
    case True
    with assms b0 obtain b1 where b1: "getUint8 (df env) 1 = Inr b1"
      by (auto simp: deserializeV8_def sbind_Inr_iff)
    show ?thesis
    proof (cases "b1 = 0x0F")
      case False
      with assms b0 b1 True have "r = failed ''We only support deserialize version 15''"
        by (simp add: deserializeV8_def)
      with failed show ?thesis by simp
    next
      case True
      let ?s = "deserializeValue env (length (df env)) 2 []"
      have run: "deserializeV8 env = (case ?s of None \<Rightarrow> None
          | Some (Inl e) \<Rightarrow> Some (Inr (failed (error_message e)))
          | Some (Inr (v, off, reg)) \<Rightarrow>
              Some (Inr \<lparr>respError = None, respValue = v, respObjects = reg\<rparr>))"
        using b0 b1 True \<open>b0 = 0xFF\<close> by (simp add: deserializeV8_def)
      show ?thesis
      proof (cases ?s)
        case (Some t)
        show ?thesis
        proof (cases t)
          case (Inl e)
          with Some run assms have "r = failed (error_message e)" by simp
          with failed show ?thesis by simp
        next
          case (Inr q)
          obtain v off reg where q: "q = (v, off, reg)" by (cases q)
          with Inr Some have "?s = Some (Inr (v, off, reg))" by simp
          note s = soundD [OF reader_sound nil this]
          have "r = \<lparr>respError = None, respValue = v, respObjects = reg\<rparr>"
            using Inr Some run assms q by simp
          with s show ?thesis by simp
        qed
      qed (use run assms in simp)
    qed
  qed
qed

definition ascii_env :: "byte list \<Rightarrow> v8_env" where
  "ascii_env bs = \<lparr>df = bs, decodeText = \<lambda>e bs. map (\<lambda>b. char_of (unat b)) bs, doubleText = \<lambda>w. []\<rparr>"

theorem no_dangling_reference_witness:
  "\<exists>r. deserializeV8 (ascii_env [0xFF, 0x0F, 0x6F, 0x22, 1, 0x61, 0x5E, 0, 0x7B, 1]) = Some (Inr r)
     \<and> registry_ok (respObjects r)"
proof -
  let ?env = "ascii_env [0xFF, 0x0F, 0x6F, 0x22, 1, 0x61, 0x5E, 0, 0x7B, 1]"
  have "(case deserializeV8 ?env of Some (Inr r) \<Rightarrow> True | _ \<Rightarrow> False) = True" by code_simp
  then obtain r where "deserializeV8 ?env = Some (Inr r)" by (auto split: option.splits sum.splits)
  with no_dangling_reference show ?thesis by blast
qed

end
