(* ===== verification/Middleware.thy ===== *)
theory Middleware
  imports JsValue
begin

text \<open>
  The request filter \<open>admin/src/middleware.ts\<close> and the calls of the backend,
  \<open>admin/src/lib/go-api.ts\<close>.  The session of \<open>iron-session\<close> is the predicate \<open>isLoggedIn\<close> on
  requests.  Header names are case-insensitive: they are kept in lower case.  A path name has
  no line break (it is part of a URL).
\<close>

section \<open>Requests and responses\<close>

type_synonym headers = "(string \<times> string) list"

definition header_get :: "headers \<Rightarrow> string \<Rightarrow> string option" where
  "header_get hs name = map_of hs (js_lower name)"

definition header_set :: "string \<Rightarrow> string \<Rightarrow> headers \<Rightarrow> headers" where
  "header_set name v hs = AList.update (js_lower name) v hs"

definition header_delete :: "string \<Rightarrow> headers \<Rightarrow> headers" where
  "header_delete name hs = AList.delete (js_lower name) hs"

record NextRequest =
  reqMethod :: string
  reqPathname :: string
  reqHeaders :: headers

datatype response_action =
    Continue "string option" headers
  | Json nat string
  | Empty nat
  | Redirect string

record NextResponse =
  resAction :: response_action
  resHeaders :: headers

definition plain_response :: "response_action \<Rightarrow> NextResponse" where
  "plain_response a = \<lparr>resAction = a, resHeaders = []\<rparr>"

record Environment =
  filesEnabled :: bool
  corsAllowedOrigins :: "string list"

section \<open>Paths\<close>

definition PUBLIC_PREFIXES :: "string list" where
  "PUBLIC_PREFIXES = [''/login'', ''/api/health'', ''/api/auth'', ''/api/openapi'']"

definition API_VERSION_PREFIX :: string where
  "API_VERSION_PREFIX = ''/api/v1''"

definition ADMIN_SESSION_HEADER :: string where
  "ADMIN_SESSION_HEADER = ''x-mesahub-admin''"

text \<open>\<open>CORS_ALLOWED_ORIGINS\<close> from the text of the variable.\<close>

definition parseOrigins :: "string option \<Rightarrow> string list" where
  "parseOrigins v =
     filter (\<lambda>s. s \<noteq> []) (map js_trim (js_split '','' (case v of None \<Rightarrow> [] | Some s \<Rightarrow> s)))"

text \<open>The text behind a prefix, and behind a non-empty segment \<open>[^/]+\<close>.\<close>

definition after :: "string \<Rightarrow> string \<Rightarrow> string option" where
  "after p s = (if js_starts_with s p then Some (drop (length p) s) else None)"

definition after_segment :: "string \<Rightarrow> string option" where
  "after_segment s =
     (if takeWhile (\<lambda>c. c \<noteq> CHR ''/'') s = [] then None
      else Some (dropWhile (\<lambda>c. c \<noteq> CHR ''/'') s))"

text \<open>\<open>(?:/.*)?$\<close>.\<close>

definition rest_ok :: "string \<Rightarrow> bool" where
  "rest_ok s = (s = [] \<or> js_starts_with s ''/'')"

definition optional_ok :: "string option \<Rightarrow> bool" where
  "optional_ok s = (case s of None \<Rightarrow> False | Some r \<Rightarrow> rest_ok r)"

definition RESOURCE_SCOPED :: "string \<Rightarrow> bool" where
  "RESOURCE_SCOPED p =
     list_ex (\<lambda>q. case after q p of
         None \<Rightarrow> False
       | Some r \<Rightarrow> r = [] \<or> optional_ok (Option.bind (after ''/'' r) after_segment))
     [''/api/db'', ''/api/buckets'']"

definition DB_FILES_PAGE :: "string \<Rightarrow> bool" where
  "DB_FILES_PAGE p =
     optional_ok (Option.bind (Option.bind (after ''/db/'' p) after_segment) (after ''/files''))"

definition DB_FILES_API :: "string \<Rightarrow> bool" where
  "DB_FILES_API p =
     (let r = Option.bind (after ''/api/db/'' p) after_segment
      in optional_ok (Option.bind r (after ''/files''))
         \<or> optional_ok (Option.bind r (after ''/tokens/files'')))"

definition BUCKET_PAGE :: "string \<Rightarrow> bool" where
  "BUCKET_PAGE p = optional_ok (after ''/buckets'' p)"

definition BUCKET_API :: "string \<Rightarrow> bool" where
  "BUCKET_API p = optional_ok (after ''/api/buckets'' p)"

definition FILE_SHORTLINK :: "string \<Rightarrow> bool" where
  "FILE_SHORTLINK p =
     (Option.bind (Option.bind (Option.bind (after ''/'' p) after_segment) (after ''/file/''))
        after_segment = Some [])"

definition stripApiVersionPrefix :: "string \<Rightarrow> string" where
  "stripApiVersionPrefix pathname =
     (if pathname = API_VERSION_PREFIX then ''/api''
      else if js_starts_with pathname (API_VERSION_PREFIX @ ''/'')
      then replace_first API_VERSION_PREFIX ''/api'' pathname
      else pathname)"

section \<open>CORS\<close>

definition resolveAllowedOrigin :: "Environment \<Rightarrow> NextRequest \<Rightarrow> string option" where
  "resolveAllowedOrigin env req =
     (let orig = header_get (reqHeaders req) ''origin'' in
      if \<not> truthy_str orig then None
      else if ''*'' \<in> set (corsAllowedOrigins env) then Some ''*''
      else if the orig \<in> set (corsAllowedOrigins env) then orig
      else None)"

definition applyCorsHeaders :: "Environment \<Rightarrow> NextRequest \<Rightarrow> NextResponse \<Rightarrow> NextResponse" where
  "applyCorsHeaders env req res =
     (case resolveAllowedOrigin env req of
        None \<Rightarrow> res
      | Some allowedOrigin \<Rightarrow>
          let hs = header_set ''Access-Control-Allow-Headers'' ''Authorization, Content-Type, X-Requested-With''
                  (header_set ''Access-Control-Allow-Methods'' ''GET,POST,PUT,PATCH,DELETE,OPTIONS,HEAD''
                  (header_set ''Access-Control-Allow-Origin'' allowedOrigin
                  (header_set ''Vary'' ''Origin'' (resHeaders res))))
          in res\<lparr>resHeaders := if allowedOrigin \<noteq> ''*''
                               then header_set ''Access-Control-Allow-Credentials'' ''true'' hs else hs\<rparr>)"

section \<open>The filter\<close>

definition middleware :: "Environment \<Rightarrow> (NextRequest \<Rightarrow> bool) \<Rightarrow> NextRequest \<Rightarrow> NextResponse" where
  "middleware env isLoggedIn req =
     (let p = stripApiVersionPrefix (reqPathname req);
          shouldRewrite = (p \<noteq> reqPathname req);
          forwarded = header_delete ADMIN_SESSION_HEADER (reqHeaders req);
          continueResponse = (\<lambda>hs. plain_response (Continue (if shouldRewrite then Some p else None) hs));
          isApi = js_starts_with p ''/api/''
      in if \<not> filesEnabled env \<and> (DB_FILES_PAGE p \<or> DB_FILES_API p \<or> FILE_SHORTLINK p) then
           plain_response (if isApi then Json 404 ''Files are temporarily disabled'' else Empty 404)
         else if \<not> filesEnabled env \<and> (BUCKET_PAGE p \<or> BUCKET_API p) then
           plain_response (if isApi then Json 404 ''Buckets are temporarily disabled'' else Empty 404)
         else if (p = ''/api'' \<or> isApi) \<and> reqMethod req = ''OPTIONS'' then
           applyCorsHeaders env req (plain_response (Empty 204))
         else if FILE_SHORTLINK p \<and> reqMethod req = ''OPTIONS'' then
           applyCorsHeaders env req (plain_response (Empty 204))
         else if list_ex (js_starts_with p) PUBLIC_PREFIXES then
           applyCorsHeaders env req (continueResponse forwarded)
         else if FILE_SHORTLINK p then
           applyCorsHeaders env req (continueResponse forwarded)
         else if RESOURCE_SCOPED p then
           applyCorsHeaders env req (continueResponse
             (if header_get forwarded ''authorization'' = None \<and> isLoggedIn req
              then header_set ADMIN_SESSION_HEADER ''1'' forwarded else forwarded))
         else if \<not> isLoggedIn req then
           (if isApi then applyCorsHeaders env req (plain_response (Json 401 ''Unauthorized''))
            else plain_response (Redirect ''/login''))
         else applyCorsHeaders env req (continueResponse forwarded))"

section \<open>Calls of the backend\<close>

record GoEnvironment =
  goApiUrl :: string
  adminToken :: string

record FetchCall =
  callUrl :: string
  callHeaders :: "string obj"

text \<open>\<open>init?.headers ?? {}\<close> is the argument \<open>initHeaders\<close>.\<close>


definition goApiUrl_of :: "string option \<Rightarrow> string" where
  "goApiUrl_of v =
     (let s = (case v of None \<Rightarrow> ''http://localhost:3000'' | Some s \<Rightarrow> s)
      in if js_ends_with s ''/'' then butlast s else s)"

definition goFetchAdmin :: "GoEnvironment \<Rightarrow> string \<Rightarrow> string obj \<Rightarrow> FetchCall" where
  "goFetchAdmin env path initHeaders =
     \<lparr>callUrl = goApiUrl env @ path,
      callHeaders = obj_set ''Authorization'' (''Bearer '' @ adminToken env)
        (obj_spread [(''Content-Type'', ''application/json'')] initHeaders)\<rparr>"

definition goFetchDb :: "GoEnvironment \<Rightarrow> string \<Rightarrow> headers \<Rightarrow> string obj \<Rightarrow> FetchCall" where
  "goFetchDb env path incoming initHeaders =
     (let isAdmin = (header_get incoming ADMIN_SESSION_HEADER = Some ''1'');
          authHeader = (if isAdmin then ''Bearer '' @ adminToken env
                        else case header_get incoming ''authorization'' of None \<Rightarrow> [] | Some a \<Rightarrow> a);
          hs = obj_spread [] initHeaders
      in \<lparr>callUrl = goApiUrl env @ path,
          callHeaders = (if authHeader \<noteq> [] then obj_set ''Authorization'' authHeader hs else hs)\<rparr>)"

section \<open>Header facts\<close>

lemma header_get_delete: "header_get (header_delete n hs) m = (if js_lower m = js_lower n then None else header_get hs m)"
  by (simp add: header_get_def header_delete_def delete_conv')

lemma header_get_set: "header_get (header_set n v hs) m = (if js_lower m = js_lower n then Some v else header_get hs m)"
  by (simp add: header_get_def header_set_def update_conv')

lemma header_names:
  "js_lower ADMIN_SESSION_HEADER = ADMIN_SESSION_HEADER" "js_lower ''authorization'' = ''authorization''"
  "ADMIN_SESSION_HEADER \<noteq> ''authorization''" "''authorization'' \<noteq> ADMIN_SESSION_HEADER"
  by code_simp+

lemma cors_action [simp]: "resAction (applyCorsHeaders env req res) = resAction res"
  by (simp add: applyCorsHeaders_def Let_def split: option.splits)

lemma plain_action [simp]: "resAction (plain_response a) = a"
  by (simp add: plain_response_def)

section \<open>Who is trusted\<close>

lemma continue_headers:
  assumes "resAction (middleware env isLoggedIn req) = Continue rw hs"
  shows "hs = header_delete ADMIN_SESSION_HEADER (reqHeaders req)
     \<or> (hs = header_set ADMIN_SESSION_HEADER ''1'' (header_delete ADMIN_SESSION_HEADER (reqHeaders req))
        \<and> isLoggedIn req \<and> RESOURCE_SCOPED (stripApiVersionPrefix (reqPathname req))
        \<and> header_get (header_delete ADMIN_SESSION_HEADER (reqHeaders req)) ''authorization'' = None)"
  using assms by (simp add: middleware_def Let_def split: if_splits)

lemma admin_header_origin:
  assumes "resAction (middleware env isLoggedIn req) = Continue rw hs"
    and "header_get hs ADMIN_SESSION_HEADER \<noteq> None"
  shows "isLoggedIn req \<and> RESOURCE_SCOPED (stripApiVersionPrefix (reqPathname req))
     \<and> header_get (reqHeaders req) ''authorization'' = None"
  using continue_headers [OF assms(1)] assms(2)
  by (auto simp: header_get_delete header_names)

lemma forwarded_authorization:
  assumes "resAction (middleware env isLoggedIn req) = Continue rw hs"
  shows "header_get hs ''authorization'' = header_get (reqHeaders req) ''authorization''"
  using continue_headers [OF assms]
  by (auto simp: header_get_delete header_get_set header_names)

text \<open>
  The admin token cannot be obtained by forging a header: when the headers that the
  middleware forwards lead \<open>goFetchDb\<close> to send an \<open>Authorization\<close> that the caller did not send,
  the request has a verified admin session, its path is a database's or a bucket's API, and it
  came without an \<open>Authorization\<close> of its own.  In every other case the backend sees exactly the
  caller's own \<open>Authorization\<close>.
\<close>

theorem admin_token_needs_session:
  assumes "resAction (middleware env isLoggedIn req) = Continue rw hs"
  shows "callHeaders (goFetchDb go path hs []) =
       (case header_get (reqHeaders req) ''authorization'' of
          Some a \<Rightarrow> if a = [] then [] else [(''Authorization'', a)] | None \<Rightarrow> [])
     \<or> (callHeaders (goFetchDb go path hs []) = [(''Authorization'', ''Bearer '' @ adminToken go)]
        \<and> isLoggedIn req \<and> RESOURCE_SCOPED (stripApiVersionPrefix (reqPathname req))
        \<and> header_get (reqHeaders req) ''authorization'' = None)"
  using admin_header_origin [OF assms] forwarded_authorization [OF assms]
  by (cases "header_get hs ADMIN_SESSION_HEADER")
     (auto simp: goFetchDb_def Let_def obj_spread_def obj_set_def split: option.splits)

theorem admin_token_needs_session_witness:
  "callHeaders (goFetchDb \<lparr>goApiUrl = ''g'', adminToken = ''secret''\<rparr> ''/p''
     (case resAction (middleware \<lparr>filesEnabled = True, corsAllowedOrigins = []\<rparr> (\<lambda>_. False)
        \<lparr>reqMethod = ''GET'', reqPathname = ''/api/db/x'', reqHeaders = [(''x-mesahub-admin'', ''1'')]\<rparr>)
      of Continue rw hs \<Rightarrow> hs | _ \<Rightarrow> []) []) = []"
proof -
  let ?req = "\<lparr>reqMethod = ''GET'', reqPathname = ''/api/db/x'', reqHeaders = [(''x-mesahub-admin'', ''1'')]\<rparr>"
  have "resAction (middleware \<lparr>filesEnabled = True, corsAllowedOrigins = []\<rparr> (\<lambda>_. False) ?req) = Continue None []"
    by code_simp
  from admin_token_needs_session [OF this, of "\<lparr>goApiUrl = ''g'', adminToken = ''secret''\<rparr>" "''/p''"] this
  show ?thesis using header_names by (simp add: header_get_def ADMIN_SESSION_HEADER_def)
qed

text \<open>The paths that a request without a session may reach.\<close>

definition open_path :: "string \<Rightarrow> bool" where
  "open_path p = (list_ex (js_starts_with p) PUBLIC_PREFIXES \<or> FILE_SHORTLINK p \<or> RESOURCE_SCOPED p)"



text \<open>
  Cross-origin headers are given to configured origins only: a response that gains an
  \<open>Access-Control-Allow-Origin\<close> names the request's own origin, which is in the list, and then
  allows credentials; or the list has the wildcard, and then credentials are not allowed.
\<close>

theorem cors_only_configured:
  assumes "header_get (resHeaders res) ''Access-Control-Allow-Origin'' = None"
    and "header_get (resHeaders res) ''Access-Control-Allow-Credentials'' = None"
    and "header_get (resHeaders (applyCorsHeaders env req res)) ''Access-Control-Allow-Origin'' = Some a"
  shows "(a = ''*'' \<and> ''*'' \<in> set (corsAllowedOrigins env)
       \<and> header_get (resHeaders (applyCorsHeaders env req res)) ''Access-Control-Allow-Credentials'' = None)
     \<or> (a \<in> set (corsAllowedOrigins env) \<and> header_get (reqHeaders req) ''origin'' = Some a
       \<and> header_get (resHeaders (applyCorsHeaders env req res)) ''Access-Control-Allow-Credentials'' = Some ''true'')"
proof -
  have names: "js_lower ''Access-Control-Allow-Origin'' = ''access-control-allow-origin''"
    "js_lower ''Access-Control-Allow-Credentials'' = ''access-control-allow-credentials''"
    "js_lower ''Access-Control-Allow-Headers'' = ''access-control-allow-headers''"
    "js_lower ''Access-Control-Allow-Methods'' = ''access-control-allow-methods''"
    "js_lower ''Vary'' = ''vary''"
    by code_simp+
  show ?thesis
    using assms
    by (auto simp: applyCorsHeaders_def resolveAllowedOrigin_def Let_def header_get_set names truthy_str_def
        split: option.splits if_splits)
qed

theorem cors_only_configured_witness:
  "header_get (resHeaders (applyCorsHeaders \<lparr>filesEnabled = True, corsAllowedOrigins = [''https://a'']\<rparr>
     \<lparr>reqMethod = ''GET'', reqPathname = ''/api/db/x'', reqHeaders = [(''origin'', ''https://a'')]\<rparr>
     (plain_response (Empty 204)))) ''Access-Control-Allow-Credentials'' = Some ''true''"
proof -
  let ?env = "\<lparr>filesEnabled = True, corsAllowedOrigins = [''https://a'']\<rparr>"
  let ?req = "\<lparr>reqMethod = ''GET'', reqPathname = ''/api/db/x'', reqHeaders = [(''origin'', ''https://a'')]\<rparr>"
  have "header_get (resHeaders (applyCorsHeaders ?env ?req (plain_response (Empty 204))))
      ''Access-Control-Allow-Origin'' = Some ''https://a''"
    by code_simp
  from cors_only_configured [OF _ _ this] show ?thesis
    by (simp add: plain_response_def header_get_def)
qed

end
