(* ===== verification/Statements.thy ===== *)
theory Statements
  imports SqlText Effects
begin

text \<open>
  Scripts of several statements: the grouping of the parsed statements in the editor,
  \<open>admin/src/components/gui/sql-editor/statement-highlight.ts\<close>, and their execution,
  \<open>admin/src/lib/sql/multiple-query.ts\<close>.  The syntax tree comes from CodeMirror: a statement
  node is its range and its children with their texts.
\<close>

section \<open>Grouping\<close>

record SyntaxChild =
  chKeyword :: bool
  chText :: string

record SyntaxNode =
  ndFrom :: nat
  ndTo :: nat
  ndChildren :: "SyntaxChild list"

record StatementSegment =
  segFrom :: nat
  segTo :: nat
  segText :: string

definition isRequireEndStatement :: "SyntaxNode \<Rightarrow> nat" where
  "isRequireEndStatement node =
     (case ndChildren node of
        [] \<Rightarrow> 0
      | ptr # _ \<Rightarrow>
          let firstKeyword = js_lower (chText ptr);
              keywords = filter chKeyword (ndChildren node)
          in if firstKeyword = ''select'' then 0
             else if firstKeyword = ''insert'' then 0
             else if firstKeyword = ''update'' then 0
             else if firstKeyword = ''delete'' then 0
             else if length keywords = 0 then 0
             else length (filter (\<lambda>k. js_lower (chText k) = ''begin'') keywords))"

definition isEndStatement :: "SyntaxNode \<Rightarrow> bool" where
  "isEndStatement node =
     (case ndChildren node of
        [] \<Rightarrow> False
      | ptr # rest \<Rightarrow>
          if js_lower (chText ptr) \<noteq> ''end'' then False
          else case rest of [] \<Rightarrow> False | nxt # _ \<Rightarrow> chText nxt = '';'')"

text \<open>The loop of \<open>splitSqlQuery\<close>: the counter, the open group, and the groups that follow.\<close>

fun group_loop :: "nat \<Rightarrow> SyntaxNode list \<Rightarrow> SyntaxNode list \<Rightarrow> SyntaxNode list list" where
  "group_loop needEnd acc [] = (if 0 < length acc then [acc] else [])"
| "group_loop needEnd acc (s # ss) =
     (let need1 = needEnd + isRequireEndStatement s in
      if need1 \<noteq> 0
      then let acc1 = acc @ [s] in
           if isEndStatement s
           then let need2 = need1 - 1 in
                if need2 = 0 then acc1 # group_loop need2 [] ss else group_loop need2 acc1 ss
           else group_loop need1 acc1 ss
      else [s] # group_loop need1 acc ss)"

definition statementGroups :: "SyntaxNode list \<Rightarrow> SyntaxNode list list" where
  "statementGroups statements = (if length statements = 0 then [] else group_loop 0 [] statements)"

definition sliceString :: "string \<Rightarrow> nat \<Rightarrow> nat \<Rightarrow> string" where
  "sliceString doc start stop = take (stop - start) (drop start doc)"

definition segment_of :: "string \<Rightarrow> bool \<Rightarrow> SyntaxNode list \<Rightarrow> StatementSegment" where
  "segment_of doc generateText r =
     \<lparr>segFrom = ndFrom (hd r), segTo = ndTo (last r),
      segText = (if generateText then sliceString doc (ndFrom (hd r)) (ndTo (last r)) else [])\<rparr>"

definition splitSqlQuery :: "string \<Rightarrow> SyntaxNode list \<Rightarrow> bool \<Rightarrow> StatementSegment list" where
  "splitSqlQuery doc statements generateText =
     map (segment_of doc generateText) (statementGroups statements)"

text \<open>\<open>state.doc.lineAt(pos).number\<close>.\<close>

definition line_number :: "string \<Rightarrow> nat \<Rightarrow> nat" where
  "line_number doc pos = Suc (length (filter (\<lambda>c. c = newline) (take pos doc)))"

text \<open>The search loop of \<open>resolveToNearestStatement\<close>: a hit, or the index where it stops.\<close>

fun nearest_loop :: "nat \<Rightarrow> nat \<Rightarrow> StatementSegment list \<Rightarrow> StatementSegment + nat" where
  "nearest_loop cursor i [] = Inr i"
| "nearest_loop cursor i (s # ss) =
     (if cursor < segFrom s then Inr i
      else if segTo s < cursor then nearest_loop cursor (Suc i) ss
      else Inl s)"

definition resolveToNearestStatement ::
  "string \<Rightarrow> SyntaxNode list \<Rightarrow> nat \<Rightarrow> StatementSegment option" where
  "resolveToNearestStatement doc nodes cursor =
     (let statements = splitSqlQuery doc nodes False in
      if length statements = 0 then None
      else case nearest_loop cursor 0 statements of
        Inl s \<Rightarrow> Some s
      | Inr i \<Rightarrow>
          if i = 0 then Some (statements ! 0)
          else if i = length statements then Some (statements ! (i - 1))
          else let cursorLine = int (line_number doc cursor);
                   topLine = int (line_number doc (segTo (statements ! (i - 1))));
                   bottomLine = int (line_number doc (segFrom (statements ! i)))
               in if bottomLine - cursorLine \<le> cursorLine - topLine
                  then Some (statements ! i) else Some (statements ! (i - 1)))"

section \<open>Facts on the grouping\<close>

lemma group_loop_concat: "(needEnd = 0 \<longrightarrow> acc = []) \<Longrightarrow> concat (group_loop needEnd acc ss) = acc @ ss"
  by (induction needEnd acc ss rule: group_loop.induct) (auto simp: Let_def)

lemma group_loop_not_Nil: "[] \<notin> set (group_loop needEnd acc ss)"
  by (induction needEnd acc ss rule: group_loop.induct) (auto simp: Let_def)

definition group_ok :: "SyntaxNode list \<Rightarrow> bool" where
  "group_ok g = (length g = 1 \<or> 0 < isRequireEndStatement (hd g))"

definition group_closed :: "SyntaxNode list \<Rightarrow> bool" where
  "group_closed g = (isRequireEndStatement (hd g) = 0 \<or> isEndStatement (last g))"

lemma group_loop_ok:
  "(needEnd = 0 \<longleftrightarrow> acc = []) \<Longrightarrow> (acc \<noteq> [] \<longrightarrow> 0 < isRequireEndStatement (hd acc)) \<Longrightarrow>
     \<forall>g \<in> set (group_loop needEnd acc ss). group_ok g"
proof (induction ss arbitrary: needEnd acc)
  case (Cons s ss)
  let ?n = "needEnd + isRequireEndStatement s"
  have open1: "0 < isRequireEndStatement (hd (acc @ [s]))" if "?n \<noteq> 0"
    using Cons.prems that by (cases acc) auto
  show ?case
  proof (cases "?n = 0")
    case True
    with Cons.prems have "acc = []" by simp
    with True Cons.IH [of 0 "[]"] show ?thesis by (simp add: group_ok_def)
  next
    case False
    note IH = Cons.IH [of _ "acc @ [s]"] Cons.IH [of 0 "[]"]
    show ?thesis
    proof (cases "isEndStatement s")
      case True
      show ?thesis
      proof (cases "?n - 1 = 0")
        case True
        with False open1 IH(2) \<open>isEndStatement s\<close> show ?thesis by (auto simp: Let_def group_ok_def)
      next
        case more: False
        with False open1 IH(1) [of "?n - 1"] \<open>isEndStatement s\<close> show ?thesis by (simp add: Let_def)
      qed
    next
      case no_end: False
      with False open1 IH(1) [of ?n] show ?thesis by (simp add: Let_def)
    qed
  qed
qed (auto simp: group_ok_def)

lemma group_loop_closed:
  "(needEnd = 0 \<longleftrightarrow> acc = []) \<Longrightarrow> (acc \<noteq> [] \<longrightarrow> 0 < isRequireEndStatement (hd acc)) \<Longrightarrow>
     \<forall>g \<in> set (butlast (group_loop needEnd acc ss)). group_closed g"
proof (induction ss arbitrary: needEnd acc)
  case (Cons s ss)
  let ?n = "needEnd + isRequireEndStatement s"
  have open1: "0 < isRequireEndStatement (hd (acc @ [s]))" if "?n \<noteq> 0"
    using Cons.prems that by (cases acc) auto
  show ?case
  proof (cases "?n = 0")
    case True
    with Cons.prems have "acc = []" by simp
    with True Cons.IH [of 0 "[]"] show ?thesis by (simp add: group_closed_def)
  next
    case False
    note IH = Cons.IH [of _ "acc @ [s]"] Cons.IH [of 0 "[]"]
    show ?thesis
    proof (cases "isEndStatement s")
      case True
      show ?thesis
      proof (cases "?n - 1 = 0")
        case True
        with False open1 IH(2) \<open>isEndStatement s\<close> show ?thesis by (auto simp: Let_def group_closed_def)
      next
        case more: False
        with False open1 IH(1) [of "?n - 1"] \<open>isEndStatement s\<close> show ?thesis by (simp add: Let_def)
      qed
    next
      case no_end: False
      with False open1 IH(1) [of ?n] show ?thesis by (simp add: Let_def)
    qed
  qed
qed (auto simp: group_closed_def)

text \<open>
  Splitting a script loses and reorders nothing: the groups, one after the other, are the
  statements of the script and none is empty; a group of several statements starts with one
  that opens a block, and every group but the last that opens a block ends with its \<open>END;\<close>.
\<close>

theorem split_partition:
  "concat (statementGroups ss) = ss \<and> [] \<notin> set (statementGroups ss)
   \<and> (\<forall>g \<in> set (statementGroups ss). group_ok g)
   \<and> (\<forall>g \<in> set (butlast (statementGroups ss)). group_closed g)"
  using group_loop_concat [of 0 "[]" ss] group_loop_not_Nil [of 0 "[]" ss]
    group_loop_ok [of 0 "[]" ss] group_loop_closed [of 0 "[]" ss]
  by (simp add: statementGroups_def)

definition node_of :: "nat \<Rightarrow> nat \<Rightarrow> string list \<Rightarrow> SyntaxNode" where
  "node_of a b ws = \<lparr>ndFrom = a, ndTo = b, ndChildren = map (\<lambda>w. \<lparr>chKeyword = (w \<noteq> '';''), chText = w\<rparr>) ws\<rparr>"

theorem split_partition_witness:
  "concat (statementGroups [node_of 0 9 [''create'', ''begin''], node_of 10 19 [''end'', '';''], node_of 20 29 [''select'']])
     = [node_of 0 9 [''create'', ''begin''], node_of 10 19 [''end'', '';''], node_of 20 29 [''select'']]"
  using split_partition [of "[node_of 0 9 [''create'', ''begin''], node_of 10 19 [''end'', '';''], node_of 20 29 [''select'']]"]
  by simp

section \<open>The statement under the cursor\<close>

definition covers :: "nat \<Rightarrow> StatementSegment \<Rightarrow> bool" where
  "covers cursor s = (segFrom s \<le> cursor \<and> cursor \<le> segTo s)"

text \<open>Segments in the order of the text, without overlaps.\<close>

definition in_order :: "StatementSegment list \<Rightarrow> bool" where
  "in_order segs = (list_all (\<lambda>s. segFrom s \<le> segTo s) segs \<and> sorted_wrt (\<lambda>s t. segTo s < segFrom t) segs)"

lemma nearest_loop_index: "nearest_loop cursor i segs = Inr j \<Longrightarrow> i \<le> j \<and> j \<le> i + length segs"
  by (induction cursor i segs rule: nearest_loop.induct) (auto split: if_splits)

lemma nearest_loop_hit: "nearest_loop cursor i segs = Inl s \<Longrightarrow> s \<in> set segs \<and> covers cursor s"
  by (induction cursor i segs rule: nearest_loop.induct) (auto simp: covers_def split: if_splits)

lemma nearest_loop_finds:
  "in_order segs \<Longrightarrow> s \<in> set segs \<Longrightarrow> covers cursor s \<Longrightarrow> nearest_loop cursor i segs = Inl s"
proof (induction cursor i segs rule: nearest_loop.induct)
  case (2 cursor i t ss)
  show ?case
  proof (cases "s = t")
    case True
    with 2 show ?thesis by (simp add: covers_def)
  next
    case False
    with 2 have "segTo t < cursor" "in_order ss" "s \<in> set ss" "segFrom t \<le> segTo t"
      by (auto simp: covers_def in_order_def)
    with 2 show ?thesis by simp
  qed
qed simp

text \<open>
  The statement to run at a cursor is always one of the script's, and there is one unless
  the script is empty; when the cursor is inside a statement, it is that statement.
\<close>

theorem nearest_statement:
  "(resolveToNearestStatement doc nodes cursor = None \<longleftrightarrow> nodes = [])
   \<and> (\<forall>s. resolveToNearestStatement doc nodes cursor = Some s \<longrightarrow> s \<in> set (splitSqlQuery doc nodes False))
   \<and> (\<forall>s \<in> set (splitSqlQuery doc nodes False). in_order (splitSqlQuery doc nodes False) \<longrightarrow> covers cursor s \<longrightarrow>
        resolveToNearestStatement doc nodes cursor = Some s)"
proof -
  let ?segs = "splitSqlQuery doc nodes False"
  have "concat (statementGroups nodes) = nodes"
    using group_loop_concat [of 0 "[]" nodes] by (simp add: statementGroups_def)
  then have empty: "?segs = [] \<longleftrightarrow> nodes = []"
    by (cases nodes) (auto simp: splitSqlQuery_def statementGroups_def)
  show ?thesis
  proof (cases "nearest_loop cursor 0 ?segs")
    case (Inl s)
    with nearest_loop_hit [OF Inl] nearest_loop_finds [of ?segs _ cursor 0] empty show ?thesis
      by (auto simp: resolveToNearestStatement_def Let_def)
  next
    case (Inr j)
    with nearest_loop_index [OF Inr] nearest_loop_finds [of ?segs _ cursor 0] empty show ?thesis
      by (auto simp: resolveToNearestStatement_def Let_def neq_Nil_conv)
  qed
qed

theorem nearest_statement_witness:
  "resolveToNearestStatement (replicate 30 (CHR ''a'')) [node_of 0 9 [''select''], node_of 12 20 [''select'']] 15
     = Some \<lparr>segFrom = 12, segTo = 20, segText = []\<rparr>"
proof -
  let ?nodes = "[node_of 0 9 [''select''], node_of 12 20 [''select'']]"
  have segs: "splitSqlQuery (replicate 30 (CHR ''a'')) ?nodes False
      = [\<lparr>segFrom = 0, segTo = 9, segText = []\<rparr>, \<lparr>segFrom = 12, segTo = 20, segText = []\<rparr>]"
    by (simp add: splitSqlQuery_def statementGroups_def segment_of_def node_of_def isRequireEndStatement_def
        js_lower_def char_lower_def Let_def)
  show ?thesis
    using nearest_statement [of "replicate 30 (CHR ''a'')" ?nodes 15] unfolding segs
    by (simp add: in_order_def covers_def)
qed

section \<open>Running the statements\<close>

record MultipleQueryProgressItem =
  logOrder :: nat
  logSql :: string
  logStatementType :: SQLStatementType
  logStart :: int
  logEnd :: "int option"
  logStats :: "DatabaseResultStat option"
  logError :: "string option"

record MultipleQueryResult =
  mqSql :: string
  mqOrder :: nat
  mqResult :: DatabaseResultSet

record MultipleQueryProgress =
  mpLogs :: "MultipleQueryProgressItem list"
  mpProgress :: nat
  mpTotal :: nat
  mpError :: bool

record MultipleQueryState =
  mqLogs :: "MultipleQueryProgressItem list"
  mqResults :: "MultipleQueryResult list"
  mqEvents :: "MultipleQueryProgress list"

fun error_text :: "js_error \<Rightarrow> string" where
  "error_text (JsError m) = ''Error: '' @ m"
| "error_text (TypeError m) = ''TypeError: '' @ m"
| "error_text (RangeError m) = ''RangeError: '' @ m"
| "error_text (DriverError m) = ''Error: '' @ m"

text \<open>
  \<open>now\<close> is the clock, read before the query and after it; \<open>mqEvents\<close> are the calls of
  \<open>onProgress\<close>, with the logs as they are at the call.
\<close>

definition emit :: "nat \<Rightarrow> nat \<Rightarrow> bool \<Rightarrow> MultipleQueryState \<Rightarrow> MultipleQueryState" where
  "emit progress stmtCount err st =
     st\<lparr>mqEvents := mqEvents st @
        [\<lparr>mpLogs = mqLogs st, mpProgress = progress, mpTotal = stmtCount, mpError = err\<rparr>]\<rparr>"

definition begin_log :: "int \<Rightarrow> nat \<Rightarrow> string \<Rightarrow> MultipleQueryProgressItem" where
  "begin_log time i statement =
     \<lparr>logOrder = i, logSql = statement,
      logStatementType = (if statement \<noteq> [] then getSQLStatementType statement else StOTHER),
      logStart = time, logEnd = None, logStats = None, logError = None\<rparr>"

fun query_loop ::
  "'w Connection \<Rightarrow> ('w \<Rightarrow> int) \<Rightarrow> nat \<Rightarrow> nat \<Rightarrow> string list \<Rightarrow> MultipleQueryState \<Rightarrow> 'w \<Rightarrow>
   MultipleQueryState \<times> 'w" where
  "query_loop db now stmtCount i [] st w = (st, w)"
| "query_loop db now stmtCount i (statement # rest) st w =
     (let log = begin_log (now w) i statement;
          st1 = emit i stmtCount False (st\<lparr>mqLogs := mqLogs st @ [log]\<rparr>)
      in case dbQuery db statement w of
           (Inr r, w1) \<Rightarrow>
             (let st2 = st1\<lparr>mqLogs := mqLogs st @ [log\<lparr>logEnd := Some (now w1), logStats := Some (rsStat r)\<rparr>],
                            mqResults := (if 0 < length (rsHeaders r)
                               then mqResults st @ [\<lparr>mqSql = statement, mqOrder = i, mqResult = r\<rparr>]
                               else mqResults st)\<rparr>
              in query_loop db now stmtCount (Suc i) rest (emit (i + 1) stmtCount False st2) w1)
         | (Inl e, w1) \<Rightarrow>
             (emit i stmtCount True (st1\<lparr>mqLogs := mqLogs st @
                [log\<lparr>logEnd := Some (now w1), logError := Some (error_text e)\<rparr>]\<rparr>), w1))"

definition multipleQuery ::
  "'w Connection \<Rightarrow> ('w \<Rightarrow> int) \<Rightarrow> string list \<Rightarrow> 'w \<Rightarrow> MultipleQueryState \<times> 'w" where
  "multipleQuery db now statements w =
     query_loop db now (length statements) 0 statements
       \<lparr>mqLogs = [], mqResults = [], mqEvents = []\<rparr> w"

text \<open>The statements that run: up to the first that fails, and it included.\<close>

fun executed :: "'w Connection \<Rightarrow> string list \<Rightarrow> 'w \<Rightarrow> string list \<times> 'w \<times> js_error option" where
  "executed db [] w = ([], w, None)"
| "executed db (s # ss) w =
     (case dbQuery db s w of
        (Inl e, w1) \<Rightarrow> ([s], w1, Some e)
      | (Inr r, w1) \<Rightarrow> (let (ran, w2, e) = executed db ss w1 in (s # ran, w2, e)))"

lemma emit_fields [simp]:
  "mqLogs (emit p t e st) = mqLogs st" "mqResults (emit p t e st) = mqResults st"
  by (simp_all add: emit_def)

lemma begin_log_fields [simp]:
  "logOrder (begin_log t i s) = i" "logSql (begin_log t i s) = s" "logError (begin_log t i s) = None"
  by (simp_all add: begin_log_def)

lemma query_loop_logs:
  "query_loop db now stmtCount i ss st w = (st1, w1) \<Longrightarrow>
     w1 = fst (snd (executed db ss w))
     \<and> map logSql (mqLogs st1) = map logSql (mqLogs st) @ fst (executed db ss w)
     \<and> map logOrder (mqLogs st1) = map logOrder (mqLogs st) @ [i..<i + length (fst (executed db ss w))]
     \<and> map logError (mqLogs st1) = map logError (mqLogs st)
         @ (case snd (snd (executed db ss w)) of
              None \<Rightarrow> replicate (length (fst (executed db ss w))) None
            | Some e \<Rightarrow> replicate (length (fst (executed db ss w)) - 1) None @ [Some (error_text e)])"
proof (induction ss arbitrary: i st w)
  case (Cons s rest)
  obtain q w0 where q: "dbQuery db s w = (q, w0)" by (cases "dbQuery db s w")
  show ?case
  proof (cases q)
    case (Inl e)
    with q Cons.prems show ?thesis by (auto simp: Let_def)
  next
    case (Inr r)
    obtain ran w2 e where ex: "executed db rest w0 = (ran, w2, e)" by (cases "executed db rest w0")
    have ne: "ran \<noteq> []" if "e = Some e0" for e0
      using that ex by (cases rest) (auto split: prod.splits sum.splits simp: Let_def)
    have up: "i # [Suc i..<Suc (i + n)] = [i..<Suc (i + n)]" for n by (simp add: upt_rec)
    have pred: "None # replicate (length ran - 1) None = replicate (length ran) None" if "ran \<noteq> []"
      using that by (cases ran) simp_all
    from Cons.prems Inr q obtain st2 where
      loop: "query_loop db now stmtCount (Suc i) rest st2 w0 = (st1, w1)"
      and st2: "map logSql (mqLogs st2) = map logSql (mqLogs st) @ [s]"
        "map logOrder (mqLogs st2) = map logOrder (mqLogs st) @ [i]"
        "map logError (mqLogs st2) = map logError (mqLogs st) @ [None]"
      by (auto simp: Let_def)
    from Cons.IH [OF loop] st2 ex q Inr ne pred show ?thesis
      by (cases e) (auto simp add: up simp del: upt_Suc)
  qed
qed simp

text \<open>
  A script runs in order and stops at the first statement that fails: the database sees
  exactly the statements up to that one and no other; there is one log entry per statement that
  ran, in order and numbered from 0; only the last entry can have an error, and it has the
  failing statement's.
\<close>

theorem multiple_query_stops:
  "let (st, w1) = multipleQuery db now statements w; (ran, w2, e) = executed db statements w in
     w1 = w2 \<and> map logSql (mqLogs st) = ran \<and> map logOrder (mqLogs st) = [0..<length ran]
     \<and> map logError (mqLogs st) = (case e of None \<Rightarrow> replicate (length ran) None
          | Some x \<Rightarrow> replicate (length ran - 1) None @ [Some (error_text x)])
     \<and> (\<exists>rest. statements = ran @ rest \<and> (e = None \<longrightarrow> rest = []))"
proof -
  obtain st w1 where run: "multipleQuery db now statements w = (st, w1)" by (cases "multipleQuery db now statements w")
  have prefix: "\<exists>rest. statements = fst (executed db statements w) @ rest
      \<and> (snd (snd (executed db statements w)) = None \<longrightarrow> rest = [])"
  proof (induction statements arbitrary: w)
    case (Cons s ss)
    obtain q w0 where q: "dbQuery db s w = (q, w0)" by (cases "dbQuery db s w")
    with Cons.IH [of w0] show ?case by (cases q) (auto simp: Let_def split_beta)
  qed simp
  from query_loop_logs [OF run [unfolded multipleQuery_def]] prefix run show ?thesis
    by (auto simp: Let_def split_beta split: option.splits)
qed

definition failing_db :: "string list Connection" where
  "failing_db = \<lparr>dbQuery = \<lambda>q w. if q = ''bad'' then (Inl (DriverError ''no''), w @ [q])
       else (Inr \<lparr>rsRows = [], rsHeaders = [], rsStat = \<lparr>rowsAffected = Dec 0 0, rowsRead = None,
          rowsWritten = None, queryDurationMs = None\<rparr>, rsLastInsertRowid = None\<rparr>, w @ [q]),
     dbTransaction = \<lambda>qs w. (Inr [], w)\<rparr>"

theorem multiple_query_stops_witness:
  "snd (multipleQuery failing_db (\<lambda>w. 0) [''a'', ''bad'', ''c''] []) = [''a'', ''bad'']"
proof -
  have e: "executed failing_db [''a'', ''bad'', ''c''] [] = ([''a'', ''bad''], [''a'', ''bad''], Some (DriverError ''no''))"
    by (simp add: failing_db_def)
  show ?thesis
    using multiple_query_stops [of failing_db "\<lambda>w. 0" "[''a'', ''bad'', ''c'']" "[]"] unfolding e
    by (auto simp: Let_def split_beta)
qed

end
