(* ===== verification/GridSelection.thy ===== *)
theory GridSelection
  imports JsPrelude "HOL-Library.Product_Lexorder"
begin

text \<open>
  The selection of the editable grid: the part of the class \<open>OptimizeTableState\<close>
  (\<open>admin/src/components/gui/table-optimized/optimize-table-state.tsx\<close>) that computes on lists of
  selection ranges.  Both corners of a range belong to it.  A list of ranges is read as the set
  of the cells it covers (\<open>covered\<close>); the interface \<open>index_loop\<close> is what the four loops that
  collect row and column numbers share.
\<close>

section \<open>Ranges\<close>

record TableSelectionRange =
  rx1 :: int
  ry1 :: int
  rx2 :: int
  ry2 :: int

definition in_range :: "int \<Rightarrow> int \<Rightarrow> TableSelectionRange \<Rightarrow> bool" where
  "in_range y x r = (ry1 r \<le> y \<and> y \<le> ry2 r \<and> rx1 r \<le> x \<and> x \<le> rx2 r)"

definition within :: "TableSelectionRange \<Rightarrow> TableSelectionRange \<Rightarrow> bool" where
  "within rng r = (rx1 r \<le> rx1 rng \<and> rx2 rng \<le> rx2 r \<and> ry1 r \<le> ry1 rng \<and> ry2 rng \<le> ry2 r)"

text \<open>\<open>getSelectionRange\<close>, \<open>isRowSelected\<close>, \<open>findSelectionRange\<close> (\<open>findIndex\<close> gives \<open>-1\<close> as \<^term>\<open>None\<close>).\<close>

definition getSelectionRange :: "TableSelectionRange list \<Rightarrow> int \<Rightarrow> int \<Rightarrow> TableSelectionRange option" where
  "getSelectionRange rs y x = List.find (in_range y x) rs"

definition isRowSelected :: "TableSelectionRange list \<Rightarrow> int \<Rightarrow> bool" where
  "isRowSelected rs y = list_ex (\<lambda>r. ry1 r \<le> y \<and> y \<le> ry2 r) rs"

definition findSelectionRange :: "TableSelectionRange list \<Rightarrow> TableSelectionRange \<Rightarrow> nat option" where
  "findSelectionRange rs rng = find_index (within rng) rs"

section \<open>Merging and splitting\<close>

definition adjacent :: "TableSelectionRange \<Rightarrow> TableSelectionRange \<Rightarrow> bool" where
  "adjacent l rng =
     ((ry1 l = ry1 rng \<and> ry2 l = ry2 rng \<and> rx2 l + 1 = rx1 rng)
      \<or> (rx1 l = rx1 rng \<and> rx2 l = rx2 rng \<and> ry2 l + 1 = ry1 rng))"

definition join_ranges :: "TableSelectionRange \<Rightarrow> TableSelectionRange \<Rightarrow> TableSelectionRange" where
  "join_ranges l rng = l\<lparr>rx2 := max (rx2 l) (rx2 rng), ry2 := max (ry2 l) (ry2 rng)\<rparr>"

text \<open>One round of the loop: \<open>merged\<close> and \<open>isLastMoveMerged\<close>.\<close>

definition merge_step ::
  "TableSelectionRange list \<times> bool \<Rightarrow> TableSelectionRange \<Rightarrow> TableSelectionRange list \<times> bool" where
  "merge_step st rng =
     (let merged = fst st
      in if merged \<noteq> [] \<and> adjacent (last merged) rng
         then (butlast merged @ [join_ranges (last merged) rng], True)
         else (merged @ [rng], False))"

definition sort_ranges :: "TableSelectionRange list \<Rightarrow> TableSelectionRange list" where
  "sort_ranges rs = sort_key (\<lambda>r. (ry1 r, rx1 r)) rs"

lemma length_merge_step: "length (fst (merge_step st r)) \<le> Suc (length (fst st))"
  "snd (merge_step st r) \<Longrightarrow> length (fst (merge_step st r)) = length (fst st)"
  by (auto simp: merge_step_def Let_def split: if_splits)

lemma length_merge_loop: "length (fst (foldl merge_step st rs)) \<le> length (fst st) + length rs"
proof (induction rs arbitrary: st)
  case (Cons r rs)
  show ?case using Cons [of "merge_step st r"] length_merge_step(1) [of st r] by simp
qed simp

lemma length_merge_loop_flag:
  assumes "snd (foldl merge_step ([], False) rs)"
  shows "length (fst (foldl merge_step ([], False) rs)) < length rs"
proof (cases rs rule: rev_cases)
  case (snoc qs q)
  then show ?thesis
    using assms length_merge_step(2) [of "foldl merge_step ([], False) qs" q]
      length_merge_loop [of "([], False)" qs] by simp
qed (use assms in simp)

function mergeSelectionRanges :: "TableSelectionRange list \<Rightarrow> TableSelectionRange list" where
  "mergeSelectionRanges rs =
     (let st = foldl merge_step ([], False) (sort_ranges rs)
      in if snd st then mergeSelectionRanges (fst st) else fst st)"
  by pat_completeness auto
termination
  by (relation "measure length")
     (auto dest!: length_merge_loop_flag simp: sort_ranges_def)

declare mergeSelectionRanges.simps [simp del]

definition splitSelectionRange ::
  "TableSelectionRange \<Rightarrow> TableSelectionRange \<Rightarrow> TableSelectionRange list" where
  "splitSelectionRange sel desel =
     (if ry1 sel < ry1 desel
      then [\<lparr>rx1 = rx1 sel, ry1 = ry1 sel, rx2 = rx2 sel, ry2 = ry1 desel - 1\<rparr>] else []) @
     (if ry2 desel < ry2 sel
      then [\<lparr>rx1 = rx1 sel, ry1 = ry2 desel + 1, rx2 = rx2 sel, ry2 = ry2 sel\<rparr>] else []) @
     (if rx1 sel < rx1 desel
      then [\<lparr>rx1 = rx1 sel, ry1 = max (ry1 sel) (ry1 desel), rx2 = rx1 desel - 1,
             ry2 = min (ry2 sel) (ry2 desel)\<rparr>] else []) @
     (if rx2 desel < rx2 sel
      then [\<lparr>rx1 = rx2 desel + 1, ry1 = max (ry1 sel) (ry1 desel), rx2 = rx2 sel,
             ry2 = min (ry2 sel) (ry2 desel)\<rparr>] else [])"

definition corner_range :: "int \<Rightarrow> int \<Rightarrow> int \<Rightarrow> int \<Rightarrow> TableSelectionRange" where
  "corner_range y1 x1 y2 x2 =
     \<lparr>rx1 = min x1 x2, ry1 = min y1 y2, rx2 = max x1 x2, ry2 = max y1 y2\<rparr>"

text \<open>\<open>addSelectionRange\<close>: what it does to the ranges (\<open>splitedRanges.length >= 0\<close> always holds).\<close>

definition addSelectionRange ::
  "int \<Rightarrow> int \<Rightarrow> int \<Rightarrow> int \<Rightarrow> TableSelectionRange list \<Rightarrow> TableSelectionRange list" where
  "addSelectionRange y1 x1 y2 x2 rs =
     (let newRange = corner_range y1 x1 y2 x2
      in case findSelectionRange rs newRange of
           None \<Rightarrow> mergeSelectionRanges (rs @ [newRange])
         | Some i \<Rightarrow>
             mergeSelectionRanges ((take i rs @ drop (Suc i) rs) @ splitSelectionRange (rs ! i) newRange))"

section \<open>The cells that are selected\<close>

definition covered :: "TableSelectionRange list \<Rightarrow> int \<Rightarrow> int \<Rightarrow> bool" where
  "covered rs y x = list_ex (in_range y x) rs"

lemma covered_simps [simp]:
  "covered [] y x = False"
  "covered (r # rs) y x = (in_range y x r \<or> covered rs y x)"
  "covered (rs @ qs) y x = (covered rs y x \<or> covered qs y x)"
  by (simp_all add: covered_def)

lemma covered_cong_set: "set rs = set qs \<Longrightarrow> covered rs = covered qs"
  by (auto simp: covered_def list_ex_iff fun_eq_iff)

lemma covered_sort [simp]: "covered (sort_ranges rs) = covered rs"
  by (rule covered_cong_set) (simp add: sort_ranges_def)

lemma find_in_range: "getSelectionRange rs y x \<noteq> None \<longleftrightarrow> covered rs y x"
  by (induction rs) (auto simp: getSelectionRange_def)

lemma find_in_range_Some: "getSelectionRange rs y x = Some r \<Longrightarrow> r \<in> set rs \<and> in_range y x r"
  by (auto simp: getSelectionRange_def find_Some_iff in_set_conv_nth)

text \<open>Ranges that the merge can handle: not inverted by more than one.\<close>

definition proper :: "TableSelectionRange \<Rightarrow> bool" where
  "proper r = (rx1 r \<le> rx2 r + 1 \<and> ry1 r \<le> ry2 r + 1)"

lemma in_range_join:
  assumes "adjacent l r" and "proper l" and "proper r"
  shows "in_range y x (join_ranges l r) = (in_range y x l \<or> in_range y x r)" "proper (join_ranges l r)"
  using assms by (auto simp: adjacent_def proper_def in_range_def join_ranges_def)

lemma merge_step_covered:
  assumes "list_all proper (fst st)" and "proper r"
  shows "covered (fst (merge_step st r)) y x = (covered (fst st) y x \<or> in_range y x r)"
    and "list_all proper (fst (merge_step st r))"
proof -
  have split: "fst st = butlast (fst st) @ [last (fst st)]" if "fst st \<noteq> []" using that by simp
  have "covered (fst st) y x = (covered (butlast (fst st)) y x \<or> in_range y x (last (fst st)))"
    and "proper (last (fst st))" and "list_all proper (butlast (fst st))" if "fst st \<noteq> []"
    using split [OF that] assms(1)
    by (metis covered_simps(1,2,3), metis list_all_append list.pred_inject(2), metis list_all_append)
  then show "covered (fst (merge_step st r)) y x = (covered (fst st) y x \<or> in_range y x r)"
    and "list_all proper (fst (merge_step st r))"
    using assms in_range_join [of "last (fst st)" r] by (auto simp: merge_step_def Let_def)
qed

lemma merge_loop_covered:
  assumes "list_all proper (fst st)" and "list_all proper rs"
  shows "covered (fst (foldl merge_step st rs)) y x = (covered (fst st) y x \<or> covered rs y x)
     \<and> list_all proper (fst (foldl merge_step st rs))"
  using assms
proof (induction rs arbitrary: st)
  case (Cons r rs)
  then show ?case using merge_step_covered [of st r] by auto
qed simp

lemma proper_sort [simp]: "list_all proper (sort_ranges rs) = list_all proper rs"
  by (simp add: sort_ranges_def list_all_iff)

lemma mergeSelectionRanges_covered:
  "list_all proper rs \<Longrightarrow> covered (mergeSelectionRanges rs) y x = covered rs y x"
  "list_all proper rs \<Longrightarrow> list_all proper (mergeSelectionRanges rs)"
proof (induction rs rule: mergeSelectionRanges.induct)
  case (1 rs)
  let ?st = "foldl merge_step ([], False) (sort_ranges rs)"
  have m: "list_all proper rs \<Longrightarrow> covered (fst ?st) y x = covered rs y x \<and> list_all proper (fst ?st)"
    using merge_loop_covered [of "([], False)" "sort_ranges rs" y x] by simp
  { case 1 then show ?case using m "1.IH"(1) [of ?st] by (simp add: mergeSelectionRanges.simps [of rs] Let_def) }
  { case 2 then show ?case using m "1.IH"(2) [of ?st] by (simp add: mergeSelectionRanges.simps [of rs] Let_def) }
qed

lemma covered_piece: "covered (if b then [r] else []) y x = (b \<and> in_range y x r)"
  by simp

lemma split_cells:
  fixes a1 b1 :: int
  assumes "a1 \<le> d1" and "d2 \<le> a2" and "b1 \<le> e1" and "e2 \<le> b2" and "d1 \<le> d2" and "e1 \<le> e2"
  shows "(b1 < e1 \<and> b1 \<le> y \<and> y \<le> e1 - 1 \<and> a1 \<le> x \<and> x \<le> a2
       \<or> e2 < b2 \<and> e2 + 1 \<le> y \<and> y \<le> b2 \<and> a1 \<le> x \<and> x \<le> a2
       \<or> a1 < d1 \<and> e1 \<le> y \<and> y \<le> e2 \<and> a1 \<le> x \<and> x \<le> d1 - 1
       \<or> d2 < a2 \<and> e1 \<le> y \<and> y \<le> e2 \<and> d2 + 1 \<le> x \<and> x \<le> a2)
     = ((b1 \<le> y \<and> y \<le> b2 \<and> a1 \<le> x \<and> x \<le> a2) \<and> \<not> (e1 \<le> y \<and> y \<le> e2 \<and> d1 \<le> x \<and> x \<le> d2))"
  using assms by presburger

lemma splitSelectionRange_covered:
  assumes "within desel sel" and "rx1 desel \<le> rx2 desel" and "ry1 desel \<le> ry2 desel"
  shows "covered (splitSelectionRange sel desel) y x = (in_range y x sel \<and> \<not> in_range y x desel)"
proof -
  have m: "max (ry1 sel) (ry1 desel) = ry1 desel" "min (ry2 sel) (ry2 desel) = ry2 desel"
    using assms by (simp_all add: within_def)
  have w: "rx1 sel \<le> rx1 desel" "rx2 desel \<le> rx2 sel" "ry1 sel \<le> ry1 desel" "ry2 desel \<le> ry2 sel"
    using assms by (simp_all add: within_def)
  show ?thesis
    unfolding splitSelectionRange_def covered_simps(3) covered_piece m in_range_def
      TableSelectionRange.select_convs
    by (rule split_cells [OF w assms(2,3)])
qed

lemma splitSelectionRange_proper:
  assumes "within desel sel" and "proper sel" and "rx1 desel \<le> rx2 desel" and "ry1 desel \<le> ry2 desel"
  shows "list_all proper (splitSelectionRange sel desel)"
  using assms by (auto simp: splitSelectionRange_def within_def proper_def)

section \<open>Indices\<close>

text \<open>\<open>new Set()\<close> filled by the loop \<open>for (let i = lo; i <= hi; i++)\<close>, in insertion order.\<close>

definition set_add :: "int list \<Rightarrow> int \<Rightarrow> int list" where
  "set_add s i = (if i \<in> set s then s else s @ [i])"

definition add_interval :: "int \<times> int \<Rightarrow> int list \<Rightarrow> int list" where
  "add_interval iv s = foldl set_add s [fst iv..snd iv]"

definition getSelectedRowIndex :: "TableSelectionRange list \<Rightarrow> int list" where
  "getSelectedRowIndex rs = fold (\<lambda>r. add_interval (ry1 r, ry2 r)) rs []"

definition getSelectedColIndex :: "TableSelectionRange list \<Rightarrow> int list" where
  "getSelectedColIndex rs = fold (\<lambda>r. add_interval (rx1 r, rx2 r)) rs []"

definition isFullSelectionRow :: "int \<Rightarrow> TableSelectionRange list \<Rightarrow> int \<Rightarrow> bool" where
  "isFullSelectionRow headerCount rs y =
     list_ex (\<lambda>r. ry1 r \<le> y \<and> y \<le> ry2 r \<and> rx1 r = 0 \<and> rx2 r = headerCount - 1) rs"

definition getFullSelectionRowsIndex :: "int \<Rightarrow> TableSelectionRange list \<Rightarrow> int list" where
  "getFullSelectionRowsIndex headerCount rs =
     fold (\<lambda>r s. if rx1 r = 0 \<and> rx2 r = headerCount - 1 then add_interval (ry1 r, ry2 r) s else s) rs []"

definition getFullSelectionColsIndex :: "int \<Rightarrow> TableSelectionRange list \<Rightarrow> int list" where
  "getFullSelectionColsIndex rowsCount rs =
     fold (\<lambda>r s. if ry1 r = 0 \<and> ry2 r = rowsCount - 1 then add_interval (rx1 r, rx2 r) s else s) rs []"

definition isFullSelectionCol :: "int \<Rightarrow> TableSelectionRange list \<Rightarrow> int \<Rightarrow> bool" where
  "isFullSelectionCol rowsCount rs x =
     list_ex (\<lambda>r. rx1 r \<le> x \<and> x \<le> rx2 r \<and> ry1 r = 0 \<and> ry2 r = rowsCount - 1) rs"

record CellStatus =
  isFocus :: bool
  isSelected :: bool
  isBorderBottom :: bool
  isBorderRight :: bool

definition getCellStatus ::
  "(int \<times> int) option \<Rightarrow> TableSelectionRange list \<Rightarrow> int \<Rightarrow> int \<Rightarrow> CellStatus" where
  "getCellStatus focus rs y x =
     \<lparr>isFocus = (focus = Some (y, x)),
      isSelected = list_ex (\<lambda>r. ry1 r \<le> y \<and> y \<le> ry2 r \<and> rx1 r \<le> x \<and> x \<le> rx2 r) rs,
      isBorderBottom = list_ex (\<lambda>r. rx1 r \<le> x \<and> x \<le> rx2 r \<and> (y = ry2 r \<or> y + 1 = ry1 r)) rs,
      isBorderRight = list_ex (\<lambda>r. ry1 r \<le> y \<and> y \<le> ry2 r \<and> (x = rx2 r \<or> x + 1 = rx1 r)) rs\<rparr>"

section \<open>What the indices are\<close>

lemma set_add_facts: "distinct s \<Longrightarrow> distinct (set_add s i)" "set (set_add s i) = insert i (set s)"
  by (auto simp: set_add_def)

lemma add_interval_facts:
  "distinct s \<Longrightarrow> distinct (add_interval iv s)"
  "set (add_interval iv s) = set s \<union> {fst iv..snd iv}"
proof -
  have "(distinct s \<longrightarrow> distinct (foldl set_add s is)) \<and> set (foldl set_add s is) = set s \<union> set is" for "is"
    by (induction "is" arbitrary: s) (auto simp: set_add_facts)
  then show "distinct s \<Longrightarrow> distinct (add_interval iv s)"
    and "set (add_interval iv s) = set s \<union> {fst iv..snd iv}"
    by (simp_all add: add_interval_def)
qed

locale index_loop =
  fixes pick :: "TableSelectionRange \<Rightarrow> bool"
    and lo :: "TableSelectionRange \<Rightarrow> int"
    and hi :: "TableSelectionRange \<Rightarrow> int"
    and indices :: "TableSelectionRange list \<Rightarrow> int list"
  assumes indices_loop:
    "indices rs = fold (\<lambda>r s. if pick r then add_interval (lo r, hi r) s else s) rs []"
begin

lemma loop_facts:
  "(distinct s \<longrightarrow> distinct (fold (\<lambda>r s. if pick r then add_interval (lo r, hi r) s else s) rs s))
   \<and> set (fold (\<lambda>r s. if pick r then add_interval (lo r, hi r) s else s) rs s)
      = set s \<union> {i. list_ex (\<lambda>r. pick r \<and> lo r \<le> i \<and> i \<le> hi r) rs}"
proof (induction rs arbitrary: s)
  case (Cons r rs)
  show ?case using Cons [of s] Cons [of "add_interval (lo r, hi r) s"]
    by (cases "pick r") (auto simp: add_interval_facts)
qed simp

lemma indices_distinct: "distinct (indices rs)"
  using loop_facts [of "[]" rs] by (simp add: indices_loop)

lemma indices_member: "i \<in> set (indices rs) \<longleftrightarrow> list_ex (\<lambda>r. pick r \<and> lo r \<le> i \<and> i \<le> hi r) rs"
  using loop_facts [of "[]" rs] by (simp add: indices_loop)

end

interpretation rows: index_loop "\<lambda>_. True" ry1 ry2 getSelectedRowIndex
  by unfold_locales (simp add: getSelectedRowIndex_def)

interpretation cols: index_loop "\<lambda>_. True" rx1 rx2 getSelectedColIndex
  by unfold_locales (simp add: getSelectedColIndex_def)

interpretation full_rows: index_loop "\<lambda>r. rx1 r = 0 \<and> rx2 r = headerCount - 1" ry1 ry2
    "getFullSelectionRowsIndex headerCount" for headerCount
  by unfold_locales (simp add: getFullSelectionRowsIndex_def)

interpretation full_cols: index_loop "\<lambda>r. ry1 r = 0 \<and> ry2 r = rowsCount - 1" rx1 rx2
    "getFullSelectionColsIndex rowsCount" for rowsCount
  by unfold_locales (simp add: getFullSelectionColsIndex_def)

section \<open>Properties\<close>

text \<open>
  The four lists of selected indices agree with the tests on single rows and columns: each
  has every index once, and a row (column) is in it exactly when \<open>isRowSelected\<close>,
  \<open>isFullSelectionRow\<close>, \<open>isFullSelectionCol\<close> say so.
\<close>

theorem selected_indices_agree:
  "distinct (getSelectedRowIndex rs) \<and> (y \<in> set (getSelectedRowIndex rs) \<longleftrightarrow> isRowSelected rs y)
   \<and> distinct (getFullSelectionRowsIndex headerCount rs)
   \<and> (y \<in> set (getFullSelectionRowsIndex headerCount rs) \<longleftrightarrow> isFullSelectionRow headerCount rs y)
   \<and> distinct (getFullSelectionColsIndex rowsCount rs)
   \<and> (x \<in> set (getFullSelectionColsIndex rowsCount rs) \<longleftrightarrow> isFullSelectionCol rowsCount rs x)
   \<and> (isSelected (getCellStatus focus rs y x) \<longleftrightarrow> getSelectionRange rs y x \<noteq> None)"
  unfolding rows.indices_member full_rows.indices_member full_cols.indices_member find_in_range
  by (simp add: rows.indices_distinct full_rows.indices_distinct full_cols.indices_distinct
      isRowSelected_def isFullSelectionRow_def isFullSelectionCol_def list_ex_iff getCellStatus_def
      covered_def in_range_def conj_ac)

lemma corner_range_proper:
  "proper (corner_range y1 x1 y2 x2)" "rx1 (corner_range y1 x1 y2 x2) \<le> rx2 (corner_range y1 x1 y2 x2)"
  "ry1 (corner_range y1 x1 y2 x2) \<le> ry2 (corner_range y1 x1 y2 x2)"
  by (auto simp: corner_range_def proper_def min_def max_def)

lemma list_all_without: "list_all P xs \<Longrightarrow> list_all P (take i xs @ drop (Suc i) xs)"
  by (auto simp: list_all_iff dest: in_set_takeD in_set_dropD)

lemma addSelectionRange_proper:
  assumes "list_all proper rs"
  shows "list_all proper (addSelectionRange y1 x1 y2 x2 rs)"
proof (cases "findSelectionRange rs (corner_range y1 x1 y2 x2)")
  case None
  then show ?thesis
    using assms mergeSelectionRanges_covered(2) [of "rs @ [corner_range y1 x1 y2 x2]"]
    by (simp add: addSelectionRange_def corner_range_proper)
next
  case (Some i)
  note i = find_index_Some [OF Some [unfolded findSelectionRange_def]]
  then have "proper (rs ! i)" using assms by (simp add: list_all_length)
  then have "list_all proper ((take i rs @ drop (Suc i) rs) @ splitSelectionRange (rs ! i) (corner_range y1 x1 y2 x2))"
    using list_all_without [OF assms, of i] splitSelectionRange_proper [OF conjunct2 [OF i]]
    by (simp add: corner_range_proper)
  with Some show ?thesis
    using mergeSelectionRanges_covered(2) by (simp add: addSelectionRange_def)
qed

lemma covered_split_at:
  "i < length rs \<Longrightarrow> covered rs y x = (covered (take i rs @ drop (Suc i) rs) y x \<or> in_range y x (rs ! i))"
  by (subst id_take_nth_drop [of i rs]) auto

text \<open>Two ranges with no common cell.\<close>

definition apart :: "TableSelectionRange \<Rightarrow> TableSelectionRange \<Rightarrow> bool" where
  "apart r q = (rx2 r < rx1 q \<or> rx2 q < rx1 r \<or> ry2 r < ry1 q \<or> ry2 q < ry1 r)"

lemma apart_cells: "apart r q \<Longrightarrow> in_range y x r \<Longrightarrow> \<not> in_range y x q"
  by (auto simp: apart_def in_range_def)

lemma apart_without:
  assumes "sorted_wrt apart rs" and "i < length rs" and "in_range y x (rs ! i)"
  shows "\<not> covered (take i rs @ drop (Suc i) rs) y x"
proof -
  have "sorted_wrt apart (take i rs @ rs ! i # drop (Suc i) rs)"
    using assms(1,2) by (simp add: id_take_nth_drop [symmetric])
  then have "\<forall>r \<in> set (take i rs). apart r (rs ! i)" "\<forall>r \<in> set (drop (Suc i) rs). apart (rs ! i) r"
    by (simp_all add: sorted_wrt_append)
  with assms(3) show ?thesis
    using apart_cells by (auto simp: covered_def list_ex_iff)
qed



end
