(* ===== verification/GridState.thy ===== *)
theory GridState
  imports Complex_Main DatabaseTypes GridSelection
begin

text \<open>
  The class \<open>OptimizeTableState\<close>, \<open>admin/src/components/gui/table-optimized/optimize-table-state.tsx\<close>:
  the rows of a table with their pending changes, the focus, the selection and the listeners.

  Rows are objects that the array \<open>data\<close>, the change log and the caller's plans share, so they
  live in a store, the list \<open>rows\<close>, and are named by their position in it; comparing row objects
  is comparing these names.  Methods that change the object return the new state.  Listeners are
  numbers, their calls are written to \<open>trace\<close>; \<open>timers\<close> are the timers that are still going to
  fire.  \<open>deepEqual\<close> is a package and a parameter.
\<close>

section \<open>Headers and rows\<close>

record FromColumn =
  fromSchema :: string
  fromTable :: "string option"
  fromColumn :: string

record TableHeaderMetadata =
  mdFrom :: "FromColumn option"
  mdIsPrimaryKey :: bool
  mdReferenceTo :: "(string option \<times> string option \<times> string option) option"
  mdType :: "ColumnType option"
  mdOriginalType :: "string option"
  mdColumnSchema :: "DatabaseTableColumn option"

datatype HeaderIcon = KeyIcon | KeySquareIcon | SigmaIcon

record TableHeader =
  thName :: string
  thText :: string
  thInitialSize :: rat
  thIcon :: "HeaderIcon option"
  thDecorator :: "nat option"
  thResizable :: bool
  thReadonly :: bool
  thMetadata :: TableHeaderMetadata

record OptimizeTableRowValue =
  rwRaw :: "jsval obj"
  rwChange :: "jsval obj option"
  rwChangeKey :: "nat option"
  rwIsNewRow :: bool
  rwIsRemoved :: bool

definition raw_row :: "jsval obj \<Rightarrow> OptimizeTableRowValue" where
  "raw_row r = \<lparr>rwRaw = r, rwChange = None, rwChangeKey = None, rwIsNewRow = False, rwIsRemoved = False\<rparr>"

text \<open>\<open>if (row.changeKey)\<close>.\<close>

definition has_key :: "OptimizeTableRowValue \<Rightarrow> bool" where
  "has_key row = (case rwChangeKey row of None \<Rightarrow> False | Some k \<Rightarrow> k \<noteq> 0)"

record Container =
  clientWidth :: rat
  clientHeight :: rat
  scrollLeft :: rat
  scrollTop :: rat

datatype GridEvent = Listener nat | FocusContainer

record OptimizeTableState =
  rows :: "OptimizeTableRowValue list"
  data :: "nat list"
  focusAt :: "(int \<times> int) option"
  lastMove :: "(int \<times> int) option"
  selectionRanges :: "TableSelectionRange list"
  gutterColumnWidth :: rat
  headers :: "TableHeader list"
  headerRevision :: nat
  headerWidth :: "rat option list"
  editMode :: bool
  readOnlyMode :: bool
  pendingEditChar :: "string option"
  container :: "Container option"
  changeCallback :: "nat list"
  changeDebounceTimerId :: "nat option"
  timers :: "nat list"
  nextTimer :: nat
  changeCounter :: nat
  changeLogs :: "(nat \<times> nat) list"
  gridSql :: string
  trace :: "GridEvent list"

definition newTableState :: "TableHeader list \<Rightarrow> jsval obj list \<Rightarrow> OptimizeTableState" where
  "newTableState hs rs =
     \<lparr>rows = map raw_row rs, data = [0..<length rs], focusAt = None, lastMove = None,
      selectionRanges = [], gutterColumnWidth = 40, headers = hs, headerRevision = 1,
      headerWidth = map (\<lambda>h. Some (thInitialSize h)) hs, editMode = False, readOnlyMode = False,
      pendingEditChar = None, container = None, changeCallback = [],
      changeDebounceTimerId = None, timers = [], nextTimer = 1, changeCounter = 1,
      changeLogs = [], gridSql = [], trace = []\<rparr>"

section \<open>Small methods\<close>

definition setReadOnlyMode :: "bool \<Rightarrow> OptimizeTableState \<Rightarrow> OptimizeTableState" where
  "setReadOnlyMode r s = s\<lparr>readOnlyMode := r\<rparr>"

definition setContainer :: "Container option \<Rightarrow> OptimizeTableState \<Rightarrow> OptimizeTableState" where
  "setContainer c s = s\<lparr>container := c\<rparr>"

definition addChangeListener :: "nat \<Rightarrow> OptimizeTableState \<Rightarrow> OptimizeTableState" where
  "addChangeListener cb s = s\<lparr>changeCallback := changeCallback s @ [cb]\<rparr>"

definition removeChangeListener :: "nat \<Rightarrow> OptimizeTableState \<Rightarrow> OptimizeTableState" where
  "removeChangeListener cb s = s\<lparr>changeCallback := filter (\<lambda>c. c \<noteq> cb) (changeCallback s)\<rparr>"

text \<open>\<open>this.changeCallback.reverse().forEach((cb) => cb(this))\<close>: \<open>reverse\<close> works in place.\<close>

definition call_listeners :: "OptimizeTableState \<Rightarrow> OptimizeTableState" where
  "call_listeners s = s\<lparr>changeCallback := rev (changeCallback s),
                        trace := trace s @ map Listener (rev (changeCallback s))\<rparr>"

text \<open>\<open>clearTimeout\<close> keeps the timer from firing; it does not reset the field.\<close>

definition clear_timeout :: "nat option \<Rightarrow> OptimizeTableState \<Rightarrow> OptimizeTableState" where
  "clear_timeout tid s =
     (case tid of None \<Rightarrow> s | Some t \<Rightarrow> s\<lparr>timers := removeAll t (timers s)\<rparr>)"

definition broadcastChange :: "bool \<Rightarrow> OptimizeTableState \<Rightarrow> OptimizeTableState" where
  "broadcastChange instant s =
     (let s1 = (if instant then call_listeners (clear_timeout (changeDebounceTimerId s) s) else s)
      in if changeDebounceTimerId s1 \<noteq> None then s1
         else s1\<lparr>changeDebounceTimerId := Some (nextTimer s1),
                 timers := timers s1 @ [nextTimer s1], nextTimer := Suc (nextTimer s1)\<rparr>)"

text \<open>The event loop fires a timer.\<close>

definition fire_timer :: "nat \<Rightarrow> OptimizeTableState \<Rightarrow> OptimizeTableState" where
  "fire_timer t s =
     (if t \<in> set (timers s)
      then call_listeners (s\<lparr>timers := removeAll t (timers s), changeDebounceTimerId := None\<rparr>)
      else s)"

definition updateHeaderDecorator ::
  "string \<Rightarrow> nat option \<Rightarrow> OptimizeTableState \<Rightarrow> OptimizeTableState" where
  "updateHeaderDecorator name decorator s =
     (if list_ex (\<lambda>h. thName h = name) (headers s)
      then broadcastChange False (s\<lparr>
             headers := map (\<lambda>h. if thName h = name then h\<lparr>thDecorator := decorator\<rparr> else h) (headers s),
             headerRevision := Suc (headerRevision s)\<rparr>)
      else s)"

section \<open>Cells\<close>

text \<open>\<open>xs[i]\<close> for a number \<open>i\<close>; out of range it is \<open>undefined\<close>.\<close>

definition at_index :: "'a list \<Rightarrow> int \<Rightarrow> 'a option" where
  "at_index xs i = (if 0 \<le> i \<and> nat i < length xs then Some (xs ! nat i) else None)"

definition row_of :: "OptimizeTableState \<Rightarrow> int \<Rightarrow> OptimizeTableRowValue option" where
  "row_of s y = map_option (\<lambda>r. rows s ! r) (at_index (data s) y)"

definition header_name :: "OptimizeTableState \<Rightarrow> int \<Rightarrow> string" where
  "header_name s x = (case at_index (headers s) x of None \<Rightarrow> [] | Some h \<Rightarrow> thName h)"

definition getRowsCount :: "OptimizeTableState \<Rightarrow> int" where
  "getRowsCount s = int (length (data s))"

definition getHeaderCount :: "OptimizeTableState \<Rightarrow> int" where
  "getHeaderCount s = int (length (headers s))"

definition getOriginalValue :: "OptimizeTableState \<Rightarrow> int \<Rightarrow> int \<Rightarrow> jsval" where
  "getOriginalValue s y x =
     (case row_of s y of None \<Rightarrow> Undefined | Some row \<Rightarrow> obj_at (rwRaw row) (header_name s x))"

definition hasCellChange :: "OptimizeTableState \<Rightarrow> int \<Rightarrow> int \<Rightarrow> bool" where
  "hasCellChange s y x =
     (case Option.bind (row_of s y) rwChange of
        None \<Rightarrow> False | Some c \<Rightarrow> obj_has c (header_name s x))"

definition getValue :: "OptimizeTableState \<Rightarrow> int \<Rightarrow> int \<Rightarrow> jsval" where
  "getValue s y x =
     (case Option.bind (row_of s y) rwChange of
        None \<Rightarrow> getOriginalValue s y x
      | Some c \<Rightarrow> if obj_has c (header_name s x) then obj_at c (header_name s x)
                  else getOriginalValue s y x)"

section \<open>Changes\<close>

text \<open>
  \<open>changeLogs\<close> is an object whose keys are numbers: \<open>Object.values\<close> lists it by ascending key.
\<close>

definition log_put :: "nat \<Rightarrow> nat \<Rightarrow> (nat \<times> nat) list \<Rightarrow> (nat \<times> nat) list" where
  "log_put k r ls = takeWhile (\<lambda>p. fst p < k) ls @ (k, r) # dropWhile (\<lambda>p. fst p \<le> k) ls"

definition log_del :: "nat \<Rightarrow> (nat \<times> nat) list \<Rightarrow> (nat \<times> nat) list" where
  "log_del k ls = filter (\<lambda>p. fst p \<noteq> k) ls"

definition set_row :: "nat \<Rightarrow> OptimizeTableRowValue \<Rightarrow> OptimizeTableState \<Rightarrow> OptimizeTableState" where
  "set_row r row s = s\<lparr>rows := (rows s)[r := row]\<rparr>"

text \<open>The body of \<open>changeValue\<close> for a row that exists.\<close>

definition revert_cell :: "nat \<Rightarrow> string \<Rightarrow> OptimizeTableState \<Rightarrow> OptimizeTableState" where
  "revert_cell r headerName s =
     (let row = rows s ! r
      in case rwChange row of
           None \<Rightarrow> s
         | Some rowChange \<Rightarrow>
             if \<not> obj_has rowChange headerName then s
             else let rowChange1 = obj_del headerName rowChange
                  in if rowChange1 \<noteq> [] then set_row r (row\<lparr>rwChange := Some rowChange1\<rparr>) s
                     else if has_key row
                       then set_row r (row\<lparr>rwChange := None, rwChangeKey := None\<rparr>)
                              (s\<lparr>changeLogs := log_del (the (rwChangeKey row)) (changeLogs s)\<rparr>)
                       else set_row r (row\<lparr>rwChange := None\<rparr>) s)"

definition write_cell :: "nat \<Rightarrow> string \<Rightarrow> jsval \<Rightarrow> OptimizeTableState \<Rightarrow> OptimizeTableState" where
  "write_cell r headerName newValue s =
     (let row = rows s ! r
      in case rwChange row of
           Some rowChange \<Rightarrow> set_row r (row\<lparr>rwChange := Some (obj_set headerName newValue rowChange)\<rparr>) s
         | None \<Rightarrow>
             (let k = Suc (changeCounter s)
              in set_row r (row\<lparr>rwChangeKey := Some k, rwChange := Some [(headerName, newValue)]\<rparr>)
                   (s\<lparr>changeCounter := k, changeLogs := log_put k r (changeLogs s)\<rparr>)))"

definition changeValue ::
  "(jsval \<Rightarrow> jsval \<Rightarrow> bool) \<Rightarrow> int \<Rightarrow> int \<Rightarrow> jsval \<Rightarrow> OptimizeTableState \<Rightarrow> OptimizeTableState" where
  "changeValue deepEqual y x newValue s =
     (if readOnlyMode s then s
      else if (case at_index (headers s) x of None \<Rightarrow> False | Some h \<Rightarrow> thReadonly h) then s
      else case at_index (data s) y of
        None \<Rightarrow> s
      | Some r \<Rightarrow>
          broadcastChange False
            (if deepEqual (getOriginalValue s y x) newValue
             then revert_cell r (header_name s x) s
             else write_cell r (header_name s x) newValue s))"

definition getChangedRows :: "OptimizeTableState \<Rightarrow> nat list" where
  "getChangedRows s = map snd (changeLogs s)"

definition discard_row :: "OptimizeTableRowValue \<Rightarrow> OptimizeTableRowValue" where
  "discard_row row =
     (if rwIsNewRow row then row\<lparr>rwChange := None, rwChangeKey := None, rwIsNewRow := False\<rparr>
      else row\<lparr>rwChange := None, rwChangeKey := None, rwIsRemoved := False\<rparr>)"

definition update_rows ::
  "(nat \<Rightarrow> OptimizeTableRowValue \<Rightarrow> OptimizeTableRowValue) \<Rightarrow> nat list \<Rightarrow> OptimizeTableState \<Rightarrow> OptimizeTableState" where
  "update_rows f rs s = s\<lparr>rows := foldl (\<lambda>heap r. heap[r := f r (heap ! r)]) (rows s) rs\<rparr>"

definition discardAllChange :: "OptimizeTableState \<Rightarrow> OptimizeTableState" where
  "discardAllChange s =
     (let changed = getChangedRows s;
          newRows = filter (\<lambda>r. rwIsNewRow (rows s ! r)) changed;
          s1 = update_rows (\<lambda>r. discard_row) changed s
      in broadcastChange True (s1\<lparr>
           data := filter (\<lambda>r. r \<notin> set newRows) (data s), changeLogs := []\<rparr>))"

definition apply_row :: "jsval obj \<Rightarrow> OptimizeTableRowValue \<Rightarrow> OptimizeTableRowValue" where
  "apply_row updated row =
     raw_row (obj_spread (obj_spread (rwRaw row) (case rwChange row of None \<Rightarrow> [] | Some c \<Rightarrow> c)) updated)"

definition applyChanges :: "(nat \<times> jsval obj) list \<Rightarrow> OptimizeTableState \<Rightarrow> OptimizeTableState" where
  "applyChanges updatedRows s =
     (let rowChanges = getChangedRows s;
          removedRows = filter (\<lambda>r. rwIsRemoved (rows s ! r)) rowChanges;
          updated = (\<lambda>r. case map_of updatedRows r of None \<Rightarrow> [] | Some u \<Rightarrow> u);
          s1 = update_rows (\<lambda>r. apply_row (updated r)) rowChanges s;
          s2 = (if removedRows \<noteq> []
                then s1\<lparr>data := filter (\<lambda>r. r \<notin> set removedRows) (data s1), selectionRanges := []\<rparr>
                else s1)
      in broadcastChange False (s2\<lparr>changeLogs := []\<rparr>))"

definition isNewRow :: "OptimizeTableState \<Rightarrow> int \<Rightarrow> bool" where
  "isNewRow s y = (case row_of s y of None \<Rightarrow> False | Some row \<Rightarrow> rwIsNewRow row)"

definition isRemovedRow :: "OptimizeTableState \<Rightarrow> int \<Rightarrow> bool" where
  "isRemovedRow s y = (case row_of s y of None \<Rightarrow> False | Some row \<Rightarrow> rwIsRemoved row)"

definition getAllRows :: "OptimizeTableState \<Rightarrow> OptimizeTableRowValue list" where
  "getAllRows s = map (\<lambda>r. rows s ! r) (data s)"

section \<open>Focus, editing, scrolling\<close>

definition setLastMove :: "int \<Rightarrow> int \<Rightarrow> OptimizeTableState \<Rightarrow> OptimizeTableState" where
  "setLastMove y x s = s\<lparr>lastMove := Some (y, x)\<rparr>"

definition clearLastMove :: "OptimizeTableState \<Rightarrow> OptimizeTableState" where
  "clearLastMove s = s\<lparr>lastMove := None\<rparr>"

definition focus_container :: "OptimizeTableState \<Rightarrow> OptimizeTableState" where
  "focus_container s = (if container s \<noteq> None then s\<lparr>trace := trace s @ [FocusContainer]\<rparr> else s)"

definition getFocusValue :: "OptimizeTableState \<Rightarrow> jsval" where
  "getFocusValue s = (case focusAt s of None \<Rightarrow> Undefined | Some (y, x) \<Rightarrow> getValue s y x)"

definition setFocusValue ::
  "(jsval \<Rightarrow> jsval \<Rightarrow> bool) \<Rightarrow> jsval \<Rightarrow> OptimizeTableState \<Rightarrow> OptimizeTableState" where
  "setFocusValue deepEqual newValue s =
     (case focusAt s of None \<Rightarrow> s | Some (y, x) \<Rightarrow> changeValue deepEqual y x newValue s)"

definition hasFocus :: "OptimizeTableState \<Rightarrow> int \<Rightarrow> int \<Rightarrow> bool" where
  "hasFocus s y x = (focusAt s = Some (y, x))"

definition setFocus :: "int \<Rightarrow> int \<Rightarrow> OptimizeTableState \<Rightarrow> OptimizeTableState" where
  "setFocus y x s = broadcastChange False (clearLastMove (focus_container (s\<lparr>focusAt := Some (y, x)\<rparr>)))"

definition clearFocus :: "OptimizeTableState \<Rightarrow> OptimizeTableState" where
  "clearFocus s = broadcastChange False (s\<lparr>focusAt := None\<rparr>)"

definition enterEditMode :: "OptimizeTableState \<Rightarrow> OptimizeTableState" where
  "enterEditMode s = broadcastChange False (s\<lparr>editMode := True\<rparr>)"

definition enterEditModeWithChar :: "string \<Rightarrow> OptimizeTableState \<Rightarrow> OptimizeTableState" where
  "enterEditModeWithChar ch s = enterEditMode (s\<lparr>pendingEditChar := Some ch\<rparr>)"

definition consumePendingEditChar :: "OptimizeTableState \<Rightarrow> string option \<times> OptimizeTableState" where
  "consumePendingEditChar s = (pendingEditChar s, s\<lparr>pendingEditChar := None\<rparr>)"

definition exitEditMode :: "OptimizeTableState \<Rightarrow> OptimizeTableState" where
  "exitEditMode s = broadcastChange False (focus_container (s\<lparr>editMode := False\<rparr>))"

text \<open>\<open>xs[i] = v\<close>; behind the end it leaves holes, which read as \<open>undefined\<close>.\<close>

definition list_put :: "nat \<Rightarrow> 'a \<Rightarrow> 'a option list \<Rightarrow> 'a option list" where
  "list_put i v xs =
     (if i < length xs then xs[i := Some v] else xs @ replicate (i - length xs) None @ [Some v])"

definition setHeaderWidth :: "nat \<Rightarrow> rat \<Rightarrow> OptimizeTableState \<Rightarrow> OptimizeTableState" where
  "setHeaderWidth idx newWidth s = s\<lparr>headerWidth := list_put idx newWidth (headerWidth s)\<rparr>"

definition width_or_0 :: "rat option list \<Rightarrow> int \<Rightarrow> rat" where
  "width_or_0 ws i = (case at_index ws i of Some (Some w) \<Rightarrow> w | _ \<Rightarrow> 0)"

text \<open>What is assigned to \<open>scrollLeft\<close> and \<open>scrollTop\<close>; the browser may limit it further.\<close>

definition scrollToCell :: "bool \<Rightarrow> bool \<Rightarrow> int \<Rightarrow> int \<Rightarrow> OptimizeTableState \<Rightarrow> OptimizeTableState" where
  "scrollToCell right bottom cellY cellX s =
     (case container s of
        None \<Rightarrow> s
      | Some c \<Rightarrow>
          (let cellTop = (of_int cellY + 1) * 38;
               cellBottom = cellTop + 38;
               cellLeft = 38 + sum_list (map (width_or_0 (headerWidth s)) [0..cellX - 1]);
               cellRight = cellLeft + width_or_0 (headerWidth s) cellX;
               c1 = (if right
                     then if cellRight - 38 > scrollLeft c + clientWidth c
                          then c\<lparr>scrollLeft := max 0 (cellRight - clientWidth c)\<rparr> else c
                     else if cellLeft < scrollLeft c then c\<lparr>scrollLeft := cellLeft\<rparr> else c);
               c2 = (if bottom
                     then if cellBottom > scrollTop c + clientHeight c
                          then c1\<lparr>scrollTop := max 0 (cellBottom - clientHeight c)\<rparr> else c1
                     else if cellTop - 38 < scrollTop c then c1\<lparr>scrollTop := max 0 (cellTop - 38)\<rparr> else c1)
           in s\<lparr>container := Some c2\<rparr>))"

section \<open>Selecting\<close>

definition setSelectionRanges :: "TableSelectionRange list \<Rightarrow> OptimizeTableState \<Rightarrow> OptimizeTableState" where
  "setSelectionRanges rs s = broadcastChange False (s\<lparr>selectionRanges := rs\<rparr>)"

definition clearSelect :: "OptimizeTableState \<Rightarrow> OptimizeTableState" where
  "clearSelect s = setSelectionRanges [] s"

definition selectRow :: "int \<Rightarrow> OptimizeTableState \<Rightarrow> OptimizeTableState" where
  "selectRow y s = setSelectionRanges [\<lparr>rx1 = 0, ry1 = y, rx2 = getHeaderCount s - 1, ry2 = y\<rparr>] s"

definition selectColumn :: "int \<Rightarrow> OptimizeTableState \<Rightarrow> OptimizeTableState" where
  "selectColumn x s = setSelectionRanges [\<lparr>rx1 = x, ry1 = 0, rx2 = x, ry2 = getRowsCount s - 1\<rparr>] s"

definition selectCell :: "int \<Rightarrow> int \<Rightarrow> bool \<Rightarrow> OptimizeTableState \<Rightarrow> OptimizeTableState" where
  "selectCell y x focusIt s =
     (let s1 = s\<lparr>selectionRanges := [\<lparr>rx1 = x, ry1 = y, rx2 = x, ry2 = y\<rparr>]\<rparr>
      in if focusIt then setFocus y x s1 else broadcastChange False s1)"

definition selectCellRange :: "int \<Rightarrow> int \<Rightarrow> int \<Rightarrow> int \<Rightarrow> OptimizeTableState \<Rightarrow> OptimizeTableState" where
  "selectCellRange y1 x1 y2 x2 s = setSelectionRanges [corner_range y1 x1 y2 x2] s"

definition addSelection :: "int \<Rightarrow> int \<Rightarrow> int \<Rightarrow> int \<Rightarrow> OptimizeTableState \<Rightarrow> OptimizeTableState" where
  "addSelection y1 x1 y2 x2 s =
     broadcastChange False (s\<lparr>selectionRanges := addSelectionRange y1 x1 y2 x2 (selectionRanges s)\<rparr>)"

definition addSelectionRow :: "int \<Rightarrow> OptimizeTableState \<Rightarrow> OptimizeTableState" where
  "addSelectionRow y s = addSelection y 0 y (getHeaderCount s - 1) s"

definition addSelectionCol :: "int \<Rightarrow> OptimizeTableState \<Rightarrow> OptimizeTableState" where
  "addSelectionCol x s = addSelection 0 x (getRowsCount s - 1) x s"

definition selectRowRange :: "int \<Rightarrow> int \<Rightarrow> OptimizeTableState \<Rightarrow> OptimizeTableState" where
  "selectRowRange y1 y2 s =
     setSelectionRanges [\<lparr>rx1 = 0, ry1 = min y1 y2, rx2 = getHeaderCount s - 1, ry2 = max y1 y2\<rparr>] s"

definition selectColRange :: "int \<Rightarrow> int \<Rightarrow> OptimizeTableState \<Rightarrow> OptimizeTableState" where
  "selectColRange x1 x2 s =
     setSelectionRanges [\<lparr>rx1 = min x1 x2, ry1 = 0, rx2 = max x1 x2, ry2 = getRowsCount s - 1\<rparr>] s"

text \<open>\<open>row.raw\<close> of a row that does not exist is a \<open>TypeError\<close>.\<close>

fun result_list :: "'a result list \<Rightarrow> 'a list result" where
  "result_list [] = Inr []"
| "result_list (r # rs) = rbind r (\<lambda>x. rbind (result_list rs) (\<lambda>xs. Inr (x # xs)))"

definition getSelectedRowsArray :: "OptimizeTableState \<Rightarrow> jsval list list result" where
  "getSelectedRowsArray s =
     result_list (map (\<lambda>y. case row_of s y of
          None \<Rightarrow> if headers s = [] then Inr []
                  else Inl (TypeError ''Cannot read properties of undefined (reading raw)'')
        | Some row \<Rightarrow> Inr (map (\<lambda>h. obj_at (rwRaw row) (thName h)) (headers s)))
       (getSelectedRowIndex (selectionRanges s)))"

section \<open>New and removed rows\<close>

definition focus_index :: "int \<Rightarrow> OptimizeTableState \<Rightarrow> int" where
  "focus_index index s =
     (if index = - 1 then case focusAt s of None \<Rightarrow> index | Some (y, x) \<Rightarrow> y else index)"

definition insertNewRow :: "int \<Rightarrow> jsval obj \<Rightarrow> OptimizeTableState \<Rightarrow> OptimizeTableState" where
  "insertNewRow index0 initialData s =
     (let index = max 0 (focus_index index0 s);
          k = Suc (changeCounter s);
          r = length (rows s);
          newRow = \<lparr>rwRaw = [], rwChange = Some initialData, rwChangeKey = Some k,
                    rwIsNewRow = True, rwIsRemoved = False\<rparr>;
          s1 = s\<lparr>rows := rows s @ [newRow], changeCounter := k,
                 data := take (nat index) (data s) @ r # drop (nat index) (data s),
                 changeLogs := log_put k r (changeLogs s)\<rparr>
      in if 0 < length (headers s)
         then let targetX = (case find_index (\<lambda>h. \<not> thReadonly h) (headers s) of
                               None \<Rightarrow> 0 | Some i \<Rightarrow> int i)
              in scrollToCell False False index targetX (selectCell index targetX True s1)
         else broadcastChange False s1)"

definition removeRow :: "int \<Rightarrow> OptimizeTableState \<Rightarrow> OptimizeTableState" where
  "removeRow index0 s =
     broadcastChange False
       (case at_index (data s) (focus_index index0 s) of
          None \<Rightarrow> s
        | Some r \<Rightarrow>
            (let row = rows s ! r
             in if rwIsNewRow row \<and> has_key row
                then s\<lparr>changeLogs := log_del (the (rwChangeKey row)) (changeLogs s),
                       data := filter (\<lambda>d. d \<noteq> r) (data s)\<rparr>
                else if has_key row then set_row r (row\<lparr>rwIsRemoved := True\<rparr>) s
                else let k = Suc (changeCounter s)
                     in set_row r (row\<lparr>rwIsRemoved := True, rwChange := Some [], rwChangeKey := Some k\<rparr>)
                          (s\<lparr>changeCounter := k, changeLogs := log_put k r (changeLogs s)\<rparr>)))"

end
