(* ===== verification/Exports.thy ===== *)
theory Exports
  imports GridState SqlText Effects
begin

text \<open>
  The export formats: \<open>admin/src/lib/export-helper.ts\<close>, and \<open>getSingleTableName\<close> of
  \<open>admin/src/components/gui/tabs/query-tab.tsx\<close>, which names the table of an export.  An export
  returns its text and, as an effect, what it copies to the clipboard or writes as a workbook;
  the format of \<open>.xlsx\<close> files belongs to a package.
\<close>

section \<open>The result of an export\<close>

datatype ExportTarget = ToClipboard | ToFile

datatype ExportEffect = NoEffect | CopyText string | SaveWorkbook string "jsval list list"

definition deliver :: "ExportTarget option \<Rightarrow> string \<Rightarrow> string \<times> ExportEffect" where
  "deliver target content = (if target = Some ToClipboard then ([], CopyText content) else (content, NoEffect))"

definition selectArrayFromIndexList :: "'a list \<Rightarrow> int list \<Rightarrow> 'a option list" where
  "selectArrayFromIndexList xs indexList = map (at_index xs) indexList"

section \<open>The formats\<close>

definition insert_line :: "string \<Rightarrow> string list \<Rightarrow> string \<Rightarrow> jsval list \<Rightarrow> string" where
  "insert_line tableName hs nullValue record =
     ''INSERT INTO '' @ escapeIdentity tableName @ ''('' @ js_join '', '' (map escapeIdentity hs)
     @ '') VALUES('' @ js_join '', '' (map (\<lambda>v. escapeSqlValue v nullValue) record) @ '');''"

definition exportRowsToSqlInsert ::
  "string \<Rightarrow> string list \<Rightarrow> jsval list list \<Rightarrow> ExportTarget option \<Rightarrow> string \<Rightarrow> string \<times> ExportEffect" where
  "exportRowsToSqlInsert tableName hs records target nullValue =
     deliver target (js_join [newline] (map (insert_line tableName hs nullValue) records))"

definition cellToExcelValue :: "jsval \<Rightarrow> string \<Rightarrow> jsval" where
  "cellToExcelValue v nullValue =
     (if v = Undefined then Str []
      else if v = Null then Str (parseUserInput nullValue)
      else if js_ToNumber v = NaN then v else Num (js_ToNumber v))"

definition exportRowsToExcel :: "jsval list list \<Rightarrow> string \<Rightarrow> string" where
  "exportRowsToExcel records nullValue =
     js_join [carriage_return, newline]
       (map (\<lambda>record. js_join [tab] (map (\<lambda>v. js_String (cellToExcelValue v nullValue)) record)) records)"

definition delimited_line :: "string \<Rightarrow> string \<Rightarrow> string \<Rightarrow> string \<Rightarrow> jsval list \<Rightarrow> string" where
  "delimited_line fieldSeparator lineTerminator textEncloser nullValue record =
     js_join fieldSeparator
       (map (\<lambda>v. escapeDelimitedValue v fieldSeparator lineTerminator textEncloser nullValue) record)"

definition exportDataAsDelimitedText ::
  "string list \<Rightarrow> jsval list list \<Rightarrow> string \<Rightarrow> string \<Rightarrow> string \<Rightarrow> ExportTarget option \<Rightarrow> string \<Rightarrow>
   string \<times> ExportEffect" where
  "exportDataAsDelimitedText hs records fieldSeparator lineTerminator textEncloser target nullValue =
     deliver target (js_join lineTerminator
       ((if 0 < length hs
         then [delimited_line fieldSeparator lineTerminator textEncloser ''NULL'' (map Str hs)] else [])
        @ map (delimited_line fieldSeparator lineTerminator textEncloser nullValue) records))"

definition exportToExcel ::
  "jsval list list \<Rightarrow> string list \<Rightarrow> string \<Rightarrow> ExportTarget option \<Rightarrow> string \<Rightarrow> string \<times> ExportEffect" where
  "exportToExcel records hs tablename target nullValue =
     (if target = Some ToClipboard
      then ([], snd (exportDataAsDelimitedText hs records [tab] [carriage_return, newline] [CHR 0x22]
                       (Some ToClipboard) nullValue))
      else ([], SaveWorkbook (tablename @ ''.xlsx'')
              (map Str hs # map (map (\<lambda>cell. cellToExcelValue cell nullValue)) records)))"

section \<open>JSON\<close>

text \<open>\<open>JSON.stringify(v, null, 2)\<close>: \<^term>\<open>None\<close> is a value that is left out.\<close>

definition hex_lower :: "nat \<Rightarrow> char" where
  "hex_lower n = (if n < 10 then char_of (48 + n) else char_of (87 + n))"

definition json_char :: "char \<Rightarrow> string" where
  "json_char c =
     (let n = of_char c :: nat in
      if n = 34 then [CHR 0x5C, c] else if n = 92 then [c, c]
      else if n = 8 then [CHR 0x5C, CHR ''b''] else if n = 9 then [CHR 0x5C, CHR ''t'']
      else if n = 10 then [CHR 0x5C, CHR ''n''] else if n = 12 then [CHR 0x5C, CHR ''f'']
      else if n = 13 then [CHR 0x5C, CHR ''r'']
      else if n < 32 then [CHR 0x5C, CHR ''u'', CHR ''0'', CHR ''0'', hex_lower (n div 16), hex_lower (n mod 16)]
      else [c])"

definition json_quote :: "string \<Rightarrow> string" where
  "json_quote s = CHR 0x22 # concat (map json_char s) @ [CHR 0x22]"

definition json_block :: "string \<Rightarrow> char \<Rightarrow> char \<Rightarrow> string list \<Rightarrow> string" where
  "json_block indent l r parts =
     (if parts = [] then [l, r]
      else [l, newline] @ indent @ ''  '' @ js_join ([CHR '','', newline] @ indent @ ''  '') parts
           @ [newline] @ indent @ [r])"

definition json_member :: "string \<Rightarrow> string option \<Rightarrow> string option" where
  "json_member k v = map_option (\<lambda>t. json_quote k @ '': '' @ t) v"

definition some_list :: "'a option list \<Rightarrow> 'a list" where
  "some_list xs = List.map_filter id xs"

fun index_members :: "nat \<Rightarrow> byte list \<Rightarrow> string list" where
  "index_members i [] = []"
| "index_members i (b # bs) = (json_quote (nat_digits i) @ '': '' @ nat_digits (unat b)) # index_members (Suc i) bs"

lemma size_member: "(k, v) \<in> set kvs \<Longrightarrow> size v < Suc (size_list (\<lambda>p. Suc (size (snd p))) kvs)"
  by (induction kvs) auto

function (sequential) json_stringify :: "string \<Rightarrow> jsval \<Rightarrow> string option result" where
  "json_stringify indent Undefined = Inr None"
| "json_stringify indent Null = Inr (Some ''null'')"
| "json_stringify indent (Boolean b) = Inr (Some (if b then ''true'' else ''false''))"
| "json_stringify indent (Num n) =
     Inr (Some (case n of Dec m s \<Rightarrow> num_str n | _ \<Rightarrow> ''null''))"
| "json_stringify indent (BigInt i) = Inl (TypeError ''Do not know how to serialize a BigInt'')"
| "json_stringify indent (Str s) = Inr (Some (json_quote s))"
| "json_stringify indent (ArrayBuffer bs) = Inr (Some ''{}'')"
| "json_stringify indent (Uint8Array bs) =
     Inr (Some (json_block indent (CHR ''{'') (CHR ''}'') (index_members 0 bs)))"
| "json_stringify indent (JsArray vs) =
     rbind (result_list (map (\<lambda>v. json_stringify (indent @ ''  '') v) vs)) (\<lambda>parts.
       Inr (Some (json_block indent (CHR ''['') (CHR '']'')
         (map (\<lambda>p. case p of None \<Rightarrow> ''null'' | Some t \<Rightarrow> t) parts))))"
| "json_stringify indent (JsObject kvs) =
     rbind (result_list (map (\<lambda>kv. rbind (json_stringify (indent @ ''  '') (snd kv))
                                          (\<lambda>t. Inr (json_member (fst kv) t))) (obj_entries kvs))) (\<lambda>parts.
       Inr (Some (json_block indent (CHR ''{'') (CHR ''}'') (some_list parts))))"
  by pat_completeness auto

termination
  by (relation "measure (size \<circ> snd)")
     (auto simp: less_Suc_eq_le size_list_estimation' size_member [unfolded less_Suc_eq_le])

text \<open>The rows as objects; large integers become text.\<close>

definition json_object :: "string list \<Rightarrow> string option \<Rightarrow> jsval list \<Rightarrow> jsval obj" where
  "json_object hs nullValue record =
     foldl (\<lambda>ob (h, v).
         obj_set h (if v = Null \<and> truthy_str nullValue then Str (parseUserInput (the nullValue)) else v) ob)
       [] (zip hs (map (\<lambda>v. case v of BigInt i \<Rightarrow> Str (int_str i) | _ \<Rightarrow> v) record))"

definition exportRowsToJson ::
  "string list \<Rightarrow> jsval list list \<Rightarrow> ExportTarget option \<Rightarrow> string option \<Rightarrow>
   (string \<times> ExportEffect) result" where
  "exportRowsToJson hs records target nullValue =
     rbind (json_stringify [] (JsArray (map (\<lambda>r. JsObject (json_object hs nullValue r)) records)))
       (\<lambda>t. Inr (deliver target (the t)))"

section \<open>The table of a query\<close>

definition token_char :: "char \<Rightarrow> bool" where
  "token_char c = (\<not> is_space c \<and> c \<noteq> CHR '','' \<and> c \<noteq> CHR '';'')"

text \<open>
  The leftmost place where a word is followed by a space and a name; white space is a single
  space here.  What follows the place is returned.
\<close>

fun after_word :: "string \<Rightarrow> string \<Rightarrow> string option" where
  "after_word w [] = None"
| "after_word w (c # s) =
     (if js_starts_with (c # s) (w @ '' '')
         \<and> (case drop (Suc (length w)) (c # s) of [] \<Rightarrow> False | d # _ \<Rightarrow> token_char d)
      then Some (drop (Suc (length w)) (c # s)) else after_word w s)"

definition drop_space :: "string \<Rightarrow> string" where
  "drop_space s = (case s of [] \<Rightarrow> [] | c # t \<Rightarrow> if is_space c then t else s)"

definition more_names :: "string \<Rightarrow> bool" where
  "more_names rest =
     (case drop_space rest of
        [] \<Rightarrow> False
      | c # t \<Rightarrow> c = CHR '','' \<and> (case drop_space t of [] \<Rightarrow> False | d # _ \<Rightarrow> token_char d))"

definition getSingleTableName :: "string \<Rightarrow> string option" where
  "getSingleTableName query =
     (let q = js_lower (js_trim (collapse_spaces query))
      in if after_word ''join'' q \<noteq> None then None
         else case after_word ''from'' q of
             None \<Rightarrow> None
           | Some r \<Rightarrow> if more_names (dropWhile token_char r) then None else Some (takeWhile token_char r))"

section \<open>Choosing what is exported\<close>

datatype ExportSelection = CompleteTable | SelectedRow | SelectedCol | SelectedRange

datatype ExportFormat = Csv | Delimited | Json | Sql | Xlsx

record ExportOptions =
  exFieldSeparator :: "string option"
  exLineTerminator :: "string option"
  exEncloser :: "string option"
  exNullValue :: "string option"

definition indexed :: "'a list \<Rightarrow> (int \<times> 'a) list" where
  "indexed xs = zip (map int [0..<length xs]) xs"

definition raw_record :: "string list \<Rightarrow> OptimizeTableRowValue \<Rightarrow> jsval list" where
  "raw_record hs row = map (obj_at (rwRaw row)) hs"

definition no_row :: js_error where
  "no_row = TypeError ''Cannot read properties of undefined (reading raw)''"

definition export_data ::
  "OptimizeTableState \<Rightarrow> ExportSelection \<Rightarrow> int \<Rightarrow> (string list \<times> jsval list list) result" where
  "export_data s sel selectedRangeIndex =
     (let names = map thName (headers s) in
      case sel of
        CompleteTable \<Rightarrow> Inr (names, map (raw_record names) (getAllRows s))
      | SelectedRow \<Rightarrow>
          rbind (result_list (map (\<lambda>r. case r of None \<Rightarrow> if names = [] then Inr [] else Inl no_row
                                     | Some row \<Rightarrow> Inr (raw_record names row))
                   (selectArrayFromIndexList (getAllRows s) (getSelectedRowIndex (selectionRanges s)))))
            (\<lambda>records. Inr (names, records))
      | SelectedCol \<Rightarrow>
          (let hs = map (\<lambda>p. thName (snd p)) (filter (\<lambda>p. fst p \<in>
                      set (getFullSelectionColsIndex (getRowsCount s) (selectionRanges s))) (indexed (headers s)))
           in Inr (hs, map (raw_record hs) (getAllRows s)))
      | SelectedRange \<Rightarrow>
          if selectedRangeIndex < 0 then Inr ([], [])
          else case at_index (selectionRanges s) selectedRangeIndex of
              None \<Rightarrow> if headers s = [] \<and> data s = [] then Inr ([], [])
                      else Inl (TypeError ''Cannot read properties of undefined'')
            | Some r \<Rightarrow>
                (let hs = map (\<lambda>p. thName (snd p)) (filter (\<lambda>p. rx1 r \<le> fst p \<and> fst p \<le> rx2 r)
                            (indexed (headers s)))
                 in Inr (hs, map (\<lambda>p. raw_record hs (snd p))
                          (filter (\<lambda>p. ry1 r \<le> fst p \<and> fst p \<le> ry2 r) (indexed (getAllRows s))))))"

definition or_default :: "string option \<Rightarrow> string \<Rightarrow> string" where
  "or_default x d = (if truthy_str x then the x else d)"

definition user_input_or :: "string option \<Rightarrow> string \<Rightarrow> string" where
  "user_input_or x d = or_default (Some (parseUserInput (or_default x []))) d"

text \<open>\<open>getFormatHandlers(...)[format]()\<close>.\<close>

definition getFormatHandlers ::
  "OptimizeTableState \<Rightarrow> ExportTarget \<Rightarrow> ExportSelection \<Rightarrow> ExportOptions option \<Rightarrow> int \<Rightarrow> ExportFormat \<Rightarrow>
   (string \<times> ExportEffect) result" where
  "getFormatHandlers s target sel options selectedRangeIndex format =
     (let tableName = or_default (getSingleTableName (gridSql s)) ''UnknownTable'';
          opt = (\<lambda>f. Option.bind options f);
          nullValue = or_default (opt exNullValue) ''NULL''
      in rbind (export_data s sel selectedRangeIndex) (\<lambda>(hs, records).
           case format of
             Csv \<Rightarrow> Inr (exportDataAsDelimitedText hs records '','' [newline] [CHR 0x22] (Some target) nullValue)
           | Json \<Rightarrow> exportRowsToJson hs records (Some target) (opt exNullValue)
           | Sql \<Rightarrow> Inr (exportRowsToSqlInsert tableName hs records (Some target) nullValue)
           | Xlsx \<Rightarrow> Inr (exportToExcel records hs tableName (Some target) nullValue)
           | Delimited \<Rightarrow> Inr (exportDataAsDelimitedText hs records
                 (user_input_or (opt exFieldSeparator) '','')
                 (user_input_or (opt exLineTerminator) [newline])
                 (user_input_or (opt exEncloser) [CHR 0x22]) (Some target) nullValue)))"

text \<open>\<open>buildSelectionRangeLabel\<close> and \<open>validateExportSelection\<close> of \<open>export-result-button.tsx\<close>.\<close>

definition buildSelectionRangeLabel :: "TableSelectionRange \<Rightarrow> string" where
  "buildSelectionRangeLabel r =
     ''Col('' @ int_str (rx1 r + 1) @ '', '' @ int_str (rx2 r + 1) @ '') - Row('' @ int_str (ry1 r + 1)
     @ '', '' @ int_str (ry2 r + 1) @ '')''"

definition validateExportSelection :: "ExportSelection option \<Rightarrow> nat \<Rightarrow> nat \<Rightarrow> nat \<Rightarrow> ExportSelection" where
  "validateExportSelection saved rowCount colCount rangeCount =
     (case saved of
        None \<Rightarrow> CompleteTable
      | Some sel \<Rightarrow>
          if sel = SelectedRow \<and> rowCount = 0 then CompleteTable
          else if sel = SelectedCol \<and> colCount = 0 then CompleteTable
          else if sel = SelectedRange \<and> rangeCount = 0 then CompleteTable
          else sel)"

text \<open>The clipboard of Excel: \<open>convertExcelStringToArray\<close>.\<close>

definition convertExcelStringToArray :: "string \<Rightarrow> string list list" where
  "convertExcelStringToArray s = map (js_split [tab]) (js_split [carriage_return, newline] s)"

section \<open>Exporting a table of the database\<close>

definition exportTableData ::
  "Dialect \<Rightarrow> 'w Connection \<Rightarrow> string \<Rightarrow> string \<Rightarrow> ExportFormat \<Rightarrow> ExportTarget \<Rightarrow> ExportOptions option \<Rightarrow>
   ('w, string \<times> ExportEffect) io" where
  "exportTableData d db schemaName tableName format target options =
     io_bind (dbQuery db (''SELECT * FROM '' @ dEscapeId d schemaName @ ''.'' @ dEscapeId d tableName)) (\<lambda>r.
       case rsRows r of
         [] \<Rightarrow> io_return ([], NoEffect)
       | row # _ \<Rightarrow>
           (let hs = map fst (obj_entries row);
                records = map (\<lambda>row. map (obj_at row) hs) (rsRows r);
                opt = (\<lambda>f x. or_default (Option.bind options f) x)
            in case format of
                 Csv \<Rightarrow> io_return (exportDataAsDelimitedText hs records '','' [newline] [CHR 0x22] (Some target) ''NULL'')
               | Json \<Rightarrow> io_lift (exportRowsToJson hs records (Some target) None)
               | Sql \<Rightarrow> io_return (exportRowsToSqlInsert tableName hs records (Some target) ''NULL'')
               | Xlsx \<Rightarrow> io_return (exportToExcel records hs tableName (Some target) ''NULL'')
               | Delimited \<Rightarrow> io_return (exportDataAsDelimitedText hs records
                     (opt exFieldSeparator '','') (opt exLineTerminator [newline])
                     (opt exEncloser [CHR 0x22]) (Some target) ''NULL'')))"

end
