(* ===== verification/ExportFacts.thy ===== *)
theory ExportFacts
  imports Exports RowFacts
begin

text \<open>
  Properties of the exports: delimited text reads back to the cells, JSON fails only for nested
  large integers, and what an export of the grid contains.
\<close>

section \<open>Reading delimited text\<close>

text \<open>
  The rule for delimited text with an encloser \<open>q\<close>, a separator \<open>a\<close> and a line terminator \<open>b\<close>:
  a field in enclosers ends at a single one, a doubled one stands for one; another field ends
  at the next separator or terminator.
\<close>

definition read_field :: "char \<Rightarrow> char \<Rightarrow> char \<Rightarrow> string \<Rightarrow> (string \<times> string) option" where
  "read_field q a b s =
     (if js_starts_with s [q] then read_quoted q s
      else Some (takeWhile (\<lambda>c. c \<noteq> a \<and> c \<noteq> b) s, dropWhile (\<lambda>c. c \<noteq> a \<and> c \<noteq> b) s))"

fun read_table :: "char \<Rightarrow> char \<Rightarrow> char \<Rightarrow> nat \<Rightarrow> string \<Rightarrow> string list list option" where
  "read_table q a b 0 s = None"
| "read_table q a b (Suc n) s =
     (case read_field q a b s of
        None \<Rightarrow> None
      | Some (t, []) \<Rightarrow> Some [[t]]
      | Some (t, c # r) \<Rightarrow>
          (case read_table q a b n r of
             None \<Rightarrow> None
           | Some recs \<Rightarrow> if c = a then Some ((t # hd recs) # tl recs)
                           else if c = b then Some ([t] # recs) else None))"

definition enclose :: "char \<Rightarrow> char \<Rightarrow> char \<Rightarrow> string \<Rightarrow> string" where
  "enclose q a b t = (if a \<in> set t \<or> b \<in> set t \<or> q \<in> set t
                      then q # replace_char q [q, q] t @ [q] else t)"

definition cell_text :: "string \<Rightarrow> jsval \<Rightarrow> string" where
  "cell_text nullValue v = (if nullish v then nullValue else js_String v)"

lemma js_includes_char: "js_includes s [c] \<longleftrightarrow> c \<in> set s"
  by (induction s) auto

lemma replace_all_char: "replace_all [q] r s = replace_char q r s"
  unfolding replace_all_def by (induction s) auto

lemma escapeDelimitedValue_enclose:
  assumes "a \<notin> set nullValue" and "b \<notin> set nullValue" and "q \<notin> set nullValue"
  shows "escapeDelimitedValue v [a] [b] [q] nullValue = enclose q a b (cell_text nullValue v)"
  using assms
  by (simp add: escapeDelimitedValue_def enclose_def cell_text_def Let_def js_includes_char
      replace_all_char)

lemma read_field_back:
  assumes "rest = [] \<or> hd rest = a \<or> hd rest = b" and "q \<noteq> a" and "q \<noteq> b"
  shows "read_field q a b (enclose q a b t @ rest) = Some (t, rest)"
proof (cases "a \<in> set t \<or> b \<in> set t \<or> q \<in> set t")
  case True
  have "closes q rest" using assms by (auto simp: closes_def)
  from read_body_doubled [OF this, of t] True show ?thesis
    by (auto simp: enclose_def read_field_def read_quoted_def)
next
  case False
  then have "\<not> js_starts_with (t @ rest) [q]"
    using assms by (cases t; cases rest) auto
  moreover have "takeWhile (\<lambda>c. c \<noteq> a \<and> c \<noteq> b) (t @ rest) = t"
    "dropWhile (\<lambda>c. c \<noteq> a \<and> c \<noteq> b) (t @ rest) = rest"
    using False assms(1) by (cases rest; auto simp: takeWhile_append dropWhile_append)+
  ultimately show ?thesis using False by (simp add: enclose_def read_field_def)
qed

definition table_text :: "char \<Rightarrow> char \<Rightarrow> char \<Rightarrow> string list list \<Rightarrow> string" where
  "table_text q a b recs = js_join [b] (map (\<lambda>r. js_join [a] (map (enclose q a b) r)) recs)"

lemma table_text_one: "table_text q a b [[t]] = enclose q a b t"
  by (simp add: table_text_def)

lemma table_text_field:
  assumes "ts \<noteq> []"
  shows "table_text q a b ((t # ts) # recs) = enclose q a b t @ a # table_text q a b (ts # recs)"
  using assms by (cases recs) (simp_all add: table_text_def js_join_Cons)

lemma table_text_record:
  assumes "recs \<noteq> []"
  shows "table_text q a b ([t] # recs) = enclose q a b t @ b # table_text q a b recs"
  using assms by (simp add: table_text_def js_join_Cons)

lemma read_table_back:
  assumes "q \<noteq> a" and "q \<noteq> b" and "a \<noteq> b"
  shows "recs \<noteq> [] \<Longrightarrow> list_all (\<lambda>r. r \<noteq> []) recs \<Longrightarrow> sum_list (map length recs) \<le> n \<Longrightarrow>
    read_table q a b n (table_text q a b recs) = Some recs"
proof (induction n arbitrary: recs)
  case 0
  then show ?case by (cases recs) auto
next
  case (Suc n)
  obtain t ts rs where recs: "recs = (t # ts) # rs"
    using Suc.prems by (cases recs; cases "hd recs") auto
  consider "ts = []" "rs = []" | "ts \<noteq> []" | "ts = []" "rs \<noteq> []" by blast
  then show ?case
  proof cases
    case 1
    then show ?thesis using read_field_back [of "[]" a b q t] assms recs by (simp add: table_text_one)
  next
    case 2
    have "read_table q a b n (table_text q a b (ts # rs)) = Some (ts # rs)"
      using Suc.prems 2 recs by (intro Suc.IH) auto
    then show ?thesis
      using read_field_back [of "a # table_text q a b (ts # rs)" a b q t] assms recs 2
      by (simp add: table_text_field)
  next
    case 3
    have "read_table q a b n (table_text q a b rs) = Some rs"
      using Suc.prems 3 recs by (intro Suc.IH) auto
    then show ?thesis
      using read_field_back [of "b # table_text q a b rs" a b q t] assms recs 3
      by (simp add: table_text_record)
  qed
qed

text \<open>Every cell but the last is followed by a separator or a terminator.\<close>

lemma table_text_length: "recs \<noteq> [] \<Longrightarrow> list_all (\<lambda>r. r \<noteq> []) recs \<Longrightarrow>
    sum_list (map length recs) \<le> Suc (length (table_text q a b recs))"
proof (induction "sum_list (map length recs)" arbitrary: recs rule: less_induct)
  case less
  obtain t ts rs where recs: "recs = (t # ts) # rs"
    using less.prems by (cases recs; cases "hd recs") auto
  consider "ts = []" "rs = []" | "ts \<noteq> []" | "ts = []" "rs \<noteq> []" by blast
  then show ?case
  proof cases
    case 1
    then show ?thesis using recs by simp
  next
    case 2
    then show ?thesis using less(1) [of "ts # rs"] less.prems recs by (simp add: table_text_field)
  next
    case 3
    then show ?thesis using less(1) [of rs] less.prems recs by (simp add: table_text_record)
  qed
qed

lemma delimited_line_text:
  assumes "a \<notin> set nullValue" and "b \<notin> set nullValue" and "q \<notin> set nullValue"
  shows "delimited_line [a] [b] [q] nullValue r = js_join [a] (map (enclose q a b) (map (cell_text nullValue) r))"
  using assms by (simp add: delimited_line_def escapeDelimitedValue_enclose comp_def)

lemma delimited_header_text:
  "delimited_line [a] [b] [q] n (map Str hs) = js_join [a] (map (enclose q a b) hs)"
proof -
  have "escapeDelimitedValue (Str h) [a] [b] [q] n = enclose q a b h" for h
    using escapeDelimitedValue_enclose [of a "[]" b q "Str h"]
    by (simp add: cell_text_def nullish_def escapeDelimitedValue_def)
  then show ?thesis by (simp add: delimited_line_def comp_def)
qed

lemma delimited_reads_back:
  assumes "a \<notin> set nullValue" and "b \<notin> set nullValue" and "q \<notin> set nullValue"
    and "q \<noteq> a" and "q \<noteq> b" and "a \<noteq> b" and "hs \<noteq> []" and "list_all (\<lambda>r. r \<noteq> []) records"
    and "exportDataAsDelimitedText hs records [a] [b] [q] (Some ToFile) nullValue = (content, e)"
  shows "read_table q a b (Suc (length content)) content = Some (hs # map (map (cell_text nullValue)) records)"
proof -
  have content: "content = table_text q a b (hs # map (map (cell_text nullValue)) records)"
    using assms(7,9) ext [OF delimited_line_text [OF assms(1-3)], of "\<lambda>r. r"]
    by (simp add: exportDataAsDelimitedText_def deliver_def table_text_def delimited_header_text comp_def)
  have ne: "list_all (\<lambda>r. r \<noteq> []) (hs # map (map (cell_text nullValue)) records)"
    using assms(7,8) by (auto simp: list_all_iff)
  show ?thesis
    unfolding content using assms(4-6) ne
    by (intro read_table_back table_text_length) simp_all
qed

section \<open>What an export of the grid says\<close>

lemma getOriginalValue_nth:
  assumes "y < length (data s)" and "x < length (headers s)"
  shows "getOriginalValue s (int y) (int x) = obj_at (rwRaw (rows s ! (data s ! y))) (thName (headers s ! x))"
  using assms by (simp add: getOriginalValue_def row_of_def at_index_def header_name_def)

lemma complete_records:
  "map (raw_record (map thName (headers s))) (getAllRows s)
     = map (\<lambda>y. map (\<lambda>x. getOriginalValue s (int y) (int x)) [0..<length (headers s)]) [0..<length (data s)]"
  by (rule nth_equalityI)
     (auto intro!: nth_equalityI simp: getAllRows_def raw_record_def getOriginalValue_nth)



text \<open>Values that hold a large integer.\<close>

function (sequential) has_bigint :: "jsval \<Rightarrow> bool" where
  "has_bigint (BigInt i) = True"
| "has_bigint (JsArray vs) = list_ex has_bigint vs"
| "has_bigint (JsObject kvs) = list_ex (\<lambda>kv. has_bigint (snd kv)) kvs"
| "has_bigint v = False"
  by pat_completeness auto
termination
  by (relation "measure size")
     (auto simp: less_Suc_eq_le size_list_estimation' size_member [unfolded less_Suc_eq_le])

lemma result_list_isl: "isl (result_list rs) \<longleftrightarrow> list_ex isl rs"
  by (induction rs) (auto simp: rbind_def split: sum.splits)

lemma isl_rbind_Inr: "isl (rbind m (\<lambda>x. Inr (f x))) \<longleftrightarrow> isl m"
  by (cases m) auto

lemma list_ex_entries: "list_ex P (obj_entries ob) \<longleftrightarrow> list_ex P ob"
  by (simp add: list_ex_iff)

lemma json_stringify_isl: "isl (json_stringify indent v) \<longleftrightarrow> has_bigint v"
proof (induction indent v rule: json_stringify.induct)
  case (9 indent vs)
  then show ?case by (simp add: isl_rbind_Inr result_list_isl list_ex_iff)
next
  case (10 indent kvs)
  then show ?case by (simp add: isl_rbind_Inr result_list_isl list_ex_iff)
qed simp_all

text \<open>
  The JSON export fails only for large integers inside of arrays and objects: it throws exactly
  when a property of one of the row objects holds one; a large integer that is a cell itself is
  printed as text.
\<close>

theorem json_export_error:
  "(isl (exportRowsToJson hs records target nullValue)
      \<longleftrightarrow> list_ex (\<lambda>r. list_ex (\<lambda>kv. has_bigint (snd kv)) (json_object hs nullValue r)) records)
   \<and> \<not> isl (exportRowsToJson hs (map (map BigInt) cells) target nullValue)"
proof -
  have one: "isl (exportRowsToJson hs records target nullValue)
      \<longleftrightarrow> list_ex (\<lambda>r. list_ex (\<lambda>kv. has_bigint (snd kv)) (json_object hs nullValue r)) records" for records
    by (simp add: exportRowsToJson_def isl_rbind_Inr json_stringify_isl list_ex_iff
        del: json_stringify.simps)
  have fld: "list_all (\<lambda>kv. \<not> has_bigint (snd kv)) ob \<Longrightarrow> list_all (\<lambda>p. \<exists>t. snd p = Str t) ps \<Longrightarrow>
      list_all (\<lambda>kv. \<not> has_bigint (snd kv)) (foldl (\<lambda>ob (h, v). obj_set h (f v) ob) ob ps)"
    if f: "\<And>t. f (Str t) = Str t" for ob :: "jsval obj" and ps f
  proof (induction ps arbitrary: ob)
    case (Cons p ps)
    obtain h t where p: "p = (h, Str t)" using Cons.prems by (cases p) auto
    have "list_all (\<lambda>kv. \<not> has_bigint (snd kv)) (obj_set h (Str t) ob)"
      using Cons.prems(1) by (induction ob) (auto simp: obj_set_def)
    then show ?case using Cons.IH [of "obj_set h (Str t) ob"] Cons.prems p f by simp
  qed simp
  have "list_all (\<lambda>kv. \<not> has_bigint (snd kv)) (json_object hs nullValue (map BigInt r))" for r
    unfolding json_object_def by (rule fld) (auto simp: list_all_iff set_zip)
  then have "\<not> list_ex (\<lambda>r. list_ex (\<lambda>kv. has_bigint (snd kv)) (json_object hs nullValue r)) (map (map BigInt) cells)"
    by (auto simp: list_ex_iff list_all_iff)
  then show ?thesis using one by simp
qed

section \<open>Insertions read back\<close>

fun read_list :: "(string \<Rightarrow> ('a \<times> string) option) \<Rightarrow> nat \<Rightarrow> string \<Rightarrow> ('a list \<times> string) option" where
  "read_list rd 0 s = None"
| "read_list rd (Suc n) s =
     (case rd s of
        None \<Rightarrow> None
      | Some (x, r) \<Rightarrow> if js_starts_with r '', ''
                       then map_option (\<lambda>(xs, r2). (x # xs, r2)) (read_list rd n (drop 2 r))
                       else Some ([x], r))"

lemma read_list_back:
  assumes rd: "\<And>x r. x \<in> set xs \<Longrightarrow> ends r \<Longrightarrow> rd (p x @ r) = Some (f x, r)"
  shows "xs \<noteq> [] \<Longrightarrow> length xs \<le> n \<Longrightarrow>
     read_list rd n (js_join '', '' (map p xs) @ CHR '')'' # rest) = Some (map f xs, CHR '')'' # rest)"
  using rd
proof (induction xs arbitrary: n)
  case (Cons x xs)
  obtain m where n: "n = Suc m" using Cons.prems(2) by (cases n) auto
  show ?case
  proof (cases xs)
    case Nil
    then show ?thesis using Cons.prems(3) n by simp
  next
    case (Cons y ys)
    let ?tail = "js_join '', '' (map p xs) @ CHR '')'' # rest"
    have "read_list rd m ?tail = Some (map f xs, CHR '')'' # rest)"
      using Cons.IH [of m] Cons.prems Cons n by simp
    moreover have "rd (p x @ '', '' @ ?tail) = Some (f x, '', '' @ ?tail)"
      by (rule Cons.prems(3)) simp_all
    ultimately show ?thesis using Cons n by simp
  qed
qed simp

definition read_tuples ::
  "char \<Rightarrow> string \<Rightarrow> (string list \<times> literal list \<times> string) option" where
  "read_tuples mark s =
     Option.bind (skip ''('' s) (\<lambda>r.
       Option.bind (read_list (read_quoted mark) (length r) r) (\<lambda>(ks, r1).
         Option.bind (skip '') VALUES('' r1) (\<lambda>r2.
           Option.bind (read_list read_literal (length r2) r2) (\<lambda>(ls, r3).
             map_option (\<lambda>r4. (ks, ls, r4)) (skip '')'' r3)))))"

definition read_insert ::
  "char \<Rightarrow> string \<Rightarrow> ((string \<times> string) \<times> string list \<times> literal list \<times> string) option" where
  "read_insert mark s =
     Option.bind (skip ''INSERT INTO '' s) (\<lambda>r.
       Option.bind (read_name mark r) (\<lambda>(n, r1).
         Option.bind (skip '' '' r1) (\<lambda>r2.
           map_option (\<lambda>(ks, ls, r3). (n, ks, ls, r3)) (read_tuples mark r2))))"

lemma join_length:
  "(\<And>x. x \<in> set xs \<Longrightarrow> p x \<noteq> []) \<Longrightarrow> length xs \<le> length (js_join sep (map p xs))"
proof (induction xs)
  case (Cons x xs)
  have "Suc 0 \<le> length (p x)" using Cons.prems [of x] by (cases "p x") simp_all
  with Cons show ?case by (cases xs) auto
qed simp

context row_dialect
begin

lemma escapeId_not_Nil: "dEscapeId d k \<noteq> []"
  using id_read_back [of "[]" k] by (auto simp: read_quoted_def)

lemma escapeValue_not_Nil: "sql_value v \<Longrightarrow> escapeValue v \<noteq> []"
proof -
  assume "sql_value v"
  then have "read_literal (escapeValue v @ []) = Some (value_literal v, [])"
    by (intro read_value) simp_all
  moreover have "read_literal [] = None" by (simp add: read_literal_def)
  ultimately show ?thesis by auto
qed

lemma read_tuples_back:
  assumes "ks \<noteq> []" and "vs \<noteq> []" and "list_all sql_value vs" and "mark \<noteq> quote1"
  shows "read_tuples mark (''('' @ js_join '', '' (map (dEscapeId d) ks) @ '') VALUES(''
        @ js_join '', '' (map escapeValue vs) @ '')'' @ rest) = Some (ks, map value_literal vs, rest)"
proof -
  let ?vals = "js_join '', '' (map escapeValue vs) @ CHR '')'' # rest"
  let ?ids = "js_join '', '' (map (dEscapeId d) ks) @ CHR '')'' # '' VALUES('' @ ?vals"
  have ids: "read_list (read_quoted mark) (length ?ids) ?ids = Some (map (\<lambda>k. k) ks, CHR '')'' # '' VALUES('' @ ?vals)"
    using assms(1) join_length [of ks "dEscapeId d" "'', ''"]
    by (intro read_list_back id_read_back ends_closes_mark assms(4)) (simp_all add: escapeId_not_Nil)
  have vals: "read_list read_literal (length ?vals) ?vals = Some (map value_literal vs, CHR '')'' # rest)"
    using assms(2,3) join_length [of vs escapeValue "'', ''"]
    by (intro read_list_back read_value) (auto simp: list_all_iff escapeValue_not_Nil)
  have "skip ''('' (''('' @ ?ids) = Some ?ids" "skip '') VALUES('' ('') VALUES('' @ ?vals) = Some ?vals"
    "skip '')'' ('')'' @ rest) = Some rest"
    by (rule skip_append)+
  then show ?thesis using ids vals by (simp add: read_tuples_def)
qed

lemma read_insert_back:
  assumes "list_all (\<lambda>(k, v). sql_value v) v" and "v \<noteq> []" and "mark \<noteq> quote1"
  shows "read_insert mark (insertInto d schema t v ret rowid)
     = Some ((schema, t), map fst (obj_entries v), map (\<lambda>kv. value_literal (snd kv)) (obj_entries v),
         CHR '' '' # returning ret rowid)"
proof -
  let ?e = "obj_entries v"
  have vs: "list_all sql_value (map snd ?e)" using assms(1) by (auto simp: list_all_iff)
  have eq: "insertInto d schema t v ret rowid = ''INSERT INTO '' @ qualifiedName d schema t @ '' ''
      @ ''('' @ js_join '', '' (map (dEscapeId d) (map fst ?e)) @ '') VALUES(''
      @ js_join '', '' (map escapeValue (map snd ?e)) @ '')'' @ CHR '' '' # returning ret rowid"
    by (simp add: insertInto_def generateInsertValue_def value_text comp_def case_prod_beta')
  have "read_name mark (qualifiedName d schema t @ CHR '' '' # r) = Some ((schema, t), CHR '' '' # r)" for r
    by (rule read_name_back) simp
  moreover have "skip ''INSERT INTO '' (''INSERT INTO '' @ r) = Some r" "skip '' '' ('' '' @ r) = Some r" for r
    by (rule skip_append)+
  ultimately show ?thesis
    unfolding eq using read_tuples_back [OF _ _ vs assms(3), of "map fst ?e"] assms(2)
    by (simp add: read_insert_def comp_def)
qed

end



text \<open>
  Every line of an SQL export is one insertion that reads back to the table's name, the
  columns and the literals of the row, and nothing follows it but the semicolon.
\<close>

theorem sql_export_reads_back:
  assumes "hs \<noteq> []" and "record \<noteq> []" and "list_all sql_value record"
  shows "Option.bind (skip ''INSERT INTO '' (insert_line tableName hs ''NULL'' record)) (\<lambda>r.
      map_option (\<lambda>(t, r1). (t, read_tuples (CHR 0x22) r1)) (read_quoted (CHR 0x22) r))
     = Some (tableName, Some (hs, map value_literal record, '';''))"
proof -
  let ?r = "''('' @ js_join '', '' (map escapeIdentity hs) @ '') VALUES('' @ js_join '', '' (map escapeValue record) @ '');''"
  have "insert_line tableName hs ''NULL'' record = ''INSERT INTO '' @ escapeIdentity tableName @ ?r"
    by (simp add: insert_line_def escapeValue_def [abs_def])
  moreover have "read_quoted (CHR 0x22) (escapeIdentity tableName @ ?r) = Some (tableName, ?r)"
    by (rule sqlite_id.read_back) simp
  moreover have "skip ''INSERT INTO '' (''INSERT INTO '' @ r) = Some r" for r by (rule skip_append)
  moreover have "read_tuples (CHR 0x22) ?r = Some (hs, map value_literal record, '';'')"
    using sqlite_rows.read_tuples_back [OF assms, of "'';''"]
    by (simp add: sqlite_dialect_def quote1_char)
  ultimately show ?thesis by simp
qed

theorem sql_export_reads_back_witness:
  "Option.bind (skip ''INSERT INTO '' (insert_line ''t'' [''a'', ''b''] ''NULL'' [Str ''it, is'', Undefined])) (\<lambda>r.
      map_option (\<lambda>(t, r1). (t, read_tuples (CHR 0x22) r1)) (read_quoted (CHR 0x22) r))
     = Some (''t'', Some ([''a'', ''b''], [LitString ''it, is'', LitWord ''DEFAULT''], '';''))"
proof -
  have "value_literal Undefined = LitWord ''DEFAULT''" by code_simp
  then show ?thesis
    using sql_export_reads_back [of "[''a'', ''b'']" "[Str ''it, is'', Undefined]" "''t''"] by simp
qed

text \<open>A quoted name in the query is taken with its quotation marks and in lower case.\<close>

lemma quoted_table_name: "getSingleTableName ''SELECT * FROM \"Users\"'' = Some ''\"users\"''"
  by code_simp

end
