(* ===== verification/GridFacts.thy ===== *)
theory GridFacts
  imports GridState
begin

text \<open>
  Properties of the editable grid: the change log and the pending changes agree in every
  reachable state, an edit changes one cell, discarding restores the original table, and what
  the debounced notification does and does not deliver.
\<close>

section \<open>What notifications leave alone\<close>

lemma call_listeners_fields [simp]:
  "rows (call_listeners s) = rows s" "data (call_listeners s) = data s"
  "headers (call_listeners s) = headers s" "changeLogs (call_listeners s) = changeLogs s"
  "changeCounter (call_listeners s) = changeCounter s" "readOnlyMode (call_listeners s) = readOnlyMode s"
  "focusAt (call_listeners s) = focusAt s" "changeDebounceTimerId (call_listeners s) = changeDebounceTimerId s"
  "timers (call_listeners s) = timers s" "selectionRanges (call_listeners s) = selectionRanges s"
  by (simp_all add: call_listeners_def)

lemma clear_timeout_fields [simp]:
  "rows (clear_timeout t s) = rows s" "data (clear_timeout t s) = data s"
  "headers (clear_timeout t s) = headers s" "changeLogs (clear_timeout t s) = changeLogs s"
  "changeCounter (clear_timeout t s) = changeCounter s" "readOnlyMode (clear_timeout t s) = readOnlyMode s"
  "focusAt (clear_timeout t s) = focusAt s" "selectionRanges (clear_timeout t s) = selectionRanges s"
  "changeDebounceTimerId (clear_timeout t s) = changeDebounceTimerId s"
  "changeCallback (clear_timeout t s) = changeCallback s" "trace (clear_timeout t s) = trace s"
  by (simp_all add: clear_timeout_def split: option.split)

lemma broadcast_fields [simp]:
  "rows (broadcastChange i s) = rows s" "data (broadcastChange i s) = data s"
  "headers (broadcastChange i s) = headers s" "changeLogs (broadcastChange i s) = changeLogs s"
  "changeCounter (broadcastChange i s) = changeCounter s" "readOnlyMode (broadcastChange i s) = readOnlyMode s"
  "focusAt (broadcastChange i s) = focusAt s" "selectionRanges (broadcastChange i s) = selectionRanges s"
  by (simp_all add: broadcastChange_def Let_def)

lemma set_row_fields [simp]:
  "rows (set_row r row s) = (rows s)[r := row]" "data (set_row r row s) = data s"
  "headers (set_row r row s) = headers s" "changeLogs (set_row r row s) = changeLogs s"
  "changeCounter (set_row r row s) = changeCounter s" "readOnlyMode (set_row r row s) = readOnlyMode s"
  "changeDebounceTimerId (set_row r row s) = changeDebounceTimerId s"
  "timers (set_row r row s) = timers s" "trace (set_row r row s) = trace s"
  "changeCallback (set_row r row s) = changeCallback s"
  by (simp_all add: set_row_def)

lemma scroll_fields [simp]:
  "rows (scrollToCell h v y x s) = rows s" "data (scrollToCell h v y x s) = data s"
  "headers (scrollToCell h v y x s) = headers s" "changeLogs (scrollToCell h v y x s) = changeLogs s"
  "changeCounter (scrollToCell h v y x s) = changeCounter s" "focusAt (scrollToCell h v y x s) = focusAt s"
  by (simp_all add: scrollToCell_def Let_def split: option.split)

lemma focus_container_fields [simp]:
  "rows (focus_container s) = rows s" "data (focus_container s) = data s"
  "headers (focus_container s) = headers s" "changeLogs (focus_container s) = changeLogs s"
  "changeCounter (focus_container s) = changeCounter s" "focusAt (focus_container s) = focusAt s"
  by (simp_all add: focus_container_def)

lemma setFocus_fields [simp]:
  "rows (setFocus y x s) = rows s" "data (setFocus y x s) = data s"
  "headers (setFocus y x s) = headers s" "changeLogs (setFocus y x s) = changeLogs s"
  "changeCounter (setFocus y x s) = changeCounter s" "focusAt (setFocus y x s) = Some (y, x)"
  by (simp_all add: setFocus_def clearLastMove_def)

lemma selectCell_fields [simp]:
  "rows (selectCell y x b s) = rows s" "data (selectCell y x b s) = data s"
  "headers (selectCell y x b s) = headers s" "changeLogs (selectCell y x b s) = changeLogs s"
  "changeCounter (selectCell y x b s) = changeCounter s"
  by (simp_all add: selectCell_def Let_def)

section \<open>The change log\<close>

definition pending :: "OptimizeTableRowValue \<Rightarrow> bool" where
  "pending row = (rwChange row \<noteq> None \<or> rwChangeKey row \<noteq> None)"

text \<open>
  The rows, the array and the log agree: the array names existing rows, each once; the log
  names rows of the array under their own key, by ascending keys that the counter has reached;
  every row with a change or a key is in the log.
\<close>

definition tracked ::
  "OptimizeTableRowValue list \<Rightarrow> nat list \<Rightarrow> (nat \<times> nat) list \<Rightarrow> nat \<Rightarrow> bool" where
  "tracked heap ds ls n =
     (distinct ds \<and> (\<forall>r \<in> set ds. r < length heap) \<and> sorted_wrt (<) (map fst ls)
      \<and> (\<forall>(k, r) \<in> set ls. 0 < k \<and> k \<le> n \<and> r \<in> set ds \<and> rwChangeKey (heap ! r) = Some k
            \<and> rwChange (heap ! r) \<noteq> None)
      \<and> (\<forall>r \<in> set ds. pending (heap ! r) \<longrightarrow> (\<exists>k. (k, r) \<in> set ls)))"

definition grid_ok :: "OptimizeTableState \<Rightarrow> bool" where
  "grid_ok s = tracked (rows s) (data s) (changeLogs s) (changeCounter s)"

lemma trackedD:
  assumes "tracked heap ds ls n"
  shows "distinct ds" "r \<in> set ds \<Longrightarrow> r < length heap" "sorted_wrt (<) (map fst ls)"
    "(k, r) \<in> set ls \<Longrightarrow> 0 < k \<and> k \<le> n \<and> r \<in> set ds \<and> rwChangeKey (heap ! r) = Some k
        \<and> rwChange (heap ! r) \<noteq> None"
    "r \<in> set ds \<Longrightarrow> pending (heap ! r) \<Longrightarrow> \<exists>k. (k, r) \<in> set ls"
  using assms unfolding tracked_def by (blast+)

lemma log_put_fresh: "\<forall>(k', r) \<in> set ls. k' < k \<Longrightarrow> log_put k r0 ls = ls @ [(k, r0)]"
  unfolding log_put_def by (induction ls) auto

lemma sorted_log_del: "sorted_wrt (<) (map fst ls) \<Longrightarrow> sorted_wrt (<) (map fst (log_del k ls))"
  unfolding log_del_def by (induction ls) auto

lemma set_log_del: "set (log_del k ls) = {p \<in> set ls. fst p \<noteq> k}"
  by (auto simp: log_del_def)

lemma tracked_new:
  assumes "tracked heap ds ls n" and "r \<in> set ds" and "\<not> pending (heap ! r)"
    and "rwChange row \<noteq> None" and "rwChangeKey row = Some (Suc n)"
  shows "tracked (heap[r := row]) ds (log_put (Suc n) r ls) (Suc n)"
proof -
  note t = trackedD [OF assms(1)]
  have fresh: "log_put (Suc n) r ls = ls @ [(Suc n, r)]"
    using t(4) by (intro log_put_fresh) fastforce
  have other: "r' \<noteq> r" if "(k, r') \<in> set ls" for k r'
    using t(4) [OF that] assms(3) by (auto simp: pending_def)
  show ?thesis
    unfolding tracked_def fresh
  proof (intro conjI ballI)
    show "distinct ds" by (rule t(1))
    show "\<And>x. x \<in> set ds \<Longrightarrow> x < length (heap[r := row])" using t(2) by simp
    show "sorted_wrt (<) (map fst (ls @ [(Suc n, r)]))"
      using t(3,4) by (fastforce simp: sorted_wrt_append less_Suc_eq_le)
    fix p assume p: "p \<in> set (ls @ [(Suc n, r)])"
    obtain k' r' where pr: "p = (k', r')" by (cases p)
    consider "(k', r') \<in> set ls" "r' \<noteq> r" | "k' = Suc n" "r' = r" using p pr other by auto
    then show "case p of (k, r') \<Rightarrow> 0 < k \<and> k \<le> Suc n \<and> r' \<in> set ds
        \<and> rwChangeKey (heap[r := row] ! r') = Some k \<and> rwChange (heap[r := row] ! r') \<noteq> None"
      using t(2) [OF assms(2)] t(4) [of k' r'] assms(2,4,5) pr by cases auto
  next
    fix r' assume "r' \<in> set ds"
    then show "pending (heap[r := row] ! r') \<longrightarrow> (\<exists>k. (k, r') \<in> set (ls @ [(Suc n, r)]))"
      using t(5) [of r'] by (cases "r' = r") auto
  qed
qed

lemma tracked_keep:
  assumes "tracked heap ds ls n" and "r \<in> set ds" and "(k, r) \<in> set ls"
    and "rwChange row \<noteq> None" and "rwChangeKey row = Some k"
  shows "tracked (heap[r := row]) ds ls n"
proof -
  note t = trackedD [OF assms(1)]
  have r: "r < length heap" using t(2) assms(2) .
  have "rwChangeKey (heap ! r) = Some k" using t(4) [OF assms(3)] by simp
  then have same: "k' = k" if "(k', r) \<in> set ls" for k'
    using t(4) [OF that] by simp
  show ?thesis
    unfolding tracked_def
  proof (intro conjI ballI)
    show "distinct ds" "sorted_wrt (<) (map fst ls)" by (rule t)+
    show "\<And>x. x \<in> set ds \<Longrightarrow> x < length (heap[r := row])" using t(2) by simp
    fix p assume p: "p \<in> set ls"
    obtain k' r' where pr: "p = (k', r')" by (cases p)
    show "case p of (k, r') \<Rightarrow> 0 < k \<and> k \<le> n \<and> r' \<in> set ds
        \<and> rwChangeKey (heap[r := row] ! r') = Some k \<and> rwChange (heap[r := row] ! r') \<noteq> None"
      using t(4) [of k' r'] p pr assms(4,5) same r by (cases "r' = r") auto
  next
    fix r' assume "r' \<in> set ds"
    then show "pending (heap[r := row] ! r') \<longrightarrow> (\<exists>k. (k, r') \<in> set ls)"
      using t(5) [of r'] assms(3) by (cases "r' = r") auto
  qed
qed

lemma tracked_clear:
  assumes "tracked heap ds ls n" and "(k, r) \<in> set ls" and "\<not> pending row"
  shows "tracked (heap[r := row]) ds (log_del k ls) n"
proof -
  note t = trackedD [OF assms(1)]
  have k: "rwChangeKey (heap ! r) = Some k" using t(4) [OF assms(2)] by simp
  have other: "r' \<noteq> r \<and> (k', r') \<in> set ls" if "(k', r') \<in> set (log_del k ls)" for k' r'
    using that t(4) [of k' r'] k by (auto simp: set_log_del)
  show ?thesis
    unfolding tracked_def
  proof (intro conjI ballI)
    show "distinct ds" by (rule t(1))
    show "sorted_wrt (<) (map fst (log_del k ls))" by (rule sorted_log_del [OF t(3)])
    show "\<And>x. x \<in> set ds \<Longrightarrow> x < length (heap[r := row])" using t(2) by simp
    fix p assume p: "p \<in> set (log_del k ls)"
    obtain k' r' where pr: "p = (k', r')" by (cases p)
    with other [of k' r'] p t(4) [of k' r'] show "case p of (k, r') \<Rightarrow> 0 < k \<and> k \<le> n \<and> r' \<in> set ds
        \<and> rwChangeKey (heap[r := row] ! r') = Some k \<and> rwChange (heap[r := row] ! r') \<noteq> None"
      by auto
  next
    fix r' assume r': "r' \<in> set ds"
    show "pending (heap[r := row] ! r') \<longrightarrow> (\<exists>k'. (k', r') \<in> set (log_del k ls))"
    proof (cases "r' = r")
      case True
      then show ?thesis using assms(3) t(2) [OF r'] by simp
    next
      case False
      show ?thesis
      proof
        assume "pending (heap[r := row] ! r')"
        with False t(5) [OF r'] obtain k' where k': "(k', r') \<in> set ls" by auto
        have "k' \<noteq> k"
        proof
          assume "k' = k"
          with k' assms(2) t(3) have "r' = r"
            by (metis distinct_map eq_key_imp_eq_value strict_sorted_iff)
          with False show False by simp
        qed
        with k' show "\<exists>k'. (k', r') \<in> set (log_del k ls)" by (auto simp: set_log_del)
      qed
    qed
  qed
qed

lemma tracked_none:
  assumes "distinct ds" and "\<And>r. r \<in> set ds \<Longrightarrow> r < length heap \<and> \<not> pending (heap ! r)"
  shows "tracked heap ds [] n"
  using assms by (simp add: tracked_def)

lemma tracked_remove:
  assumes "tracked heap ds ls n" and "(k, r) \<in> set ls"
  shows "tracked heap (filter (\<lambda>d. d \<noteq> r) ds) (log_del k ls) n"
proof -
  note t = trackedD [OF assms(1)]
  have k: "rwChangeKey (heap ! r) = Some k" using t(4) [OF assms(2)] by simp
  have other: "r' \<noteq> r \<and> (k', r') \<in> set ls" if "(k', r') \<in> set (log_del k ls)" for k' r'
    using that t(4) [of k' r'] k by (auto simp: set_log_del)
  have keep: "(k', r') \<in> set (log_del k ls)" if "(k', r') \<in> set ls" "r' \<noteq> r" for k' r'
    using that assms(2) t(3)
    by (auto simp: set_log_del) (metis distinct_map eq_key_imp_eq_value strict_sorted_iff)
  show ?thesis
    unfolding tracked_def
  proof (intro conjI ballI)
    show "distinct (filter (\<lambda>d. d \<noteq> r) ds)" using t(1) by simp
    show "sorted_wrt (<) (map fst (log_del k ls))" by (rule sorted_log_del [OF t(3)])
    show "\<And>x. x \<in> set (filter (\<lambda>d. d \<noteq> r) ds) \<Longrightarrow> x < length heap" using t(2) by simp
    fix p assume p: "p \<in> set (log_del k ls)"
    obtain k' r' where pr: "p = (k', r')" by (cases p)
    with other [of k' r'] p t(4) [of k' r'] show "case p of (k, r') \<Rightarrow> 0 < k \<and> k \<le> n
        \<and> r' \<in> set (filter (\<lambda>d. d \<noteq> r) ds)
        \<and> rwChangeKey (heap ! r') = Some k \<and> rwChange (heap ! r') \<noteq> None"
      by auto
  next
    fix r' assume "r' \<in> set (filter (\<lambda>d. d \<noteq> r) ds)"
    then show "pending (heap ! r') \<longrightarrow> (\<exists>k'. (k', r') \<in> set (log_del k ls))"
      using t(5) [of r'] keep [of _ r'] by auto
  qed
qed

lemma tracked_insert:
  assumes "tracked heap ds ls n" and "rwChange row \<noteq> None" and "rwChangeKey row = Some (Suc n)"
  shows "tracked (heap @ [row]) (take i ds @ length heap # drop i ds) (log_put (Suc n) (length heap) ls) (Suc n)"
proof -
  note t = trackedD [OF assms(1)]
  have fresh: "log_put (Suc n) (length heap) ls = ls @ [(Suc n, length heap)]"
    using t(4) by (intro log_put_fresh) fastforce
  have sd: "set (take i ds @ length heap # drop i ds) = insert (length heap) (set ds)"
    by (metis append_take_drop_id list.simps(15) set_append Un_insert_right)
  have parts: "distinct (take i ds) \<and> distinct (drop i ds) \<and> set (take i ds) \<inter> set (drop i ds) = {}"
    using t(1) by (metis append_take_drop_id distinct_append)
  have "length heap \<notin> set (take i ds)" "length heap \<notin> set (drop i ds)"
    using t(2) by (blast dest: in_set_takeD in_set_dropD)+
  with parts have dist: "distinct (take i ds @ length heap # drop i ds)" by simp
  have old: "(heap @ [row]) ! r = heap ! r" if "r \<in> set ds" for r
    using t(2) [OF that] by (simp add: nth_append)
  show ?thesis
    unfolding tracked_def fresh sd
  proof (intro conjI ballI)
    show "distinct (take i ds @ length heap # drop i ds)" by (rule dist)
    show "x < length (heap @ [row])" if "x \<in> insert (length heap) (set ds)" for x
      using that t(2) [of x] by auto
    show "sorted_wrt (<) (map fst (ls @ [(Suc n, length heap)]))"
      using t(3,4) by (fastforce simp: sorted_wrt_append less_Suc_eq_le)
    fix p assume p: "p \<in> set (ls @ [(Suc n, length heap)])"
    obtain k' r' where pr: "p = (k', r')" by (cases p)
    consider "(k', r') \<in> set ls" | "k' = Suc n" "r' = length heap" using p pr by auto
    then show "case p of (k, r') \<Rightarrow> 0 < k \<and> k \<le> Suc n \<and> r' \<in> insert (length heap) (set ds)
        \<and> rwChangeKey ((heap @ [row]) ! r') = Some k \<and> rwChange ((heap @ [row]) ! r') \<noteq> None"
    proof cases
      case 1
      then show ?thesis using t(4) [OF 1] old [of r'] pr by auto
    qed (use assms pr in auto)
  next
    fix r' assume "r' \<in> insert (length heap) (set ds)"
    then show "pending ((heap @ [row]) ! r') \<longrightarrow> (\<exists>k. (k, r') \<in> set (ls @ [(Suc n, length heap)]))"
      using t(5) [of r'] old [of r'] by auto
  qed
qed

lemma update_rows_nth:
  "distinct rs \<Longrightarrow> r < length heap \<Longrightarrow>
   foldl (\<lambda>heap r. heap[r := f r (heap ! r)]) heap rs ! r = (if r \<in> set rs then f r (heap ! r) else heap ! r)"
proof (induction rs arbitrary: heap)
  case (Cons q rs)
  then show ?case by (cases "r = q") auto
qed simp

lemma update_rows_length: "length (foldl (\<lambda>heap r. heap[r := f r (heap ! r)]) heap rs) = length heap"
  by (induction rs arbitrary: heap) auto

lemma logged_rows:
  assumes "grid_ok s"
  shows "distinct (getChangedRows s)" "set (getChangedRows s) = {r \<in> set (data s). pending (rows s ! r)}"
proof -
  note t = trackedD [OF assms [unfolded grid_ok_def]]
  have inj: "inj_on snd (set (changeLogs s))"
  proof (rule inj_onI)
    fix p q assume "p \<in> set (changeLogs s)" "q \<in> set (changeLogs s)" "snd p = snd q"
    then show "p = q" using t(4) [of "fst p" "snd p"] t(4) [of "fst q" "snd q"]
      by (cases p; cases q) auto
  qed
  have "distinct (changeLogs s)" using t(3) by (auto simp: strict_sorted_iff distinct_map)
  with inj show "distinct (getChangedRows s)" by (simp add: getChangedRows_def distinct_map)
  show "set (getChangedRows s) = {r \<in> set (data s). pending (rows s ! r)}"
    unfolding getChangedRows_def
  proof (intro equalityI subsetI)
    fix r assume "r \<in> set (map snd (changeLogs s))"
    then obtain k where "(k, r) \<in> set (changeLogs s)" by auto
    with t(4) [OF this] show "r \<in> {r \<in> set (data s). pending (rows s ! r)}" by (auto simp: pending_def)
  qed (use t(5) in \<open>force\<close>)
qed

lemma updated_rows_ok:
  assumes "grid_ok s" and "\<And>r row. \<not> pending (f r row)" and "set ds \<subseteq> set (data s)" and "distinct ds"
  shows "tracked (rows (update_rows f (getChangedRows s) s)) ds [] n"
proof (rule tracked_none [OF assms(4)])
  fix r assume "r \<in> set ds"
  then have r: "r \<in> set (data s)" "r < length (rows s)"
    using assms(3) trackedD(2) [OF assms(1) [unfolded grid_ok_def]] by auto
  then show "r < length (rows (update_rows f (getChangedRows s) s))
      \<and> \<not> pending (rows (update_rows f (getChangedRows s) s) ! r)"
    using assms(2) logged_rows [OF assms(1)]
    by (simp add: update_rows_def update_rows_length update_rows_nth)
qed

section \<open>Every operation keeps them\<close>

lemma grid_ok_cong:
  "rows t = rows s \<Longrightarrow> data t = data s \<Longrightarrow> changeLogs t = changeLogs s \<Longrightarrow>
   changeCounter t = changeCounter s \<Longrightarrow> grid_ok s \<Longrightarrow> grid_ok t"
  by (simp add: grid_ok_def)

lemma new_ok: "grid_ok (newTableState hs rs)"
  unfolding grid_ok_def newTableState_def by (simp, rule tracked_none) (simp_all add: pending_def raw_row_def)

lemma at_index_set: "at_index xs i = Some x \<Longrightarrow> x \<in> set xs"
  by (auto simp: at_index_def split: if_splits)

lemma tracked_key: "tracked heap ds ls n \<Longrightarrow> r \<in> set ds \<Longrightarrow> pending (heap ! r) \<Longrightarrow>
    \<exists>k. rwChangeKey (heap ! r) = Some k \<and> k \<noteq> 0 \<and> (k, r) \<in> set ls \<and> rwChange (heap ! r) \<noteq> None"
  using trackedD(4,5) [of heap ds ls n] by (metis less_nat_zero_code)

lemma revert_ok: "grid_ok s \<Longrightarrow> r \<in> set (data s) \<Longrightarrow> grid_ok (revert_cell r h s)"
proof -
  assume ok: "grid_ok s" and r: "r \<in> set (data s)"
  show ?thesis
  proof (cases "rwChange (rows s ! r)")
    case None
    then show ?thesis using ok by (simp add: revert_cell_def)
  next
    case (Some c)
    then have "pending (rows s ! r)" by (simp add: pending_def)
    from tracked_key [OF ok [unfolded grid_ok_def] r this] obtain k
      where k: "rwChangeKey (rows s ! r) = Some k" "k \<noteq> 0" "(k, r) \<in> set (changeLogs s)" by blast
    then have "has_key (rows s ! r)" by (simp add: has_key_def)
    then show ?thesis
      using Some k ok tracked_clear [OF ok [unfolded grid_ok_def] k(3)]
        tracked_keep [OF ok [unfolded grid_ok_def] r k(3)]
      by (simp add: revert_cell_def Let_def grid_ok_def pending_def)
  qed
qed

lemma write_ok: "grid_ok s \<Longrightarrow> r \<in> set (data s) \<Longrightarrow> grid_ok (write_cell r h v s)"
proof -
  assume ok: "grid_ok s" and r: "r \<in> set (data s)"
  show ?thesis
  proof (cases "rwChange (rows s ! r)")
    case None
    then have "\<not> pending (rows s ! r)"
      using tracked_key [OF ok [unfolded grid_ok_def] r] by auto
    then show ?thesis
      using None tracked_new [OF ok [unfolded grid_ok_def] r] by (simp add: write_cell_def Let_def grid_ok_def)
  next
    case (Some c)
    then have "pending (rows s ! r)" by (simp add: pending_def)
    from tracked_key [OF ok [unfolded grid_ok_def] r this] obtain k
      where k: "rwChangeKey (rows s ! r) = Some k" "(k, r) \<in> set (changeLogs s)" by blast
    then show ?thesis
      using Some tracked_keep [OF ok [unfolded grid_ok_def] r k(2)]
      by (simp add: write_cell_def Let_def grid_ok_def)
  qed
qed

lemma broadcast_ok [simp]: "grid_ok (broadcastChange i s) = grid_ok s"
  by (simp add: grid_ok_def)

lemma changeValue_ok: "grid_ok s \<Longrightarrow> grid_ok (changeValue eq y x v s)"
  by (auto simp: changeValue_def revert_ok write_ok dest!: at_index_set split: option.split)

lemma discard_ok: "grid_ok s \<Longrightarrow> grid_ok (discardAllChange s)"
  unfolding discardAllChange_def Let_def broadcast_ok
  using updated_rows_ok [of s "\<lambda>r. discard_row"] trackedD(1) [of "rows s" "data s" "changeLogs s" "changeCounter s"]
  by (simp add: grid_ok_def discard_row_def pending_def update_rows_def)

lemma apply_ok: "grid_ok s \<Longrightarrow> grid_ok (applyChanges us s)"
proof -
  assume ok: "grid_ok s"
  have np: "\<not> pending (apply_row u row)" for u row by (simp add: apply_row_def raw_row_def pending_def)
  have "distinct (data s)" using trackedD(1) ok by (simp add: grid_ok_def)
  then show ?thesis
    unfolding applyChanges_def Let_def broadcast_ok
    using updated_rows_ok [OF ok, of "\<lambda>r. apply_row (case map_of us r of None \<Rightarrow> [] | Some u \<Rightarrow> u)"] np
    by (simp add: grid_ok_def update_rows_def)
qed

lemma insert_ok: "grid_ok s \<Longrightarrow> grid_ok (insertNewRow i v s)"
  using tracked_insert [of "rows s" "data s" "changeLogs s" "changeCounter s"]
  by (simp add: insertNewRow_def Let_def grid_ok_def)

lemma remove_ok: "grid_ok s \<Longrightarrow> grid_ok (removeRow i s)"
proof -
  assume ok: "grid_ok s"
  note t = ok [unfolded grid_ok_def]
  show ?thesis
  proof (cases "at_index (data s) (focus_index i s)")
    case None
    then show ?thesis using ok by (simp add: removeRow_def)
  next
    case (Some r)
    then have r: "r \<in> set (data s)" by (rule at_index_set)
    show ?thesis
    proof (cases "pending (rows s ! r)")
      case True
      from tracked_key [OF t r True] obtain k
        where k: "rwChangeKey (rows s ! r) = Some k" "k \<noteq> 0" "(k, r) \<in> set (changeLogs s)"
          "rwChange (rows s ! r) \<noteq> None" by blast
      then show ?thesis
        using Some tracked_remove [OF t k(3)] tracked_keep [OF t r k(3)]
        by (simp add: removeRow_def Let_def has_key_def grid_ok_def)
    next
      case False
      then show ?thesis
        using Some tracked_new [OF t r False]
        by (simp add: removeRow_def Let_def has_key_def pending_def grid_ok_def)
    qed
  qed
qed

text \<open>The operations of the user, of the program that commits, and of the event loop.\<close>

datatype GridOp =
    GoChange int int jsval
  | GoDiscard
  | GoApply "(nat \<times> jsval obj) list"
  | GoInsert int "jsval obj"
  | GoRemove int
  | GoFocus int int
  | GoSelect "TableSelectionRange list"
  | GoTimer nat
  | GoReadOnly bool
  | GoListen nat
  | GoUnlisten nat

fun run_op :: "(jsval \<Rightarrow> jsval \<Rightarrow> bool) \<Rightarrow> GridOp \<Rightarrow> OptimizeTableState \<Rightarrow> OptimizeTableState" where
  "run_op eq (GoChange y x v) s = changeValue eq y x v s"
| "run_op eq GoDiscard s = discardAllChange s"
| "run_op eq (GoApply us) s = applyChanges us s"
| "run_op eq (GoInsert i v) s = insertNewRow i v s"
| "run_op eq (GoRemove i) s = removeRow i s"
| "run_op eq (GoFocus y x) s = setFocus y x s"
| "run_op eq (GoSelect rs) s = setSelectionRanges rs s"
| "run_op eq (GoTimer t) s = fire_timer t s"
| "run_op eq (GoReadOnly b) s = setReadOnlyMode b s"
| "run_op eq (GoListen cb) s = addChangeListener cb s"
| "run_op eq (GoUnlisten cb) s = removeChangeListener cb s"

inductive grid_reachable :: "(jsval \<Rightarrow> jsval \<Rightarrow> bool) \<Rightarrow> OptimizeTableState \<Rightarrow> bool" for eq where
  fresh: "grid_reachable eq (newTableState hs rs)"
| step: "grid_reachable eq s \<Longrightarrow> grid_reachable eq (run_op eq op s)"

lemma fire_timer_fields [simp]:
  "rows (fire_timer t s) = rows s" "data (fire_timer t s) = data s"
  "changeLogs (fire_timer t s) = changeLogs s" "changeCounter (fire_timer t s) = changeCounter s"
  by (simp_all add: fire_timer_def)

lemma run_op_ok: "grid_ok s \<Longrightarrow> grid_ok (run_op eq op s)"
  by (cases op)
     (auto simp: changeValue_ok discard_ok apply_ok insert_ok remove_ok setSelectionRanges_def
        setReadOnlyMode_def addChangeListener_def removeChangeListener_def elim!: grid_ok_cong [rotated 4])

lemma reachable_ok: "grid_reachable eq s \<Longrightarrow> grid_ok s"
  by (induction rule: grid_reachable.induct) (simp_all add: new_ok run_op_ok)

lemma pending_change: "grid_ok s \<Longrightarrow> r \<in> set (data s) \<Longrightarrow> pending (rows s ! r) \<longleftrightarrow> rwChange (rows s ! r) \<noteq> None"
  using tracked_key [of "rows s" "data s" "changeLogs s" "changeCounter s" r]
  by (auto simp: grid_ok_def pending_def)

section \<open>Properties of the change log\<close>

definition example_header :: "string \<Rightarrow> TableHeader" where
  "example_header name =
     \<lparr>thName = name, thText = name, thInitialSize = 150, thIcon = None, thDecorator = None,
      thResizable = True, thReadonly = False,
      thMetadata = \<lparr>mdFrom = None, mdIsPrimaryKey = False, mdReferenceTo = None, mdType = None,
        mdOriginalType = None, mdColumnSchema = None\<rparr>\<rparr>"

definition example_grid :: OptimizeTableState where
  "example_grid = newTableState [example_header ''id'', example_header ''name'']
     [[(''id'', Num (Dec 1 0)), (''name'', Str ''a'')], [(''id'', Num (Dec 2 0)), (''name'', Str ''b'')]]"

lemma example_grid_reachable: "grid_reachable eq (run_op eq op example_grid)"
  unfolding example_grid_def by (intro grid_reachable.intros)

text \<open>
  C11. In every state that the grid can reach, the change log lists each row once, and exactly the
  rows of the table that have a pending change: committing misses no change, sends none twice,
  and sends none of a row that is no longer shown.
\<close>

theorem changed_rows_exact:
  assumes "grid_reachable eq s"
  shows "distinct (getChangedRows s)
    \<and> (r \<in> set (getChangedRows s) \<longleftrightarrow> r \<in> set (data s) \<and> rwChange (rows s ! r) \<noteq> None)"
  using logged_rows [OF reachable_ok [OF assms]] pending_change [OF reachable_ok [OF assms], of r]
  by auto

theorem changed_rows_exact_witness:
  "distinct (getChangedRows (run_op (=) (GoChange 1 1 (Str ''c'')) example_grid))
   \<and> 1 \<in> set (getChangedRows (run_op (=) (GoChange 1 1 (Str ''c'')) example_grid))"
  using changed_rows_exact [OF example_grid_reachable, of "(=)" "GoChange 1 1 (Str ''c'')" 1]
  by (simp add: example_grid_def newTableState_def example_header_def changeValue_def at_index_def
      getOriginalValue_def row_of_def header_name_def raw_row_def obj_at_def write_cell_def upt_rec)

text \<open>
  Discarding restores the table: afterwards no change is pending, the rows that were added and
  logged are gone and the others are there in their order, every cell shows its original value,
  and the original values are untouched.
\<close>

theorem discard_restores:
  assumes "grid_reachable eq s"
  shows "getChangedRows (discardAllChange s) = []
    \<and> data (discardAllChange s)
        = filter (\<lambda>r. \<not> (rwIsNewRow (rows s ! r) \<and> rwChange (rows s ! r) \<noteq> None)) (data s)
    \<and> getValue (discardAllChange s) y x = getOriginalValue (discardAllChange s) y x
    \<and> rwRaw (rows (discardAllChange s) ! r) = rwRaw (rows s ! r)"
proof -
  note ok = reachable_ok [OF assms]
  let ?t = "discardAllChange s"
  have rows_t: "rows ?t = foldl (\<lambda>heap r. heap[r := discard_row (heap ! r)]) (rows s) (getChangedRows s)"
    and data_t: "data ?t = filter (\<lambda>r. r \<notin> set (filter (\<lambda>r. rwIsNewRow (rows s ! r)) (getChangedRows s))) (data s)"
    and logs_t: "changeLogs ?t = []"
    by (simp_all add: discardAllChange_def Let_def update_rows_def)
  have "grid_ok ?t" using ok by (rule discard_ok)
  then have none: "rwChange (rows ?t ! r) = None" if "r \<in> set (data ?t)" for r
    using logged_rows(2) [of ?t] that logs_t by (auto simp: getChangedRows_def pending_def)
  have "getValue ?t y x = getOriginalValue ?t y x"
    using none by (auto simp: getValue_def row_of_def dest!: at_index_set
        split: option.split bind_split)
  moreover have "data ?t = filter (\<lambda>r. \<not> (rwIsNewRow (rows s ! r) \<and> rwChange (rows s ! r) \<noteq> None)) (data s)"
    unfolding data_t using logged_rows(2) [OF ok] pending_change [OF ok] by (auto intro!: filter_cong)
  moreover have "rwRaw (rows ?t ! r) = rwRaw (rows s ! r)"
  proof -
    have raw: "rwRaw (discard_row row) = rwRaw row" for row by (simp add: discard_row_def)
    have "rwRaw (foldl (\<lambda>heap r. heap[r := discard_row (heap ! r)]) heap rs ! r) = rwRaw (heap ! r)" for heap rs
    proof (induction rs arbitrary: heap)
      case (Cons q rs)
      have "rwRaw (heap[q := discard_row (heap ! q)] ! r) = rwRaw (heap ! r)"
        by (cases "q = r"; cases "r < length heap") (simp_all add: raw list_update_beyond not_less)
      with Cons [of "heap[q := discard_row (heap ! q)]"] show ?case by simp
    qed simp
    then show ?thesis unfolding rows_t .
  qed
  ultimately show ?thesis using logs_t by (simp add: getChangedRows_def)
qed

theorem discard_restores_witness:
  "getChangedRows (discardAllChange (run_op (=) (GoRemove 0) example_grid)) = []
   \<and> data (discardAllChange (run_op (=) (GoRemove 0) example_grid)) = [0, 1]"
  using discard_restores [OF example_grid_reachable, of "(=)" "GoRemove 0" 0 0 0]
  by (simp add: example_grid_def newTableState_def removeRow_def focus_index_def at_index_def
      raw_row_def Let_def has_key_def upt_rec)

section \<open>One edit, one cell\<close>

definition editable :: "OptimizeTableState \<Rightarrow> int \<Rightarrow> int \<Rightarrow> bool" where
  "editable s y x =
     (\<not> readOnlyMode s \<and> row_of s y \<noteq> None
      \<and> (case at_index (headers s) x of None \<Rightarrow> True | Some h \<Rightarrow> \<not> thReadonly h))"

lemma at_index_inj: "distinct xs \<Longrightarrow> at_index xs i = Some r \<Longrightarrow> at_index xs j = Some r \<Longrightarrow> i = j"
  by (auto simp: at_index_def nth_eq_iff_index_eq split: if_splits)

definition change_at :: "OptimizeTableRowValue \<Rightarrow> string \<Rightarrow> jsval option" where
  "change_at row h = Option.bind (rwChange row) (\<lambda>c. map_of c h)"

lemma getValue_change_at:
  "getValue s y x = (case row_of s y of None \<Rightarrow> Undefined
     | Some row \<Rightarrow> (case change_at row (header_name s x) of
          None \<Rightarrow> obj_at (rwRaw row) (header_name s x) | Some v \<Rightarrow> v))"
  by (auto simp: getValue_def getOriginalValue_def change_at_def obj_has_def obj_at_def
      split: option.splits bind_splits)

lemma broadcast_view [simp]:
  "header_name (broadcastChange i s) x = header_name s x" "row_of (broadcastChange i s) y = row_of s y"
  by (simp_all add: header_name_def row_of_def)

lemma revert_row:
  assumes "r < length (rows s)"
  shows "change_at (rows (revert_cell r h s) ! r) h' = (if h' = h then None else change_at (rows s ! r) h')"
    "rwRaw (rows (revert_cell r h s) ! r) = rwRaw (rows s ! r)"
    "q \<noteq> r \<Longrightarrow> rows (revert_cell r h s) ! q = rows s ! q"
    "length (rows (revert_cell r h s)) = length (rows s)" "data (revert_cell r h s) = data s"
    "headers (revert_cell r h s) = headers s"
proof -
  have nil: "obj_del h c = [] \<Longrightarrow> map_of c h' = (if h' = h then map_of c h else None)" for c :: "jsval obj"
    using map_of_obj_del [of h c] by (auto simp: fun_eq_iff split: if_splits)
  show "change_at (rows (revert_cell r h s) ! r) h' = (if h' = h then None else change_at (rows s ! r) h')"
    using assms nil
    by (auto simp: revert_cell_def Let_def change_at_def obj_has_def map_of_obj_del set_row_def split: option.split)
qed (use assms in \<open>auto simp: revert_cell_def Let_def set_row_def split: option.split\<close>)

lemma write_row:
  assumes "r < length (rows s)"
  shows "change_at (rows (write_cell r h v s) ! r) h' = (if h' = h then Some v else change_at (rows s ! r) h')"
    "rwRaw (rows (write_cell r h v s) ! r) = rwRaw (rows s ! r)"
    "q \<noteq> r \<Longrightarrow> rows (write_cell r h v s) ! q = rows s ! q"
    "length (rows (write_cell r h v s)) = length (rows s)" "data (write_cell r h v s) = data s"
    "headers (write_cell r h v s) = headers s"
  using assms by (auto simp: write_cell_def Let_def change_at_def set_row_def split: option.split)

lemma value_after_change:
  assumes "grid_reachable eq s"
  shows "getValue (changeValue eq y x v s) y' x' =
     (if editable s y x \<and> y' = y \<and> header_name s x' = header_name s x
      then if eq (getOriginalValue s y x) v then getOriginalValue s y' x' else v
      else getValue s y' x')"
proof (cases "editable s y x")
  case False
  then have "changeValue eq y x v s = s"
    by (auto simp: editable_def changeValue_def row_of_def split: option.splits)
  with False show ?thesis by simp
next
  case True
  then obtain r where r: "at_index (data s) y = Some r"
    by (auto simp: editable_def row_of_def)
  have ok: "grid_ok s" by (rule reachable_ok [OF assms])
  then have len: "r < length (rows s)" and dist: "distinct (data s)"
    using trackedD(1,2) at_index_set [OF r] by (auto simp: grid_ok_def)
  let ?o = "getOriginalValue s y x" and ?h = "header_name s x"
  let ?u = "if eq ?o v then revert_cell r ?h s else write_cell r ?h v s"
  have cv: "changeValue eq y x v s = broadcastChange False ?u"
    using True r by (auto simp: editable_def changeValue_def split: option.splits)
  have view: "getValue (broadcastChange False u) y' x' = getValue u y' x'" for u
    unfolding getValue_change_at broadcast_view by (rule refl)
  have names: "header_name (revert_cell r h s) z = header_name s z"
    "header_name (write_cell r h v s) z = header_name s z" for h z
    using revert_row(6) [OF len] write_row(6) [OF len] by (simp_all add: header_name_def)
  have ds: "data ?u = data s"
    using revert_row(5) [OF len] write_row(5) [OF len] by simp
  show ?thesis
  proof (cases "y' = y")
    case True
    with r ds have "row_of ?u y' = Some (rows ?u ! r)" "row_of s y' = Some (rows s ! r)"
      by (simp_all add: row_of_def)
    then show ?thesis
      unfolding cv view using revert_row(1,2) [OF len] write_row(1,2) [OF len] names True \<open>editable s y x\<close>
      by (auto simp: getValue_change_at getOriginalValue_def split: option.split)
  next
    case False
    have "row_of ?u y' = row_of s y'"
    proof (cases "at_index (data s) y'")
      case (Some q)
      with False at_index_inj [OF dist r] have "q \<noteq> r" by blast
      then show ?thesis
        using Some ds revert_row(3) [OF len] write_row(3) [OF len] by (simp add: row_of_def)
    qed (simp add: row_of_def ds)
    then show ?thesis unfolding cv view using names False by (simp add: getValue_change_at split: option.split)
  qed
qed



section \<open>A removed row that is edited\<close>

text \<open>
  A removed row can leave the change log and still look removed: when a row without changes is
  removed, then a cell of it is edited and set back, it is shown as removed but is not among the
  changed rows, so that committing does not delete it.
\<close>

theorem removed_row_forgotten:
  assumes "grid_reachable eq s" and "editable s y x" and "y \<noteq> - 1" and "at_index (data s) y = Some r"
    and "rwChange (rows s ! r) = None" and "\<not> eq (getOriginalValue s y x) v"
    and "eq (getOriginalValue s y x) (getOriginalValue s y x)"
  shows "isRemovedRow (changeValue eq y x (getOriginalValue s y x) (changeValue eq y x v (removeRow y s))) y
    \<and> r \<notin> set (getChangedRows (changeValue eq y x (getOriginalValue s y x) (changeValue eq y x v (removeRow y s))))"
proof -
  let ?row = "rows s ! r" and ?h = "header_name s x" and ?k = "Suc (changeCounter s)"
  have ok: "grid_ok s" by (rule reachable_ok [OF assms(1)])
  have r: "r \<in> set (data s)" "r < length (rows s)"
    using at_index_set [OF assms(4)] trackedD(2) ok by (auto simp: grid_ok_def)
  have nk: "rwChangeKey ?row = None"
    using pending_change [OF ok r(1)] assms(5) by (simp add: pending_def)
  define s1 where "s1 = removeRow y s"
  define row1 where "row1 = ?row\<lparr>rwIsRemoved := True, rwChange := Some [], rwChangeKey := Some ?k\<rparr>"
  have s1: "rows s1 = (rows s)[r := row1]" "data s1 = data s" "headers s1 = headers s"
    "readOnlyMode s1 = readOnlyMode s" "changeLogs s1 = log_put ?k r (changeLogs s)"
    using assms(3,4) nk
    by (simp_all add: s1_def row1_def removeRow_def focus_index_def has_key_def Let_def set_row_def)
  have ov1: "getOriginalValue s1 y x = getOriginalValue s y x" "header_name s1 x = ?h"
    using s1 r assms(4) by (simp_all add: getOriginalValue_def row_of_def header_name_def row1_def)
  define s2 where "s2 = changeValue eq y x v s1"
  have ed: "\<not> readOnlyMode s" "\<not> (case at_index (headers s) x of None \<Rightarrow> False | Some h \<Rightarrow> thReadonly h)"
    using assms(2) by (auto simp: editable_def split: option.splits)
  have s2: "rows s2 = (rows s)[r := row1\<lparr>rwChange := Some [(?h, v)]\<rparr>]" "data s2 = data s"
    "headers s2 = headers s" "readOnlyMode s2 = readOnlyMode s" "changeLogs s2 = changeLogs s1"
    using ed assms(4,6) s1 ov1 r
    by (simp_all add: s2_def changeValue_def write_cell_def row1_def set_row_def obj_set_def)
  have ov2: "getOriginalValue s2 y x = getOriginalValue s y x" "header_name s2 x = ?h"
    using s2 r assms(4) by (simp_all add: getOriginalValue_def row_of_def header_name_def row1_def)
  define s3 where "s3 = changeValue eq y x (getOriginalValue s y x) s2"
  have s3: "rows s3 = (rows s)[r := row1\<lparr>rwChange := None, rwChangeKey := None\<rparr>]" "data s3 = data s"
    using ed assms(4,7) s2 ov2 r
    by (simp_all add: s3_def changeValue_def revert_cell_def row1_def set_row_def obj_has_def obj_del_def
        has_key_def)
  have "grid_ok s3"
    unfolding s3_def s2_def s1_def by (intro changeValue_ok remove_ok ok)
  from logged_rows(2) [OF this] have "r \<notin> set (getChangedRows s3)"
    using s3 r by (simp add: pending_def row1_def)
  moreover have "isRemovedRow s3 y"
    using s3 r assms(4) by (simp add: isRemovedRow_def row_of_def row1_def)
  ultimately show ?thesis unfolding s3_def s2_def s1_def by simp
qed

theorem removed_row_forgotten_witness:
  "isRemovedRow (changeValue (=) 0 1 (Str ''a'') (changeValue (=) 0 1 (Str ''z'')
       (removeRow 0 (run_op (=) (GoFocus 1 0) example_grid)))) 0
   \<and> 0 \<notin> set (getChangedRows (changeValue (=) 0 1 (Str ''a'') (changeValue (=) 0 1 (Str ''z'')
       (removeRow 0 (run_op (=) (GoFocus 1 0) example_grid)))))"
proof -
  have "getOriginalValue (run_op (=) (GoFocus 1 0) example_grid) 0 1 = Str ''a''"
    by (simp add: example_grid_def newTableState_def example_header_def at_index_def upt_rec
        getOriginalValue_def row_of_def header_name_def raw_row_def obj_at_def)
  then show ?thesis
    using removed_row_forgotten [OF example_grid_reachable [of "(=)" "GoFocus 1 0"], of 0 1 0 "Str ''z''"]
    by (simp add: example_grid_def newTableState_def example_header_def at_index_def upt_rec
        editable_def row_of_def raw_row_def setFocus_def clearLastMove_def focus_container_def
        broadcastChange_def)
qed

section \<open>Notifications\<close>

definition timer_ok :: "OptimizeTableState \<Rightarrow> bool" where
  "timer_ok s = (case changeDebounceTimerId s of None \<Rightarrow> True | Some t \<Rightarrow> t \<in> set (timers s))"

lemma cell_timer [simp]:
  "changeDebounceTimerId (revert_cell r h s) = changeDebounceTimerId s"
  "nextTimer (revert_cell r h s) = nextTimer s" "nextTimer (write_cell r h v s) = nextTimer s"
  "timers (revert_cell r h s) = timers s" "trace (revert_cell r h s) = trace s"
  "changeCallback (revert_cell r h s) = changeCallback s"
  "changeDebounceTimerId (write_cell r h v s) = changeDebounceTimerId s"
  "timers (write_cell r h v s) = timers s" "trace (write_cell r h v s) = trace s"
  "changeCallback (write_cell r h v s) = changeCallback s"
  by (auto simp: revert_cell_def write_cell_def Let_def set_row_def split: option.split)

lemma broadcast_timer:
  "timer_ok s \<Longrightarrow> timer_ok (broadcastChange False s) \<and> changeDebounceTimerId (broadcastChange False s) \<noteq> None"
  by (auto simp: broadcastChange_def timer_ok_def Let_def split: option.split)

lemma broadcast_quiet [simp]:
  "trace (broadcastChange False s) = trace s" "changeCallback (broadcastChange False s) = changeCallback s"
  by (simp_all add: broadcastChange_def Let_def)

text \<open>
  C15. No edit goes unnoticed while the debounce timer is sound: after an edit of an editable cell a
  timer is set and going to fire, and when it fires every listener is called once.
\<close>

theorem edit_is_announced:
  assumes "timer_ok s" and "editable s y x"
  shows "\<exists>t. changeDebounceTimerId (changeValue eq y x v s) = Some t \<and> timer_ok (changeValue eq y x v s)
    \<and> trace (fire_timer t (changeValue eq y x v s)) = trace s @ map Listener (rev (changeCallback s))
    \<and> timer_ok (fire_timer t (changeValue eq y x v s))"
proof -
  from assms(2) obtain u where u: "changeValue eq y x v s = broadcastChange False u"
    "changeDebounceTimerId u = changeDebounceTimerId s" "timers u = timers s" "trace u = trace s"
    "changeCallback u = changeCallback s"
    by (cases "at_index (data s) y")
       (auto simp: editable_def changeValue_def row_of_def split: option.splits)
  with assms(1) have ok: "timer_ok u"
    by (cases "changeDebounceTimerId s") (simp_all add: timer_ok_def)
  note b = broadcast_timer [OF ok]
  then obtain t where t: "changeDebounceTimerId (broadcastChange False u) = Some t" by auto
  with b have live: "t \<in> set (timers (broadcastChange False u))" by (simp add: timer_ok_def)
  then have "trace (fire_timer t (broadcastChange False u)) = trace s @ map Listener (rev (changeCallback s))"
    "timer_ok (fire_timer t (broadcastChange False u))"
    using u by (simp_all add: fire_timer_def call_listeners_def timer_ok_def)
  then show ?thesis using t b u(1) by auto
qed

theorem edit_is_announced_witness:
  "\<exists>t. changeDebounceTimerId (changeValue (=) 0 0 Null (addChangeListener 7 example_grid)) = Some t
    \<and> trace (fire_timer t (changeValue (=) 0 0 Null (addChangeListener 7 example_grid))) = [Listener 7]"
  using edit_is_announced [of "addChangeListener 7 example_grid" 0 0 "(=)" Null]
  by (auto simp: example_grid_def newTableState_def example_header_def at_index_def editable_def row_of_def
      addChangeListener_def timer_ok_def upt_rec)

text \<open>
  Discarding while a notification is pending stops the notifications for good:
  \<open>discardAllChange\<close> cancels the timer but keeps its identifier, so that no later edit, however
  many there are, calls a listener or sets a timer.
\<close>

theorem discard_stops_notifications:
  assumes "changeDebounceTimerId s = Some t" and "timers s = [t]"
  shows "timers (fold (\<lambda>(y, x, v). changeValue eq y x v) edits (discardAllChange s)) = []
    \<and> trace (fold (\<lambda>(y, x, v). changeValue eq y x v) edits (discardAllChange s)) = trace (discardAllChange s)"
proof -
  have stuck: "changeDebounceTimerId (discardAllChange s) \<noteq> None \<and> timers (discardAllChange s) = []"
    using assms by (simp add: discardAllChange_def Let_def broadcastChange_def clear_timeout_def update_rows_def)
  have same: "changeDebounceTimerId (changeValue eq y x v u) = changeDebounceTimerId u
      \<and> timers (changeValue eq y x v u) = timers u \<and> trace (changeValue eq y x v u) = trace u"
    if "changeDebounceTimerId u \<noteq> None" for y x v u
    using that by (auto simp: changeValue_def broadcastChange_def Let_def split: option.split)
  have "changeDebounceTimerId u \<noteq> None \<Longrightarrow>
      timers (fold (\<lambda>(y, x, v). changeValue eq y x v) edits u) = timers u
      \<and> trace (fold (\<lambda>(y, x, v). changeValue eq y x v) edits u) = trace u" for u
    by (induction edits arbitrary: u) (auto simp: same split_beta)
  from this [of "discardAllChange s"] stuck show ?thesis by simp
qed

theorem discard_stops_notifications_witness:
  "trace (fold (\<lambda>(y, x, v). changeValue (=) y x v) [(0, 0, Null), (1, 1, Str ''q'')]
     (discardAllChange (changeValue (=) 0 0 Null (addChangeListener 7 example_grid)))) = [Listener 7]"
proof -
  let ?s = "changeValue (=) 0 0 Null (addChangeListener 7 example_grid)"
  have "changeDebounceTimerId ?s = Some 1" "timers ?s = [1]" "trace ?s = []" "changeCallback ?s = [7]"
    by (simp_all add: example_grid_def newTableState_def example_header_def at_index_def
        addChangeListener_def changeValue_def broadcastChange_def upt_rec Let_def
        getOriginalValue_def row_of_def header_name_def raw_row_def obj_at_def)
  moreover from this have "trace (discardAllChange ?s) = [Listener 7]"
    by (simp add: discardAllChange_def Let_def broadcastChange_def call_listeners_def update_rows_def
        clear_timeout_def)
  ultimately show ?thesis
    using discard_stops_notifications [of ?s 1 "(=)" "[(0, 0, Null), (1, 1, Str ''q'')]"] by simp
qed

end
