(* ===== verification/GridActions.thy ===== *)
theory GridActions
  imports GridFacts Exports QueryBuilder
begin

text \<open>
  What drives the editable grid: the keyboard, copying and pasting
  (\<open>admin/src/components/gui/query-result-table.tsx\<close>, \<open>admin/src/lib/key-matcher.ts\<close>), duplicating
  rows (\<open>components/gui/table-result/table-state-actions.ts\<close>) and committing the pending changes
  through the driver (\<open>admin/src/lib/sql/sql-execute-helper.ts\<close>).

  A grid that has a focus has a column.  The clipboard is an effect: \<open>ReadText\<close> asks for its text,
  and \<open>paste_text\<close> is what happens when the text arrives.  A commit waits for the database; what
  the user does with the grid in the meantime is the argument \<open>meanwhile\<close>.
\<close>

section \<open>Keys\<close>

record KeyEvent =
  evKey :: string
  evCtrl :: bool
  evMeta :: bool
  evAlt :: bool
  evShift :: bool

record KeyMatcher =
  kmCtrl :: "bool option"
  kmKey :: "string option"
  kmShift :: "bool option"

definition capture_key :: "KeyEvent \<Rightarrow> KeyMatcher" where
  "capture_key e =
     \<lparr>kmCtrl = Some (evCtrl e \<or> evMeta e),
      kmKey = (if evKey e = ''Shift'' \<or> evKey e = ''Control'' then None else Some (evKey e)),
      kmShift = Some (evShift e)\<rparr>"

definition key_match :: "KeyMatcher \<Rightarrow> KeyEvent \<Rightarrow> bool" where
  "key_match k e =
     (\<not> (kmCtrl k = Some True \<and> \<not> (evCtrl e \<or> evMeta e))
      \<and> \<not> (truthy_str (kmKey k) \<and> Some (evKey e) \<noteq> kmKey k)
      \<and> \<not> (kmShift k = Some True \<and> \<not> evShift e))"

definition toCodeMirrorKey :: "bool \<Rightarrow> KeyMatcher \<Rightarrow> string" where
  "toCodeMirrorKey isMac k =
     js_join ''-'' (filter_boolean
       [if kmCtrl k = Some True then Some (if isMac then ''Cmd'' else ''Ctrl'') else None,
        if kmShift k = Some True then Some ''Shift'' else None, kmKey k])"

definition KEY_run :: KeyMatcher where
  "KEY_run = \<lparr>kmCtrl = Some True, kmKey = Some ''Enter'', kmShift = None\<rparr>"

definition KEY_copy :: KeyMatcher where
  "KEY_copy = \<lparr>kmCtrl = Some True, kmKey = Some ''c'', kmShift = None\<rparr>"

definition KEY_paste :: KeyMatcher where
  "KEY_paste = \<lparr>kmCtrl = Some True, kmKey = Some ''v'', kmShift = None\<rparr>"

definition KEY_discard :: KeyMatcher where
  "KEY_discard = \<lparr>kmCtrl = Some True, kmKey = Some ''Delete'', kmShift = Some True\<rparr>"

section \<open>Copying and pasting\<close>

datatype KeyEffect = Clipboard ExportEffect | ReadText int int | PreventDefault

definition copyCallback :: "OptimizeTableState \<Rightarrow> KeyEffect list" where
  "copyCallback s =
     (case focusAt s of
        None \<Rightarrow> []
      | Some (y, x) \<Rightarrow>
          (case getSelectionRange (selectionRanges s) y x of
             Some r \<Rightarrow>
               if rx1 r \<noteq> rx2 r \<or> ry1 r \<noteq> ry2 r
               then (let hs = map (\<lambda>p. thName (snd p)) (filter (\<lambda>p. rx1 r \<le> fst p \<and> fst p \<le> rx2 r)
                                 (indexed (headers s)));
                         records = map (\<lambda>p. raw_record hs (snd p))
                                     (filter (\<lambda>p. ry1 r \<le> fst p \<and> fst p \<le> ry2 r) (indexed (getAllRows s)))
                     in [Clipboard (snd (exportDataAsDelimitedText [] records [tab]
                           [carriage_return, newline] [CHR 0x22] (Some ToClipboard) ''NULL''))])
               else [Clipboard (CopyText (js_String (getValue s y x)))]
           | None \<Rightarrow> [Clipboard (CopyText (js_String (getValue s y x)))]))"

definition pasted_value :: "string \<Rightarrow> jsval" where
  "pasted_value t = (if js_lower t = ''null'' then Null else Str t)"

definition paste_row ::
  "(jsval \<Rightarrow> jsval \<Rightarrow> bool) \<Rightarrow> int \<Rightarrow> int \<Rightarrow> string list \<Rightarrow> OptimizeTableState \<Rightarrow> OptimizeTableState" where
  "paste_row eq y x cells s =
     fold (\<lambda>(col, t). changeValue eq y (x + col) (pasted_value t)) (indexed cells) s"

text \<open>The last line of Excel's text is empty and is left out.\<close>

definition pasted_rows :: "string list list \<Rightarrow> string list list" where
  "pasted_rows rs = (if rs \<noteq> [] \<and> last rs = [[]] then butlast rs else rs)"

definition paste_text ::
  "(jsval \<Rightarrow> jsval \<Rightarrow> bool) \<Rightarrow> int \<Rightarrow> int \<Rightarrow> string \<Rightarrow> OptimizeTableState \<Rightarrow> OptimizeTableState" where
  "paste_text eq y x pasteValue s =
     fold (\<lambda>(i, cells). paste_row eq (y + i) x cells)
       (indexed (pasted_rows (map (js_split [tab]) (js_split [carriage_return, newline] pasteValue)))) s"

definition pasteCallback :: "OptimizeTableState \<Rightarrow> KeyEffect list" where
  "pasteCallback s = (case focusAt s of None \<Rightarrow> [] | Some (y, x) \<Rightarrow> [ReadText y x])"

section \<open>Moving\<close>

definition onShiftKeyDownCallBack :: "OptimizeTableState \<Rightarrow> KeyEvent \<Rightarrow> OptimizeTableState" where
  "onShiftKeyDownCallBack s e =
     (case focusAt s of
        None \<Rightarrow> s
      | Some (fy, fx) \<Rightarrow>
          if \<not> evShift e then s
          else case (case lastMove s of
                 Some m \<Rightarrow> Some m
               | None \<Rightarrow> map_option (\<lambda>r. (ry2 r, rx2 r)) (getSelectionRange (selectionRanges s) fy fx)) of
            None \<Rightarrow> s
          | Some (ly, lx) \<Rightarrow>
              (let newRow = (if evKey e = ''ArrowUp'' then max (ly - 1) 0
                             else if evKey e = ''ArrowDown'' then min (ly + 1) (getRowsCount s - 1) else ly);
                   newCol = (if evKey e = ''ArrowLeft'' then max (lx - 1) 0
                             else if evKey e = ''ArrowRight'' then min (lx + 1) (getHeaderCount s - 1) else lx);
                   right = (evKey e = ''ArrowRight'');
                   bottom = (evKey e \<notin> {''ArrowUp'', ''ArrowLeft'', ''ArrowRight''})
               in scrollToCell right bottom newRow newCol
                    (setLastMove newRow newCol (selectCellRange fy fx newRow newCol s))))"

definition move_focus :: "bool \<Rightarrow> bool \<Rightarrow> int \<Rightarrow> int \<Rightarrow> OptimizeTableState \<Rightarrow> OptimizeTableState" where
  "move_focus right bottom y x s = scrollToCell right bottom y x (setFocus y x s)"

definition arrow_key :: "KeyEvent \<Rightarrow> OptimizeTableState \<Rightarrow> OptimizeTableState" where
  "arrow_key e s =
     (if evShift e then onShiftKeyDownCallBack s e
      else case focusAt s of
          None \<Rightarrow> s
        | Some (y, x) \<Rightarrow>
            if evKey e = ''ArrowRight'' then
              if x + 1 < getHeaderCount s then move_focus True False y (x + 1) s else s
            else if evKey e = ''ArrowLeft'' then
              if 0 \<le> x - 1 then move_focus False False y (x - 1) s else s
            else if evKey e = ''ArrowUp'' then
              if 0 \<le> y - 1 then move_focus False False (y - 1) x s else s
            else if y + 1 < getRowsCount s then move_focus False True (y + 1) x s else s)"

definition tab_key :: "OptimizeTableState \<Rightarrow> OptimizeTableState option" where
  "tab_key s =
     (case focusAt s of
        None \<Rightarrow> Some s
      | Some (fy, fx) \<Rightarrow>
          (let n = fy * getHeaderCount s + fx + 1;
               x = n mod getHeaderCount s;
               y = n div getHeaderCount s
           in if getRowsCount s \<le> y then None else Some (move_focus (x \<noteq> 0) True y x s)))"

definition onKeyDown :: "KeyEvent \<Rightarrow> OptimizeTableState \<Rightarrow> OptimizeTableState \<times> KeyEffect list" where
  "onKeyDown e s =
     (if editMode s then (s, [])
      else if key_match KEY_copy e then (s, copyCallback s @ [PreventDefault])
      else if key_match KEY_paste e then (s, pasteCallback s @ [PreventDefault])
      else if evKey e \<in> {''ArrowRight'', ''ArrowLeft'', ''ArrowUp'', ''ArrowDown''} then
        (arrow_key e s, [PreventDefault])
      else if evKey e = ''Tab'' then
        (case tab_key s of None \<Rightarrow> (s, []) | Some s1 \<Rightarrow> (s1, [PreventDefault]))
      else if evKey e = ''Enter'' then (enterEditMode s, [PreventDefault])
      else if length (evKey e) = 1 \<and> \<not> evCtrl e \<and> \<not> evMeta e \<and> \<not> evAlt e
        then (enterEditModeWithChar (evKey e) s, [PreventDefault])
      else (s, [PreventDefault]))"

section \<open>Duplicating a row\<close>

definition is_generated :: "TableHeader \<Rightarrow> bool" where
  "is_generated h =
     (case mdColumnSchema (thMetadata h) of
        None \<Rightarrow> False | Some col \<Rightarrow> truthy_str (con_get col generatedExpression))"

definition duplicate_without :: "(TableHeader \<Rightarrow> bool) \<Rightarrow> OptimizeTableState \<Rightarrow> OptimizeTableState" where
  "duplicate_without drops s =
     (case focusAt s of
        None \<Rightarrow> s
      | Some (rowIndex, x) \<Rightarrow>
          if rowIndex = 0 then s
          else case row_of s rowIndex of
            None \<Rightarrow> s
          | Some row \<Rightarrow>
              insertNewRow rowIndex
                (foldl (\<lambda>ob h. if drops h then obj_del (thName h) ob else ob)
                   (obj_spread (obj_spread [] (rwRaw row)) (case rwChange row of None \<Rightarrow> [] | Some c \<Rightarrow> c))
                   (headers s)) s)"

definition duplicateRow :: "OptimizeTableState \<Rightarrow> OptimizeTableState" where
  "duplicateRow s = duplicate_without is_generated s"

definition duplicateRowWithoutKey :: "OptimizeTableState \<Rightarrow> OptimizeTableState" where
  "duplicateRowWithoutKey s = duplicate_without (\<lambda>h. is_generated h \<or> mdIsPrimaryKey (thMetadata h)) s"

section \<open>Committing\<close>

definition where_primary_key :: "string list \<Rightarrow> jsval obj \<Rightarrow> jsval obj" where
  "where_primary_key pk raw = foldl (\<lambda>condition k. obj_set k (obj_at raw k) condition) [] pk"

definition row_plan :: "DatabaseTableSchema \<Rightarrow> OptimizeTableRowValue \<Rightarrow> DatabaseTableOperation option" where
  "row_plan tableSchema row =
     map_option (\<lambda>change.
       if rwIsNewRow row
       then OpInsert change (if tsAutoIncrement tableSchema then at_index (tsPk tableSchema) 0 else None)
              (Some (tsPk tableSchema))
       else if rwIsRemoved row then OpDelete (where_primary_key (tsPk tableSchema) (rwRaw row))
       else OpUpdate change (where_primary_key (tsPk tableSchema) (rwRaw row)))
       (rwChange row)"

definition generateTableChangePlan ::
  "DatabaseTableSchema \<Rightarrow> OptimizeTableState \<Rightarrow> (nat \<times> DatabaseTableOperation) list" where
  "generateTableChangePlan tableSchema s =
     List.map_filter (\<lambda>r. map_option (Pair r) (row_plan tableSchema (rows s ! r))) (getChangedRows s)"

definition commit_error :: "js_error \<Rightarrow> string" where
  "commit_error e = (case e of JsError m \<Rightarrow> m | TypeError m \<Rightarrow> m | RangeError m \<Rightarrow> m | DriverError m \<Rightarrow> m)"

definition commit_updates ::
  "(nat \<times> DatabaseTableOperation) list \<Rightarrow> DatabaseTableOperationReslt list \<Rightarrow> (nat \<times> jsval obj) list" where
  "commit_updates plans results =
     map (\<lambda>(idx, p). (fst p, case at_index results idx of
            None \<Rightarrow> [] | Some r \<Rightarrow> (case resRecord r of None \<Rightarrow> [] | Some u \<Rightarrow> u))) (indexed plans)"

definition commitChange ::
  "(DatabaseTableOperation list \<Rightarrow> ('w, DatabaseTableOperationReslt list) io) \<Rightarrow> DatabaseTableSchema \<Rightarrow>
   (OptimizeTableState \<Rightarrow> OptimizeTableState) \<Rightarrow> OptimizeTableState \<Rightarrow> 'w \<Rightarrow>
   string option \<times> OptimizeTableState \<times> 'w" where
  "commitChange updateData tableSchema meanwhile s w =
     (let plans = generateTableChangePlan tableSchema s
      in case updateData (map snd plans) w of
           (Inr results, w1) \<Rightarrow> (None, applyChanges (commit_updates plans results) (meanwhile s), w1)
         | (Inl e, w1) \<Rightarrow> (Some (commit_error e), meanwhile s, w1))"

end
