(* ===== verification/ActionFacts.thy ===== *)
theory ActionFacts
  imports GridActions RowFacts
begin

text \<open>
  Properties of the actions on the grid: the keyboard stays in the grid, \<open>Tab\<close> walks through all
  cells, a commit sends one operation per changed row with the original key, and what a commit
  does to the grid, also when the user goes on editing.
\<close>

section \<open>Moving\<close>

definition cell_in :: "OptimizeTableState \<Rightarrow> int \<Rightarrow> int \<Rightarrow> bool" where
  "cell_in s y x = (0 \<le> y \<and> y < getRowsCount s \<and> 0 \<le> x \<and> x < getHeaderCount s)"

definition pos_in :: "OptimizeTableState \<Rightarrow> (int \<times> int) option \<Rightarrow> bool" where
  "pos_in s p = (case p of None \<Rightarrow> True | Some (y, x) \<Rightarrow> cell_in s y x)"

definition nav_ok :: "OptimizeTableState \<Rightarrow> bool" where
  "nav_ok s = (pos_in s (focusAt s) \<and> pos_in s (lastMove s)
     \<and> list_all (\<lambda>r. cell_in s (ry1 r) (rx1 r) \<and> cell_in s (ry2 r) (rx2 r)) (selectionRanges s))"

lemma nav_fields [simp]:
  "lastMove (broadcastChange i s) = lastMove s" "lastMove (focus_container s) = lastMove s"
  "selectionRanges (focus_container s) = selectionRanges s" "lastMove (scrollToCell a b y x s) = lastMove s"
  "selectionRanges (scrollToCell a b y x s) = selectionRanges s"
  by (simp_all add: broadcastChange_def call_listeners_def clear_timeout_def focus_container_def
      scrollToCell_def Let_def split: option.split)

lemma cell_in_cong: "data t = data s \<Longrightarrow> headers t = headers s \<Longrightarrow> cell_in t = cell_in s"
  by (simp add: cell_in_def fun_eq_iff getRowsCount_def getHeaderCount_def)

lemma nav_ok_cong:
  assumes "data t = data s" "headers t = headers s" "focusAt t = focusAt s" "lastMove t = lastMove s"
    and "selectionRanges t = selectionRanges s"
  shows "nav_ok t = nav_ok s"
  unfolding nav_ok_def pos_in_def cell_in_cong [OF assms(1,2)] assms(3-5) ..

lemma move_focus_nav: "nav_ok s \<Longrightarrow> cell_in s y x \<Longrightarrow> nav_ok (move_focus a b y x s)"
proof -
  assume "nav_ok s" "cell_in s y x"
  have "cell_in (move_focus a b y x s) = cell_in s"
    by (rule cell_in_cong) (simp_all add: move_focus_def)
  then show ?thesis
    using \<open>nav_ok s\<close> \<open>cell_in s y x\<close>
    by (simp add: nav_ok_def pos_in_def move_focus_def setFocus_def clearLastMove_def)
qed

lemma shift_nav:
  assumes "nav_ok s"
  shows "nav_ok (onShiftKeyDownCallBack s e)"
proof (cases "focusAt s")
  case None
  then show ?thesis using assms by (simp add: onShiftKeyDownCallBack_def)
next
  case (Some f)
  obtain fy fx where f: "focusAt s = Some (fy, fx)" using Some by (cases f) auto
  define lm where "lm = (case lastMove s of Some m \<Rightarrow> Some m
      | None \<Rightarrow> map_option (\<lambda>r. (ry2 r, rx2 r)) (getSelectionRange (selectionRanges s) fy fx))"
  have fin: "cell_in s fy fx" using assms f by (simp add: nav_ok_def pos_in_def)
  have lin: "cell_in s (fst l) (snd l)" if "lm = Some l" for l
  proof (cases "lastMove s")
    case None
    with that obtain r where "getSelectionRange (selectionRanges s) fy fx = Some r" "l = (ry2 r, rx2 r)"
      by (auto simp: lm_def)
    with find_in_range_Some [OF this(1)] assms show ?thesis by (auto simp: nav_ok_def list_all_iff)
  next
    case (Some m)
    with that have "l = m" by (simp add: lm_def)
    with Some assms show ?thesis by (cases m) (auto simp: nav_ok_def pos_in_def)
  qed
  have step: "nav_ok (scrollToCell a b ny nx (setLastMove ny nx (selectCellRange fy fx ny nx s)))"
    if "cell_in s ny nx" for a b ny nx
  proof -
    let ?t = "scrollToCell a b ny nx (setLastMove ny nx (selectCellRange fy fx ny nx s))"
    have "cell_in ?t = cell_in s"
      by (rule cell_in_cong) (simp_all add: setLastMove_def selectCellRange_def setSelectionRanges_def)
    then show ?thesis
      using fin that f
      by (auto simp: nav_ok_def pos_in_def setLastMove_def selectCellRange_def setSelectionRanges_def
          corner_range_def cell_in_def min_def max_def)
  qed
  show ?thesis
  proof (cases "evShift e \<and> lm \<noteq> None")
    case False
    then consider "\<not> evShift e" | "lm = None" by blast
    then show ?thesis
      by cases (use assms f in \<open>simp_all add: onShiftKeyDownCallBack_def lm_def [symmetric]\<close>)
  next
    case True
    then obtain ly lx where l: "lm = Some (ly, lx)" by auto
    with lin [OF l] have "cell_in s ly lx" by simp
    then have "cell_in s (if evKey e = ''ArrowUp'' then max (ly - 1) 0
          else if evKey e = ''ArrowDown'' then min (ly + 1) (getRowsCount s - 1) else ly)
        (if evKey e = ''ArrowLeft'' then max (lx - 1) 0
          else if evKey e = ''ArrowRight'' then min (lx + 1) (getHeaderCount s - 1) else lx)"
      by (auto simp: cell_in_def)
    from step [OF this] show ?thesis
      using True f l by (simp add: onShiftKeyDownCallBack_def lm_def Let_def)
  qed
qed

lemma tab_index:
  fixes n c :: int
  assumes "0 \<le> fy" and "0 \<le> fx" and "fx < c"
  shows "0 \<le> (fy * c + fx + 1) mod c" "(fy * c + fx + 1) mod c < c" "0 \<le> (fy * c + fx + 1) div c"
  using assms by (simp_all add: pos_imp_zdiv_nonneg_iff)

lemma tab_nav: "nav_ok s \<Longrightarrow> tab_key s = Some t \<Longrightarrow> nav_ok t"
proof -
  assume ok: "nav_ok s" and t: "tab_key s = Some t"
  show ?thesis
  proof (cases "focusAt s")
    case None
    with t ok show ?thesis by (simp add: tab_key_def)
  next
    case (Some f)
    obtain fy fx where f: "f = (fy, fx)" by (cases f)
    with Some ok have "cell_in s fy fx" by (simp add: nav_ok_def pos_in_def)
    then have "0 \<le> fy" "0 \<le> fx" "fx < getHeaderCount s" by (simp_all add: cell_in_def)
    from tab_index [OF this] show ?thesis
      using t Some f by (auto simp: tab_key_def Let_def cell_in_def split: if_splits intro!: move_focus_nav [OF ok])
  qed
qed

lemma arrow_nav:
  assumes "nav_ok s"
  shows "nav_ok (arrow_key e s)"
proof (cases "evShift e")
  case True
  then show ?thesis using shift_nav [OF assms] by (simp add: arrow_key_def)
next
  case False
  show ?thesis
  proof (cases "focusAt s")
    case None
    then show ?thesis using False assms by (simp add: arrow_key_def)
  next
    case (Some f)
    obtain y x where f: "f = (y, x)" by (cases f)
    with Some assms have "cell_in s y x" by (simp add: nav_ok_def pos_in_def)
    then have "x + 1 < getHeaderCount s \<Longrightarrow> cell_in s y (x + 1)" "0 \<le> x - 1 \<Longrightarrow> cell_in s y (x - 1)"
      "0 \<le> y - 1 \<Longrightarrow> cell_in s (y - 1) x" "y + 1 < getRowsCount s \<Longrightarrow> cell_in s (y + 1) x"
      by (simp_all add: cell_in_def)
    then show ?thesis
      using False Some f assms by (simp add: arrow_key_def move_focus_nav [OF assms])
  qed
qed

text \<open>
  C21. The keyboard stays in the grid: when the focus, the last move and the selected ranges are
  cells of the grid, they still are after any key, with any modifiers, in any mode.
\<close>

theorem keyboard_stays_in_grid:
  assumes "nav_ok s"
  shows "nav_ok (fst (onKeyDown e s))"
proof -
  have edit: "nav_ok (enterEditMode u) = nav_ok u" "nav_ok (enterEditModeWithChar ch u) = nav_ok u" for u ch
    by (rule nav_ok_cong; simp add: enterEditMode_def enterEditModeWithChar_def)+
  have tab: "nav_ok (fst (case tab_key s of None \<Rightarrow> (s, []) | Some s1 \<Rightarrow> (s1, [PreventDefault])))"
    using tab_nav [OF assms] assms by (cases "tab_key s") simp_all
  show ?thesis
    unfolding onKeyDown_def using assms arrow_nav [OF assms, of e] tab by (simp add: edit)
qed

theorem keyboard_stays_in_grid_witness:
  "nav_ok (fst (onKeyDown \<lparr>evKey = ''Tab'', evCtrl = False, evMeta = False, evAlt = False, evShift = False\<rparr>
     (setFocus 0 1 example_grid)))"
  by (rule keyboard_stays_in_grid)
     (simp add: nav_ok_def pos_in_def cell_in_def getRowsCount_def getHeaderCount_def example_grid_def
       newTableState_def setFocus_def clearLastMove_def focus_container_def broadcastChange_def Let_def)

lemma div_mod_row:
  fixes c :: int
  assumes "0 \<le> a" and "a < c" shows "(y * c + a) div c = y" "(y * c + a) mod c = a"
  using assms by (simp_all add: div_pos_pos_trivial)

text \<open>
  \<open>Tab\<close> visits every cell: in row-major order the focus goes to the next cell, at the end of a
  row to the first cell of the next row, and at the last cell it stays.
\<close>

theorem tab_walks_row_major:
  assumes "focusAt s = Some (y, x)" and "cell_in s y x"
    and "evKey e = ''Tab''" and "\<not> editMode s"
  shows "focusAt (fst (onKeyDown e s)) =
     (if x + 1 < getHeaderCount s then Some (y, x + 1)
      else if y + 1 < getRowsCount s then Some (y + 1, 0) else Some (y, x))"
proof -
  let ?c = "getHeaderCount s"
  have c: "0 \<le> x" "x < ?c" "y < getRowsCount s" using assms(2) by (simp_all add: cell_in_def)
  have km: "\<not> key_match KEY_copy e" "\<not> key_match KEY_paste e"
    using assms(3) by (simp_all add: key_match_def KEY_copy_def KEY_paste_def)
  have down: "fst (onKeyDown e s) = (case tab_key s of None \<Rightarrow> s | Some s1 \<Rightarrow> s1)"
    using assms(3,4) km by (simp add: onKeyDown_def split: option.split)
  have fm: "focusAt (move_focus a b y' x' s) = Some (y', x')" for a b y' x'
    by (simp add: move_focus_def)
  show ?thesis
  proof (cases "x + 1 < ?c")
    case True
    from div_mod_row [of "x + 1" ?c y] True c
    have "(y * ?c + x + 1) div ?c = y" "(y * ?c + x + 1) mod ?c = x + 1" by (simp_all add: algebra_simps)
    then show ?thesis using True c assms(1) by (simp add: down tab_key_def Let_def fm)
  next
    case False
    with c have "y * ?c + x + 1 = (y + 1) * ?c" by (simp add: algebra_simps)
    then have "(y * ?c + x + 1) div ?c = y + 1" "(y * ?c + x + 1) mod ?c = 0"
      using c by simp_all
    then show ?thesis using False c assms(1) by (simp add: down tab_key_def Let_def fm)
  qed
qed

theorem tab_walks_row_major_witness:
  "focusAt (fst (onKeyDown \<lparr>evKey = ''Tab'', evCtrl = False, evMeta = False, evAlt = False, evShift = False\<rparr>
     (setFocus 0 1 example_grid))) = Some (1, 0)"
  using tab_walks_row_major [of "setFocus 0 1 example_grid" 0 1
      "\<lparr>evKey = ''Tab'', evCtrl = False, evMeta = False, evAlt = False, evShift = False\<rparr>"]
  by (simp add: cell_in_def getRowsCount_def getHeaderCount_def example_grid_def newTableState_def
      setFocus_def clearLastMove_def focus_container_def broadcastChange_def Let_def)

section \<open>What a commit sends\<close>

lemma where_primary_key_at:
  "obj_at (where_primary_key pk raw) k = (if k \<in> set pk then obj_at raw k else Undefined)"
  using js_obj.get_reduce_empty [of "obj_at raw" pk k] by (simp add: where_primary_key_def)

lemma plan_rows:
  assumes "grid_ok s"
  shows "generateTableChangePlan ts s
     = map (\<lambda>r. (r, the (row_plan ts (rows s ! r)))) (getChangedRows s)"
proof -
  have "row_plan ts (rows s ! r) \<noteq> None" if "r \<in> set (getChangedRows s)" for r
    using that logged_rows(2) [OF assms] pending_change [OF assms, of r] by (auto simp: row_plan_def)
  then have "List.map_filter (\<lambda>r. map_option (Pair r) (row_plan ts (rows s ! r))) rs
      = map (\<lambda>r. (r, the (row_plan ts (rows s ! r)))) rs" if "set rs \<subseteq> set (getChangedRows s)" for rs
    using that by (induction rs) (auto simp: map_filter_simps split: option.splits)
  then show ?thesis by (simp add: generateTableChangePlan_def)
qed

definition plan_fits ::
  "DatabaseTableSchema \<Rightarrow> string \<Rightarrow> OptimizeTableRowValue \<Rightarrow> DatabaseTableOperation \<Rightarrow> bool" where
  "plan_fits ts k row op =
     (let key = (\<lambda>w. obj_at w k = (if k \<in> set (tsPk ts) then obj_at (rwRaw row) k else Undefined))
      in case op of
           OpInsert v a p \<Rightarrow> rwIsNewRow row \<and> rwChange row = Some v \<and> p = Some (tsPk ts)
         | OpDelete w \<Rightarrow> \<not> rwIsNewRow row \<and> rwIsRemoved row \<and> key w
         | OpUpdate v w \<Rightarrow> \<not> rwIsNewRow row \<and> \<not> rwIsRemoved row \<and> rwChange row = Some v \<and> key w)"

text \<open>
  C10. The plan of a commit has one operation per changed row, in the order of the changes: an
  insertion of a new row's values, a deletion of a removed row, or an update with exactly the
  changed values; deletions and updates look the row up by the key columns and nothing else, with
  the original values, also when the key itself was edited.
\<close>

theorem commit_plan_complete:
  assumes "grid_reachable eq s"
  shows "map fst (generateTableChangePlan ts s) = getChangedRows s
    \<and> list_all (\<lambda>(r, op). plan_fits ts k (rows s ! r) op) (generateTableChangePlan ts s)"
proof -
  have ok: "grid_ok s" by (rule reachable_ok [OF assms])
  have "plan_fits ts k (rows s ! r) (the (row_plan ts (rows s ! r)))" if "r \<in> set (getChangedRows s)" for r
    using that logged_rows(2) [OF ok] pending_change [OF ok, of r]
    by (auto simp: row_plan_def plan_fits_def where_primary_key_at)
  then show ?thesis by (simp add: plan_rows [OF ok] comp_def list_all_iff)
qed

theorem commit_plan_complete_witness:
  "map fst (generateTableChangePlan example_schema (run_op (=) (GoRemove 1) example_grid)) = [1]"
  using commit_plan_complete [OF example_grid_reachable, of example_schema "(=)" "GoRemove 1"]
  by (simp add: getChangedRows_def example_grid_def newTableState_def removeRow_def focus_index_def
      at_index_def raw_row_def Let_def has_key_def log_put_def upt_rec)

section \<open>What a commit does to the grid\<close>

lemma applied_rows:
  assumes "grid_ok s" and "r < length (rows s)"
  shows "rows (applyChanges us s) ! r =
     (if r \<in> set (getChangedRows s)
      then apply_row (case map_of us r of None \<Rightarrow> [] | Some u \<Rightarrow> u) (rows s ! r) else rows s ! r)"
    "data (applyChanges us s) = filter (\<lambda>r. \<not> (r \<in> set (getChangedRows s) \<and> rwIsRemoved (rows s ! r))) (data s)"
    "changeLogs (applyChanges us s) = []"
proof -
  show "rows (applyChanges us s) ! r =
     (if r \<in> set (getChangedRows s)
      then apply_row (case map_of us r of None \<Rightarrow> [] | Some u \<Rightarrow> u) (rows s ! r) else rows s ! r)"
    using update_rows_nth [OF logged_rows(1) [OF assms(1)] assms(2),
        of "\<lambda>r. apply_row (case map_of us r of None \<Rightarrow> [] | Some u \<Rightarrow> u)"]
    by (simp add: applyChanges_def Let_def update_rows_def)
  have none: "filter (\<lambda>r. rwIsRemoved (rows s ! r)) xs = [] \<Longrightarrow>
      filter (\<lambda>r. \<not> (r \<in> set xs \<and> rwIsRemoved (rows s ! r))) ds = ds" for xs ds
    by (rule filter_True) (auto simp: filter_empty_conv)
  show "data (applyChanges us s) = filter (\<lambda>r. \<not> (r \<in> set (getChangedRows s) \<and> rwIsRemoved (rows s ! r))) (data s)"
    using none [of "getChangedRows s" "data s"]
    by (auto simp: applyChanges_def Let_def update_rows_def intro: filter_cong)
  show "changeLogs (applyChanges us s) = []"
    by (simp add: applyChanges_def Let_def)
qed

lemma commit_updates_at:
  assumes "distinct (map fst plans)" and "i < length plans"
  shows "map_of (commit_updates plans results) (fst (plans ! i)) =
     Some (case at_index results (int i) of
            None \<Rightarrow> [] | Some r \<Rightarrow> (case resRecord r of None \<Rightarrow> [] | Some u \<Rightarrow> u))"
proof -
  let ?c = "commit_updates plans results"
  have keys: "map fst ?c = map fst plans"
    by (rule nth_equalityI) (auto simp: commit_updates_def indexed_def)
  have "?c ! i = (fst (plans ! i), case at_index results (int i) of
            None \<Rightarrow> [] | Some r \<Rightarrow> (case resRecord r of None \<Rightarrow> [] | Some u \<Rightarrow> u))"
    using assms(2) by (simp add: commit_updates_def indexed_def)
  moreover have "i < length ?c" using assms(2) by (simp add: commit_updates_def indexed_def)
  ultimately show ?thesis
    using keys assms(1) by (metis map_of_is_SomeI nth_mem)
qed

text \<open>
  C9. A commit that fails keeps the grid with all its pending changes and gives the message.  After
  one that succeeds nothing is pending, the removed rows are gone, the other rows are in their
  places, and a changed row has its original values overridden by the edits and these by the
  record that the database returned for it.
\<close>

theorem commit_outcome:
  assumes "grid_reachable eq s" and "i < length (getChangedRows s)" and "r = getChangedRows s ! i"
    and "\<not> rwIsRemoved (rows s ! r)"
  shows "case updateData (map snd (generateTableChangePlan ts s)) w of
      (Inl e, w1) \<Rightarrow> commitChange updateData ts (\<lambda>g. g) s w = (Some (commit_error e), s, w1)
    | (Inr results, w1) \<Rightarrow>
        (let g = fst (snd (commitChange updateData ts (\<lambda>g. g) s w)) in
         fst (commitChange updateData ts (\<lambda>g. g) s w) = None \<and> getChangedRows g = [] \<and> r \<in> set (data g)
         \<and> data g = filter (\<lambda>q. \<not> (q \<in> set (getChangedRows s) \<and> rwIsRemoved (rows s ! q))) (data s)
         \<and> rows g ! r = raw_row (obj_spread (obj_spread (rwRaw (rows s ! r)) (the (rwChange (rows s ! r))))
              (case at_index results (int i) of None \<Rightarrow> [] | Some res \<Rightarrow>
                 (case resRecord res of None \<Rightarrow> [] | Some u \<Rightarrow> u))))"
proof -
  have ok: "grid_ok s" by (rule reachable_ok [OF assms(1)])
  let ?p = "generateTableChangePlan ts s"
  have r: "r \<in> set (getChangedRows s)" using assms(2,3) by simp
  then have rd: "r \<in> set (data s)" "rwChange (rows s ! r) \<noteq> None" "r < length (rows s)"
    using logged_rows(2) [OF ok] pending_change [OF ok, of r] trackedD(2) [OF ok [unfolded grid_ok_def]]
    by auto
  have names: "map fst ?p = getChangedRows s" "length ?p = length (getChangedRows s)"
    by (simp_all add: plan_rows [OF ok] comp_def)
  then have "fst (?p ! i) = r" using assms(2,3) by (simp add: plan_rows [OF ok])
  then have u: "map_of (commit_updates ?p results) r = Some (case at_index results (int i) of
            None \<Rightarrow> [] | Some r \<Rightarrow> (case resRecord r of None \<Rightarrow> [] | Some u \<Rightarrow> u))" for results
    using commit_updates_at [of ?p i results] names logged_rows(1) [OF ok] assms(2) by simp
  obtain res w1 where e: "updateData (map snd ?p) w = (res, w1)" by (cases "updateData (map snd ?p) w")
  have c: "commitChange updateData ts (\<lambda>g. g) s w = (case res of
        Inr results \<Rightarrow> (None, applyChanges (commit_updates ?p results) s, w1)
      | Inl e \<Rightarrow> (Some (commit_error e), s, w1))"
    by (cases res) (simp_all add: commitChange_def e)
  show ?thesis
    unfolding c e
    using applied_rows [OF ok rd(3)] r rd u assms(4)
    by (cases res) (auto simp: Let_def getChangedRows_def [of "applyChanges us s" for us] apply_row_def)
qed

theorem commit_outcome_witness:
  "fst (commitChange (\<lambda>ops w. (Inr [no_result], w + 1)) example_schema (\<lambda>g. g)
      (run_op (=) (GoChange 0 1 (Str ''z'')) example_grid) (0 :: nat)) = None"
proof -
  let ?s = "run_op (=) (GoChange 0 1 (Str ''z'')) example_grid"
  have "getChangedRows ?s = [0]" "rwIsRemoved (rows ?s ! 0) = False"
    by (simp_all add: getChangedRows_def example_grid_def newTableState_def example_header_def changeValue_def
        at_index_def getOriginalValue_def row_of_def header_name_def raw_row_def obj_at_def write_cell_def
        log_put_def upt_rec Let_def set_row_def)
  then show ?thesis
    using commit_outcome [OF example_grid_reachable [of "(=)" "GoChange 0 1 (Str ''z'')"], of 0 0
        "\<lambda>ops w. (Inr [no_result], w + 1)" example_schema "0 :: nat"]
    by (simp add: Let_def)
qed

text \<open>
  C8. Edits made while a commit waits for the database are lost: when the user edits a row that was
  not changed before, no operation is sent for it, but after the commit the edit counts as
  committed, the new value is the row's original value and nothing is pending.
\<close>

theorem edit_during_commit_lost:
  assumes "grid_reachable eq s" and "editable s y x" and "at_index (data s) y = Some r"
    and "rwChange (rows s ! r) = None" and "\<not> rwIsRemoved (rows s ! r)"
    and "\<not> eq (getOriginalValue s y x) v"
    and "updateData (map snd (generateTableChangePlan ts s)) w = (Inr results, w1)"
  shows "r \<notin> set (map fst (generateTableChangePlan ts s))
    \<and> (let g = fst (snd (commitChange updateData ts (changeValue eq y x v) s w)) in
       getChangedRows g = [] \<and> r \<in> set (data g) \<and> obj_at (rwRaw (rows g ! r)) (header_name s x) = v)"
proof -
  have ok: "grid_ok s" by (rule reachable_ok [OF assms(1)])
  have r: "r \<in> set (data s)" "r < length (rows s)"
    using at_index_set [OF assms(3)] trackedD(2) ok by (auto simp: grid_ok_def)
  let ?u = "changeValue eq y x v s" and ?us = "commit_updates (generateTableChangePlan ts s) results"
  have out: "r \<notin> set (map fst (generateTableChangePlan ts s))"
    using logged_rows(2) [OF ok] pending_change [OF ok r(1)] assms(4)
    by (simp add: plan_rows [OF ok] comp_def)
  have "map fst ?us = map fst (generateTableChangePlan ts s)"
    by (rule nth_equalityI) (auto simp: commit_updates_def indexed_def)
  with out have none: "map_of ?us r = None" by (metis map_of_eq_None_iff set_map)
  have cv: "?u = broadcastChange False (write_cell r (header_name s x) v s)"
    using assms(2,3,6) by (auto simp: editable_def changeValue_def split: option.splits)
  have oku: "grid_ok ?u" by (rule changeValue_ok [OF ok])
  have row: "rows ?u ! r = (rows s ! r)\<lparr>rwChangeKey := Some (Suc (changeCounter s)),
      rwChange := Some [(header_name s x, v)]\<rparr>" "data ?u = data s" "r < length (rows ?u)"
    using r assms(4) by (simp_all add: cv write_cell_def Let_def set_row_def)
  then have ch: "r \<in> set (getChangedRows ?u)"
    using logged_rows(2) [OF oku] r by (simp add: pending_def)
  have spread: "obj_spread ob [(h, v)] = obj_set h v ob" for ob :: "jsval obj" and h
    by (simp add: obj_spread_def)
  have "commitChange updateData ts (changeValue eq y x v) s w = (None, applyChanges ?us ?u, w1)"
    using assms(7) by (simp add: commitChange_def)
  then show ?thesis
    using out applied_rows [OF oku row(3), of ?us] ch none row r assms(5)
    by (simp add: Let_def getChangedRows_def [of "applyChanges us u" for us u] apply_row_def raw_row_def
        spread) (simp add: obj_spread_def)
qed

theorem edit_during_commit_lost_witness:
  "(let g = fst (snd (commitChange (\<lambda>ops w. (Inr [], w + 1)) example_schema (changeValue (=) 0 1 (Str ''late''))
         (run_op (=) (GoFocus 0 0) example_grid) (0 :: nat)))
    in getChangedRows g = [] \<and> obj_at (rwRaw (rows g ! 0)) ''name'' = Str ''late'')"
proof -
  let ?s = "run_op (=) (GoFocus 0 0) example_grid"
  have "header_name ?s 1 = ''name''" "getOriginalValue ?s 0 1 = Str ''a''" "editable ?s 0 1"
    "at_index (data ?s) 0 = Some 0" "rwChange (rows ?s ! 0) = None" "\<not> rwIsRemoved (rows ?s ! 0)"
    by (simp_all add: example_grid_def newTableState_def example_header_def at_index_def upt_rec
        editable_def row_of_def raw_row_def setFocus_def clearLastMove_def focus_container_def
        broadcastChange_def getOriginalValue_def header_name_def obj_at_def)
  then show ?thesis
    using edit_during_commit_lost [OF example_grid_reachable [of "(=)" "GoFocus 0 0"], of 0 1 0 "Str ''late''"
        "\<lambda>ops w. (Inr [], w + 1)" example_schema "0 :: nat" "[]" 1]
    by (simp add: Let_def)
qed

end
