(* ===== verification/TableResult.thy ===== *)
theory TableResult
  imports GridState SqlText
begin

text \<open>
  From a query result to the headers of the grid: \<open>admin/src/lib/build-table-result.ts\<close>, and
  \<open>createTableStateFromResult\<close> of \<open>admin/src/components/gui/table-result/helper.ts\<close>.  The pipes change
  the headers in place, one after the other; here each returns the new headers.  A schema that is
  not loaded makes \<open>pipeEditableTable\<close> throw.
\<close>

record BuildTableResultProps =
  bpResult :: DatabaseResultSet
  bpInfer :: "DatabaseTableColumn option \<Rightarrow> ColumnType option"
  bpTableSchema :: "DatabaseTableSchema option"
  bpSchemas :: DatabaseSchemas

definition set_metadata ::
  "(TableHeaderMetadata \<Rightarrow> TableHeaderMetadata) \<Rightarrow> TableHeader \<Rightarrow> TableHeader" where
  "set_metadata f h = h\<lparr>thMetadata := f (thMetadata h)\<rparr>"

definition find_column :: "string \<Rightarrow> DatabaseTableColumn list \<Rightarrow> DatabaseTableColumn option" where
  "find_column name cols = List.find (\<lambda>c. js_lower (colName c) = js_lower name) cols"

definition find_table :: "DatabaseSchemaItem list \<Rightarrow> string option \<Rightarrow> DatabaseSchemaItem option" where
  "find_table items table = List.find (\<lambda>t. itemTableName t = table) items"

section \<open>Attaching columns\<close>

definition attach_via_schemas ::
  "BuildTableResultProps \<Rightarrow> TableHeaderMetadata \<Rightarrow> TableHeaderMetadata" where
  "attach_via_schemas props md =
     (case mdFrom md of
        None \<Rightarrow> md
      | Some f \<Rightarrow>
          (case Option.bind (map_of (bpSchemas props) (fromSchema f)) (\<lambda>items.
                  Option.bind (find_table items (fromTable f)) itemTableSchema) of
             None \<Rightarrow> md
           | Some ts \<Rightarrow>
               (let md1 = (if fromColumn f \<in> set (tsPk ts) then md\<lparr>mdIsPrimaryKey := True\<rparr> else md)
                in case find_column (fromColumn f) (tsColumns ts) of
                     None \<Rightarrow> md1
                   | Some col \<Rightarrow>
                       md1\<lparr>mdType := (if mdType md1 = None then bpInfer props (Some col) else mdType md1),
                           mdColumnSchema := Some col\<rparr>)))"

definition pipeAttachColumnViaSchemas ::
  "BuildTableResultProps \<Rightarrow> TableHeader list \<Rightarrow> TableHeader list" where
  "pipeAttachColumnViaSchemas props hs =
     (if bpTableSchema props \<noteq> None then hs else map (set_metadata (attach_via_schemas props)) hs)"

definition index_of :: "'a \<Rightarrow> 'a list \<Rightarrow> nat option" where
  "index_of x xs = find_index (\<lambda>y. y = x) xs"

definition column_reference ::
  "DatabaseTableColumn option \<Rightarrow> (string option \<times> string option \<times> string option) option" where
  "column_reference col =
     Option.bind (Option.bind col (\<lambda>c. con_get c foreignKey)) (\<lambda>fk.
       map_option (\<lambda>cols. (foreignSchemaName fk, foreignTableName fk, at_index cols 0)) (foreignColumns fk))"

definition constraint_reference ::
  "string \<Rightarrow> DatabaseTableColumnConstraint \<Rightarrow> (string option \<times> string option \<times> string option) option \<Rightarrow>
   (string option \<times> string option \<times> string option) option" where
  "constraint_reference name con old =
     (case field_opt (foreignKey con) of
        None \<Rightarrow> old
      | Some fk \<Rightarrow>
          (case Option.bind (fkColumns fk) (index_of name) of
             None \<Rightarrow> old
           | Some i \<Rightarrow> Some (foreignSchemaName fk, foreignTableName fk, at_index (the (fkColumns fk)) (int i))))"

definition attach_table_schema ::
  "BuildTableResultProps \<Rightarrow> DatabaseTableSchema \<Rightarrow> string \<Rightarrow> TableHeaderMetadata \<Rightarrow> TableHeaderMetadata" where
  "attach_table_schema props ts name md =
     (let col = find_column name (tsColumns ts);
          md1 = md\<lparr>mdColumnSchema := col, mdOriginalType := map_option colType col,
                  mdType := (if mdType md = None then bpInfer props col else mdType md),
                  mdFrom := Some \<lparr>fromSchema = tsSchemaName ts, fromTable = tsTableName ts,
                                  fromColumn = name\<rparr>\<rparr>;
          md2 = (if js_lower name \<in> set (map js_lower (tsPk ts)) then md1\<lparr>mdIsPrimaryKey := True\<rparr> else md1);
          ref1 = (case column_reference col of None \<Rightarrow> mdReferenceTo md2 | Some r \<Rightarrow> Some r)
      in md2\<lparr>mdReferenceTo :=
           fold (constraint_reference name) (case tsConstraints ts of None \<Rightarrow> [] | Some cs \<Rightarrow> cs) ref1\<rparr>)"

definition pipeWithTableSchema :: "BuildTableResultProps \<Rightarrow> TableHeader list \<Rightarrow> TableHeader list" where
  "pipeWithTableSchema props hs =
     (case bpTableSchema props of
        None \<Rightarrow> hs
      | Some ts \<Rightarrow> map (\<lambda>h. set_metadata (attach_table_schema props ts (thName h)) h) hs)"

section \<open>What can be edited\<close>

record ResultTable =
  rtSchema :: string
  rtTable :: "string option"
  rtColumns :: "string list"
  rtPkColumns :: "string list"

text \<open>\<open>tables.find(...)\<close> and \<open>table.columns.push(...)\<close>.\<close>

fun push_column :: "FromColumn \<Rightarrow> ResultTable list \<Rightarrow> ResultTable list option" where
  "push_column f [] = None"
| "push_column f (t # ts) =
     (if rtSchema t = fromSchema f \<and> rtTable t = fromTable f
      then Some (t\<lparr>rtColumns := rtColumns t @ [fromColumn f]\<rparr> # ts)
      else map_option ((#) t) (push_column f ts))"

definition pk_of :: "DatabaseSchemaItem list \<Rightarrow> string option \<Rightarrow> string list" where
  "pk_of items table =
     (case Option.bind (find_table items table) itemTableSchema of None \<Rightarrow> [] | Some ts \<Rightarrow> tsPk ts)"

fun collect_tables ::
  "DatabaseSchemas \<Rightarrow> TableHeader list \<Rightarrow> ResultTable list \<Rightarrow> ResultTable list result" where
  "collect_tables schemas [] tables = Inr tables"
| "collect_tables schemas (h # hs) tables =
     (case mdFrom (thMetadata h) of
        None \<Rightarrow> collect_tables schemas hs tables
      | Some f \<Rightarrow>
          if \<not> mdIsPrimaryKey (thMetadata h) then collect_tables schemas hs tables
          else case push_column f tables of
              Some tables1 \<Rightarrow> collect_tables schemas hs tables1
            | None \<Rightarrow>
                (case map_of schemas (fromSchema f) of
                   None \<Rightarrow> Inl (TypeError ''Cannot read properties of undefined (reading find)'')
                 | Some items \<Rightarrow>
                     collect_tables schemas hs (tables @
                       [\<lparr>rtSchema = fromSchema f, rtTable = fromTable f, rtColumns = [fromColumn f],
                         rtPkColumns = pk_of items (fromTable f)\<rparr>])))"

definition table_editable :: "ResultTable \<Rightarrow> bool" where
  "table_editable t =
     (length (filter (\<lambda>c. c \<in> set (rtPkColumns t)) (rtColumns t)) = length (rtPkColumns t)
      \<or> (rtPkColumns t = [] \<and> rtColumns t = [''rowid'']))"

definition of_table :: "ResultTable \<Rightarrow> TableHeader \<Rightarrow> bool" where
  "of_table t h =
     (case mdFrom (thMetadata h) of
        None \<Rightarrow> False | Some f \<Rightarrow> fromSchema f = rtSchema t \<and> fromTable f = rtTable t)"

definition unlock_table :: "ResultTable \<Rightarrow> TableHeader list \<Rightarrow> TableHeader list" where
  "unlock_table t hs =
     (if table_editable t then map (\<lambda>h. if of_table t h then h\<lparr>thReadonly := False\<rparr> else h) hs else hs)"

definition pipeEditableTable :: "BuildTableResultProps \<Rightarrow> TableHeader list \<Rightarrow> TableHeader list result" where
  "pipeEditableTable props hs =
     rbind (collect_tables (bpSchemas props) hs []) (\<lambda>tables. Inr (fold unlock_table tables hs))"

definition pipeVirtualColumnAsReadOnly :: "TableHeader list \<Rightarrow> TableHeader list" where
  "pipeVirtualColumnAsReadOnly hs =
     map (\<lambda>h. if truthy_str (Option.bind (mdColumnSchema (thMetadata h)) (\<lambda>c. con_get c generatedExpression))
              then h\<lparr>thReadonly := True\<rparr> else h) hs"

definition pipeCloudflareSpecialTable :: "TableHeader list \<Rightarrow> TableHeader list" where
  "pipeCloudflareSpecialTable hs =
     map (\<lambda>h. if Option.bind (mdFrom (thMetadata h)) fromTable = Some ''_cf_KV''
              then h\<lparr>thReadonly := True\<rparr> else h) hs"

section \<open>Sizes and icons\<close>

definition text_size :: "DatabaseResultSet \<Rightarrow> string \<Rightarrow> nat" where
  "text_size r name =
     fold (\<lambda>row m. max (length (if nullish (obj_at row name) then [] else js_String (obj_at row name))) m)
       (take 100 (rsRows r)) 0"

definition initial_size :: "DatabaseResultSet \<Rightarrow> TableHeader \<Rightarrow> rat" where
  "initial_size r h =
     (if mdType (thMetadata h) = Some ColumnTEXT
      then max 150 (min 500 (of_nat (text_size r (thName h) * 8))) else 100)"

definition pipeCalculateInitialSize :: "BuildTableResultProps \<Rightarrow> TableHeader list \<Rightarrow> TableHeader list" where
  "pipeCalculateInitialSize props hs =
     map (\<lambda>h. h\<lparr>thInitialSize := initial_size (bpResult props) h\<rparr>) hs"

definition pipeColumnIcon :: "TableHeader list \<Rightarrow> TableHeader list" where
  "pipeColumnIcon hs =
     map (\<lambda>h. if mdIsPrimaryKey (thMetadata h) then h\<lparr>thIcon := Some KeyIcon\<rparr>
              else if mdReferenceTo (thMetadata h) \<noteq> None then h\<lparr>thIcon := Some KeySquareIcon\<rparr>
              else if truthy_str (Option.bind (mdColumnSchema (thMetadata h)) (\<lambda>c. con_get c generatedExpression))
                then h\<lparr>thIcon := Some SigmaIcon\<rparr>
              else h) hs"

section \<open>The headers\<close>

definition initial_header :: "DatabaseHeader \<Rightarrow> TableHeader" where
  "initial_header column =
     \<lparr>thName = hdName column, thText = hdDisplayName column, thInitialSize = 0, thIcon = None,
      thDecorator = None, thResizable = True, thReadonly = True,
      thMetadata =
        \<lparr>mdFrom = (if truthy_str (hdTable column) \<and> truthy_str (hdSchema column)
                   then Some \<lparr>fromSchema = the (hdSchema column), fromTable = hdTable column,
                     fromColumn = (case hdOriginalName column of None \<Rightarrow> hdName column | Some n \<Rightarrow> n)\<rparr>
                   else None),
         mdIsPrimaryKey = False, mdReferenceTo = None, mdType = hdType column,
         mdOriginalType = hdOriginalType column, mdColumnSchema = None\<rparr>\<rparr>"

definition buildTableResultHeader :: "BuildTableResultProps \<Rightarrow> TableHeader list result" where
  "buildTableResultHeader props =
     (let h1 = map initial_header (rsHeaders (bpResult props));
          h2 = pipeWithTableSchema props h1;
          h3 = pipeAttachColumnViaSchemas props h2
      in rbind (pipeEditableTable props h3) (\<lambda>h4.
           let h5 = pipeVirtualColumnAsReadOnly h4;
               h6 = pipeCloudflareSpecialTable h5;
               h7 = pipeCalculateInitialSize props h6
           in Inr (pipeColumnIcon h7)))"

definition createTableStateFromResult :: "BuildTableResultProps \<Rightarrow> OptimizeTableState result" where
  "createTableStateFromResult props =
     rbind (buildTableResultHeader props) (\<lambda>hs.
       let r = newTableState hs (map (\<lambda>row. obj_spread [] row) (rsRows (bpResult props)));
           r1 = (if 1000 \<le> getRowsCount r then r\<lparr>gutterColumnWidth := 50\<rparr> else r)
       in Inr (if 10000 \<le> getRowsCount r1 then r1\<lparr>gutterColumnWidth := 60\<rparr> else r1))"

text \<open>\<open>createSimpleTableState\<close> of \<open>components/gui/table-optimized/helper.ts\<close>.\<close>

definition createSimpleTableState :: "string list \<Rightarrow> jsval obj list \<Rightarrow> OptimizeTableState" where
  "createSimpleTableState hs rs =
     newTableState (map (\<lambda>name.
       \<lparr>thName = name, thText = name, thInitialSize = 150, thIcon = None, thDecorator = None,
        thResizable = True, thReadonly = True,
        thMetadata = \<lparr>mdFrom = None, mdIsPrimaryKey = False, mdReferenceTo = None, mdType = None,
          mdOriginalType = None, mdColumnSchema = None\<rparr>\<rparr>) hs) rs"

section \<open>Only rows with a key can be edited\<close>

definition key_columns :: "TableHeader list \<Rightarrow> string \<Rightarrow> string option \<Rightarrow> string list" where
  "key_columns hs schema table =
     List.map_filter (\<lambda>h. case mdFrom (thMetadata h) of
        Some f \<Rightarrow> if mdIsPrimaryKey (thMetadata h) \<and> fromSchema f = schema \<and> fromTable f = table
                   then Some (fromColumn f) else None
      | None \<Rightarrow> None) hs"

text \<open>What the first loop has collected: one entry per table, with the key columns seen so far.\<close>

definition tables_ok :: "DatabaseSchemas \<Rightarrow> ResultTable list \<Rightarrow> TableHeader list \<Rightarrow> bool" where
  "tables_ok schemas tables hs =
     list_all (\<lambda>t. rtColumns t \<noteq> [] \<and> rtColumns t = key_columns hs (rtSchema t) (rtTable t)
        \<and> rtPkColumns t = (case map_of schemas (rtSchema t) of None \<Rightarrow> [] | Some items \<Rightarrow> pk_of items (rtTable t)))
       tables"

lemma push_column_None:
  "push_column f ts = None \<Longrightarrow> t \<in> set ts \<Longrightarrow> \<not> (rtSchema t = fromSchema f \<and> rtTable t = fromTable f)"
  by (induction ts) (auto split: if_splits)

definition table_id :: "ResultTable \<Rightarrow> string \<times> string option" where
  "table_id t = (rtSchema t, rtTable t)"

lemma push_column_Some:
  "push_column f ts = Some us \<Longrightarrow> map table_id us = map table_id ts \<and> (fromSchema f, fromTable f) \<in> set (map table_id ts)
     \<and> (distinct (map table_id ts) \<longrightarrow> us = map (\<lambda>t. if table_id t = (fromSchema f, fromTable f)
            then t\<lparr>rtColumns := rtColumns t @ [fromColumn f]\<rparr> else t) ts)"
proof (induction ts arbitrary: us)
  case (Cons t ts)
  show ?case
  proof (cases "rtSchema t = fromSchema f \<and> rtTable t = fromTable f")
    case True
    have "map (\<lambda>t. if table_id t = (fromSchema f, fromTable f)
            then t\<lparr>rtColumns := rtColumns t @ [fromColumn f]\<rparr> else t) ts = ts"
      if "table_id t \<notin> set (map table_id ts)"
      using that True unfolding table_id_def by (intro map_idI) (metis (no_types, lifting) imageI list.set_map)
    with True Cons.prems show ?thesis by (auto simp: table_id_def)
  next
    case False
    with Cons.prems obtain us1 where "push_column f ts = Some us1" "us = t # us1" by auto
    with Cons.IH [of us1] False show ?thesis by (auto simp: table_id_def)
  qed
qed simp

lemma key_columns_snoc:
  "key_columns (hs @ [h]) schema table = key_columns hs schema table @
     (case mdFrom (thMetadata h) of
        Some f \<Rightarrow> if mdIsPrimaryKey (thMetadata h) \<and> fromSchema f = schema \<and> fromTable f = table
                   then [fromColumn f] else []
      | None \<Rightarrow> [])"
  by (auto simp: key_columns_def map_filter_def split: option.splits)

lemma key_columns_unseen:
  "(\<And>h f. h \<in> set hs \<Longrightarrow> mdFrom (thMetadata h) = Some f \<Longrightarrow> mdIsPrimaryKey (thMetadata h) \<Longrightarrow>
      (fromSchema f, fromTable f) \<noteq> (schema, table)) \<Longrightarrow> key_columns hs schema table = []"
  by (induction hs) (auto simp: key_columns_def map_filter_simps split: option.splits)

text \<open>The loop's invariant: the tables are those of the key headers seen, each once.\<close>

definition loop_inv :: "DatabaseSchemas \<Rightarrow> TableHeader list \<Rightarrow> ResultTable list \<Rightarrow> bool" where
  "loop_inv schemas seen tables =
     (distinct (map table_id tables) \<and> tables_ok schemas tables seen
      \<and> (\<forall>h f. h \<in> set seen \<longrightarrow> mdFrom (thMetadata h) = Some f \<longrightarrow> mdIsPrimaryKey (thMetadata h) \<longrightarrow>
           (fromSchema f, fromTable f) \<in> set (map table_id tables)))"

lemma collect_tables_inv:
  "loop_inv schemas seen tables \<Longrightarrow> collect_tables schemas hs tables = Inr out \<Longrightarrow>
     loop_inv schemas (seen @ hs) out"
proof (induction hs arbitrary: seen tables)
  case (Cons h hs)
  show ?case
  proof (cases "mdFrom (thMetadata h)")
    case None
    have "loop_inv schemas (seen @ [h]) tables"
      using Cons.prems(1) None by (auto simp: loop_inv_def tables_ok_def key_columns_snoc)
    with Cons.IH [OF this] Cons.prems(2) None show ?thesis by simp
  next
    case (Some f)
    show ?thesis
    proof (cases "mdIsPrimaryKey (thMetadata h)")
      case False
      have "loop_inv schemas (seen @ [h]) tables"
        using Cons.prems(1) Some False by (auto simp: loop_inv_def tables_ok_def key_columns_snoc)
      with Cons.IH [OF this] Cons.prems(2) Some False show ?thesis by simp
    next
      case True
      show ?thesis
      proof (cases "push_column f tables")
        case (Some us)
        note p = push_column_Some [OF Some]
        have "distinct (map table_id us)"
          using Cons.prems(1) conjunct1 [OF p] by (simp only: loop_inv_def)
        moreover have "tables_ok schemas us (seen @ [h])"
          using Cons.prems(1) p \<open>mdFrom (thMetadata h) = Some f\<close> True
          by (auto simp: loop_inv_def tables_ok_def key_columns_snoc list_all_iff table_id_def
              cong: option.case_cong)
        ultimately have "loop_inv schemas (seen @ [h]) us"
          using Cons.prems(1) conjunct1 [OF p] conjunct1 [OF conjunct2 [OF p]]
            \<open>mdFrom (thMetadata h) = Some f\<close>
          unfolding loop_inv_def by (metis (no_types, lifting) Un_iff list.set(1,2) option.inject set_append
              singletonD)
        with Cons.IH [OF this] Cons.prems(2) \<open>mdFrom (thMetadata h) = Some f\<close> True Some
        show ?thesis by simp
      next
        case None
        let ?t = "\<lambda>items. \<lparr>rtSchema = fromSchema f, rtTable = fromTable f, rtColumns = [fromColumn f],
            rtPkColumns = pk_of items (fromTable f)\<rparr>"
        from Cons.prems(2) \<open>mdFrom (thMetadata h) = Some f\<close> True None obtain items
          where items: "map_of schemas (fromSchema f) = Some items"
            "collect_tables schemas hs (tables @ [?t items]) = Inr out"
          by (auto split: option.splits)
        have new: "(fromSchema f, fromTable f) \<notin> set (map table_id tables)"
        proof
          assume "(fromSchema f, fromTable f) \<in> set (map table_id tables)"
          then obtain t where "t \<in> set tables" "table_id t = (fromSchema f, fromTable f)" by auto
          with push_column_None [OF None, of t] show False by (simp add: table_id_def)
        qed
        then have none: "key_columns seen (fromSchema f) (fromTable f) = []"
          using Cons.prems(1) by (intro key_columns_unseen) (auto simp: loop_inv_def)
        have other: "key_columns (seen @ [h]) (rtSchema t) (rtTable t) = key_columns seen (rtSchema t) (rtTable t)"
          if "t \<in> set tables" for t
          using that new \<open>mdFrom (thMetadata h) = Some f\<close>
          by (auto simp: key_columns_snoc table_id_def)
        have "loop_inv schemas (seen @ [h]) (tables @ [?t items])"
          using Cons.prems(1) new none other items(1) \<open>mdFrom (thMetadata h) = Some f\<close> True
          by (auto simp: loop_inv_def tables_ok_def list_all_iff table_id_def key_columns_snoc)
        from Cons.IH [OF this items(2)] show ?thesis by simp
      qed
    qed
  qed
qed simp

lemma unlock_other: "\<not> list_ex (\<lambda>t. table_editable t \<and> of_table t h) tables \<Longrightarrow> i < length hs \<Longrightarrow> hs ! i = h \<Longrightarrow>
    fold unlock_table tables hs ! i = h"
proof (induction tables arbitrary: hs)
  case (Cons t tables)
  have "unlock_table t hs ! i = h" "i < length (unlock_table t hs)"
    using Cons.prems by (auto simp: unlock_table_def)
  with Cons.IH [of "unlock_table t hs"] Cons.prems show ?case by simp
qed simp

lemma unlock_fields:
  "length (fold unlock_table tables hs) = length hs"
  "i < length hs \<Longrightarrow> thMetadata (fold unlock_table tables hs ! i) = thMetadata (hs ! i)"
proof -
  have "length (fold unlock_table tables hs) = length hs \<and>
    (i < length hs \<longrightarrow> thMetadata (fold unlock_table tables hs ! i) = thMetadata (hs ! i))"
  proof (induction tables arbitrary: hs)
    case (Cons t tables)
    have "length (unlock_table t hs) = length hs"
      "i < length hs \<Longrightarrow> thMetadata (unlock_table t hs ! i) = thMetadata (hs ! i)"
      by (auto simp: unlock_table_def)
    with Cons [of "unlock_table t hs"] show ?case by simp
  qed simp
  then show "length (fold unlock_table tables hs) = length hs"
    and "i < length hs \<Longrightarrow> thMetadata (fold unlock_table tables hs ! i) = thMetadata (hs ! i)" by simp_all
qed

lemma whole_key:
  assumes "length (filter (\<lambda>c. c \<in> set pk) cols) = length pk" and "distinct cols" and "distinct pk"
  shows "set pk \<subseteq> set cols"
proof -
  let ?m = "filter (\<lambda>c. c \<in> set pk) cols"
  have "card (set ?m) = card (set pk)"
    using assms by (simp only: distinct_card distinct_filter)
  moreover have "set ?m \<subseteq> set pk" by auto
  ultimately have "set ?m = set pk" by (intro card_subset_eq) simp_all
  then show ?thesis by auto
qed


definition pk_header :: "string \<Rightarrow> bool \<Rightarrow> TableHeader" where
  "pk_header name pk =
     \<lparr>thName = name, thText = name, thInitialSize = 0, thIcon = None, thDecorator = None, thResizable = True,
      thReadonly = True,
      thMetadata = \<lparr>mdFrom = Some \<lparr>fromSchema = ''main'', fromTable = Some ''t'', fromColumn = name\<rparr>,
        mdIsPrimaryKey = pk, mdReferenceTo = None, mdType = None, mdOriginalType = None,
        mdColumnSchema = None\<rparr>\<rparr>"

definition pk_props :: "string list \<Rightarrow> BuildTableResultProps" where
  "pk_props pk =
     \<lparr>bpResult = \<lparr>rsRows = [], rsHeaders = [], rsStat = \<lparr>rowsAffected = Dec 0 0, rowsRead = None,
        rowsWritten = None, queryDurationMs = None\<rparr>, rsLastInsertRowid = None\<rparr>,
      bpInfer = (\<lambda>_. None), bpTableSchema = None,
      bpSchemas = [(''main'', [\<lparr>itemType = KindTable, itemName = ''t'', itemSchemaName = ''main'',
        itemTableName = Some ''t'', itemTableSchema = Some
          \<lparr>tsColumns = [], tsPk = pk, tsAutoIncrement = False, tsSchemaName = ''main'',
           tsTableName = Some ''t'', tsConstraints = None, tsCreateScript = None, tsFts5 = None,
           tsType = None, tsWithoutRowId = None, tsStrict = None, tsSizeInByte = None\<rparr>\<rparr>])]\<rparr>"


text \<open>
  The same key column twice counts as two: with the key \<open>(a, b)\<close>, a result with \<open>a\<close> twice and no
  \<open>b\<close> is unlocked.
\<close>

lemma key_column_twice:
  "pipeEditableTable (pk_props [''a'', ''b'']) [pk_header ''a'' True, pk_header ''a'' True, pk_header ''c'' False]
     = Inr (map (\<lambda>h. h\<lparr>thReadonly := False\<rparr>) [pk_header ''a'' True, pk_header ''a'' True, pk_header ''c'' False])"
  by (simp add: pipeEditableTable_def pk_props_def pk_header_def pk_of_def find_table_def table_editable_def
      unlock_table_def of_table_def)

text \<open>A foreign key of the table is shown as a reference to the column itself.\<close>

lemma constraint_reference_column:
  assumes "field_opt (foreignKey con) = Some fk" and "fkColumns fk = Some cols" and "name \<in> set cols"
  shows "constraint_reference name con old = Some (foreignSchemaName fk, foreignTableName fk, Some name)"
proof -
  have ex: "y \<in> set ys \<Longrightarrow> \<exists>i. find_index (\<lambda>z. z = y) ys = Some i" for y :: string and ys
    by (induction ys) auto
  then obtain i where "find_index (\<lambda>z. z = name) cols = Some i" using assms(3) by blast
  with find_index_Some [OF this] assms(1,2) show ?thesis
    by (simp add: constraint_reference_def index_of_def at_index_def)
qed

end
