(* ===== verification/MysqlDriver.thy ===== *)
theory MysqlDriver
  imports SqliteDriver
begin

text \<open>
  The catalogue of the class \<open>MySQLLikeDriver\<close>, \<open>admin/src/drivers/mysql/mysql-driver.ts\<close>: rows of
  \<open>information_schema\<close> become columns, constraints, tables, triggers and views.

  \<open>schemas()\<close> keeps the tables twice, in the array of their schema and in a record under the key
  \<open>schema.table\<close>, and the constraints twice as well.  A table object is its position in
  \<open>mcTables\<close> here, a constraint object its table and its position in the array \<open>constraints\<close>.
\<close>

section \<open>Rows of the catalogue\<close>

record MySqlTable =
  mtTableSchema :: string
  mtTableName :: string
  mtTableType :: string
  mtIndexLength :: jsval
  mtDataLength :: jsval

record MySqlColumn =
  mcTableSchema :: string
  mcTableName :: string
  mcColumnName :: string
  mcExtra :: string
  mcColumnKey :: string
  mcIsNullable :: string
  mcColumnDefault :: "string option"
  mcColumnType :: string
  mcCollationName :: "string option"

record MySQLConstraintResult =
  mkTableSchema :: string
  mkTableName :: string
  mkConstraintName :: string
  mkConstraintType :: string

record MySQLConstraintColumnResult =
  mxTableSchema :: string
  mxTableName :: string
  mxColumnName :: string
  mxConstraintName :: string
  mxReferencedTableSchema :: string
  mxReferencedTableName :: string
  mxReferencedColumnName :: string

record MySQLTriggerResult =
  mrTriggerName :: string
  mrEventObjectSchema :: string
  mrEventObjectTable :: string
  mrActionTiming :: TriggerWhen
  mrActionStatement :: string
  mrTriggerSchema :: string
  mrEventManipulation :: TriggerOperation

text \<open>The casts of result rows; a property that is absent or null is \<^const>\<open>None\<close>.\<close>

definition text_opt :: "jsval \<Rightarrow> string option" where
  "text_opt v = (if nullish v then None else Some (as_text v))"

definition as_MySqlTable :: "jsval obj \<Rightarrow> MySqlTable" where
  "as_MySqlTable r =
     \<lparr>mtTableSchema = as_text (obj_at r ''TABLE_SCHEMA''), mtTableName = as_text (obj_at r ''TABLE_NAME''),
      mtTableType = as_text (obj_at r ''TABLE_TYPE''), mtIndexLength = obj_at r ''INDEX_LENGTH'',
      mtDataLength = obj_at r ''DATA_LENGTH''\<rparr>"

definition as_MySqlColumn :: "jsval obj \<Rightarrow> MySqlColumn" where
  "as_MySqlColumn r =
     \<lparr>mcTableSchema = as_text (obj_at r ''TABLE_SCHEMA''), mcTableName = as_text (obj_at r ''TABLE_NAME''),
      mcColumnName = as_text (obj_at r ''COLUMN_NAME''), mcExtra = as_text (obj_at r ''EXTRA''),
      mcColumnKey = as_text (obj_at r ''COLUMN_KEY''), mcIsNullable = as_text (obj_at r ''IS_NULLABLE''),
      mcColumnDefault = text_opt (obj_at r ''COLUMN_DEFAULT''),
      mcColumnType = as_text (obj_at r ''COLUMN_TYPE''),
      mcCollationName = text_opt (obj_at r ''COLLATION_NAME'')\<rparr>"

definition as_MySQLConstraintResult :: "jsval obj \<Rightarrow> MySQLConstraintResult" where
  "as_MySQLConstraintResult r =
     \<lparr>mkTableSchema = as_text (obj_at r ''TABLE_SCHEMA''), mkTableName = as_text (obj_at r ''TABLE_NAME''),
      mkConstraintName = as_text (obj_at r ''CONSTRAINT_NAME''),
      mkConstraintType = as_text (obj_at r ''CONSTRAINT_TYPE'')\<rparr>"

definition as_MySQLConstraintColumnResult :: "jsval obj \<Rightarrow> MySQLConstraintColumnResult" where
  "as_MySQLConstraintColumnResult r =
     \<lparr>mxTableSchema = as_text (obj_at r ''TABLE_SCHEMA''), mxTableName = as_text (obj_at r ''TABLE_NAME''),
      mxColumnName = as_text (obj_at r ''COLUMN_NAME''),
      mxConstraintName = as_text (obj_at r ''CONSTRAINT_NAME''),
      mxReferencedTableSchema = as_text (obj_at r ''REFERENCED_TABLE_SCHEMA''),
      mxReferencedTableName = as_text (obj_at r ''REFERENCED_TABLE_NAME''),
      mxReferencedColumnName = as_text (obj_at r ''REFERENCED_COLUMN_NAME'')\<rparr>"

definition as_when :: "jsval \<Rightarrow> TriggerWhen" where
  "as_when v = (if v = Str ''AFTER'' then AFTER else if v = Str ''INSTEAD OF'' then INSTEAD_OF else BEFORE)"

definition as_operation :: "jsval \<Rightarrow> TriggerOperation" where
  "as_operation v = (if v = Str ''INSERT'' then TriggerINSERT
                     else if v = Str ''UPDATE'' then TriggerUPDATE else TriggerDELETE)"

definition as_MySQLTriggerResult :: "jsval obj \<Rightarrow> MySQLTriggerResult" where
  "as_MySQLTriggerResult r =
     \<lparr>mrTriggerName = as_text (obj_at r ''TRIGGER_NAME''),
      mrEventObjectSchema = as_text (obj_at r ''EVENT_OBJECT_SCHEMA''),
      mrEventObjectTable = as_text (obj_at r ''EVENT_OBJECT_TABLE''),
      mrActionTiming = as_when (obj_at r ''ACTION_TIMING''),
      mrActionStatement = as_text (obj_at r ''ACTION_STATEMENT''),
      mrTriggerSchema = as_text (obj_at r ''TRIGGER_SCHEMA''),
      mrEventManipulation = as_operation (obj_at r ''EVENT_MANIPULATION'')\<rparr>"

section \<open>Columns\<close>

text \<open>\<open>result.constraint = {...result.constraint, f: v}\<close>.\<close>

definition with_con ::
  "(DatabaseTableColumnConstraint \<Rightarrow> DatabaseTableColumnConstraint) \<Rightarrow> DatabaseTableColumn \<Rightarrow>
   DatabaseTableColumn" where
  "with_con f col =
     col\<lparr>colConstraint := Some (f (case colConstraint col of None \<Rightarrow> no_constraint | Some c \<Rightarrow> c))\<rparr>"

definition mapColumn :: "MySqlColumn \<Rightarrow> DatabaseTableColumn" where
  "mapColumn column =
     (let r0 = \<lparr>colName = mcColumnName column, colType = mcColumnType column, colPk = None,
                colConstraint = None\<rparr>;
          r1 = (if mcIsNullable column = ''NO'' then with_con (\<lambda>k. k\<lparr>notNull := Is True\<rparr>) r0 else r0);
          r2 = (if mcColumnKey column = ''PRI'' then with_con (\<lambda>k. k\<lparr>primaryKey := Is True\<rparr>) r1 else r1);
          r3 = (case mcColumnDefault column of
                  None \<Rightarrow> if mcIsNullable column = ''YES''
                          then with_con (\<lambda>k. k\<lparr>defaultExpression := Is ''NULL''\<rparr>) r2 else r2
                | Some d \<Rightarrow> with_con (\<lambda>k. k\<lparr>DatabaseTypes.defaultValue := Is (Str d)\<rparr>) r2)
      in if truthy_str (mcCollationName column)
         then with_con (\<lambda>k. k\<lparr>collate := Is (the (mcCollationName column))\<rparr>) r3 else r3)"

section \<open>The catalogue of all schemas\<close>

record MysqlSchemaItem = DatabaseSchemaItem +
  itemTiming :: "TriggerWhen option"
  itemStatement :: "string option"

record MysqlCatalog =
  mcTables :: "MysqlSchemaItem list"
  mcTableRecord :: "nat obj"
  mcSchemaRecord :: "(nat + MysqlSchemaItem) list obj"
  mcConstraintRecords :: "(nat \<times> nat) obj"

definition empty_catalog :: MysqlCatalog where
  "empty_catalog = \<lparr>mcTables = [], mcTableRecord = [], mcSchemaRecord = [], mcConstraintRecords = []\<rparr>"

definition key2 :: "string \<Rightarrow> string \<Rightarrow> string" where
  "key2 a b = a @ ''.'' @ b"

definition key3 :: "string \<Rightarrow> string \<Rightarrow> string \<Rightarrow> string" where
  "key3 a b c = a @ ''.'' @ b @ ''.'' @ c"

definition modify_at :: "nat \<Rightarrow> ('a \<Rightarrow> 'a) \<Rightarrow> 'a list \<Rightarrow> 'a list" where
  "modify_at a f xs = xs[a := f (xs ! a)]"

definition num_add :: "jsnum \<Rightarrow> jsnum \<Rightarrow> jsnum" where
  "num_add a b =
     (case (a, b) of
        (NaN, _) \<Rightarrow> NaN
      | (_, NaN) \<Rightarrow> NaN
      | (Infinite n, Infinite m) \<Rightarrow> (if n = m then Infinite n else NaN)
      | (Infinite n, Dec _ _) \<Rightarrow> Infinite n
      | (Dec _ _, Infinite m) \<Rightarrow> Infinite m
      | (Dec m s, Dec n t) \<Rightarrow> mk_dec (m * 10 ^ t + n * 10 ^ s) (s + t))"

definition add_schema :: "string \<Rightarrow> MysqlCatalog \<Rightarrow> MysqlCatalog" where
  "add_schema s st = st\<lparr>mcSchemaRecord := obj_set s [] (mcSchemaRecord st)\<rparr>"

definition mysql_table_item :: "MySqlTable \<Rightarrow> MysqlSchemaItem" where
  "mysql_table_item t =
     \<lparr>itemType = (if mtTableType t = ''VIEW'' then KindView else KindTable), itemName = mtTableName t,
      itemSchemaName = mtTableSchema t, itemTableName = Some (mtTableName t),
      itemTableSchema = Some
        \<lparr>tsColumns = [], tsPk = [], tsAutoIncrement = False, tsSchemaName = mtTableSchema t,
         tsTableName = Some (mtTableName t), tsConstraints = None, tsCreateScript = None,
         tsFts5 = None, tsType = None, tsWithoutRowId = None, tsStrict = None,
         tsSizeInByte = Some (num_add (js_ToNumber (mtDataLength t)) (js_ToNumber (mtIndexLength t)))\<rparr>,
      itemTiming = None, itemStatement = None\<rparr>"

definition add_table :: "MySqlTable \<Rightarrow> MysqlCatalog \<Rightarrow> MysqlCatalog" where
  "add_table t st =
     (let a = length (mcTables st);
          sch = mcSchemaRecord st
      in st\<lparr>mcTables := mcTables st @ [mysql_table_item t],
            mcTableRecord := obj_set (key2 (mtTableSchema t) (mtTableName t)) a (mcTableRecord st),
            mcSchemaRecord :=
              (case map_of sch (mtTableSchema t) of
                 None \<Rightarrow> sch
               | Some xs \<Rightarrow> obj_set (mtTableSchema t) (xs @ [Inl a]) sch)\<rparr>)"

text \<open>A change of the table schema of the table object at \<open>a\<close>.\<close>

definition on_schema ::
  "(DatabaseTableSchema \<Rightarrow> DatabaseTableSchema) \<Rightarrow> MysqlSchemaItem \<Rightarrow> MysqlSchemaItem" where
  "on_schema f it = it\<lparr>itemTableSchema := map_option f (itemTableSchema it)\<rparr>"

definition push_table_column :: "DatabaseTableColumn \<Rightarrow> DatabaseTableSchema \<Rightarrow> DatabaseTableSchema" where
  "push_table_column c ts = ts\<lparr>tsColumns := tsColumns ts @ [c]\<rparr>"

definition column_key :: "MySqlColumn \<Rightarrow> string" where
  "column_key c = key2 (mcTableSchema c) (mcTableName c)"

text \<open>\<open>tableRecord[tableKey].tableSchema\<close> has no guard: an unknown table throws.\<close>

fun add_columns :: "MySqlColumn list \<Rightarrow> MysqlCatalog \<Rightarrow> MysqlCatalog result" where
  "add_columns [] st = Inr st"
| "add_columns (c # cs) st =
     (case map_of (mcTableRecord st) (column_key c) of
        None \<Rightarrow> Inl (TypeError ''Cannot read properties of undefined (reading 'tableSchema')'')
      | Some a \<Rightarrow> add_columns cs
          (st\<lparr>mcTables := modify_at a (on_schema (push_table_column (mapColumn c))) (mcTables st)\<rparr>))"

definition new_constraint :: "MySQLConstraintResult \<Rightarrow> DatabaseTableColumnConstraint" where
  "new_constraint c =
     (let k0 = no_constraint\<lparr>conName := Is (mkConstraintName c)\<rparr>;
          k1 = (if mkConstraintType c = ''PRIMARY KEY''
                then k0\<lparr>primaryKey := Is True, primaryColumns := Is []\<rparr> else k0);
          k2 = (if mkConstraintType c = ''UNIQUE''
                then k1\<lparr>unique := Is True, uniqueColumns := Is []\<rparr> else k1)
      in if mkConstraintType c = ''FOREIGN KEY''
         then k2\<lparr>foreignKey := Is \<lparr>foreignSchemaName = Some [], foreignTableName = Some [],
                                   foreignColumns = Some [], fkColumns = Some []\<rparr>\<rparr> else k2)"

definition constraints_of :: "DatabaseTableSchema \<Rightarrow> DatabaseTableColumnConstraint list" where
  "constraints_of ts = (case tsConstraints ts of None \<Rightarrow> [] | Some ks \<Rightarrow> ks)"

definition push_constraint ::
  "DatabaseTableColumnConstraint \<Rightarrow> DatabaseTableSchema \<Rightarrow> DatabaseTableSchema" where
  "push_constraint k ts = ts\<lparr>tsConstraints := Some (constraints_of ts @ [k])\<rparr>"

definition constraint_table_key :: "MySQLConstraintResult \<Rightarrow> string" where
  "constraint_table_key c = key2 (mkTableSchema c) (mkTableName c)"

definition constraint_key :: "MySQLConstraintResult \<Rightarrow> string" where
  "constraint_key c = key3 (mkTableSchema c) (mkTableName c) (mkConstraintName c)"

definition constraint_count :: "MysqlSchemaItem \<Rightarrow> nat" where
  "constraint_count it = (case itemTableSchema it of None \<Rightarrow> 0 | Some ts \<Rightarrow> length (constraints_of ts))"

definition add_constraint :: "MySQLConstraintResult \<Rightarrow> MysqlCatalog \<Rightarrow> MysqlCatalog" where
  "add_constraint c st =
     (case map_of (mcTableRecord st) (constraint_table_key c) of
        None \<Rightarrow> st
      | Some a \<Rightarrow>
          st\<lparr>mcTables := modify_at a (on_schema (push_constraint (new_constraint c))) (mcTables st),
             mcConstraintRecords :=
               obj_set (constraint_key c) (a, constraint_count (mcTables st ! a))
                 (mcConstraintRecords st)\<rparr>)"

definition field_push :: "'a \<Rightarrow> 'a list field \<Rightarrow> 'a list field" where
  "field_push x f = (case f of Is xs \<Rightarrow> Is (xs @ [x]) | _ \<Rightarrow> f)"

text \<open>\<open>if (constraint.f)\<close> for a boolean field.\<close>

definition field_true :: "bool field \<Rightarrow> bool" where
  "field_true f = (f = Is True)"

definition extend_constraint ::
  "MySQLConstraintColumnResult \<Rightarrow> DatabaseTableColumnConstraint \<Rightarrow> DatabaseTableColumnConstraint" where
  "extend_constraint c k =
     (let k1 = (if field_true (primaryKey k)
                then k\<lparr>primaryColumns := field_push (mxColumnName c) (primaryColumns k)\<rparr> else k);
          k2 = (if field_true (unique k1)
                then k1\<lparr>uniqueColumns := field_push (mxColumnName c) (uniqueColumns k1)\<rparr> else k1)
      in case foreignKey k2 of
           Is fk \<Rightarrow> k2\<lparr>foreignKey := Is
             \<lparr>foreignSchemaName = Some (mxReferencedTableSchema c),
              foreignTableName = Some (mxReferencedTableName c),
              foreignColumns = map_option (\<lambda>xs. xs @ [mxReferencedColumnName c]) (foreignColumns fk),
              fkColumns = map_option (\<lambda>xs. xs @ [mxColumnName c]) (fkColumns fk)\<rparr>\<rparr>
         | _ \<Rightarrow> k2)"

definition on_constraint ::
  "nat \<Rightarrow> (DatabaseTableColumnConstraint \<Rightarrow> DatabaseTableColumnConstraint) \<Rightarrow> DatabaseTableSchema \<Rightarrow>
   DatabaseTableSchema" where
  "on_constraint i f ts = ts\<lparr>tsConstraints := map_option (modify_at i f) (tsConstraints ts)\<rparr>"

text \<open>\<open>columns.find(...)\<close>: only the first column of that name is marked.\<close>

fun mark_key_column :: "string \<Rightarrow> DatabaseTableColumn list \<Rightarrow> DatabaseTableColumn list" where
  "mark_key_column n [] = []"
| "mark_key_column n (c # cs) = (if colName c = n then c\<lparr>colPk := Some True\<rparr> # cs else c # mark_key_column n cs)"

definition constraint_at :: "MysqlCatalog \<Rightarrow> nat \<times> nat \<Rightarrow> DatabaseTableColumnConstraint option" where
  "constraint_at st ai = map_option (\<lambda>ts. constraints_of ts ! snd ai) (itemTableSchema (mcTables st ! fst ai))"

definition usage_table_key :: "MySQLConstraintColumnResult \<Rightarrow> string" where
  "usage_table_key c = key2 (mxTableSchema c) (mxTableName c)"

definition usage_key :: "MySQLConstraintColumnResult \<Rightarrow> string" where
  "usage_key c = key3 (mxTableSchema c) (mxTableName c) (mxConstraintName c)"

definition add_constraint_column :: "MySQLConstraintColumnResult \<Rightarrow> MysqlCatalog \<Rightarrow> MysqlCatalog" where
  "add_constraint_column c st =
     (case (map_of (mcConstraintRecords st) (usage_key c), map_of (mcTableRecord st) (usage_table_key c)) of
        (Some (a, i), Some b) \<Rightarrow>
          (let pk = (case constraint_at st (a, i) of None \<Rightarrow> False | Some k \<Rightarrow> field_true (primaryKey k));
               marked = (if pk
                 then modify_at b (on_schema (\<lambda>ts. ts\<lparr>tsColumns := mark_key_column (mxColumnName c) (tsColumns ts)\<rparr>))
                        (mcTables st)
                 else mcTables st)
           in st\<lparr>mcTables := modify_at a (on_schema (on_constraint i (extend_constraint c))) marked\<rparr>)
      | _ \<Rightarrow> st)"

definition mysql_trigger_item :: "MySQLTriggerResult \<Rightarrow> MysqlSchemaItem" where
  "mysql_trigger_item t =
     \<lparr>itemType = KindTrigger, itemName = mrTriggerName t, itemSchemaName = mrEventObjectSchema t,
      itemTableName = Some (mrEventObjectTable t), itemTableSchema = None,
      itemTiming = Some (mrActionTiming t), itemStatement = Some (mrActionStatement t)\<rparr>"

definition add_triggers :: "MySQLTriggerResult list \<Rightarrow> string \<Rightarrow> MysqlCatalog \<Rightarrow> MysqlCatalog" where
  "add_triggers trs s st =
     (let items = map mysql_trigger_item (filter (\<lambda>f. mrTriggerSchema f = s) trs);
          sch = mcSchemaRecord st
      in st\<lparr>mcSchemaRecord :=
              (case map_of sch s of None \<Rightarrow> sch | Some xs \<Rightarrow> obj_set s (xs @ map Inr items) sch)\<rparr>)"

definition set_pk :: "DatabaseTableSchema \<Rightarrow> DatabaseTableSchema" where
  "set_pk ts = ts\<lparr>tsPk := map colName (filter (\<lambda>c. colPk c = Some True) (tsColumns ts))\<rparr>"

definition build_pk :: "MysqlCatalog \<Rightarrow> MysqlCatalog" where
  "build_pk st =
     st\<lparr>mcTables := fold (\<lambda>(k, a). modify_at a (on_schema set_pk)) (mcTableRecord st) (mcTables st)\<rparr>"

text \<open>The value of \<open>schemaRecord\<close>: every position is the table object as it is at the end.\<close>

definition catalog_result :: "MysqlCatalog \<Rightarrow> MysqlSchemaItem list obj" where
  "catalog_result st =
     map (\<lambda>(s, xs). (s, map (\<lambda>x. case x of Inl a \<Rightarrow> mcTables st ! a | Inr it \<Rightarrow> it) xs)) (mcSchemaRecord st)"

definition mysql_assemble ::
  "string list \<Rightarrow> MySqlTable list \<Rightarrow> MySqlColumn list \<Rightarrow> MySQLConstraintResult list \<Rightarrow>
   MySQLConstraintColumnResult list \<Rightarrow> MySQLTriggerResult list \<Rightarrow> MysqlSchemaItem list obj result" where
  "mysql_assemble schemaResult tableResult columnResult constraintResult constraintColumnsResult triggerResult =
     rbind (add_columns columnResult (fold add_table tableResult (fold add_schema schemaResult empty_catalog)))
       (\<lambda>st0.
         let st1 = fold add_constraint constraintResult st0;
             st2 = fold add_constraint_column constraintColumnsResult st1;
             st3 = fold (add_triggers triggerResult) schemaResult st2
         in Inr (catalog_result (build_pk st3)))"

text \<open>The six queries; \<open>selectedDatabase\<close> restricts all of them to one database.\<close>

definition system_schemas :: string where
  "system_schemas = '' NOT IN ('mysql', 'information_schema', 'performance_schema', 'sys')''"

definition only_schema :: "string \<Rightarrow> string \<Rightarrow> string" where
  "only_schema selectedDatabase col =
     (if selectedDatabase \<noteq> [] then col @ '' = '' @ escapeValue (Str selectedDatabase)
      else col @ system_schemas)"

definition constraint_types :: string where
  "constraint_types = '' AND CONSTRAINT_TYPE IN ('PRIMARY KEY', 'UNIQUE', 'FOREIGN KEY')''"

definition mysql_catalog_queries :: "string \<Rightarrow> string list" where
  "mysql_catalog_queries sel =
     [''SELECT SCHEMA_NAME FROM information_schema.SCHEMATA WHERE '' @ only_schema sel ''SCHEMA_NAME'',
      ''SELECT TABLE_SCHEMA, TABLE_NAME, TABLE_TYPE, DATA_LENGTH, INDEX_LENGTH FROM information_schema.tables WHERE ''
        @ only_schema sel ''TABLE_SCHEMA'',
      ''SELECT TABLE_SCHEMA, TABLE_NAME, COLUMN_NAME, COLUMN_TYPE, DATA_TYPE, EXTRA, COLUMN_KEY, IS_NULLABLE, COLUMN_DEFAULT FROM information_schema.columns WHERE ''
        @ only_schema sel ''TABLE_SCHEMA'',
      ''SELECT TABLE_SCHEMA, TABLE_NAME, CONSTRAINT_NAME, CONSTRAINT_TYPE FROM information_schema.table_constraints WHERE ''
        @ only_schema sel ''TABLE_SCHEMA'' @ constraint_types,
      ''SELECT CONSTRAINT_NAME, TABLE_SCHEMA, TABLE_NAME, COLUMN_NAME, REFERENCED_TABLE_SCHEMA, REFERENCED_TABLE_NAME, REFERENCED_COLUMN_NAME FROM information_schema.key_column_usage WHERE ''
        @ only_schema sel ''TABLE_SCHEMA'',
      ''SELECT * from information_schema.triggers WHERE '' @ only_schema sel ''TRIGGER_SCHEMA'']"

text \<open>\<open>batch\<close> of the connection when it has one, otherwise the one of the common driver.\<close>

definition driver_batch ::
  "(string list \<Rightarrow> ('w, DatabaseResultSet list) io) option \<Rightarrow> 'w Connection \<Rightarrow> string list \<Rightarrow>
   ('w, DatabaseResultSet list) io" where
  "driver_batch dbBatch db stmts = (case dbBatch of Some f \<Rightarrow> f stmts | None \<Rightarrow> batch db stmts)"

text \<open>\<open>result[i].rows\<close>.\<close>

definition result_rows :: "DatabaseResultSet list \<Rightarrow> nat \<Rightarrow> jsval obj list result" where
  "result_rows rs i =
     (if i < length rs then Inr (rsRows (rs ! i))
      else Inl (TypeError ''Cannot read properties of undefined (reading 'rows')''))"

definition mysql_catalog_of :: "DatabaseResultSet list \<Rightarrow> MysqlSchemaItem list obj result" where
  "mysql_catalog_of rs =
     rbind (result_rows rs 0) (\<lambda>r0. rbind (result_rows rs 1) (\<lambda>r1. rbind (result_rows rs 2) (\<lambda>r2.
     rbind (result_rows rs 3) (\<lambda>r3. rbind (result_rows rs 4) (\<lambda>r4. rbind (result_rows rs 5) (\<lambda>r5.
       mysql_assemble (map (\<lambda>r. as_text (obj_at r ''SCHEMA_NAME'')) r0) (map as_MySqlTable r1)
         (map as_MySqlColumn r2) (map as_MySQLConstraintResult r3)
         (map as_MySQLConstraintColumnResult r4) (map as_MySQLTriggerResult r5)))))))"

definition mysql_schemas ::
  "(string list \<Rightarrow> ('w, DatabaseResultSet list) io) option \<Rightarrow> 'w Connection \<Rightarrow> string \<Rightarrow>
   ('w, MysqlSchemaItem list obj) io" where
  "mysql_schemas dbBatch db selectedDatabase =
     io_bind (driver_batch dbBatch db (mysql_catalog_queries selectedDatabase))
       (\<lambda>rs. io_lift (mysql_catalog_of rs))"

section \<open>The schema of a table\<close>

definition mysql_table_queries :: "string \<Rightarrow> string \<Rightarrow> string list" where
  "mysql_table_queries schemaName tableName =
     [''SELECT TABLE_SCHEMA, TABLE_NAME, COLUMN_NAME, COLUMN_TYPE, DATA_TYPE, EXTRA, COLUMN_KEY, IS_NULLABLE, COLUMN_DEFAULT, COLLATION_NAME FROM information_schema.columns WHERE TABLE_NAME=''
        @ escapeValue (Str tableName) @ '' AND TABLE_SCHEMA='' @ escapeValue (Str schemaName)
        @ '' ORDER BY ORDINAL_POSITION'',
      ''SELECT TABLE_SCHEMA, TABLE_NAME, CONSTRAINT_NAME, CONSTRAINT_TYPE FROM information_schema.table_constraints WHERE TABLE_SCHEMA = ''
        @ escapeValue (Str schemaName) @ '' AND TABLE_NAME = '' @ escapeValue (Str tableName)
        @ constraint_types,
      ''SELECT CONSTRAINT_NAME, TABLE_SCHEMA, TABLE_NAME, COLUMN_NAME, REFERENCED_TABLE_SCHEMA, REFERENCED_TABLE_NAME, REFERENCED_COLUMN_NAME FROM information_schema.key_column_usage WHERE TABLE_SCHEMA = ''
        @ escapeValue (Str schemaName) @ '' AND TABLE_NAME = '' @ escapeValue (Str tableName)]"

definition columns_of_constraint ::
  "MySQLConstraintColumnResult list \<Rightarrow> MySQLConstraintResult \<Rightarrow> MySQLConstraintColumnResult list" where
  "columns_of_constraint usage k = filter (\<lambda>c. mxConstraintName c = mkConstraintName k) usage"

definition table_constraint ::
  "MySQLConstraintColumnResult list \<Rightarrow> MySQLConstraintResult \<Rightarrow> DatabaseTableColumnConstraint result" where
  "table_constraint usage k =
     (let columnList = columns_of_constraint usage k in
      if mkConstraintType k = ''PRIMARY KEY'' then
        Inr (no_constraint\<lparr>conName := Is (mkConstraintName k), primaryKey := Is True,
                           primaryColumns := Is (map mxColumnName columnList)\<rparr>)
      else
        rbind
          (if mkConstraintType k = ''FOREIGN KEY'' then
             (case columnList of
                [] \<Rightarrow> Inl (TypeError ''Cannot read properties of undefined (reading 'REFERENCED_TABLE_SCHEMA')'')
              | c0 # _ \<Rightarrow> Inr (Is \<lparr>foreignSchemaName = Some (mxReferencedTableSchema c0),
                                 foreignTableName = Some (mxReferencedTableName c0),
                                 foreignColumns = Some (map mxReferencedColumnName columnList),
                                 fkColumns = Some (map mxColumnName columnList)\<rparr>))
           else Inr Undef)
          (\<lambda>fk. Inr (no_constraint\<lparr>conName := Is (mkConstraintName k), primaryKey := Is False,
                                   unique := Is (mkConstraintType k = ''UNIQUE''), foreignKey := fk\<rparr>)))"

definition mark_all_pk :: "string list \<Rightarrow> DatabaseTableColumn list \<Rightarrow> DatabaseTableColumn list" where
  "mark_all_pk ns = map (\<lambda>col. if colName col \<in> set ns then col\<lparr>colPk := Some True\<rparr> else col)"

fun table_constraints ::
  "MySQLConstraintColumnResult list \<Rightarrow> MySQLConstraintResult list \<Rightarrow> DatabaseTableColumn list \<Rightarrow>
   (DatabaseTableColumnConstraint list \<times> DatabaseTableColumn list) result" where
  "table_constraints usage [] columns = Inr ([], columns)"
| "table_constraints usage (k # ks) columns =
     rbind (table_constraint usage k) (\<lambda>con.
       rbind (table_constraints usage ks
                (if mkConstraintType k = ''PRIMARY KEY''
                 then mark_all_pk (map mxColumnName (columns_of_constraint usage k)) columns else columns))
         (\<lambda>(cons, cols). Inr (con # cons, cols)))"

definition mysql_table_schema_of ::
  "string \<Rightarrow> string \<Rightarrow> MySqlColumn list \<Rightarrow> MySQLConstraintResult list \<Rightarrow>
   MySQLConstraintColumnResult list \<Rightarrow> DatabaseTableSchema result" where
  "mysql_table_schema_of schemaName tableName columnResult constraintResult constraintColumnsResult =
     rbind (table_constraints constraintColumnsResult constraintResult (map mapColumn columnResult))
       (\<lambda>(constraints, columns). Inr
          \<lparr>tsColumns = columns,
           tsPk = map mcColumnName (filter (\<lambda>c. mcColumnKey c = ''PRI'') columnResult),
           tsAutoIncrement = list_ex (\<lambda>c. mcExtra c = ''auto_increment'') columnResult,
           tsSchemaName = schemaName, tsTableName = Some tableName, tsConstraints = Some constraints,
           tsCreateScript = None, tsFts5 = None, tsType = None, tsWithoutRowId = None,
           tsStrict = None, tsSizeInByte = None\<rparr>)"

definition mysql_tableSchema ::
  "(string list \<Rightarrow> ('w, DatabaseResultSet list) io) option \<Rightarrow> 'w Connection \<Rightarrow> string \<Rightarrow> string \<Rightarrow>
   ('w, DatabaseTableSchema) io" where
  "mysql_tableSchema dbBatch db schemaName tableName =
     io_bind (driver_batch dbBatch db (mysql_table_queries schemaName tableName)) (\<lambda>rs.
       io_lift (rbind (result_rows rs 0) (\<lambda>r0. rbind (result_rows rs 1) (\<lambda>r1. rbind (result_rows rs 2) (\<lambda>r2.
         mysql_table_schema_of schemaName tableName (map as_MySqlColumn r0)
           (map as_MySQLConstraintResult r1) (map as_MySQLConstraintColumnResult r2))))))"

section \<open>Triggers and views\<close>

text \<open>\<open>s.replace(/p/i, r)\<close> for a literal word in lower case: the first occurrence in any case.\<close>

fun replace_first_ci :: "string \<Rightarrow> string \<Rightarrow> string \<Rightarrow> string" where
  "replace_first_ci p r [] = (if p = [] then r else [])"
| "replace_first_ci p r (c # s) =
     (if js_starts_with (js_lower (c # s)) p then r @ drop (length p) (c # s)
      else c # replace_first_ci p r s)"

definition trigger_body :: "string \<Rightarrow> string" where
  "trigger_body s = js_trim (replace_first_ci ''end'' [] (replace_first_ci ''begin'' [] s))"

definition mysql_trigger :: "'w Connection \<Rightarrow> string \<Rightarrow> string \<Rightarrow> ('w, DatabaseTriggerSchema) io" where
  "mysql_trigger db schemaName name =
     io_bind (dbQuery db (''SELECT * from information_schema.triggers WHERE TRIGGER_SCHEMA=''
                @ escapeValue (Str schemaName) @ '' AND TRIGGER_NAME='' @ escapeValue (Str name))) (\<lambda>r.
       case rsRows r of
         [] \<Rightarrow> io_throw (JsError ''Trigger does not exist'')
       | row # _ \<Rightarrow>
           (let t = as_MySQLTriggerResult row in io_return
             \<lparr>trName = mrTriggerName t, trOperation = mrEventManipulation t, trWhen = mrActionTiming t,
              trSchemaName = mrTriggerSchema t, trTableName = mrEventObjectTable t,
              trColumnNames = Some [], trWhenExpression = [],
              trStatement = trigger_body (mrActionStatement t)\<rparr>))"

definition mysql_trigger_action :: "DatabaseTriggerSchema \<Rightarrow> string" where
  "mysql_trigger_action change =
     ''BEGIN '' @ [newline, tab] @ trStatement change @ '' '' @ [newline] @ ''END''"

definition mysql_createTrigger :: "DatabaseTriggerSchema \<Rightarrow> string" where
  "mysql_createTrigger change =
     ''CREATE TRIGGER '' @ mysqlEscapeId (trSchemaName change) @ ''.'' @ mysqlEscapeId (trName change)
     @ '' '' @ [newline] @ when_str (trWhen change) @ '' '' @ operation_str (trOperation change)
     @ '' ON '' @ mysqlEscapeId (trTableName change) @ '' '' @ [newline] @ ''FOR EACH ROW '' @ [newline]
     @ mysql_trigger_action change"

definition mysql_dropTrigger :: "string \<Rightarrow> string \<Rightarrow> string" where
  "mysql_dropTrigger schemaName name =
     ''DROP TRIGGER IF EXISTS '' @ mysqlEscapeId schemaName @ ''.'' @ mysqlEscapeId name"

text \<open>\<open>format\<close> of the package sql-formatter is a parameter.\<close>

definition mysql_view ::
  "(string \<Rightarrow> string) \<Rightarrow> 'w Connection \<Rightarrow> string \<Rightarrow> string \<Rightarrow> ('w, DatabaseViewSchema) io" where
  "mysql_view format db schemaName name =
     io_bind (dbQuery db (''SELECT * FROM information_schema.views WHERE TABLE_SCHEMA=''
                @ escapeValue (Str schemaName) @ '' AND TABLE_NAME='' @ escapeValue (Str name))) (\<lambda>r.
       case rsRows r of
         [] \<Rightarrow> io_throw (JsError ''View dose not exist'')
       | row # _ \<Rightarrow> io_return
           \<lparr>vwName = name, vwSchemaName = schemaName,
            vwStatement = format (js_trim (as_text (obj_at row ''VIEW_DEFINITION'')))\<rparr>)"

definition mysql_createView :: "DatabaseViewSchema \<Rightarrow> string" where
  "mysql_createView v =
     ''CREATE VIEW '' @ mysqlEscapeId (vwSchemaName v) @ ''.'' @ mysqlEscapeId (vwName v)
     @ '' AS '' @ vwStatement v"

definition mysql_dropView :: "string \<Rightarrow> string \<Rightarrow> string" where
  "mysql_dropView schemaName name =
     ''DROP VIEW IF EXISTS '' @ mysqlEscapeId schemaName @ ''.'' @ mysqlEscapeId name"

definition mysql_getCurrentSchema :: "'w Connection \<Rightarrow> ('w, string option) io" where
  "mysql_getCurrentSchema db =
     io_bind (dbQuery db ''SELECT DATABASE() AS db'') (\<lambda>r.
       case rsRows r of
         [] \<Rightarrow> io_throw (TypeError ''Cannot read properties of undefined (reading 'db')'')
       | row # _ \<Rightarrow> io_return (text_opt (obj_at row ''db'')))"

end
