(* ===== verification/PostgresDriver.thy ===== *)
theory PostgresDriver
  imports MysqlDriver
begin

text \<open>
  The catalogue of the class \<open>PostgresLikeDriver\<close>, \<open>admin/src/drivers/postgres/postgres-driver.ts\<close>.

  \<open>schemas()\<close> finds the object of a constraint row under the key \<open>schema.table.column\<close>, changes
  it and pushes it to the table again; the object under a key is never replaced, so the key is the
  identity of the object and the array \<open>constraints\<close> of a table is a list of keys until the end.
  A null \<open>generation_expression\<close> is \<^const>\<open>Undef\<close>.
\<close>

section \<open>Rows of the catalogue\<close>

record PostgresTableRow =
  ptTableSchema :: string
  ptTableName :: string
  ptTableType :: string
  ptTableSize :: jsval

record PostgresColumnRow =
  pcTableSchema :: string
  pcTableName :: string
  pcColumnName :: string
  pcColumnDefault :: "string option"
  pcIsNullable :: string
  pcDataType :: string
  pcGenerationExpression :: "string option"

record PostgresConstraintRow =
  prConstraintName :: string
  prTableSchema :: string
  prTableName :: string
  prConstraintType :: string
  prColumnName :: "string option"
  prReferenceTableSchema :: "string option"
  prReferenceTableName :: "string option"
  prReferenceColumnName :: "string option"

definition as_PostgresTableRow :: "jsval obj \<Rightarrow> PostgresTableRow" where
  "as_PostgresTableRow r =
     \<lparr>ptTableSchema = as_text (obj_at r ''table_schema''), ptTableName = as_text (obj_at r ''table_name''),
      ptTableType = as_text (obj_at r ''table_type''), ptTableSize = obj_at r ''table_size''\<rparr>"

definition as_PostgresColumnRow :: "jsval obj \<Rightarrow> PostgresColumnRow" where
  "as_PostgresColumnRow r =
     \<lparr>pcTableSchema = as_text (obj_at r ''table_schema''), pcTableName = as_text (obj_at r ''table_name''),
      pcColumnName = as_text (obj_at r ''column_name''),
      pcColumnDefault = text_opt (obj_at r ''column_default''),
      pcIsNullable = as_text (obj_at r ''is_nullable''), pcDataType = as_text (obj_at r ''data_type''),
      pcGenerationExpression = text_opt (obj_at r ''generation_expression'')\<rparr>"

definition as_PostgresConstraintRow :: "jsval obj \<Rightarrow> PostgresConstraintRow" where
  "as_PostgresConstraintRow r =
     \<lparr>prConstraintName = as_text (obj_at r ''constraint_name''),
      prTableSchema = as_text (obj_at r ''table_schema''), prTableName = as_text (obj_at r ''table_name''),
      prConstraintType = as_text (obj_at r ''constraint_type''),
      prColumnName = text_opt (obj_at r ''column_name''),
      prReferenceTableSchema = text_opt (obj_at r ''reference_table_schema''),
      prReferenceTableName = text_opt (obj_at r ''reference_table_name''),
      prReferenceColumnName = text_opt (obj_at r ''reference_column_name'')\<rparr>"

text \<open>A nullable text inside of a string or an array of strings.\<close>

definition null_text :: "string option \<Rightarrow> string" where
  "null_text s = (case s of None \<Rightarrow> ''null'' | Some t \<Rightarrow> t)"

section \<open>Constraints\<close>

definition pg_new_constraint :: "PostgresConstraintRow \<Rightarrow> DatabaseTableColumnConstraint" where
  "pg_new_constraint r = no_constraint
     \<lparr>conName := Is (prConstraintName r), primaryKey := Is False, notNull := Is False,
      unique := Is False, checkExpression := Is [], DatabaseTypes.defaultValue := Is Null\<rparr>"

definition pg_primary :: "PostgresConstraintRow \<Rightarrow> DatabaseTableColumnConstraint \<Rightarrow> DatabaseTableColumnConstraint"
where
  "pg_primary r k = k\<lparr>primaryKey := Is True,
     primaryColumns := Is ((case field_opt (primaryColumns k) of None \<Rightarrow> [] | Some xs \<Rightarrow> xs)
                           @ [null_text (prColumnName r)])\<rparr>"

definition pg_foreign :: "PostgresConstraintRow \<Rightarrow> DatabaseTableColumnConstraint \<Rightarrow> DatabaseTableColumnConstraint"
where
  "pg_foreign r k = k\<lparr>foreignKey := Is
     \<lparr>foreignSchemaName = prReferenceTableSchema r, foreignTableName = prReferenceTableName r,
      foreignColumns = Some ((case Option.bind (field_opt (foreignKey k)) foreignColumns of
                                None \<Rightarrow> [] | Some xs \<Rightarrow> xs) @ [null_text (prReferenceColumnName r)]),
      fkColumns = Some [null_text (prColumnName r)]\<rparr>\<rparr>"

text \<open>A row of \<open>schemas()\<close>.\<close>

definition pg_extend :: "PostgresConstraintRow \<Rightarrow> DatabaseTableColumnConstraint \<Rightarrow> DatabaseTableColumnConstraint"
where
  "pg_extend r k =
     (if prConstraintType r = ''PRIMARY KEY'' then pg_primary r k
      else if prConstraintType r = ''FOREIGN KEY'' then pg_foreign r k else k)"

text \<open>A row of \<open>tableSchema()\<close>, which also reads unique constraints.\<close>

definition pg_extend_table ::
  "PostgresConstraintRow \<Rightarrow> DatabaseTableColumnConstraint \<Rightarrow> DatabaseTableColumnConstraint" where
  "pg_extend_table r k =
     (if prConstraintType r = ''PRIMARY KEY'' then pg_primary r k
      else if prConstraintType r = ''FOREIGN KEY'' then pg_foreign r k
      else if prConstraintType r = ''UNIQUE''
      then k\<lparr>unique := Is True, uniqueColumns := Is [null_text (prColumnName r)]\<rparr> else k)"

text \<open>\<open>record[key] || new\<close>, changed and stored again.\<close>

definition upsert ::
  "(PostgresConstraintRow \<Rightarrow> DatabaseTableColumnConstraint \<Rightarrow> DatabaseTableColumnConstraint) \<Rightarrow>
   string \<Rightarrow> PostgresConstraintRow \<Rightarrow> DatabaseTableColumnConstraint obj \<Rightarrow>
   DatabaseTableColumnConstraint obj" where
  "upsert step key r rec =
     obj_set key (step r (case map_of rec key of None \<Rightarrow> pg_new_constraint r | Some k \<Rightarrow> k)) rec"

section \<open>The catalogue of all schemas\<close>

record PgTable =
  ptItem :: DatabaseSchemaItem
  ptConstraints :: "string list"

record PgCatalog =
  pgTables :: "PgTable list"
  pgTableRecord :: "nat obj"
  pgSchemas :: "nat list obj"
  pgConstraintRecord :: "DatabaseTableColumnConstraint obj"

definition pg_empty :: PgCatalog where
  "pg_empty = \<lparr>pgTables = [], pgTableRecord = [], pgSchemas = [], pgConstraintRecord = []\<rparr>"

definition pg_add_schema :: "string \<Rightarrow> PgCatalog \<Rightarrow> PgCatalog" where
  "pg_add_schema s st = st\<lparr>pgSchemas := obj_set s [] (pgSchemas st)\<rparr>"

definition pg_table_item :: "PostgresTableRow \<Rightarrow> DatabaseSchemaItem" where
  "pg_table_item t =
     \<lparr>itemType = (if ptTableType t = ''BASE TABLE'' then KindTable else KindView),
      itemName = ptTableName t, itemSchemaName = ptTableSchema t, itemTableName = Some (ptTableName t),
      itemTableSchema = Some
        \<lparr>tsColumns = [], tsPk = [], tsAutoIncrement = False, tsSchemaName = ptTableSchema t,
         tsTableName = Some (ptTableName t), tsConstraints = Some [], tsCreateScript = None,
         tsFts5 = None, tsType = None, tsWithoutRowId = None, tsStrict = None,
         tsSizeInByte = Some (js_ToNumber (ptTableSize t))\<rparr>\<rparr>"

definition pg_add_table :: "PostgresTableRow \<Rightarrow> PgCatalog \<Rightarrow> PgCatalog" where
  "pg_add_table t st =
     (let a = length (pgTables st);
          sch = pgSchemas st
      in st\<lparr>pgTables := pgTables st @ [\<lparr>ptItem = pg_table_item t, ptConstraints = []\<rparr>],
            pgTableRecord := obj_set (key2 (ptTableSchema t) (ptTableName t)) a (pgTableRecord st),
            pgSchemas :=
              (case map_of sch (ptTableSchema t) of
                 None \<Rightarrow> sch
               | Some xs \<Rightarrow> obj_set (ptTableSchema t) (xs @ [a]) sch)\<rparr>)"

definition pg_column :: "PostgresColumnRow \<Rightarrow> DatabaseTableColumn" where
  "pg_column c =
     \<lparr>colName = pcColumnName c, colType = pcDataType c, colPk = None,
      colConstraint = Some (no_constraint
        \<lparr>notNull := Is (pcIsNullable c = ''NO''),
         DatabaseTypes.defaultValue := Is (case pcColumnDefault c of None \<Rightarrow> Null | Some d \<Rightarrow> Str d),
         generatedExpression := field_of (pcGenerationExpression c)\<rparr>)\<rparr>"

definition pg_on_item :: "(DatabaseTableSchema \<Rightarrow> DatabaseTableSchema) \<Rightarrow> PgTable \<Rightarrow> PgTable" where
  "pg_on_item f t = t\<lparr>ptItem := (ptItem t)\<lparr>itemTableSchema := map_option f (itemTableSchema (ptItem t))\<rparr>\<rparr>"

definition pg_column_key :: "PostgresColumnRow \<Rightarrow> string" where
  "pg_column_key c = key2 (pcTableSchema c) (pcTableName c)"

definition pg_add_column :: "PostgresColumnRow \<Rightarrow> PgCatalog \<Rightarrow> PgCatalog" where
  "pg_add_column c st =
     (case map_of (pgTableRecord st) (pg_column_key c) of
        None \<Rightarrow> st
      | Some a \<Rightarrow> st\<lparr>pgTables := modify_at a (pg_on_item (push_table_column (pg_column c))) (pgTables st)\<rparr>)"

definition pg_row_table_key :: "PostgresConstraintRow \<Rightarrow> string" where
  "pg_row_table_key r = key2 (prTableSchema r) (prTableName r)"

definition pg_row_key :: "PostgresConstraintRow \<Rightarrow> string" where
  "pg_row_key r = pg_row_table_key r @ ''.'' @ null_text (prColumnName r)"

definition pg_add_constraint :: "PostgresConstraintRow \<Rightarrow> PgCatalog \<Rightarrow> PgCatalog" where
  "pg_add_constraint r st =
     (let rec = upsert pg_extend (pg_row_key r) r (pgConstraintRecord st)
      in case map_of (pgTableRecord st) (pg_row_table_key r) of
           None \<Rightarrow> st\<lparr>pgConstraintRecord := rec\<rparr>
         | Some a \<Rightarrow> st\<lparr>pgConstraintRecord := rec,
             pgTables := modify_at a (\<lambda>t. t\<lparr>ptConstraints := ptConstraints t @ [pg_row_key r]\<rparr>)
                           (pgTables st)\<rparr>)"

definition pg_key_columns :: "DatabaseTableColumnConstraint \<Rightarrow> string list" where
  "pg_key_columns k = (case field_opt (primaryColumns k) of None \<Rightarrow> [] | Some xs \<Rightarrow> xs)"

definition pg_find_key :: "DatabaseTableColumnConstraint list \<Rightarrow> DatabaseTableColumnConstraint option" where
  "pg_find_key ks = find (\<lambda>k. field_true (primaryKey k)) ks"

text \<open>The table object at the end, its keys replaced by the constraint objects, with its pk.\<close>

definition pg_finish :: "DatabaseTableColumnConstraint obj \<Rightarrow> PgTable \<Rightarrow> DatabaseSchemaItem" where
  "pg_finish rec t =
     (let ks = map (\<lambda>key. the (map_of rec key)) (ptConstraints t)
      in (ptItem t)\<lparr>itemTableSchema := map_option (\<lambda>ts. ts\<lparr>tsConstraints := Some ks\<rparr>)
                                        (itemTableSchema (ptItem t))\<rparr>)"

definition pg_set_pk :: "DatabaseTableSchema \<Rightarrow> DatabaseTableSchema" where
  "pg_set_pk ts =
     (case tsConstraints ts of
        None \<Rightarrow> ts
      | Some ks \<Rightarrow> (case pg_find_key ks of None \<Rightarrow> ts | Some k \<Rightarrow> ts\<lparr>tsPk := pg_key_columns k\<rparr>))"

definition pg_item_pk :: "DatabaseSchemaItem \<Rightarrow> DatabaseSchemaItem" where
  "pg_item_pk it = it\<lparr>itemTableSchema := map_option pg_set_pk (itemTableSchema it)\<rparr>"

definition pg_assemble ::
  "string list \<Rightarrow> PostgresTableRow list \<Rightarrow> PostgresColumnRow list \<Rightarrow> PostgresConstraintRow list \<Rightarrow>
   DatabaseSchemas" where
  "pg_assemble schemaResult tableResult columnsResult constraintResult =
     (let st0 = fold pg_add_table tableResult (fold pg_add_schema schemaResult pg_empty);
          st1 = fold pg_add_column columnsResult st0;
          st2 = fold pg_add_constraint constraintResult st1;
          tables = fold (\<lambda>(k, a). modify_at a pg_item_pk) (pgTableRecord st2)
                     (map (pg_finish (pgConstraintRecord st2)) (pgTables st2))
      in map (\<lambda>(s, xs). (s, map (\<lambda>a. tables ! a) xs)) (pgSchemas st2))"

section \<open>Queries\<close>

definition pg_system_schemas :: string where
  "pg_system_schemas = '' NOT IN ('information_schema', 'pg_catalog', 'pg_toast')''"

definition tabbed :: "nat \<Rightarrow> string \<Rightarrow> string" where
  "tabbed n s = replicate n tab @ s"

definition pg_constraint_select :: string where
  "pg_constraint_select = js_join [newline]
     [''SELECT'', tabbed 1 ''tc.constraint_name,'', tabbed 1 ''tc.table_schema,'',
      tabbed 1 ''tc.table_name,'', tabbed 1 ''tc.constraint_type,'', tabbed 1 ''kcu.column_name,'',
      tabbed 1 ''ccu.table_schema AS reference_table_schema,'',
      tabbed 1 ''ccu.table_name AS reference_table_name,'',
      tabbed 1 ''ccu.column_name AS reference_column_name'', ''FROM'',
      tabbed 1 ''information_schema.table_constraints AS tc'',
      tabbed 1 ''LEFT JOIN information_schema.key_column_usage AS kcu'', tabbed 1 ''ON ('',
      tabbed 2 ''tc.table_schema = kcu.table_schema AND'', tabbed 2 ''tc.table_name = kcu.table_name AND'',
      tabbed 2 ''tc.constraint_name = kcu.constraint_name'', tabbed 1 '')'',
      tabbed 1 ''LEFT JOIN information_schema.constraint_column_usage AS ccu'', tabbed 1 ''ON ('',
      tabbed 2 ''ccu.table_schema = kcu.table_schema AND'',
      tabbed 2 ''ccu.constraint_name = kcu.constraint_name'', tabbed 1 '')'', ''WHERE'', [tab]]"

definition pg_catalog_queries :: "string list" where
  "pg_catalog_queries =
     [''SELECT schema_name FROM information_schema.schemata WHERE schema_name'' @ pg_system_schemas,
      ''SELECT *, pg_total_relation_size(quote_ident(table_schema) || '.' || quote_ident(table_name)) AS table_size FROM information_schema.tables WHERE table_schema''
        @ pg_system_schemas @ '';'',
      ''SELECT * FROM information_schema.columns WHERE table_schema'' @ pg_system_schemas,
      pg_constraint_select @ ''tc.table_schema'' @ pg_system_schemas]"

definition pg_schemas ::
  "(string list \<Rightarrow> ('w, DatabaseResultSet list) io) option \<Rightarrow> 'w Connection \<Rightarrow>
   ('w, DatabaseSchemas) io" where
  "pg_schemas dbBatch db =
     io_bind (driver_batch dbBatch db pg_catalog_queries) (\<lambda>rs. io_lift
       (rbind (result_rows rs 0) (\<lambda>r0. rbind (result_rows rs 1) (\<lambda>r1.
        rbind (result_rows rs 2) (\<lambda>r2. rbind (result_rows rs 3) (\<lambda>r3.
          Inr (pg_assemble (map (\<lambda>r. as_text (obj_at r ''schema_name'')) r0) (map as_PostgresTableRow r1)
                 (map as_PostgresColumnRow r2) (map as_PostgresConstraintRow r3))))))))"

text \<open>
  What the constraint query asks for: every constraint with every column of its usage, and that
  with every column that \<open>constraint_column_usage\<close> names for a constraint of that name in the
  schema; nulls where nothing matches.
\<close>

record KeyColumnUsage =
  kuTableSchema :: string
  kuTableName :: string
  kuConstraintName :: string
  kuColumnName :: string

definition left_join :: "('a \<Rightarrow> 'b \<Rightarrow> bool) \<Rightarrow> 'b list \<Rightarrow> 'a \<Rightarrow> 'b option list" where
  "left_join test bs a = (case filter (test a) bs of [] \<Rightarrow> [None] | cs \<Rightarrow> map Some cs)"

definition constraint_join ::
  "MySQLConstraintResult list \<Rightarrow> KeyColumnUsage list \<Rightarrow> KeyColumnUsage list \<Rightarrow> PostgresConstraintRow list"
where
  "constraint_join tcs kcus ccus =
     concat (map (\<lambda>tc.
       concat (map (\<lambda>kcu.
         map (\<lambda>ccu. \<lparr>prConstraintName = mkConstraintName tc, prTableSchema = mkTableSchema tc,
                     prTableName = mkTableName tc, prConstraintType = mkConstraintType tc,
                     prColumnName = map_option kuColumnName kcu,
                     prReferenceTableSchema = map_option kuTableSchema ccu,
                     prReferenceTableName = map_option kuTableName ccu,
                     prReferenceColumnName = map_option kuColumnName ccu\<rparr>)
           (left_join (\<lambda>k c. case k of None \<Rightarrow> False
                       | Some k \<Rightarrow> kuTableSchema c = kuTableSchema k \<and> kuConstraintName c = kuConstraintName k)
              ccus kcu))
         (left_join (\<lambda>tc k. mkTableSchema tc = kuTableSchema k \<and> mkTableName tc = kuTableName k
                            \<and> mkConstraintName tc = kuConstraintName k) kcus tc)))
       tcs)"

section \<open>The schema of a table\<close>

definition pg_table_queries :: "string \<Rightarrow> string \<Rightarrow> string \<times> string" where
  "pg_table_queries schemaName tableName =
     (''SELECT * FROM information_schema.columns WHERE  table_schema = '' @ escapeValue (Str schemaName)
        @ '' AND table_name = '' @ escapeValue (Str tableName),
      pg_constraint_select @ ''tc.table_schema = '' @ escapeValue (Str schemaName)
        @ '' AND tc.table_name = '' @ escapeValue (Str tableName))"

definition pg_constraint_record :: "PostgresConstraintRow list \<Rightarrow> DatabaseTableColumnConstraint obj" where
  "pg_constraint_record rows =
     fold (\<lambda>r. upsert pg_extend_table (prConstraintName r) r)
       (filter (\<lambda>r. prColumnName r \<noteq> None) rows) []"

definition pg_table_schema_of ::
  "string \<Rightarrow> string \<Rightarrow> PostgresColumnRow list \<Rightarrow> PostgresConstraintRow list \<Rightarrow> DatabaseTableSchema" where
  "pg_table_schema_of schemaName tableName columnsResult constraintResult =
     (let constraints = map snd (obj_entries (pg_constraint_record constraintResult));
          pkColumn = (case pg_find_key constraints of None \<Rightarrow> [] | Some k \<Rightarrow> pg_key_columns k)
      in \<lparr>tsColumns = map (\<lambda>c. with_con (\<lambda>k. k\<lparr>primaryKey := Is (pcColumnName c \<in> set pkColumn)\<rparr>) (pg_column c))
                        columnsResult,
          tsPk = pkColumn, tsAutoIncrement = True, tsSchemaName = schemaName, tsTableName = Some tableName,
          tsConstraints = Some constraints, tsCreateScript = None, tsFts5 = None, tsType = None,
          tsWithoutRowId = None, tsStrict = None, tsSizeInByte = None\<rparr>)"

definition pg_tableSchema :: "'w Connection \<Rightarrow> string \<Rightarrow> string \<Rightarrow> ('w, DatabaseTableSchema) io" where
  "pg_tableSchema db schemaName tableName =
     io_bind (dbQuery db (fst (pg_table_queries schemaName tableName))) (\<lambda>columns.
     io_bind (dbQuery db (snd (pg_table_queries schemaName tableName))) (\<lambda>constraints.
       io_return (pg_table_schema_of schemaName tableName (map as_PostgresColumnRow (rsRows columns))
                    (map as_PostgresConstraintRow (rsRows constraints)))))"

section \<open>The current schema, views, and what is not supported\<close>

definition pg_getCurrentSchema :: "'w Connection \<Rightarrow> ('w, string) io" where
  "pg_getCurrentSchema db =
     io_bind (dbQuery db ''SHOW search_path'') (\<lambda>r.
       case rsRows r of
         [] \<Rightarrow> io_throw (TypeError ''Cannot read properties of undefined (reading 'search_path')'')
       | row # _ \<Rightarrow>
           if nullish (obj_at row ''search_path'')
           then io_throw (TypeError ''Cannot read properties of undefined (reading 'split')'')
           else (let name = hd (js_split '','' (as_text (obj_at row ''search_path'')))
                 in io_return (if name = escapeIdentity ''$user'' then ''public'' else name)))"

definition pg_view :: "'w Connection \<Rightarrow> string \<Rightarrow> string \<Rightarrow> ('w, DatabaseViewSchema) io" where
  "pg_view db schemaName name =
     io_bind (dbQuery db (''SELECT * FROM information_schema.views WHERE TABLE_SCHEMA=''
                @ escapeValue (Str schemaName) @ '' AND TABLE_NAME='' @ escapeValue (Str name))) (\<lambda>r.
       case rsRows r of
         [] \<Rightarrow> io_throw (JsError ''View dose not exist'')
       | row # _ \<Rightarrow> io_return
           \<lparr>vwName = name, vwSchemaName = schemaName,
            vwStatement = js_trim (as_text (obj_at row ''view_definition''))\<rparr>)"

definition pg_createView :: "DatabaseViewSchema \<Rightarrow> string" where
  "pg_createView v =
     ''CREATE VIEW '' @ escapeIdentity (vwSchemaName v) @ ''.'' @ escapeIdentity (vwName v)
     @ '' AS '' @ vwStatement v"

definition pg_dropView :: "string \<Rightarrow> string \<Rightarrow> string" where
  "pg_dropView schemaName name =
     ''DROP VIEW IF EXISTS '' @ escapeIdentity schemaName @ ''.'' @ escapeIdentity name"

definition pg_trigger :: "('w, DatabaseTriggerSchema) io" where
  "pg_trigger = io_throw (JsError ''Not implemented'')"

definition pg_createUpdateDatabaseSchema :: "string list result" where
  "pg_createUpdateDatabaseSchema = Inl (JsError ''Not implemented'')"

definition pg_createTrigger :: "string result" where
  "pg_createTrigger = Inl (JsError ''Not implemented'')"

definition pg_dropTrigger :: "string result" where
  "pg_dropTrigger = Inl (JsError ''Not implemented'')"

end
