(* ===== verification/CatalogFacts.thy ===== *)
theory CatalogFacts
  imports PostgresDriver
begin

text \<open>
  Facts about the catalogues of the MySQL and PostgreSQL drivers.  The loops of \<open>schemas()\<close> send
  every row to one shared table object; \<open>route_nth\<close> is the fact that all of them share.
\<close>

section \<open>Rows routed to shared objects\<close>

definition route ::
  "('c \<Rightarrow> nat option) \<Rightarrow> ('c \<Rightarrow> 'r \<Rightarrow> 'r) \<Rightarrow> 'c \<Rightarrow> 'r list \<Rightarrow> 'r list" where
  "route addr upd c xs = (case addr c of None \<Rightarrow> xs | Some a \<Rightarrow> modify_at a (upd c) xs)"

lemma length_modify_at [simp]: "length (modify_at a f xs) = length xs"
  by (simp add: modify_at_def)

lemma nth_modify_at: "j < length xs \<Longrightarrow> modify_at a f xs ! j = (if a = j then f (xs ! j) else xs ! j)"
  by (simp add: modify_at_def nth_list_update)

lemma length_route [simp]: "length (route addr upd c xs) = length xs"
  by (simp add: route_def split: option.split)

lemma length_routes [simp]: "length (fold (route addr upd) cs xs) = length xs"
  by (induction cs arbitrary: xs) simp_all

lemma route_nth:
  "j < length xs \<Longrightarrow>
   fold (route addr upd) cs xs ! j = fold upd (filter (\<lambda>c. addr c = Some j) cs) (xs ! j)"
proof (induction cs arbitrary: xs)
  case (Cons c cs)
  then show ?case by (cases "addr c") (simp_all add: route_def nth_modify_at)
qed simp

text \<open>An array of distinct keys used as a table of addresses.\<close>

definition addresses :: "string list \<Rightarrow> nat obj" where
  "addresses ks = zip ks [0..<length ks]"

lemma map_of_addresses_None: "map_of (addresses ks) k = None \<longleftrightarrow> k \<notin> set ks"
  by (simp add: addresses_def map_of_zip_is_None)

lemma map_of_addresses:
  "distinct ks \<Longrightarrow> j < length ks \<Longrightarrow> map_of (addresses ks) k = Some j \<longleftrightarrow> k = ks ! j"
  unfolding addresses_def
  by (metis (no_types, lifting) distinct_Ex1 in_set_conv_nth length_map length_upt map_nth
      map_of_zip_nth map_of_SomeD in_set_zip fst_conv snd_conv nth_upt add_0 diff_zero)

lemma map_of_addresses_bound: "map_of (addresses ks) k = Some j \<Longrightarrow> j < length ks"
  by (auto simp: addresses_def dest!: map_of_SomeD set_zip_rightD)

lemma addresses_snoc:
  "k \<notin> set ks \<Longrightarrow> obj_set k (length ks) (addresses ks) = addresses (ks @ [k])"
proof -
  have new: "AList.update k v ob = ob @ [(k, v)]" if "k \<notin> fst ` set ob" for k and v :: nat and ob
    using that by (induction ob) auto
  assume "k \<notin> set ks"
  then have "k \<notin> fst ` set (addresses ks)"
    by (auto simp: addresses_def dest: set_zip_leftD)
  then show ?thesis by (simp add: obj_set_def new) (simp add: addresses_def)
qed

section \<open>The loops of the MySQL catalogue\<close>

definition table_key :: "MySqlTable \<Rightarrow> string" where
  "table_key t = key2 (mtTableSchema t) (mtTableName t)"

text \<open>The positions of the tables of a schema.\<close>

definition of_schema :: "('t \<Rightarrow> string) \<Rightarrow> 't list \<Rightarrow> string \<Rightarrow> nat list" where
  "of_schema sch T s = filter (\<lambda>a. sch (T ! a) = s) [0..<length T]"

lemma obj_set_map:
  "distinct S \<Longrightarrow> s \<in> set S \<Longrightarrow>
   obj_set s v (map (\<lambda>s. (s, f s)) S) = map (\<lambda>s'. (s', if s' = s then v else f s')) S"
proof (induction S)
  case (Cons a S)
  show ?case
  proof (cases "a = s")
    case True
    with Cons.prems have "map (\<lambda>s'. (s', f s')) S = map (\<lambda>s'. (s', if s' = s then v else f s')) S"
      by (intro map_cong) auto
    with True show ?thesis by (simp add: obj_set_def)
  next
    case False
    with Cons show ?thesis by (simp add: obj_set_def)
  qed
qed simp

lemma map_of_map_pair: "map_of (map (\<lambda>s. (s, f s)) S) s = (if s \<in> set S then Some (f s) else None)"
  by (induction S) auto

lemma of_schema_snoc:
  "of_schema sch (T @ [t]) s = of_schema sch T s @ (if sch t = s then [length T] else [])"
  by (auto simp: of_schema_def nth_append intro!: filter_cong)

lemma tables_of_schema:
  "map (\<lambda>a. map f T ! a) (of_schema sch T s) = map f (filter (\<lambda>t. sch t = s) T)"
proof -
  have "filter (\<lambda>t. sch t = s) T = filter (\<lambda>t. sch t = s) (map (\<lambda>a. T ! a) [0..<length T])"
    by (simp only: map_nth)
  also have "\<dots> = map (\<lambda>a. T ! a) (of_schema sch T s)"
    by (simp add: filter_map of_schema_def comp_def)
  finally show ?thesis by (simp add: of_schema_def)
qed

text \<open>
  The first loops of both drivers: a table object is appended, recorded under its key and pushed
  to the array of its schema when the schema is listed.
\<close>

locale table_registry =
  fixes schema_of :: "'t \<Rightarrow> string"
    and key_of :: "'t \<Rightarrow> string"
    and item_of :: "'t \<Rightarrow> 'i"
    and reference :: "nat \<Rightarrow> 'e"
    and tables :: "'s \<Rightarrow> 'i list"
    and records :: "'s \<Rightarrow> nat obj"
    and schema_lists :: "'s \<Rightarrow> 'e list obj"
    and add_schema :: "string \<Rightarrow> 's \<Rightarrow> 's"
    and add_table :: "'t \<Rightarrow> 's \<Rightarrow> 's"
  assumes schema_steps: "tables (add_schema s st) = tables st" "records (add_schema s st) = records st"
      "schema_lists (add_schema s st) = obj_set s [] (schema_lists st)"
    and table_steps: "tables (add_table t st) = tables st @ [item_of t]"
      "records (add_table t st) = obj_set (key_of t) (length (tables st)) (records st)"
      "schema_lists (add_table t st) =
         (case map_of (schema_lists st) (schema_of t) of
            None \<Rightarrow> schema_lists st
          | Some xs \<Rightarrow> obj_set (schema_of t) (xs @ [reference (length (tables st))]) (schema_lists st))"
begin

lemma schemas_registered:
  assumes "tables st = []" and "records st = []" and "schema_lists st = []"
  shows "distinct S \<Longrightarrow> tables (fold add_schema S st) = [] \<and> records (fold add_schema S st) = []
    \<and> schema_lists (fold add_schema S st) = map (\<lambda>s. (s, [])) S"
proof (induction S rule: rev_induct)
  case (snoc s S)
  then have "s \<notin> fst ` set (map (\<lambda>s. (s, [] :: 'e list)) S)" by auto
  with snoc show ?case by (simp add: schema_steps obj_set_new)
qed (simp add: assms)

lemma tables_registered:
  assumes "tables st = []" and "records st = []" and "schema_lists st = map (\<lambda>s. (s, [])) S"
    and S: "distinct S"
  shows "distinct (map key_of T) \<Longrightarrow>
    tables (fold add_table T st) = map item_of T \<and> records (fold add_table T st) = addresses (map key_of T)
    \<and> schema_lists (fold add_table T st) = map (\<lambda>s. (s, map reference (of_schema schema_of T s))) S"
proof (induction T rule: rev_induct)
  case Nil
  then show ?case using assms by (simp add: of_schema_def addresses_def)
next
  case (snoc t T)
  have "key_of t \<notin> set (map key_of T)" using snoc.prems by auto
  from addresses_snoc [OF this] snoc S show ?case
    by (auto simp: table_steps map_of_map_pair obj_set_map of_schema_snoc)
qed

lemma registered:
  assumes "tables st = []" and "records st = []" and "schema_lists st = []"
    and "distinct S" and "distinct (map key_of T)"
  shows "tables (fold add_table T (fold add_schema S st)) = map item_of T"
    and "records (fold add_table T (fold add_schema S st)) = addresses (map key_of T)"
    and "schema_lists (fold add_table T (fold add_schema S st)) =
           map (\<lambda>s. (s, map reference (of_schema schema_of T s))) S"
  using schemas_registered [OF assms(1-3), of S] tables_registered [of "fold add_schema S st" S T] assms(4,5)
  by auto

end

interpretation mysql_registry: table_registry mtTableSchema table_key mysql_table_item Inl
  mcTables mcTableRecord mcSchemaRecord add_schema add_table
  by unfold_locales (simp_all add: add_schema_def add_table_def table_key_def Let_def)

definition base_catalog :: "string list \<Rightarrow> MySqlTable list \<Rightarrow> MysqlCatalog" where
  "base_catalog S T =
     \<lparr>mcTables = map mysql_table_item T, mcTableRecord = addresses (map table_key T),
      mcSchemaRecord = map (\<lambda>s. (s, map Inl (of_schema mtTableSchema T s))) S, mcConstraintRecords = []\<rparr>"

lemma mysql_base:
  assumes "distinct S" and "distinct (map table_key T)"
  shows "fold add_table T (fold add_schema S empty_catalog) = base_catalog S T"
proof -
  have "mcConstraintRecords (fold add_schema S st) = mcConstraintRecords st" for st
    by (induction S arbitrary: st) (simp_all add: add_schema_def)
  moreover have "mcConstraintRecords (fold add_table T st) = mcConstraintRecords st" for st
    by (induction T arbitrary: st) (simp_all add: add_table_def Let_def)
  ultimately show ?thesis
    using mysql_registry.registered [of empty_catalog S T] assms
    by (intro MysqlCatalog.equality) (simp_all add: empty_catalog_def base_catalog_def)
qed

text \<open>Columns: an unknown table ends the computation, otherwise every row goes to its table.\<close>

definition known :: "MySqlTable list \<Rightarrow> string \<Rightarrow> bool" where
  "known T k = (k \<in> table_key ` set T)"

definition table_addr :: "MySqlTable list \<Rightarrow> string \<Rightarrow> nat option" where
  "table_addr T k = map_of (addresses (map table_key T)) k"

lemma table_addr_None [simp]: "table_addr T k = None \<longleftrightarrow> \<not> known T k"
  by (simp add: table_addr_def map_of_addresses_None known_def)

lemma table_addr_iff:
  "distinct (map table_key T) \<Longrightarrow> j < length T \<Longrightarrow> table_addr T k = Some j \<longleftrightarrow> k = table_key (T ! j)"
  using map_of_addresses [of "map table_key T" j k] by (simp add: table_addr_def)

lemma table_addr_bound: "table_addr T k = Some j \<Longrightarrow> j < length T"
  using map_of_addresses_bound by (fastforce simp: table_addr_def)

definition route_column :: "MySqlColumn \<Rightarrow> MysqlSchemaItem \<Rightarrow> MysqlSchemaItem" where
  "route_column c = on_schema (push_table_column (mapColumn c))"

lemma add_columns_known:
  assumes "mcTableRecord st = addresses (map table_key T)"
  shows "list_all (\<lambda>c. known T (column_key c)) C \<Longrightarrow>
    add_columns C st = Inr (st\<lparr>mcTables := fold (route (\<lambda>c. table_addr T (column_key c)) route_column)
                                     C (mcTables st)\<rparr>)"
  using assms
proof (induction C arbitrary: st)
  case (Cons c C)
  then obtain a where a: "map_of (mcTableRecord st) (column_key c) = Some a"
    using table_addr_None [of T "column_key c"] by (auto simp: table_addr_def)
  with Cons show ?case
    by (simp add: route_def route_column_def table_addr_def)
qed simp

lemma add_columns_unknown:
  assumes "mcTableRecord st = addresses (map table_key T)"
  shows "\<not> list_all (\<lambda>c. known T (column_key c)) C \<Longrightarrow>
    add_columns C st = Inl (TypeError ''Cannot read properties of undefined (reading 'tableSchema')'')"
  using assms
proof (induction C arbitrary: st)
  case (Cons c C)
  show ?case
  proof (cases "map_of (mcTableRecord st) (column_key c)")
    case (Some a)
    then have "known T (column_key c)"
      using Cons.prems table_addr_None [of T "column_key c"] by (auto simp: table_addr_def)
    with Cons Some show ?thesis by simp
  qed simp
qed simp

lemma fold_push_columns:
  "fold route_column C it =
     on_schema (\<lambda>ts. ts\<lparr>tsColumns := tsColumns ts @ map mapColumn C\<rparr>) it"
proof (induction C arbitrary: it)
  case Nil
  show ?case by (simp add: on_schema_def option.map_ident)
next
  case (Cons c C)
  then show ?case
    by (simp add: route_column_def on_schema_def push_table_column_def option.map_comp comp_def)
qed

text \<open>Constraints: their records give the table and the position in its array.\<close>

definition constraint_addr :: "MySqlTable list \<Rightarrow> MySQLConstraintResult \<Rightarrow> nat option" where
  "constraint_addr T k = table_addr T (constraint_table_key k)"

definition constraints_at :: "MySqlTable list \<Rightarrow> MySQLConstraintResult list \<Rightarrow> nat \<Rightarrow> MySQLConstraintResult list"
where
  "constraints_at T K a = filter (\<lambda>k. constraint_addr T k = Some a) K"

definition route_constraint :: "MySQLConstraintResult \<Rightarrow> MysqlSchemaItem \<Rightarrow> MysqlSchemaItem" where
  "route_constraint k = on_schema (push_constraint (new_constraint k))"

definition fresh_item :: "MysqlSchemaItem \<Rightarrow> bool" where
  "fresh_item it = (\<exists>ts. itemTableSchema it = Some ts \<and> tsConstraints ts = None)"

lemma fold_push_constraints:
  "fresh_item it \<Longrightarrow>
   fold route_constraint K it =
     on_schema (\<lambda>ts. ts\<lparr>tsConstraints := if K = [] then None else Some (map new_constraint K)\<rparr>) it"
proof (induction K rule: rev_induct)
  case Nil
  then show ?case by (auto simp: fresh_item_def on_schema_def)
next
  case (snoc k K)
  then show ?case
    by (auto simp: route_constraint_def on_schema_def push_constraint_def constraints_of_def
        fresh_item_def)
qed

definition located ::
  "MySqlTable list \<Rightarrow> MySQLConstraintResult list \<Rightarrow> (nat \<times> nat) obj \<Rightarrow> bool" where
  "located T K R = (\<forall>key a i. map_of R key = Some (a, i) \<longleftrightarrow>
     i < length (constraints_at T K a) \<and> constraint_key (constraints_at T K a ! i) = key)"

lemma located_snoc:
  assumes loc: "located T K R" and new: "constraint_key k \<notin> constraint_key ` set K"
    and a: "constraint_addr T k = Some b"
  shows "located T (K @ [k]) (obj_set (constraint_key k) (b, length (constraints_at T K b)) R)"
proof -
  have other: "constraint_key (constraints_at T K a ! i) \<noteq> constraint_key k"
    if "i < length (constraints_at T K a)" for a i
  proof -
    have "constraints_at T K a ! i \<in> set K" using nth_mem [OF that] by (simp add: constraints_at_def)
    with new show ?thesis by (metis imageI)
  qed
  have at: "constraints_at T (K @ [k]) a = constraints_at T K a @ (if a = b then [k] else [])" for a
    using a by (auto simp: constraints_at_def)
  show ?thesis
    using loc other unfolding located_def at
    by (auto simp: nth_append less_Suc_eq)
qed

lemma located_skip: "constraint_addr T k = None \<Longrightarrow> located T (K @ [k]) R \<longleftrightarrow> located T K R"
  by (simp add: located_def constraints_at_def)

lemma add_constraint_step:
  "map_of (mcTableRecord st) (constraint_table_key k) = None \<Longrightarrow> add_constraint k st = st"
  "map_of (mcTableRecord st) (constraint_table_key k) = Some a \<Longrightarrow> add_constraint k st =
     st\<lparr>mcTables := modify_at a (route_constraint k) (mcTables st),
        mcConstraintRecords := obj_set (constraint_key k) (a, constraint_count (mcTables st ! a))
          (mcConstraintRecords st)\<rparr>"
  by (simp_all add: add_constraint_def route_constraint_def)

lemma add_constraints:
  assumes rec: "mcTableRecord st = addresses (map table_key T)"
    and len: "length (mcTables st) = length T"
    and fresh: "\<And>j. j < length T \<Longrightarrow> fresh_item (mcTables st ! j)"
    and none: "mcConstraintRecords st = []"
  shows "distinct (map constraint_key K) \<Longrightarrow>
    \<exists>R. located T K R \<and>
        fold add_constraint K st =
          st\<lparr>mcTables := fold (route (constraint_addr T) route_constraint) K (mcTables st),
             mcConstraintRecords := R\<rparr>"
proof (induction K rule: rev_induct)
  case Nil
  have "located T [] []" by (simp add: located_def constraints_at_def)
  then show ?case using none by (intro exI [of _ "[]"]) simp
next
  case (snoc k K)
  then obtain R where R: "located T K R"
    and st: "fold add_constraint K st =
          st\<lparr>mcTables := fold (route (constraint_addr T) route_constraint) K (mcTables st),
             mcConstraintRecords := R\<rparr>"
    by auto
  have addr: "map_of (mcTableRecord st) (constraint_table_key k) = constraint_addr T k"
    by (simp add: rec constraint_addr_def table_addr_def)
  show ?case
  proof (cases "constraint_addr T k")
    case None
    moreover have "fold add_constraint (K @ [k]) st =
        add_constraint k (st\<lparr>mcTables := fold (route (constraint_addr T) route_constraint) K (mcTables st),
                             mcConstraintRecords := R\<rparr>)"
      by (simp add: st)
    moreover have "fold (route (constraint_addr T) route_constraint) (K @ [k]) xs =
        fold (route (constraint_addr T) route_constraint) K xs" for xs
      using None by (simp add: route_def [of _ _ k])
    ultimately show ?thesis
      using R addr by (intro exI [of _ R]) (simp add: add_constraint_step located_skip)
  next
    case (Some b)
    then have b: "b < length T" using table_addr_bound by (simp add: constraint_addr_def)
    let ?tabs = "fold (route (constraint_addr T) route_constraint) K (mcTables st)"
    have "?tabs ! b = on_schema (\<lambda>ts. ts\<lparr>tsConstraints :=
        if constraints_at T K b = [] then None else Some (map new_constraint (constraints_at T K b))\<rparr>)
        (mcTables st ! b)"
      using b len fresh by (simp add: route_nth constraints_at_def fold_push_constraints)
    then have count: "constraint_count (?tabs ! b) = length (constraints_at T K b)"
      using fresh [OF b] by (auto simp: constraint_count_def on_schema_def fresh_item_def constraints_of_def)
    let ?R = "obj_set (constraint_key k) (b, length (constraints_at T K b)) R"
    have "located T (K @ [k]) ?R"
      using snoc.prems R Some by (intro located_snoc) auto
    moreover have "fold add_constraint (K @ [k]) st =
        st\<lparr>mcTables := fold (route (constraint_addr T) route_constraint) (K @ [k]) (mcTables st),
           mcConstraintRecords := ?R\<rparr>"
    proof -
      have "fold add_constraint (K @ [k]) st =
          add_constraint k (st\<lparr>mcTables := ?tabs, mcConstraintRecords := R\<rparr>)"
        by (simp add: st)
      moreover have "fold (route (constraint_addr T) route_constraint) (K @ [k]) (mcTables st) =
          modify_at b (route_constraint k) ?tabs"
        using Some by (simp add: route_def [of _ _ k])
      ultimately show ?thesis
        using addr Some count add_constraint_step(2) [of "st\<lparr>mcTables := ?tabs, mcConstraintRecords := R\<rparr>" k b]
        by simp
    qed
    ultimately show ?thesis by blast
  qed
qed

text \<open>The columns of a constraint.\<close>

definition constraint_with ::
  "MySQLConstraintColumnResult list \<Rightarrow> MySQLConstraintResult \<Rightarrow> DatabaseTableColumnConstraint" where
  "constraint_with us k =
     (let k0 = no_constraint\<lparr>conName := Is (mkConstraintName k)\<rparr>;
          ns = map mxColumnName us
      in if mkConstraintType k = ''PRIMARY KEY'' then k0\<lparr>primaryKey := Is True, primaryColumns := Is ns\<rparr>
         else if mkConstraintType k = ''UNIQUE'' then k0\<lparr>unique := Is True, uniqueColumns := Is ns\<rparr>
         else if mkConstraintType k = ''FOREIGN KEY'' then k0\<lparr>foreignKey := Is
           \<lparr>foreignSchemaName = Some (if us = [] then [] else mxReferencedTableSchema (last us)),
            foreignTableName = Some (if us = [] then [] else mxReferencedTableName (last us)),
            foreignColumns = Some (map mxReferencedColumnName us), fkColumns = Some ns\<rparr>\<rparr>
         else k0)"

lemma constraint_with_Nil: "new_constraint k = constraint_with [] k"
  by (simp add: new_constraint_def constraint_with_def Let_def)

lemma extend_constraint_with: "extend_constraint u (constraint_with us k) = constraint_with (us @ [u]) k"
  by (simp add: extend_constraint_def constraint_with_def Let_def field_true_def field_push_def
      no_constraint_def)

lemma constraint_with_pk: "field_true (primaryKey (constraint_with us k)) \<longleftrightarrow> mkConstraintType k = ''PRIMARY KEY''"
  by (simp add: constraint_with_def Let_def field_true_def no_constraint_def)

text \<open>The columns of constraints, sent to the table and the position of their constraint.\<close>

definition mark_usage :: "MySQLConstraintColumnResult \<Rightarrow> DatabaseTableSchema \<Rightarrow> DatabaseTableSchema" where
  "mark_usage u ts = ts\<lparr>tsColumns := mark_key_column (mxColumnName u) (tsColumns ts)\<rparr>"

definition use_at :: "nat \<Rightarrow> MySQLConstraintColumnResult \<Rightarrow> DatabaseTableSchema \<Rightarrow> DatabaseTableSchema" where
  "use_at i u ts = on_constraint i (extend_constraint u)
     (if field_true (primaryKey (constraints_of ts ! i)) then mark_usage u ts else ts)"

definition usage_addr :: "MySqlTable list \<Rightarrow> (nat \<times> nat) obj \<Rightarrow> MySQLConstraintColumnResult \<Rightarrow> nat option" where
  "usage_addr T R u = (if known T (usage_table_key u) then map_option fst (map_of R (usage_key u)) else None)"

definition route_usage ::
  "(nat \<times> nat) obj \<Rightarrow> MySQLConstraintColumnResult \<Rightarrow> MysqlSchemaItem \<Rightarrow> MysqlSchemaItem" where
  "route_usage R u = on_schema (use_at (snd (the (map_of R (usage_key u)))) u)"

lemma modify_at_twice: "modify_at a g (modify_at a f xs) = modify_at a (\<lambda>x. g (f x)) xs"
  by (cases "a < length xs") (simp_all add: modify_at_def list_update_beyond)

lemma on_schema_twice: "on_schema g (on_schema f it) = on_schema (\<lambda>ts. g (f ts)) it"
  by (simp add: on_schema_def option.map_comp comp_def)

lemma modify_at_cong: "(a < length xs \<Longrightarrow> f (xs ! a) = g (xs ! a)) \<Longrightarrow> modify_at a f xs = modify_at a g xs"
  by (cases "a < length xs") (simp_all add: modify_at_def list_update_beyond)

lemma on_schema_cong:
  "(\<And>ts. itemTableSchema it = Some ts \<Longrightarrow> f ts = g ts) \<Longrightarrow> on_schema f it = on_schema g it"
  by (cases "itemTableSchema it") (simp_all add: on_schema_def)

definition same_table :: "MySQLConstraintResult list \<Rightarrow> MySQLConstraintColumnResult \<Rightarrow> bool" where
  "same_table K u = list_all (\<lambda>k. constraint_key k = usage_key u \<longrightarrow> constraint_table_key k = usage_table_key u) K"

lemma located_addr:
  assumes "located T K R" and "map_of R key = Some (a, i)"
  shows "\<exists>k \<in> set K. constraint_key k = key \<and> table_addr T (constraint_table_key k) = Some a"
proof -
  from assms have i: "i < length (constraints_at T K a)" "constraint_key (constraints_at T K a ! i) = key"
    by (auto simp: located_def)
  then have "constraints_at T K a ! i \<in> set (constraints_at T K a)" by simp
  with i show ?thesis by (auto simp: constraints_at_def constraint_addr_def)
qed

lemma add_constraint_column_route:
  assumes rec: "mcTableRecord st = addresses (map table_key T)"
    and R: "mcConstraintRecords st = R" "located T K R" and u: "same_table K u"
  shows "add_constraint_column u st =
     st\<lparr>mcTables := route (usage_addr T R) (route_usage R) u (mcTables st)\<rparr>"
proof -
  have addr: "map_of (mcTableRecord st) (usage_table_key u) = table_addr T (usage_table_key u)"
    by (simp add: rec table_addr_def)
  show ?thesis
  proof (cases "map_of R (usage_key u)")
    case None
    then show ?thesis using R by (simp add: add_constraint_column_def route_def usage_addr_def)
  next
    case (Some ai)
    obtain a i where ai: "ai = (a, i)" by (cases ai)
    with located_addr [OF R(2)] Some have same: "table_addr T (usage_table_key u) = Some a"
      using u by (fastforce simp: same_table_def list_all_iff)
    then have known: "known T (usage_table_key u)"
      using table_addr_None [of T "usage_table_key u"] by auto
    define pk where "pk = (case constraint_at st (a, i) of None \<Rightarrow> False | Some k \<Rightarrow> field_true (primaryKey k))"
    define tabs where "tabs = (if pk then modify_at a (on_schema (mark_usage u)) (mcTables st) else mcTables st)"
    have "on_schema (on_constraint i (extend_constraint u))
        (if pk then on_schema (mark_usage u) (mcTables st ! a) else mcTables st ! a)
      = on_schema (use_at i u) (mcTables st ! a)"
      by (cases "itemTableSchema (mcTables st ! a)")
         (simp_all add: pk_def constraint_at_def use_at_def on_schema_def)
    then have "modify_at a (on_schema (on_constraint i (extend_constraint u))) tabs
      = modify_at a (on_schema (use_at i u)) (mcTables st)"
      by (cases pk) (auto simp: tabs_def modify_at_twice intro: modify_at_cong)
    moreover have "add_constraint_column u st =
        st\<lparr>mcTables := modify_at a (on_schema (on_constraint i (extend_constraint u))) tabs\<rparr>"
      by (simp add: add_constraint_column_def Some ai R same addr tabs_def pk_def
          mark_usage_def [abs_def] Let_def)
    moreover have "route (usage_addr T R) (route_usage R) u (mcTables st)
        = modify_at a (on_schema (use_at i u)) (mcTables st)"
      using Some ai known by (simp add: route_def usage_addr_def route_usage_def)
    ultimately show ?thesis by simp
  qed
qed

lemma add_constraint_columns:
  assumes "mcTableRecord st = addresses (map table_key T)"
    and "mcConstraintRecords st = R" and "located T K R"
  shows "list_all (same_table K) U \<Longrightarrow> fold add_constraint_column U st =
     st\<lparr>mcTables := fold (route (usage_addr T R) (route_usage R)) U (mcTables st)\<rparr>"
  using assms
  by (induction U arbitrary: st) (simp_all add: add_constraint_column_route)

text \<open>One table: the rows of its constraints, each at the position of its constraint.\<close>

lemma fold_mark_key_column: "distinct (map colName cols) \<Longrightarrow> fold mark_key_column ns cols = mark_all_pk ns cols"
proof (induction ns rule: rev_induct)
  case Nil
  show ?case by (simp add: mark_all_pk_def)
next
  case (snoc n ns)
  have mark: "mark_key_column n xs = map (\<lambda>c. if colName c = n then c\<lparr>colPk := Some True\<rparr> else c) xs"
    if "distinct (map colName xs)" for xs
    using that
  proof (induction xs)
    case (Cons x xs)
    show ?case
    proof (cases "colName x = n")
      case True
      with Cons.prems have "\<forall>c \<in> set xs. colName c \<noteq> n" by (auto simp: image_iff)
      then have "map (\<lambda>c. if colName c = n then c\<lparr>colPk := Some True\<rparr> else c) xs = xs"
        by (intro map_idI) simp
      with True show ?thesis by simp
    next
      case False
      with Cons show ?thesis by simp
    qed
  qed simp
  have "map colName (mark_all_pk ns cols) = map colName cols" by (simp add: mark_all_pk_def)
  with snoc have "fold mark_key_column (ns @ [n]) cols
      = map (\<lambda>c. if colName c = n then c\<lparr>colPk := Some True\<rparr> else c) (mark_all_pk ns cols)"
    by (simp add: mark)
  also have "\<dots> = mark_all_pk (ns @ [n]) cols" by (simp add: mark_all_pk_def)
  finally show ?case .
qed

definition usages :: "MySQLConstraintColumnResult list \<Rightarrow> MySQLConstraintResult \<Rightarrow> MySQLConstraintColumnResult list"
where
  "usages U k = filter (\<lambda>u. usage_key u = constraint_key k) U"

definition pk_usage :: "MySQLConstraintResult list \<Rightarrow> MySQLConstraintColumnResult \<Rightarrow> bool" where
  "pk_usage Kt u = list_ex (\<lambda>k. constraint_key k = usage_key u \<and> mkConstraintType k = ''PRIMARY KEY'') Kt"

definition constrained ::
  "MySQLConstraintResult list \<Rightarrow> MySQLConstraintColumnResult list \<Rightarrow> DatabaseTableSchema \<Rightarrow>
   DatabaseTableSchema" where
  "constrained Kt U ts =
     ts\<lparr>tsColumns := fold mark_key_column (map mxColumnName (filter (pk_usage Kt) U)) (tsColumns ts),
        tsConstraints := if Kt = [] then None else Some (map (\<lambda>k. constraint_with (usages U k) k) Kt)\<rparr>"

lemma use_at_constrained:
  assumes "distinct (map constraint_key Kt)" and "i < length Kt" and "constraint_key (Kt ! i) = usage_key u"
  shows "use_at i u (constrained Kt U ts) = constrained Kt (U @ [u]) ts"
proof -
  have only: "constraint_key k = usage_key u \<longleftrightarrow> k = Kt ! i" if "k \<in> set Kt" for k
  proof -
    have "inj_on constraint_key (set Kt)" and "Kt ! i \<in> set Kt"
      using assms(1,2) by (simp_all add: distinct_map)
    then show ?thesis using assms(3) that by (metis inj_onD)
  qed
  have pk: "pk_usage Kt u \<longleftrightarrow> mkConstraintType (Kt ! i) = ''PRIMARY KEY''"
    using only assms(2,3) by (auto simp: pk_usage_def list_ex_iff)
  have cons: "(map (\<lambda>k. constraint_with (usages U k) k) Kt)[i := constraint_with (usages U (Kt ! i) @ [u]) (Kt ! i)]
      = map (\<lambda>k. constraint_with (usages (U @ [u]) k) k) Kt"
  proof (rule nth_equalityI)
    fix j
    assume "j < length ((map (\<lambda>k. constraint_with (usages U k) k) Kt)
        [i := constraint_with (usages U (Kt ! i) @ [u]) (Kt ! i)])"
    then have j: "j < length Kt" by simp
    have "usage_key u = constraint_key (Kt ! j) \<longleftrightarrow> i = j"
      using assms j by (metis nth_eq_iff_index_eq length_map nth_map)
    with j show "(map (\<lambda>k. constraint_with (usages U k) k) Kt)
        [i := constraint_with (usages U (Kt ! i) @ [u]) (Kt ! i)] ! j
      = map (\<lambda>k. constraint_with (usages (U @ [u]) k) k) Kt ! j"
      by (auto simp: nth_list_update usages_def)
  qed simp
  have at: "constraints_of (constrained Kt U ts) ! i = constraint_with (usages U (Kt ! i)) (Kt ! i)"
    using assms(2) by (auto simp: constraints_of_def constrained_def)
  have "Kt \<noteq> []" using assms(2) by auto
  with assms(2) pk cons at show ?thesis
    by (simp add: use_at_def constraint_with_pk mark_usage_def on_constraint_def modify_at_def
        constrained_def extend_constraint_with)
qed

lemma fold_usages:
  assumes "distinct (map constraint_key Kt)" and "itemTableSchema it = Some ts"
    and base: "tsConstraints ts = (if Kt = [] then None else Some (map new_constraint Kt))"
    and idx: "\<And>u. u \<in> set U \<Longrightarrow> pos u < length Kt \<and> constraint_key (Kt ! pos u) = usage_key u"
  shows "fold (\<lambda>u. on_schema (use_at (pos u) u)) U it = on_schema (constrained Kt U) it"
  using idx
proof (induction U rule: rev_induct)
  case Nil
  have "constrained Kt [] ts = ts"
    using base by (simp add: constrained_def usages_def constraint_with_Nil)
  with assms(2) show ?case by (simp add: on_schema_def)
next
  case (snoc u U)
  then show ?case
    using assms(1) by (simp add: on_schema_twice use_at_constrained)
qed

text \<open>Triggers and primary keys.\<close>

lemma add_triggers_map:
  assumes "mcSchemaRecord st = map (\<lambda>s. (s, f s)) S" and "distinct S"
  shows "distinct S1 \<Longrightarrow> set S1 \<subseteq> set S \<Longrightarrow> fold (add_triggers TR) S1 st =
    st\<lparr>mcSchemaRecord := map (\<lambda>s. (s, if s \<in> set S1
          then f s @ map (\<lambda>t. Inr (mysql_trigger_item t)) (filter (\<lambda>t. mrTriggerSchema t = s) TR)
          else f s)) S\<rparr>"
proof (induction S1 rule: rev_induct)
  case Nil
  then show ?case using assms(1) by simp
next
  case (snoc s S1)
  then show ?case
    using assms(2)
    by (auto simp: add_triggers_def Let_def map_of_map_pair obj_set_map)
qed

lemma build_pk_all:
  assumes "length xs = length ks"
  shows "fold (\<lambda>(k, a). modify_at a g) (addresses ks) xs = map g xs"
proof (rule nth_equalityI)
  have len: "length (fold (\<lambda>(k, a). modify_at a g) R ys) = length ys" for R :: "nat obj" and ys
    by (induction R arbitrary: ys) auto
  show "length (fold (\<lambda>(k, a). modify_at a g) (addresses ks) xs) = length (map g xs)"
    by (simp add: len)
  fix j
  assume "j < length (fold (\<lambda>(k, a). modify_at a g) (addresses ks) xs)"
  then have j: "j < length xs" by (simp add: len)
  have "fold (\<lambda>(k, a). modify_at a g) (addresses ls) xs ! j =
      (if j < length ls then g (xs ! j) else xs ! j)" for ls
  proof (induction ls rule: rev_induct)
    case Nil
    show ?case by (simp add: addresses_def)
  next
    case (snoc l ls)
    have "addresses (ls @ [l]) = addresses ls @ [(l, length ls)]" by (simp add: addresses_def)
    with snoc j show ?case by (cases "j = length ls") (auto simp: nth_modify_at len less_Suc_eq)
  qed
  with assms j show "fold (\<lambda>(k, a). modify_at a g) (addresses ks) xs ! j = map g xs ! j" by simp
qed

section \<open>The catalogue table by table\<close>

text \<open>What \<open>schemas()\<close> promises: every table from its own rows only.\<close>

definition constraints_on :: "MySQLConstraintResult list \<Rightarrow> MySqlTable \<Rightarrow> MySQLConstraintResult list" where
  "constraints_on K t = filter (\<lambda>k. constraint_table_key k = table_key t) K"

definition mysql_table ::
  "MySqlColumn list \<Rightarrow> MySQLConstraintResult list \<Rightarrow> MySQLConstraintColumnResult list \<Rightarrow> MySqlTable \<Rightarrow>
   MysqlSchemaItem" where
  "mysql_table C K U t =
     (let Kt = constraints_on K t;
          cols = mark_all_pk (map mxColumnName (filter (pk_usage Kt) U))
                   (map mapColumn (filter (\<lambda>c. column_key c = table_key t) C))
      in on_schema (\<lambda>ts. ts
           \<lparr>tsColumns := cols,
            tsConstraints := if Kt = [] then None
                             else Some (map (\<lambda>k. constraint_with (usages U k) k) Kt),
            tsPk := map colName (filter (\<lambda>c. colPk c = Some True) cols)\<rparr>)
         (mysql_table_item t))"

definition catalog_ok ::
  "string list \<Rightarrow> MySqlTable list \<Rightarrow> MySqlColumn list \<Rightarrow> MySQLConstraintResult list \<Rightarrow>
   MySQLConstraintColumnResult list \<Rightarrow> bool" where
  "catalog_ok S T C K U =
     (distinct S \<and> distinct (map table_key T) \<and> distinct (map constraint_key K)
      \<and> distinct (map (\<lambda>c. (column_key c, mcColumnName c)) C) \<and> list_all (same_table K) U)"

lemma constraints_at_on:
  "distinct (map table_key T) \<Longrightarrow> j < length T \<Longrightarrow> constraints_at T K j = constraints_on K (T ! j)"
  by (simp add: constraints_at_def constraints_on_def constraint_addr_def table_addr_iff)

lemma mapColumn_name [simp]: "colName (mapColumn c) = mcColumnName c"
  by (simp add: mapColumn_def with_con_def Let_def split: option.split)

lemma distinct_columns:
  assumes "distinct (map (\<lambda>c. (column_key c, mcColumnName c)) C)"
  shows "distinct (map colName (map mapColumn (filter (\<lambda>c. column_key c = k) C)))"
proof -
  have "distinct (map (\<lambda>c. (column_key c, mcColumnName c)) (filter (\<lambda>c. column_key c = k) C))"
    using assms by (rule distinct_map_filter)
  then show ?thesis
    by (simp add: distinct_map comp_def inj_on_def)
qed

lemma usage_of_table:
  assumes T: "distinct (map table_key T)" and j: "j < length T" and R: "located T K R"
    and u: "same_table K u" and k: "k \<in> set (constraints_on K (T ! j))" "constraint_key k = usage_key u"
  shows "usage_addr T R u = Some j"
proof -
  have "k \<in> set (constraints_at T K j)" using k(1) constraints_at_on [OF T j] by simp
  then obtain i where "i < length (constraints_at T K j)" "constraints_at T K j ! i = k"
    by (metis in_set_conv_nth)
  with R k(2) have "map_of R (usage_key u) = Some (j, i)" by (auto simp: located_def)
  moreover have "usage_table_key u = table_key (T ! j)"
    using u k by (fastforce simp: same_table_def list_all_iff constraints_on_def)
  ultimately show ?thesis using j by (auto simp: usage_addr_def known_def)
qed

lemma constrained_on_table:
  assumes T: "distinct (map table_key T)" and j: "j < length T" and R: "located T K R"
    and U: "list_all (same_table K) U"
  shows "constrained (constraints_on K (T ! j)) (filter (\<lambda>u. usage_addr T R u = Some j) U) =
         constrained (constraints_on K (T ! j)) U"
proof -
  let ?Kt = "constraints_on K (T ! j)"
  have of: "usage_addr T R u = Some j" if "u \<in> set U" "k \<in> set ?Kt" "usage_key u = constraint_key k" for u k
    using usage_of_table [OF T j R, of u k] U that by (simp add: list_all_iff)
  have "usages (filter (\<lambda>u. usage_addr T R u = Some j) U) k = usages U k" if "k \<in> set ?Kt" for k
    using of that by (auto simp: usages_def intro!: filter_cong)
  moreover have "filter (pk_usage ?Kt) (filter (\<lambda>u. usage_addr T R u = Some j) U) = filter (pk_usage ?Kt) U"
    unfolding filter_filter using of
    by (intro filter_cong [OF refl]) (fastforce simp: pk_usage_def list_ex_iff)
  ultimately show ?thesis
    by (intro ext) (simp add: constrained_def cong: map_cong)
qed


lemma located_usage:
  assumes "located T K R" and "usage_addr T R u = Some j"
  shows "snd (the (map_of R (usage_key u))) < length (constraints_at T K j) \<and>
    constraint_key (constraints_at T K j ! snd (the (map_of R (usage_key u)))) = usage_key u"
proof -
  obtain i where i: "map_of R (usage_key u) = Some (j, i)"
    using assms(2) by (auto simp: usage_addr_def split: if_splits)
  then have "i < length (constraints_at T K j) \<and> constraint_key (constraints_at T K j ! i) = usage_key u"
    using assms(1) unfolding located_def by blast
  with i show ?thesis by simp
qed

lemma routed_table:
  assumes ok: "catalog_ok S T C K U" and R: "located T K R" and j: "j < length T"
  shows "on_schema set_pk
      (fold (route_usage R) (filter (\<lambda>u. usage_addr T R u = Some j) U)
        (fold route_constraint (constraints_at T K j)
          (fold route_column (filter (\<lambda>c. table_addr T (column_key c) = Some j) C)
            (mysql_table_item (T ! j))))) = mysql_table C K U (T ! j)"
proof -
  let ?t = "T ! j" and ?Kt = "constraints_on K (T ! j)"
  let ?Uj = "filter (\<lambda>u. usage_addr T R u = Some j) U"
  let ?cols = "map mapColumn (filter (\<lambda>c. column_key c = table_key ?t) C)"
  have T: "distinct (map table_key T)" and K: "distinct (map constraint_key K)"
    and C: "distinct (map (\<lambda>c. (column_key c, mcColumnName c)) C)" and U: "list_all (same_table K) U"
    using ok by (simp_all add: catalog_ok_def)
  have Kt: "distinct (map constraint_key ?Kt)"
    unfolding constraints_on_def using K by (rule distinct_map_filter)
  define it1 where "it1 = on_schema (\<lambda>ts. ts\<lparr>tsColumns := ?cols\<rparr>) (mysql_table_item ?t)"
  define it2 where "it2 = on_schema (\<lambda>ts. ts\<lparr>tsConstraints := if ?Kt = [] then None
      else Some (map new_constraint ?Kt)\<rparr>) it1"
  have 1: "fold route_column (filter (\<lambda>c. table_addr T (column_key c) = Some j) C) (mysql_table_item ?t) = it1"
    using T j by (simp add: fold_push_columns table_addr_iff it1_def)
      (simp add: on_schema_def mysql_table_item_def)
  have "fresh_item it1" by (simp add: fresh_item_def it1_def on_schema_def mysql_table_item_def)
  then have 2: "fold route_constraint (constraints_at T K j) it1 = it2"
    by (simp add: fold_push_constraints it2_def constraints_at_on [OF T j])
  obtain ts where ts: "itemTableSchema it2 = Some ts"
    and con: "tsConstraints ts = (if ?Kt = [] then None else Some (map new_constraint ?Kt))"
    by (simp add: it2_def it1_def on_schema_def mysql_table_item_def)
  have "fold (route_usage R) ?Uj it2 = on_schema (constrained ?Kt ?Uj) it2"
    unfolding route_usage_def [abs_def]
  proof (rule fold_usages [OF Kt ts con])
    fix u
    assume "u \<in> set ?Uj"
    then show "snd (the (map_of R (usage_key u))) < length ?Kt \<and>
        constraint_key (?Kt ! snd (the (map_of R (usage_key u)))) = usage_key u"
      using located_usage [OF R, of u j] by (simp add: constraints_at_on [OF T j])
  qed
  then have 3: "fold (route_usage R) ?Uj it2 = on_schema (constrained ?Kt U) it2"
    by (simp add: constrained_on_table [OF T j R U])
  have marked: "fold mark_key_column ns ?cols = mark_all_pk ns ?cols" for ns
    using distinct_columns [OF C] by (rule fold_mark_key_column)
  show ?thesis
    unfolding 1 2 3
    unfolding it2_def it1_def mysql_table_def Let_def
    by (simp add: on_schema_twice constrained_def set_pk_def marked)
qed

text \<open>
  The loops of \<open>schemas()\<close> of the MySQL driver over shared, mutable records give every
  listed schema its tables in order and then its triggers, and every table exactly its own
  columns, constraints and primary key; a column of a table that is not listed makes the whole
  call throw.
\<close>

theorem mysql_schemas_by_table:
  assumes "catalog_ok S T C K U"
  shows "mysql_assemble S T C K U TR =
    (if list_all (\<lambda>c. known T (column_key c)) C
     then Inr (map (\<lambda>s. (s, map (mysql_table C K U) (filter (\<lambda>t. mtTableSchema t = s) T)
                          @ map mysql_trigger_item (filter (\<lambda>t. mrTriggerSchema t = s) TR))) S)
     else Inl (TypeError ''Cannot read properties of undefined (reading 'tableSchema')''))"
proof -
  have S: "distinct S" and T: "distinct (map table_key T)" and K: "distinct (map constraint_key K)"
    and U: "list_all (same_table K) U"
    using assms by (simp_all add: catalog_ok_def)
  let ?base = "base_catalog S T"
  have base: "fold add_table T (fold add_schema S empty_catalog) = ?base"
    by (rule mysql_base [OF S T])
  have rec: "mcTableRecord ?base = addresses (map table_key T)" by (simp add: base_catalog_def)
  show ?thesis
  proof (cases "list_all (\<lambda>c. known T (column_key c)) C")
    case False
    then show ?thesis
      unfolding mysql_assemble_def base using add_columns_unknown [OF rec] by simp
  next
    case True
    define tabs0 where "tabs0 = fold (route (\<lambda>c. table_addr T (column_key c)) route_column) C (mcTables ?base)"
    define st0 where "st0 = ?base\<lparr>mcTables := tabs0\<rparr>"
    have len0: "length (mcTables st0) = length T"
      by (simp add: st0_def tabs0_def) (simp add: base_catalog_def)
    have nth0: "mcTables st0 ! j = fold route_column (filter (\<lambda>c. table_addr T (column_key c) = Some j) C)
        (mysql_table_item (T ! j))" if "j < length T" for j
      using that by (simp add: st0_def tabs0_def route_nth base_catalog_def)
    have fresh: "fresh_item (mcTables st0 ! j)" if "j < length T" for j
      by (simp add: nth0 that fold_push_columns fresh_item_def on_schema_def mysql_table_item_def)
    have rec0: "mcTableRecord st0 = addresses (map table_key T)" "mcConstraintRecords st0 = []"
      by (simp_all add: st0_def base_catalog_def)
    obtain R where R: "located T K R" and st1: "fold add_constraint K st0 =
        st0\<lparr>mcTables := fold (route (constraint_addr T) route_constraint) K (mcTables st0),
            mcConstraintRecords := R\<rparr>"
      using add_constraints [OF rec0(1) len0 fresh rec0(2) K] by blast
    let ?st1 = "fold add_constraint K st0"
    define tabs2 where "tabs2 = fold (route (usage_addr T R) (route_usage R)) U (mcTables ?st1)"
    have st2: "fold add_constraint_column U ?st1 = ?st1\<lparr>mcTables := tabs2\<rparr>"
      unfolding tabs2_def using rec0 by (intro add_constraint_columns [OF _ _ R U]) (simp_all add: st1)
    have len2: "length tabs2 = length T" using len0 by (simp add: tabs2_def st1)
    have "map (on_schema set_pk) tabs2 = map (mysql_table C K U) T"
    proof (rule nth_equalityI)
      fix j
      assume "j < length (map (on_schema set_pk) tabs2)"
      then have j: "j < length T" by (simp add: len2)
      have "tabs2 ! j = fold (route_usage R) (filter (\<lambda>u. usage_addr T R u = Some j) U)
          (fold route_constraint (constraints_at T K j) (mcTables st0 ! j))"
        using j len0 by (simp add: tabs2_def st1 route_nth constraints_at_def)
      then show "map (on_schema set_pk) tabs2 ! j = map (mysql_table C K U) T ! j"
        using routed_table [OF assms R j] j len2 by (simp add: nth0)
    qed (simp add: len2)
    then have pk: "fold (\<lambda>(k, a). modify_at a (on_schema set_pk)) (mcTableRecord st0) tabs2
        = map (mysql_table C K U) T"
      by (simp add: rec0 build_pk_all len2)
    let ?st2 = "?st1\<lparr>mcTables := tabs2\<rparr>"
    have "mcSchemaRecord st0 = map (\<lambda>s. (s, map Inl (of_schema mtTableSchema T s))) S"
      by (simp add: st0_def base_catalog_def)
    then have "mcSchemaRecord ?st2 = map (\<lambda>s. (s, map Inl (of_schema mtTableSchema T s))) S"
      by (simp add: st1)
    from add_triggers_map [OF this S, of S TR] have st3: "fold (add_triggers TR) S ?st2 =
        ?st2\<lparr>mcSchemaRecord := map (\<lambda>s. (s, map Inl (of_schema mtTableSchema T s)
          @ map (\<lambda>t. Inr (mysql_trigger_item t)) (filter (\<lambda>t. mrTriggerSchema t = s) TR))) S\<rparr>"
      using S by (simp cong: map_cong)
    have cols: "map (\<lambda>a. map (mysql_table C K U) T ! a) (of_schema mtTableSchema T s)
        = map (mysql_table C K U) (filter (\<lambda>t. mtTableSchema t = s) T)" for s
      by (rule tables_of_schema)
    have "mysql_assemble S T C K U TR = Inr (catalog_result (build_pk (fold (add_triggers TR) S ?st2)))"
      using add_columns_known [OF rec True]
      by (simp add: mysql_assemble_def base st0_def [symmetric] tabs0_def [symmetric] st2 Let_def)
    also have "catalog_result (build_pk (fold (add_triggers TR) S ?st2)) =
        map (\<lambda>s. (s, map (mysql_table C K U) (filter (\<lambda>t. mtTableSchema t = s) T)
                      @ map mysql_trigger_item (filter (\<lambda>t. mrTriggerSchema t = s) TR))) S"
      unfolding st3 by (simp add: st1 build_pk_def catalog_result_def pk cols comp_def)
    finally show ?thesis using True by simp
  qed
qed

end
