(* ===== verification/MysqlFacts.thy ===== *)
theory MysqlFacts
  imports CatalogFacts
begin

text \<open>
  Facts about the MySQL driver that involve more than the catalogue: reading back a generated
  trigger, generating a column that was read from the catalogue, and the errors of \<open>tableSchema()\<close>.
\<close>

section \<open>An example of a catalogue\<close>

definition example_mysql_column :: "string \<Rightarrow> string \<Rightarrow> MySqlColumn" where
  "example_mysql_column table name =
     \<lparr>mcTableSchema = ''shop'', mcTableName = table, mcColumnName = name, mcExtra = [],
      mcColumnKey = [], mcIsNullable = ''NO'', mcColumnDefault = None, mcColumnType = ''int'',
      mcCollationName = None\<rparr>"

definition example_mysql_table :: "string \<Rightarrow> MySqlTable" where
  "example_mysql_table name =
     \<lparr>mtTableSchema = ''shop'', mtTableName = name, mtTableType = ''BASE TABLE'',
      mtIndexLength = Num (Dec 16 0), mtDataLength = Num (Dec 84 0)\<rparr>"

definition example_mysql_constraint :: MySQLConstraintResult where
  "example_mysql_constraint =
     \<lparr>mkTableSchema = ''shop'', mkTableName = ''orders'', mkConstraintName = ''PRIMARY'',
      mkConstraintType = ''PRIMARY KEY''\<rparr>"

definition example_mysql_usage :: MySQLConstraintColumnResult where
  "example_mysql_usage =
     \<lparr>mxTableSchema = ''shop'', mxTableName = ''orders'', mxColumnName = ''id'', mxConstraintName = ''PRIMARY'',
      mxReferencedTableSchema = ''null'', mxReferencedTableName = ''null'', mxReferencedColumnName = ''null''\<rparr>"

definition example_mysql_trigger :: MySQLTriggerResult where
  "example_mysql_trigger =
     \<lparr>mrTriggerName = ''audit'', mrEventObjectSchema = ''shop'', mrEventObjectTable = ''orders'',
      mrActionTiming = AFTER, mrActionStatement = ''SET @n = 1'', mrTriggerSchema = ''shop'',
      mrEventManipulation = TriggerINSERT\<rparr>"

theorem mysql_schemas_by_table_witness:
  "\<exists>orders log audit.
     mysql_assemble [''shop''] [example_mysql_table ''orders'', example_mysql_table ''log'']
       [example_mysql_column ''log'' ''text'', example_mysql_column ''orders'' ''id'',
        example_mysql_column ''orders'' ''total'']
       [example_mysql_constraint] [example_mysql_usage] [example_mysql_trigger]
       = Inr [(''shop'', [orders, log, audit])]
     \<and> map_option tsPk (itemTableSchema orders) = Some [''id'']
     \<and> map_option tsPk (itemTableSchema log) = Some [] \<and> itemType audit = KindTrigger"
proof -
  let ?T = "[example_mysql_table ''orders'', example_mysql_table ''log'']"
  let ?C = "[example_mysql_column ''log'' ''text'', example_mysql_column ''orders'' ''id'',
      example_mysql_column ''orders'' ''total'']"
  have ok: "catalog_ok [''shop''] ?T ?C [example_mysql_constraint] [example_mysql_usage]"
    by code_simp
  have known: "list_all (\<lambda>c. known ?T (column_key c)) ?C" by code_simp
  have pk: "map_option tsPk (itemTableSchema (mysql_table ?C [example_mysql_constraint]
      [example_mysql_usage] (example_mysql_table ''orders''))) = Some [''id'']" by code_simp
  have none: "map_option tsPk (itemTableSchema (mysql_table ?C [example_mysql_constraint]
      [example_mysql_usage] (example_mysql_table ''log''))) = Some []" by code_simp
  show ?thesis
    unfolding mysql_schemas_by_table [OF ok]
    using known pk none
    by (simp add: example_mysql_table_def [of "''log''"] example_mysql_table_def [of "''orders''"]
        example_mysql_trigger_def mysql_trigger_item_def)
qed

section \<open>The schema of a table\<close>

definition fk_without_columns :: "MySQLConstraintColumnResult list \<Rightarrow> MySQLConstraintResult \<Rightarrow> bool" where
  "fk_without_columns U k = (mkConstraintType k = ''FOREIGN KEY'' \<and> columns_of_constraint U k = [])"

definition primary_names :: "MySQLConstraintResult list \<Rightarrow> MySQLConstraintColumnResult list \<Rightarrow> string list" where
  "primary_names K U = concat (map (\<lambda>k. map mxColumnName (columns_of_constraint U k))
     (filter (\<lambda>k. mkConstraintType k = ''PRIMARY KEY'') K))"

lemma mark_all_pk_append: "mark_all_pk ns (mark_all_pk ms cs) = mark_all_pk (ms @ ns) cs"
  by (auto simp: mark_all_pk_def)

lemma mark_all_pk_Nil [simp]: "mark_all_pk [] cs = cs"
  by (simp add: mark_all_pk_def)

lemma table_constraint_result:
  "(\<exists>con. table_constraint U k = Inr con \<and> conName con = Is (mkConstraintName k)) \<longleftrightarrow> \<not> fk_without_columns U k"
  by (auto simp: table_constraint_def fk_without_columns_def Let_def split: list.split)

lemma table_constraints_result:
  "if list_ex (fk_without_columns U) K then \<exists>e. table_constraints U K cols = Inl e
   else \<exists>cons. table_constraints U K cols = Inr (cons, mark_all_pk (primary_names K U) cols)
          \<and> map conName cons = map (\<lambda>k. Is (mkConstraintName k)) K"
proof (induction K arbitrary: cols)
  case Nil
  show ?case by (simp add: primary_names_def)
next
  case (Cons k K)
  let ?cols = "if mkConstraintType k = ''PRIMARY KEY''
      then mark_all_pk (map mxColumnName (columns_of_constraint U k)) cols else cols"
  have names: "mark_all_pk (primary_names K U) ?cols = mark_all_pk (primary_names (k # K) U) cols"
    by (simp add: primary_names_def mark_all_pk_append)
  show ?case
  proof (cases "table_constraint U k")
    case (Inl e)
    then show ?thesis using table_constraint_result [of U k] by auto
  next
    case (Inr con)
    then have k: "\<not> fk_without_columns U k" "conName con = Is (mkConstraintName k)"
      using table_constraint_result [of U k]
      by (auto simp: table_constraint_def fk_without_columns_def Let_def split: list.splits if_splits)
    then show ?thesis
      using Cons.IH [of ?cols] Inr names by (auto split: if_splits)
  qed
qed

text \<open>
  \<open>tableSchema()\<close> of the MySQL driver throws exactly when a foreign key has no column rows;
  otherwise it has one constraint per constraint row in order, and marks exactly the columns that
  are in a primary key.
\<close>

theorem mysql_table_schema_result:
  "if list_ex (fk_without_columns U) K then \<exists>e. mysql_table_schema_of s n C K U = Inl e
   else \<exists>ts. mysql_table_schema_of s n C K U = Inr ts
     \<and> tsColumns ts = map (\<lambda>c. if mcColumnName c \<in> set (primary_names K U)
                               then (mapColumn c)\<lparr>colPk := Some True\<rparr> else mapColumn c) C
     \<and> map_option (map conName) (tsConstraints ts) = Some (map (\<lambda>k. Is (mkConstraintName k)) K)"
  using table_constraints_result [of U K "map mapColumn C"]
  by (auto simp: mysql_table_schema_of_def mark_all_pk_def comp_def)

section \<open>Triggers read back\<close>

definition occurs_ci :: "string \<Rightarrow> string \<Rightarrow> bool" where
  "occurs_ci p s = js_includes (js_lower s) p"

lemma js_lower_Cons: "js_lower (c # s) = char_lower c # js_lower s"
  by (simp add: js_lower_def)

lemma length_js_lower [simp]: "length (js_lower s) = length s"
  by (simp add: js_lower_def)

text \<open>A separator that is not a letter of the word: an occurrence lies before or behind it.\<close>

lemma starts_before_separator:
  assumes "char_lower d \<notin> set p"
  shows "js_starts_with (js_lower (u @ d # v)) p \<longleftrightarrow> js_starts_with (js_lower u) p"
proof
  assume "js_starts_with (js_lower (u @ d # v)) p"
  then obtain t where t: "js_lower u @ char_lower d # js_lower v = p @ t"
    by (auto simp: js_starts_with_iff js_lower_Cons)
  have "length p \<le> length u"
  proof (rule ccontr)
    assume "\<not> length p \<le> length u"
    then have "(p @ t) ! length u \<in> set p" by (simp add: nth_append)
    moreover have "(p @ t) ! length u = char_lower d"
      unfolding t [symmetric] by (simp add: nth_append)
    ultimately show False using assms by simp
  qed
  moreover have "take (length p) (js_lower u @ char_lower d # js_lower v) = p" by (simp add: t)
  ultimately show "js_starts_with (js_lower u) p" by (simp add: js_starts_with_def)
next
  assume "js_starts_with (js_lower u) p"
  then show "js_starts_with (js_lower (u @ d # v)) p" by (auto simp: js_starts_with_iff)
qed

lemma replace_first_separator:
  assumes "p \<noteq> []" and "char_lower d \<notin> set p"
  shows "replace_first_ci p r (u @ d # v) =
    (if occurs_ci p u then replace_first_ci p r u @ d # v else u @ d # replace_first_ci p r v)"
proof (induction u)
  case Nil
  have "\<not> js_starts_with (js_lower (d # v)) p"
    using assms by (cases p) (auto simp: js_lower_Cons)
  with assms(1) show ?case by (simp add: occurs_ci_def js_lower_def)
next
  case (Cons c u)
  show ?case
  proof (cases "js_starts_with (js_lower (c # u)) p")
    case True
    then have "length p \<le> length (c # u)"
      by (metis js_starts_with_iff length_append length_js_lower le_add1)
    moreover have "js_starts_with (js_lower ((c # u) @ d # v)) p"
      using True starts_before_separator [OF assms(2), of "c # u" v] by blast
    moreover from \<open>length p \<le> length (c # u)\<close>
    have "drop (length p) ((c # u) @ d # v) = drop (length p) (c # u) @ d # v"
      by (simp only: drop_append) simp
    ultimately show ?thesis using True by (simp add: occurs_ci_def js_lower_Cons)
  next
    case False
    then have "\<not> js_starts_with (js_lower ((c # u) @ d # v)) p"
      using starts_before_separator [OF assms(2), of "c # u" v] by blast
    with False Cons.IH show ?thesis by (simp add: occurs_ci_def js_lower_Cons)
  qed
qed

lemma replace_first_lead:
  assumes "p \<noteq> []" and "char_lower d \<notin> set p"
  shows "replace_first_ci p r (d # v) = d # replace_first_ci p r v"
  using replace_first_separator [OF assms, of r "[]" v] assms(1)
  by (simp add: occurs_ci_def js_lower_def)

lemma separators:
  "char_lower newline \<notin> set ''end''" "char_lower (CHR '' '') \<notin> set ''end''"
  "char_lower tab \<notin> set ''end''" "char_lower (CHR '' '') \<notin> set ''begin''"
  by code_simp+

lemma end_leads:
  "replace_first_ci ''end'' r (newline # v) = newline # replace_first_ci ''end'' r v"
  "replace_first_ci ''end'' r (CHR '' '' # v) = CHR '' '' # replace_first_ci ''end'' r v"
  "replace_first_ci ''end'' r (tab # v) = tab # replace_first_ci ''end'' r v"
  using separators by (simp_all only: replace_first_lead list.distinct simp_thms)

lemma trim_space [simp]:
  "js_trim (CHR '' '' # s) = js_trim s" "js_trim (newline # s) = js_trim s" "js_trim (tab # s) = js_trim s"
  by (simp_all add: js_trim_def is_space_def newline_def tab_def)

lemma trim_end: "is_space c \<Longrightarrow> js_trim (s @ [c]) = js_trim s"
  by (cases "dropWhile is_space s = []")
     (auto simp: js_trim_def dropWhile_append dropWhile_eq_Nil_conv dest: set_dropWhileD)

lemma body_after_begin:
  "replace_first_ci ''begin'' [] (mysql_trigger_action change) =
     CHR '' '' # newline # tab # trStatement change @ CHR '' '' # newline # ''END''"
proof -
  have "occurs_ci ''begin'' ''BEGIN''" "replace_first_ci ''begin'' [] ''BEGIN'' = []" by code_simp+
  then show ?thesis
    using replace_first_separator [OF _ separators(4), of "[]" "''BEGIN''"
        "newline # tab # trStatement change @ CHR '' '' # newline # ''END''"]
    by (simp add: mysql_trigger_action_def)
qed

text \<open>
  \<open>trigger()\<close> of the MySQL driver reads back the statement of a trigger that \<open>createTrigger\<close>
  made when the letters \<open>end\<close> do not occur in it; otherwise it removes their first occurrence
  from the statement, inside of words too, and keeps the closing \<open>END\<close> of the trigger.
\<close>

theorem mysql_trigger_reads_back:
  "trigger_body (mysql_trigger_action change) =
    (if occurs_ci ''end'' (trStatement change)
     then js_trim (replace_first_ci ''end'' [] (trStatement change) @ '' '' @ newline # ''END'')
     else js_trim (trStatement change))"
proof -
  let ?s = "trStatement change"
  have last: "replace_first_ci ''end'' [] (newline # ''END'') = [newline]" by code_simp
  have "replace_first_ci ''end'' [] (?s @ CHR '' '' # newline # ''END'') =
      (if occurs_ci ''end'' ?s then replace_first_ci ''end'' [] ?s @ CHR '' '' # newline # ''END''
       else ?s @ [CHR '' '', newline])"
    using replace_first_separator [OF _ separators(2), of "[]" ?s "newline # ''END''"] last by simp
  moreover have "js_trim (?s @ [CHR '' '', newline]) = js_trim ?s"
    using trim_end [of newline "?s @ [CHR '' '']"] trim_end [of "CHR '' ''" ?s]
    by (simp add: is_space_def newline_def)
  ultimately show ?thesis
    unfolding trigger_body_def body_after_begin
    by (simp add: end_leads del: replace_first_ci.simps)
qed


section \<open>Generating a column of the catalogue\<close>

lemma null_upper: "js_upper ''NULL'' = ''NULL''"
  by code_simp

lemma con_get_with:
  "con_get (with_con f col) g = field_opt (g (f (case colConstraint col of None \<Rightarrow> no_constraint | Some k \<Rightarrow> k)))"
  by (simp add: con_get_def with_con_def)

lemma constraint_with_con:
  "(case colConstraint (with_con f col) of None \<Rightarrow> no_constraint | Some k \<Rightarrow> k) =
     f (case colConstraint col of None \<Rightarrow> no_constraint | Some k \<Rightarrow> k)"
  by (simp add: with_con_def)

definition mapped_constraint :: "MySqlColumn \<Rightarrow> DatabaseTableColumnConstraint" where
  "mapped_constraint c = no_constraint
     \<lparr>notNull := if mcIsNullable c = ''NO'' then Is True else Absent,
      primaryKey := if mcColumnKey c = ''PRI'' then Is True else Absent,
      DatabaseTypes.defaultValue := (case mcColumnDefault c of None \<Rightarrow> Absent | Some d \<Rightarrow> Is (Str d)),
      defaultExpression := if mcColumnDefault c = None \<and> mcIsNullable c = ''YES'' then Is ''NULL'' else Absent,
      collate := if truthy_str (mcCollationName c) then Is (the (mcCollationName c)) else Absent\<rparr>"

lemma mapColumn_constraint:
  "(case colConstraint (mapColumn c) of None \<Rightarrow> no_constraint | Some k \<Rightarrow> k) = mapped_constraint c"
  by (cases "mcColumnDefault c"; cases "mcIsNullable c = ''NO''"; cases "mcIsNullable c = ''YES''";
      cases "mcColumnKey c = ''PRI''"; cases "truthy_str (mcCollationName c)")
     (simp_all add: mapColumn_def mapped_constraint_def with_con_def no_constraint_def)

lemma con_get_mapColumn: "f no_constraint = Absent \<Longrightarrow> con_get (mapColumn c) f = field_opt (f (mapped_constraint c))"
  unfolding mapColumn_constraint [symmetric] by (simp add: con_get_def split: option.split)

lemma mapColumn_type [simp]: "colType (mapColumn c) = mcColumnType c"
  by (simp add: mapColumn_def with_con_def Let_def split: option.split)

lemma con_get_fields:
  "con_get (mapColumn c) primaryKey = (if mcColumnKey c = ''PRI'' then Some True else None)"
  "con_get (mapColumn c) notNull = (if mcIsNullable c = ''NO'' then Some True else None)"
  "con_get (mapColumn c) DatabaseTypes.defaultValue = map_option Str (mcColumnDefault c)"
  "con_get (mapColumn c) defaultExpression =
     (if mcColumnDefault c = None \<and> mcIsNullable c = ''YES'' then Some ''NULL'' else None)"
  "con_get (mapColumn c) collate = (if truthy_str (mcCollationName c) then mcCollationName c else None)"
  "con_get (mapColumn c) primaryKeyOrder = None" "con_get (mapColumn c) primaryKeyConflict = None"
  "con_get (mapColumn c) autoIncrement = None" "con_get (mapColumn c) unique = None"
  "con_get (mapColumn c) uniqueConflict = None" "con_get (mapColumn c) notNullConflict = None"
  "con_get (mapColumn c) generatedExpression = None" "con_get (mapColumn c) checkExpression = None"
  "con_get (mapColumn c) foreignKey = None"
  by (simp_all add: con_get_mapColumn no_constraint_def mapped_constraint_def truthy_str_def split: option.split)

text \<open>
  A column read from the catalogue and generated again: the default is always a string
  literal, also when it was an expression, an empty default is dropped, a key column is declared
  a primary key again, and what \<open>EXTRA\<close> says (auto increment, on update) is lost.
\<close>

theorem mysql_column_regenerated:
  "mysqlCreateColumn mysql_dialect (mapColumn c) = js_join '' ''
     ([mysqlEscapeId (mcColumnName c), mcColumnType c]
      @ (if mcColumnKey c = ''PRI'' then [''PRIMARY KEY''] else [])
      @ (if mcIsNullable c = ''NO'' then [''NOT NULL''] else [])
      @ (case mcColumnDefault c of
           None \<Rightarrow> if mcIsNullable c = ''YES'' then [''DEFAULT NULL''] else []
         | Some d \<Rightarrow> if d = [] then [] else [''DEFAULT '' @ escapeSqlString d])
      @ (if truthy_str (mcCollationName c)
         then [''COLLATE '' @ escapeSqlString (the (mcCollationName c))] else []))"
  by (cases "mcColumnDefault c")
     (simp_all add: mysqlCreateColumn_def con_get_fields mysql_dialect_def escapeValue_def mysqlWrapParen_def
       on_conflict_def fk_get_def SchemaGen.is_set_def null_upper)

end
