(* ===== verification/PostgresFacts.thy ===== *)
theory PostgresFacts
  imports CatalogFacts
begin

text \<open>
  Facts about the catalogue of the PostgreSQL driver: the loops of \<open>schemas()\<close> give every table its
  own rows, and composite keys are read wrongly because a constraint is kept per column and the
  query joins every key column with every column of its constraint.
\<close>

definition pg_table_key :: "PostgresTableRow \<Rightarrow> string" where
  "pg_table_key t = key2 (ptTableSchema t) (ptTableName t)"

definition pg_fresh :: "PostgresTableRow \<Rightarrow> PgTable" where
  "pg_fresh t = \<lparr>ptItem = pg_table_item t, ptConstraints = []\<rparr>"

interpretation pg_registry: table_registry ptTableSchema pg_table_key pg_fresh "\<lambda>a. a"
  pgTables pgTableRecord pgSchemas pg_add_schema pg_add_table
  by unfold_locales
     (simp_all add: pg_add_schema_def pg_add_table_def pg_table_key_def pg_fresh_def Let_def)

text \<open>A record of objects that are found or made, changed and stored again.\<close>

definition pg_value ::
  "(PostgresConstraintRow \<Rightarrow> DatabaseTableColumnConstraint \<Rightarrow> DatabaseTableColumnConstraint) \<Rightarrow>
   PostgresConstraintRow list \<Rightarrow> DatabaseTableColumnConstraint option" where
  "pg_value step rs = (case rs of [] \<Rightarrow> None | r # _ \<Rightarrow> Some (fold step rs (pg_new_constraint r)))"

lemma pg_value_snoc:
  "pg_value step (rs @ [r]) =
     Some (step r (case pg_value step rs of None \<Rightarrow> pg_new_constraint r | Some k \<Rightarrow> k))"
  by (cases rs) (simp_all add: pg_value_def)

lemma map_of_upserts:
  "map_of (fold (\<lambda>r. upsert step (key r) r) rows []) k = pg_value step (filter (\<lambda>r. key r = k) rows)"
proof (induction rows arbitrary: k rule: rev_induct)
  case Nil
  show ?case by (simp add: pg_value_def)
next
  case (snoc r rows)
  then show ?case by (simp add: upsert_def pg_value_snoc)
qed

text \<open>The loops over columns and constraints.\<close>

definition pg_addr :: "PostgresTableRow list \<Rightarrow> string \<Rightarrow> nat option" where
  "pg_addr T k = map_of (addresses (map pg_table_key T)) k"

lemma pg_addr_iff:
  "distinct (map pg_table_key T) \<Longrightarrow> j < length T \<Longrightarrow> pg_addr T k = Some j \<longleftrightarrow> k = pg_table_key (T ! j)"
  using map_of_addresses [of "map pg_table_key T" j k] by (simp add: pg_addr_def)

definition pg_push :: "PostgresConstraintRow \<Rightarrow> PgTable \<Rightarrow> PgTable" where
  "pg_push r t = t\<lparr>ptConstraints := ptConstraints t @ [pg_row_key r]\<rparr>"

lemma pg_add_columns:
  "pgTableRecord st = addresses (map pg_table_key T) \<Longrightarrow> fold pg_add_column C st =
     st\<lparr>pgTables := fold (route (\<lambda>c. pg_addr T (pg_column_key c)) (\<lambda>c. pg_on_item (push_table_column (pg_column c))))
                     C (pgTables st)\<rparr>"
proof (induction C arbitrary: st)
  case (Cons c C)
  have "pg_add_column c st = st\<lparr>pgTables := route (\<lambda>c. pg_addr T (pg_column_key c))
      (\<lambda>c. pg_on_item (push_table_column (pg_column c))) c (pgTables st)\<rparr>"
    using Cons.prems by (simp add: pg_add_column_def route_def pg_addr_def split: option.split)
  with Cons show ?case by simp
qed simp

lemma pg_add_constraints:
  "pgTableRecord st = addresses (map pg_table_key T) \<Longrightarrow> fold pg_add_constraint K st =
     st\<lparr>pgTables := fold (route (\<lambda>r. pg_addr T (pg_row_table_key r)) pg_push) K (pgTables st),
        pgConstraintRecord := fold (\<lambda>r. upsert pg_extend (pg_row_key r) r) K (pgConstraintRecord st)\<rparr>"
proof (induction K arbitrary: st)
  case (Cons r K)
  have "pg_add_constraint r st =
      st\<lparr>pgTables := route (\<lambda>r. pg_addr T (pg_row_table_key r)) pg_push r (pgTables st),
         pgConstraintRecord := upsert pg_extend (pg_row_key r) r (pgConstraintRecord st)\<rparr>"
    using Cons.prems
    by (simp add: pg_add_constraint_def route_def pg_addr_def pg_push_def [abs_def] Let_def
        split: option.split)
  with Cons show ?case by simp
qed simp

lemma fold_pg_columns:
  "fold (\<lambda>c. pg_on_item (push_table_column (pg_column c))) C t =
     pg_on_item (\<lambda>ts. ts\<lparr>tsColumns := tsColumns ts @ map pg_column C\<rparr>) t"
proof (induction C arbitrary: t)
  case Nil
  show ?case by (simp add: pg_on_item_def option.map_ident)
next
  case (Cons c C)
  then show ?case by (simp add: pg_on_item_def push_table_column_def option.map_comp comp_def)
qed

lemma fold_pg_push: "fold pg_push K t = t\<lparr>ptConstraints := ptConstraints t @ map pg_row_key K\<rparr>"
  by (induction K arbitrary: t) (simp_all add: pg_push_def)

section \<open>The catalogue table by table\<close>

definition pg_constraints_of :: "PostgresConstraintRow list \<Rightarrow> PostgresTableRow \<Rightarrow> DatabaseTableColumnConstraint list"
where
  "pg_constraints_of K t =
     map (\<lambda>r. the (pg_value pg_extend (filter (\<lambda>r'. pg_row_key r' = pg_row_key r) K)))
       (filter (\<lambda>r. pg_row_table_key r = pg_table_key t) K)"

definition pg_table ::
  "PostgresColumnRow list \<Rightarrow> PostgresConstraintRow list \<Rightarrow> PostgresTableRow \<Rightarrow> DatabaseSchemaItem" where
  "pg_table C K t =
     (let ks = pg_constraints_of K t
      in (pg_table_item t)\<lparr>itemTableSchema := map_option (\<lambda>ts. ts
           \<lparr>tsColumns := map pg_column (filter (\<lambda>c. pg_column_key c = pg_table_key t) C),
            tsConstraints := Some ks,
            tsPk := (case pg_find_key ks of None \<Rightarrow> [] | Some k \<Rightarrow> pg_key_columns k)\<rparr>)
         (itemTableSchema (pg_table_item t))\<rparr>)"

lemma pg_routed_table:
  assumes T: "distinct (map pg_table_key T)" and j: "j < length T"
  shows "pg_item_pk (pg_finish (fold (\<lambda>r. upsert pg_extend (pg_row_key r) r) K [])
      (fold pg_push (filter (\<lambda>r. pg_addr T (pg_row_table_key r) = Some j) K)
        (fold (\<lambda>c. pg_on_item (push_table_column (pg_column c)))
          (filter (\<lambda>c. pg_addr T (pg_column_key c) = Some j) C) (pg_fresh (T ! j)))))
    = pg_table C K (T ! j)"
  by (simp add: pg_addr_iff [OF T j] fold_pg_columns fold_pg_push pg_on_item_def pg_fresh_def
      pg_finish_def pg_item_pk_def pg_set_pk_def pg_table_def pg_constraints_of_def Let_def
      map_of_upserts pg_table_item_def comp_def split: option.split)

text \<open>
  The loops of \<open>schemas()\<close> of the PostgreSQL driver give every listed schema its tables in
  order, and every table its own columns and, for each of its constraint rows, the object that all
  rows of the same table and column make together; rows of unlisted tables are ignored.
\<close>

theorem pg_schemas_by_table:
  assumes "distinct S" and "distinct (map pg_table_key T)"
  shows "pg_assemble S T C K =
    map (\<lambda>s. (s, map (pg_table C K) (filter (\<lambda>t. ptTableSchema t = s) T))) S"
proof -
  let ?st0 = "fold pg_add_table T (fold pg_add_schema S pg_empty)"
  have st0: "pgTables ?st0 = map pg_fresh T" "pgTableRecord ?st0 = addresses (map pg_table_key T)"
      "pgSchemas ?st0 = map (\<lambda>s. (s, map (\<lambda>a. a) (of_schema ptTableSchema T s))) S"
    using pg_registry.registered [of pg_empty S T] assms by (simp_all add: pg_empty_def)
  have rec0: "pgConstraintRecord ?st0 = []"
  proof -
    have "pgConstraintRecord (fold pg_add_schema S st) = pgConstraintRecord st" for st
      by (induction S arbitrary: st) (simp_all add: pg_add_schema_def)
    moreover have "pgConstraintRecord (fold pg_add_table T st) = pgConstraintRecord st" for st
      by (induction T arbitrary: st) (simp_all add: pg_add_table_def Let_def)
    ultimately show ?thesis by (simp add: pg_empty_def)
  qed
  define tabs where "tabs = fold (route (\<lambda>r. pg_addr T (pg_row_table_key r)) pg_push) K
      (fold (route (\<lambda>c. pg_addr T (pg_column_key c)) (\<lambda>c. pg_on_item (push_table_column (pg_column c))))
        C (map pg_fresh T))"
  define rec where "rec = fold (\<lambda>r. upsert pg_extend (pg_row_key r) r) K []"
  have len: "length tabs = length T" by (simp add: tabs_def)
  have st2: "fold pg_add_constraint K (fold pg_add_column C ?st0) =
      ?st0\<lparr>pgTables := tabs, pgConstraintRecord := rec\<rparr>"
    by (simp add: pg_add_columns [OF st0(2)] pg_add_constraints st0 rec0 tabs_def rec_def)
  have "map (\<lambda>t. pg_item_pk (pg_finish rec t)) tabs = map (pg_table C K) T"
  proof (rule nth_equalityI)
    fix j
    assume "j < length (map (\<lambda>t. pg_item_pk (pg_finish rec t)) tabs)"
    then have j: "j < length T" by (simp add: len)
    then show "map (\<lambda>t. pg_item_pk (pg_finish rec t)) tabs ! j = map (pg_table C K) T ! j"
      using pg_routed_table [OF assms(2) j, of K C] by (simp add: len tabs_def rec_def route_nth)
  qed (simp add: len)
  then have pk: "fold (\<lambda>(k, a). modify_at a pg_item_pk) (addresses (map pg_table_key T))
      (map (pg_finish rec) tabs) = map (pg_table C K) T"
    by (simp add: build_pk_all len comp_def)
  show ?thesis
    by (simp add: pg_assemble_def Let_def st2 st0 pk tables_of_schema)
qed

definition example_pg_tables :: "PostgresTableRow list" where
  "example_pg_tables =
     [\<lparr>ptTableSchema = ''public'', ptTableName = ''orders'', ptTableType = ''BASE TABLE'',
       ptTableSize = Num (Dec 8192 0)\<rparr>,
      \<lparr>ptTableSchema = ''audit'', ptTableName = ''orders'', ptTableType = ''VIEW'',
       ptTableSize = Num (Dec 0 0)\<rparr>]"

definition example_pg_columns :: "PostgresColumnRow list" where
  "example_pg_columns =
     [\<lparr>pcTableSchema = ''public'', pcTableName = ''orders'', pcColumnName = ''id'', pcColumnDefault = None,
       pcIsNullable = ''NO'', pcDataType = ''integer'', pcGenerationExpression = None\<rparr>,
      \<lparr>pcTableSchema = ''hidden'', pcTableName = ''orders'', pcColumnName = ''id'', pcColumnDefault = None,
       pcIsNullable = ''NO'', pcDataType = ''integer'', pcGenerationExpression = None\<rparr>]"

theorem pg_schemas_by_table_witness:
  "\<exists>orders view. pg_assemble [''public'', ''audit''] example_pg_tables example_pg_columns [] =
      [(''public'', [orders]), (''audit'', [view])]
    \<and> map_option (\<lambda>ts. map colName (tsColumns ts)) (itemTableSchema orders) = Some [''id'']
    \<and> map_option tsColumns (itemTableSchema view) = Some []"
proof -
  have d: "distinct [''public'', ''audit'']" "distinct (map pg_table_key example_pg_tables)"
    by (simp, simp add: example_pg_tables_def pg_table_key_def key2_def)
  show ?thesis
    unfolding pg_schemas_by_table [OF d, of example_pg_columns "[]"]
    by (simp add: example_pg_tables_def example_pg_columns_def pg_table_def Let_def pg_table_item_def
        pg_constraints_of_def pg_column_key_def pg_table_key_def key2_def pg_column_def pg_find_key_def)
qed

section \<open>Composite keys\<close>

definition usage_of :: "string \<Rightarrow> string \<Rightarrow> string \<Rightarrow> string list \<Rightarrow> KeyColumnUsage list" where
  "usage_of s n k cols =
     map (\<lambda>c. \<lparr>kuTableSchema = s, kuTableName = n, kuConstraintName = k, kuColumnName = c\<rparr>) cols"

definition key_row :: "MySQLConstraintResult \<Rightarrow> string \<Rightarrow> string \<Rightarrow> PostgresConstraintRow" where
  "key_row tc c d =
     \<lparr>prConstraintName = mkConstraintName tc, prTableSchema = mkTableSchema tc,
      prTableName = mkTableName tc, prConstraintType = mkConstraintType tc, prColumnName = Some c,
      prReferenceTableSchema = Some (mkTableSchema tc), prReferenceTableName = Some (mkTableName tc),
      prReferenceColumnName = Some d\<rparr>"

lemma left_join_all: "bs \<noteq> [] \<Longrightarrow> list_all (test a) bs \<Longrightarrow> left_join test bs a = map Some bs"
  by (cases bs) (auto simp: left_join_def list_all_iff filter_id_conv)

lemma key_join:
  assumes "cols \<noteq> []"
  shows "constraint_join [tc]
      (usage_of (mkTableSchema tc) (mkTableName tc) (mkConstraintName tc) cols)
      (usage_of (mkTableSchema tc) (mkTableName tc) (mkConstraintName tc) cols)
    = concat (map (\<lambda>c. map (key_row tc c) cols) cols)"
proof -
  let ?us = "usage_of (mkTableSchema tc) (mkTableName tc) (mkConstraintName tc) cols"
  have us: "?us \<noteq> []" using assms by (simp add: usage_of_def)
  have key: "left_join (\<lambda>tc k. mkTableSchema tc = kuTableSchema k \<and> mkTableName tc = kuTableName k
      \<and> mkConstraintName tc = kuConstraintName k) ?us tc = map Some ?us"
    using us by (intro left_join_all) (simp_all add: usage_of_def list_all_iff)
  have ref: "left_join (\<lambda>k c. case k of None \<Rightarrow> False
      | Some k \<Rightarrow> kuTableSchema c = kuTableSchema k \<and> kuConstraintName c = kuConstraintName k) ?us (Some k)
      = map Some ?us" if "k \<in> set ?us" for k
    using us that by (intro left_join_all) (auto simp: usage_of_def list_all_iff)
  show ?thesis
    by (simp add: constraint_join_def key ref comp_def cong: map_cong)
       (simp add: usage_of_def key_row_def [abs_def] comp_def)
qed

text \<open>The rows of one primary key make one constraint object.\<close>

lemma fold_primary:
  assumes "list_all (\<lambda>r. prConstraintType r = ''PRIMARY KEY'') rows" and "step = pg_extend \<or> step = pg_extend_table"
  shows "pg_key_columns (fold step rows k) = pg_key_columns k @ map (\<lambda>r. null_text (prColumnName r)) rows
    \<and> (rows \<noteq> [] \<longrightarrow> field_true (primaryKey (fold step rows k)))"
  using assms(1)
proof (induction rows rule: rev_induct)
  case (snoc r rows)
  then show ?case
    using assms(2)
    by (auto simp: pg_extend_def pg_extend_table_def pg_primary_def pg_key_columns_def field_true_def)
qed simp

lemma new_constraint_key: "pg_key_columns (pg_new_constraint r) = []"
  by (simp add: pg_key_columns_def pg_new_constraint_def no_constraint_def)

lemma pg_value_primary:
  assumes "list_all (\<lambda>r. prConstraintType r = ''PRIMARY KEY'') rows" and "step = pg_extend \<or> step = pg_extend_table"
    and "rows \<noteq> []"
  shows "field_true (primaryKey (the (pg_value step rows)))
    \<and> pg_key_columns (the (pg_value step rows)) = map (\<lambda>r. null_text (prColumnName r)) rows"
  using fold_primary [OF assms(1,2)] assms(3)
  by (cases rows) (auto simp: pg_value_def new_constraint_key simp del: fold_simps)

lemma obj_entries_single: "obj_entries [(k, v)] = [(k, v)]"
  by (simp add: obj_entries_def)

lemma single_key_record:
  assumes "rows \<noteq> []" and "list_all (\<lambda>r. key r = k) rows"
  shows "fold (\<lambda>r. upsert step (key r) r) rows [] = [(k, the (pg_value step rows))]"
  using assms
proof (induction rows rule: rev_induct)
  case (snoc r rows)
  show ?case
  proof (cases "rows = []")
    case True
    with snoc.prems show ?thesis
      by (simp add: upsert_def obj_set_def pg_value_def)
  next
    case False
    then obtain v where "pg_value step rows = Some v" by (cases rows) (auto simp: pg_value_def)
    with False snoc show ?thesis
      by (simp add: upsert_def pg_value_snoc) (simp add: obj_set_def)
  qed
qed simp

lemma key_rows_columns:
  "map (\<lambda>r. null_text (prColumnName r)) (concat (map (\<lambda>c. map (key_row tc c) ds) cs))
    = concat (map (\<lambda>c. replicate (length ds) c) cs)"
  by (simp add: map_concat comp_def key_row_def null_text_def map_replicate_const)

lemma key_rows_of_column:
  assumes "c \<in> set cs" and "distinct cs" and "ds \<noteq> []"
  shows "filter (\<lambda>r. pg_row_key r = pg_row_key (key_row tc c d)) (concat (map (\<lambda>c. map (key_row tc c) ds) cs))
    = map (key_row tc c) ds"
proof -
  have same: "pg_row_key (key_row tc c' d') = pg_row_key (key_row tc c d) \<longleftrightarrow> c' = c" for c' d'
    by (simp add: pg_row_key_def pg_row_table_key_def key_row_def null_text_def)
  show ?thesis
    using assms(1,2)
  proof (induction cs)
    case (Cons c' cs)
    have none: "filter (\<lambda>r. pg_row_key r = pg_row_key (key_row tc c d))
        (concat (map (\<lambda>c. map (key_row tc c) ds) cs)) = []" if "c \<notin> set cs"
      using that by (auto simp: filter_empty_conv same)
    show ?case
    proof (cases "c' = c")
      case True
      with Cons.prems none show ?thesis by (simp add: filter_id_conv same)
    next
      case False
      with Cons same show ?thesis by (simp add: filter_empty_conv)
    qed
  qed simp
qed

text \<open>
  A primary key of n columns is read wrongly from what the constraint query returns:
  \<open>tableSchema()\<close> lists every key column n times, and \<open>schemas()\<close> lists the first key column
  n times and none of the others.
\<close>

theorem pg_composite_key:
  assumes "distinct cols" and "cols \<noteq> []" and "mkConstraintType tc = ''PRIMARY KEY''"
    and "mkTableSchema tc = ptTableSchema t" and "mkTableName tc = ptTableName t"
    and "usage = usage_of (mkTableSchema tc) (mkTableName tc) (mkConstraintName tc) cols"
  shows "tsPk (pg_table_schema_of s n C (constraint_join [tc] usage usage))
           = concat (map (\<lambda>c. replicate (length cols) c) cols)
    \<and> (\<exists>it. pg_assemble [ptTableSchema t] [t] C (constraint_join [tc] usage usage) = [(ptTableSchema t, [it])]
           \<and> map_option tsPk (itemTableSchema it) = Some (replicate (length cols) (hd cols)))"
proof -
  define rows where "rows = concat (map (\<lambda>c. map (key_row tc c) cols) cols)"
  have rows: "constraint_join [tc] usage usage = rows"
    using key_join [OF assms(2)] assms(6) by (simp add: rows_def)
  have types: "list_all (\<lambda>r. prConstraintType r = ''PRIMARY KEY'') rows"
    using assms(3) by (auto simp: rows_def list_all_iff key_row_def)
  have ne: "rows \<noteq> []" using assms(2) by (cases cols) (simp_all add: rows_def)
  have names: "list_all (\<lambda>r. prConstraintName r = mkConstraintName tc) rows" "filter (\<lambda>r. prColumnName r \<noteq> None) rows = rows"
    by (auto simp: rows_def list_all_iff key_row_def filter_id_conv)
  let ?v = "the (pg_value pg_extend_table rows)"
  have "pg_constraint_record rows = [(mkConstraintName tc, ?v)]"
    unfolding pg_constraint_record_def names(2) using single_key_record [OF ne names(1)] .
  moreover have "field_true (primaryKey ?v)" "pg_key_columns ?v = concat (map (\<lambda>c. replicate (length cols) c) cols)"
    using pg_value_primary [OF types _ ne, of pg_extend_table] key_rows_columns [of tc cols cols]
    by (simp_all add: rows_def)
  ultimately have table: "tsPk (pg_table_schema_of s n C rows) = concat (map (\<lambda>c. replicate (length cols) c) cols)"
    by (simp add: pg_table_schema_of_def Let_def obj_entries_single pg_find_key_def)
  have tk: "filter (\<lambda>r. pg_row_table_key r = pg_table_key t) rows = rows"
    using assms(4,5) by (auto simp: rows_def filter_id_conv pg_row_table_key_def pg_table_key_def key_row_def)
  obtain rest where hd_rows: "rows = key_row tc (hd cols) (hd cols) # rest"
    using assms(2) by (cases cols) (auto simp: rows_def)
  let ?w = "the (pg_value pg_extend (map (key_row tc (hd cols)) cols))"
  have "pg_constraints_of rows t = ?w # map (\<lambda>r. the (pg_value pg_extend
      (filter (\<lambda>r'. pg_row_key r' = pg_row_key r) rows))) rest"
    using key_rows_of_column [of "hd cols" cols cols tc "hd cols"] assms(1,2)
    unfolding pg_constraints_of_def tk by (subst (2) hd_rows) (simp add: rows_def)
  moreover have "field_true (primaryKey ?w)" "pg_key_columns ?w = replicate (length cols) (hd cols)"
    using pg_value_primary [of "map (key_row tc (hd cols)) cols" pg_extend] assms(2,3)
      by (simp_all add: list_all_iff key_row_def comp_def null_text_def map_replicate_const)
  ultimately have pk: "pg_find_key (pg_constraints_of rows t) = Some ?w"
      "pg_key_columns ?w = replicate (length cols) (hd cols)"
    by (simp_all add: pg_find_key_def)
  have "pg_assemble [ptTableSchema t] [t] C rows = [(ptTableSchema t, [pg_table C rows t])]"
    using pg_schemas_by_table [of "[ptTableSchema t]" "[t]" C rows] by simp
  moreover have "map_option tsPk (itemTableSchema (pg_table C rows t)) = Some (replicate (length cols) (hd cols))"
    using pk by (simp add: pg_table_def Let_def pg_table_item_def)
  ultimately show ?thesis using table rows by simp
qed

theorem pg_composite_key_witness:
  "\<exists>it. pg_assemble [''public''] [hd example_pg_tables] []
      (constraint_join [\<lparr>mkTableSchema = ''public'', mkTableName = ''orders'',
                         mkConstraintName = ''orders_pkey'', mkConstraintType = ''PRIMARY KEY''\<rparr>]
         (usage_of ''public'' ''orders'' ''orders_pkey'' [''id'', ''line''])
         (usage_of ''public'' ''orders'' ''orders_pkey'' [''id'', ''line''])) = [(''public'', [it])]
    \<and> map_option tsPk (itemTableSchema it) = Some [''id'', ''id'']"
proof -
  let ?tc = "\<lparr>mkTableSchema = ''public'', mkTableName = ''orders'',
      mkConstraintName = ''orders_pkey'', mkConstraintType = ''PRIMARY KEY''\<rparr>"
  let ?us = "usage_of ''public'' ''orders'' ''orders_pkey'' [''id'', ''line'']"
  have "ptTableSchema (hd example_pg_tables) = ''public''"
    "mkTableSchema ?tc = ptTableSchema (hd example_pg_tables)"
    "mkTableName ?tc = ptTableName (hd example_pg_tables)"
    by (simp_all add: example_pg_tables_def)
  moreover have "replicate (length [''id'', ''line'']) (hd [''id'', ''line'']) = [''id'', ''id'']"
    by (simp add: numeral_2_eq_2)
  ultimately show ?thesis
    using pg_composite_key [of "[''id'', ''line'']" ?tc "hd example_pg_tables" ?us "''public''" "''orders''" "[]"]
    by simp
qed

text \<open>The unique constraint of several columns keeps only the last one.\<close>

lemma pg_composite_unique:
  "pg_extend_table (key_row \<lparr>mkTableSchema = s, mkTableName = n, mkConstraintName = k,
      mkConstraintType = ''UNIQUE''\<rparr> c d) con = con\<lparr>unique := Is True, uniqueColumns := Is [c]\<rparr>"
  by (simp add: pg_extend_table_def key_row_def null_text_def)

end
