(* ===== verification/SchemaEditor.thy ===== *)
theory SchemaEditor
  imports SchemaGen Effects
begin

text \<open>
  The editor of a table schema: the draft is a \<open>DatabaseTableSchemaChange\<close>, and every control of
  \<open>admin/src/components/gui/schema-editor/\<close> sends a patch to it.  A patch is the object that the
  control passes to \<open>onChange\<close>; \<open>undefined\<close> in a patch is an own property and overrides.
  \<open>arrayMove\<close> of the package dnd-kit and \<open>generateId\<close> are parameters.
\<close>

section \<open>Patches of a column\<close>

record ColumnPatch =
  cpName :: "string option"
  cpType :: "string option"
  cpConstraint :: "DatabaseTableColumnConstraint option"

definition con_patch :: "DatabaseTableColumnConstraint \<Rightarrow> ColumnPatch" where
  "con_patch k = \<lparr>cpName = None, cpType = None, cpConstraint = Some k\<rparr>"

definition empty_clause :: DatabaseForeignKeyClause where
  "empty_clause = \<lparr>foreignSchemaName = None, foreignTableName = None, foreignColumns = None, fkColumns = None\<rparr>"

text \<open>What the user does to a column, one constructor per control.\<close>

datatype ColumnEvent =
    NameTyped string
  | TypeChosen string
  | NullableChecked bool
  | DefaultNone
  | DefaultAutoIncrement
  | DefaultCustom
  | DefaultValueTyped string
  | DefaultExpression
  | DefaultExpressionTyped string
  | PrimaryKeyAdded
  | UniqueAdded
  | CheckAdded
  | ForeignKeyAdded
  | GeneratedAdded
  | PrimaryKeyOrderChosen SqlOrder
  | PrimaryKeyConflictChosen string
  | PrimaryKeyRemoved
  | UniqueConflictChosen string
  | UniqueRemoved
  | CheckTyped string
  | CheckRemoved
  | GeneratedTyped string
  | GeneratedTypeChosen GeneratedType
  | GeneratedRemoved
  | ForeignTableChosen string
  | ForeignColumnChosen string
  | ForeignKeyRemoved
  | CollationTyped string

definition default_patch ::
  "jsval field \<Rightarrow> string field \<Rightarrow> bool field \<Rightarrow> ColumnPatch" where
  "default_patch v e a = con_patch
     (no_constraint\<lparr>defaultValue := v, defaultExpression := e, autoIncrement := a\<rparr>)"

definition constraint_or_empty :: "DatabaseTableColumn \<Rightarrow> DatabaseTableColumnConstraint" where
  "constraint_or_empty col = (case colConstraint col of None \<Rightarrow> no_constraint | Some k \<Rightarrow> k)"

definition clause_of :: "DatabaseTableColumn \<Rightarrow> DatabaseForeignKeyClause" where
  "clause_of col = (case field_opt (foreignKey (constraint_or_empty col)) of None \<Rightarrow> empty_clause | Some fk \<Rightarrow> fk)"

text \<open>The popups of the constraints of a column.\<close>

definition pk_order_patch :: "SqlOrder \<Rightarrow> ColumnPatch" where [simp]:
  "pk_order_patch ord = con_patch (no_constraint\<lparr>primaryKeyOrder := Is ord\<rparr>)"

definition pk_conflict_patch :: "string \<Rightarrow> ColumnPatch" where [simp]:
  "pk_conflict_patch v = con_patch (no_constraint\<lparr>primaryKeyConflict := Is v\<rparr>)"

definition pk_removed_patch :: "ColumnPatch" where [simp]:
  "pk_removed_patch = con_patch (no_constraint\<lparr>primaryKey := Undef, primaryKeyConflict := Undef, primaryKeyOrder := Undef\<rparr>)"

definition unique_conflict_patch :: "string \<Rightarrow> ColumnPatch" where [simp]:
  "unique_conflict_patch v = con_patch (no_constraint\<lparr>uniqueConflict := Is v\<rparr>)"

definition unique_removed_patch :: "ColumnPatch" where [simp]:
  "unique_removed_patch = con_patch (no_constraint\<lparr>unique := Undef, uniqueConflict := Undef\<rparr>)"

definition check_typed_patch :: "string \<Rightarrow> ColumnPatch" where [simp]:
  "check_typed_patch s = con_patch (no_constraint\<lparr>checkExpression := Is s\<rparr>)"

definition check_removed_patch :: "ColumnPatch" where [simp]:
  "check_removed_patch = con_patch (no_constraint\<lparr>checkExpression := Undef\<rparr>)"

definition generated_typed_patch :: "string \<Rightarrow> ColumnPatch" where [simp]:
  "generated_typed_patch s = con_patch (no_constraint\<lparr>generatedExpression := Is s\<rparr>)"

definition generated_type_patch :: "GeneratedType \<Rightarrow> ColumnPatch" where [simp]:
  "generated_type_patch g = con_patch (no_constraint\<lparr>generatedType := Is g\<rparr>)"

definition generated_removed_patch :: "ColumnPatch" where [simp]:
  "generated_removed_patch = con_patch (no_constraint\<lparr>generatedExpression := Undef, generatedType := Undef\<rparr>)"

definition fk_table_patch :: "DatabaseForeignKeyClause \<Rightarrow> string \<Rightarrow> ColumnPatch" where [simp]:
  "fk_table_patch k t = con_patch (no_constraint\<lparr>foreignKey := Is (k\<lparr>foreignTableName := Some t\<rparr>)\<rparr>)"

definition fk_column_patch :: "DatabaseForeignKeyClause \<Rightarrow> string \<Rightarrow> ColumnPatch" where [simp]:
  "fk_column_patch k c = con_patch (no_constraint\<lparr>foreignKey := Is (k\<lparr>foreignColumns := Some [c]\<rparr>)\<rparr>)"

definition fk_removed_patch :: "ColumnPatch" where [simp]:
  "fk_removed_patch = con_patch (no_constraint\<lparr>foreignKey := Undef\<rparr>)"

fun patch_of :: "DatabaseTableColumn \<Rightarrow> ColumnEvent \<Rightarrow> ColumnPatch" where
  "patch_of col (NameTyped s) = \<lparr>cpName = Some s, cpType = None, cpConstraint = None\<rparr>"
| "patch_of col (TypeChosen s) = \<lparr>cpName = None, cpType = Some s, cpConstraint = None\<rparr>"
| "patch_of col (NullableChecked b) = con_patch (no_constraint\<lparr>notNull := Is (\<not> b)\<rparr>)"
| "patch_of col DefaultNone = default_patch Undef Undef Undef"
| "patch_of col DefaultAutoIncrement = default_patch Undef Undef (Is True)"
| "patch_of col DefaultCustom = default_patch (Is (Str [])) Undef Undef"
| "patch_of col (DefaultValueTyped s) = default_patch (Is (Str s)) Undef Undef"
| "patch_of col DefaultExpression = default_patch Undef (Is []) Undef"
| "patch_of col (DefaultExpressionTyped s) = default_patch Undef (Is s) Undef"
| "patch_of col PrimaryKeyAdded = con_patch (no_constraint\<lparr>primaryKey := Is True\<rparr>)"
| "patch_of col UniqueAdded = con_patch (no_constraint\<lparr>unique := Is True\<rparr>)"
| "patch_of col CheckAdded = con_patch (no_constraint\<lparr>checkExpression := Is []\<rparr>)"
| "patch_of col ForeignKeyAdded = con_patch (no_constraint\<lparr>foreignKey := Is empty_clause\<rparr>)"
| "patch_of col GeneratedAdded =
     con_patch (no_constraint\<lparr>generatedType := Is VIRTUAL, generatedExpression := Is []\<rparr>)"
| "patch_of col (PrimaryKeyOrderChosen ord) = pk_order_patch ord"
| "patch_of col (PrimaryKeyConflictChosen v) = pk_conflict_patch v"
| "patch_of col PrimaryKeyRemoved = pk_removed_patch"
| "patch_of col (UniqueConflictChosen v) = unique_conflict_patch v"
| "patch_of col UniqueRemoved = unique_removed_patch"
| "patch_of col (CheckTyped s) = check_typed_patch s"
| "patch_of col CheckRemoved = check_removed_patch"
| "patch_of col (GeneratedTyped s) = generated_typed_patch s"
| "patch_of col (GeneratedTypeChosen g) = generated_type_patch g"
| "patch_of col GeneratedRemoved = generated_removed_patch"
| "patch_of col (ForeignTableChosen t) = fk_table_patch (clause_of col) t"
| "patch_of col (ForeignColumnChosen c) = fk_column_patch (clause_of col) c"
| "patch_of col ForeignKeyRemoved = fk_removed_patch"
| "patch_of col (CollationTyped s) =
     con_patch ((constraint_or_empty col)\<lparr>collate := if s = [] then Undef else Is s\<rparr>)"

definition apply_patch :: "ColumnPatch \<Rightarrow> DatabaseTableColumn \<Rightarrow> DatabaseTableColumn" where
  "apply_patch p col =
     col\<lparr>colName := (case cpName p of None \<Rightarrow> colName col | Some s \<Rightarrow> s),
         colType := (case cpType p of None \<Rightarrow> colType col | Some s \<Rightarrow> s),
         colConstraint := (case cpConstraint p of
             None \<Rightarrow> colConstraint col
           | Some k \<Rightarrow> Some (spread_constraint (constraint_or_empty col) k))\<rparr>"

section \<open>Columns\<close>

definition remove_at :: "nat \<Rightarrow> 'a list \<Rightarrow> 'a list" where
  "remove_at i xs = take i xs @ drop (Suc i) xs"

text \<open>\<open>None\<close> is the value \<open>null\<close>, which deletes the column.\<close>

definition changeColumnOnIndex ::
  "nat \<Rightarrow> ColumnPatch option \<Rightarrow> DatabaseTableSchemaChange \<Rightarrow> DatabaseTableSchemaChange result" where
  "changeColumnOnIndex idx v prev =
     (if length (chColumns prev) \<le> idx
      then Inl (TypeError ''Cannot read properties of undefined (reading 'new')'')
      else (let cell = chColumns prev ! idx in
        case ccNew cell of
          None \<Rightarrow> Inr prev
        | Some new \<Rightarrow>
            (let new1 = map_option (\<lambda>p. apply_patch p new) v in
             if new1 = None \<and> ccOld cell = None
             then Inr (prev\<lparr>chColumns := remove_at idx (chColumns prev)\<rparr>)
             else Inr (prev\<lparr>chColumns := (chColumns prev)[idx := cell\<lparr>ccNew := new1\<rparr>]\<rparr>))))"

text \<open>A control of the row shows \<open>value.new || value.old\<close>.\<close>

definition shown_column :: "DatabaseTableColumnChange \<Rightarrow> DatabaseTableColumn option" where
  "shown_column cell = (case ccNew cell of Some c \<Rightarrow> Some c | None \<Rightarrow> ccOld cell)"

definition column_event ::
  "nat \<Rightarrow> ColumnEvent \<Rightarrow> DatabaseTableSchemaChange \<Rightarrow> DatabaseTableSchemaChange result" where
  "column_event idx e st =
     (case (if idx < length (chColumns st) then shown_column (chColumns st ! idx) else None) of
        None \<Rightarrow> Inr st
      | Some col \<Rightarrow> changeColumnOnIndex idx (Some (patch_of col e)) st)"

definition onAddColumn ::
  "string option \<Rightarrow> string option \<Rightarrow> string \<Rightarrow> DatabaseTableSchemaChange \<Rightarrow> DatabaseTableSchemaChange" where
  "onAddColumn idTypeName textTypeName newKey st =
     (let newColumn =
        (if chColumns st = []
         then \<lparr>colName = ''id'', colType = (case idTypeName of None \<Rightarrow> ''INTEGER'' | Some t \<Rightarrow> t), colPk = None,
               colConstraint = Some (no_constraint\<lparr>primaryKey := Is True\<rparr>)\<rparr>
         else \<lparr>colName = ''column'', colType = (case textTypeName of None \<Rightarrow> ''TEXT'' | Some t \<Rightarrow> t), colPk = None,
               colConstraint = Some no_constraint\<rparr>)
      in st\<lparr>chColumns := chColumns st @ [\<lparr>ccKey = newKey, ccOld = None, ccNew = Some newColumn\<rparr>]\<rparr>)"

definition handleDragEnd ::
  "(DatabaseTableColumnChange list \<Rightarrow> nat \<Rightarrow> nat \<Rightarrow> DatabaseTableColumnChange list) \<Rightarrow>
   string \<Rightarrow> string option \<Rightarrow> DatabaseTableSchemaChange \<Rightarrow> DatabaseTableSchemaChange result" where
  "handleDragEnd arrayMove active over st =
     (if over = Some active then Inr st
      else (let columns = chColumns st in
        case (find_index (\<lambda>c. ccKey c = active) columns,
              Option.bind over (\<lambda>k. find_index (\<lambda>c. ccKey c = k) columns)) of
          (_, None) \<Rightarrow> Inl (TypeError ''Cannot read properties of undefined (reading 'old')'')
        | (oldIndex, Some newIndex) \<Rightarrow>
            if ccOld (columns ! newIndex) \<noteq> None then Inr st
            else (case oldIndex of
                    None \<Rightarrow> Inr st
                  | Some i \<Rightarrow> Inr (st\<lparr>chColumns := arrayMove columns i newIndex\<rparr>))))"

section \<open>Constraints, names, discarding\<close>

definition onRemoveClicked :: "nat \<Rightarrow> DatabaseTableSchemaChange \<Rightarrow> DatabaseTableSchemaChange" where
  "onRemoveClicked idx prev =
     (let cons = chConstraints prev in
      if length cons \<le> idx then prev
      else if kcOld (cons ! idx) = None then prev\<lparr>chConstraints := remove_at idx cons\<rparr>
      else prev\<lparr>chConstraints := cons[idx := (cons ! idx)\<lparr>kcNew := None\<rparr>]\<rparr>)"

definition onChangeConstraint ::
  "nat \<Rightarrow> DatabaseTableColumnConstraint \<Rightarrow> DatabaseTableSchemaChange \<Rightarrow> DatabaseTableSchemaChange" where
  "onChangeConstraint idx newConstraint prev =
     (let cons = chConstraints prev in
      if length cons \<le> idx then prev
      else prev\<lparr>chConstraints := cons[idx := (cons ! idx)\<lparr>kcNew := Some newConstraint\<rparr>]\<rparr>)"

text \<open>What the editor of a constraint passes to \<open>onChangeConstraint\<close>.\<close>

datatype ConstraintEvent =
    ConPrimaryColumns "string list"
  | ConUniqueColumns "string list"
  | ConCheckTyped string
  | ConColumns "string list"
  | ConForeignColumns "string list"
  | ConForeignTable string

definition on_clause ::
  "(DatabaseForeignKeyClause \<Rightarrow> DatabaseForeignKeyClause) \<Rightarrow> DatabaseTableColumnConstraint \<Rightarrow>
   DatabaseTableColumnConstraint" where
  "on_clause f k = k\<lparr>foreignKey := Is (f (case field_opt (foreignKey k) of None \<Rightarrow> empty_clause | Some c \<Rightarrow> c))\<rparr>"

fun changed_constraint :: "ConstraintEvent \<Rightarrow> DatabaseTableColumnConstraint \<Rightarrow> DatabaseTableColumnConstraint"
where
  "changed_constraint (ConPrimaryColumns cs) k = k\<lparr>primaryColumns := Is cs\<rparr>"
| "changed_constraint (ConUniqueColumns cs) k = k\<lparr>uniqueColumns := Is cs\<rparr>"
| "changed_constraint (ConCheckTyped s) k = k\<lparr>checkExpression := Is s\<rparr>"
| "changed_constraint (ConColumns cs) k = on_clause (\<lambda>c. c\<lparr>fkColumns := Some cs\<rparr>) k"
| "changed_constraint (ConForeignColumns cs) k = on_clause (\<lambda>c. c\<lparr>foreignColumns := Some cs\<rparr>) k"
| "changed_constraint (ConForeignTable t) k = on_clause (\<lambda>c. c\<lparr>foreignTableName := Some t\<rparr>) k"

definition constraint_event ::
  "nat \<Rightarrow> ConstraintEvent \<Rightarrow> DatabaseTableSchemaChange \<Rightarrow> DatabaseTableSchemaChange" where
  "constraint_event idx e st =
     (case (if idx < length (chConstraints st)
            then (case kcNew (chConstraints st ! idx) of
                    Some k \<Rightarrow> Some k | None \<Rightarrow> kcOld (chConstraints st ! idx)) else None) of
        None \<Rightarrow> st
      | Some k \<Rightarrow> onChangeConstraint idx (changed_constraint e k) st)"

text \<open>The four kinds of the menu \<open>Add Constraint\<close>.\<close>

datatype NewConstraint = NewPrimaryKey | NewUnique | NewCheck | NewForeignKey

fun new_constraint_of :: "NewConstraint \<Rightarrow> DatabaseTableColumnConstraint" where
  "new_constraint_of NewPrimaryKey = no_constraint\<lparr>primaryKey := Is True\<rparr>"
| "new_constraint_of NewUnique = no_constraint\<lparr>unique := Is True\<rparr>"
| "new_constraint_of NewCheck = no_constraint\<lparr>checkExpression := Is []\<rparr>"
| "new_constraint_of NewForeignKey = no_constraint\<lparr>foreignKey := Is (empty_clause\<lparr>fkColumns := Some []\<rparr>)\<rparr>"

definition newConstraint :: "string \<Rightarrow> NewConstraint \<Rightarrow> DatabaseTableSchemaChange \<Rightarrow> DatabaseTableSchemaChange"
where
  "newConstraint newId n prev =
     prev\<lparr>chConstraints := chConstraints prev @ [\<lparr>kcId = newId, kcOld = None, kcNew = Some (new_constraint_of n)\<rparr>]\<rparr>"

text \<open>\<open>ColumnListEditor\<close>: the list of columns of a constraint.\<close>

definition list_columns :: "DatabaseTableSchemaChange \<Rightarrow> string list" where
  "list_columns st =
     rev (remdups (rev (map (\<lambda>c. case shown_column c of None \<Rightarrow> [] | Some col \<Rightarrow> colName col) (chColumns st))))"

definition list_choices :: "string list \<Rightarrow> string list \<Rightarrow> string list" where
  "list_choices columns chosen = filter (\<lambda>c. c \<notin> set chosen) columns"

definition list_add :: "string \<Rightarrow> string list \<Rightarrow> string list" where
  "list_add column chosen = chosen @ [column]"

definition list_remove :: "string \<Rightarrow> string list \<Rightarrow> string list" where
  "list_remove columnName chosen = filter (\<lambda>c. c \<noteq> columnName) chosen"

definition tableNameTyped :: "string \<Rightarrow> DatabaseTableSchemaChange \<Rightarrow> DatabaseTableSchemaChange" where
  "tableNameTyped s st = st\<lparr>chNewName := Some s\<rparr>"

text \<open>The schema can be chosen only while \<open>value.name.old === ""\<close>.\<close>

definition schemaChosen :: "string \<Rightarrow> DatabaseTableSchemaChange \<Rightarrow> DatabaseTableSchemaChange" where
  "schemaChosen s st = (if chOldName st = Some [] then st\<lparr>chSchemaName := Some s\<rparr> else st)"

definition onDiscard :: "(nat \<Rightarrow> string) \<Rightarrow> DatabaseTableSchemaChange \<Rightarrow> DatabaseTableSchemaChange" where
  "onDiscard generateId prev =
     \<lparr>chSchemaName = chSchemaName prev, chOldName = chOldName prev, chNewName = chOldName prev,
      chColumns = filter (\<lambda>c. ccOld c \<noteq> None) (map (\<lambda>c. c\<lparr>ccNew := ccOld c\<rparr>) (chColumns prev)),
      chConstraints = map2 (\<lambda>i k. \<lparr>kcId = generateId i, kcOld = kcOld k, kcNew = kcOld k\<rparr>)
                        [0..<length (chConstraints prev)] (chConstraints prev),
      chCreateScript = None\<rparr>"

definition empty_draft :: "string option \<Rightarrow> DatabaseTableSchemaChange" where
  "empty_draft schemaName =
     \<lparr>chSchemaName = schemaName, chOldName = Some [], chNewName = Some [], chColumns = [],
      chConstraints = [], chCreateScript = Some []\<rparr>"

section \<open>Saving\<close>

text \<open>The button is enabled when something changed and both names are there.\<close>

definition can_save ::
  "(DatabaseTableColumn option \<Rightarrow> DatabaseTableColumn option \<Rightarrow> bool) \<Rightarrow> DatabaseTableSchemaChange \<Rightarrow> bool" where
  "can_save deepEqual st =
     (checkSchemaChange deepEqual st \<and> truthy_str (chNewName st) \<and> truthy_str (chSchemaName st))"

datatype SaveOutcome =
    SaveFailed js_error
  | TabReplaced "string option" "string option"
  | TableFetched string string
  | SaveDone

definition onSave ::
  "'w Connection \<Rightarrow> DatabaseTableSchemaChange \<Rightarrow> string list \<Rightarrow> 'w \<Rightarrow> SaveOutcome \<times> 'w" where
  "onSave db schema previewScript w =
     (case dbTransaction db previewScript w of
        (Inl e, w1) \<Rightarrow> (SaveFailed e, w1)
      | (Inr _, w1) \<Rightarrow>
          (if chNewName schema \<noteq> chOldName schema
           then TabReplaced (chSchemaName schema) (chNewName schema)
           else if truthy_str (chOldName schema) \<and> truthy_str (chSchemaName schema)
           then TableFetched (the (chSchemaName schema))
                  (if truthy_str (chNewName schema) then the (chNewName schema) else the (chOldName schema))
           else SaveDone, w1))"

end
