(* ===== verification/SchemaEditorFacts.thy ===== *)
theory SchemaEditorFacts
  imports SchemaEditor SchemaFacts
begin

text \<open>
  Facts about the schema editor: whatever is done in it, the existing columns stay in the draft in
  their order, discarding gives the draft of the table again, a column never has two defaults, and
  edits of the constraints of an existing table have no effect on the script.
\<close>

section \<open>Sessions of the editor\<close>

datatype EditorOp =
    EditColumn nat ColumnEvent
  | DeleteColumn nat
  | AddColumn "string option" "string option" string
  | DragColumn string "string option"
  | EditConstraint nat ConstraintEvent
  | RemoveConstraint nat
  | AddConstraint string NewConstraint
  | RenameTable string
  | ChooseSchema string
  | DiscardAll

definition drag_enabled :: "string \<Rightarrow> DatabaseTableSchemaChange \<Rightarrow> bool" where
  "drag_enabled active st = list_all (\<lambda>c. ccKey c = active \<longrightarrow> ccOld c = None) (chColumns st)"

text \<open>The rows of existing columns are not sortable: only a new column can be dragged.\<close>

fun editor_op ::
  "(DatabaseTableColumnChange list \<Rightarrow> nat \<Rightarrow> nat \<Rightarrow> DatabaseTableColumnChange list) \<Rightarrow> (nat \<Rightarrow> string) \<Rightarrow>
   EditorOp \<Rightarrow> DatabaseTableSchemaChange \<Rightarrow> DatabaseTableSchemaChange result" where
  "editor_op am gen (EditColumn i e) st = column_event i e st"
| "editor_op am gen (DeleteColumn i) st = changeColumnOnIndex i None st"
| "editor_op am gen (AddColumn idT textT k) st = Inr (onAddColumn idT textT k st)"
| "editor_op am gen (DragColumn active over) st =
     (if drag_enabled active st then handleDragEnd am active over st else Inr st)"
| "editor_op am gen (EditConstraint i e) st = Inr (constraint_event i e st)"
| "editor_op am gen (RemoveConstraint i) st = Inr (onRemoveClicked i st)"
| "editor_op am gen (AddConstraint k n) st = Inr (newConstraint k n st)"
| "editor_op am gen (RenameTable s) st = Inr (tableNameTyped s st)"
| "editor_op am gen (ChooseSchema s) st = Inr (schemaChosen s st)"
| "editor_op am gen DiscardAll st = Inr (onDiscard gen st)"

inductive editor_reachable for am gen start where
  opened: "editor_reachable am gen start start"
| step: "editor_reachable am gen start st \<Longrightarrow> editor_op am gen op st = Inr st1 \<Longrightarrow>
     editor_reachable am gen start st1"

text \<open>What dnd-kit documents of \<open>arrayMove\<close> for positions inside of the array.\<close>

definition array_moves :: "('a list \<Rightarrow> nat \<Rightarrow> nat \<Rightarrow> 'a list) \<Rightarrow> bool" where
  "array_moves am = (\<forall>xs i j. i < length xs \<and> j < length xs \<longrightarrow>
     am xs i j = take j (remove_at i xs) @ xs ! i # drop j (remove_at i xs))"

definition array_move :: "'a list \<Rightarrow> nat \<Rightarrow> nat \<Rightarrow> 'a list" where
  "array_move xs i j = take j (remove_at i xs) @ xs ! i # drop j (remove_at i xs)"

lemma array_move_moves: "array_moves array_move"
  by (simp add: array_moves_def array_move_def)

section \<open>Existing columns\<close>

lemma map_filter_simps2:
  "List.map_filter f (xs @ ys) = List.map_filter f xs @ List.map_filter f ys"
  "List.map_filter f [] = []"
  "f x = None \<Longrightarrow> List.map_filter f (x # xs) = List.map_filter f xs"
  "f x = Some y \<Longrightarrow> List.map_filter f (x # xs) = y # List.map_filter f xs"
  by (simp_all add: List.map_filter_def)

lemma map_filter_remove_at:
  "i < length xs \<Longrightarrow> f (xs ! i) = None \<Longrightarrow> List.map_filter f (remove_at i xs) = List.map_filter f xs"
  by (subst (2) id_take_nth_drop [of i]) (simp_all add: remove_at_def map_filter_simps2)

lemma map_filter_update:
  "i < length xs \<Longrightarrow> f y = f (xs ! i) \<Longrightarrow> List.map_filter f (xs[i := y]) = List.map_filter f xs"
proof -
  assume i: "i < length xs" and f: "f y = f (xs ! i)"
  have "List.map_filter f (xs[i := y]) = List.map_filter f (take i xs @ y # drop (Suc i) xs)"
    using i by (simp add: upd_conv_take_nth_drop)
  also have "\<dots> = List.map_filter f (take i xs @ xs ! i # drop (Suc i) xs)"
    using f by (cases "f y") (simp_all add: map_filter_simps2)
  also have "\<dots> = List.map_filter f xs" using i by (simp add: id_take_nth_drop [symmetric])
  finally show ?thesis .
qed

lemma map_filter_move:
  assumes "array_moves am" and "i < length xs" and "j < length xs" and "f (xs ! i) = None"
  shows "List.map_filter f (am xs i j) = List.map_filter f xs"
proof -
  have "am xs i j = take j (remove_at i xs) @ xs ! i # drop j (remove_at i xs)"
    using assms(1-3) by (simp add: array_moves_def)
  then have "List.map_filter f (am xs i j) = List.map_filter f (remove_at i xs)"
    using assms(4) by (simp add: map_filter_simps2) (simp add: map_filter_simps2(1) [symmetric])
  then show ?thesis using map_filter_remove_at [of i xs f] assms by simp
qed

definition existing :: "DatabaseTableSchemaChange \<Rightarrow> (string \<times> DatabaseTableColumn) list" where
  "existing st = List.map_filter (\<lambda>c. map_option (Pair (ccKey c)) (ccOld c)) (chColumns st)"

definition existing_constraints :: "DatabaseTableSchemaChange \<Rightarrow> DatabaseTableColumnConstraint list" where
  "existing_constraints st = List.map_filter kcOld (chConstraints st)"

lemma changeColumn_existing:
  "changeColumnOnIndex i v st = Inr st1 \<Longrightarrow> existing st1 = existing st \<and> chOldName st1 = chOldName st
     \<and> existing_constraints st1 = existing_constraints st"
  by (auto simp: changeColumnOnIndex_def existing_def existing_constraints_def Let_def
      map_filter_remove_at map_filter_update split: if_splits option.splits)

lemma drag_cases:
  assumes "handleDragEnd am active over st = Inr st1"
  shows "st1 = st \<or> (\<exists>i j. find_index (\<lambda>c. ccKey c = active) (chColumns st) = Some i
     \<and> i < length (chColumns st) \<and> j < length (chColumns st) \<and> st1 = st\<lparr>chColumns := am (chColumns st) i j\<rparr>)"
proof (cases "st1 = st")
  case False
  then obtain k i j where "find_index (\<lambda>c. ccKey c = active) (chColumns st) = Some i"
      "find_index (\<lambda>c. ccKey c = k) (chColumns st) = Some j" "st1 = st\<lparr>chColumns := am (chColumns st) i j\<rparr>"
    using assms by (auto simp: handleDragEnd_def Let_def split: if_splits option.splits bind_splits)
  moreover from this have "i < length (chColumns st)" "j < length (chColumns st)"
    using find_index_Some by blast+
  ultimately show ?thesis by blast
qed simp

lemma drag_existing:
  assumes "array_moves am" and "drag_enabled active st" and "handleDragEnd am active over st = Inr st1"
  shows "existing st1 = existing st \<and> chOldName st1 = chOldName st
     \<and> existing_constraints st1 = existing_constraints st"
proof (cases "st1 = st")
  case False
  then obtain i j where ij: "find_index (\<lambda>c. ccKey c = active) (chColumns st) = Some i"
      "i < length (chColumns st)" "j < length (chColumns st)" "st1 = st\<lparr>chColumns := am (chColumns st) i j\<rparr>"
    using drag_cases [OF assms(3)] by blast
  then have "ccOld (chColumns st ! i) = None"
    using find_index_Some [OF ij(1)] assms(2) by (auto simp: drag_enabled_def list_all_length)
  with ij map_filter_move [OF assms(1) ij(2,3), of "\<lambda>c. map_option (Pair (ccKey c)) (ccOld c)"]
  show ?thesis by (simp add: existing_def existing_constraints_def)
qed simp

lemma discard_existing: "existing (onDiscard gen st) = existing st"
proof -
  have "List.map_filter (\<lambda>c. map_option (Pair (ccKey c)) (ccOld c))
      (filter (\<lambda>c. ccOld c \<noteq> None) (map (\<lambda>c. c\<lparr>ccNew := ccOld c\<rparr>) cs))
    = List.map_filter (\<lambda>c. map_option (Pair (ccKey c)) (ccOld c)) cs" for cs
    by (induction cs) (auto simp: List.map_filter_def)
  then show ?thesis by (simp add: existing_def onDiscard_def)
qed

lemma discard_constraints: "existing_constraints (onDiscard gen st) = existing_constraints st"
proof -
  have "List.map_filter kcOld (map2 (\<lambda>i k. \<lparr>kcId = gen i, kcOld = kcOld k, kcNew = kcOld k\<rparr>) [n..<n + length ks] ks)
    = List.map_filter kcOld ks" for n ks
  proof (induction ks arbitrary: n)
    case (Cons k ks)
    have "[n..<n + length (k # ks)] = n # [Suc n..<n + length (k # ks)]" by (rule upt_conv_Cons) simp
    with Cons [of "Suc n"] show ?case by (cases "kcOld k") (simp_all add: map_filter_simps2)
  qed (simp add: map_filter_simps2)
  from this [of 0] show ?thesis by (simp add: existing_constraints_def onDiscard_def)
qed

lemma editor_op_existing:
  assumes "array_moves am" and "editor_op am gen op st = Inr st1"
  shows "existing st1 = existing st \<and> chOldName st1 = chOldName st
     \<and> existing_constraints st1 = existing_constraints st"
proof (cases op)
  case (EditColumn i e)
  with assms(2) show ?thesis
    using changeColumn_existing by (auto simp: column_event_def split: option.splits if_splits)
next
  case (DragColumn active over)
  with assms drag_existing show ?thesis by (auto split: if_splits)
next
  case DiscardAll
  with assms(2) have "st1 = onDiscard gen st" by simp
  moreover have "chOldName (onDiscard gen st) = chOldName st" by (simp add: onDiscard_def)
  ultimately show ?thesis using discard_existing discard_constraints by simp
next
  case (EditConstraint i e)
  with assms(2) show ?thesis
    by (auto simp: constraint_event_def onChangeConstraint_def Let_def existing_def
        existing_constraints_def map_filter_update split: option.splits if_splits)
qed (use assms(2) changeColumn_existing in
     \<open>auto simp: onAddColumn_def Let_def onRemoveClicked_def newConstraint_def tableNameTyped_def schemaChosen_def
        existing_def existing_constraints_def map_filter_simps2 map_filter_remove_at map_filter_update
        split: if_splits\<close>)


lemma editor_reachable_existing:
  "editor_reachable am gen start st \<Longrightarrow> array_moves am \<Longrightarrow>
     existing st = existing start \<and> chOldName st = chOldName start
     \<and> existing_constraints st = existing_constraints start"
  by (induction rule: editor_reachable.induct) (use editor_op_existing in force)+


definition example_session :: "EditorOp list" where
  "example_session =
     [AddColumn None None ''k1'', AddColumn None None ''k2'', DragColumn ''k2'' (Some ''k1''),
      EditColumn 0 (NameTyped ''key''), DeleteColumn 0, RenameTable ''u'']"

definition example_editor_table :: DatabaseTableSchema where
  "example_editor_table = example_schema\<lparr>tsColumns := [example_column]\<rparr>"

fun run_ops ::
  "(nat \<Rightarrow> string) \<Rightarrow> EditorOp list \<Rightarrow> DatabaseTableSchemaChange \<Rightarrow> DatabaseTableSchemaChange result" where
  "run_ops gen [] st = Inr st"
| "run_ops gen (op # ops) st = rbind (editor_op array_move gen op st) (run_ops gen ops)"

lemma run_ops_reachable:
  "editor_reachable array_move gen start st \<Longrightarrow> run_ops gen ops st = Inr st1 \<Longrightarrow>
     editor_reachable array_move gen start st1"
  by (induction ops arbitrary: st) (auto simp: rbind_Inr_iff intro: editor_reachable.step)

definition example_draft :: DatabaseTableSchemaChange where
  "example_draft = createTableSchemaDraft nat_digits ''main'' example_editor_table"

definition example_edited :: DatabaseTableSchemaChange where
  "example_edited = (case run_ops nat_digits example_session example_draft of Inr st \<Rightarrow> st | Inl _ \<Rightarrow> example_draft)"

lemma example_edited_run: "run_ops nat_digits example_session example_draft = Inr example_edited"
proof -
  have "case run_ops nat_digits example_session example_draft of Inr st \<Rightarrow> True | Inl _ \<Rightarrow> False"
    by code_simp
  then show ?thesis by (auto simp: example_edited_def split: sum.splits)
qed

lemma example_edited_reachable: "editor_reachable array_move nat_digits example_draft example_edited"
  using run_ops_reachable [OF editor_reachable.opened example_edited_run] .


text \<open>
  Discarding in the schema editor undoes every sequence of edits of an existing table: the
  columns and names are those of the freshly opened draft again, every constraint is as in the
  table, and no dialect makes a statement of it.
\<close>

theorem editor_discard_restores:
  assumes "array_moves am" and "\<And>c. isEqual c c"
    and "tsTableName schema = Some t" and "t \<noteq> []"
    and "editor_reachable am gen (createTableSchemaDraft gen0 s schema) st"
  shows "chColumns (onDiscard gen st) = chColumns (createTableSchemaDraft gen0 s schema)
     \<and> chNewName (onDiscard gen st) = Some t
     \<and> list_all (\<lambda>k. kcNew k = kcOld k) (chConstraints (onDiscard gen st))
     \<and> existing_constraints (onDiscard gen st) = existing_constraints (createTableSchemaDraft gen0 s schema)
     \<and> schema_change d isEqual (onDiscard gen st) = []"
proof -
  let ?draft = "createTableSchemaDraft gen0 s schema"
  let ?entry = "\<lambda>(k, old). \<lparr>ccKey = k, ccOld = Some old, ccNew = Some old\<rparr>"
  have keep: "existing st = existing ?draft" "chOldName st = Some t"
      "existing_constraints st = existing_constraints ?draft"
    using editor_reachable_existing [OF assms(5,1)] assms(3) by (simp_all add: draft_names)
  have entries: "filter (\<lambda>c. ccOld c \<noteq> None) (map (\<lambda>c. c\<lparr>ccNew := ccOld c\<rparr>) cs)
      = map ?entry (List.map_filter (\<lambda>c. map_option (Pair (ccKey c)) (ccOld c)) cs)" for cs
  proof (induction cs)
    case (Cons c cs)
    then show ?case
      by (cases c; cases "ccOld c") (simp_all add: map_filter_simps2)
  qed (simp add: map_filter_simps2)
  have "map ?entry (existing ?draft) = chColumns ?draft"
  proof -
    have "filter (\<lambda>c. ccOld c \<noteq> None) (map (\<lambda>c. c\<lparr>ccNew := ccOld c\<rparr>) cs) = cs"
      if "\<And>c. c \<in> set cs \<Longrightarrow> ccNew c = ccOld c \<and> ccOld c \<noteq> None" for cs :: "DatabaseTableColumnChange list"
      using that by (induction cs) auto
    from this [of "chColumns ?draft"] draft_columns [of _ gen0 s schema] entries [of "chColumns ?draft"]
    show ?thesis by (auto simp: existing_def)
  qed
  then have cols: "chColumns (onDiscard gen st) = chColumns ?draft"
    using keep(1) entries [of "chColumns st"] by (simp add: onDiscard_def existing_def)
  have names: "chNewName (onDiscard gen st) = Some t" "chOldName (onDiscard gen st) = Some t"
    using keep(2) by (simp_all add: onDiscard_def)
  have nc: "\<not> is_create (onDiscard gen st)" using names assms(4) by (simp add: is_create_def)
  have same: "ccNew c = ccOld c \<and> ccOld c \<noteq> None" if "c \<in> set (chColumns (onDiscard gen st))" for c
    using draft_columns [of c gen0 s schema] that cols by simp
  have eq: "chNewName (onDiscard gen st) = chOldName (onDiscard gen st)" by (simp add: names)
  have "schema_change d isEqual (onDiscard gen st) = []"
    using nc unedited_lines [where isEqual = isEqual, OF assms(2) nc eq same]
    by (cases d) (simp_all add: change_defs)
  moreover have "list_all (\<lambda>k. kcNew k = kcOld k) (chConstraints (onDiscard gen st))"
    by (auto simp: onDiscard_def list_all_iff)
  ultimately show ?thesis using cols names keep(3) discard_constraints by simp
qed

theorem editor_discard_restores_witness:
  "map ccKey (chColumns (onDiscard nat_digits example_edited)) = [''0'']
   \<and> schema_change Mysql (=) (onDiscard nat_digits example_edited) = []"
proof -
  have name: "tsTableName example_editor_table = Some ''t''" by (simp add: example_editor_table_def example_schema_def)
  have "map ccKey (chColumns (createTableSchemaDraft nat_digits ''main'' example_editor_table)) = [''0'']" by code_simp
  then show ?thesis
    using editor_discard_restores [where isEqual = "(=)" and d = Mysql, OF array_move_moves refl name _
        example_edited_reachable [unfolded example_draft_def]]
    by simp
qed


section \<open>Defaults\<close>

text \<open>A column has at most one of a default value, a default expression and auto increment.\<close>

definition one_default :: "DatabaseTableColumn \<Rightarrow> bool" where
  "one_default col =
     (length (filter id [con_get col defaultValue \<noteq> None, con_get col defaultExpression \<noteq> None,
                         con_get col autoIncrement = Some True]) \<le> 1)"

lemma constraint_patched:
  "constraint_or_empty (apply_patch p col) =
     (case cpConstraint p of None \<Rightarrow> constraint_or_empty col
      | Some k \<Rightarrow> spread_constraint (constraint_or_empty col) k)"
  by (simp add: apply_patch_def constraint_or_empty_def split: option.split)

lemma con_get_or_empty:
  "f no_constraint = Absent \<Longrightarrow> con_get col f = field_opt (f (constraint_or_empty col))"
  by (simp add: con_get_def constraint_or_empty_def split: option.split)

lemma one_default_patch:
  assumes "one_default col"
  shows "one_default (apply_patch (patch_of col e) col)"
proof -
  let ?k = "constraint_or_empty col"
  have get: "con_get c defaultValue = field_opt (defaultValue (constraint_or_empty c))"
    "con_get c defaultExpression = field_opt (defaultExpression (constraint_or_empty c))"
    "con_get c autoIncrement = field_opt (autoIncrement (constraint_or_empty c))" for c
    by (simp_all add: con_get_or_empty no_constraint_def)
  have over: "field_over a a = a" for a :: "'b field" by (simp add: field_over_def)
  show ?thesis
    using assms
    by (cases e)
       (simp_all add: one_default_def get constraint_patched con_patch_def default_patch_def
          spread_constraint_def no_constraint_def over)
qed

definition draft_defaults :: "DatabaseTableSchemaChange \<Rightarrow> bool" where
  "draft_defaults st =
     list_all (\<lambda>c. list_all one_default (case ccNew c of None \<Rightarrow> [] | Some n \<Rightarrow> [n])
                 \<and> list_all one_default (case ccOld c of None \<Rightarrow> [] | Some n \<Rightarrow> [n])) (chColumns st)"


definition cell_ok :: "DatabaseTableColumnChange \<Rightarrow> bool" where
  "cell_ok c = ((\<forall>n. ccNew c = Some n \<longrightarrow> one_default n) \<and> (\<forall>n. ccOld c = Some n \<longrightarrow> one_default n))"

lemma draft_defaults_iff: "draft_defaults st \<longleftrightarrow> (\<forall>c \<in> set (chColumns st). cell_ok c)"
  by (auto simp: draft_defaults_def cell_ok_def list_all_iff split: option.split)

lemma set_remove_at: "set (remove_at i xs) \<subseteq> set xs"
  by (auto simp: remove_at_def dest: in_set_takeD in_set_dropD)

lemma set_array_move:
  "array_moves am \<Longrightarrow> i < length xs \<Longrightarrow> j < length xs \<Longrightarrow> set (am xs i j) \<subseteq> set xs"
proof -
  assume "array_moves am" and b: "i < length xs" "j < length xs"
  then have "am xs i j = take j (remove_at i xs) @ xs ! i # drop j (remove_at i xs)"
    by (simp add: array_moves_def)
  then show ?thesis
    using set_remove_at [of i xs] b by (auto dest: in_set_takeD in_set_dropD)
qed

lemma changeColumn_defaults:
  assumes "changeColumnOnIndex i v st = Inr st1" and "draft_defaults st"
    and "\<And>p n. v = Some p \<Longrightarrow> ccNew (chColumns st ! i) = Some n \<Longrightarrow> one_default n \<Longrightarrow> one_default (apply_patch p n)"
  shows "draft_defaults st1"
proof (cases "i < length (chColumns st)")
  case True
  then have cell: "cell_ok (chColumns st ! i)" using assms(2) by (simp add: draft_defaults_iff)
  have "cell_ok c" if "c \<in> set (chColumns st1)" for c
  proof -
    have "c \<in> set (chColumns st) \<or> c = (chColumns st ! i)\<lparr>ccNew := map_option (\<lambda>p. apply_patch p (the (ccNew (chColumns st ! i)))) v\<rparr>
        \<and> ccNew (chColumns st ! i) \<noteq> None"
      using that assms(1) True set_remove_at [of i "chColumns st"] 
      by (auto simp: changeColumnOnIndex_def Let_def split: option.splits if_splits
          dest: set_update_subset_insert [THEN subsetD])
    then show ?thesis
      using assms(2,3) cell by (auto simp: draft_defaults_iff cell_ok_def split: option.splits)
  qed
  then show ?thesis by (simp add: draft_defaults_iff)
qed (use assms in \<open>simp add: changeColumnOnIndex_def\<close>)

lemma fresh_one_default:
  "one_default \<lparr>colName = n, colType = t, colPk = None, colConstraint = Some (no_constraint\<lparr>primaryKey := Is True\<rparr>)\<rparr>"
  "one_default \<lparr>colName = n, colType = t, colPk = None, colConstraint = Some no_constraint\<rparr>"
  by (simp_all add: one_default_def con_get_def no_constraint_def)

lemma editor_op_defaults:
  assumes "array_moves am" and "editor_op am gen op st = Inr st1" and ok: "draft_defaults st"
  shows "draft_defaults st1"
proof (cases op)
  case (EditColumn i e)
  show ?thesis
  proof (cases "i < length (chColumns st)")
    case True
    show ?thesis
    proof (cases "shown_column (chColumns st ! i)")
      case None
      then show ?thesis using assms(2) ok EditColumn True by (simp add: column_event_def)
    next
      case (Some col)
      then have "changeColumnOnIndex i (Some (patch_of col e)) st = Inr st1"
        using assms(2) EditColumn True by (simp add: column_event_def)
      then show ?thesis
        by (rule changeColumn_defaults [OF _ ok])
           (use Some in \<open>auto simp: shown_column_def one_default_patch\<close>)
    qed
  next
    case False
    then show ?thesis using assms(2) ok EditColumn by (simp add: column_event_def)
  qed
next
  case (DeleteColumn i)
  then show ?thesis using changeColumn_defaults [OF _ ok] assms(2) by auto
next
  case (AddColumn idT textT k)
  then show ?thesis
    using assms(2) ok
    by (auto simp: onAddColumn_def Let_def draft_defaults_iff cell_ok_def fresh_one_default split: if_splits)
next
  case (DragColumn active over)
  then have "(if drag_enabled active st then handleDragEnd am active over st else Inr st) = Inr st1"
    using assms(2) by simp
  then consider "st1 = st" | "handleDragEnd am active over st = Inr st1"
    by (cases "drag_enabled active st") (simp_all add: eq_commute)
  then show ?thesis
  proof cases
    case 2
    from drag_cases [OF this] have "set (chColumns st1) \<subseteq> set (chColumns st)"
      using set_array_move [OF assms(1)] by fastforce
    then show ?thesis using ok unfolding draft_defaults_iff by blast
  qed (simp add: ok)
next
  case DiscardAll
  then have "chColumns st1 = filter (\<lambda>c. ccOld c \<noteq> None) (map (\<lambda>c. c\<lparr>ccNew := ccOld c\<rparr>) (chColumns st))"
    using assms(2) by (auto simp: onDiscard_def)
  then show ?thesis using ok by (auto simp: draft_defaults_iff cell_ok_def)
qed (use assms(2) ok in \<open>auto simp: constraint_event_def onChangeConstraint_def onRemoveClicked_def newConstraint_def
        tableNameTyped_def schemaChosen_def Let_def draft_defaults_iff split: option.splits if_splits\<close>)

text \<open>
  No sequence of operations of the editor gives a column two defaults: when no column of the
  table has more than one of a default value, a default expression and auto increment, the same
  holds of every column of the draft at all times, old and new.
\<close>

theorem editor_one_default:
  assumes "array_moves am" and "editor_reachable am gen start st" and "draft_defaults start"
  shows "draft_defaults st"
  using assms(2,3) by (induction rule: editor_reachable.induct) (use editor_op_defaults [OF assms(1)] in blast)+

theorem editor_one_default_witness:
  "draft_defaults (case run_ops nat_digits
       [AddColumn None None ''k'', EditColumn 1 DefaultAutoIncrement, EditColumn 1 (DefaultValueTyped ''0''),
        EditColumn 1 DefaultExpression] example_draft of Inr st \<Rightarrow> st | Inl _ \<Rightarrow> example_draft)"
proof (cases "run_ops nat_digits
       [AddColumn None None ''k'', EditColumn 1 DefaultAutoIncrement, EditColumn 1 (DefaultValueTyped ''0''),
        EditColumn 1 DefaultExpression] example_draft")
  case (Inl e)
  have "draft_defaults example_draft" by code_simp
  then show ?thesis unfolding Inl by simp
next
  case (Inr st)
  have "draft_defaults example_draft" by code_simp
  from editor_one_default [OF array_move_moves run_ops_reachable [OF editor_reachable.opened Inr] this]
  show ?thesis unfolding Inr by simp
qed

section \<open>Constraints of existing tables\<close>

text \<open>
  For an existing table the generators of all dialects look at the columns and the name only:
  whatever is added to, edited in or removed from its list of constraints, the script is the same.
\<close>

theorem constraint_edits_ignored:
  assumes "chOldName st = Some t" and "t \<noteq> []"
  shows "schema_change d isEqual (st\<lparr>chConstraints := ks\<rparr>) = schema_change d isEqual st
     \<and> checkSchemaChange deepEqual (st\<lparr>chConstraints := ks\<rparr>) = checkSchemaChange deepEqual st"
proof -
  let ?st = "st\<lparr>chConstraints := ks\<rparr>"
  have nc: "\<not> is_create st" "\<not> is_create ?st" using assms by (simp_all add: is_create_def)
  have none: "concat (map (sqlite_constraint_lines c) cs) = []"
    "concat (map (mysql_constraint_lines dr c) cs) = []"
    "concat (map (postgres_constraint_lines dr c) cs) = []" if "\<not> is_create c" for c cs dr
    using that by (auto simp: sqlite_constraint_lines_def mysql_constraint_lines_def
        postgres_constraint_lines_def split: option.splits)
  have cols: "sqlite_column_lines isEqual ?st = sqlite_column_lines isEqual st"
    "mysql_column_lines dr isEqual ?st = mysql_column_lines dr isEqual st"
    "postgres_column_lines dr isEqual ?st = postgres_column_lines dr isEqual st" for dr
    using nc by (auto simp: sqlite_column_lines_def mysql_column_lines_def postgres_column_lines_def fun_eq_iff
        split: option.splits)
  have lines: "sqlite_lines isEqual ?st = sqlite_lines isEqual st"
    "mysql_lines dr isEqual ?st = mysql_lines dr isEqual st"
    "postgres_lines dr isEqual ?st = postgres_lines dr isEqual st" for dr
    unfolding sqlite_lines_def mysql_lines_def postgres_lines_def none [OF nc(1)] none [OF nc(2)] cols
    using nc by simp_all
  show ?thesis
    using nc by (cases d) (simp_all add: change_defs lines checkSchemaChange_def)
qed

theorem constraint_edits_ignored_witness:
  "schema_change Sqlite (=) (onRemoveClicked 0 (newConstraint ''c'' NewUnique example_draft))
     = schema_change Sqlite (=) example_draft
   \<and> schema_change Postgres (=) (newConstraint ''c'' NewUnique example_draft)
     = schema_change Postgres (=) example_draft"
proof -
  have name: "chOldName example_draft = Some ''t''"
    by (simp add: example_draft_def draft_names example_editor_table_def example_schema_def)
  have "onRemoveClicked 0 (newConstraint ''c'' NewUnique example_draft)
      = example_draft\<lparr>chConstraints := chConstraints (onRemoveClicked 0 (newConstraint ''c'' NewUnique example_draft))\<rparr>"
    by (simp add: onRemoveClicked_def newConstraint_def Let_def)
  then show ?thesis
    using constraint_edits_ignored [OF name, of Sqlite "(=)"
        "chConstraints (onRemoveClicked 0 (newConstraint ''c'' NewUnique example_draft))"]
      constraint_edits_ignored [OF name, of Postgres "(=)"
        "chConstraints example_draft @ [\<lparr>kcId = ''c'', kcOld = None, kcNew = Some (new_constraint_of NewUnique)\<rparr>]"]
    by (simp add: newConstraint_def)
qed

text \<open>A constraint that is added and removed again leaves a statement behind.\<close>

lemma add_remove_leaves_statement:
  "case run_ops nat_digits [EditColumn 0 UniqueAdded, EditColumn 0 UniqueRemoved] example_draft of
     Inr st \<Rightarrow> length (schema_change Mysql (=) st) = 1 | Inl _ \<Rightarrow> False"
  by code_simp

end
