(* ===== verification/Tabs.thy ===== *)
theory Tabs
  imports SchemaEditor "HOL-Library.Multiset"
begin

text \<open>
  The tabs of the studio: the state of \<open>DatabaseGui\<close> (\<open>components/gui/database-gui.tsx\<close>), what
  \<open>WindowTabs\<close> (\<open>components/gui/windows-tab.tsx\<close>) does to it, and the commands that open tabs
  (\<open>core/extension-tab.tsx\<close>, \<open>core/builtin-tab/\<close>).  \<open>arrayMove\<close> of dnd-kit and the generated
  identifiers are parameters.
\<close>

section \<open>State\<close>

datatype TabContent =
    QueryWindow string "string option" "string option" "string option"
  | TableDataWindow string string
  | SchemaEditorTab "string option" "string option"
  | RelationalDiagramTab
  | MassDropTableTab

record WindowTabItemProps =
  tabComponent :: TabContent
  tabTitle :: string
  tabIdentifier :: string
  tabKey :: string
  tabType :: "string option"

record TabsState =
  tabList :: "WindowTabItemProps list"
  selectedTab :: int
  queryCounter :: nat

text \<open>\<open>tabs[i]\<close> for an index that may be out of range, and \<open>findIndex\<close>.\<close>

definition tab_at :: "'a list \<Rightarrow> int \<Rightarrow> 'a option" where
  "tab_at xs i = (if 0 \<le> i \<and> nat i < length xs then Some (xs ! nat i) else None)"

definition js_findIndex :: "('a \<Rightarrow> bool) \<Rightarrow> 'a list \<Rightarrow> int" where
  "js_findIndex P xs = (case find_index P xs of None \<Rightarrow> - 1 | Some n \<Rightarrow> int n)"

definition initial_tabs :: "bool \<Rightarrow> TabsState" where
  "initial_tabs readOnly =
     \<lparr>tabList = (if readOnly then []
        else [\<lparr>tabComponent = QueryWindow ''Query'' None None None, tabTitle = ''Query'',
               tabIdentifier = ''query'', tabKey = ''query'', tabType = Some ''query''\<rparr>]),
      selectedTab = 0, queryCounter = 2\<rparr>"

section \<open>What opens a tab\<close>

record SavedQuery =
  sqNamespaceName :: "string option"
  sqKey :: string
  sqSql :: string

datatype TabRequest =
    OpenQuery "string option" "SavedQuery option"
  | OpenTable string string
  | OpenSchema "string option" "string option"
  | OpenERD
  | OpenMassDropTable

fun request_name :: "TabRequest \<Rightarrow> string" where
  "request_name (OpenQuery _ _) = ''query''"
| "request_name (OpenTable _ _) = ''table''"
| "request_name (OpenSchema _ _) = ''schema''"
| "request_name OpenERD = ''erd''"
| "request_name OpenMassDropTable = ''mass-drop-table''"

text \<open>A missing schema name is printed by the template literal as \<open>undefined\<close>.\<close>

definition template_str :: "string option \<Rightarrow> string" where
  "template_str s = (case s of None \<Rightarrow> ''undefined'' | Some t \<Rightarrow> t)"

fun query_tab_key :: "string \<Rightarrow> SavedQuery option \<Rightarrow> string" where
  "query_tab_key generated (Some q) = sqKey q"
| "query_tab_key generated None = generated"

definition table_tab_key :: "string \<Rightarrow> string \<Rightarrow> string" where
  "table_tab_key s t = s @ ''-'' @ t"

definition schema_tab_key :: "string option \<Rightarrow> string option \<Rightarrow> string" where
  "schema_tab_key s t =
     (if truthy_str t then template_str s @ ''-'' @ the t else ''create'')"

fun request_own_key :: "string \<Rightarrow> TabRequest \<Rightarrow> string" where
  "request_own_key generated (OpenQuery _ saved) = query_tab_key generated saved"
| "request_own_key generated (OpenTable s t) = table_tab_key s t"
| "request_own_key generated (OpenSchema s t) = schema_tab_key s t"
| "request_own_key generated OpenERD = []"
| "request_own_key generated OpenMassDropTable = []"

definition request_key :: "string \<Rightarrow> TabRequest \<Rightarrow> string" where
  "request_key generated req =
     js_join ''-'' (filter (\<lambda>s. s \<noteq> []) [request_name req, request_own_key generated req])"

definition query_component :: "nat \<Rightarrow> string option \<Rightarrow> SavedQuery option \<Rightarrow> TabContent" where
  "query_component counter name saved = (case saved of
       Some q \<Rightarrow> QueryWindow (case name of None \<Rightarrow> ''Query'' | Some n \<Rightarrow> n) (Some (sqSql q)) (Some (sqKey q))
                   (sqNamespaceName q)
     | None \<Rightarrow> QueryWindow (''Query '' @ nat_digits counter) None None None)"

fun request_component :: "nat \<Rightarrow> TabRequest \<Rightarrow> TabContent" where
  "request_component counter (OpenQuery name saved) = query_component counter name saved"
| "request_component counter (OpenTable s t) = TableDataWindow s t"
| "request_component counter (OpenSchema s t) = SchemaEditorTab s t"
| "request_component counter OpenERD = RelationalDiagramTab"
| "request_component counter OpenMassDropTable = MassDropTableTab"

fun request_title :: "TabRequest \<Rightarrow> string" where
  "request_title (OpenQuery name _) = (case name of None \<Rightarrow> ''Query'' | Some n \<Rightarrow> n)"
| "request_title (OpenTable s t) = t"
| "request_title (OpenSchema s t) = (if truthy_str t then the t else ''New Table'')"
| "request_title OpenERD = ''Relational Diagram''"
| "request_title OpenMassDropTable = ''Mass Drop Tables''"

definition generate_tab :: "nat \<Rightarrow> string \<Rightarrow> TabRequest \<Rightarrow> WindowTabItemProps" where
  "generate_tab counter generated req =
     (let key = request_key generated req in
      \<lparr>tabComponent = request_component counter req, tabTitle = request_title req,
       tabIdentifier = key, tabKey = key, tabType = Some (request_name req)\<rparr>)"

text \<open>A new query takes the next number, whether its tab is opened or not.\<close>

fun next_counter :: "nat \<Rightarrow> TabRequest \<Rightarrow> nat" where
  "next_counter counter (OpenQuery name None) = Suc counter"
| "next_counter counter _ = counter"

section \<open>Operations\<close>

definition openTabInternal :: "WindowTabItemProps \<Rightarrow> TabsState \<Rightarrow> TabsState" where
  "openTabInternal tabOption st =
     (case find_index (\<lambda>tb. tabIdentifier tb = tabKey tabOption) (tabList st) of
        Some foundIndex \<Rightarrow> st\<lparr>selectedTab := int foundIndex\<rparr>
      | None \<Rightarrow> st\<lparr>selectedTab := int (length (tabList st)), tabList := tabList st @ [tabOption]\<rparr>)"

definition replaceTabInternal :: "WindowTabItemProps \<Rightarrow> TabsState \<Rightarrow> TabsState" where
  "replaceTabInternal tabOption st =
     (case find_index (\<lambda>tb. tabIdentifier tb = tabKey tabOption) (tabList st) of
        Some foundIndex \<Rightarrow> st\<lparr>selectedTab := int foundIndex\<rparr>
      | None \<Rightarrow> st\<lparr>tabList := map (\<lambda>(tabIndex, tb). if int tabIndex = selectedTab st then tabOption else tb)
                  (enumerate 0 (tabList st))\<rparr>)"

definition closeStudioTab :: "string list \<Rightarrow> TabsState \<Rightarrow> TabsState" where
  "closeStudioTab keys st =
     (let newTabs = filter (\<lambda>t. tabIdentifier t \<notin> set keys) (tabList st) in
      case tab_at (tabList st) (selectedTab st) of
        None \<Rightarrow> st\<lparr>tabList := newTabs\<rparr>
      | Some selected \<Rightarrow>
          (let newIndex = js_findIndex (\<lambda>t. tabIdentifier t = tabIdentifier selected) newTabs in
           st\<lparr>tabList := newTabs,
              selectedTab := (if newIndex < 0 then min (selectedTab st) (int (length newTabs) - 1)
                              else newIndex)\<rparr>))"

definition replaceCurrentTab :: "WindowTabItemProps \<Rightarrow> TabsState \<Rightarrow> TabsState" where
  "replaceCurrentTab tb st =
     (if tab_at (tabList st) (selectedTab st) = None then st
      else st\<lparr>tabList := (tabList st)[nat (selectedTab st) := tb]\<rparr>)"

definition changeCurrentTab :: "string option \<Rightarrow> string option \<Rightarrow> TabsState \<Rightarrow> TabsState" where
  "changeCurrentTab title identifier st =
     (case tab_at (tabList st) (selectedTab st) of
        None \<Rightarrow> st
      | Some tb \<Rightarrow>
          st\<lparr>tabList := (tabList st)[nat (selectedTab st) :=
               tb\<lparr>tabTitle := (if truthy_str title then the title else tabTitle tb),
                   tabIdentifier := (if truthy_str identifier then the identifier else tabIdentifier tb)\<rparr>]\<rparr>)"

definition dragTab ::
  "(WindowTabItemProps list \<Rightarrow> int \<Rightarrow> int \<Rightarrow> WindowTabItemProps list) \<Rightarrow> string \<Rightarrow> string option \<Rightarrow>
   TabsState \<Rightarrow> TabsState" where
  "dragTab arrayMove active over st =
     (if over = Some active then st
      else (let selected = tab_at (tabList st) (selectedTab st);
                oldIndex = js_findIndex (\<lambda>tb. tabKey tb = active) (tabList st);
                newIndex = js_findIndex (\<lambda>tb. Some (tabKey tb) = over) (tabList st);
                newTabs = arrayMove (tabList st) oldIndex newIndex
            in st\<lparr>tabList := newTabs,
                  selectedTab := js_findIndex (\<lambda>tb. Some (tabKey tb) = map_option tabKey selected) newTabs\<rparr>))"

definition closeTabAt :: "nat \<Rightarrow> TabsState \<Rightarrow> TabsState" where
  "closeTabAt idx st =
     (if length (tabList st) \<le> idx then st
      else (let newTabs = filter (\<lambda>t. tabKey t \<noteq> tabKey (tabList st ! idx)) (tabList st)
            in st\<lparr>tabList := newTabs,
                  selectedTab := (if int idx \<le> selectedTab st then int (length newTabs) - 1
                                  else selectedTab st)\<rparr>))"

definition selectTabAt :: "nat \<Rightarrow> TabsState \<Rightarrow> TabsState" where
  "selectTabAt idx st = (if idx < length (tabList st) then st\<lparr>selectedTab := int idx\<rparr> else st)"

text \<open>What the dialog that saves a schema puts in the place of its tab.\<close>

definition saved_schema_tab :: "string option \<Rightarrow> string option \<Rightarrow> WindowTabItemProps" where
  "saved_schema_tab schemaName newName =
     (let key = ''_schema_'' @ template_str newName in
      \<lparr>tabComponent = SchemaEditorTab schemaName newName, tabTitle = ''Edit '' @ template_str newName,
       tabIdentifier = key, tabKey = key, tabType = None\<rparr>)"

fun after_save :: "SaveOutcome \<Rightarrow> TabsState \<Rightarrow> TabsState" where
  "after_save (TabReplaced s t) st = replaceCurrentTab (saved_schema_tab s t) st"
| "after_save _ st = st"

datatype TabEvent =
    TabOpened TabRequest string
  | TabReplaceSent TabRequest string
  | TabsClosed "string list"
  | TabSelected nat
  | TabCloseClicked nat
  | TabDragged string "string option"
  | TabTitleChanged string
  | TabIdentifierChanged string
  | SchemaSaved SaveOutcome

fun tab_step ::
  "(WindowTabItemProps list \<Rightarrow> int \<Rightarrow> int \<Rightarrow> WindowTabItemProps list) \<Rightarrow> TabEvent \<Rightarrow> TabsState \<Rightarrow> TabsState" where
  "tab_step am (TabOpened req generated) st =
     (openTabInternal (generate_tab (queryCounter st) generated req) st)
       \<lparr>queryCounter := next_counter (queryCounter st) req\<rparr>"
| "tab_step am (TabReplaceSent req generated) st =
     (replaceTabInternal (generate_tab (queryCounter st) generated req) st)
       \<lparr>queryCounter := next_counter (queryCounter st) req\<rparr>"
| "tab_step am (TabsClosed keys) st = closeStudioTab keys st"
| "tab_step am (TabSelected idx) st = selectTabAt idx st"
| "tab_step am (TabCloseClicked idx) st = closeTabAt idx st"
| "tab_step am (TabDragged active over) st = dragTab am active over st"
| "tab_step am (TabTitleChanged title) st = changeCurrentTab (Some title) None st"
| "tab_step am (TabIdentifierChanged i) st = changeCurrentTab None (Some i) st"
| "tab_step am (SchemaSaved outcome) st = after_save outcome st"

end
