(* ===== verification/TabsFacts.thy ===== *)
theory TabsFacts
  imports Tabs
begin

text \<open>
  What holds of the tabs in every session: keys are unique and the selected index is a tab; a
  request to open a table shows it; closing keeps the other tabs.
\<close>

section \<open>Indices\<close>

lemma tab_at_Some_iff: "tab_at xs i = Some x \<longleftrightarrow> 0 \<le> i \<and> nat i < length xs \<and> xs ! nat i = x"
  by (auto simp: tab_at_def)

lemma tab_at_int [simp]: "tab_at xs (int n) = (if n < length xs then Some (xs ! n) else None)"
  by (simp add: tab_at_def)

lemma find_index_None_iff: "find_index P xs = None \<longleftrightarrow> (\<forall>x \<in> set xs. \<not> P x)"
  by (induction xs) auto

lemma index_of_cases:
  obtains "js_findIndex P xs = - 1" and "\<And>x. x \<in> set xs \<Longrightarrow> \<not> P x"
  | n where "js_findIndex P xs = int n" and "n < length xs" and "P (xs ! n)"
proof (cases "find_index P xs")
  case None
  with that(1) show thesis by (simp add: js_findIndex_def find_index_None_iff)
next
  case (Some n)
  with that(2) show thesis using find_index_Some [OF Some] by (simp add: js_findIndex_def)
qed

lemma index_of_unique:
  "distinct (map f xs) \<Longrightarrow> x \<in> set xs \<Longrightarrow> tab_at xs (js_findIndex (\<lambda>y. f y = f x) xs) = Some x"
  by (cases rule: index_of_cases [of "\<lambda>y. f y = f x" xs])
     (auto simp: distinct_map dest: inj_onD)

section \<open>Sessions\<close>

definition valid_selection :: "TabsState \<Rightarrow> bool" where
  "valid_selection st = (tabList st = [] \<or> tab_at (tabList st) (selectedTab st) \<noteq> None)"

text \<open>The tab of a table holds that table; no other tab has a key of this form.\<close>

definition table_prefix :: string where
  "table_prefix = ''table-''"

definition content_ok :: "WindowTabItemProps \<Rightarrow> bool" where
  "content_ok t =
     (case tabComponent t of
        TableDataWindow s n \<Rightarrow> tabKey t = table_prefix @ table_tab_key s n
      | _ \<Rightarrow> \<not> js_starts_with (tabKey t) table_prefix)"

definition tabs_ok :: "TabsState \<Rightarrow> bool" where
  "tabs_ok st = (distinct (map tabKey (tabList st)) \<and> map tabIdentifier (tabList st) = map tabKey (tabList st)
     \<and> list_all content_ok (tabList st) \<and> valid_selection st)"

text \<open>
  A session without saved documents: no event changes an identifier, and the dialog that saves a
  schema does not put a key in place that another tab has already.
\<close>

fun event_ok :: "TabsState \<Rightarrow> TabEvent \<Rightarrow> bool" where
  "event_ok st (TabIdentifierChanged i) = False"
| "event_ok st (SchemaSaved (TabReplaced s t)) = (tabKey (saved_schema_tab s t) \<notin> tabKey ` set (tabList st))"
| "event_ok st _ = True"

inductive tabs_reachable ::
  "(WindowTabItemProps list \<Rightarrow> int \<Rightarrow> int \<Rightarrow> WindowTabItemProps list) \<Rightarrow> TabsState \<Rightarrow> bool" for am where
  start: "tabs_reachable am (initial_tabs readOnly)"
| event: "tabs_reachable am st \<Longrightarrow> event_ok st e \<Longrightarrow> tabs_reachable am (tab_step am e st)"

definition permutes_tabs :: "(WindowTabItemProps list \<Rightarrow> int \<Rightarrow> int \<Rightarrow> WindowTabItemProps list) \<Rightarrow> bool" where
  "permutes_tabs am = (\<forall>xs i j. mset (am xs i j) = mset xs)"

lemma identifier_is_key:
  "map tabIdentifier ts = map tabKey ts \<Longrightarrow> t \<in> set ts \<Longrightarrow> tabIdentifier t = tabKey t"
  by (auto simp: list_eq_iff_nth_eq in_set_conv_nth)

lemma identifiers_iff: "map tabIdentifier ts = map tabKey ts \<longleftrightarrow> (\<forall>t \<in> set ts. tabIdentifier t = tabKey t)"
  by simp

lemma tabs_ok_iff:
  "tabs_ok st \<longleftrightarrow> distinct (map tabKey (tabList st))
     \<and> (\<forall>t \<in> set (tabList st). tabIdentifier t = tabKey t \<and> content_ok t) \<and> valid_selection st"
  by (auto simp: tabs_ok_def list_all_iff)

lemma valid_selection_iff:
  "valid_selection st \<longleftrightarrow> tabList st = [] \<or> 0 \<le> selectedTab st \<and> selectedTab st < int (length (tabList st))"
  by (auto simp: valid_selection_def tab_at_def)

lemma request_key_form:
  "request_key g req = request_name req @ (if request_own_key g req = [] then [] else ''-'' @ request_own_key g req)"
  by (cases req) (simp_all add: request_key_def)

lemma content_generated: "content_ok (generate_tab c g req)"
  by (cases req)
     (auto simp: content_ok_def generate_tab_def Let_def request_key_form query_component_def table_tab_key_def
        table_prefix_def js_starts_with_def split: option.splits if_splits)

lemma generated_keys [simp]:
  "tabKey (generate_tab c g req) = request_key g req" "tabIdentifier (generate_tab c g req) = request_key g req"
  by (simp_all add: generate_tab_def Let_def)

lemma content_update [simp]: "content_ok (u\<lparr>tabTitle := a, tabIdentifier := b\<rparr>) = content_ok u"
  by (simp add: content_ok_def split: TabContent.split)

lemma content_saved: "content_ok (saved_schema_tab s t)"
  by (auto simp: content_ok_def saved_schema_tab_def Let_def table_prefix_def js_starts_with_def)

lemma tabs_ok_counter [simp]: "tabs_ok (st\<lparr>queryCounter := n\<rparr>) = tabs_ok st"
  by (simp add: tabs_ok_def valid_selection_def)

lemma open_ok:
  assumes "tabs_ok st" and "content_ok t" and "tabIdentifier t = tabKey t"
  shows "tabs_ok (openTabInternal t st)"
proof (cases "find_index (\<lambda>tb. tabIdentifier tb = tabKey t) (tabList st)")
  case None
  then have "tabKey t \<notin> set (map tabIdentifier (tabList st))" by (auto simp: find_index_None_iff)
  then have "tabKey t \<notin> tabKey ` set (tabList st)" using assms(1) by (simp add: tabs_ok_def)
  with assms None show ?thesis
    by (simp add: tabs_ok_def openTabInternal_def valid_selection_def)
next
  case (Some i)
  with assms find_index_Some [OF Some] show ?thesis
    by (auto simp: tabs_ok_def openTabInternal_def valid_selection_def)
qed

text \<open>Putting a new tab in one place, with a key that no tab has.\<close>

lemma update_ok:
  assumes "tabs_ok st" and "content_ok t" and "tabIdentifier t = tabKey t"
    and "tabKey t \<notin> tabKey ` set (tabList st)"
  shows "tabs_ok (st\<lparr>tabList := (tabList st)[i := t]\<rparr>)"
proof -
  have "distinct ((map tabKey (tabList st))[i := tabKey t])"
    using assms(1,4) by (intro distinct_list_update) (auto simp: tabs_ok_def)
  moreover have "\<forall>u \<in> set ((tabList st)[i := t]). tabIdentifier u = tabKey u \<and> content_ok u"
    using assms(1-3) set_update_subset_insert [of "tabList st" i t] by (auto simp: tabs_ok_iff)
  ultimately show ?thesis
    using assms(1) by (simp add: tabs_ok_iff valid_selection_iff map_update)
qed

lemma map_enumerate_update:
  "map (\<lambda>(k, x). if int k = int i then y else x) (enumerate 0 xs) = xs[i := y]"
  by (simp add: list_eq_iff_nth_eq nth_enumerate_eq nth_list_update)

lemma replace_is_update:
  assumes "find_index (\<lambda>tb. tabIdentifier tb = tabKey t) (tabList st) = None" and "valid_selection st"
  shows "replaceTabInternal t st = st\<lparr>tabList := (tabList st)[nat (selectedTab st) := t]\<rparr>"
proof (cases "tabList st = []")
  case True
  then show ?thesis using assms(1) by (simp add: replaceTabInternal_def enumerate_simps)
next
  case False
  with assms(2) have "int (nat (selectedTab st)) = selectedTab st"
    by (auto simp: valid_selection_def tab_at_def split: if_splits)
  then show ?thesis
    using assms(1) map_enumerate_update [of "nat (selectedTab st)" t "tabList st"]
    by (simp add: replaceTabInternal_def)
qed

lemma replace_ok:
  assumes "tabs_ok st" and "content_ok t" and "tabIdentifier t = tabKey t"
  shows "tabs_ok (replaceTabInternal t st)"
proof (cases "find_index (\<lambda>tb. tabIdentifier tb = tabKey t) (tabList st)")
  case None
  then have "tabKey t \<notin> set (map tabIdentifier (tabList st))" by (auto simp: find_index_None_iff)
  then have "tabKey t \<notin> tabKey ` set (tabList st)" using assms(1) by (simp add: tabs_ok_def)
  with assms None show ?thesis by (simp add: replace_is_update update_ok tabs_ok_def [of st])
next
  case (Some i)
  with assms find_index_Some [OF Some] show ?thesis
    by (auto simp: tabs_ok_def replaceTabInternal_def valid_selection_def)
qed

text \<open>Closing tabs.\<close>

lemma filter_ok:
  assumes "tabs_ok st" and "filter P (tabList st) = [] \<or> 0 \<le> i \<and> i < int (length (filter P (tabList st)))"
  shows "tabs_ok (st\<lparr>tabList := filter P (tabList st), selectedTab := i\<rparr>)"
  using assms by (auto simp: tabs_ok_iff valid_selection_iff distinct_map_filter)

lemma closeStudioTab_ok:
  assumes "tabs_ok st"
  shows "tabs_ok (closeStudioTab keys st)"
proof (cases "tab_at (tabList st) (selectedTab st)")
  case None
  with assms have "tabList st = []" by (simp add: tabs_ok_def valid_selection_def)
  with assms None show ?thesis by (simp add: closeStudioTab_def tabs_ok_iff valid_selection_iff)
next
  case (Some u)
  let ?new = "filter (\<lambda>t. tabIdentifier t \<notin> set keys) (tabList st)"
  let ?i = "js_findIndex (\<lambda>t. tabIdentifier t = tabIdentifier u) ?new"
  have "?new = [] \<or> 0 \<le> (if ?i < 0 then min (selectedTab st) (int (length ?new) - 1) else ?i)
      \<and> (if ?i < 0 then min (selectedTab st) (int (length ?new) - 1) else ?i) < int (length ?new)"
    using Some by (cases rule: index_of_cases [of "\<lambda>t. tabIdentifier t = tabIdentifier u" ?new])
      (auto simp: tab_at_Some_iff)
  from filter_ok [OF assms this] Some show ?thesis by (simp add: closeStudioTab_def Let_def)
qed

text \<open>With unique keys the button of a tab closes that tab only.\<close>

lemma filter_key_nth:
  assumes "distinct (map tabKey ts)" and "i < length ts"
  shows "filter (\<lambda>t. tabKey t \<noteq> tabKey (ts ! i)) ts = take i ts @ drop (Suc i) ts"
proof -
  have split: "ts = take i ts @ ts ! i # drop (Suc i) ts" using assms(2) by (rule id_take_nth_drop)
  have "distinct (map tabKey (take i ts @ ts ! i # drop (Suc i) ts))" using assms(1) split by simp
  then have "tabKey (ts ! i) \<notin> tabKey ` set (take i ts)" "tabKey (ts ! i) \<notin> tabKey ` set (drop (Suc i) ts)"
    by simp_all
  then have "\<forall>t \<in> set (take i ts). tabKey t \<noteq> tabKey (ts ! i)" "\<forall>t \<in> set (drop (Suc i) ts). tabKey t \<noteq> tabKey (ts ! i)"
    by (metis imageI)+
  then have "filter (\<lambda>t. tabKey t \<noteq> tabKey (ts ! i)) (take i ts @ ts ! i # drop (Suc i) ts)
      = take i ts @ drop (Suc i) ts"
    by (simp add: filter_id_conv)
  with split show ?thesis by simp
qed

lemma closeTabAt_eq:
  assumes "tabs_ok st" and "i < length (tabList st)"
  shows "closeTabAt i st = st\<lparr>tabList := take i (tabList st) @ drop (Suc i) (tabList st),
           selectedTab := (if int i \<le> selectedTab st then int (length (tabList st)) - 2 else selectedTab st)\<rparr>"
  using assms filter_key_nth [of "tabList st" i] by (simp add: closeTabAt_def tabs_ok_iff Let_def of_nat_diff)

lemma closeTabAt_ok:
  assumes "tabs_ok st"
  shows "tabs_ok (closeTabAt i st)"
proof (cases "i < length (tabList st)")
  case True
  let ?new = "filter (\<lambda>t. tabKey t \<noteq> tabKey (tabList st ! i)) (tabList st)"
  have len: "length ?new = length (tabList st) - 1"
    using assms True filter_key_nth [of "tabList st" i] by (simp add: tabs_ok_iff)
  have "0 \<le> selectedTab st" using assms True by (auto simp: tabs_ok_iff valid_selection_iff)
  then have "?new = [] \<or> 0 \<le> (if int i \<le> selectedTab st then int (length ?new) - 1 else selectedTab st)
      \<and> (if int i \<le> selectedTab st then int (length ?new) - 1 else selectedTab st) < int (length ?new)"
    using True by (cases "?new") (simp_all add: len, use len in auto)
  from filter_ok [OF assms this] True show ?thesis by (simp add: closeTabAt_def Let_def)
qed (use assms in \<open>simp add: closeTabAt_def\<close>)

lemma drag_ok:
  assumes "tabs_ok st" and "permutes_tabs am"
  shows "tabs_ok (dragTab am active over st)"
proof (cases "over = Some active")
  case False
  let ?new = "am (tabList st) (js_findIndex (\<lambda>tb. tabKey tb = active) (tabList st))
      (js_findIndex (\<lambda>tb. Some (tabKey tb) = over) (tabList st))"
  have perm: "mset ?new = mset (tabList st)" using assms(2) by (simp add: permutes_tabs_def)
  have set_new: "set ?new = set (tabList st)" using perm by (metis set_mset_mset)
  have dist: "distinct (map tabKey ?new)"
    using assms(1) perm by (metis mset_eq_imp_distinct_iff mset_map tabs_ok_def)
  let ?P = "\<lambda>tb. Some (tabKey tb) = map_option tabKey (tab_at (tabList st) (selectedTab st))"
  have "?new = [] \<or> 0 \<le> js_findIndex ?P ?new \<and> js_findIndex ?P ?new < int (length ?new)"
  proof (cases "tab_at (tabList st) (selectedTab st)")
    case None
    then have "tabList st = []" using assms(1) by (simp add: tabs_ok_def valid_selection_def)
    with set_new show ?thesis by simp
  next
    case (Some u)
    then have "u \<in> set ?new" by (auto simp: set_new tab_at_Some_iff)
    with Some show ?thesis by (cases rule: index_of_cases [of ?P ?new]) auto
  qed
  with assms(1) dist set_new False show ?thesis
    by (simp add: dragTab_def Let_def tabs_ok_iff valid_selection_iff)
qed (use assms in \<open>simp add: dragTab_def\<close>)

lemma change_title_ok:
  assumes "tabs_ok st"
  shows "tabs_ok (changeCurrentTab title None st)"
proof (cases "tab_at (tabList st) (selectedTab st)")
  case (Some u)
  define v where "v = u\<lparr>tabTitle := if truthy_str title then the title else tabTitle u, tabIdentifier := tabIdentifier u\<rparr>"
  have u: "nat (selectedTab st) < length (tabList st)" "tabList st ! nat (selectedTab st) = u"
    using Some by (simp_all add: tab_at_Some_iff)
  then have "u \<in> set (tabList st)" by auto
  with assms have v: "tabIdentifier v = tabKey v" "content_ok v" "tabKey v = tabKey u"
    by (simp_all add: v_def tabs_ok_iff)
  have "(map tabKey (tabList st))[nat (selectedTab st) := tabKey v] = map tabKey (tabList st)"
    using u v by (intro list_update_same_conv [THEN iffD2]) simp_all
  moreover have "\<forall>t \<in> set ((tabList st)[nat (selectedTab st) := v]). tabIdentifier t = tabKey t \<and> content_ok t"
    using assms v set_update_subset_insert [of "tabList st" "nat (selectedTab st)" v] unfolding tabs_ok_iff by blast
  ultimately show ?thesis
    using assms Some by (simp add: changeCurrentTab_def tabs_ok_iff valid_selection_iff map_update flip: v_def)
qed (use assms in \<open>simp add: changeCurrentTab_def\<close>)

lemma saved_ok:
  assumes "tabs_ok st" and "event_ok st (SchemaSaved outcome)"
  shows "tabs_ok (after_save outcome st)"
proof (cases outcome)
  case (TabReplaced s t)
  have "tabIdentifier (saved_schema_tab s t) = tabKey (saved_schema_tab s t)"
    by (simp add: saved_schema_tab_def Let_def)
  with assms TabReplaced update_ok [OF assms(1) content_saved] show ?thesis
    by (simp add: replaceCurrentTab_def)
qed (use assms in simp_all)

lemma tab_step_ok:
  assumes "permutes_tabs am" and "tabs_ok st" and "event_ok st e"
  shows "tabs_ok (tab_step am e st)"
proof (cases e)
  case (TabSelected i)
  with assms show ?thesis by (auto simp: selectTabAt_def tabs_ok_iff valid_selection_iff)
next
  case (SchemaSaved out)
  with assms saved_ok show ?thesis by simp
qed (use assms in \<open>simp_all add: open_ok replace_ok content_generated closeStudioTab_ok closeTabAt_ok drag_ok
       change_title_ok\<close>)

lemma initial_ok: "tabs_ok (initial_tabs readOnly)"
  by (simp add: initial_tabs_def tabs_ok_iff valid_selection_iff content_ok_def table_prefix_def
      js_starts_with_def)

lemma tabs_reachable_ok: "permutes_tabs am \<Longrightarrow> tabs_reachable am st \<Longrightarrow> tabs_ok st"
  by (rotate_tac, induction rule: tabs_reachable.induct) (simp_all add: initial_ok tab_step_ok)

section \<open>What holds in every session\<close>

text \<open>
  In every session without saved documents, whatever is opened, replaced, closed, dragged or
  renamed, the keys of the tabs are unique, and the selected index is the index of a tab as long as
  there are tabs; all dragging has to do is to permute.
\<close>

theorem tabs_stay_valid:
  assumes "permutes_tabs am" and "tabs_reachable am st"
  shows "distinct (map tabKey (tabList st))
     \<and> (tabList st = [] \<or> 0 \<le> selectedTab st \<and> selectedTab st < int (length (tabList st)))"
  using tabs_reachable_ok [OF assms] by (simp add: tabs_ok_iff valid_selection_iff)

text \<open>An instance of \<open>arrayMove\<close>: cut one element out and put it in again.\<close>

definition move_one :: "nat \<Rightarrow> nat \<Rightarrow> 'a list \<Rightarrow> 'a list" where
  "move_one f t xs = (let ys = take f xs @ drop (Suc f) xs in take t ys @ xs ! f # drop t ys)"

definition splice_move :: "'a list \<Rightarrow> int \<Rightarrow> int \<Rightarrow> 'a list" where
  "splice_move xs i j =
     (let n = int (length xs); f = nat (if i < 0 then n + i else i)
      in if f < length xs then move_one f (nat (if j < 0 then n + j else j)) xs else xs)"

lemma mset_move_one:
  assumes "f < length xs"
  shows "mset (move_one f t xs) = mset xs"
proof -
  define ys where "ys = take f xs @ drop (Suc f) xs"
  have "mset (move_one f t xs) = add_mset (xs ! f) (mset ys)"
    using mset_append [of "take t ys" "drop t ys"] by (simp add: move_one_def flip: ys_def)
  also have "\<dots> = mset (take f xs @ xs ! f # drop (Suc f) xs)" by (simp add: ys_def)
  also have "\<dots> = mset xs" using id_take_nth_drop [OF assms] by simp
  finally show ?thesis .
qed

lemma splice_permutes: "permutes_tabs splice_move"
  by (simp add: permutes_tabs_def splice_move_def Let_def mset_move_one)

fun run_tabs :: "TabEvent list \<Rightarrow> TabsState \<Rightarrow> TabsState option" where
  "run_tabs [] st = Some st"
| "run_tabs (e # es) st = (if event_ok st e then run_tabs es (tab_step splice_move e st) else None)"

lemma run_tabs_reachable:
  "tabs_reachable splice_move st \<Longrightarrow> run_tabs es st = Some st1 \<Longrightarrow> tabs_reachable splice_move st1"
  by (induction es arbitrary: st) (auto split: if_splits intro: tabs_reachable.event)

definition example_tab_events :: "TabEvent list" where
  "example_tab_events =
     [TabOpened (OpenTable ''main'' ''users'') [], TabOpened (OpenSchema (Some ''main'') None) [],
      SchemaSaved (TabReplaced (Some ''main'') (Some ''t'')), TabOpened (OpenQuery None None) ''u1'',
      TabDragged ''table-main-users'' None, TabTitleChanged ''report'', TabSelected 1, TabCloseClicked 0,
      TabOpened (OpenTable ''main'' ''users'') []]"

definition example_tabs :: TabsState where
  "example_tabs = the (run_tabs example_tab_events (initial_tabs False))"

lemma example_tabs_reachable: "tabs_reachable splice_move example_tabs"
proof -
  have "run_tabs example_tab_events (initial_tabs False) \<noteq> None" by code_simp
  then have "run_tabs example_tab_events (initial_tabs False) = Some example_tabs"
    by (simp add: example_tabs_def)
  from run_tabs_reachable [OF tabs_reachable.start this] show ?thesis .
qed

theorem tabs_stay_valid_witness:
  "distinct (map tabKey (tabList example_tabs))
   \<and> (tabList example_tabs = [] \<or> 0 \<le> selectedTab example_tabs
       \<and> selectedTab example_tabs < int (length (tabList example_tabs)))
   \<and> map tabKey (tabList example_tabs) = [''_schema_t'', ''query-u1'', ''table-main-users'']"
proof (intro conjI)
  show "map tabKey (tabList example_tabs) = [''_schema_t'', ''query-u1'', ''table-main-users'']"
    by code_simp
qed (use tabs_stay_valid [OF splice_permutes example_tabs_reachable] in simp_all)

text \<open>
  A request to open a table shows a tab of a table: it is the table asked for, unless the
  names of schema and table run together to the same text, as for schema \<open>a-b\<close> with table \<open>c\<close>
  and schema \<open>a\<close> with table \<open>b-c\<close>; no other tab changes its place or its content, and asking
  again changes nothing.
\<close>

theorem open_table_shows_it:
  assumes "permutes_tabs am" and "tabs_reachable am st"
    and "st1 = tab_step am (TabOpened (OpenTable s n) g) st"
  shows "\<exists>t s' n'. tab_at (tabList st1) (selectedTab st1) = Some t \<and> tabComponent t = TableDataWindow s' n'
        \<and> (if s' = s then n' = n else s' @ ''-'' @ n' = s @ ''-'' @ n)
        \<and> (tabList st1 = tabList st \<or> tabList st1 = tabList st @ [t] \<and> s' = s)
        \<and> tab_step am (TabOpened (OpenTable s n) g) st1 = st1"
proof -
  let ?k = "table_prefix @ table_tab_key s n"
  let ?t = "generate_tab (queryCounter st) g (OpenTable s n)"
  have ok: "tabs_ok st" by (rule tabs_reachable_ok [OF assms(1,2)])
  have key: "request_key g (OpenTable s n) = ?k"
    by (simp add: request_key_form table_prefix_def table_tab_key_def)
  have again: "tabIdentifier t = ?k \<Longrightarrow> find_index (\<lambda>tb. tabIdentifier tb = ?k) (tabList st2) = Some i \<Longrightarrow>
      selectedTab st2 = int i \<Longrightarrow> tab_step am (TabOpened (OpenTable s n) g) st2 = st2" for st2 i t
    by (simp add: openTabInternal_def key)
  show ?thesis
  proof (cases "find_index (\<lambda>tb. tabIdentifier tb = ?k) (tabList st)")
    case None
    have "find_index P (xs @ [x]) = Some (length xs)" if "find_index P xs = None" "P x" for P :: "WindowTabItemProps \<Rightarrow> bool" and xs x
      using that by (induction xs) (auto split: if_splits)
    from this [OF None, of ?t] have "find_index (\<lambda>tb. tabIdentifier tb = ?k) (tabList st @ [?t]) = Some (length (tabList st))"
      by (simp add: key)
    moreover have st1: "st1 = st\<lparr>selectedTab := int (length (tabList st)), tabList := tabList st @ [?t]\<rparr>"
      using None by (simp add: assms(3) openTabInternal_def key)
    ultimately have "tab_step am (TabOpened (OpenTable s n) g) st1 = st1"
      by (intro again [of ?t]) (simp_all add: key)
    then show ?thesis
      apply (rule_tac x = ?t in exI)
      apply (rule_tac x = s in exI)
      apply (rule_tac x = n in exI)
      apply (simp add: st1 generate_tab_def Let_def)
      done
  next
    case (Some i)
    then have i: "i < length (tabList st)" "tabIdentifier (tabList st ! i) = ?k"
      using find_index_Some by blast+
    then have "tabKey (tabList st ! i) = ?k" "content_ok (tabList st ! i)"
      using ok by (auto simp: tabs_ok_iff)
    then obtain s' n' where c: "tabComponent (tabList st ! i) = TableDataWindow s' n'"
      and k: "table_tab_key s' n' = table_tab_key s n"
      by (auto simp: content_ok_def split: TabContent.splits)
    have st1: "st1 = st\<lparr>selectedTab := int i\<rparr>"
      using Some by (simp add: assms(3) openTabInternal_def key)
    with Some have "tab_step am (TabOpened (OpenTable s n) g) st1 = st1"
      by (intro again [OF i(2)]) simp_all
    moreover have "s' = s \<Longrightarrow> n' = n" using k by (simp add: table_tab_key_def)
    ultimately show ?thesis
      using i(1) c k
      apply (rule_tac x = "tabList st ! i" in exI)
      apply (rule_tac x = s' in exI)
      apply (rule_tac x = n' in exI)
      apply (simp add: st1 table_tab_key_def)
      done
  qed
qed

theorem open_table_shows_it_witness:
  "map_option tabComponent (tab_at (tabList example_tabs) (selectedTab example_tabs))
     = Some (TableDataWindow ''main'' ''users'')
   \<and> (\<exists>t. tab_at (tabList (tab_step splice_move (TabOpened (OpenTable ''main'' ''log'') []) example_tabs))
          (selectedTab (tab_step splice_move (TabOpened (OpenTable ''main'' ''log'') []) example_tabs)) = Some t
        \<and> tabComponent t = TableDataWindow ''main'' ''log'')"
proof (rule conjI)
  show "map_option tabComponent (tab_at (tabList example_tabs) (selectedTab example_tabs))
     = Some (TableDataWindow ''main'' ''users'')" by code_simp
  have new: "length (tabList (tab_step splice_move (TabOpened (OpenTable ''main'' ''log'') []) example_tabs))
      \<noteq> length (tabList example_tabs)" by code_simp
  show "\<exists>t. tab_at (tabList (tab_step splice_move (TabOpened (OpenTable ''main'' ''log'') []) example_tabs))
          (selectedTab (tab_step splice_move (TabOpened (OpenTable ''main'' ''log'') []) example_tabs)) = Some t
        \<and> tabComponent t = TableDataWindow ''main'' ''log''"
    using open_table_shows_it [OF splice_permutes example_tabs_reachable refl, of "''main''" "''log''" "[]"] new
    by (auto split: if_splits)
qed

text \<open>The collision: the second table is never shown.\<close>

lemma open_table_collision:
  "case run_tabs [TabOpened (OpenTable ''a'' ''b-c'') [], TabOpened (OpenTable ''a-b'' ''c'') []] (initial_tabs True) of
     Some st \<Rightarrow> map tabComponent (tabList st) = [TableDataWindow ''a'' ''b-c''] | None \<Rightarrow> False"
  by code_simp

text \<open>
  Closing: the commands that close tabs by their identifiers remove exactly those and keep the
  selected tab selected when it stays; the button of a tab removes exactly that tab, keeps the
  selection when the tab is to the right of the selected one, and otherwise selects the last tab,
  even when the selected tab was not the one closed.
\<close>

theorem closing_tabs:
  assumes "permutes_tabs am" and "tabs_reachable am st"
    and "tab_at (tabList st) (selectedTab st) = Some u" and "i < length (tabList st)"
  shows "tabList (closeStudioTab keys st) = filter (\<lambda>t. tabIdentifier t \<notin> set keys) (tabList st)
     \<and> (if tabIdentifier u \<in> set keys
         then selectedTab (closeStudioTab keys st)
                = min (selectedTab st) (int (length (tabList (closeStudioTab keys st))) - 1)
         else tab_at (tabList (closeStudioTab keys st)) (selectedTab (closeStudioTab keys st)) = Some u)
     \<and> tabList (closeTabAt i st) = take i (tabList st) @ drop (Suc i) (tabList st)
     \<and> (if selectedTab st < int i
         then tab_at (tabList (closeTabAt i st)) (selectedTab (closeTabAt i st)) = Some u
         else selectedTab (closeTabAt i st) = int (length (tabList st)) - 2)"
proof -
  have ok: "tabs_ok st" by (rule tabs_reachable_ok [OF assms(1,2)])
  let ?new = "filter (\<lambda>t. tabIdentifier t \<notin> set keys) (tabList st)"
  have ident: "distinct (map tabIdentifier (tabList st))" using ok by (metis tabs_ok_def)
  have close: "tabList (closeStudioTab keys st) = ?new" by (simp add: closeStudioTab_def Let_def split: option.split)
  have u: "u \<in> set (tabList st)" using assms(3) by (auto simp: tab_at_Some_iff)
  have gone: "js_findIndex (\<lambda>t. tabIdentifier t = tabIdentifier u) ?new = - 1" if "tabIdentifier u \<in> set keys"
  proof -
    have "find_index (\<lambda>t. tabIdentifier t = tabIdentifier u) ?new = None"
      using that by (auto simp: find_index_None_iff)
    then show ?thesis by (simp add: js_findIndex_def)
  qed
  have kept: "tab_at ?new (js_findIndex (\<lambda>t. tabIdentifier t = tabIdentifier u) ?new) = Some u" if "tabIdentifier u \<notin> set keys"
    using index_of_unique [of tabIdentifier ?new u] that u ident by (simp add: distinct_map_filter)
  then have "0 \<le> js_findIndex (\<lambda>t. tabIdentifier t = tabIdentifier u) ?new" if "tabIdentifier u \<notin> set keys"
    using that by (simp add: tab_at_Some_iff)
  with gone kept assms(3) have channel:
    "if tabIdentifier u \<in> set keys
     then selectedTab (closeStudioTab keys st)
            = min (selectedTab st) (int (length (tabList (closeStudioTab keys st))) - 1)
     else tab_at (tabList (closeStudioTab keys st)) (selectedTab (closeStudioTab keys st)) = Some u"
    by (cases "tabIdentifier u \<in> set keys") (simp_all add: closeStudioTab_def Let_def not_less [symmetric])
  have "tab_at (take i (tabList st) @ drop (Suc i) (tabList st)) (selectedTab st) = Some u" if "selectedTab st < int i"
    using assms(3,4) that by (auto simp: tab_at_Some_iff nth_append)
  then have "if selectedTab st < int i
       then tab_at (tabList (closeTabAt i st)) (selectedTab (closeTabAt i st)) = Some u
       else selectedTab (closeTabAt i st) = int (length (tabList st)) - 2"
    by (simp add: closeTabAt_eq [OF ok assms(4)])
  with close channel show ?thesis by (simp only: closeTabAt_eq [OF ok assms(4)]) simp
qed

theorem closing_tabs_witness:
  "map tabKey (tabList (closeTabAt 0 example_tabs)) = [''query-u1'', ''table-main-users'']
   \<and> (\<forall>u. tab_at (tabList example_tabs) (selectedTab example_tabs) = Some u \<longrightarrow>
        tab_at (tabList (closeStudioTab [''query-u1''] example_tabs))
          (selectedTab (closeStudioTab [''query-u1''] example_tabs)) = Some u)"
proof -
  obtain u where u: "tab_at (tabList example_tabs) (selectedTab example_tabs) = Some u"
    and k: "tabIdentifier u = ''table-main-users''"
  proof -
    have "map_option tabIdentifier (tab_at (tabList example_tabs) (selectedTab example_tabs)) = Some ''table-main-users''"
      by code_simp
    then show thesis using that by (auto simp: map_option_eq_Some)
  qed
  have "0 < length (tabList example_tabs)" by code_simp
  from closing_tabs [OF splice_permutes example_tabs_reachable u this, of "[''query-u1'']", THEN conjunct2, THEN conjunct1] k
  have "tab_at (tabList (closeStudioTab [''query-u1''] example_tabs))
          (selectedTab (closeStudioTab [''query-u1''] example_tabs)) = Some u" by simp
  moreover have "map tabKey (tabList (closeTabAt 0 example_tabs)) = [''query-u1'', ''table-main-users'']"
    by code_simp
  ultimately show ?thesis using u by simp
qed

text \<open>
  With saved documents the keys are not unique: after a query is saved its tab is found under the
  identifier of the document only, so that opening the document again adds a second tab with the
  same key, and closing one of them closes both.
\<close>

lemma saved_query_opened_twice:
  "let q = OpenQuery (Some ''q'') (Some \<lparr>sqNamespaceName = None, sqKey = ''d1'', sqSql = []\<rparr>);
       st = fold (tab_step splice_move)
              [TabOpened q [], TabIdentifierChanged ''saved-query-d1'', TabOpened q []] (initial_tabs True)
   in map tabKey (tabList st) = [''query-d1'', ''query-d1''] \<and> tabList (closeTabAt 0 st) = []"
  by code_simp

text \<open>Creating tables of the same name in two schemas gives two tabs with the same key.\<close>

lemma saved_schemas_collide:
  "let st = fold (tab_step splice_move)
         [TabOpened (OpenSchema (Some ''a'') None) [], SchemaSaved (TabReplaced (Some ''a'') (Some ''t'')),
          TabOpened (OpenSchema (Some ''b'') None) [], SchemaSaved (TabReplaced (Some ''b'') (Some ''t''))]
         (initial_tabs True)
   in map tabKey (tabList st) = [''_schema_t'', ''_schema_t''] \<and> tabList (closeTabAt 0 st) = []"
  by code_simp

end
