(* ===== verification/Explain.thy ===== *)
theory Explain
  imports Complex_Main DatabaseTypes
begin

text \<open>
  The diagram of an explained query:
  \<open>components/gui/query-explanation-diagram/build-query-explanation-flow.ts\<close> and
  \<open>components/gui/query-explanation.tsx\<close>.  The layout is done by the package dagre: the module keeps
  one graph object for all diagrams, so the state is the list of all calls made on it, and the
  position it gives to a node is a function of that list.  The number format of the browser
  (\<open>formatCost\<close>) is a parameter.  The constant fields of nodes and edges (marker, style, animation)
  are left out.
\<close>

section \<open>Data\<close>

record ExplanationRow =
  erId :: int
  erParent :: int
  erDetail :: string

record ExplanationMysqlTable =
  etId :: string
  etTableName :: string
  etQueryCost :: jsval
  etPrefixCost :: jsval
  etRowsProduced :: string
  etAccessType :: "string option"
  etKey :: "string option"
  etLable :: "string option"

record ExplanationMysqlGroupOperation =
  goNestedLoop :: "ExplanationMysqlTable list option"
  goTable :: "ExplanationMysqlTable option"

record ExplanationMysqlOrderingOperation =
  ooNestedLoop :: "ExplanationMysqlTable list option"
  ooTable :: "ExplanationMysqlTable option"
  ooGrouping :: "ExplanationMysqlGroupOperation option"

record ExplanationBlockInfo =
  biSelectId :: int
  biId :: string
  biLabel :: "string option"
  biOrdering :: "ExplanationMysqlOrderingOperation option"
  biGrouping :: "ExplanationMysqlGroupOperation option"
  biTable :: "ExplanationMysqlTable option"
  biNestedLoop :: "ExplanationMysqlTable list option"

text \<open>The object \<open>{ query_block }\<close>; the second argument is \<open>union_result.query_specifications\<close>.\<close>

datatype ExplanationMysql = QueryBlock ExplanationBlockInfo "ExplanationMysql list option"

section \<open>Details of SQLite\<close>

definition is_word_char :: "char \<Rightarrow> bool" where
  "is_word_char c = (let n = of_char c :: nat in
     (48 \<le> n \<and> n \<le> 57) \<or> (65 \<le> n \<and> n \<le> 90) \<or> n = 95 \<or> (97 \<le> n \<and> n \<le> 122))"

text \<open>\<open>s.match(/P (\w+)/)?.[1]\<close> for a literal \<open>P\<close>: the leftmost match.\<close>

fun match_word_after :: "string \<Rightarrow> string \<Rightarrow> string option" where
  "match_word_after p [] = None"
| "match_word_after p (c # s) =
     (let rest = drop (length p) (c # s) in
      if js_starts_with (c # s) p \<and> takeWhile is_word_char rest \<noteq> []
      then Some (takeWhile is_word_char rest)
      else match_word_after p s)"

text \<open>\<open>s.match(/USING (\w+) (\w+)/)?.[2]\<close>.\<close>

fun match_using :: "string \<Rightarrow> string option" where
  "match_using [] = None"
| "match_using (c # s) =
     (let r1 = drop 6 (c # s); r2 = dropWhile is_word_char r1; w2 = takeWhile is_word_char (drop 1 r2) in
      if js_starts_with (c # s) ''USING '' \<and> takeWhile is_word_char r1 \<noteq> [] \<and> js_starts_with r2 '' '' \<and> w2 \<noteq> []
      then Some w2
      else match_using s)"

text \<open>
  \<open>s.match(/\((.+)\)/)?.[1]\<close>: from the leftmost bracket that a closing one follows on the same
  line, with something between, up to the last such closing one.
\<close>

definition before_last_close :: "string \<Rightarrow> string option" where
  "before_last_close s =
     (let line = takeWhile (\<lambda>c. c \<noteq> newline \<and> c \<noteq> carriage_return) s;
          upto = rev (drop 1 (dropWhile (\<lambda>c. c \<noteq> CHR '')'') (rev line)))
      in if CHR '')'' \<in> set line \<and> upto \<noteq> [] then Some upto else None)"

fun match_brackets :: "string \<Rightarrow> string option" where
  "match_brackets [] = None"
| "match_brackets (c # s) =
     (if c = CHR ''('' \<and> before_last_close s \<noteq> None then before_last_close s else match_brackets s)"

record ParsedDetail =
  pdTable :: "string option"
  pdType :: "string option"
  pdExtra :: "string option"
  pdKey :: "string option"

definition parseDetailLiteToMysql :: "string \<Rightarrow> ParsedDetail" where
  "parseDetailLiteToMysql detail =
     (if js_includes detail ''SCAN''
      then \<lparr>pdTable = match_word_after ''SCAN '' detail, pdType = Some ''ALL'', pdExtra = None, pdKey = None\<rparr>
      else if js_includes detail ''SEARCH''
      then \<lparr>pdTable = match_word_after ''SEARCH '' detail, pdType = Some ''range'',
            pdExtra = match_brackets detail, pdKey = match_using detail\<rparr>
      else if js_includes detail ''USING INDEX''
      then \<lparr>pdTable = None, pdType = None, pdExtra = Some ''Using index'', pdKey = None\<rparr>
      else \<lparr>pdTable = None, pdType = None, pdExtra = None, pdKey = None\<rparr>)"

section \<open>From SQLite rows\<close>

definition zero_cost :: jsval where
  "zero_cost = Num (Dec 0 0)"

definition row_table :: "ExplanationRow \<Rightarrow> ExplanationMysqlTable option" where
  "row_table row =
     (let parsed = parseDetailLiteToMysql (erDetail row) in
      map_option (\<lambda>t.
        \<lparr>etId = (if erId row = 0 then [] else int_str (erId row)), etTableName = t,
         etQueryCost = zero_cost, etPrefixCost = zero_cost, etRowsProduced = ''0'',
         etAccessType = pdType parsed, etKey = pdKey parsed, etLable = pdExtra parsed\<rparr>)
        (pdTable parsed))"

definition have_union :: "ExplanationRow list \<Rightarrow> bool" where
  "have_union rows = list_ex (\<lambda>row. js_includes (erDetail row) ''UNION'') rows"

definition query_blocks :: "ExplanationRow list \<Rightarrow> ExplanationRow list" where
  "query_blocks rows =
     (let main = List.find (\<lambda>r. erParent r = 0) rows
      in filter (\<lambda>r. Some (erParent r) = map_option erId main) rows)"

definition union_block :: "ExplanationRow \<Rightarrow> ExplanationMysql \<Rightarrow> ExplanationMysql" where
  "union_block block convert = (case convert of QueryBlock info _ \<Rightarrow>
     QueryBlock \<lparr>biSelectId = erId block, biId = int_str (erId block), biLabel = Some (erDetail block),
       biOrdering = None, biGrouping = None, biTable = biTable info, biNestedLoop = biNestedLoop info\<rparr> None)"

definition info_block :: "ExplanationMysqlTable option \<Rightarrow> ExplanationMysqlTable list option \<Rightarrow> ExplanationBlockInfo" where
  "info_block table loop = \<lparr>biSelectId = 1, biId = ''query_info'', biLabel = None, biOrdering = None,
     biGrouping = None, biTable = table, biNestedLoop = loop\<rparr>"

text \<open>
  The conversion calls itself on the rows of every block of a union.  It has no other end than
  that the rows become fewer, so the calls are counted by fuel; \<open>None\<close> is a stack overflow.
\<close>

fun convertSQLiteRowToMySQL :: "nat \<Rightarrow> ExplanationRow list \<Rightarrow> ExplanationMysql option" where
  "convertSQLiteRowToMySQL 0 rows = None"
| "convertSQLiteRowToMySQL (Suc n) rows =
     (let tables = List.map_filter row_table rows in
      if have_union rows
      then map_option (\<lambda>specs. QueryBlock (info_block None None) (Some specs))
             (those (map (\<lambda>block. map_option (union_block block)
                (convertSQLiteRowToMySQL n (filter (\<lambda>r. erParent r = erId block) rows))) (query_blocks rows)))
      else Some (QueryBlock (info_block (if length tables = 1 then Some (hd tables) else None)
                                        (if 1 < length tables then Some tables else None)) None))"

section \<open>Nodes and edges\<close>

datatype NodeData =
    BlockData ExplanationMysql
  | BlockDataWithoutCost ExplanationMysql
  | OrderingData ExplanationMysqlOrderingOperation
  | GroupData "ExplanationMysqlGroupOperation option"
  | UnionData
  | TableData ExplanationMysqlTable
  | LoopData jsval string string

datatype NodeType = QUERY_BLOCK | NESTED_LOOP | TABLE | ORDERING_OPERATION | GROUP_OPERATION | UNION_RESULT

record FlowNode =
  fnId :: string
  fnData :: NodeData
  fnType :: NodeType
  fnX :: rat
  fnY :: rat
  fnWidth :: "nat option"
  fnHeight :: "nat option"

record FlowEdge =
  feId :: string
  feTarget :: string
  feSource :: string
  feTargetHandle :: string
  feSourceHandle :: string
  feLabel :: string

definition flow_node :: "string \<Rightarrow> NodeData \<Rightarrow> NodeType \<Rightarrow> nat option \<Rightarrow> nat option \<Rightarrow> FlowNode" where
  "flow_node i d t w h = \<lparr>fnId = i, fnData = d, fnType = t, fnX = 0, fnY = 0, fnWidth = w, fnHeight = h\<rparr>"

definition flow_edge :: "string \<Rightarrow> string \<Rightarrow> string \<Rightarrow> FlowEdge" where
  "flow_edge i target source = \<lparr>feId = i, feTarget = target, feSource = source, feTargetHandle = target,
     feSourceHandle = source, feLabel = []\<rparr>"

text \<open>Calls on the graph of dagre, and the layout that comes of them.\<close>

datatype DagreCall = SetGraph string | SetNode string nat nat | SetEdge string string | Layout

type_synonym dagre = "DagreCall list \<Rightarrow> string \<Rightarrow> rat \<times> rat"

definition nodeWidth :: nat where
  "nodeWidth = 172"

definition nodeHeight :: nat where
  "nodeHeight = 36"

text \<open>\<open>v || d\<close> for a number that may be missing.\<close>

definition size_or :: "nat option \<Rightarrow> nat \<Rightarrow> nat" where
  "size_or v d = (case v of None \<Rightarrow> d | Some n \<Rightarrow> if n = 0 then d else n)"

definition layout_calls :: "FlowNode list \<Rightarrow> FlowEdge list \<Rightarrow> string \<Rightarrow> DagreCall list" where
  "layout_calls nodes edges direction =
     SetGraph direction
     # map (\<lambda>n. SetNode (fnId n) (size_or (fnWidth n) nodeWidth) (size_or (fnHeight n) nodeHeight)) nodes
     @ map (\<lambda>e. SetEdge (feSource e) (feTarget e)) edges @ [Layout]"

definition getLayoutedExplanationElements ::
  "dagre \<Rightarrow> FlowNode list \<Rightarrow> FlowEdge list \<Rightarrow> string \<Rightarrow> DagreCall list \<Rightarrow>
   FlowNode list \<times> FlowEdge list \<times> DagreCall list" where
  "getLayoutedExplanationElements dagreNode nodes edges direction calls =
     (let calls1 = calls @ layout_calls nodes edges direction;
          newNodes = map (\<lambda>n. let p = dagreNode calls1 (fnId n) in
             n\<lparr>fnX := fst p - of_nat (size_or (fnWidth n) nodeWidth) / 2,
               fnY := snd p - of_nat (size_or (fnHeight n) nodeHeight) / 2\<rparr>) nodes
      in (newNodes, edges, calls1))"

section \<open>The flow of a block\<close>

text \<open>The identifier of a block inside a union is \<open>id\<close>; zero counts as none.\<close>

definition id_truthy :: "int option \<Rightarrow> bool" where
  "id_truthy i = (case i of None \<Rightarrow> False | Some n \<Rightarrow> n \<noteq> 0)"

definition id_str :: "int option \<Rightarrow> string" where
  "id_str i = (case i of None \<Rightarrow> ''undefined'' | Some n \<Rightarrow> int_str n)"

definition block_name :: "int option \<Rightarrow> string" where
  "block_name i = ''query_block'' @ (if id_truthy i then ''-'' @ id_str i else [])"

definition block_nodes :: "int option \<Rightarrow> ExplanationMysql \<Rightarrow> FlowNode list" where
  "block_nodes i item = [flow_node (block_name i) (BlockData item) QUERY_BLOCK None None]"

definition block_edges :: "int option \<Rightarrow> FlowEdge list" where
  "block_edges i = (if id_truthy i
     then [flow_edge (''union_result-'' @ block_name i) ''union_result'' (''query_block-'' @ id_str i)] else [])"

definition group_operation :: "ExplanationBlockInfo \<Rightarrow> ExplanationMysqlGroupOperation option" where
  "group_operation info = (case biGrouping info of Some g \<Rightarrow> Some g
     | None \<Rightarrow> Option.bind (biOrdering info) ooGrouping)"

text \<open>
  What the operations of a block contribute: the node that the tables hang on, the loops and the
  table to show, and the nodes and edges of the operations.
\<close>

record Operations =
  opKey :: string
  opLoops :: "ExplanationMysqlTable list"
  opTable :: "ExplanationMysqlTable option"
  opNodes :: "FlowNode list"
  opEdges :: "FlowEdge list"

definition loops_or_empty :: "ExplanationMysqlTable list option \<Rightarrow> ExplanationMysqlTable list" where
  "loops_or_empty l = (case l of None \<Rightarrow> [] | Some ts \<Rightarrow> ts)"

definition operation_node :: "string \<Rightarrow> NodeData \<Rightarrow> NodeType \<Rightarrow> FlowNode" where
  "operation_node i d t = flow_node i d t (Some 100) None"

definition ordered_group :: "int option \<Rightarrow> ExplanationMysqlOrderingOperation \<Rightarrow> Operations" where
  "ordered_group i oo =
     \<lparr>opKey = ''group_operation'',
      opLoops = loops_or_empty (Option.bind (ooGrouping oo) goNestedLoop),
      opTable = Option.bind (ooGrouping oo) goTable,
      opNodes = [operation_node ''ordering_operation'' (OrderingData oo) ORDERING_OPERATION,
                 operation_node ''group_operation'' (GroupData (ooGrouping oo)) GROUP_OPERATION],
      opEdges = [flow_edge (block_name i @ ''-ordering_operation'') ''query_block'' ''ordering_operation'',
                 flow_edge ''ordering_operation-group_operation'' ''ordering_operation'' ''group_operation'']\<rparr>"

definition ordered_only :: "int option \<Rightarrow> ExplanationMysqlOrderingOperation \<Rightarrow> Operations" where
  "ordered_only i oo =
     \<lparr>opKey = ''ordering_operation'', opLoops = loops_or_empty (ooNestedLoop oo), opTable = ooTable oo,
      opNodes = [operation_node ''ordering_operation'' (OrderingData oo) ORDERING_OPERATION],
      opEdges = [flow_edge (block_name i @ ''-ordering_operation'') ''query_block'' ''ordering_operation'']\<rparr>"

definition grouped_only :: "int option \<Rightarrow> ExplanationMysqlGroupOperation option \<Rightarrow> Operations" where
  "grouped_only i go =
     \<lparr>opKey = ''group_operation'', opLoops = loops_or_empty (Option.bind go goNestedLoop),
      opTable = Option.bind go goTable,
      opNodes = [operation_node ''group_operation'' (GroupData go) GROUP_OPERATION],
      opEdges = [flow_edge (block_name i @ ''-group_operation'') ''query_block'' ''group_operation'']\<rparr>"

definition operations :: "int option \<Rightarrow> ExplanationBlockInfo \<Rightarrow> Operations" where
  "operations i info = (case (biOrdering info, group_operation info) of
       (Some oo, Some g) \<Rightarrow> ordered_group i oo
     | (Some oo, None) \<Rightarrow> ordered_only i oo
     | (None, Some g) \<Rightarrow> grouped_only i (biGrouping info)
     | (None, None) \<Rightarrow> \<lparr>opKey = block_name i, opLoops = loops_or_empty (biNestedLoop info),
                        opTable = biTable info, opNodes = [], opEdges = []\<rparr>)"

definition table_node_id :: "int option \<Rightarrow> ExplanationMysqlTable \<Rightarrow> string" where
  "table_node_id i table = etTableName table @ id_str i"

definition loop_name :: "int \<Rightarrow> string" where
  "loop_name k = ''nested_loop_'' @ int_str k"

definition single_table_node :: "int option \<Rightarrow> ExplanationMysqlTable \<Rightarrow> FlowNode" where
  "single_table_node i table = flow_node (table_node_id i table) (TableData table) TABLE None None"

definition single_table_edge :: "int option \<Rightarrow> string \<Rightarrow> ExplanationMysqlTable \<Rightarrow> FlowEdge" where
  "single_table_edge i key table =
     (flow_edge (key @ ''-'' @ table_node_id i table) key (table_node_id i table))\<lparr>feSourceHandle := ''right''\<rparr>"

definition loop_node :: "nat \<times> ExplanationMysqlTable \<Rightarrow> FlowNode" where
  "loop_node p = (case p of (k, value) \<Rightarrow>
     flow_node (loop_name (int k))
       (LoopData (etPrefixCost value) (loop_name (int k) @ ''-'' @ etTableName value) (etRowsProduced value))
       NESTED_LOOP (Some 100) (Some 50))"

definition loop_edge :: "(jsnum \<Rightarrow> string) \<Rightarrow> string \<Rightarrow> nat \<times> ExplanationMysqlTable \<Rightarrow> FlowEdge" where
  "loop_edge formatCost key p = (case p of (k, value) \<Rightarrow>
     \<lparr>feId = (if k = 0 then key @ ''-nested_loop_0'' else loop_name (int k - 1) @ ''-'' @ loop_name (int k)),
      feTarget = (if k = 0 then key else loop_name (int k - 1)),
      feSource = loop_name (int k),
      feTargetHandle = (if k = 0 then key else ''left''),
      feSourceHandle = loop_name (int k),
      feLabel = (if etRowsProduced value = ''0'' then []
                 else formatCost (js_Number (etRowsProduced value)) @ '' rows'')\<rparr>)"

text \<open>The tables of the loops, placed below their loops; the last one hangs on the loop before.\<close>

definition loop_key :: "nat \<Rightarrow> nat \<Rightarrow> int" where
  "loop_key n k = (if int k = int n - 1 then int k - 1 else int k)"

definition loop_table_node :: "int option \<Rightarrow> FlowNode list \<Rightarrow> nat \<times> ExplanationMysqlTable \<Rightarrow> FlowNode" where
  "loop_table_node i layout p = (case p of (k, value) \<Rightarrow>
     (let nested = List.find (\<lambda>f. fnId f = loop_name (int k)) layout;
          x = (case nested of None \<Rightarrow> 0 | Some f \<Rightarrow> fnX f);
          y = (case nested of None \<Rightarrow> 0 | Some f \<Rightarrow> fnY f + of_nat (size_or (fnHeight f) 0))
      in \<lparr>fnId = table_node_id i value, fnData = TableData value, fnType = TABLE,
          fnX = x + 50, fnY = y + 100, fnWidth = None, fnHeight = None\<rparr>))"

definition loop_table_edge :: "int option \<Rightarrow> nat \<Rightarrow> nat \<times> ExplanationMysqlTable \<Rightarrow> FlowEdge" where
  "loop_table_edge i n p = (case p of (k, value) \<Rightarrow>
     \<lparr>feId = loop_name (loop_key n k) @ ''-'' @ table_node_id i value,
      feTarget = loop_name (loop_key n k), feSource = table_node_id i value,
      feTargetHandle = (if int k = int n - 1 \<or> id_truthy i then ''left'' else ''bottom''),
      feSourceHandle = (if id_truthy i then ''right'' else table_node_id i value),
      feLabel = (if truthy_str (etLable value) then the (etLable value) else [])\<rparr>)"

text \<open>The part of the flow below the operations.\<close>

definition tables_flow ::
  "dagre \<Rightarrow> (jsnum \<Rightarrow> string) \<Rightarrow> int option \<Rightarrow> string \<Rightarrow> ExplanationMysqlTable option \<Rightarrow>
   ExplanationMysqlTable list \<Rightarrow> FlowNode list \<Rightarrow> FlowEdge list \<Rightarrow> DagreCall list \<Rightarrow>
   FlowNode list \<times> FlowEdge list \<times> DagreCall list" where
  "tables_flow dagreNode formatCost i key table loops nodes edges calls =
     (case table of
        Some t \<Rightarrow> getLayoutedExplanationElements dagreNode (nodes @ [single_table_node i t])
                    (edges @ [single_table_edge i key t]) ''LR'' calls
      | None \<Rightarrow>
         (let reversed = enumerate 0 (rev loops); n = length loops in
          if n = 0 then ([], [], calls)
          else (case getLayoutedExplanationElements dagreNode (nodes @ map loop_node reversed)
                       (edges @ map (loop_edge formatCost key) reversed) ''LR'' calls of
                  (layout, layoutEdges, calls1) \<Rightarrow>
                    (butlast layout @ map (loop_table_node i layout) reversed,
                     layoutEdges @ map (loop_table_edge i n) reversed, calls1))))"

definition union_nodes :: "ExplanationMysql \<Rightarrow> FlowNode list" where
  "union_nodes item =
     [(flow_node ''query_block'' (BlockDataWithoutCost item) QUERY_BLOCK None None)\<lparr>fnX := 300, fnY := -100\<rparr>,
      (flow_node ''union_result'' UnionData UNION_RESULT None None)\<lparr>fnX := 150, fnY := -100\<rparr>]"

definition union_edges :: "FlowEdge list" where
  "union_edges = [flow_edge ''query_block-union_result'' ''query_block'' ''union_result'']"

definition select_id :: "ExplanationMysql \<Rightarrow> int" where
  "select_id item = (case item of QueryBlock info _ \<Rightarrow> biSelectId info)"

function (sequential) buildQueryExplanationFlow ::
  "dagre \<Rightarrow> (jsnum \<Rightarrow> string) \<Rightarrow> int option \<Rightarrow> ExplanationMysql \<Rightarrow> DagreCall list \<Rightarrow>
   FlowNode list \<times> FlowEdge list \<times> DagreCall list"
and union_flows ::
  "dagre \<Rightarrow> (jsnum \<Rightarrow> string) \<Rightarrow> ExplanationMysql list \<Rightarrow> DagreCall list \<Rightarrow>
   FlowNode list \<times> FlowEdge list \<times> DagreCall list" where
  "buildQueryExplanationFlow dagreNode formatCost i (QueryBlock info union_result) calls =
     (let item = QueryBlock info union_result; ops = operations i info;
          nodes = block_nodes i item @ opNodes ops; edges = block_edges i @ opEdges ops in
      case union_result of
        Some specs \<Rightarrow>
          (case union_flows dagreNode formatCost specs calls of (unodes, uedges, calls1) \<Rightarrow>
             getLayoutedExplanationElements dagreNode (nodes @ union_nodes item @ unodes)
               (edges @ union_edges @ uedges) ''LR'' calls1)
      | None \<Rightarrow> tables_flow dagreNode formatCost i (opKey ops) (opTable ops) (opLoops ops) nodes edges calls)"
| "union_flows dagreNode formatCost [] calls = ([], [], calls)"
| "union_flows dagreNode formatCost (u # rest) calls =
     (case buildQueryExplanationFlow dagreNode formatCost (Some (select_id u)) u calls of
        (n1, e1, calls1) \<Rightarrow>
          (case union_flows dagreNode formatCost rest calls1 of
             (n2, e2, calls2) \<Rightarrow> (n1 @ n2, e1 @ e2, calls2)))"
  by pat_completeness auto
termination
  by (relation "measure (\<lambda>x. case x of Inl (_, _, _, item, _) \<Rightarrow> size item | Inr (_, _, items, _) \<Rightarrow> size_list size items)")
     auto

section \<open>Recognising an explanation, and its tree\<close>

definition isExplainQueryPlan :: "string \<Rightarrow> SupportedDialect \<Rightarrow> bool" where
  "isExplainQueryPlan sql d =
     (d \<in> set [Sqlite, Mysql]
      \<and> (js_starts_with (js_lower sql) ''explain query plan''
         \<or> js_starts_with (js_lower sql) ''explain format=json''
         \<or> js_starts_with (js_lower sql) ''explain (format json)''))"

text \<open>
  The rows with their children share the objects of the map: a row is given by its identifier, a
  tree by the identifiers of the roots and of the children of every row.
\<close>

record ExplanationForest =
  efRoots :: "int list"
  efChildren :: "(int \<times> int list) list"

fun attach_rows :: "ExplanationRow list \<Rightarrow> ExplanationForest \<Rightarrow> ExplanationForest result" where
  "attach_rows [] f = Inr f"
| "attach_rows (node # rest) f =
     (if erParent node = 0 then attach_rows rest (f\<lparr>efRoots := efRoots f @ [erId node]\<rparr>)
      else (case map_of (efChildren f) (erParent node) of
              None \<Rightarrow> Inl (TypeError ''Cannot read properties of undefined (reading 'children')'')
            | Some cs \<Rightarrow> attach_rows rest
                (f\<lparr>efChildren := AList.update (erParent node) (cs @ [erId node]) (efChildren f)\<rparr>)))"

definition buildQueryExplanationTree :: "ExplanationRow list \<Rightarrow> ExplanationForest result" where
  "buildQueryExplanationTree nodes =
     attach_rows nodes \<lparr>efRoots = [], efChildren = fold (\<lambda>n m. AList.update (erId n) [] m) nodes []\<rparr>"

end
