(* ===== verification/ExplainFacts.thy ===== *)
theory ExplainFacts
  imports Explain
begin

text \<open>
  Facts about the diagram of an explained query: the conversion of SQLite rows ends, details read
  back, which tables the diagram shows, and which of its edges lead to nodes.
\<close>

section \<open>The conversion ends\<close>

lemma those_Some: "(\<And>x. x \<in> set xs \<Longrightarrow> \<exists>y. x = Some y) \<Longrightarrow> \<exists>ys. those xs = Some ys"
proof (induction xs)
  case (Cons x xs)
  then obtain y ys where "x = Some y" "those xs = Some ys" by (metis list.set_intros)
  then show ?case by simp
qed simp

lemma length_filter_lt: "x \<in> set xs \<Longrightarrow> \<not> P x \<Longrightarrow> length (filter P xs) < length xs"
  by (induction xs) (auto simp: less_Suc_eq_le)

definition no_self_parent :: "ExplanationRow list \<Rightarrow> bool" where
  "no_self_parent rows = list_all (\<lambda>r. erParent r \<noteq> erId r) rows"

lemma convert_enough_fuel:
  "no_self_parent rows \<Longrightarrow> length rows < n \<Longrightarrow> \<exists>b. convertSQLiteRowToMySQL n rows = Some b"
proof (induction n arbitrary: rows)
  case (Suc n)
  have "\<exists>y. map_option (union_block block)
      (convertSQLiteRowToMySQL n (filter (\<lambda>r. erParent r = erId block) rows)) = Some y"
    if "block \<in> set (query_blocks rows)" for block
  proof -
    have block: "block \<in> set rows" using that by (auto simp: query_blocks_def Let_def)
    with Suc.prems have "length (filter (\<lambda>r. erParent r = erId block) rows) < length rows"
      by (intro length_filter_lt) (auto simp: no_self_parent_def list_all_iff)
    moreover have "no_self_parent (filter (\<lambda>r. erParent r = erId block) rows)"
      using Suc.prems by (auto simp: no_self_parent_def list_all_iff)
    ultimately show ?thesis using Suc by fastforce
  qed
  then have "\<exists>ys. those (map (\<lambda>block. map_option (union_block block)
      (convertSQLiteRowToMySQL n (filter (\<lambda>r. erParent r = erId block) rows))) (query_blocks rows)) = Some ys"
    by (intro those_Some) auto
  then show ?case by (auto simp: Let_def)
qed simp

text \<open>
  The conversion of the rows of \<open>EXPLAIN QUERY PLAN\<close> returns whenever no row is its own
  parent, with as many nested calls as there are rows; a row of a union that is its own parent makes
  it call itself without end.
\<close>

theorem convert_returns:
  assumes "list_all (\<lambda>r. erParent r \<noteq> erId r) rows"
  shows "(\<exists>b. convertSQLiteRowToMySQL (Suc (length rows)) rows = Some b)
     \<and> (\<forall>n d. js_includes d ''UNION'' \<longrightarrow>
           convertSQLiteRowToMySQL n [\<lparr>erId = 0, erParent = 0, erDetail = d\<rparr>] = None)"
proof -
  have "convertSQLiteRowToMySQL n [\<lparr>erId = 0, erParent = 0, erDetail = d\<rparr>] = None"
    if "js_includes d ''UNION''" for n d
    using that by (induction n) (simp_all add: Let_def have_union_def query_blocks_def)
  then show ?thesis using convert_enough_fuel [of rows "Suc (length rows)"] assms by (simp add: no_self_parent_def)
qed

definition example_union_rows :: "ExplanationRow list" where
  "example_union_rows =
     [\<lparr>erId = 1, erParent = 0, erDetail = ''COMPOUND QUERY''\<rparr>,
      \<lparr>erId = 2, erParent = 1, erDetail = ''LEFT-MOST SUBQUERY''\<rparr>,
      \<lparr>erId = 5, erParent = 2, erDetail = ''SCAN users''\<rparr>,
      \<lparr>erId = 8, erParent = 2, erDetail = ''SEARCH log USING INDEX log_user (user=?)''\<rparr>,
      \<lparr>erId = 20, erParent = 1, erDetail = ''UNION ALL''\<rparr>,
      \<lparr>erId = 23, erParent = 20, erDetail = ''SCAN guests''\<rparr>]"

theorem convert_returns_witness:
  "\<exists>b. convertSQLiteRowToMySQL 7 example_union_rows = Some b"
proof -
  have "list_all (\<lambda>r. erParent r \<noteq> erId r) example_union_rows" by code_simp
  moreover have "Suc (length example_union_rows) = 7" by code_simp
  ultimately show ?thesis using convert_returns [of example_union_rows] by simp
qed

section \<open>Details read back\<close>

definition plain_name :: "string \<Rightarrow> bool" where
  "plain_name s = (s \<noteq> [] \<and> list_all is_word_char s)"

definition search_detail :: "string \<Rightarrow> string \<Rightarrow> string \<Rightarrow> string" where
  "search_detail table using_what condition =
     ''SEARCH '' @ table @ '' USING '' @ using_what @ '' ('' @ condition @ '')''"

lemma takeWhile_word:
  "list_all P w \<Longrightarrow> \<not> P c \<Longrightarrow> takeWhile P (w @ c # s) = w \<and> dropWhile P (w @ c # s) = c # s"
  by (induction w) auto

lemma not_word_chars [simp]:
  "\<not> is_word_char CHR '' ''" "\<not> is_word_char CHR ''(''" "\<not> is_word_char CHR '')''"
  by (simp_all add: is_word_char_def)

lemma match_using_skip:
  "\<not> js_starts_with (c # s) ''USING '' \<Longrightarrow> match_using (c # s) = match_using s"
  by (simp only: match_using.simps Let_def simp_thms if_False)

declare match_using.simps [simp del]

lemma js_ends_with_iff: "js_ends_with s p \<longleftrightarrow> (\<exists>u. s = u @ p)"
  by (auto simp: js_ends_with_def) (metis append_take_drop_id)

lemma starts_with_word:
  assumes "list_all is_word_char w"
  shows "js_starts_with (w @ CHR '' '' # s) ''USING '' \<longleftrightarrow> w = ''USING''"
proof
  assume "js_starts_with (w @ CHR '' '' # s) ''USING ''"
  then obtain t where "w @ CHR '' '' # s = ''USING'' @ CHR '' '' # t" by (auto simp: js_starts_with_iff)
  then have "takeWhile is_word_char (w @ CHR '' '' # s) = takeWhile is_word_char (''USING'' @ CHR '' '' # t)"
    by simp
  moreover have "list_all is_word_char ''USING''" by code_simp
  ultimately show "w = ''USING''" using assms takeWhile_word not_word_chars(1) by metis
qed simp

text \<open>Nothing before the key word matches: a word ends with it only when it says so.\<close>

lemma match_using_word:
  "list_all is_word_char w \<Longrightarrow> \<not> js_ends_with w ''USING'' \<Longrightarrow>
     match_using (w @ CHR '' '' # s) = match_using s"
proof (induction w)
  case Nil
  then show ?case by (simp add: match_using_skip)
next
  case (Cons c w)
  have "\<not> js_starts_with (c # (w @ CHR '' '' # s)) ''USING ''"
    using starts_with_word [OF Cons.prems(1)] Cons.prems(2) by (auto simp: js_ends_with_def)
  moreover have "\<not> js_ends_with w ''USING''" using Cons.prems(2)
    by (metis append_Cons js_ends_with_iff)
  ultimately show ?case using Cons match_using_skip by simp
qed

lemma match_using_here:
  assumes "plain_name u" and "plain_name v" and "\<not> is_word_char c"
  shows "match_using (''USING '' @ u @ CHR '' '' # v @ c # s) = Some v"
  using assms takeWhile_word [of is_word_char u "CHR '' ''"] takeWhile_word [of is_word_char v c]
  by (simp add: match_using.simps plain_name_def Let_def)

lemma match_brackets_skip: "CHR ''('' \<notin> set w \<Longrightarrow> match_brackets (w @ s) = match_brackets s"
  by (induction w) auto

lemma close_on_line: "CHR '')'' \<noteq> newline" "CHR '')'' \<noteq> carriage_return"
  by code_simp+

lemma match_brackets_here:
  assumes "c \<noteq> []" and "newline \<notin> set c" and "carriage_return \<notin> set c"
  shows "match_brackets (CHR ''('' # c @ '')'') = Some c"
proof -
  have "takeWhile (\<lambda>x. x \<noteq> newline \<and> x \<noteq> carriage_return) (c @ '')'') = c @ '')''"
    using assms(2,3) close_on_line by (auto simp: takeWhile_eq_all_conv)
  then have "before_last_close (c @ '')'') = Some c"
    using assms(1) by (simp add: before_last_close_def Let_def)
  then show ?thesis by simp
qed

lemma word_brackets: "list_all is_word_char w \<Longrightarrow> CHR ''('' \<notin> set w"
  by (auto simp: list_all_iff)

lemma search_brackets:
  assumes "plain_name t" and "CHR ''('' \<notin> set u" and "c \<noteq> []" "newline \<notin> set c" "carriage_return \<notin> set c"
  shows "match_brackets (search_detail t u c) = Some c"
proof -
  have "search_detail t u c = (''SEARCH '' @ t @ '' USING '' @ u @ '' '') @ CHR ''('' # c @ '')''"
    by (simp add: search_detail_def)
  moreover have "CHR ''('' \<notin> set (''SEARCH '' @ t @ '' USING '' @ u @ '' '')"
    using assms(1,2) word_brackets by (auto simp: plain_name_def)
  ultimately show ?thesis
    using match_brackets_skip match_brackets_here [OF assms(3-5)] by metis
qed

lemma search_using:
  assumes "plain_name t" and "\<not> js_ends_with t ''USING''" and "plain_name k" and "plain_name v" and "\<not> is_word_char x"
  shows "match_using (''SEARCH '' @ t @ '' USING '' @ k @ CHR '' '' # v @ x # s) = Some v"
proof -
  have "list_all is_word_char ''SEARCH''" "\<not> js_ends_with ''SEARCH'' ''USING''" by code_simp+
  from match_using_word [OF this, of "t @ '' USING '' @ k @ CHR '' '' # v @ x # s"]
    match_using_word [of t "''USING '' @ k @ CHR '' '' # v @ x # s"] match_using_here [OF assms(3-5), of s] assms(1,2)
  show ?thesis by (simp add: plain_name_def)
qed

lemma search_parsed:
  assumes "\<not> js_includes (search_detail t u c) ''SCAN''" and "plain_name t"
  shows "parseDetailLiteToMysql (search_detail t u c)
    = \<lparr>pdTable = Some t, pdType = Some ''range'', pdExtra = match_brackets (search_detail t u c),
       pdKey = match_using (search_detail t u c)\<rparr>"
proof -
  have "match_word_after ''SEARCH '' (search_detail t u c) = Some t"
    using assms(2) takeWhile_word [of is_word_char t "CHR '' ''"] by (simp add: search_detail_def plain_name_def Let_def)
  moreover have "js_includes (search_detail t u c) ''SEARCH''"
    unfolding search_detail_def by (rule js_includes_append1) code_simp
  ultimately show ?thesis using assms(1) by (simp add: parseDetailLiteToMysql_def)
qed

text \<open>
  What SQLite says of the access to a table reads back: a search by an index gives the table,
  the index and the condition; of a search by a covering index or by the rowid the key is read as
  the word \<open>INDEX\<close> and \<open>PRIMARY\<close> instead.
\<close>

theorem detail_reads_back:
  assumes "plain_name t" and "plain_name i" and "\<not> js_ends_with t ''USING''"
    and "c \<noteq> []" and "newline \<notin> set c" and "carriage_return \<notin> set c"
    and "list_all (\<lambda>u. \<not> js_includes (search_detail t u c) ''SCAN'')
           [''INDEX '' @ i, ''COVERING INDEX '' @ i, ''INTEGER PRIMARY KEY'']"
  shows "parseDetailLiteToMysql (search_detail t (''INDEX '' @ i) c)
           = \<lparr>pdTable = Some t, pdType = Some ''range'', pdExtra = Some c, pdKey = Some i\<rparr>
     \<and> parseDetailLiteToMysql (search_detail t (''COVERING INDEX '' @ i) c)
           = \<lparr>pdTable = Some t, pdType = Some ''range'', pdExtra = Some c, pdKey = Some ''INDEX''\<rparr>
     \<and> parseDetailLiteToMysql (search_detail t ''INTEGER PRIMARY KEY'' c)
           = \<lparr>pdTable = Some t, pdType = Some ''range'', pdExtra = Some c, pdKey = Some ''PRIMARY''\<rparr>"
proof -
  have words: "plain_name ''INDEX''" "plain_name ''COVERING''" "plain_name ''INTEGER''" "plain_name ''PRIMARY''" by code_simp+
  have i: "CHR ''('' \<notin> set i" using assms(2) word_brackets by (simp add: plain_name_def)
  have extra: "match_brackets (search_detail t u c) = Some c"
    if "u \<in> {''INDEX '' @ i, ''COVERING INDEX '' @ i, ''INTEGER PRIMARY KEY''}" for u
    using that i by (intro search_brackets assms) auto
  have "match_using (search_detail t (''INDEX '' @ i) c) = Some i"
    using search_using [OF assms(1,3) words(1) assms(2) not_word_chars(1)] by (simp add: search_detail_def)
  moreover have "match_using (search_detail t (''COVERING INDEX '' @ i) c) = Some ''INDEX''"
    using search_using [OF assms(1,3) words(2,1) not_word_chars(1)] by (simp add: search_detail_def)
  moreover have "match_using (search_detail t ''INTEGER PRIMARY KEY'' c) = Some ''PRIMARY''"
    using search_using [OF assms(1,3) words(3,4) not_word_chars(1)] by (simp add: search_detail_def)
  ultimately show ?thesis using assms(7) by (simp add: search_parsed [OF _ assms(1)] extra)
qed

theorem detail_reads_back_witness:
  "parseDetailLiteToMysql ''SEARCH log USING INDEX log_user (user=?)''
     = \<lparr>pdTable = Some ''log'', pdType = Some ''range'', pdExtra = Some ''user=?'', pdKey = Some ''log_user''\<rparr>
   \<and> pdKey (parseDetailLiteToMysql ''SEARCH log USING COVERING INDEX log_user (user=?)'') = Some ''INDEX''"
proof -
  have "plain_name ''log''" "plain_name ''log_user''" "\<not> js_ends_with ''log'' ''USING''" "''user=?'' \<noteq> []"
    "newline \<notin> set ''user=?''" "carriage_return \<notin> set ''user=?''"
    "list_all (\<lambda>u. \<not> js_includes (search_detail ''log'' u ''user=?'') ''SCAN'')
       [''INDEX '' @ ''log_user'', ''COVERING INDEX '' @ ''log_user'', ''INTEGER PRIMARY KEY'']"
    by code_simp+
  from detail_reads_back [OF this] show ?thesis by (simp add: search_detail_def)
qed

section \<open>What a diagram shows\<close>

fun table_of :: "NodeData \<Rightarrow> ExplanationMysqlTable option" where
  "table_of (TableData t) = Some t"
| "table_of _ = None"

definition shown_tables :: "FlowNode list \<Rightarrow> ExplanationMysqlTable list" where
  "shown_tables nodes = List.map_filter (table_of \<circ> fnData) nodes"

definition edge_ends :: "FlowEdge list \<Rightarrow> (string \<times> string) list" where
  "edge_ends edges = map (\<lambda>e. (feSource e, feTarget e)) edges"

lemma shown_simps [simp]:
  "shown_tables [] = []"
  "shown_tables (n # ns) = (case table_of (fnData n) of None \<Rightarrow> [] | Some t \<Rightarrow> [t]) @ shown_tables ns"
  "shown_tables (ms @ ns) = shown_tables ms @ shown_tables ns"
  by (simp_all add: shown_tables_def List.map_filter_def split: option.split)

lemma edge_ends_simps [simp]:
  "edge_ends [] = []" "edge_ends (e # es) = (feSource e, feTarget e) # edge_ends es" "edge_ends (xs @ ys) = edge_ends xs @ edge_ends ys"
  by (simp_all add: edge_ends_def)

lemma shown_none: "(\<And>n. n \<in> set ns \<Longrightarrow> table_of (fnData n) = None) \<Longrightarrow> shown_tables ns = []"
  by (induction ns) auto

lemma layout_parts:
  assumes "getLayoutedExplanationElements dg nodes edges d calls = (ns, es, c)"
  shows "map fnId ns = map fnId nodes" and "map fnData ns = map fnData nodes" and "es = edges"
  using assms by (auto simp: getLayoutedExplanationElements_def Let_def comp_def)

lemma shown_layout: "map fnData ns = map fnData ms \<Longrightarrow> shown_tables ns = shown_tables ms"
proof (induction ns arbitrary: ms)
  case (Cons n ns)
  then obtain m ms' where "ms = m # ms'" by (cases ms) auto
  with Cons show ?case by simp
qed simp

lemma shown_butlast:
  "ns \<noteq> [] \<Longrightarrow> table_of (fnData (last ns)) = None \<Longrightarrow> shown_tables (butlast ns) = shown_tables ns"
  by (induction ns) auto

lemma node_simps [simp]:
  "fnId (flow_node i d t w h) = i" "fnData (flow_node i d t w h) = d"
  "fnId (operation_node i d t) = i" "fnData (operation_node i d t) = d"
  "fnId (loop_node (k, v)) = loop_name (int k)" "table_of (fnData (loop_node p)) = None"
  "fnId (loop_table_node j l (k, v)) = table_node_id j v" "fnData (loop_table_node j l (k, v)) = TableData v"
  "fnId (single_table_node j v) = table_node_id j v" "fnData (single_table_node j v) = TableData v"
  by (simp_all add: flow_node_def operation_node_def loop_node_def loop_table_node_def single_table_node_def
      Let_def split: prod.split)

lemma edge_simps [simp]:
  "feSource (flow_edge i t s) = s" "feTarget (flow_edge i t s) = t" "feId (flow_edge i t s) = i"
  "feSource (loop_edge fmt key (k, v)) = loop_name (int k)"
  "feTarget (loop_edge fmt key (k, v)) = (if k = 0 then key else loop_name (int k - 1))"
  "feSource (loop_table_edge j n (k, v)) = table_node_id j v"
  "feTarget (loop_table_edge j n (k, v)) = loop_name (loop_key n k)"
  "feSource (single_table_edge j key v) = table_node_id j v" "feTarget (single_table_edge j key v) = key"
  by (simp_all add: flow_edge_def loop_edge_def loop_table_edge_def single_table_edge_def)

lemma shown_loop_tables: "shown_tables (map (loop_table_node i l) (enumerate k ts)) = ts"
  by (induction ts arbitrary: k) simp_all

lemma shown_loops: "shown_tables (map loop_node ps) = []"
  by (rule shown_none) auto

text \<open>The tables of a flow are the table of its block, or the tables of its loops in reverse.\<close>

lemma tables_flow_shown:
  assumes "tables_flow dg fmt i key table loops nodes edges calls = (ns, es, c)"
    and "shown_tables nodes = []"
  shows "shown_tables ns = (case table of Some t \<Rightarrow> [t] | None \<Rightarrow> rev loops)"
proof (cases table)
  case (Some t)
  with assms(1) have "getLayoutedExplanationElements dg (nodes @ [single_table_node i t])
      (edges @ [single_table_edge i key t]) ''LR'' calls = (ns, es, c)" by (simp add: tables_flow_def)
  from shown_layout [OF layout_parts(2) [OF this]] assms(2) Some show ?thesis by simp
next
  case None
  show ?thesis
  proof (cases "loops = []")
    case False
    obtain l le c1 where lay: "getLayoutedExplanationElements dg (nodes @ map loop_node (enumerate 0 (rev loops)))
        (edges @ map (loop_edge fmt key) (enumerate 0 (rev loops))) ''LR'' calls = (l, le, c1)"
      by (metis prod_cases3)
    then have ns: "ns = butlast l @ map (loop_table_node i l) (enumerate 0 (rev loops))"
      using assms(1) None False by (simp add: tables_flow_def Let_def)
    have data: "map fnData l = map fnData (nodes @ map loop_node (enumerate 0 (rev loops)))"
      by (rule layout_parts(2) [OF lay])
    moreover have some: "enumerate 0 (rev loops) \<noteq> []"
      using False by (metis length_0_conv length_enumerate length_rev)
    ultimately have "l \<noteq> []" by auto
    moreover from this data have "fnData (last l) = fnData (last (nodes @ map loop_node (enumerate 0 (rev loops))))"
      by (metis last_map map_is_Nil_conv)
    then have "table_of (fnData (last l)) = None"
      using some by (simp add: last_map)
    ultimately have "shown_tables (butlast l) = []"
      using shown_layout [OF data] assms(2) by (simp add: shown_butlast shown_loops)
    then show ?thesis using None by (simp add: ns shown_loop_tables)
  qed (use assms None in \<open>simp add: tables_flow_def Let_def\<close>)
qed

lemma operations_shown: "shown_tables (block_nodes i item @ opNodes (operations i info)) = []"
  by (auto simp: block_nodes_def operations_def ordered_group_def ordered_only_def grouped_only_def
      split: option.split)

lemma flow_shown:
  assumes "buildQueryExplanationFlow dg fmt i (QueryBlock info None) calls = (ns, es, c)"
  shows "shown_tables ns =
    (case opTable (operations i info) of Some t \<Rightarrow> [t] | None \<Rightarrow> rev (opLoops (operations i info)))"
  using tables_flow_shown [OF _ operations_shown] assms by (simp add: Let_def)

text \<open>The edges of a flow, before and after the layout.\<close>

definition loop_ends :: "int option \<Rightarrow> string \<Rightarrow> ExplanationMysqlTable list \<Rightarrow> (string \<times> string) list" where
  "loop_ends i key loops =
     (let n = length loops in
      map (\<lambda>k. (loop_name (int k), if k = 0 then key else loop_name (int k - 1))) [0..<n]
      @ map (\<lambda>(k, t). (table_node_id i t, loop_name (loop_key n k))) (enumerate 0 (rev loops)))"

lemma ends_loop_edges: "edge_ends (map (loop_edge fmt key) (enumerate k ts))
    = map (\<lambda>k. (loop_name (int k), if k = 0 then key else loop_name (int k - 1))) [k..<k + length ts]"
proof (induction ts arbitrary: k)
  case (Cons t ts)
  have "[k..<k + length (t # ts)] = k # [Suc k..<Suc k + length ts]"
    using upt_conv_Cons [of k "k + length (t # ts)"] by simp
  then show ?case using Cons [of "Suc k"] by simp
qed simp

lemma ends_loop_table_edges: "edge_ends (map (loop_table_edge i n) (enumerate k ts))
    = map (\<lambda>(k, t). (table_node_id i t, loop_name (loop_key n k))) (enumerate k ts)"
  by (induction ts arbitrary: k) simp_all

lemma tables_flow_ends:
  assumes "tables_flow dg fmt i key table loops nodes edges calls = (ns, es, c)"
  shows "edge_ends es = (case table of Some t \<Rightarrow> edge_ends edges @ [(table_node_id i t, key)]
    | None \<Rightarrow> if loops = [] then [] else edge_ends edges @ loop_ends i key loops)"
proof (cases table)
  case (Some t)
  with assms have "getLayoutedExplanationElements dg (nodes @ [single_table_node i t])
      (edges @ [single_table_edge i key t]) ''LR'' calls = (ns, es, c)" by (simp add: tables_flow_def)
  from layout_parts(3) [OF this] Some show ?thesis by simp
next
  case None
  show ?thesis
  proof (cases "loops = []")
    case False
    obtain l le c1 where lay: "getLayoutedExplanationElements dg (nodes @ map loop_node (enumerate 0 (rev loops)))
        (edges @ map (loop_edge fmt key) (enumerate 0 (rev loops))) ''LR'' calls = (l, le, c1)"
      by (metis prod_cases3)
    then have "es = edges @ map (loop_edge fmt key) (enumerate 0 (rev loops))
        @ map (loop_table_edge i (length loops)) (enumerate 0 (rev loops))"
      using assms None False layout_parts(3) [OF lay] by (simp add: tables_flow_def Let_def)
    then show ?thesis
      using None False by (simp add: ends_loop_edges ends_loop_table_edges loop_ends_def Let_def)
  qed (use assms None in \<open>simp add: tables_flow_def Let_def\<close>)
qed

text \<open>
  The diagram of an explained SQLite query without a union shows exactly the tables of the rows,
  each once, in reverse order: one table hangs on the query block, several hang on a chain of loops
  that ends in the query block, the last two on the same loop.
\<close>

theorem explanation_shows_tables:
  assumes "\<not> list_ex (\<lambda>row. js_includes (erDetail row) ''UNION'') rows"
    and "convertSQLiteRowToMySQL (Suc n) rows = Some b"
    and "buildQueryExplanationFlow dg fmt None b calls = (ns, es, c)"
  shows "shown_tables ns = rev (List.map_filter row_table rows)
     \<and> edge_ends es = (case List.map_filter row_table rows of
          [] \<Rightarrow> []
        | [t] \<Rightarrow> [(table_node_id None t, ''query_block'')]
        | ts \<Rightarrow> loop_ends None ''query_block'' ts)"
proof -
  let ?ts = "List.map_filter row_table rows"
  let ?table = "if length ?ts = 1 then Some (hd ?ts) else None"
  let ?loop = "if 1 < length ?ts then Some ?ts else None"
  have b: "b = QueryBlock (info_block ?table ?loop) None"
    using assms(1,2) by (simp add: have_union_def Let_def)
  have ops: "operations None (info_block ?table ?loop)
      = \<lparr>opKey = ''query_block'', opLoops = loops_or_empty ?loop, opTable = ?table, opNodes = [], opEdges = []\<rparr>"
    by (simp add: operations_def info_block_def group_operation_def block_name_def id_truthy_def)
  have flow: "tables_flow dg fmt None ''query_block'' ?table (loops_or_empty ?loop)
      (block_nodes None b) [] calls = (ns, es, c)"
    using assms(3) unfolding b buildQueryExplanationFlow.simps Let_def ops
    by (simp add: block_edges_def id_truthy_def)
  have "shown_tables (block_nodes None b) = []" by (simp add: block_nodes_def)
  note shown = tables_flow_shown [OF flow this]
  show ?thesis
  proof (cases ?ts)
    case Nil
    then show ?thesis using shown tables_flow_ends [OF flow] by (simp add: loops_or_empty_def)
  next
    case (Cons t us)
    then show ?thesis
      using shown tables_flow_ends [OF flow] by (cases us) (simp_all add: loops_or_empty_def)
  qed
qed

definition example_join_rows :: "ExplanationRow list" where
  "example_join_rows =
     [\<lparr>erId = 4, erParent = 0, erDetail = ''SCAN a''\<rparr>,
      \<lparr>erId = 6, erParent = 0, erDetail = ''SEARCH b USING INDEX i (x=?)''\<rparr>,
      \<lparr>erId = 9, erParent = 0, erDetail = ''USE TEMP B-TREE FOR ORDER BY''\<rparr>]"

theorem explanation_shows_tables_witness:
  "\<exists>b. convertSQLiteRowToMySQL 4 example_join_rows = Some b
     \<and> (\<forall>ns es c. buildQueryExplanationFlow (\<lambda>_ _. (0, 0)) num_str None b [] = (ns, es, c) \<longrightarrow>
          map etTableName (shown_tables ns) = [''b'', ''a'']
          \<and> edge_ends es = [(''nested_loop_0'', ''query_block''), (''nested_loop_1'', ''nested_loop_0''),
                      (''bundefined'', ''nested_loop_0''), (''aundefined'', ''nested_loop_0'')])"
proof -
  have no: "\<not> list_ex (\<lambda>row. js_includes (erDetail row) ''UNION'') example_join_rows" by code_simp
  have "list_all (\<lambda>r. erParent r \<noteq> erId r) example_join_rows" by code_simp
  moreover have "length example_join_rows = 3" by code_simp
  ultimately obtain b where b: "convertSQLiteRowToMySQL (Suc 3) example_join_rows = Some b"
    using convert_enough_fuel [of example_join_rows "Suc 3"] by (auto simp: no_self_parent_def)
  have names: "map etTableName (rev (List.map_filter row_table example_join_rows)) = [''b'', ''a'']" by code_simp
  have chain: "(case List.map_filter row_table example_join_rows of [] \<Rightarrow> []
      | [t] \<Rightarrow> [(table_node_id None t, ''query_block'')] | ts \<Rightarrow> loop_ends None ''query_block'' ts)
      = [(''nested_loop_0'', ''query_block''), (''nested_loop_1'', ''nested_loop_0''),
         (''bundefined'', ''nested_loop_0''), (''aundefined'', ''nested_loop_0'')]" by code_simp
  show ?thesis
    using b explanation_shows_tables [OF no b] by (intro exI [of _ b]) (simp add: names chain del: rev_map)
qed

section \<open>Edges without a node\<close>

definition dangling :: "FlowNode list \<Rightarrow> FlowEdge list \<Rightarrow> FlowEdge list" where
  "dangling ns es = filter (\<lambda>e. feSource e \<notin> fnId ` set ns \<or> feTarget e \<notin> fnId ` set ns) es"

lemma loop_name_inj: "loop_name (int j) = loop_name (int k) \<longleftrightarrow> j = k"
  by (auto simp: loop_name_def int_str_def)

lemma loop_name_digit: "is_digit (last (loop_name (int k)))"
proof -
  have "list_all is_digit (nat_digits k)" by (rule nat_digits_all) (simp add: is_digit_def of_char_of Let_def)
  then have "is_digit (last (nat_digits k))" by (simp add: list_all_iff)
  then show ?thesis by (simp add: loop_name_def int_str_def)
qed

lemma table_id_not_loop: "table_node_id None t \<noteq> loop_name (int k)"
proof
  assume "table_node_id None t = loop_name (int k)"
  then have "is_digit (last (table_node_id None t))" using loop_name_digit by simp
  then show False by (simp add: table_node_id_def id_str_def is_digit_def)
qed

lemma loop_name_neg: "loop_name (- 1) \<noteq> loop_name (int k)" "loop_name (- 1) \<noteq> table_node_id None t"
proof -
  have "loop_name (- 1) = ''nested_loop_-1''" by code_simp
  moreover have "hd (nat_digits k) \<noteq> CHR ''-''"
  proof -
    have "list_all (\<lambda>c. c \<noteq> CHR ''-'') (nat_digits k)"
      by (rule nat_digits_all) (rule digits_check, code_simp)
    then show ?thesis by (simp add: list_all_iff hd_in_set)
  qed
  ultimately show "loop_name (- 1) \<noteq> loop_name (int k)"
    by (simp add: loop_name_def int_str_def) (metis list.sel(1))
  have "last (loop_name (- 1)) = CHR ''1''" by code_simp
  moreover have "last (table_node_id None t) = CHR ''d''" by (simp add: table_node_id_def id_str_def)
  ultimately show "loop_name (- 1) \<noteq> table_node_id None t" by force
qed

text \<open>Operations only connect their own nodes and the block.\<close>

lemma operations_connected:
  assumes "ops = operations None info" and "ids = insert ''query_block'' (fnId ` set (opNodes ops))"
  shows "\<forall>e \<in> set (opEdges ops). feSource e \<in> ids \<and> feTarget e \<in> ids" and "opKey ops \<in> ids"
    and "ids \<subseteq> {''query_block'', ''ordering_operation'', ''group_operation''}"
  unfolding assms
  by (auto simp: operations_def ordered_group_def ordered_only_def grouped_only_def
      block_name_def id_truthy_def split: option.splits)

lemma loop_node_ids: "map fnId (map loop_node (enumerate k ts)) = map (\<lambda>k. loop_name (int k)) [k..<k + length ts]"
proof (induction ts arbitrary: k)
  case (Cons t ts)
  have "[k..<k + length (t # ts)] = k # [Suc k..<Suc k + length ts]"
    using upt_conv_Cons [of k "k + length (t # ts)"] by simp
  then show ?case using Cons [of "Suc k"] by simp
qed simp

lemma loop_table_ids: "map fnId (map (loop_table_node i l) (enumerate k ts)) = map (table_node_id i) ts"
  by (induction ts arbitrary: k) simp_all

lemma dangling_append: "dangling ns (xs @ ys) = dangling ns xs @ dangling ns ys"
  by (simp add: dangling_def)

lemma dangling_none:
  "(\<And>e. e \<in> set es \<Longrightarrow> feSource e \<in> fnId ` set ns \<and> feTarget e \<in> fnId ` set ns) \<Longrightarrow> dangling ns es = []"
  by (auto simp: dangling_def filter_empty_conv)

lemma loops_flow_parts:
  assumes "tables_flow dg fmt None key None loops nodes es0 calls = (ns, es, c)" and "loops \<noteq> []"
  shows "es = es0 @ map (loop_edge fmt key) (enumerate 0 (rev loops))
            @ map (loop_table_edge None (length loops)) (enumerate 0 (rev loops))"
    and "fnId ` set ns = fnId ` set nodes \<union> (\<lambda>k. loop_name (int k)) ` {0..<length loops - 1}
            \<union> table_node_id None ` set loops"
proof -
  let ?rev = "enumerate 0 (rev loops)" and ?n = "length loops"
  obtain l le c1 where lay: "getLayoutedExplanationElements dg (nodes @ map loop_node ?rev)
      (es0 @ map (loop_edge fmt key) ?rev) ''LR'' calls = (l, le, c1)" by (metis prod_cases3)
  have parts: "ns = butlast l @ map (loop_table_node None l) ?rev"
    "es = es0 @ map (loop_edge fmt key) ?rev @ map (loop_table_edge None ?n) ?rev"
    using assms lay layout_parts(3) [OF lay] by (simp_all add: tables_flow_def Let_def)
  show "es = es0 @ map (loop_edge fmt key) ?rev @ map (loop_table_edge None ?n) ?rev" by (rule parts(2))
  have loop_ids: "map fnId (map loop_node ?rev) = map (\<lambda>k. loop_name (int k)) [0..<?n]"
    using loop_node_ids [of 0 "rev loops"] by simp
  have "[0..<?n] = [0..<?n - 1] @ [?n - 1]" using assms(2) by (cases loops) simp_all
  then have "map fnId (nodes @ map loop_node ?rev)
      = (map fnId nodes @ map (\<lambda>k. loop_name (int k)) [0..<?n - 1]) @ [loop_name (int (?n - 1))]"
    by (simp only: map_append loop_ids) simp
  then have "map fnId (butlast l) = map fnId nodes @ map (\<lambda>k. loop_name (int k)) [0..<?n - 1]"
    using layout_parts(1) [OF lay] by (simp only: map_butlast butlast_snoc)
  then have ids_l: "fnId ` set (butlast l) = fnId ` set nodes \<union> (\<lambda>k. loop_name (int k)) ` {0..<?n - 1}"
    by (metis image_set set_append set_map set_upt list.set_map)
  have "map fnId (map (loop_table_node None l) ?rev) = map (table_node_id None) (rev loops)"
    by (rule loop_table_ids)
  then have tids: "fnId ` set (map (loop_table_node None l) ?rev) = table_node_id None ` set loops"
    by (metis list.set_map set_rev)
  show "fnId ` set ns = fnId ` set nodes \<union> (\<lambda>k. loop_name (int k)) ` {0..<?n - 1} \<union> table_node_id None ` set loops"
    unfolding parts(1) set_append image_Un ids_l tids ..
qed

text \<open>The loops before the last hang together.\<close>

lemma inner_loops_connected:
  assumes "\<And>k. loop_name (int k) \<in> fnId ` set ns \<longleftrightarrow> k < length us" and "key \<in> fnId ` set ns"
    and "\<And>t. t \<in> set us \<Longrightarrow> table_node_id None t \<in> fnId ` set ns"
  shows "dangling ns (map (loop_edge fmt key) (enumerate 0 us)) = []"
    and "dangling ns (map (loop_table_edge None (Suc (length us))) (enumerate 0 us)) = []"
proof -
  have in_us: "fst p < length us \<and> snd p \<in> set us" if "p \<in> set (enumerate 0 us)" for p
    using that nth_mem [of "fst p" us] by (auto simp: in_set_enumerate_eq)
  show "dangling ns (map (loop_edge fmt key) (enumerate 0 us)) = []"
  proof (rule dangling_none)
    fix e assume "e \<in> set (map (loop_edge fmt key) (enumerate 0 us))"
    then obtain k t where e: "e = loop_edge fmt key (k, t)" "k < length us" using in_us by force
    then show "feSource e \<in> fnId ` set ns \<and> feTarget e \<in> fnId ` set ns"
      using assms(2) assms(1) [of k] assms(1) [of "k - 1"] by (cases k) simp_all
  qed
  show "dangling ns (map (loop_table_edge None (Suc (length us))) (enumerate 0 us)) = []"
  proof (rule dangling_none)
    fix e assume "e \<in> set (map (loop_table_edge None (Suc (length us))) (enumerate 0 us))"
    then obtain k t where e: "e = loop_table_edge None (Suc (length us)) (k, t)" "k < length us" "t \<in> set us"
      using in_us by force
    then show "feSource e \<in> fnId ` set ns \<and> feTarget e \<in> fnId ` set ns"
      using assms(3) assms(1) [of k] by (simp add: loop_key_def)
  qed
qed

lemma loops_dangling:
  assumes tf: "tables_flow dg fmt None key None loops nodes es0 calls = (ns, es, c)" and ne: "loops \<noteq> []"
    and con: "\<forall>e \<in> set es0. feSource e \<in> fnId ` set nodes \<and> feTarget e \<in> fnId ` set nodes" "key \<in> fnId ` set nodes"
      "fnId ` set nodes \<subseteq> {''query_block'', ''ordering_operation'', ''group_operation''}"
  shows "map feId (dangling ns es) =
       (if length loops = 1 then [key @ ''-nested_loop_0'', ''nested_loop_-1-'' @ table_node_id None (hd loops)]
        else [loop_name (int (length loops) - 2) @ ''-'' @ loop_name (int (length loops) - 1)])"
proof -
  note parts = loops_flow_parts [OF tf ne]
  obtain us where us: "rev loops = us @ [hd loops]" using ne by (cases loops) auto
  then have n_us: "length loops = Suc (length us)" by (metis length_rev length_append_singleton)
  have split: "enumerate 0 (rev loops) = enumerate 0 us @ [(length us, hd loops)]" by (simp add: us enumerate_append_eq)
  have not_ids: "loop_name i \<notin> fnId ` set nodes" for i
    using con(3) by (auto simp: loop_name_def)
  have member: "loop_name (int k) \<in> fnId ` set ns \<longleftrightarrow> k < length us" for k
    unfolding parts(2) n_us using not_ids table_id_not_loop by (auto simp: loop_name_inj) metis
  have no_member: "loop_name (- 1) \<notin> fnId ` set ns"
    unfolding parts(2) using not_ids loop_name_neg by auto
  have keys: "key \<in> fnId ` set ns" unfolding parts(2) using con(2) by blast
  have tables: "table_node_id None t \<in> fnId ` set ns" if "t \<in> set loops" for t
    unfolding parts(2) using that by blast
  have "set us \<subseteq> set loops" by (metis set_append set_rev sup_ge1 us)
  then have inner: "dangling ns (map (loop_edge fmt key) (enumerate 0 us)) = []"
    "dangling ns (map (loop_table_edge None (Suc (length us))) (enumerate 0 us)) = []"
    using inner_loops_connected [of ns us key] member keys tables by blast+
  have first: "dangling ns es0 = []"
    by (rule dangling_none) (use con(1) parts(2) in blast)
  have last_loop: "dangling ns [loop_edge fmt key (length us, hd loops)] = [loop_edge fmt key (length us, hd loops)]"
    using member [of "length us"] by (simp add: dangling_def)
  have last_table: "dangling ns [loop_table_edge None (Suc (length us)) (length us, hd loops)]
      = (if us = [] then [loop_table_edge None (Suc (length us)) (length us, hd loops)] else [])"
    using member [of "length us - 1"] no_member tables [of "hd loops"] ne
    by (cases us) (simp_all add: dangling_def loop_key_def)
  have "dangling ns es = loop_edge fmt key (length us, hd loops)
      # (if us = [] then [loop_table_edge None (Suc (length us)) (length us, hd loops)] else [])"
    unfolding parts(1) split n_us map_append dangling_append first inner
    using last_loop last_table by simp
  moreover have "loop_name (- 1) = ''nested_loop_-1''" "loop_name 0 = ''nested_loop_0''" by code_simp+
  ultimately show ?thesis
    using n_us by (cases us) (simp_all add: loop_edge_def loop_table_edge_def loop_key_def)
qed

text \<open>
  Every edge of a diagram without a union leads from a node of the diagram to a node of the
  diagram, with one exception: the node of the last loop is left out although an edge comes from
  it; when there is one loop only, its table hangs on a loop that never exists.
\<close>

theorem diagram_edges_connect:
  "case buildQueryExplanationFlow dg fmt None (QueryBlock info None) calls of (ns, es, c) \<Rightarrow>
     map feId (dangling ns es) =
       (let ops = operations None info; n = length (opLoops ops) in
        case opTable ops of Some t \<Rightarrow> [] | None \<Rightarrow>
        if n = 0 then []
        else if n = 1 then [opKey ops @ ''-nested_loop_0'', ''nested_loop_-1-'' @ table_node_id None (hd (opLoops ops))]
        else [loop_name (int n - 2) @ ''-'' @ loop_name (int n - 1)])"
proof -
  define ops where "ops = operations None info"
  define item where "item = QueryBlock info None"
  let ?nodes = "block_nodes None item @ opNodes ops"
  obtain ns es c where flow: "buildQueryExplanationFlow dg fmt None item calls = (ns, es, c)"
    by (metis prod_cases3)
  then have tf: "tables_flow dg fmt None (opKey ops) (opTable ops) (opLoops ops) ?nodes (opEdges ops) calls = (ns, es, c)"
    by (simp add: item_def ops_def Let_def block_edges_def id_truthy_def)
  have node_ids: "fnId ` set ?nodes = insert ''query_block'' (fnId ` set (opNodes ops))"
    by (simp add: block_nodes_def block_name_def id_truthy_def)
  note con = operations_connected [OF ops_def refl, folded node_ids]
  have "map feId (dangling ns es) =
       (case opTable ops of Some t \<Rightarrow> [] | None \<Rightarrow>
        if length (opLoops ops) = 0 then []
        else if length (opLoops ops) = 1
        then [opKey ops @ ''-nested_loop_0'', ''nested_loop_-1-'' @ table_node_id None (hd (opLoops ops))]
        else [loop_name (int (length (opLoops ops)) - 2) @ ''-'' @ loop_name (int (length (opLoops ops)) - 1)])"
  proof (cases "opTable ops")
    case (Some t)
    with tf have lay: "getLayoutedExplanationElements dg (?nodes @ [single_table_node None t])
        (opEdges ops @ [single_table_edge None (opKey ops) t]) ''LR'' calls = (ns, es, c)" by (simp add: tables_flow_def)
    have "fnId ` set ns = fnId ` set ?nodes \<union> {table_node_id None t}"
      using arg_cong [OF layout_parts(1) [OF lay], of set] by auto
    then have "dangling ns es = []"
      using con layout_parts(3) [OF lay] by (intro dangling_none) auto
    with Some show ?thesis by simp
  next
    case None
    show ?thesis
    proof (cases "opLoops ops = []")
      case True
      with None tf show ?thesis by (simp add: tables_flow_def dangling_def)
    next
      case False
      then show ?thesis using loops_dangling [OF tf [unfolded None] False con] None by simp
    qed
  qed
  then show ?thesis by (simp only: flow [unfolded item_def] prod.case Let_def ops_def)
qed

section \<open>Unions\<close>

definition block_tables :: "ExplanationBlockInfo \<Rightarrow> ExplanationMysqlTable list" where
  "block_tables b = (let ops = operations (Some (biSelectId b)) b in
     case opTable ops of Some t \<Rightarrow> [t] | None \<Rightarrow> rev (opLoops ops))"

definition block_to_union :: "ExplanationBlockInfo \<Rightarrow> string \<times> string" where
  "block_to_union b = (''query_block-'' @ int_str (biSelectId b), ''union_result'')"

lemma flow_union_edge:
  assumes "buildQueryExplanationFlow dg fmt (Some (biSelectId b)) (QueryBlock b None) calls = (ns, es, c)"
    and "biSelectId b \<noteq> 0" and "block_tables b \<noteq> []"
  shows "block_to_union b \<in> set (edge_ends es)"
proof -
  let ?ops = "operations (Some (biSelectId b)) b"
  have tf: "tables_flow dg fmt (Some (biSelectId b)) (opKey ?ops) (opTable ?ops) (opLoops ?ops)
      (block_nodes (Some (biSelectId b)) (QueryBlock b None) @ opNodes ?ops)
      (block_edges (Some (biSelectId b)) @ opEdges ?ops) calls = (ns, es, c)"
    using assms(1) by (simp add: Let_def)
  have "block_to_union b \<in> set (edge_ends (block_edges (Some (biSelectId b))))"
    using assms(2) by (simp add: block_edges_def id_truthy_def id_str_def block_to_union_def)
  then show ?thesis
    using tables_flow_ends [OF tf] assms(3) by (auto simp: block_tables_def Let_def split: option.splits)
qed

lemma union_flows_shown:
  assumes "union_flows dg fmt (map (\<lambda>b. QueryBlock b None) blocks) calls = (ns, es, c)"
  shows "shown_tables ns = concat (map block_tables blocks)
    \<and> list_all (\<lambda>b. if biSelectId b \<noteq> 0 \<and> block_tables b \<noteq> [] then block_to_union b \<in> set (edge_ends es) else True) blocks"
  using assms
proof (induction blocks arbitrary: calls ns es c)
  case (Cons b bs)
  obtain n1 e1 c1 where b: "buildQueryExplanationFlow dg fmt (Some (biSelectId b)) (QueryBlock b None) calls = (n1, e1, c1)"
    by (metis prod_cases3)
  obtain n2 e2 c2 where bs: "union_flows dg fmt (map (\<lambda>b. QueryBlock b None) bs) c1 = (n2, e2, c2)"
    by (metis prod_cases3)
  have parts: "ns = n1 @ n2" "es = e1 @ e2"
    using Cons.prems b bs by (simp_all add: select_id_def del: buildQueryExplanationFlow.simps)
  have "shown_tables n1 = block_tables b" using flow_shown [OF b] by (simp add: block_tables_def Let_def)
  with Cons.IH [OF bs] flow_union_edge [OF b] show ?case
    by (auto simp: parts list_all_iff split: if_splits)
qed simp

text \<open>
  The diagram of a union shows the tables of all blocks, block after block, and every block with
  tables and an identifier other than zero has its edge to the node of the union; but the node of
  the query block is there twice, with the same identifier.
\<close>

theorem union_diagram:
  "case buildQueryExplanationFlow dg fmt None (QueryBlock info (Some (map (\<lambda>b. QueryBlock b None) blocks))) calls of
     (ns, es, c) \<Rightarrow>
       shown_tables ns = concat (map block_tables blocks)
     \<and> list_all (\<lambda>b. if biSelectId b \<noteq> 0 \<and> block_tables b \<noteq> [] then block_to_union b \<in> set (edge_ends es) else True) blocks
     \<and> 2 \<le> length (filter (\<lambda>i. i = ''query_block'') (map fnId ns))"
proof -
  let ?specs = "map (\<lambda>b. QueryBlock b None) blocks"
  let ?item = "QueryBlock info (Some ?specs)"
  let ?nodes = "block_nodes None ?item @ opNodes (operations None info)"
  obtain un ue c1 where un: "union_flows dg fmt ?specs calls = (un, ue, c1)" by (metis prod_cases3)
  obtain ns es c where lay: "getLayoutedExplanationElements dg (?nodes @ union_nodes ?item @ un)
      ((block_edges None @ opEdges (operations None info)) @ union_edges @ ue) ''LR'' c1 = (ns, es, c)"
    by (metis prod_cases3)
  have flow: "buildQueryExplanationFlow dg fmt None ?item calls = (ns, es, c)"
    using un lay by (simp add: Let_def)
  have "shown_tables ns = shown_tables (?nodes @ union_nodes ?item @ un)"
    by (rule shown_layout [OF layout_parts(2) [OF lay]])
  also have "\<dots> = shown_tables un"
    using operations_shown [of None ?item info] by (simp add: union_nodes_def)
  finally have tables: "shown_tables ns = concat (map block_tables blocks)" using union_flows_shown [OF un] by simp
  have edges: "set (edge_ends ue) \<subseteq> set (edge_ends es)" using layout_parts(3) [OF lay] by auto
  have "map fnId ns = map fnId (?nodes @ union_nodes ?item @ un)" by (rule layout_parts(1) [OF lay])
  moreover have "block_name None = ''query_block''" by (simp add: block_name_def id_truthy_def)
  ultimately have "map fnId ns = ''query_block'' # map fnId (opNodes (operations None info))
      @ ''query_block'' # ''union_result'' # map fnId un"
    by (simp add: block_nodes_def union_nodes_def)
  then have "2 \<le> length (filter (\<lambda>i. i = ''query_block'') (map fnId ns))"
    by (simp only: filter.simps filter_append) simp
  then show ?thesis
    using union_flows_shown [OF un] tables edges unfolding flow
    by (auto simp: list_all_iff simp del: filter_map split: if_splits)
qed

text \<open>The loops of different blocks of a union have the same identifiers.\<close>

definition two_loops :: "int \<Rightarrow> ExplanationMysql" where
  "two_loops i = union_block \<lparr>erId = i, erParent = 1, erDetail = []\<rparr>
     (QueryBlock (info_block None (Some (List.map_filter row_table example_join_rows))) None)"

lemma union_loops_collide:
  "case buildQueryExplanationFlow (\<lambda>_ _. (0, 0)) num_str None
          (QueryBlock (info_block None None) (Some [two_loops 2, two_loops 3])) [] of
     (ns, es, c) \<Rightarrow> filter (\<lambda>i. i = ''nested_loop_0'') (map fnId ns) = [''nested_loop_0'', ''nested_loop_0'']"
  by code_simp

section \<open>The tree of the rows\<close>

lemma attach_rows_throws:
  "(\<exists>e. attach_rows nodes f = Inl e) \<longleftrightarrow>
     list_ex (\<lambda>r. erParent r \<noteq> 0 \<and> erParent r \<notin> fst ` set (efChildren f)) nodes"
proof (induction nodes f rule: attach_rows.induct)
  case (2 node rest f)
  show ?case
  proof (cases "erParent node = 0")
    case False
    show ?thesis
    proof (cases "map_of (efChildren f) (erParent node)")
      case None
      then have "erParent node \<notin> fst ` set (efChildren f)" by (simp add: map_of_eq_None_iff)
      with False None show ?thesis by simp
    next
      case (Some cs)
      then have "erParent node \<in> fst ` set (efChildren f)" by (metis map_of_eq_None_iff option.distinct(1))
      then have "fst ` set (AList.update (erParent node) (cs @ [erId node]) (efChildren f)) = fst ` set (efChildren f)"
        by (auto simp: dom_update)
      with 2(2) [OF False Some] False Some \<open>erParent node \<in> _\<close> show ?thesis by simp
    qed
  qed (use 2(1) in simp)
qed simp

lemma keys_of_rows: "fst ` set (fold (\<lambda>n m. AList.update (erId n) [] m) nodes m) = fst ` set m \<union> erId ` set nodes"
  by (induction nodes arbitrary: m) (auto simp: dom_update)

text \<open>
  Building the tree of the rows throws exactly when a row names a parent that is no row; for a
  SQLite explanation the tree is thrown away afterwards, the exception is not.
\<close>

theorem explanation_tree_throws:
  "(\<exists>e. buildQueryExplanationTree rows = Inl e) \<longleftrightarrow>
     list_ex (\<lambda>r. erParent r \<noteq> 0 \<and> erParent r \<notin> erId ` set rows) rows"
  by (simp add: buildQueryExplanationTree_def attach_rows_throws keys_of_rows)

end
