(* ===== verification/ImportFile.thy ===== *)
theory ImportFile
  imports Exports
begin

text \<open>
  Importing a file into a table: \<open>handleImportFile\<close> of \<open>components/gui/schema-sidebar-list.tsx\<close>, and
  the statements that the menu of a table runs.  \<open>JSON.parse\<close> is a parameter.
\<close>

section \<open>CSV\<close>

function (sequential) csv_loop :: "bool \<Rightarrow> string \<Rightarrow> string \<Rightarrow> string list" where
  "csv_loop inQuotes current [] = [js_trim current]"
| "csv_loop inQuotes current (c # s) =
     (if c = CHR 0x22
      then (if inQuotes \<and> take 1 s = [CHR 0x22] then csv_loop inQuotes (current @ [CHR 0x22]) (drop 1 s)
            else csv_loop (\<not> inQuotes) current s)
      else if c = CHR '','' \<and> \<not> inQuotes then js_trim current # csv_loop inQuotes [] s
      else csv_loop inQuotes (current @ [c]) s)"
  by pat_completeness auto
termination by (relation "measure (\<lambda>(_, _, s). length s)") auto

definition parseCSVLine :: "string \<Rightarrow> string list" where
  "parseCSVLine line = csv_loop False [] line"

text \<open>A cell: missing, empty and \<open>NULL\<close> are \<open>null\<close>.\<close>

definition import_cell :: "string \<Rightarrow> jsval" where
  "import_cell t = (if t = [] \<or> t = ''NULL'' then Null else Str t)"

definition csv_row :: "string list \<Rightarrow> string list \<Rightarrow> jsval obj" where
  "csv_row hs cells =
     foldl (\<lambda>row (index, header). obj_set header
              (if index < length cells then import_cell (cells ! index) else Null) row)
       [] (enumerate 0 hs)"

definition csv_lines :: "string \<Rightarrow> string list" where
  "csv_lines content = filter (\<lambda>line. js_trim line \<noteq> []) (js_split [newline] content)"

section \<open>The rows of a file\<close>

datatype ImportOutcome =
    TooFewLines
  | UnsupportedFormat
  | NoData
  | ImportFailed js_error
  | Imported nat

definition csv_rows :: "string \<Rightarrow> ImportOutcome + jsval list" where
  "csv_rows content =
     (let lines = csv_lines content in
      if length lines < 2 then Inl TooFewLines
      else Inr (map (\<lambda>line. JsObject (csv_row (parseCSVLine (hd lines)) (parseCSVLine line))) (tl lines)))"

definition file_extension :: "string \<Rightarrow> string" where
  "file_extension name = js_lower (last (js_split ''.'' name))"

definition file_rows :: "(string \<Rightarrow> jsval result) \<Rightarrow> string \<Rightarrow> string \<Rightarrow> ImportOutcome + jsval list" where
  "file_rows jsonParse name content =
     (if file_extension name = ''json''
      then (case jsonParse content of
              Inl e \<Rightarrow> Inl (ImportFailed e)
            | Inr (JsArray vs) \<Rightarrow> Inr vs
            | Inr v \<Rightarrow> Inr [v])
      else if file_extension name = ''csv'' then csv_rows content
      else Inl UnsupportedFormat)"

section \<open>Inserting the rows\<close>

text \<open>\<open>Object.keys(row)\<close> and \<open>row[key]\<close>.\<close>

fun row_keys :: "jsval \<Rightarrow> string list result" where
  "row_keys Undefined = Inl (TypeError ''Cannot convert undefined or null to object'')"
| "row_keys Null = Inl (TypeError ''Cannot convert undefined or null to object'')"
| "row_keys (JsObject kvs) = Inr (map fst (obj_entries kvs))"
| "row_keys (JsArray vs) = Inr (map nat_digits [0..<length vs])"
| "row_keys (Str s) = Inr (map nat_digits [0..<length s])"
| "row_keys (Uint8Array bs) = Inr (map nat_digits [0..<length bs])"
| "row_keys _ = Inr []"

fun row_at :: "jsval \<Rightarrow> string \<Rightarrow> jsval" where
  "row_at (JsObject kvs) k = obj_at kvs k"
| "row_at (JsArray vs) k = (if nat_digits (digits_val k) = k \<and> digits_val k < length vs then vs ! digits_val k else Undefined)"
| "row_at (Str s) k = (if nat_digits (digits_val k) = k \<and> digits_val k < length s then Str [s ! digits_val k] else Undefined)"
| "row_at _ k = Undefined"

definition insert_statement :: "Dialect \<Rightarrow> string \<Rightarrow> string list \<Rightarrow> jsval \<Rightarrow> string" where
  "insert_statement d tableName cols row =
     ''INSERT INTO '' @ dEscapeId d tableName @ '' ('' @ js_join '', '' (map (dEscapeId d) cols) @ '') VALUES (''
       @ js_join '', '' (map (\<lambda>c. dEscapeValue d (row_at row c)) cols) @ '')''"

definition insert_row ::
  "Dialect \<Rightarrow> 'w Connection \<Rightarrow> string \<Rightarrow> string list \<Rightarrow> nat \<Rightarrow> jsval \<Rightarrow> ('w, nat) io" where
  "insert_row d db tableName columns inserted row =
     io_bind (io_lift (row_keys row)) (\<lambda>ks.
       let cols = filter (\<lambda>k. k \<in> set columns) ks in
       if cols = [] then io_return inserted
       else io_bind (dbQuery db (insert_statement d tableName cols row)) (\<lambda>_. io_return (Suc inserted)))"

fun io_fold :: "('b \<Rightarrow> 'a \<Rightarrow> ('w, 'b) io) \<Rightarrow> 'b \<Rightarrow> 'a list \<Rightarrow> ('w, 'b) io" where
  "io_fold f b [] = io_return b"
| "io_fold f b (x # xs) = io_bind (f b x) (\<lambda>b1. io_fold f b1 xs)"

function batches :: "nat \<Rightarrow> 'a list \<Rightarrow> 'a list list" where
  "batches n xs = (if xs = [] \<or> n = 0 then [] else take n xs # batches n (drop n xs))"
  by pat_completeness auto
termination by (relation "measure (\<lambda>(_, xs). length xs)") auto

declare batches.simps [simp del]

definition insert_all ::
  "Dialect \<Rightarrow> 'w Connection \<Rightarrow> string \<Rightarrow> string list \<Rightarrow> jsval list \<Rightarrow> ('w, nat) io" where
  "insert_all d db tableName columns rs =
     io_fold (\<lambda>inserted batch. io_fold (insert_row d db tableName columns) inserted batch) 0 (batches 100 rs)"

definition import_rows ::
  "Dialect \<Rightarrow> 'w Connection \<Rightarrow> string \<Rightarrow> jsval list \<Rightarrow> ('w, nat) io" where
  "import_rows d db tableName rs =
     io_bind (dbQuery db (''SELECT * FROM '' @ dEscapeId d tableName @ '' LIMIT 0'')) (\<lambda>tableInfo.
       insert_all d db tableName (map hdName (rsHeaders tableInfo)) rs)"

text \<open>Every exception becomes a message; the sidebar is refreshed after \<open>Imported\<close> only.\<close>

definition handleImportFile ::
  "(string \<Rightarrow> jsval result) \<Rightarrow> Dialect \<Rightarrow> 'w Connection \<Rightarrow> string \<Rightarrow> string \<Rightarrow> string \<Rightarrow> string \<Rightarrow> 'w \<Rightarrow>
   ImportOutcome \<times> 'w" where
  "handleImportFile jsonParse d db fileName content schemaName tableName w =
     (case file_rows jsonParse fileName content of
        Inl out \<Rightarrow> (out, w)
      | Inr [] \<Rightarrow> (NoData, w)
      | Inr rs \<Rightarrow>
          (case import_rows d db tableName rs w of
             (Inl e, w1) \<Rightarrow> (ImportFailed e, w1)
           | (Inr n, w1) \<Rightarrow> (Imported n, w1)))"

section \<open>Emptying and dropping a table\<close>

definition truncate_statement :: "Dialect \<Rightarrow> string \<Rightarrow> string" where
  "truncate_statement d selectedName = ''DELETE FROM '' @ dEscapeId d selectedName"

definition drop_statement :: "Dialect \<Rightarrow> string \<Rightarrow> string" where
  "drop_statement d selectedName = ''DROP TABLE '' @ dEscapeId d selectedName"

end
