(* ===== verification/ImportFacts.thy ===== *)
theory ImportFacts
  imports ImportFile ExportFacts
begin

text \<open>
  Facts about importing: what a CSV export reads back to, and which statements an import runs.
\<close>

section \<open>One line\<close>

definition plain_cell :: "string \<Rightarrow> bool" where
  "plain_cell t = (newline \<notin> set t \<and> js_trim t = t)"

lemma csv_plain:
  assumes "CHR 0x22 \<notin> set t" and "CHR '','' \<notin> set t"
  shows "csv_loop False cur (t @ rest) = csv_loop False (cur @ t) rest"
  using assms by (induction t arbitrary: cur) auto

lemma csv_quoted_body:
  assumes "rest = [] \<or> hd rest \<noteq> CHR 0x22"
  shows "csv_loop True cur (replace_char (CHR 0x22) [CHR 0x22, CHR 0x22] t @ CHR 0x22 # rest)
           = csv_loop False (cur @ t) rest"
proof (induction t arbitrary: cur)
  case Nil
  then show ?case using assms by (cases rest) auto
next
  case (Cons c t)
  then show ?case by (cases "c = CHR 0x22") auto
qed

lemma csv_field:
  assumes "rest = [] \<or> hd rest = CHR '',''"
  shows "csv_loop False cur (enclose (CHR 0x22) (CHR '','') newline t @ rest) = csv_loop False (cur @ t) rest"
proof (cases "CHR '','' \<in> set t \<or> newline \<in> set t \<or> CHR 0x22 \<in> set t")
  case True
  have "rest = [] \<or> hd rest \<noteq> CHR 0x22" using assms by auto
  from csv_quoted_body [OF this] True show ?thesis by (simp add: enclose_def)
next
  case False
  then show ?thesis using csv_plain [of t cur rest] by (simp add: enclose_def)
qed

lemma parse_line_back:
  assumes "ts \<noteq> []" and "list_all plain_cell ts"
  shows "parseCSVLine (js_join '','' (map (enclose (CHR 0x22) (CHR '','') newline) ts)) = ts"
  using assms
proof (induction ts)
  case (Cons t ts)
  have t: "js_trim t = t" using Cons.prems by (simp add: plain_cell_def)
  show ?case
  proof (cases "ts = []")
    case True
    then show ?thesis using csv_field [of "[]" "[]" t] t by (simp add: parseCSVLine_def)
  next
    case False
    let ?rest = "js_join '','' (map (enclose (CHR 0x22) (CHR '','') newline) ts)"
    have "parseCSVLine (js_join '','' (map (enclose (CHR 0x22) (CHR '','') newline) (t # ts)))
        = csv_loop False [] (enclose (CHR 0x22) (CHR '','') newline t @ CHR '','' # ?rest)"
      using False by (simp add: parseCSVLine_def js_join_Cons)
    also have "\<dots> = t # parseCSVLine ?rest"
      using csv_field [of "CHR '','' # ?rest" "[]" t] t by (simp add: parseCSVLine_def)
    finally show ?thesis using Cons False by simp
  qed
qed simp

section \<open>The lines\<close>

abbreviation csv_enclose :: "string \<Rightarrow> string" where
  "csv_enclose \<equiv> enclose (CHR 0x22) (CHR '','') newline"

lemma newline_not_quote: "newline \<noteq> CHR 0x22" "newline \<noteq> CHR '',''" "\<not> is_space (CHR 0x22)" "\<not> is_space (CHR '','')"
  by code_simp+

lemma enclose_no_newline: "newline \<notin> set t \<Longrightarrow> newline \<notin> set (csv_enclose t)"
  using newline_not_quote(1) by (auto simp: enclose_def replace_char_def)

lemma join_no_newline: "list_all (\<lambda>t. newline \<notin> set t) ts \<Longrightarrow> newline \<notin> set (js_join '','' ts)"
proof (induction ts)
  case (Cons t ts)
  then show ?case using newline_not_quote(2) by (cases "ts = []") (auto simp: js_join_Cons)
qed simp

lemma trim_Nil_iff: "js_trim s = [] \<longleftrightarrow> list_all is_space s"
proof
  assume "js_trim s = []"
  then have all: "list_all is_space (dropWhile is_space s)"
    by (auto simp: js_trim_def list_all_iff dropWhile_eq_Nil_conv)
  have "list_all is_space (takeWhile is_space s @ dropWhile is_space s)"
    unfolding list_all_append using all by (auto simp: list_all_iff dest: set_takeWhileD)
  then show "list_all is_space s" by simp
next
  assume "list_all is_space s"
  then have d: "dropWhile is_space s = []" unfolding dropWhile_eq_Nil_conv list_all_iff .
  show "js_trim s = []" unfolding js_trim_def d by simp
qed

lemma line_not_blank:
  assumes "list_all plain_cell ts" and "ts \<noteq> []" and "ts \<noteq> [[]]"
  shows "js_trim (js_join '','' (map csv_enclose ts)) \<noteq> []"
proof (cases ts)
  case (Cons t us)
  show ?thesis
  proof (cases "us = []")
    case True
    then have t: "js_trim t = t" "t \<noteq> []" using assms Cons by (simp_all add: plain_cell_def)
    then have "\<not> list_all is_space t" using trim_Nil_iff [of t] by simp
    then show ?thesis
      using True Cons newline_not_quote by (simp add: trim_Nil_iff enclose_def)
  next
    case False
    then show ?thesis using Cons newline_not_quote by (simp add: js_join_Cons trim_Nil_iff)
  qed
qed (use assms in simp)

lemma text_of_Str: "cell_text nullValue (Str t) = t"
  by (simp add: cell_text_def nullish_def)

section \<open>What an export reads back to\<close>

lemma csv_row_zip:
  assumes "distinct hs" and "length cells = length hs"
  shows "csv_row hs cells = zip hs (map import_cell cells)"
proof -
  have "foldl (\<lambda>row (index, header). obj_set header
            (if index < length cells then import_cell (cells ! index) else Null) row) ob (enumerate k us)
      = ob @ zip us (map import_cell (drop k cells))"
    if "distinct us" "k + length us = length cells" "fst ` set ob \<inter> set us = {}" for ob us k
    using that
  proof (induction us arbitrary: ob k)
    case (Cons u us)
    then have k: "k < length cells" "drop k cells = cells ! k # drop (Suc k) cells"
      by (simp_all add: Cons_nth_drop_Suc)
    have "foldl (\<lambda>row (index, header). obj_set header
            (if index < length cells then import_cell (cells ! index) else Null) row)
          (ob @ [(u, import_cell (cells ! k))]) (enumerate (Suc k) us)
        = (ob @ [(u, import_cell (cells ! k))]) @ zip us (map import_cell (drop (Suc k) cells))"
      using Cons.prems by (intro Cons.IH) auto
    then show ?case using Cons.prems k by (simp add: obj_set_new)
  qed simp
  from this [of hs 0 "[]"] assms show ?thesis by (simp add: csv_row_def)
qed

text \<open>What the import makes of an exported value.\<close>

definition imported_value :: "jsval \<Rightarrow> jsval" where
  "imported_value v = import_cell (cell_text ''NULL'' v)"

definition exportable :: "string list \<Rightarrow> bool" where
  "exportable ts = (list_all plain_cell ts \<and> ts \<noteq> [] \<and> ts \<noteq> [[]])"



section \<open>What an import runs\<close>

text \<open>The statements of the rows, and running statements until one fails.\<close>

definition row_statements :: "Dialect \<Rightarrow> string \<Rightarrow> string list \<Rightarrow> jsval \<Rightarrow> string list" where
  "row_statements d tableName columns row =
     (case row_keys row of
        Inl e \<Rightarrow> []
      | Inr ks \<Rightarrow>
         (let cols = filter (\<lambda>k. k \<in> set columns) ks in
          if cols = [] then [] else [insert_statement d tableName cols row]))"

primrec run_all :: "'w Connection \<Rightarrow> string list \<Rightarrow> ('w, unit) io" where
  "run_all db [] = io_return ()"
| "run_all db (q # qs) = io_bind (dbQuery db q) (\<lambda>_. run_all db qs)"

definition has_keys :: "jsval \<Rightarrow> bool" where
  "has_keys v = (v \<noteq> Undefined \<and> v \<noteq> Null)"

lemma io_bind_return: "io_bind (io_return x) f = f x" "io_bind (io_lift (Inr x)) f = f x"
    "io_bind (Pair (Inr x)) f = f x"
  by (simp_all add: io_bind_def io_return_def io_lift_def)

lemma io_fold_append: "io_fold f b (xs @ ys) = io_bind (io_fold f b xs) (\<lambda>b1. io_fold f b1 ys)"
  by (induction xs arbitrary: b) (simp_all add: io_bind_assoc io_bind_return)

lemma io_fold_batches: "0 < n \<Longrightarrow> io_fold (io_fold f) b (batches n xs) = io_fold f b xs"
proof (induction n xs arbitrary: b rule: batches.induct)
  case (1 n xs)
  show ?case
  proof (cases "xs = []")
    case False
    then have "io_fold (io_fold f) b (batches n xs)
        = io_bind (io_fold f b (take n xs)) (\<lambda>b1. io_fold f b1 (drop n xs))"
      using 1 by (subst batches.simps) simp
    also have "\<dots> = io_fold f b xs" by (simp flip: io_fold_append)
    finally show ?thesis .
  qed (simp add: batches.simps)
qed

lemma insert_row_statements:
  assumes "has_keys row"
  shows "insert_row d db t columns n row
           = io_bind (run_all db (row_statements d t columns row))
               (\<lambda>_. io_return (n + length (row_statements d t columns row)))"
  using assms
  by (cases row) (auto simp: has_keys_def insert_row_def row_statements_def Let_def io_bind_assoc io_bind_return io_return_def)

lemma insert_row_no_keys:
  "\<not> has_keys row \<Longrightarrow>
   insert_row d db t columns n row w = (Inl (TypeError ''Cannot convert undefined or null to object''), w)"
  by (auto simp: has_keys_def insert_row_def)

lemma run_all_append: "run_all db (qs @ rs) = io_bind (run_all db qs) (\<lambda>_. run_all db rs)"
  by (induction qs) (simp_all add: io_bind_assoc io_bind_return)

lemma insert_rows_statements:
  "io_fold (insert_row d db t columns) n rs w =
     (let statements = concat (map (row_statements d t columns) (takeWhile has_keys rs)) in
      case run_all db statements w of
        (Inl e, w1) \<Rightarrow> (Inl e, w1)
      | (Inr _, w1) \<Rightarrow>
          (if list_all has_keys rs then Inr (n + length statements)
           else Inl (TypeError ''Cannot convert undefined or null to object''), w1))"
proof (induction rs arbitrary: n w)
  case (Cons r rs)
  show ?case
  proof (cases "has_keys r")
    case True
    obtain x w1 where run: "run_all db (row_statements d t columns r) w = (x, w1)" by fastforce
    show ?thesis
      using True run Cons.IH [of "n + length (row_statements d t columns r)" w1]
      by (cases x) (simp_all add: insert_row_statements io_bind_def run_all_append Let_def io_return_def
          add.assoc split: prod.split sum.split)
  qed (simp add: insert_row_no_keys io_bind_def)
qed simp

text \<open>
  An import asks the table for its columns and then runs exactly one \<open>INSERT\<close> for every row of
  the file that names at least one of them, in the order of the file, stopping at the first that
  fails; the batches of a hundred make no difference.  There is no transaction: what was inserted
  before a failure stays.  A JSON row that is \<open>null\<close> stops the import after the rows before it.  The
  schema's name plays no part.
\<close>

theorem import_runs_inserts:
  "handleImportFile jsonParse d db fileName content schemaName t w =
     (case file_rows jsonParse fileName content of
        Inl out \<Rightarrow> (out, w)
      | Inr rs \<Rightarrow>
          (if rs = [] then (NoData, w)
           else case dbQuery db (''SELECT * FROM '' @ dEscapeId d t @ '' LIMIT 0'') w of
             (Inl e, w1) \<Rightarrow> (ImportFailed e, w1)
           | (Inr info, w1) \<Rightarrow>
               (let statements = concat (map (row_statements d t (map hdName (rsHeaders info))) (takeWhile has_keys rs)) in
                case run_all db statements w1 of
                  (Inl e, w2) \<Rightarrow> (ImportFailed e, w2)
                | (Inr _, w2) \<Rightarrow>
                    (if list_all has_keys rs then Imported (length statements)
                     else ImportFailed (TypeError ''Cannot convert undefined or null to object''), w2))))"
proof -
  have all: "insert_all d db t columns rs = io_fold (insert_row d db t columns) 0 rs" for columns rs
    using io_fold_batches [of 100] by (simp add: insert_all_def)
  have rows: "import_rows d db t rs w =
      (case dbQuery db (''SELECT * FROM '' @ dEscapeId d t @ '' LIMIT 0'') w of
         (Inl e, w1) \<Rightarrow> (Inl e, w1)
       | (Inr info, w1) \<Rightarrow> io_fold (insert_row d db t (map hdName (rsHeaders info))) 0 rs w1)" for rs
    unfolding import_rows_def all io_bind_def by (rule refl)
  show ?thesis
  proof (cases "file_rows jsonParse fileName content")
    case (Inr rs)
    show ?thesis
    proof (cases "rs = []")
      case False
      then show ?thesis
        unfolding handleImportFile_def Inr sum.case rows insert_rows_statements Let_def
        by (cases rs) (simp_all split: prod.split sum.split)
    qed (simp add: handleImportFile_def Inr)
  qed (simp add: handleImportFile_def)
qed

end
