(* ===== verification/Sidebar.thy ===== *)
theory Sidebar
  imports Exports Tabs
begin

text \<open>
  The tree of tables, views and triggers in the sidebar, \<open>components/gui/schema-sidebar-list.tsx\<close>,
  what a search and the expanded entries show of it, \<open>components/listview/index.tsx\<close>, and the names
  for completion, \<open>context/schema-provider.tsx\<close>.  \<open>localeCompare\<close> is a parameter, as the relation
  \<open>a.localeCompare(b) <= 0\<close>.  Icons and colours are left out.
\<close>

section \<open>Entries\<close>

datatype SidebarData = SchemaData string | ItemData DatabaseSchemaItem

datatype ListViewItem =
  ListViewItem (liKey: string) (liName: string) (liData: SidebarData) (liBadge: "string option")
    (liChildren: "ListViewItem list option") (liSizeLabel: "string option")

text \<open>The byte count of a table is a number of bytes or missing.\<close>

definition formatTableSize :: "nat option \<Rightarrow> string option" where
  "formatTableSize byteCount =
     (case byteCount of
        None \<Rightarrow> None
      | Some b \<Rightarrow>
         (let byteInKb = 1024; byteInMb = byteInKb * 1024; byteInGb = byteInMb * 1024 in
          if b = 0 then None
          else if byteInMb * 999 < b then Some (to_fixed 1 b byteInGb @ '' GB'')
          else if byteInMb * 100 < b then Some (to_fixed 0 b byteInMb @ '' MB'')
          else if byteInKb * 100 < b then Some (to_fixed 1 b byteInMb @ '' MB'')
          else if byteInKb < b then Some (nat_digits (b div byteInKb) @ '' KB'')
          else Some ''1 KB''))"

fun byte_count :: "jsnum option \<Rightarrow> nat option" where
  "byte_count (Some (Dec m 0)) = (if 0 \<le> m then Some (nat m) else None)"
| "byte_count _ = None"

definition list_item :: "DatabaseSchemaItem \<Rightarrow> ListViewItem" where
  "list_item s = ListViewItem (itemSchemaName s @ ''.'' @ itemName s) (itemName s) (ItemData s) None None
     (formatTableSize (byte_count (case itemTableSchema s of None \<Rightarrow> None | Some ts \<Rightarrow> tsSizeInByte ts)))"

definition prepareListViewItem :: "DatabaseSchemaItem list \<Rightarrow> ListViewItem list" where
  "prepareListViewItem = map list_item"

section \<open>Triggers under their tables\<close>

text \<open>
  The groups are the properties of an object literal, which inherits from \<open>Object.prototype\<close>: reading
  one of its names gives a function or an object that cannot be spread.
\<close>

definition object_prototype :: "string list" where
  "object_prototype = [''constructor'', ''__defineGetter__'', ''__defineSetter__'', ''hasOwnProperty'',
     ''__lookupGetter__'', ''__lookupSetter__'', ''isPrototypeOf'', ''propertyIsEnumerable'', ''toString'',
     ''valueOf'', ''__proto__'', ''toLocaleString'']"

definition not_iterable :: js_error where
  "not_iterable = TypeError ''Spread syntax requires ...iterable[Symbol.iterator] to be a function''"

text \<open>\<open>[...(a[k] ?? []), ...]\<close>: the list that is spread.\<close>

definition group_at :: "'a list obj \<Rightarrow> string \<Rightarrow> 'a list result" where
  "group_at a k =
     (case map_of a k of
        Some xs \<Rightarrow> Inr xs
      | None \<Rightarrow> if k \<in> set object_prototype then Inl not_iterable else Inr [])"

fun is_kind :: "TableKind \<Rightarrow> ListViewItem \<Rightarrow> bool" where
  "is_kind k (ListViewItem _ _ (ItemData s) _ _ _) = (itemType s = k)"
| "is_kind k _ = False"

fun data_name :: "ListViewItem \<Rightarrow> string" where
  "data_name (ListViewItem _ _ (ItemData s) _ _ _) = itemName s"
| "data_name _ = []"

fun data_table :: "ListViewItem \<Rightarrow> string" where
  "data_table (ListViewItem _ _ (ItemData s) _ _ _) = (case itemTableName s of None \<Rightarrow> [] | Some t \<Rightarrow> t)"
| "data_table _ = []"

definition add_trigger :: "ListViewItem list obj result \<Rightarrow> ListViewItem \<Rightarrow> ListViewItem list obj result" where
  "add_trigger a b =
     rbind a (\<lambda>a. rbind (group_at a (data_table b)) (\<lambda>xs. Inr (obj_set (data_table b) (xs @ [b]) a)))"

definition item_children :: "ListViewItem \<Rightarrow> ListViewItem list" where
  "item_children it = (case liChildren it of None \<Rightarrow> [] | Some cs \<Rightarrow> cs)"

fun with_children :: "ListViewItem list \<Rightarrow> ListViewItem \<Rightarrow> ListViewItem" where
  "with_children cs (ListViewItem k n d b _ l) = ListViewItem k n d b (Some cs) l"

definition attach_triggers :: "ListViewItem list obj \<Rightarrow> ListViewItem \<Rightarrow> ListViewItem result" where
  "attach_triggers triggerByTable it =
     (if is_kind KindTable it
         \<and> (obj_has triggerByTable (data_name it) \<or> data_name it \<in> set object_prototype)
      then rbind (group_at triggerByTable (liName it)) (\<lambda>xs. Inr (with_children (item_children it @ xs) it))
      else Inr it)"

definition groupTriggerByTable :: "ListViewItem list \<Rightarrow> ListViewItem list result" where
  "groupTriggerByTable items =
     rbind (foldl add_trigger (Inr []) (filter (is_kind KindTrigger) items)) (\<lambda>triggerByTable.
       result_list (map (attach_triggers triggerByTable) (filter (\<lambda>it. \<not> is_kind KindTrigger it) items)))"

section \<open>The tables of a full text index under it\<close>

definition ftsSuffix :: "string list" where
  "ftsSuffix = [''_config'', ''_content'', ''_data'', ''_docsize'', ''_idx'']"

fun is_fts5 :: "ListViewItem \<Rightarrow> bool" where
  "is_fts5 (ListViewItem _ _ (ItemData s) _ _ _) =
     (case itemTableSchema s of None \<Rightarrow> False | Some ts \<Rightarrow> tsFts5 ts \<noteq> None)"
| "is_fts5 _ = False"

definition name_hash :: "ListViewItem list \<Rightarrow> ListViewItem obj" where
  "name_hash items = foldl (\<lambda>a b. obj_set (liName b) b a) [] items"

fun with_fts :: "ListViewItem list \<Rightarrow> ListViewItem \<Rightarrow> ListViewItem" where
  "with_fts cs (ListViewItem k n d _ _ l) = ListViewItem k n d (Some ''fts5'') (Some cs) l"

text \<open>
  The children are the same objects as the entries, so a child that is itself a full text index
  shows its own children, whichever of the two assignments came first.  Names grow along the way
  down, hence the fuel.
\<close>

fun fts_item :: "nat \<Rightarrow> ListViewItem list \<Rightarrow> ListViewItem \<Rightarrow> ListViewItem" where
  "fts_item fuel items it =
     (if is_fts5 it
      then with_fts
             (case fuel of
                0 \<Rightarrow> []
              | Suc n \<Rightarrow> map (fts_item n items)
                  (List.map_filter (\<lambda>suffix. map_of (name_hash items) (data_name it @ suffix)) ftsSuffix))
             it
      else it)"

declare fts_item.simps [simp del]

definition longest_name :: "ListViewItem list \<Rightarrow> nat" where
  "longest_name items = foldr max (map (length \<circ> liName) items) 0"

definition fts_excludes :: "ListViewItem list \<Rightarrow> string list" where
  "fts_excludes items =
     concat (map (\<lambda>it. map (\<lambda>suffix. data_name it @ suffix) ftsSuffix) (filter is_fts5 items))"

definition groupByFtsTable :: "ListViewItem list \<Rightarrow> ListViewItem list" where
  "groupByFtsTable items =
     map (fts_item (Suc (longest_name items)) items)
       (filter (\<lambda>it. data_name it \<notin> set (fts_excludes items)) items)"

section \<open>The tree\<close>

definition sortTable :: "(string \<Rightarrow> string \<Rightarrow> bool) \<Rightarrow> ListViewItem list \<Rightarrow> ListViewItem list" where
  "sortTable localeLe items = sort_by (\<lambda>a b. localeLe (liName a) (liName b)) items"

definition schema_entry ::
  "(string \<Rightarrow> string \<Rightarrow> bool) \<Rightarrow> string \<times> DatabaseSchemaItem list \<Rightarrow> ListViewItem result" where
  "schema_entry localeLe = (\<lambda>(s, tables).
     rbind (groupTriggerByTable (prepareListViewItem tables)) (\<lambda>items.
       Inr (ListViewItem s s (SchemaData s) None (Some (sortTable localeLe (groupByFtsTable items))) None)))"

definition flattenSchemaGroup :: "ListViewItem list \<Rightarrow> ListViewItem list" where
  "flattenSchemaGroup schemaGroup =
     (case schemaGroup of [it] \<Rightarrow> item_children it | _ \<Rightarrow> schemaGroup)"

definition listViewItems ::
  "(string \<Rightarrow> string \<Rightarrow> bool) \<Rightarrow> DriverFlags \<Rightarrow> DatabaseSchemas \<Rightarrow> ListViewItem list result" where
  "listViewItems localeLe flags schema =
     rbind (result_list (map (schema_entry localeLe) (obj_entries schema))) (\<lambda>r.
       Inr (if optionalSchema flags then flattenSchemaGroup (sortTable localeLe r) else sortTable localeLe r))"

section \<open>What is shown\<close>

lemma size_child: "c \<in> set (item_children it) \<Longrightarrow> size c < size it"
  by (cases it) (auto simp: item_children_def split: option.splits dest: size_list_estimation' [of _ _ _ size, OF _ order.refl])

definition search_filter :: "string \<Rightarrow> ListViewItem \<Rightarrow> bool" where
  "search_filter search it = (search = [] \<or> js_includes (js_lower (liName it)) (js_lower search))"

function matchFilter :: "(ListViewItem \<Rightarrow> bool) \<Rightarrow> ListViewItem \<Rightarrow> bool" where
  "matchFilter f it = (f it \<or> list_ex (matchFilter f) (item_children it))"
  by pat_completeness auto
termination by (relation "measure (\<lambda>(_, it). size it)") (auto simp: size_child)

declare matchFilter.simps [simp del]

lemma size_children: "size_list size (item_children it) < size it"
  by (cases it) (simp add: item_children_def split: option.split)

text \<open>
  The rendered entries with their depth.  The children of an entry are rendered when its key is
  in the set that the code calls collapsed.
\<close>

function renderList :: "(ListViewItem \<Rightarrow> bool) \<Rightarrow> string set \<Rightarrow> nat \<Rightarrow> ListViewItem list \<Rightarrow> (nat \<times> ListViewItem) list" where
  "renderList f collapsedKeys depth [] = []"
| "renderList f collapsedKeys depth (it # its) =
     (if matchFilter f it
      then (depth, it) # (if liKey it \<in> collapsedKeys
                          then renderList f collapsedKeys (Suc depth) (item_children it) else [])
      else []) @ renderList f collapsedKeys depth its"
  by pat_completeness auto
termination
  by (relation "measure (\<lambda>(_, _, _, its). size_list size its)") (auto intro!: less_SucI trans_less_add1 size_children)

text \<open>The arrow before an entry.\<close>

definition collapsedClicked :: "string \<Rightarrow> string set \<Rightarrow> string set" where
  "collapsedClicked key collapsedKeys = (if key \<in> collapsedKeys then collapsedKeys - {key} else insert key collapsedKeys)"

section \<open>Opening an entry\<close>

text \<open>A double click opens a table, a trigger, or switches to a schema.\<close>

datatype SidebarAction =
    OpenTab TabRequest
  | OpenTrigger string string string
  | SwitchSchema string
  | NoAction

definition switch_statement :: "Dialect \<Rightarrow> string \<Rightarrow> string" where
  "switch_statement d schemaName =
     (let pg = dialect (dFlags d) = Postgres;
          switch_keyword = if pg then ''SET search_path TO '' else ''USE '';
          names = dEscapeId d schemaName #
                  (if pg then dEscapeId d ''$user'' #
                              (if schemaName \<noteq> ''public'' then [dEscapeId d ''public''] else [])
                   else [])
      in switch_keyword @ js_join '','' names)"

definition onDoubleClick :: "Dialect \<Rightarrow> ListViewItem \<Rightarrow> SidebarAction" where
  "onDoubleClick d it =
     (let switch = (if supportUseStatement (dFlags d) = Some True
                    then SwitchSchema (switch_statement d (liName it)) else NoAction) in
      case liData it of
        SchemaData s \<Rightarrow> switch
      | ItemData s \<Rightarrow>
          (case itemType s of
             KindTable \<Rightarrow> OpenTab (OpenTable (itemSchemaName s) (itemName s))
           | KindView \<Rightarrow> OpenTab (OpenTable (itemSchemaName s) (itemName s))
           | KindTrigger \<Rightarrow> OpenTrigger (itemSchemaName s) (liName it)
               (case itemTableName s of None \<Rightarrow> [] | Some t \<Rightarrow> t)
           | KindSchema \<Rightarrow> switch))"

section \<open>Names for completion\<close>

datatype AutoCompletion = Columns "string list" | Tables "string list obj"

definition generateAutoCompleteFromSchemaItems :: "DatabaseSchemaItem list option \<Rightarrow> string list obj" where
  "generateAutoCompleteFromSchemaItems items =
     (case items of
        None \<Rightarrow> []
      | Some xs \<Rightarrow>
          foldl (\<lambda>a b. obj_set (itemName b)
                   (case itemTableSchema b of None \<Rightarrow> [] | Some ts \<Rightarrow> map colName (tsColumns ts)) a)
            [] (filter (\<lambda>x. itemType x = KindTable \<or> itemType x = KindView) xs))"

definition generateAutoComplete :: "string \<Rightarrow> DatabaseSchemas \<Rightarrow> AutoCompletion obj" where
  "generateAutoComplete currentSchemaName schema =
     obj_spread
       (map (\<lambda>(t, cs). (t, Columns cs)) (generateAutoCompleteFromSchemaItems (map_of schema currentSchemaName)))
       (foldl (\<lambda>a (schemaName, tableList). obj_set schemaName
                 (Tables (generateAutoCompleteFromSchemaItems (Some tableList))) a)
          [] (obj_entries schema))"

end
