(* ===== verification/SidebarFacts.thy ===== *)
theory SidebarFacts
  imports Sidebar ExportFacts
begin

text \<open>
  Facts about the tree of the sidebar: which entries of a schema it shows, each once, which it
  loses, and what a search shows.
\<close>

section \<open>Lists and groups\<close>

lemma mset_sortTable [simp]: "mset (sortTable le items) = mset items"
  by (simp add: sortTable_def)

lemma filter_by_key:
  assumes "distinct ks"
  shows "(\<Sum>k\<leftarrow>ks. mset (filter (\<lambda>b. f b = k) bs)) = mset (filter (\<lambda>b. f b \<in> set ks) bs)"
  using assms
proof (induction ks)
  case (Cons k ks)
  have "mset (filter (\<lambda>b. f b \<in> set (k # ks)) bs)
      = mset (filter (\<lambda>b. f b = k) bs) + mset (filter (\<lambda>b. f b \<in> set ks) bs)"
    using Cons.prems by (induction bs) auto
  with Cons show ?case by simp
qed simp

lemma result_list_Inr: "\<forall>x \<in> set xs. f x = Inr (g x) \<Longrightarrow> result_list (map f xs) = Inr (map g xs)"
  by (induction xs) simp_all

lemma result_list_Inl:
  "list_ex (\<lambda>x. f x = Inl e) xs \<Longrightarrow> \<forall>x \<in> set xs. \<forall>d. f x = Inl d \<longrightarrow> d = e \<Longrightarrow> result_list (map f xs) = Inl e"
proof (induction xs)
  case (Cons x xs)
  then show ?case by (cases "f x") auto
qed simp

text \<open>The triggers by the name of their table.\<close>

definition proto_table :: "ListViewItem \<Rightarrow> bool" where
  "proto_table b = (data_table b \<in> set object_prototype)"

lemma triggers_grouped:
  "if list_ex proto_table ts then foldl add_trigger (Inr []) ts = Inl not_iterable
   else \<exists>ob. foldl add_trigger (Inr []) ts = Inr ob
     \<and> (\<forall>k. map_of ob k = (let g = filter (\<lambda>b. data_table b = k) ts in if g = [] then None else Some g))"
proof (induction ts rule: rev_induct)
  case (snoc t ts)
  show ?case
  proof (cases "list_ex proto_table ts")
    case True
    then show ?thesis using snoc by (simp add: add_trigger_def)
  next
    case False
    then obtain ob where ob: "foldl add_trigger (Inr []) ts = Inr ob"
      "\<And>k. map_of ob k = (let g = filter (\<lambda>b. data_table b = k) ts in if g = [] then None else Some g)"
      using snoc by auto
    show ?thesis
    proof (cases "proto_table t")
      case True
      then have "filter (\<lambda>b. data_table b = data_table t) ts = []"
        using False by (auto simp: filter_empty_conv list_ex_iff proto_table_def)
      then have "map_of ob (data_table t) = None" by (simp add: ob(2))
      then show ?thesis using True ob(1) by (simp add: add_trigger_def group_at_def proto_table_def)
    next
      case t: False
      then have g: "group_at ob (data_table t) = Inr (filter (\<lambda>b. data_table b = data_table t) ts)"
        by (simp add: group_at_def ob(2) proto_table_def Let_def)
      then show ?thesis using False t ob
        by (auto simp: add_trigger_def map_of_obj_set Let_def)
    qed
  qed
qed simp

text \<open>What becomes of a table when the triggers are attached.\<close>

definition attached :: "ListViewItem list \<Rightarrow> ListViewItem \<Rightarrow> ListViewItem" where
  "attached ts it =
     (let g = filter (\<lambda>b. data_table b = data_name it) ts in
      if is_kind KindTable it \<and> g \<noteq> [] then with_children (item_children it @ g) it else it)"

definition proto_name :: "ListViewItem \<Rightarrow> bool" where
  "proto_name it = (is_kind KindTable it \<and> data_name it \<in> set object_prototype)"

lemma attach_triggers_eq:
  assumes "\<And>k. map_of ob k = (let g = filter (\<lambda>b. data_table b = k) ts in if g = [] then None else Some g)"
    and "\<not> list_ex proto_table ts" and "liName it = data_name it"
  shows "attach_triggers ob it = (if proto_name it then Inl not_iterable else Inr (attached ts it))"
proof -
  have "filter (\<lambda>b. data_table b = data_name it) ts = []" if "data_name it \<in> set object_prototype"
    using that assms(2) by (auto simp: filter_empty_conv list_ex_iff proto_table_def)
  then show ?thesis
    using assms(1,3) by (auto simp: attach_triggers_def attached_def proto_name_def group_at_def obj_has_def Let_def)
qed

lemma groupTriggerByTable_eq:
  assumes "\<forall>it \<in> set items. liName it = data_name it"
  shows "groupTriggerByTable items =
    (let ts = filter (is_kind KindTrigger) items; ns = filter (\<lambda>it. \<not> is_kind KindTrigger it) items in
     if list_ex proto_table ts \<or> list_ex proto_name ns then Inl not_iterable
     else Inr (map (attached ts) ns))"
proof -
  let ?ts = "filter (is_kind KindTrigger) items" and ?ns = "filter (\<lambda>it. \<not> is_kind KindTrigger it) items"
  show ?thesis
  proof (cases "list_ex proto_table ?ts")
    case True
    then show ?thesis using triggers_grouped [of ?ts] by (simp add: groupTriggerByTable_def)
  next
    case False
    then obtain ob where ob: "foldl add_trigger (Inr []) ?ts = Inr ob"
      "\<And>k. map_of ob k = (let g = filter (\<lambda>b. data_table b = k) ?ts in if g = [] then None else Some g)"
      using triggers_grouped [of ?ts] by auto
    have step: "attach_triggers ob it = (if proto_name it then Inl not_iterable else Inr (attached ?ts it))"
      if "it \<in> set ?ns" for it
      by (rule attach_triggers_eq [OF ob(2) False]) (use that assms in simp)
    have "result_list (map (attach_triggers ob) ?ns) =
        (if list_ex proto_name ?ns then Inl not_iterable else Inr (map (attached ?ts) ?ns))"
    proof (cases "list_ex proto_name ?ns")
      case True
      have "result_list (map (attach_triggers ob) ?ns) = Inl not_iterable"
      proof (rule result_list_Inl)
        show "list_ex (\<lambda>x. attach_triggers ob x = Inl not_iterable) ?ns"
          using True step by (auto simp: list_ex_iff)
        show "\<forall>x \<in> set ?ns. \<forall>d. attach_triggers ob x = Inl d \<longrightarrow> d = not_iterable"
          using step by (simp split: if_splits)
      qed
      then show ?thesis using True by simp
    next
      case no: False
      then show ?thesis using step by (auto intro!: result_list_Inr simp: list_ex_iff)
    qed
    with False ob(1) show ?thesis by (simp add: groupTriggerByTable_def)
  qed
qed

lemma attached_fields [simp]:
  "liName (attached ts it) = liName it" "liData (attached ts it) = liData it" "liKey (attached ts it) = liKey it"
  "data_name (attached ts it) = data_name it" "is_fts5 (attached ts it) = is_fts5 it"
  "is_kind k (attached ts it) = is_kind k it"
  by (cases it; cases "liData it"; simp add: attached_def Let_def)+

section \<open>The tables of a full text index\<close>

lemma name_hash_distinct:
  "distinct (map liName items) \<Longrightarrow> map_of (name_hash items) k = Some c \<longleftrightarrow> c \<in> set items \<and> liName c = k"
proof (induction items rule: rev_induct)
  case (snoc b items)
  then have "b \<notin> set items" by auto
  moreover have "liName b \<notin> liName ` set items" using snoc.prems by simp
  then have "liName c \<noteq> liName b" if "c \<in> set items" for c using that by (metis imageI)
  ultimately show ?case using snoc by (auto simp: name_hash_def map_of_obj_set)
qed (simp add: name_hash_def)

definition fts_children :: "ListViewItem list \<Rightarrow> ListViewItem \<Rightarrow> ListViewItem list" where
  "fts_children items it =
     List.map_filter (\<lambda>suffix. map_of (name_hash items) (data_name it @ suffix)) ftsSuffix"

lemma name_le_longest: "it \<in> set items \<Longrightarrow> length (liName it) \<le> longest_name items"
  by (induction items) (auto simp: longest_name_def)

lemma suffix_not_Nil: "suf \<in> set ftsSuffix \<Longrightarrow> suf \<noteq> []"
  by (auto simp: ftsSuffix_def)

text \<open>Items whose names are those of their data, all different.\<close>

definition named_items :: "ListViewItem list \<Rightarrow> bool" where
  "named_items items = (distinct (map liName items) \<and> list_all (\<lambda>it. liName it = data_name it) items)"

lemma fts_children_iff:
  assumes "named_items items"
  shows "c \<in> set (fts_children items it) \<longleftrightarrow> c \<in> set items \<and> (\<exists>suf \<in> set ftsSuffix. data_name c = data_name it @ suf)"
proof -
  have "c \<in> set (fts_children items it)
      \<longleftrightarrow> (\<exists>suf \<in> set ftsSuffix. map_of (name_hash items) (data_name it @ suf) = Some c)"
    by (auto simp: fts_children_def map_filter_def image_iff)
  then show ?thesis using assms name_hash_distinct [of items]
    by (auto simp: named_items_def list_all_iff)
qed

lemma fts_child_longer:
  "named_items items \<Longrightarrow> c \<in> set (fts_children items it) \<Longrightarrow> length (data_name it) < length (data_name c)"
  using suffix_not_Nil by (auto simp: fts_children_iff)

lemma fts_item_fuel:
  assumes "named_items items"
  shows "longest_name items < n + length (data_name it) \<Longrightarrow> fts_item (Suc n) items it = fts_item n items it"
proof (induction n arbitrary: it)
  case 0
  have "fts_children items it = []"
  proof (rule ccontr)
    assume "fts_children items it \<noteq> []"
    then obtain c where c: "c \<in> set (fts_children items it)" by (metis list.set_intros(1) neq_Nil_conv)
    then have "length (data_name c) \<le> longest_name items"
      using name_le_longest [of c items] assms by (auto simp: fts_children_iff named_items_def list_all_iff)
    then show False using 0 fts_child_longer [OF assms c] by simp
  qed
  then show ?case by (simp add: fts_item.simps fts_children_def)
next
  case (Suc n)
  have "fts_item (Suc n) items c = fts_item n items c" if "c \<in> set (fts_children items it)" for c
    using Suc fts_child_longer [OF assms that] by simp
  then show ?case
    unfolding fts_item.simps [of "Suc (Suc n)"] fts_item.simps [of "Suc n" items it]
    by (simp add: fts_children_def [symmetric] cong: map_cong)
qed

text \<open>The entry as it is shown, by the entries under it as they are shown.\<close>

abbreviation full_item :: "ListViewItem list \<Rightarrow> ListViewItem \<Rightarrow> ListViewItem" where
  "full_item items \<equiv> fts_item (Suc (longest_name items)) items"

lemma full_item_eq:
  assumes "named_items items"
  shows "full_item items it =
    (if is_fts5 it then with_fts (map (full_item items) (fts_children items it)) it else it)"
proof -
  have "fts_item (longest_name items) items c = full_item items c" if "c \<in> set (fts_children items it)" for c
  proof -
    have "0 < length (data_name c)" using fts_child_longer [OF assms that] by linarith
    then have "longest_name items < longest_name items + length (data_name c)" by linarith
    from fts_item_fuel [OF assms this] show ?thesis ..
  qed
  then show ?thesis
    by (subst fts_item.simps) (simp add: fts_children_def [symmetric] cong: map_cong)
qed

section \<open>What the tree holds\<close>

function tree_data :: "ListViewItem \<Rightarrow> SidebarData list" where
  "tree_data it = liData it # concat (map tree_data (item_children it))"
  by pat_completeness auto
termination by (relation "measure size") (auto simp: size_child)

declare tree_data.simps [simp del]

definition tree_mset :: "ListViewItem \<Rightarrow> SidebarData multiset" where
  "tree_mset it = mset (tree_data it)"

lemma tree_mset_eq: "tree_mset it = add_mset (liData it) (\<Sum>c\<leftarrow>item_children it. tree_mset c)"
  unfolding tree_mset_def by (subst tree_data.simps) (simp add: mset_concat comp_def)

lemma tree_mset_full:
  assumes "named_items items"
  shows "tree_mset (full_item items it) = add_mset (liData it)
    (if is_fts5 it then (\<Sum>c\<leftarrow>fts_children items it. tree_mset (full_item items c))
     else (\<Sum>c\<leftarrow>item_children it. tree_mset c))"
proof -
  have "item_children (with_fts cs it) = cs" "liData (with_fts cs it) = liData it" for cs
    by (cases it; simp add: item_children_def)+
  then show ?thesis
    unfolding full_item_eq [OF assms, of it] by (subst tree_mset_eq) (simp add: comp_def)
qed

lemma suffixes_apart:
  assumes "n @ s = m @ t" and "s \<in> set ftsSuffix" and "t \<in> set ftsSuffix"
  shows "n = m \<and> s = t"
proof -
  have "list_all (\<lambda>s. list_all (\<lambda>t. s = t \<or> \<not> js_ends_with t s) ftsSuffix) ftsSuffix" by code_simp
  then have apart: "\<not> js_ends_with v u" if "u \<in> set ftsSuffix" "v \<in> set ftsSuffix" "u \<noteq> v" for u v
    using that by (auto simp: list_all_iff)
  have ends: "js_ends_with (us @ u) u" for us u by (simp add: js_ends_with_def)
  from assms(1) obtain us where "n = m @ us \<and> us @ s = t \<or> n @ us = m \<and> s = us @ t"
    by (auto simp: append_eq_append_conv2)
  then have "s = t" using apart [of s t] apart [of t s] assms(2,3) ends [of us s] ends [of us t] by auto
  then show ?thesis using assms(1) by simp
qed

lemma distinct_suffixed: "distinct ns \<Longrightarrow> distinct (concat (map (\<lambda>n. map ((@) n) ftsSuffix) ns))"
proof (induction ns)
  case (Cons n ns)
  have "distinct ftsSuffix" by code_simp
  then have "distinct (map ((@) n) ftsSuffix)" by (simp add: distinct_map inj_on_def)
  moreover have "set (map ((@) n) ftsSuffix) \<inter> set (concat (map (\<lambda>n. map ((@) n) ftsSuffix) ns)) = {}"
  proof (rule ccontr)
    assume "\<not> ?thesis"
    then obtain m s t where "m \<in> set ns" "s \<in> set ftsSuffix" "t \<in> set ftsSuffix" "n @ s = m @ t" by auto
    then show False using suffixes_apart [of n s m t] Cons.prems by auto
  qed
  ultimately show ?case using Cons by simp
qed simp

text \<open>The entries that are left out at the top are exactly those that stand below another.\<close>

definition all_fts_children :: "ListViewItem list \<Rightarrow> ListViewItem list" where
  "all_fts_children items = concat (map (fts_children items) (filter is_fts5 items))"

lemma fts_children_names:
  assumes "named_items items"
  shows "map data_name (fts_children items it)
    = filter (\<lambda>k. k \<in> set (map liName items)) (map ((@) (data_name it)) ftsSuffix)"
proof -
  have "map data_name (List.map_filter (\<lambda>suf. map_of (name_hash items) (n @ suf)) sufs)
      = filter (\<lambda>k. k \<in> set (map liName items)) (map ((@) n) sufs)" for n sufs
  proof (induction sufs)
    case (Cons suf sufs)
    have d: "distinct (map liName items)" and nm: "\<forall>it \<in> set items. liName it = data_name it"
      using assms by (auto simp: named_items_def list_all_iff)
    show ?case
    proof (cases "map_of (name_hash items) (n @ suf)")
      case None
      then have "n @ suf \<notin> liName ` set items"
      proof -
        have "liName c \<noteq> n @ suf" if "c \<in> set items" for c
          using that None name_hash_distinct [OF d, of "n @ suf" c] by auto
        then show ?thesis by (metis imageE)
      qed
      with None Cons show ?thesis by (simp add: map_filter_simps)
    next
      case (Some c)
      then have c: "c \<in> set items" "liName c = n @ suf" using name_hash_distinct [OF d, of "n @ suf"] by auto
      from c have "n @ suf \<in> liName ` set items" by (metis imageI)
      moreover from c have "data_name c = n @ suf" using nm by simp
      ultimately show ?thesis using Some Cons by (simp add: map_filter_simps)
    qed
  qed (simp add: map_filter_simps)
  then show ?thesis by (simp add: fts_children_def)
qed

lemma distinct_all_fts_children:
  assumes "named_items items"
  shows "distinct (all_fts_children items)"
proof -
  have "map data_name (all_fts_children items)
      = concat (map (\<lambda>it. filter (\<lambda>k. k \<in> set (map liName items)) (map ((@) (data_name it)) ftsSuffix))
          (filter is_fts5 items))"
    unfolding all_fts_children_def map_concat map_map comp_def fts_children_names [OF assms] ..
  also have "\<dots> = filter (\<lambda>k. k \<in> set (map liName items))
      (concat (map (\<lambda>n. map ((@) n) ftsSuffix) (map data_name (filter is_fts5 items))))"
    by (simp add: filter_concat comp_def)
  finally have names: "map data_name (all_fts_children items) = \<dots>" .
  have same: "map data_name items = map liName items" using assms by (simp add: named_items_def list_all_iff)
  have "distinct (map data_name items)" unfolding same using assms by (simp add: named_items_def)
  then have "distinct (map data_name (filter is_fts5 items))" by (rule distinct_map_filter)
  then have "distinct (map data_name (all_fts_children items))"
    unfolding names by (intro distinct_filter distinct_suffixed)
  then show ?thesis by (simp add: distinct_map)
qed

lemma all_fts_children_mset:
  assumes "named_items items"
  shows "mset (all_fts_children items) = mset (filter (\<lambda>it. data_name it \<in> set (fts_excludes items)) items)"
proof -
  have "distinct items" using assms by (auto simp: named_items_def distinct_map)
  moreover have "set (all_fts_children items) = set (filter (\<lambda>it. data_name it \<in> set (fts_excludes items)) items)"
    by (auto simp: all_fts_children_def fts_excludes_def fts_children_iff [OF assms] image_iff)
  ultimately show ?thesis
    using distinct_all_fts_children [OF assms] by (simp only: set_eq_iff_mset_eq_distinct [symmetric] distinct_filter)
qed

lemma sum_list_filter_split:
  "(\<Sum>x\<leftarrow>xs. f x) = (\<Sum>x\<leftarrow>filter P xs. f x) + (\<Sum>x\<leftarrow>filter (\<lambda>x. \<not> P x) xs. (f x :: 'a multiset))"
  by (induction xs) (auto simp: ac_simps)

lemma sum_list_if:
  "(\<Sum>x\<leftarrow>xs. if P x then f x else g x)
     = (\<Sum>x\<leftarrow>filter P xs. f x) + (\<Sum>x\<leftarrow>filter (\<lambda>x. \<not> P x) xs. (g x :: 'a multiset))"
  by (induction xs) (auto simp: ac_simps)

lemma sum_list_mset_eq: "mset xs = mset ys \<Longrightarrow> (\<Sum>x\<leftarrow>xs. f x) = (\<Sum>y\<leftarrow>ys. (f y :: 'a multiset))"
  by (metis mset_map sum_mset_sum_list)

lemma sum_list_add_mset:
  "(\<Sum>x\<leftarrow>xs. add_mset (d x) (f x)) = mset (map d xs) + (\<Sum>x\<leftarrow>xs. f x)"
  by (induction xs) auto

text \<open>All entries of a schema, counted over the tree.\<close>

lemma fts_tree_mset:
  assumes "named_items items"
  shows "(\<Sum>it\<leftarrow>groupByFtsTable items. tree_mset it)
    = mset (map liData items) + (\<Sum>it\<leftarrow>filter (\<lambda>it. \<not> is_fts5 it) items. \<Sum>c\<leftarrow>item_children it. tree_mset c)"
proof -
  let ?T = "\<lambda>it. tree_mset (full_item items it)" and ?ex = "\<lambda>it. data_name it \<in> set (fts_excludes items)"
  let ?top = "\<Sum>it\<leftarrow>filter (\<lambda>it. \<not> ?ex it) items. ?T it" and ?low = "\<Sum>it\<leftarrow>filter ?ex items. ?T it"
  have low: "(\<Sum>it\<leftarrow>filter is_fts5 items. \<Sum>c\<leftarrow>fts_children items it. ?T c) = ?low"
  proof -
    have "(\<Sum>it\<leftarrow>its. \<Sum>c\<leftarrow>fts_children items it. ?T c) = (\<Sum>c\<leftarrow>concat (map (fts_children items) its). ?T c)" for its
      by (induction its) simp_all
    then show ?thesis
      using sum_list_mset_eq [OF all_fts_children_mset [OF assms], of ?T] by (simp add: all_fts_children_def)
  qed
  have "?low + ?top = (\<Sum>it\<leftarrow>items. ?T it)" by (rule sum_list_filter_split [symmetric])
  also have "\<dots> = mset (map liData items)
      + (\<Sum>it\<leftarrow>items. if is_fts5 it then (\<Sum>c\<leftarrow>fts_children items it. ?T c) else (\<Sum>c\<leftarrow>item_children it. tree_mset c))"
  proof -
    have "map ?T items = map (\<lambda>it. add_mset (liData it)
        (if is_fts5 it then (\<Sum>c\<leftarrow>fts_children items it. ?T c) else (\<Sum>c\<leftarrow>item_children it. tree_mset c))) items"
      by (rule map_cong [OF refl]) (rule tree_mset_full [OF assms])
    then show ?thesis by (simp only: sum_list_add_mset)
  qed
  also have "(\<Sum>it\<leftarrow>items. if is_fts5 it then (\<Sum>c\<leftarrow>fts_children items it. ?T c) else (\<Sum>c\<leftarrow>item_children it. tree_mset c))
      = ?low + (\<Sum>it\<leftarrow>filter (\<lambda>it. \<not> is_fts5 it) items. \<Sum>c\<leftarrow>item_children it. tree_mset c)"
    by (simp only: sum_list_if low)
  finally have "?top = mset (map liData items)
      + (\<Sum>it\<leftarrow>filter (\<lambda>it. \<not> is_fts5 it) items. \<Sum>c\<leftarrow>item_children it. tree_mset c)"
    by (simp add: ac_simps)
  then show ?thesis by (simp add: groupByFtsTable_def comp_def)
qed

section \<open>The entries of a schema\<close>

definition trigger_table :: "DatabaseSchemaItem \<Rightarrow> string" where
  "trigger_table s = (case itemTableName s of None \<Rightarrow> [] | Some t \<Rightarrow> t)"

definition full_text :: "DatabaseSchemaItem \<Rightarrow> bool" where
  "full_text s = (case itemTableSchema s of None \<Rightarrow> False | Some ts \<Rightarrow> tsFts5 ts \<noteq> None)"

text \<open>A trigger is shown when its table is an ordinary table of the schema; all else is shown.\<close>

definition shown_in :: "DatabaseSchemaItem list \<Rightarrow> DatabaseSchemaItem \<Rightarrow> bool" where
  "shown_in tables s =
     (if itemType s \<noteq> KindTrigger then True
      else list_ex (\<lambda>t. itemType t = KindTable \<and> itemName t = trigger_table s \<and> \<not> full_text t) tables)"

definition breaks_list :: "DatabaseSchemaItem \<Rightarrow> bool" where
  "breaks_list s =
     (case itemType s of
        KindTrigger \<Rightarrow> trigger_table s \<in> set object_prototype
      | KindTable \<Rightarrow> itemName s \<in> set object_prototype
      | _ \<Rightarrow> False)"

lemma list_item_simps [simp]:
  "liName (list_item s) = itemName s" "data_name (list_item s) = itemName s" "liData (list_item s) = ItemData s"
  "is_kind k (list_item s) = (itemType s = k)" "is_fts5 (list_item s) = full_text s"
  "data_table (list_item s) = trigger_table s" "item_children (list_item s) = []"
  by (simp_all add: list_item_def full_text_def trigger_table_def item_children_def)

lemma attached_children:
  "item_children (attached (map list_item ts) (list_item s))
     = (if itemType s = KindTable then map list_item (filter (\<lambda>b. trigger_table b = itemName s) ts) else [])"
proof -
  have "item_children (with_children cs it) = cs" for cs it by (cases it) (simp add: item_children_def)
  then show ?thesis by (simp add: attached_def Let_def filter_map comp_def)
qed

lemma tree_mset_leaf: "tree_mset (list_item s) = {#ItemData s#}"
  by (subst tree_mset_eq) simp

lemma list_broken:
  "list_ex proto_table (filter (is_kind KindTrigger) (map list_item tables))
     \<or> list_ex proto_name (filter (\<lambda>it. \<not> is_kind KindTrigger it) (map list_item tables))
   \<longleftrightarrow> list_ex breaks_list tables"
proof (induction tables)
  case (Cons t tables)
  then show ?case by (cases "itemType t") (auto simp: proto_table_def proto_name_def breaks_list_def)
qed simp

text \<open>The triggers under the tables that keep them.\<close>

lemma shown_triggers:
  assumes "distinct (map itemName (filter (\<lambda>s. itemType s \<noteq> KindTrigger) tables))"
  shows "(\<Sum>t\<leftarrow>filter (\<lambda>t. itemType t = KindTable \<and> \<not> full_text t) tables.
            mset (filter (\<lambda>b. trigger_table b = itemName t) (filter (\<lambda>s. itemType s = KindTrigger) tables)))
    = mset (filter (\<lambda>s. itemType s = KindTrigger \<and> shown_in tables s) tables)"
proof -
  let ?ts = "filter (\<lambda>s. itemType s = KindTrigger) tables"
  let ?ks = "map itemName (filter (\<lambda>t. itemType t = KindTable \<and> \<not> full_text t) tables)"
  have "filter (\<lambda>t. itemType t = KindTable \<and> \<not> full_text t) tables
      = filter (\<lambda>t. itemType t = KindTable \<and> \<not> full_text t) (filter (\<lambda>s. itemType s \<noteq> KindTrigger) tables)"
    by (auto intro: filter_cong)
  then have "distinct ?ks" using distinct_map_filter [OF assms] by simp
  from filter_by_key [OF this, of trigger_table ?ts]
  have "(\<Sum>t\<leftarrow>filter (\<lambda>t. itemType t = KindTable \<and> \<not> full_text t) tables.
      mset (filter (\<lambda>b. trigger_table b = itemName t) ?ts)) = mset (filter (\<lambda>b. trigger_table b \<in> set ?ks) ?ts)"
    by (simp add: comp_def)
  also have "filter (\<lambda>b. trigger_table b \<in> set ?ks) ?ts
      = filter (\<lambda>s. itemType s = KindTrigger \<and> shown_in tables s) tables"
    by (auto simp: shown_in_def list_ex_iff image_iff intro!: filter_cong)
  finally show ?thesis .
qed

lemma image_mset_sum_list: "(\<Sum>x\<leftarrow>xs. image_mset g (f x)) = image_mset g (\<Sum>x\<leftarrow>xs. f x)"
  by (induction xs) simp_all

lemma sum_list_conditional:
  "(\<Sum>x\<leftarrow>xs. if P x then f x else {#}) = (\<Sum>x\<leftarrow>filter P xs. (f x :: 'a multiset))"
  by (induction xs) auto

text \<open>The two halves of the tree: what stands under the ordinary tables, and all else.\<close>

lemma attached_kids:
  "(\<Sum>c\<leftarrow>item_children (attached (map list_item ts) (list_item t)). tree_mset c)
     = (if itemType t = KindTable then image_mset ItemData (mset (filter (\<lambda>b. trigger_table b = itemName t) ts))
        else {#})"
proof -
  have "(\<Sum>b\<leftarrow>bs. tree_mset (list_item b)) = image_mset ItemData (mset bs)" for bs
    by (induction bs) (simp_all add: tree_mset_leaf)
  then show ?thesis by (simp add: attached_children comp_def)
qed

abbreviation schema_triggers :: "DatabaseSchemaItem list \<Rightarrow> DatabaseSchemaItem list" where
  "schema_triggers tables \<equiv> filter (\<lambda>s. itemType s = KindTrigger) tables"

abbreviation schema_tables :: "DatabaseSchemaItem list \<Rightarrow> DatabaseSchemaItem list" where
  "schema_tables tables \<equiv> filter (\<lambda>s. itemType s \<noteq> KindTrigger) tables"

definition table_items :: "DatabaseSchemaItem list \<Rightarrow> ListViewItem list" where
  "table_items tables =
     map (\<lambda>s. attached (map list_item (schema_triggers tables)) (list_item s)) (schema_tables tables)"

lemma group_of_schema:
  "groupTriggerByTable (map list_item tables)
     = (if list_ex breaks_list tables then Inl not_iterable else Inr (table_items tables))"
  using groupTriggerByTable_eq [of "map list_item tables"] list_broken [of tables]
  by (simp add: Let_def filter_map comp_def table_items_def)

lemma triggers_below:
  assumes "distinct (map itemName (schema_tables tables))"
  shows "(\<Sum>it\<leftarrow>filter (\<lambda>it. \<not> is_fts5 it) (table_items tables). \<Sum>c\<leftarrow>item_children it. tree_mset c)
    = mset (map ItemData (filter (\<lambda>s. itemType s = KindTrigger \<and> shown_in tables s) tables))"
proof -
  let ?kids = "\<lambda>t. mset (filter (\<lambda>b. trigger_table b = itemName t) (schema_triggers tables))"
  let ?keep = "\<lambda>t. itemType t = KindTable \<and> \<not> full_text t"
  have "(\<Sum>it\<leftarrow>filter (\<lambda>it. \<not> is_fts5 it) (table_items tables). \<Sum>c\<leftarrow>item_children it. tree_mset c)
      = (\<Sum>t\<leftarrow>filter (\<lambda>t. \<not> full_text t) (schema_tables tables).
           if itemType t = KindTable then image_mset ItemData (?kids t) else {#})"
    by (simp add: table_items_def filter_map comp_def attached_kids)
  also have "\<dots> = (\<Sum>t\<leftarrow>filter ?keep tables. image_mset ItemData (?kids t))"
    unfolding sum_list_conditional by (auto intro!: arg_cong [of _ _ sum_list] map_cong filter_cong)
  also have "\<dots> = image_mset ItemData (\<Sum>t\<leftarrow>filter ?keep tables. ?kids t)"
    by (rule image_mset_sum_list)
  finally show ?thesis unfolding shown_triggers [OF assms] by simp
qed

lemma shown_split:
  "mset (filter (shown_in tables) tables)
     = mset (schema_tables tables) + mset (filter (\<lambda>s. itemType s = KindTrigger \<and> shown_in tables s) tables)"
proof -
  have "mset (filter (shown_in tables) xs)
      = mset (schema_tables xs) + mset (filter (\<lambda>s. itemType s = KindTrigger \<and> shown_in tables s) xs)" for xs
    by (induction xs) (auto simp: shown_in_def)
  then show ?thesis .
qed

text \<open>
  C40. The tree of the sidebar holds every table and view of a schema exactly once, also when tables
  of a full text index are moved under it, and every trigger exactly once whose table is an
  ordinary table of the schema.  The triggers of a view, or of a full text index, are not shown
  at all.  A table with a name of \<open>Object.prototype\<close>, such as \<open>constructor\<close>, makes the whole list throw.
\<close>

theorem sidebar_shows_schema:
  assumes "distinct (map itemName (filter (\<lambda>s. itemType s \<noteq> KindTrigger) tables))"
  shows "if list_ex breaks_list tables then schema_entry localeLe (s, tables) = Inl not_iterable
    else \<exists>it. schema_entry localeLe (s, tables) = Inr it
      \<and> mset (tree_data it) = add_mset (SchemaData s) (mset (map ItemData (filter (shown_in tables) tables)))"
proof (cases "list_ex breaks_list tables")
  case False
  let ?it = "ListViewItem s s (SchemaData s) None (Some (sortTable localeLe (groupByFtsTable (table_items tables)))) None"
  have named: "named_items (table_items tables)"
    using assms by (simp add: table_items_def named_items_def list_all_iff comp_def)
  have datas: "map liData (table_items tables) = map ItemData (schema_tables tables)"
    by (simp add: table_items_def comp_def)
  have top: "(\<Sum>it\<leftarrow>groupByFtsTable (table_items tables). tree_mset it)
      = mset (map ItemData (filter (shown_in tables) tables))"
    unfolding fts_tree_mset [OF named] triggers_below [OF assms] datas
    by (simp only: mset_map shown_split image_mset_union)
  have "schema_entry localeLe (s, tables) = Inr ?it"
    using group_of_schema False by (simp add: schema_entry_def prepareListViewItem_def)
  moreover have "mset (tree_data ?it) = add_mset (SchemaData s)
      (\<Sum>it\<leftarrow>sortTable localeLe (groupByFtsTable (table_items tables)). tree_mset it)"
    by (simp add: tree_mset_eq [unfolded tree_mset_def, of ?it] tree_mset_def item_children_def)
  ultimately show ?thesis
    using False top sum_list_mset_eq [OF mset_sortTable, of tree_mset localeLe] by simp
qed (use group_of_schema in \<open>simp add: schema_entry_def prepareListViewItem_def\<close>)

definition example_item :: "TableKind \<Rightarrow> string \<Rightarrow> string option \<Rightarrow> bool \<Rightarrow> DatabaseSchemaItem" where
  "example_item k n t fts = \<lparr>itemType = k, itemName = n, itemSchemaName = ''main'', itemTableName = t,
     itemTableSchema = (if fts then Some \<lparr>tsColumns = [], tsPk = [], tsAutoIncrement = False,
        tsSchemaName = ''main'', tsTableName = Some n, tsConstraints = None, tsCreateScript = None,
        tsFts5 = Some \<lparr>ftsContent = None, ftsContentRowId = None\<rparr>, tsType = None, tsWithoutRowId = None,
        tsStrict = None, tsSizeInByte = None\<rparr> else None)\<rparr>"

definition example_sidebar :: "DatabaseSchemaItem list" where
  "example_sidebar = [example_item KindTable ''notes'' None False, example_item KindTable ''search'' None True,
     example_item KindTable ''search_data'' None False, example_item KindView ''recent'' None False,
     example_item KindTrigger ''stamp'' (Some ''notes'') False, example_item KindTrigger ''put'' (Some ''recent'') False]"

text \<open>The trigger of the view is lost.\<close>

theorem sidebar_shows_schema_witness:
  "\<exists>it. schema_entry (\<lambda>_ _. True) (''main'', example_sidebar) = Inr it
     \<and> mset (tree_data it) = add_mset (SchemaData ''main'') (mset (map ItemData (take 5 example_sidebar)))"
proof -
  have "distinct (map itemName (filter (\<lambda>s. itemType s \<noteq> KindTrigger) example_sidebar))" by code_simp
  moreover have "\<not> list_ex breaks_list example_sidebar" by code_simp
  moreover have "filter (shown_in example_sidebar) example_sidebar = take 5 example_sidebar" by code_simp
  ultimately show ?thesis using sidebar_shows_schema [of example_sidebar "\<lambda>_ _. True" "''main''"] by simp
qed

section \<open>What a search shows\<close>

text \<open>
  While no entry is expanded, a search shows the top entries that match or hold a match, but not
  the match below.
\<close>

lemma closed_hits_hidden:
  "list_all (\<lambda>it. liKey it \<notin> expanded) items \<Longrightarrow>
   renderList f expanded depth items = map (Pair depth) (filter (matchFilter f) items)"
  by (induction items) simp_all

end
