(* ===== verification/MassDrop.thy ===== *)
theory MassDrop
  imports Sidebar
begin

text \<open>
  The tab that drops or empties several tables, \<open>components/gui/tabs/mass-drop-table.tsx\<close>, with the
  selection of \<open>components/selectable-table.tsx\<close>: the state of the tab, the operations that were
  confirmed and still run, and every event.  That a dialog keeps the rest of the page from being
  clicked is a matter of a package and not relied on.
\<close>

section \<open>State\<close>

datatype MassOperation = DropTables | EmptyTables

record MassDropTab =
  mdItems :: "DatabaseSchemaItem list"
  mdSelected :: "DatabaseSchemaItem list"
  mdStatus :: "string obj"
  mdOperation :: "MassOperation option"
  mdCompleted :: bool
  mdConfirming :: bool
  mdConfirmText :: string
  mdOnlySelected :: bool

text \<open>A call of \<open>performOperation\<close>: what it was called with, the item it is at, and whether it awaits.\<close>

record MassRun =
  rnOperation :: MassOperation
  rnSchema :: string
  rnItems :: "DatabaseSchemaItem list"
  rnNext :: nat
  rnStatus :: "string obj"
  rnAnswer :: "bool option"

record 'w MassDrop =
  mdTab :: MassDropTab
  mdRuns :: "MassRun list"
  mdCurrent :: string
  mdWorld :: 'w

definition mountMassDrop ::
  "(string \<Rightarrow> string \<Rightarrow> bool) \<Rightarrow> DatabaseSchemas \<Rightarrow> string \<Rightarrow> MassDropTab result" where
  "mountMassDrop localeLe schema selectedSchema =
     (case map_of schema selectedSchema of
        None \<Rightarrow> Inl (TypeError ''Cannot read properties of undefined (reading 'sort')'')
      | Some items \<Rightarrow> Inr
          \<lparr>mdItems = sort_by (\<lambda>a b. localeLe (itemName a) (itemName b)) items, mdSelected = [],
           mdStatus = [], mdOperation = None, mdCompleted = False, mdConfirming = False,
           mdConfirmText = [], mdOnlySelected = False\<rparr>)"

section \<open>Selecting\<close>

definition is_selected :: "MassDropTab \<Rightarrow> DatabaseSchemaItem \<Rightarrow> bool" where
  "is_selected t it = list_ex (\<lambda>s. itemName s = itemName it) (mdSelected t)"

definition disabledSelection :: "MassDropTab \<Rightarrow> bool" where
  "disabledSelection t = (\<not> mdConfirming t \<and> mdOperation t \<noteq> None)"

definition set_selected :: "DatabaseSchemaItem list \<Rightarrow> MassDropTab \<Rightarrow> MassDropTab" where
  "set_selected xs t =
     t\<lparr>mdSelected := xs, mdOnlySelected := (if xs = [] then False else mdOnlySelected t)\<rparr>"

definition toggleAllChecked :: "MassDropTab \<Rightarrow> MassDropTab" where
  "toggleAllChecked t =
     (if disabledSelection t then t
      else if length (mdItems t) = length (mdSelected t) then set_selected [] t
      else set_selected (mdItems t) t)"

definition shown_row :: "MassDropTab \<Rightarrow> DatabaseSchemaItem \<Rightarrow> bool" where
  "shown_row t it = (is_selected t it \<or> \<not> (disabledSelection t \<or> mdOnlySelected t))"

definition clickRow :: "nat \<Rightarrow> MassDropTab \<Rightarrow> MassDropTab" where
  "clickRow i t =
     (if disabledSelection t \<or> length (mdItems t) \<le> i then t
      else let it = mdItems t ! i in
        if \<not> shown_row t it then t
        else if is_selected t it
        then set_selected (filter (\<lambda>s. itemName s \<noteq> itemName it) (mdSelected t)) t
        else set_selected (mdSelected t @ [it]) t)"

section \<open>Confirming\<close>

text \<open>The dialog is made anew, with an empty text, whenever it is opened.\<close>

definition operationClicked :: "MassOperation \<Rightarrow> MassDropTab \<Rightarrow> MassDropTab" where
  "operationClicked op t =
     (if mdSelected t = [] \<or> mdCompleted t then t
      else t\<lparr>mdConfirmText := (if mdConfirming t then mdConfirmText t else []), mdConfirming := True,
             mdOperation := Some op\<rparr>)"

definition closeDialog :: "MassDropTab \<Rightarrow> MassDropTab" where
  "closeDialog t = (if mdConfirming t then t\<lparr>mdConfirming := False, mdOperation := None\<rparr> else t)"

definition typeConfirm :: "string \<Rightarrow> MassDropTab \<Rightarrow> MassDropTab" where
  "typeConfirm s t = (if mdConfirming t then t\<lparr>mdConfirmText := s\<rparr> else t)"

text \<open>The button and the Enter key.\<close>

definition confirmed :: "'w MassDrop \<Rightarrow> 'w MassDrop" where
  "confirmed m =
     (let t = mdTab m in
      if \<not> mdConfirming t \<or> mdConfirmText t \<noteq> ''confirm'' then m
      else case mdOperation t of
          None \<Rightarrow> m\<lparr>mdTab := t\<lparr>mdConfirming := False\<rparr>\<rparr>
        | Some op \<Rightarrow>
            m\<lparr>mdTab := t\<lparr>mdConfirming := False, mdCompleted := (mdCompleted t \<or> mdSelected t = [])\<rparr>,
              mdRuns := mdRuns m @
                [\<lparr>rnOperation = op, rnSchema = mdCurrent m, rnItems = mdSelected t, rnNext = 0,
                  rnStatus = [], rnAnswer = None\<rparr>]\<rparr>)"

section \<open>Performing\<close>

definition mass_call ::
  "Dialect \<Rightarrow> 'w Connection \<Rightarrow> MassOperation \<Rightarrow> string \<Rightarrow> string \<Rightarrow> ('w, unit) io" where
  "mass_call d db op schemaName tableName =
     (case op of DropTables \<Rightarrow> dropTable d db schemaName tableName
      | EmptyTables \<Rightarrow> emptyTable d db schemaName tableName)"

fun begin_text :: "MassOperation \<Rightarrow> string" where
  "begin_text DropTables = ''Dropping...''"
| "begin_text EmptyTables = ''Emptying...''"

fun end_text :: "MassOperation \<Rightarrow> bool \<Rightarrow> string" where
  "end_text _ False = ''Failed''"
| "end_text DropTables True = ''Dropped''"
| "end_text EmptyTables True = ''Emptied''"

definition set_run :: "nat \<Rightarrow> MassRun \<Rightarrow> string \<Rightarrow> string \<Rightarrow> 'w MassDrop \<Rightarrow> 'w MassDrop" where
  "set_run k r name status m =
     (let st = obj_set name status (rnStatus r) in
      m\<lparr>mdRuns := (mdRuns m)[k := r\<lparr>rnStatus := st\<rparr>], mdTab := (mdTab m)\<lparr>mdStatus := st\<rparr>\<rparr>)"

text \<open>The loop up to the next \<open>await\<close>.\<close>

definition sendItem :: "Dialect \<Rightarrow> 'w Connection \<Rightarrow> nat \<Rightarrow> 'w MassDrop \<Rightarrow> 'w MassDrop" where
  "sendItem d db k m =
     (if length (mdRuns m) \<le> k then m
      else let r = mdRuns m ! k in
        if rnAnswer r \<noteq> None \<or> length (rnItems r) \<le> rnNext r then m
        else let name = itemName (rnItems r ! rnNext r);
                 (res, w) = mass_call d db (rnOperation r) (rnSchema r) name (mdWorld m)
             in set_run k (r\<lparr>rnAnswer := Some (\<not> isl res)\<rparr>) name (begin_text (rnOperation r)) (m\<lparr>mdWorld := w\<rparr>))"

text \<open>The loop after an \<open>await\<close>, and the end of the loop.\<close>

definition itemAnswered :: "nat \<Rightarrow> 'w MassDrop \<Rightarrow> 'w MassDrop" where
  "itemAnswered k m =
     (if length (mdRuns m) \<le> k then m
      else let r = mdRuns m ! k in
        case rnAnswer r of
          None \<Rightarrow> m
        | Some ok \<Rightarrow>
            let name = itemName (rnItems r ! rnNext r);
                m1 = set_run k (r\<lparr>rnAnswer := None, rnNext := Suc (rnNext r)\<rparr>) name (end_text (rnOperation r) ok) m
            in if Suc (rnNext r) = length (rnItems r)
               then m1\<lparr>mdTab := (mdTab m1)\<lparr>mdCompleted := True\<rparr>\<rparr> else m1)"

section \<open>Events\<close>

datatype MassEvent =
    ToggleAll
  | ClickRow nat
  | OnlySelected bool
  | ClickOperation MassOperation
  | CloseDialog
  | TypeConfirm string
  | Confirm
  | SwitchCurrent string
  | SendItem nat
  | ItemAnswered nat

definition map_tab :: "(MassDropTab \<Rightarrow> MassDropTab) \<Rightarrow> 'w MassDrop \<Rightarrow> 'w MassDrop" where
  "map_tab f m = m\<lparr>mdTab := f (mdTab m)\<rparr>"

fun mass_step :: "Dialect \<Rightarrow> 'w Connection \<Rightarrow> MassEvent \<Rightarrow> 'w MassDrop \<Rightarrow> 'w MassDrop" where
  "mass_step d db ToggleAll m = map_tab toggleAllChecked m"
| "mass_step d db (ClickRow i) m = map_tab (clickRow i) m"
| "mass_step d db (OnlySelected b) m =
     map_tab (\<lambda>t. if mdSelected t = [] \<or> disabledSelection t then t else t\<lparr>mdOnlySelected := b\<rparr>) m"
| "mass_step d db (ClickOperation op) m = map_tab (operationClicked op) m"
| "mass_step d db CloseDialog m = map_tab closeDialog m"
| "mass_step d db (TypeConfirm s) m = map_tab (typeConfirm s) m"
| "mass_step d db Confirm m = confirmed m"
| "mass_step d db (SwitchCurrent s) m = m\<lparr>mdCurrent := s\<rparr>"
| "mass_step d db (SendItem k) m = sendItem d db k m"
| "mass_step d db (ItemAnswered k) m = itemAnswered k m"

definition mass_run :: "Dialect \<Rightarrow> 'w Connection \<Rightarrow> MassEvent list \<Rightarrow> 'w MassDrop \<Rightarrow> 'w MassDrop" where
  "mass_run d db es m = fold (mass_step d db) es m"

end
