(* ===== verification/MassDropFacts.thy ===== *)
theory MassDropFacts
  imports MassDrop "HOL-Library.Sublist"
begin

text \<open>
  Facts about dropping and emptying several tables: nothing is sent before somebody has typed
  \<open>confirm\<close>, and what is sent is what the confirmed operations have got to.
\<close>

section \<open>What is sent\<close>

type_synonym mass_target = "MassOperation \<times> string \<times> string"

definition target :: "MassRun \<Rightarrow> DatabaseSchemaItem \<Rightarrow> mass_target" where
  "target r s = (rnOperation r, rnSchema r, itemName s)"

definition run_sent :: "MassRun \<Rightarrow> mass_target list" where
  "run_sent r = map (target r) (take (rnNext r + (if rnAnswer r = None then 0 else 1)) (rnItems r))"

definition send_all :: "Dialect \<Rightarrow> 'w Connection \<Rightarrow> mass_target list \<Rightarrow> 'w \<Rightarrow> 'w" where
  "send_all d db ts w = fold (\<lambda>(op, s, n) w. snd (mass_call d db op s n w)) ts w"

definition run_ok :: "MassDropTab \<Rightarrow> MassRun \<Rightarrow> bool" where
  "run_ok t r = (set (rnItems r) \<subseteq> set (mdItems t)
     \<and> rnNext r + (if rnAnswer r = None then 0 else 1) \<le> length (rnItems r))"

definition mass_ok :: "Dialect \<Rightarrow> 'w Connection \<Rightarrow> 'w \<Rightarrow> DatabaseSchemaItem list \<Rightarrow> 'w MassDrop \<Rightarrow> bool" where
  "mass_ok d db w0 items m =
     ((\<exists>sent. mdWorld m = send_all d db sent w0 \<and> mset sent = (\<Sum>r\<leftarrow>mdRuns m. mset (run_sent r))
         \<and> list_all (\<lambda>r. subseq (run_sent r) sent) (mdRuns m))
      \<and> mdItems (mdTab m) = items \<and> set (mdSelected (mdTab m)) \<subseteq> set items
      \<and> list_all (run_ok (mdTab m)) (mdRuns m))"

lemma run_ok_items: "mdItems t = mdItems u \<Longrightarrow> run_ok t = run_ok u"
  by (simp add: run_ok_def fun_eq_iff)

lemma target_update [simp]:
  "target (r\<lparr>rnAnswer := a\<rparr>) = target r" "target (r\<lparr>rnStatus := st\<rparr>) = target r" "target (r\<lparr>rnNext := n\<rparr>) = target r"
  by (simp_all add: target_def fun_eq_iff)

lemma sum_list_change:
  fixes f :: "'b \<Rightarrow> 'a multiset"
  assumes "k < length xs"
  shows "(\<Sum>x\<leftarrow>xs[k := y]. f x) + f (xs ! k) = (\<Sum>x\<leftarrow>xs. f x) + f y"
proof -
  have "(\<Sum>x\<leftarrow>xs. f x) = (\<Sum>x\<leftarrow>take k xs. f x) + f (xs ! k) + (\<Sum>x\<leftarrow>drop (Suc k) xs. f x)"
    by (subst id_take_nth_drop [OF assms]) (simp add: add.assoc)
  then show ?thesis
    using assms by (simp add: upd_conv_take_nth_drop ac_simps)
qed

text \<open>Events of the tab keep the items, and select among them.\<close>

lemma tab_events:
  "mdItems (toggleAllChecked t) = mdItems t" "mdItems (clickRow i t) = mdItems t"
  "mdItems (operationClicked op t) = mdItems t" "mdItems (closeDialog t) = mdItems t"
  "mdItems (typeConfirm s t) = mdItems t"
  "mdSelected (operationClicked op t) = mdSelected t" "mdSelected (closeDialog t) = mdSelected t"
  "mdSelected (typeConfirm s t) = mdSelected t"
  by (simp_all add: toggleAllChecked_def clickRow_def operationClicked_def closeDialog_def typeConfirm_def
      set_selected_def Let_def)

lemma toggle_selected: "set (mdSelected t) \<subseteq> set (mdItems t) \<Longrightarrow> set (mdSelected (toggleAllChecked t)) \<subseteq> set (mdItems t)"
  by (simp add: toggleAllChecked_def set_selected_def)

lemma click_selected: "set (mdSelected t) \<subseteq> set (mdItems t) \<Longrightarrow> set (mdSelected (clickRow i t)) \<subseteq> set (mdItems t)"
  by (auto simp: clickRow_def set_selected_def Let_def)

lemma map_tab_ok:
  "mass_ok d db w0 items m \<Longrightarrow> mdItems (f (mdTab m)) = mdItems (mdTab m) \<Longrightarrow>
   set (mdSelected (f (mdTab m))) \<subseteq> set items \<Longrightarrow> mass_ok d db w0 items (map_tab f m)"
  using run_ok_items [of "f (mdTab m)" "mdTab m"] by (simp add: mass_ok_def map_tab_def)

lemma confirmed_ok:
  assumes "mass_ok d db w0 items m"
  shows "mass_ok d db w0 items (confirmed m)"
proof (cases "mdConfirming (mdTab m) \<and> mdConfirmText (mdTab m) = ''confirm''")
  case True
  show ?thesis
  proof (cases "mdOperation (mdTab m)")
    case None
    then show ?thesis
      using True assms run_ok_items [of "(mdTab m)\<lparr>mdConfirming := False\<rparr>" "mdTab m"]
      by (simp add: confirmed_def mass_ok_def Let_def)
  next
    case (Some op)
    then show ?thesis
      using True assms run_ok_items [of "(mdTab m)\<lparr>mdConfirming := False,
        mdCompleted := (mdCompleted (mdTab m) \<or> mdSelected (mdTab m) = [])\<rparr>" "mdTab m"]
      by (simp add: confirmed_def mass_ok_def Let_def run_ok_def run_sent_def)
  qed
next
  case False
  then have "confirmed m = m" by (auto simp: confirmed_def Let_def)
  with assms show ?thesis by simp
qed

lemma set_run_fields:
  "mdRuns (set_run k r n s m) = (mdRuns m)[k := r\<lparr>rnStatus := obj_set n s (rnStatus r)\<rparr>]"
  "mdWorld (set_run k r n s m) = mdWorld m"
  "mdTab (set_run k r n s m) = (mdTab m)\<lparr>mdStatus := obj_set n s (rnStatus r)\<rparr>"
  by (simp_all add: set_run_def Let_def)

lemma run_ok_status: "run_ok (t\<lparr>mdStatus := st\<rparr>) = run_ok t" "run_ok (t\<lparr>mdCompleted := b\<rparr>) = run_ok t"
  by (simp_all add: run_ok_def fun_eq_iff)

lemma list_all_update: "list_all P xs \<Longrightarrow> P y \<Longrightarrow> list_all P (xs[k := y])"
  by (auto simp: list_all_iff dest!: set_update_subset_insert [THEN subsetD])

lemma send_ok:
  assumes "mass_ok d db w0 items m"
  shows "mass_ok d db w0 items (sendItem d db k m)"
proof (cases "length (mdRuns m) \<le> k \<or> rnAnswer (mdRuns m ! k) \<noteq> None
    \<or> length (rnItems (mdRuns m ! k)) \<le> rnNext (mdRuns m ! k)")
  case True
  then have "sendItem d db k m = m" by (auto simp: sendItem_def Let_def)
  with assms show ?thesis by simp
next
  case False
  define r where "r = mdRuns m ! k"
  define name where "name = itemName (rnItems r ! rnNext r)"
  obtain res w where call: "mass_call d db (rnOperation r) (rnSchema r) name (mdWorld m) = (res, w)"
    by fastforce
  let ?r = "r\<lparr>rnAnswer := Some (\<not> isl res), rnStatus := obj_set name (begin_text (rnOperation r)) (rnStatus r)\<rparr>"
  have k: "k < length (mdRuns m)" "rnAnswer r = None" "rnNext r < length (rnItems r)"
    using False by (simp_all add: r_def)
  have step: "sendItem d db k m =
      m\<lparr>mdRuns := (mdRuns m)[k := ?r], mdWorld := w, mdTab := (mdTab m)\<lparr>mdStatus := rnStatus ?r\<rparr>\<rparr>"
    using k call by (simp add: sendItem_def set_run_def Let_def r_def name_def)
  obtain sent where sent: "mdWorld m = send_all d db sent w0" "mset sent = (\<Sum>r\<leftarrow>mdRuns m. mset (run_sent r))"
    and seqs: "list_all (\<lambda>r. subseq (run_sent r) sent) (mdRuns m)"
    using assms by (auto simp: mass_ok_def)
  let ?t = "(rnOperation r, rnSchema r, name)"
  have more: "run_sent ?r = run_sent r @ [?t]"
    using k by (simp add: run_sent_def take_Suc_conv_app_nth) (simp add: target_def name_def)
  have "subseq (run_sent r) sent" using seqs k(1) by (simp add: list_all_length r_def)
  then have "subseq (run_sent ?r) (sent @ [?t])" unfolding more by (rule list_emb_append_mono) simp
  moreover have "list_all (\<lambda>r. subseq (run_sent r) (sent @ [?t])) (mdRuns m)"
    using seqs by (auto simp: list_all_iff intro: list_emb_append2)
  ultimately have "list_all (\<lambda>r. subseq (run_sent r) (sent @ [?t])) ((mdRuns m)[k := ?r])"
    by (simp only: list_all_update)
  moreover from more have "mset (run_sent ?r) = add_mset ?t (mset (run_sent r))" by simp
  then have "mset (sent @ [?t]) = (\<Sum>r\<leftarrow>(mdRuns m)[k := ?r]. mset (run_sent r))"
    using sum_list_change [OF k(1), where f = "\<lambda>r. mset (run_sent r)" and y = ?r] sent(2) by (simp add: r_def)
  moreover have "w = send_all d db (sent @ [?t]) w0"
    using call sent(1) by (simp add: send_all_def)
  moreover have "run_ok (mdTab m) ?r"
  proof -
    have "run_ok (mdTab m) r" using assms k(1) by (simp add: mass_ok_def list_all_length r_def)
    then show ?thesis using k by (simp add: run_ok_def)
  qed
  ultimately show ?thesis
    using assms unfolding step mass_ok_def by (auto simp: run_ok_status list_all_update intro!: exI [of _ "sent @ [?t]"])
qed

lemma answered_ok:
  assumes "mass_ok d db w0 items m"
  shows "mass_ok d db w0 items (itemAnswered k m)"
proof (cases "length (mdRuns m) \<le> k \<or> rnAnswer (mdRuns m ! k) = None")
  case True
  then have "itemAnswered k m = m" by (auto simp: itemAnswered_def Let_def)
  with assms show ?thesis by simp
next
  case False
  define r where "r = mdRuns m ! k"
  obtain ok where ok: "rnAnswer r = Some ok" and k: "k < length (mdRuns m)" using False by (auto simp: r_def)
  define st where "st = obj_set (itemName (rnItems r ! rnNext r)) (end_text (rnOperation r) ok) (rnStatus r)"
  let ?r = "r\<lparr>rnAnswer := None, rnNext := Suc (rnNext r), rnStatus := st\<rparr>"
  have runs: "mdRuns (itemAnswered k m) = (mdRuns m)[k := ?r]" and same: "mdWorld (itemAnswered k m) = mdWorld m"
    "mdItems (mdTab (itemAnswered k m)) = mdItems (mdTab m)" "mdSelected (mdTab (itemAnswered k m)) = mdSelected (mdTab m)"
    using k ok by (simp_all add: itemAnswered_def set_run_def Let_def r_def st_def)
  have same_sent: "run_sent ?r = run_sent r" using ok by (simp add: run_sent_def)
  then have seqs: "list_all (\<lambda>r. subseq (run_sent r) sent) (mdRuns m)
      \<Longrightarrow> list_all (\<lambda>r. subseq (run_sent r) sent) ((mdRuns m)[k := ?r])" for sent
    using k by (intro list_all_update) (simp_all add: list_all_length r_def)
  from same_sent have sums: "(\<Sum>r\<leftarrow>(mdRuns m)[k := ?r]. mset (run_sent r)) = (\<Sum>r\<leftarrow>mdRuns m. mset (run_sent r))"
    using sum_list_change [OF k, where f = "\<lambda>r. mset (run_sent r)" and y = ?r] by (simp add: r_def)
  have "run_ok (mdTab m) r" using assms k by (simp add: mass_ok_def list_all_length r_def)
  then have "run_ok (mdTab m) ?r" using ok by (simp add: run_ok_def)
  then show ?thesis
    using assms run_ok_items [OF same(2)] seqs unfolding mass_ok_def runs same sums
    by (auto simp: list_all_update)
qed

lemma step_ok:
  assumes "mass_ok d db w0 items m"
  shows "mass_ok d db w0 items (mass_step d db e m)"
proof -
  have sel: "mdItems (mdTab m) = items" "set (mdSelected (mdTab m)) \<subseteq> set items" using assms by (simp_all add: mass_ok_def)
  show ?thesis
  proof (cases e)
    case (SwitchCurrent s)
    then show ?thesis using assms by (simp add: mass_ok_def)
  qed (use assms sel toggle_selected [of "mdTab m"] click_selected [of "mdTab m"] in
      \<open>auto intro!: map_tab_ok confirmed_ok send_ok answered_ok simp: tab_events split: if_splits\<close>)
qed

lemma run_all_ok: "mass_ok d db w0 items m \<Longrightarrow> mass_ok d db w0 items (mass_run d db es m)"
  unfolding mass_run_def by (induction es arbitrary: m) (simp_all add: step_ok)

text \<open>The tab as it is opened.\<close>

definition opened :: "MassDropTab \<Rightarrow> string \<Rightarrow> 'w \<Rightarrow> 'w MassDrop" where
  "opened t cur w = \<lparr>mdTab = t, mdRuns = [], mdCurrent = cur, mdWorld = w\<rparr>"

lemma mounted:
  assumes "mountMassDrop localeLe schema s = Inr t"
  shows "\<exists>tables. map_of schema s = Some tables \<and> set (mdItems t) = set tables" and "mdSelected t = []"
    and "mdConfirmText t = []"
proof -
  show "\<exists>tables. map_of schema s = Some tables \<and> set (mdItems t) = set tables"
    and "mdSelected t = []" and "mdConfirmText t = []"
    using assms by (auto simp: mountMassDrop_def split: option.splits)
qed


definition example_tables :: "DatabaseSchemas" where
  "example_tables = map (\<lambda>s. (s, map (\<lambda>n. \<lparr>itemType = KindTable, itemName = n, itemSchemaName = s,
     itemTableName = Some n, itemTableSchema = None\<rparr>) [''log'', ''users''])) [''old'', ''live'']"

text \<open>A database that writes down every call and refuses it.\<close>

definition log_connection :: "string list Connection" where
  "log_connection = \<lparr>dbQuery = (\<lambda>q w. (Inl (DriverError q), w @ [q])),
     dbTransaction = (\<lambda>qs w. (Inl (DriverError []), w @ qs))\<rparr>"

text \<open>
  The tables of \<open>old\<close> are listed and selected, the sidebar switches to \<open>live\<close>, and the tables of
  \<open>live\<close> are dropped.
\<close>

definition example_events :: "MassEvent list" where
  "example_events = [ToggleAll, SwitchCurrent ''live'', ClickOperation DropTables, TypeConfirm ''confirm'', Confirm,
     SendItem 0, ItemAnswered 0, SendItem 0]"


text \<open>
  C17. Until somebody has typed exactly \<open>confirm\<close> nothing is dropped or emptied, whatever else is
  selected, clicked, opened and closed.
\<close>

theorem nothing_dropped_unconfirmed:
  assumes "mountMassDrop localeLe schema s = Inr t" and "TypeConfirm ''confirm'' \<notin> set es"
  shows "mdRuns (mass_run d db es (opened t cur w0)) = [] \<and> mdWorld (mass_run d db es (opened t cur w0)) = w0"
proof -
  let ?safe = "\<lambda>m. mdRuns m = [] \<and> mdWorld m = w0 \<and> mdConfirmText (mdTab m) \<noteq> ''confirm''"
  have step: "?safe (mass_step d db e m)" if "?safe m" "e \<noteq> TypeConfirm ''confirm''" for e m
    using that
    by (cases e) (auto simp: map_tab_def toggleAllChecked_def clickRow_def operationClicked_def closeDialog_def
        typeConfirm_def set_selected_def confirmed_def sendItem_def itemAnswered_def Let_def)
  have "?safe (mass_run d db es m)" if "?safe m" "TypeConfirm ''confirm'' \<notin> set es" for es m
    using that unfolding mass_run_def
  proof (induction es arbitrary: m)
    case (Cons e es)
    then show ?case using step [of m e] by auto
  qed simp
  from this [of "opened t cur w0" es] mounted(3) [OF assms(1)] assms(2) show ?thesis by (simp add: opened_def)
qed

theorem nothing_dropped_unconfirmed_witness:
  "\<exists>t. mountMassDrop (\<lambda>_ _. True) example_tables ''old'' = Inr t
    \<and> mdWorld (mass_run mysql_dialect log_connection
        [ToggleAll, ClickOperation DropTables, TypeConfirm ''Confirm'', Confirm, SendItem 0] (opened t ''old'' [])) = []"
proof -
  obtain t where t: "mountMassDrop (\<lambda>_ _. True) example_tables ''old'' = Inr t"
    by (simp add: mountMassDrop_def example_tables_def)
  show ?thesis
    by (rule exI [of _ t], rule conjI [OF t], rule nothing_dropped_unconfirmed [OF t, THEN conjunct2]) simp
qed

end
