(* ===== verification/FileExplorer.thy ===== *)
theory FileExplorer
  imports JsValue
begin

text \<open>
  The file explorer of a database, \<open>app/(admin)/db/[name]/files/page.tsx\<close>; the page of a bucket,
  \<open>app/(admin)/buckets/[name]/files/page.tsx\<close>, is a copy of it without the lookup of the identity.
  Folders are not stored anywhere but in the paths of the files and in the browser.  The backend's
  answers are events; \<open>localeCompare\<close> is a parameter, and so is \<open>Date.parse\<close>, in milliseconds.
\<close>

section \<open>Files and paths\<close>

record FileRow =
  flId :: string
  flFilename :: string
  flFolderPath :: string
  flContentType :: "string option"
  flSizeBytes :: nat
  flUploadedAt :: string

definition slash :: string where
  "slash = ''/''"

definition normalizeFolderPathInput :: "string \<Rightarrow> string" where
  "normalizeFolderPathInput input =
     (let trimmed = replace_char (CHR 0x5C) slash (js_trim input) in
      if trimmed = [] then []
      else let parts = filter (\<lambda>p. p \<noteq> []) (map js_trim (js_split slash trimmed)) in
        if list_ex (\<lambda>part. part = ''.'' \<or> part = ''..'') parts then []
        else js_join slash parts)"

definition formatBytes :: "nat \<Rightarrow> string" where
  "formatBytes bytes =
     (if bytes < 1024 then nat_digits bytes @ '' B''
      else if bytes < 1024 * 1024 then to_fixed 1 bytes 1024 @ '' KB''
      else if bytes < 1024 * 1024 * 1024 then to_fixed 2 bytes (1024 * 1024) @ '' MB''
      else to_fixed 2 bytes (1024 * 1024 * 1024) @ '' GB'')"

section \<open>What the page shows\<close>

text \<open>\<open>Array.from(new Set(xs))\<close>.\<close>

definition unique :: "'a list \<Rightarrow> 'a list" where
  "unique xs = rev (remdups (rev xs))"

definition folderOptions :: "FileRow list \<Rightarrow> string list \<Rightarrow> string list" where
  "folderOptions rows customFolders =
     sort_by text_le (unique (filter (\<lambda>p. p \<noteq> []) (map flFolderPath rows) @ customFolders))"

fun breadcrumb_loop :: "string \<Rightarrow> string list \<Rightarrow> (string \<times> string) list" where
  "breadcrumb_loop acc [] = []"
| "breadcrumb_loop acc (segment # segments) =
     (let acc1 = (if acc \<noteq> [] then acc @ slash @ segment else segment)
      in (segment, acc1) # breadcrumb_loop acc1 segments)"

definition breadcrumbItems :: "string \<Rightarrow> (string \<times> string) list" where
  "breadcrumbItems currentFolder =
     (if currentFolder = [] then []
      else breadcrumb_loop [] (filter (\<lambda>s. s \<noteq> []) (js_split slash currentFolder)))"

text \<open>The folder below \<open>currentFolder\<close> that a path leads through; both loops of \<open>childFolders\<close>.\<close>

definition child_of :: "string \<Rightarrow> string \<Rightarrow> string option" where
  "child_of currentFolder p =
     (if currentFolder \<noteq> [] \<and> \<not> js_starts_with p (currentFolder @ slash) then None
      else let remainder = (if currentFolder \<noteq> [] then drop (length (currentFolder @ slash)) p else p) in
        if remainder = [] then None
        else let next = hd (js_split slash remainder) in
          if next = [] then None
          else Some (if currentFolder \<noteq> [] then currentFolder @ slash @ next else next))"

definition see_folder :: "string \<Rightarrow> (string \<times> nat) list \<Rightarrow> string \<Rightarrow> (string \<times> nat) list" where
  "see_folder currentFolder seen folderPath =
     (case child_of currentFolder folderPath of
        None \<Rightarrow> seen
      | Some c \<Rightarrow> if obj_has seen c then seen else obj_set c 0 seen)"

definition see_row :: "string \<Rightarrow> (string \<times> nat) list \<Rightarrow> FileRow \<Rightarrow> (string \<times> nat) list" where
  "see_row currentFolder seen row =
     (if flFolderPath row = currentFolder then seen
      else case child_of currentFolder (flFolderPath row) of
          None \<Rightarrow> seen
        | Some c \<Rightarrow> obj_set c ((case map_of seen c of None \<Rightarrow> 0 | Some n \<Rightarrow> n) + 1) seen)"

definition childFolders ::
  "(string \<Rightarrow> string \<Rightarrow> bool) \<Rightarrow> string \<Rightarrow> string list \<Rightarrow> FileRow list \<Rightarrow> (string \<times> nat) list" where
  "childFolders localeLe currentFolder options rows =
     sort_by (\<lambda>a b. localeLe (fst a) (fst b))
       (foldl (see_row currentFolder) (foldl (see_folder currentFolder) [] options) rows)"

definition filesInCurrentFolder :: "(string \<Rightarrow> int) \<Rightarrow> string \<Rightarrow> FileRow list \<Rightarrow> FileRow list" where
  "filesInCurrentFolder dateParse currentFolder rows =
     sort_by (\<lambda>a b. dateParse (flUploadedAt b) \<le> dateParse (flUploadedAt a))
       (filter (\<lambda>row. flFolderPath row = currentFolder) rows)"

datatype ExplorerItem = FolderItem string string nat | FileItem string FileRow

definition explorerItems ::
  "(string \<Rightarrow> string \<Rightarrow> bool) \<Rightarrow> (string \<Rightarrow> int) \<Rightarrow> string \<Rightarrow> string list \<Rightarrow> FileRow list \<Rightarrow> ExplorerItem list" where
  "explorerItems localeLe dateParse currentFolder options rows =
     map (\<lambda>(path, count). FolderItem path
            (let name = last (js_split slash path) in if name = [] then path else name) count)
       (childFolders localeLe currentFolder options rows)
     @ map (\<lambda>f. FileItem (flFolderPath f @ slash @ flFilename f) f)
         (filesInCurrentFolder dateParse currentFolder rows)"

text \<open>Size and newest file of a folder with all folders below it.\<close>

definition below :: "string \<Rightarrow> string \<Rightarrow> bool" where
  "below folderPath p = (p = folderPath \<or> js_starts_with p (folderPath @ slash))"

definition folderStatistics :: "(string \<Rightarrow> int) \<Rightarrow> FileRow list \<Rightarrow> string \<Rightarrow> nat \<times> FileRow option" where
  "folderStatistics dateParse rows folderPath =
     (let (total, latest, latestDate) =
        foldl (\<lambda>(total, latest, latestDate) f.
                 if below folderPath (flFolderPath f)
                 then (let t = dateParse (flUploadedAt f) in
                       if latestDate < t then (total + flSizeBytes f, Some f, t)
                       else (total + flSizeBytes f, latest, latestDate))
                 else (total, latest, latestDate))
          (0, None, 0) rows
      in (total, latest))"

section \<open>The state of the page\<close>

text \<open>
  Requests that wait for their answer, each with the folder of the render that made it, where the
  empty text stands for no folder.
\<close>

datatype LoadStarter = ByFolder | ByUpload | ByDelete

datatype FileRequest = LoadRequest LoadStarter string | UploadRequest string | DeleteRequest string string

record FilesPage =
  fpRows :: "FileRow list"
  fpFolder :: string
  fpCreateInput :: string
  fpCustomFolders :: "string list"
  fpFileChosen :: bool
  fpUploading :: bool
  fpLoading :: bool
  fpError :: string
  fpDeleteOpen :: bool
  fpDeleteId :: "string option"
  fpDeleting :: bool
  fpRequests :: "FileRequest list"

definition initial_page :: FilesPage where
  "initial_page = \<lparr>fpRows = [], fpFolder = [], fpCreateInput = [], fpCustomFolders = [], fpFileChosen = False,
     fpUploading = False, fpLoading = True, fpError = [], fpDeleteOpen = False, fpDeleteId = None,
     fpDeleting = False, fpRequests = []\<rparr>"

text \<open>\<open>loadFiles\<close> up to its \<open>await\<close>; it runs at first and whenever the folder changes.\<close>

definition loadFiles :: "FilesPage \<Rightarrow> FilesPage" where
  "loadFiles p = p\<lparr>fpLoading := True, fpError := [], fpRequests := fpRequests p @ [LoadRequest ByFolder (js_trim (fpFolder p))]\<rparr>"

definition set_folder :: "string \<Rightarrow> FilesPage \<Rightarrow> FilesPage" where
  "set_folder path p = (let q = p\<lparr>fpFolder := path\<rparr> in if path = fpFolder p then q else loadFiles q)"

definition onSelectFolder :: "string \<Rightarrow> FilesPage \<Rightarrow> FilesPage" where
  "onSelectFolder path p = set_folder path (p\<lparr>fpError := []\<rparr>)"

definition onCreateFolder :: "FilesPage \<Rightarrow> FilesPage" where
  "onCreateFolder p =
     (let raw = js_trim (fpCreateInput p);
          candidate = (if js_starts_with raw slash then drop 1 raw
                       else if fpFolder p \<noteq> [] then fpFolder p @ slash @ raw else raw);
          normalized = normalizeFolderPathInput candidate in
      if normalized = []
      then p\<lparr>fpError := ''Enter a valid folder path (e.g. docs/api or /docs/api)''\<rparr>
      else onSelectFolder normalized
             (p\<lparr>fpCustomFolders := (if normalized \<in> set (fpCustomFolders p) then fpCustomFolders p
                                    else sort_by text_le (fpCustomFolders p @ [normalized])),
                fpCreateInput := []\<rparr>))"

definition onUpload :: "FilesPage \<Rightarrow> FilesPage" where
  "onUpload p =
     (if \<not> fpFileChosen p then p\<lparr>fpError := ''Please choose a file to upload''\<rparr>
      else p\<lparr>fpUploading := True, fpError := [],
             fpRequests := fpRequests p @ [UploadRequest (js_trim (fpFolder p))]\<rparr>)"

definition onDelete :: "string \<Rightarrow> FilesPage \<Rightarrow> FilesPage" where
  "onDelete i p = p\<lparr>fpDeleteOpen := True, fpDeleteId := Some i, fpDeleting := False\<rparr>"

definition confirmDelete :: "FilesPage \<Rightarrow> FilesPage" where
  "confirmDelete p =
     (case fpDeleteId p of
        None \<Rightarrow> p
      | Some i \<Rightarrow> if i = [] then p
          else p\<lparr>fpDeleting := True, fpError := [], fpRequests := fpRequests p @ [DeleteRequest i (js_trim (fpFolder p))]\<rparr>)"

definition opened_page :: FilesPage where
  "opened_page = loadFiles initial_page"

text \<open>
  An answer: the files of a load, that the backend did what was asked, its refusal with a message
  or without, or that the request itself failed.
\<close>

datatype FileAnswer = Files "FileRow list" | Fine | Refused "string option" | NetworkError string

definition refused_text :: "string option \<Rightarrow> string \<Rightarrow> string" where
  "refused_text e fallback = (case e of None \<Rightarrow> fallback | Some m \<Rightarrow> m)"

text \<open>
  What runs after an \<open>await\<close>.  A failed request ends the function: its error is shown by the caller of
  \<open>loadFiles\<close> and of \<open>onUpload\<close>, and by nobody for \<open>confirmDelete\<close>.
\<close>

definition load_answered :: "LoadStarter \<Rightarrow> FileAnswer \<Rightarrow> FilesPage \<Rightarrow> FilesPage" where
  "load_answered by ans p =
     (case ans of
        Files fs \<Rightarrow> p\<lparr>fpLoading := False, fpRows := fs\<rparr>
      | Fine \<Rightarrow> p\<lparr>fpLoading := False, fpError := ''Failed to load files''\<rparr>
      | Refused e \<Rightarrow> p\<lparr>fpLoading := False, fpError := refused_text e ''Failed to load files''\<rparr>
      | NetworkError m \<Rightarrow>
          (case by of
             ByFolder \<Rightarrow> p\<lparr>fpLoading := False, fpError := m\<rparr>
           | ByUpload \<Rightarrow> p\<lparr>fpError := m\<rparr>
           | ByDelete \<Rightarrow> p))"

definition reload :: "LoadStarter \<Rightarrow> string \<Rightarrow> FilesPage \<Rightarrow> FilesPage" where
  "reload by folder p =
     p\<lparr>fpLoading := True, fpError := [], fpRequests := fpRequests p @ [LoadRequest by folder]\<rparr>"

definition upload_answered :: "string \<Rightarrow> FileAnswer \<Rightarrow> FilesPage \<Rightarrow> FilesPage" where
  "upload_answered folder ans p =
     (case ans of
        Refused e \<Rightarrow> p\<lparr>fpUploading := False, fpError := refused_text e ''Upload failed''\<rparr>
      | NetworkError m \<Rightarrow> p\<lparr>fpError := m\<rparr>
      | _ \<Rightarrow> reload ByUpload folder (p\<lparr>fpUploading := False, fpFileChosen := False\<rparr>))"

definition delete_answered :: "string \<Rightarrow> FileAnswer \<Rightarrow> FilesPage \<Rightarrow> FilesPage" where
  "delete_answered folder ans p =
     (let q = p\<lparr>fpDeleteOpen := False, fpDeleteId := None, fpDeleting := False\<rparr> in
      case ans of
        Refused e \<Rightarrow> q\<lparr>fpError := refused_text e ''Failed to delete file''\<rparr>
      | NetworkError m \<Rightarrow> p
      | _ \<Rightarrow> reload ByDelete folder q)"

definition answered :: "nat \<Rightarrow> FileAnswer \<Rightarrow> FilesPage \<Rightarrow> FilesPage" where
  "answered i ans p =
     (if length (fpRequests p) \<le> i then p
      else let q = p\<lparr>fpRequests := take i (fpRequests p) @ drop (Suc i) (fpRequests p)\<rparr> in
        case fpRequests p ! i of
          LoadRequest by folder \<Rightarrow> load_answered by ans q
        | UploadRequest folder \<Rightarrow> upload_answered folder ans q
        | DeleteRequest i folder \<Rightarrow> delete_answered folder ans q)"

section \<open>Events\<close>

definition parent_folder :: "string \<Rightarrow> string" where
  "parent_folder currentFolder = js_join slash (butlast (filter (\<lambda>s. s \<noteq> []) (js_split slash currentFolder)))"

datatype FileEvent =
    SelectFolder string
  | OpenParent
  | TypeFolder string
  | CreateFolder
  | ChooseFile
  | Upload
  | Delete string
  | ConfirmDelete
  | CancelDelete
  | CloseDelete
  | Answer nat FileAnswer

fun files_step :: "FileEvent \<Rightarrow> FilesPage \<Rightarrow> FilesPage" where
  "files_step (SelectFolder path) p = onSelectFolder path p"
| "files_step OpenParent p = (if fpFolder p = [] then p else onSelectFolder (parent_folder (fpFolder p)) p)"
| "files_step (TypeFolder s) p = p\<lparr>fpCreateInput := s\<rparr>"
| "files_step CreateFolder p = onCreateFolder p"
| "files_step ChooseFile p = p\<lparr>fpFileChosen := True\<rparr>"
| "files_step Upload p = (if fpUploading p then p else onUpload p)"
| "files_step (Delete i) p = onDelete i p"
| "files_step ConfirmDelete p = (if fpDeleteOpen p \<and> \<not> fpDeleting p then confirmDelete p else p)"
| "files_step CancelDelete p =
     (if fpDeleting p then p else p\<lparr>fpDeleteOpen := False, fpDeleteId := None\<rparr>)"
| "files_step CloseDelete p = p\<lparr>fpDeleteOpen := False\<rparr>"
| "files_step (Answer i ans) p = answered i ans p"

section \<open>Folders kept in the browser\<close>

text \<open>
  What a stored entry reads as, where an entry is the value \<open>JSON.parse\<close> makes of it, and what the
  effects on the key do: read the entry of the new key, then write the folders back.
\<close>

definition read_folders :: "jsval option \<Rightarrow> string list option" where
  "read_folders v =
     (case v of
        Some (JsArray vs) \<Rightarrow>
          Some (sort_by text_le (unique
            (filter (\<lambda>s. s \<noteq> []) (map normalizeFolderPathInput
              (List.map_filter (\<lambda>v. case v of Str s \<Rightarrow> Some s | _ \<Rightarrow> None) vs)))))
      | _ \<Rightarrow> None)"

definition written_folders :: "string list \<Rightarrow> jsval" where
  "written_folders fs = JsArray (map Str fs)"

definition folder_effects :: "string \<Rightarrow> jsval obj \<times> string list \<Rightarrow> jsval obj \<times> string list" where
  "folder_effects key = (\<lambda>(storage, fs).
     let fs1 = (case read_folders (map_of storage key) of None \<Rightarrow> fs | Some gs \<Rightarrow> gs)
     in (obj_set key (written_folders fs1) storage, fs1))"

text \<open>Opening the page, and an event with the effect that writes changed folders.\<close>

definition open_files :: "string \<Rightarrow> jsval obj \<Rightarrow> jsval obj \<times> FilesPage" where
  "open_files key storage =
     (let (storage1, fs) = folder_effects key (storage, []) in (storage1, opened_page\<lparr>fpCustomFolders := fs\<rparr>))"

definition files_event :: "string \<Rightarrow> FileEvent \<Rightarrow> jsval obj \<times> FilesPage \<Rightarrow> jsval obj \<times> FilesPage" where
  "files_event key e = (\<lambda>(storage, p).
     let q = files_step e p in
     (if fpCustomFolders q = fpCustomFolders p then storage
      else obj_set key (written_folders (fpCustomFolders q)) storage, q))"

end
