(* ===== verification/FileExplorerFacts.thy ===== *)
theory FileExplorerFacts
  imports FileExplorer
begin

text \<open>
  Facts about the file explorer: what the counts and sizes of folders are counts and sizes of,
  which paths an input can make, and that the folders kept in the browser read back.
\<close>

section \<open>Paths and folders\<close>

lemma hd_split: "hd (split_from 0 [c] acc s) = rev acc @ takeWhile (\<lambda>d. d \<noteq> c) s"
  by (induction s arbitrary: acc) auto

lemma hd_js_split: "hd (js_split slash s) = takeWhile (\<lambda>d. d \<noteq> CHR ''/'') s"
  by (simp add: js_split_def slash_def hd_split)

text \<open>A path goes on below a folder: nothing or a slash follows.\<close>

definition goes_on :: "string \<Rightarrow> bool" where
  "goes_on rest = (rest = [] \<or> hd rest = CHR ''/'')"

lemma below_iff: "below c p \<longleftrightarrow> (\<exists>rest. p = c @ rest \<and> goes_on rest)"
proof
  assume "below c p"
  then show "\<exists>rest. p = c @ rest \<and> goes_on rest"
    by (auto simp: below_def goes_on_def js_starts_with_iff slash_def)
next
  assume "\<exists>rest. p = c @ rest \<and> goes_on rest"
  then obtain rest where p: "p = c @ rest" "goes_on rest" by blast
  then show "below c p" by (cases rest) (auto simp: below_def goes_on_def js_starts_with_iff slash_def)
qed

definition folder_prefix :: "string \<Rightarrow> string" where
  "folder_prefix currentFolder = (if currentFolder = [] then [] else currentFolder @ slash)"

lemma child_of_eq:
  "child_of cur p =
    (if \<not> js_starts_with p (folder_prefix cur) then None
     else let next = takeWhile (\<lambda>d. d \<noteq> CHR ''/'') (drop (length (folder_prefix cur)) p) in
       if next = [] then None else Some (folder_prefix cur @ next))"
proof -
  have "js_split slash [] = [[]]" by code_simp
  then show ?thesis
    by (auto simp: child_of_def folder_prefix_def hd_js_split Let_def)
qed

lemma takeWhile_goes_on: "goes_on rest \<Longrightarrow> CHR ''/'' \<notin> set n \<Longrightarrow> takeWhile (\<lambda>d. d \<noteq> CHR ''/'') (n @ rest) = n"
  by (induction n) (auto simp: goes_on_def takeWhile_eq_Nil_iff)

lemma child_of_iff:
  "child_of cur p = Some c \<longleftrightarrow>
    (\<exists>n rest. n \<noteq> [] \<and> CHR ''/'' \<notin> set n \<and> goes_on rest \<and> c = folder_prefix cur @ n \<and> p = c @ rest)"
proof
  assume c: "child_of cur p = Some c"
  then obtain u where u: "p = folder_prefix cur @ u"
    by (auto simp: child_of_eq js_starts_with_iff split: if_splits)
  let ?n = "takeWhile (\<lambda>d. d \<noteq> CHR ''/'') u" and ?r = "dropWhile (\<lambda>d. d \<noteq> CHR ''/'') u"
  have "c = folder_prefix cur @ ?n" "?n \<noteq> []" using c u by (auto simp: child_of_eq Let_def split: if_splits)
  moreover have "CHR ''/'' \<notin> set ?n" by (auto dest: set_takeWhileD)
  moreover have "goes_on ?r" using hd_dropWhile [of "\<lambda>d. d \<noteq> CHR ''/''" u] by (auto simp: goes_on_def)
  moreover have "p = c @ ?r" using u calculation(1) by simp
  ultimately show "\<exists>n rest. n \<noteq> [] \<and> CHR ''/'' \<notin> set n \<and> goes_on rest \<and> c = folder_prefix cur @ n \<and> p = c @ rest"
    by blast
next
  assume "\<exists>n rest. n \<noteq> [] \<and> CHR ''/'' \<notin> set n \<and> goes_on rest \<and> c = folder_prefix cur @ n \<and> p = c @ rest"
  then obtain n rest where n: "n \<noteq> []" "CHR ''/'' \<notin> set n" "goes_on rest" "c = folder_prefix cur @ n" "p = c @ rest"
    by blast
  then show "child_of cur p = Some c"
    using takeWhile_goes_on [OF n(3,2)] by (auto simp: child_of_eq js_starts_with_iff Let_def)
qed

text \<open>The paths through a child are the paths below it.\<close>

lemma child_below:
  assumes "child_of cur q = Some c"
  shows "child_of cur p = Some c \<longleftrightarrow> below c p"
proof -
  obtain n where n: "n \<noteq> []" "CHR ''/'' \<notin> set n" "c = folder_prefix cur @ n"
    using assms by (auto simp: child_of_iff)
  then show ?thesis unfolding child_of_iff below_iff by auto
qed

lemma child_not_self: "child_of cur cur = None"
proof -
  have "\<not> js_starts_with cur (folder_prefix cur)" if "cur \<noteq> []"
    using that by (auto simp: js_starts_with_iff folder_prefix_def slash_def)
  then show ?thesis by (cases "cur = []") (simp_all add: child_of_eq folder_prefix_def)
qed

section \<open>Counting\<close>

lemma sum_obj_set:
  "(\<Sum>e\<leftarrow>obj_set k v al. snd e) + (case map_of al k of None \<Rightarrow> 0 | Some u \<Rightarrow> u) = (\<Sum>e\<leftarrow>al. snd e) + (v :: nat)"
proof (induction al)
  case (Cons e al)
  then show ?case
    by (cases e; cases "fst e = k") (auto simp: obj_set_def map_of_eq_None_iff split: option.split)
qed (simp add: obj_set_def)

definition through :: "string \<Rightarrow> string \<Rightarrow> FileRow list \<Rightarrow> FileRow list" where
  "through cur c rows = filter (\<lambda>r. child_of cur (flFolderPath r) = Some c) rows"

text \<open>What both loops of \<open>childFolders\<close> have counted.\<close>

definition counted :: "string \<Rightarrow> FileRow list \<Rightarrow> (string \<times> nat) list \<Rightarrow> bool" where
  "counted cur rows seen =
     (distinct (map fst seen)
      \<and> (\<forall>c \<in> fst ` set seen. \<exists>q. child_of cur q = Some c)
      \<and> (\<forall>c. (case map_of seen c of None \<Rightarrow> 0 | Some n \<Rightarrow> n) = length (through cur c rows))
      \<and> (\<Sum>e\<leftarrow>seen. snd e) = length (filter (\<lambda>r. child_of cur (flFolderPath r) \<noteq> None) rows))"

lemma see_folder_counted:
  assumes "counted cur [] seen"
  shows "counted cur [] (see_folder cur seen p)"
proof (cases "child_of cur p")
  case (Some c)
  show ?thesis
  proof (cases "obj_has seen c")
    case False
    then have "c \<notin> fst ` set seen" by (simp add: obj_has_def map_of_eq_None_iff)
    then have "obj_set c 0 seen = seen @ [(c, 0)]" by (rule obj_set_new)
    with assms Some False \<open>c \<notin> fst ` set seen\<close> show ?thesis
      by (auto simp: see_folder_def counted_def through_def map_add_def split: option.splits)
  qed (use assms Some in \<open>simp add: see_folder_def\<close>)
qed (use assms in \<open>simp add: see_folder_def\<close>)

lemma see_row_counted:
  assumes "counted cur rows seen"
  shows "counted cur (rows @ [r]) (see_row cur seen r)"
proof (cases "child_of cur (flFolderPath r)")
  case None
  then show ?thesis using assms by (auto simp: see_row_def counted_def through_def)
next
  case (Some c)
  then have "flFolderPath r \<noteq> cur" using child_not_self by auto
  moreover have m: "(case map_of seen c of None \<Rightarrow> 0 | Some n \<Rightarrow> n) = length (through cur c rows)"
    using assms by (simp add: counted_def)
  ultimately have step: "see_row cur seen r = obj_set c (length (through cur c rows) + 1) seen"
    using Some by (simp add: see_row_def)
  have sum: "(\<Sum>e\<leftarrow>see_row cur seen r. snd e) = (\<Sum>e\<leftarrow>seen. snd e) + 1"
    using sum_obj_set [of c "length (through cur c rows) + 1" seen] m by (simp add: step)
  have "(case map_of (see_row cur seen r) e of None \<Rightarrow> 0 | Some n \<Rightarrow> n) = length (through cur e (rows @ [r]))" for e
    using assms Some by (cases "e = c") (simp_all add: step map_of_obj_set counted_def through_def)
  then show ?thesis
    using assms Some sum unfolding counted_def by (simp add: step obj_set_keys distinct_obj_set) blast
qed

lemma folders_counted: "counted cur [] seen \<Longrightarrow> counted cur [] (foldl (see_folder cur) seen options)"
proof (induction options arbitrary: seen)
  case (Cons p options)
  show ?case using Cons.IH [OF see_folder_counted [OF Cons.prems]] by (simp only: foldl_Cons)
qed (simp only: foldl_Nil)

lemma both_loops_counted: "counted cur rows (foldl (see_row cur) (foldl (see_folder cur) [] options) rows)"
proof (induction rows rule: rev_induct)
  case Nil
  have "counted cur [] []" by (simp add: counted_def through_def)
  then show ?case by (simp only: foldl_Nil folders_counted)
next
  case (snoc r rows)
  from see_row_counted [OF this] show ?case by (simp only: foldl_append foldl_Cons foldl_Nil)
qed

lemma statistics_size:
  "fst (folderStatistics dateParse rows c) = (\<Sum>r\<leftarrow>filter (\<lambda>r. below c (flFolderPath r)) rows. flSizeBytes r)"
proof -
  let ?f = "\<lambda>(total, latest, latestDate) f.
     if below c (flFolderPath f)
     then (let t = dateParse (flUploadedAt f) in
           if latestDate < t then (total + flSizeBytes f, Some f, t)
           else (total + flSizeBytes f, latest, latestDate))
     else (total, latest, latestDate)"
  have "fst (foldl ?f st rows) = fst st + (\<Sum>r\<leftarrow>filter (\<lambda>r. below c (flFolderPath r)) rows. flSizeBytes r)" for st
    by (induction rows arbitrary: st) (auto simp: Let_def split: prod.split)
  moreover have "fst (let (total, latest, latestDate) = x in (total, latest)) = fst x" for x :: "nat \<times> FileRow option \<times> int"
    by (cases x) simp
  ultimately show ?thesis unfolding folderStatistics_def by (simp only: fst_conv add_0)
qed

text \<open>Paths that lead into no folder: the next part is empty, as in \<open>a//b\<close>, or they lie elsewhere.\<close>

definition pathless :: "string \<Rightarrow> FileRow \<Rightarrow> bool" where
  "pathless cur r = (flFolderPath r \<noteq> cur \<and> child_of cur (flFolderPath r) = None)"

text \<open>
  What the explorer shows of a folder adds up: the count and the size of every folder in it are
  those of exactly the loaded files in that folder and the folders below it, and every loaded file
  under the current folder is either listed in it or counted once in one of its folders; only
  files whose path has an empty part there are in neither.
\<close>

theorem explorer_adds_up:
  "list_all (\<lambda>(c, n). let fs = filter (\<lambda>r. below c (flFolderPath r)) rows in
       n = length fs \<and> fst (folderStatistics dateParse rows c) = (\<Sum>r\<leftarrow>fs. flSizeBytes r))
     (childFolders localeLe cur options rows)
   \<and> length (filesInCurrentFolder dateParse cur rows) + (\<Sum>e\<leftarrow>childFolders localeLe cur options rows. snd e)
     + length (filter (pathless cur) rows) = length rows"
proof -
  let ?seen = "foldl (see_row cur) (foldl (see_folder cur) [] options) rows"
  have ok: "counted cur rows ?seen" by (rule both_loops_counted)
  have "n = length (filter (\<lambda>r. below c (flFolderPath r)) rows)" if "(c, n) \<in> set ?seen" for c n
  proof -
    have "c \<in> fst ` set ?seen" using that by (rule rev_image_eqI) simp
    moreover have "\<forall>c \<in> fst ` set ?seen. \<exists>q. child_of cur q = Some c" using ok unfolding counted_def by blast
    ultimately obtain q where q: "child_of cur q = Some c" by blast
    have "through cur c rows = filter (\<lambda>r. below c (flFolderPath r)) rows"
      by (simp add: through_def child_below [OF q])
    moreover have "map_of ?seen c = Some n"
      using that ok unfolding counted_def by (intro map_of_is_SomeI) blast+
    moreover have "(case map_of ?seen c of None \<Rightarrow> 0 | Some n \<Rightarrow> n) = length (through cur c rows)"
      using ok unfolding counted_def by blast
    ultimately show ?thesis by (simp only: option.case)
  qed
  moreover have "(\<Sum>e\<leftarrow>childFolders localeLe cur options rows. snd e) = (\<Sum>e\<leftarrow>?seen. snd e)"
    unfolding childFolders_def by (simp only: sum_mset_sum_list [symmetric] mset_map mset_sort_by)
  moreover have "length (filesInCurrentFolder dateParse cur rows) = length (filter (\<lambda>r. flFolderPath r = cur) rows)"
    unfolding filesInCurrentFolder_def by (simp only: size_mset [symmetric] mset_sort_by)
  moreover have "length (filter (\<lambda>r. flFolderPath r = cur) rows)
      + length (filter (\<lambda>r. child_of cur (flFolderPath r) \<noteq> None) rows) + length (filter (pathless cur) rows) = length rows"
    by (induction rows) (auto simp: pathless_def child_not_self)
  moreover have "(\<Sum>e\<leftarrow>?seen. snd e) = length (filter (\<lambda>r. child_of cur (flFolderPath r) \<noteq> None) rows)"
    using ok unfolding counted_def by blast
  ultimately show ?thesis
    by (auto simp: list_all_iff childFolders_def Let_def statistics_size)
qed

section \<open>Paths from an input\<close>

definition good_part :: "string \<Rightarrow> bool" where
  "good_part s = (s \<noteq> [] \<and> s \<noteq> ''.'' \<and> s \<noteq> ''..'' \<and> js_trim s = s \<and> CHR ''/'' \<notin> set s \<and> CHR 0x5C \<notin> set s)"

definition clean_path :: "string \<Rightarrow> bool" where
  "clean_path p = (\<exists>parts. p = js_join slash parts \<and> list_all good_part parts)"

definition bare_ends :: "string \<Rightarrow> bool" where
  "bare_ends s = (s = [] \<or> \<not> is_space (hd s) \<and> \<not> is_space (last s))"

lemma trim_bare: "bare_ends s \<Longrightarrow> js_trim s = s"
proof (cases "s = []")
  case False
  assume "bare_ends s"
  then have "dropWhile is_space s = s" "dropWhile is_space (rev s) = rev s"
    using False by (cases s, simp_all add: bare_ends_def) (cases s rule: rev_cases, simp_all)
  then show ?thesis by (simp add: js_trim_def)
qed (simp add: js_trim_def)

lemma last_drop_while: "dropWhile P xs \<noteq> [] \<Longrightarrow> last (dropWhile P xs) = last xs"
  by (metis last_appendR takeWhile_dropWhile_id)

lemma bare_trim: "bare_ends (js_trim s)"
proof -
  let ?u = "dropWhile is_space s" and ?v = "dropWhile is_space (rev (dropWhile is_space s))"
  have "bare_ends (rev ?v)"
  proof (cases "?v = []")
    case False
    then have u: "?u \<noteq> []" by (metis dropWhile.simps(1) rev.simps(1))
    have "last (rev ?v) = hd ?v" using False by (simp add: last_rev)
    moreover have "hd (rev ?v) = hd ?u" using last_drop_while [OF False] u False by (simp add: hd_rev last_rev)
    ultimately show ?thesis using False u hd_dropWhile [of is_space] by (metis bare_ends_def)
  qed (simp add: bare_ends_def)
  then show ?thesis by (simp add: js_trim_def)
qed

lemma trim_same_iff: "js_trim s = s \<longleftrightarrow> bare_ends s"
  using trim_bare bare_trim by metis

lemma trim_trim: "js_trim (js_trim s) = js_trim s"
  by (rule trim_bare [OF bare_trim])

lemma set_js_trim: "set (js_trim s) \<subseteq> set s"
  unfolding js_trim_def by (metis set_dropWhileD set_rev subsetI)

lemma split_chars:
  "t \<in> set (split_from 0 [c] acc s) \<Longrightarrow> set t \<subseteq> set acc \<union> set s"
  "t \<in> set (split_from 0 [c] acc s) \<Longrightarrow> c \<notin> set acc \<Longrightarrow> c \<notin> set t"
  by (induction s arbitrary: acc) (force split: if_splits)+

text \<open>An input becomes the empty path or parts that need no cleaning.\<close>

lemma normalized_clean: "clean_path (normalizeFolderPathInput input)"
proof -
  define t where "t = replace_char (CHR 0x5C) slash (js_trim input)"
  define parts where "parts = filter (\<lambda>p. p \<noteq> []) (map js_trim (js_split slash t))"
  have bs: "CHR 0x5C \<notin> set t"
  proof -
    have "CHR 0x5C \<notin> set (replace_char (CHR 0x5C) slash s)" for s
      by (induction s) (auto simp: slash_def)
    then show ?thesis by (simp add: t_def)
  qed
  have part: "js_trim s = s \<and> s \<noteq> [] \<and> CHR ''/'' \<notin> set s \<and> CHR 0x5C \<notin> set s" if s: "s \<in> set parts" for s
  proof -
    from s obtain u where u: "u \<in> set (js_split slash t)" "s = js_trim u" "s \<noteq> []" by (auto simp: parts_def)
    then have "set u \<subseteq> set t" "CHR ''/'' \<notin> set u"
      using split_chars [of u "CHR ''/''" "[]" t] by (auto simp: js_split_def slash_def)
    then show ?thesis using u bs set_js_trim [of u] trim_trim by auto
  qed
  have "normalizeFolderPathInput input =
      (if t = [] then [] else if list_ex (\<lambda>part. part = ''.'' \<or> part = ''..'') parts then [] else js_join slash parts)"
    by (simp add: normalizeFolderPathInput_def t_def parts_def Let_def)
  moreover have "clean_path []" unfolding clean_path_def by (rule exI [of _ "[]"]) simp
  moreover have "clean_path (js_join slash parts)" if "\<not> list_ex (\<lambda>part. part = ''.'' \<or> part = ''..'') parts"
    unfolding clean_path_def
  proof (intro exI conjI)
    show "list_all good_part parts"
      using that part by (auto simp: good_part_def list_all_iff list_ex_iff)
  qed (rule refl)
  ultimately show ?thesis by simp
qed

lemma set_join: "set (js_join sep ps) \<subseteq> set sep \<union> \<Union> (set (map set ps))"
  by (induction sep ps rule: js_join.induct) auto

lemma bare_join: "ps \<noteq> [] \<Longrightarrow> list_all (\<lambda>p. p \<noteq> [] \<and> bare_ends p) ps \<Longrightarrow> bare_ends (js_join sep ps) \<and> js_join sep ps \<noteq> []"
proof (induction ps)
  case (Cons p ps)
  show ?case
  proof (cases "ps = []")
    case False
    then have "bare_ends (js_join sep ps) \<and> js_join sep ps \<noteq> []" using Cons by simp
    then show ?thesis using False Cons.prems by (auto simp: js_join_Cons bare_ends_def)
  qed (use Cons.prems in simp)
qed simp

lemma clean_normalized:
  assumes "clean_path p"
  shows "normalizeFolderPathInput p = p"
proof -
  obtain parts where p: "p = js_join slash parts" "list_all good_part parts" using assms by (auto simp: clean_path_def)
  show ?thesis
  proof (cases "parts = []")
    case True
    have "normalizeFolderPathInput [] = []" by code_simp
    then show ?thesis using True p by simp
  next
    case False
    have good: "s \<noteq> [] \<and> s \<noteq> ''.'' \<and> s \<noteq> ''..'' \<and> js_trim s = s \<and> CHR ''/'' \<notin> set s \<and> CHR 0x5C \<notin> set s"
      if "s \<in> set parts" for s using that p(2) by (simp add: list_all_iff good_part_def)
    have "list_all (\<lambda>s. s \<noteq> [] \<and> bare_ends s) parts"
      using good by (simp add: list_all_iff trim_same_iff)
    then have ends: "js_trim p = p" "p \<noteq> []" using bare_join [OF False] p(1) trim_bare by simp_all
    have "CHR 0x5C \<notin> set p"
    proof -
      have "CHR 0x5C \<notin> set slash" by code_simp
      then show ?thesis using set_join [of slash parts] good p(1) by auto
    qed
    then have same: "replace_char (CHR 0x5C) slash p = p" by (rule replace_char_id)
    have split: "js_split slash p = parts"
      using js_split_join [of parts "CHR ''/''"] False good p(1) by (simp add: slash_def list_all_iff)
    have "map js_trim parts = parts" "filter (\<lambda>p. p \<noteq> []) parts = parts"
      "\<not> list_ex (\<lambda>part. part = ''.'' \<or> part = ''..'') parts"
      using good by (auto simp: map_idI list_ex_iff)
    then show ?thesis
      unfolding normalizeFolderPathInput_def ends(1) same Let_def split using ends(2) by (simp add: p(1) [symmetric])
  qed
qed

text \<open>A path that was cleaned stays as it is.\<close>

lemma normalize_idempotent: "normalizeFolderPathInput (normalizeFolderPathInput input) = normalizeFolderPathInput input"
  by (rule clean_normalized [OF normalized_clean])

section \<open>Folders kept in the browser\<close>

definition text_sorted :: "string list \<Rightarrow> bool" where
  "text_sorted fs = sorted_wrt text_le fs"

lemma insert_sorted: "text_sorted fs \<Longrightarrow> text_sorted (insert_by text_le f fs)"
proof (induction fs)
  case (Cons g fs)
  have "set (insert_by text_le f fs) = insert f (set fs)"
    by (metis mset_insert_by set_mset_add_mset_insert set_mset_mset)
  then show ?case
    using Cons text_le_total [of f g] by (auto simp: text_sorted_def intro: text_le_trans)
qed (simp add: text_sorted_def)

lemma sort_sorted: "text_sorted (sort_by text_le fs)"
  unfolding sort_by_def by (induction fs) (simp_all add: insert_sorted, simp add: text_sorted_def)

lemma sort_of_sorted: "text_sorted fs \<Longrightarrow> sort_by text_le fs = fs"
proof (induction fs)
  case (Cons f fs)
  then have "sort_by text_le (f # fs) = insert_by text_le f fs" by (simp add: sort_by_def text_sorted_def)
  then show ?case using Cons.prems by (cases fs) (simp_all add: text_sorted_def)
qed (simp add: sort_by_def)

definition folders_ok :: "string list \<Rightarrow> bool" where
  "folders_ok fs = (text_sorted fs \<and> distinct fs \<and> list_all (\<lambda>f. f \<noteq> [] \<and> clean_path f) fs)"

lemma folders_read_back:
  assumes "folders_ok fs"
  shows "read_folders (Some (written_folders fs)) = Some fs"
proof -
  have strs: "List.map_filter (\<lambda>v. case v of Str s \<Rightarrow> Some s | _ \<Rightarrow> None) (map Str gs) = gs" for gs
    by (induction gs) (simp_all add: map_filter_simps)
  have "map normalizeFolderPathInput fs = fs" "filter (\<lambda>s. s \<noteq> []) fs = fs"
    using assms by (auto simp: folders_ok_def list_all_iff clean_normalized map_idI)
  moreover have "unique fs = fs" using assms by (simp add: unique_def folders_ok_def distinct_remdups_id)
  ultimately show ?thesis
    using assms sort_of_sorted [of fs] by (simp add: read_folders_def written_folders_def strs folders_ok_def)
qed

lemma read_folders_ok: "read_folders v = Some fs \<Longrightarrow> folders_ok fs"
proof -
  assume "read_folders v = Some fs"
  then obtain vs where fs: "fs = sort_by text_le (unique (filter (\<lambda>s. s \<noteq> []) (map normalizeFolderPathInput vs)))"
    by (auto simp: read_folders_def split: option.splits jsval.splits)
  have "distinct fs" unfolding fs by (metis distinct_remdups distinct_rev mset_eq_imp_distinct_iff mset_sort_by unique_def)
  moreover have "set fs = set (filter (\<lambda>s. s \<noteq> []) (map normalizeFolderPathInput vs))"
    by (simp add: fs unique_def)
  ultimately show ?thesis
    using sort_sorted by (auto simp: folders_ok_def list_all_iff fs normalized_clean)
qed

text \<open>Only creating a folder changes the folders of the page.\<close>

lemma step_folders:
  "fpCustomFolders (files_step e p) = fpCustomFolders p
   \<or> (\<exists>f. f \<noteq> [] \<and> clean_path f \<and> f \<notin> set (fpCustomFolders p)
        \<and> fpCustomFolders (files_step e p) = sort_by text_le (fpCustomFolders p @ [f]))"
proof (cases e)
  case CreateFolder
  have sel: "fpCustomFolders (onSelectFolder path q) = fpCustomFolders q" for path q
    by (simp add: onSelectFolder_def set_folder_def loadFiles_def Let_def)
  then show ?thesis
    unfolding CreateFolder files_step.simps onCreateFolder_def Let_def
    using normalized_clean by (simp add: sel) blast
next
  case (Answer i ans)
  then show ?thesis
    by (cases ans) (auto simp: answered_def load_answered_def upload_answered_def delete_answered_def reload_def
        Let_def split: FileRequest.split LoadStarter.split)
qed (simp_all add: onSelectFolder_def set_folder_def loadFiles_def onUpload_def onDelete_def confirmDelete_def
    Let_def split: option.split)

lemma added_folder_ok:
  assumes "folders_ok fs" and "f \<noteq> []" "clean_path f" "f \<notin> set fs"
  shows "folders_ok (sort_by text_le (fs @ [f]))"
proof -
  have "distinct (sort_by text_le (fs @ [f]))"
    using assms mset_eq_imp_distinct_iff [OF mset_sort_by, of text_le "fs @ [f]"] by (simp add: folders_ok_def)
  then show ?thesis using assms sort_sorted by (auto simp: folders_ok_def list_all_iff)
qed

definition stored :: "string \<Rightarrow> jsval obj \<times> FilesPage \<Rightarrow> bool" where
  "stored key = (\<lambda>(storage, p). folders_ok (fpCustomFolders p)
     \<and> map_of storage key = Some (written_folders (fpCustomFolders p)))"

lemma event_stored: "stored key sp \<Longrightarrow> stored key (files_event key e sp)"
  using step_folders [of e "snd sp"] added_folder_ok
  by (cases sp) (auto simp: stored_def files_event_def Let_def map_of_obj_set)

lemma open_stored: "stored key (open_files key storage)"
proof -
  have "folders_ok (case read_folders (map_of storage key) of None \<Rightarrow> [] | Some gs \<Rightarrow> gs)"
    by (auto simp: folders_ok_def text_sorted_def split: option.split dest: read_folders_ok [unfolded folders_ok_def text_sorted_def])
  then show ?thesis
    by (simp add: stored_def open_files_def folder_effects_def Let_def map_of_obj_set opened_page_def loadFiles_def)
qed

text \<open>
  The folders that a user creates survive: whatever happens in the page, opening it again under
  the same key restores exactly the folders it had, in the same order.
\<close>

theorem folders_survive_reopening:
  "case fold (files_event key) es (open_files key storage) of (storage1, p) \<Rightarrow>
     fpCustomFolders (snd (open_files key storage1)) = fpCustomFolders p"
proof -
  have "stored key (fold (files_event key) es sp)" if "stored key sp" for sp
    using that by (induction es arbitrary: sp) (simp_all add: event_stored)
  then have final: "stored key (fold (files_event key) es (open_files key storage))" using open_stored by blast
  have reopened: "fpCustomFolders (snd (open_files key st))
      = (case read_folders (map_of st key) of None \<Rightarrow> [] | Some gs \<Rightarrow> gs)" for st
    by (simp add: open_files_def folder_effects_def Let_def)
  obtain st p where sp: "fold (files_event key) es (open_files key storage) = (st, p)" by fastforce
  then show ?thesis using final by (simp add: stored_def reopened folders_read_back)
qed

text \<open>Another identity of the database, with no folders of its own, inherits the folders shown before.\<close>

lemma identity_inherits:
  "map_of storage key = None \<Longrightarrow> folder_effects key (storage, fs) = (obj_set key (written_folders fs) storage, fs)"
  by (simp add: folder_effects_def read_folders_def)

section \<open>Answers out of order\<close>

definition file_in :: "string \<Rightarrow> FileRow" where
  "file_in folder = \<lparr>flId = ''1'', flFilename = ''f'', flFolderPath = folder, flContentType = None, flSizeBytes = 1,
     flUploadedAt = []\<rparr>"

text \<open>
  The page takes the answers of loads as they come.  When folder \<open>b\<close> is opened before the answer for
  \<open>a\<close> has come, and that answer comes last, \<open>b\<close> is shown with no files although it has one.
\<close>

lemma stale_answer_shown:
  "let p = fold files_step [SelectFolder ''a'', SelectFolder ''b'', Answer 2 (Files [file_in ''b'']),
                            Answer 1 (Files [file_in ''a''])] opened_page
   in fpFolder p = ''b'' \<and> \<not> fpLoading p \<and> explorerItems text_le (\<lambda>_. 0) (fpFolder p) [] (fpRows p) = []"
  by code_simp

text \<open>An upload that fails on the way leaves the page uploading for good.\<close>

lemma failed_upload_stuck:
  "let p = fold files_step [ChooseFile, Upload, Answer 1 (NetworkError ''offline''), Upload] opened_page
   in fpUploading p \<and> fpRequests p = [LoadRequest ByFolder []]"
  by code_simp

end
