(* ===== verification/TableData.thy ===== *)
theory TableData
  imports GridActions TableResult
begin

text \<open>
  The tab that shows the rows of a table, \<open>components/gui/tabs/table-data-tab.tsx\<close>: paging, the raw
  condition, the selections that wait for their answer, and what its buttons do to the grid.
  Selecting from the driver and committing are the operations of the other theories.
\<close>

section \<open>Numbers of the paging inputs\<close>

text \<open>The integers that \<open>parseInt\<close> and their sums make, \<open>None\<close> is \<open>NaN\<close>.\<close>

type_synonym page_number = "int option"

definition page_num :: "page_number \<Rightarrow> jsnum" where
  "page_num n = (case n of None \<Rightarrow> NaN | Some i \<Rightarrow> Dec i 0)"

definition page_str :: "page_number \<Rightarrow> string" where
  "page_str n = num_str (page_num n)"

definition page_add :: "page_number \<Rightarrow> page_number \<Rightarrow> page_number" where
  "page_add m n = (case (m, n) of (Some a, Some b) \<Rightarrow> Some (a + b) | _ \<Rightarrow> None)"

definition page_sub :: "page_number \<Rightarrow> page_number \<Rightarrow> page_number" where
  "page_sub m n = (case (m, n) of (Some a, Some b) \<Rightarrow> Some (a - b) | _ \<Rightarrow> None)"

text \<open>\<open>parseInt(s)\<close>, decimal or hexadecimal.\<close>

definition is_hex_digit :: "char \<Rightarrow> bool" where
  "is_hex_digit c = (is_digit c \<or> char_lower c \<in> set ''abcdef'')"

definition hex_digit_val :: "char \<Rightarrow> nat" where
  "hex_digit_val c = (if is_digit c then digit_val c else of_char (char_lower c) - 87)"

definition parseInt :: "string \<Rightarrow> page_number" where
  "parseInt s =
     (let t = js_trim s;
          neg = js_starts_with t ''-'';
          u = (if neg \<or> js_starts_with t ''+'' then drop 1 t else t);
          sign = (\<lambda>n. if neg then - int n else int n)
      in if js_starts_with u ''0x'' \<or> js_starts_with u ''0X''
         then let ds = takeWhile is_hex_digit (drop 2 u) in
           if ds = [] then None else Some (sign (foldl (\<lambda>n c. 16 * n + hex_digit_val c) 0 ds))
         else let ds = takeWhile is_digit u in if ds = [] then None else Some (sign (digits_val ds)))"

definition at_least_zero :: "page_number \<Rightarrow> page_number" where
  "at_least_zero n = map_option (max 0) n"

text \<open>\<open>!==\<close>, by which \<open>NaN\<close> differs from itself, and the test by which a state counts as changed.\<close>

definition page_differs :: "page_number \<Rightarrow> page_number \<Rightarrow> bool" where
  "page_differs m n = (m = None \<or> m \<noteq> n)"

section \<open>State\<close>

record TableTab =
  ttWhere :: string
  ttWhereInput :: string
  ttOffset :: string
  ttLimit :: string
  ttFinalOffset :: page_number
  ttFinalLimit :: page_number
  ttSortColumns :: "ColumnSortOption list"
  ttLoading :: bool
  ttError :: "string option"
  ttExecuteError :: "string option"
  ttGrid :: "OptimizeTableState option"
  ttSchema :: "DatabaseTableSchema option"
  ttChangeNumber :: nat
  ttRequests :: "SelectFromTableOptions list"

definition select_options :: "TableTab \<Rightarrow> SelectFromTableOptions" where
  "select_options t = \<lparr>whereRaw = Some (ttWhere t), optLimit = page_num (ttFinalLimit t),
     optOffset = page_num (ttFinalOffset t), orderBy = Some (ttSortColumns t)\<rparr>"

text \<open>The effect that selects, up to its \<open>await\<close>; it runs at first and when what it selects changes.\<close>

definition fetchData :: "TableTab \<Rightarrow> TableTab" where
  "fetchData t = t\<lparr>ttLoading := True, ttRequests := ttRequests t @ [select_options t]\<rparr>"

definition opened_table :: TableTab where
  "opened_table = fetchData
     \<lparr>ttWhere = [], ttWhereInput = [], ttOffset = ''0'', ttLimit = ''50'', ttFinalOffset = Some 0,
      ttFinalLimit = Some 50, ttSortColumns = [], ttLoading = False, ttError = None, ttExecuteError = None,
      ttGrid = None, ttSchema = None, ttChangeNumber = 0, ttRequests = []\<rparr>"

section \<open>Selecting\<close>

definition setFinalOffset :: "page_number \<Rightarrow> TableTab \<Rightarrow> TableTab" where
  "setFinalOffset n t = (if n = ttFinalOffset t then t else fetchData (t\<lparr>ttFinalOffset := n\<rparr>))"

definition setFinalLimit :: "page_number \<Rightarrow> TableTab \<Rightarrow> TableTab" where
  "setFinalLimit n t = (if n = ttFinalLimit t then t else fetchData (t\<lparr>ttFinalLimit := n\<rparr>))"

definition setWhere :: "string \<Rightarrow> TableTab \<Rightarrow> TableTab" where
  "setWhere w t = (if w = ttWhere t then t else fetchData (t\<lparr>ttWhere := w\<rparr>))"

definition previousPage :: "TableTab \<Rightarrow> TableTab" where
  "previousPage t =
     (if ttFinalOffset t = Some 0 \<or> ttLoading t then t
      else let n = page_sub (ttFinalOffset t) (ttFinalLimit t)
           in setFinalOffset n (t\<lparr>ttOffset := page_str n\<rparr>))"

text \<open>The handler is on the icon inside of the button, which alone is disabled while loading.\<close>

definition nextPage :: "TableTab \<Rightarrow> TableTab" where
  "nextPage t =
     (let n = page_add (ttFinalOffset t) (ttFinalLimit t)
      in setFinalOffset n (t\<lparr>ttOffset := page_str n\<rparr>))"

definition blurLimit :: "TableTab \<Rightarrow> TableTab" where
  "blurLimit t =
     (let finalValue = at_least_zero (parseInt (ttLimit t))
      in if page_differs finalValue (ttFinalLimit t) then setFinalLimit finalValue t else t)"

definition blurOffset :: "TableTab \<Rightarrow> TableTab" where
  "blurOffset t =
     (let finalValue = at_least_zero (parseInt (ttOffset t));
          t1 = t\<lparr>ttOffset := page_str finalValue\<rparr>
      in if page_differs finalValue (ttFinalOffset t) then setFinalOffset finalValue t1 else t1)"

text \<open>An answer; making the grid of it can throw too.  \<open>toString\<close> of an error is a parameter.\<close>

definition select_answered ::
  "(DatabaseResultSet \<Rightarrow> DatabaseTableSchema \<Rightarrow> OptimizeTableState result) \<Rightarrow> (js_error \<Rightarrow> string) \<Rightarrow>
   (DatabaseResultSet \<times> DatabaseTableSchema) result \<Rightarrow> TableTab \<Rightarrow> TableTab" where
  "select_answered tableState errorText ans t =
     (case rbind ans (\<lambda>(result, schemaResult). rbind (tableState result schemaResult) (\<lambda>g. Inr (g, schemaResult))) of
        Inl e \<Rightarrow> t\<lparr>ttLoading := False, ttError := Some (errorText e)\<rparr>
      | Inr (g, schemaResult) \<Rightarrow>
          t\<lparr>ttLoading := False, ttGrid := Some g, ttSchema := Some schemaResult, ttChangeNumber := 0,
            ttError := None\<rparr>)"

definition table_state ::
  "(DatabaseTableColumn option \<Rightarrow> ColumnType option) \<Rightarrow> DatabaseSchemas \<Rightarrow>
   DatabaseResultSet \<Rightarrow> DatabaseTableSchema \<Rightarrow> OptimizeTableState result" where
  "table_state infer cachedSchema result schemaResult =
     createTableStateFromResult \<lparr>bpResult = result, bpInfer = infer, bpTableSchema = Some schemaResult,
       bpSchemas = cachedSchema\<rparr>"

section \<open>The buttons on the grid\<close>

definition onRemoveRow :: "OptimizeTableState \<Rightarrow> OptimizeTableState" where
  "onRemoveRow s = foldl (\<lambda>s index. removeRow index s) s (getSelectedRowIndex (selectionRanges s))"

definition onNewRow :: "OptimizeTableState \<Rightarrow> OptimizeTableState" where
  "onNewRow s = insertNewRow (- 1) [] s"

definition on_grid :: "(OptimizeTableState \<Rightarrow> OptimizeTableState) \<Rightarrow> TableTab \<Rightarrow> TableTab" where
  "on_grid f t = t\<lparr>ttGrid := map_option f (ttGrid t)\<rparr>"

definition onCommit ::
  "(DatabaseTableOperation list \<Rightarrow> ('w, DatabaseTableOperationReslt list) io) \<Rightarrow>
   (OptimizeTableState \<Rightarrow> OptimizeTableState) \<Rightarrow> TableTab \<Rightarrow> 'w \<Rightarrow> TableTab \<times> 'w" where
  "onCommit updateData meanwhile t w =
     (case (ttSchema t, ttGrid t) of
        (Some tableSchema, Some g) \<Rightarrow>
          (let (errorMessage, g1, w1) = commitChange updateData tableSchema meanwhile g w
           in (t\<lparr>ttGrid := Some g1,
                 ttExecuteError := (if truthy_str errorMessage then errorMessage else ttExecuteError t)\<rparr>, w1))
      | _ \<Rightarrow> (t, w))"

section \<open>Events\<close>

datatype TableEvent =
    Refresh
  | TypeWhere string
  | EnterWhere
  | SetSortColumns "ColumnSortOption list"
  | PreviousPage
  | NextPage
  | TypeLimit string
  | BlurLimit
  | TypeOffset string
  | BlurOffset
  | SelectAnswer nat "(DatabaseResultSet \<times> DatabaseTableSchema) result"
  | AddRow
  | DeleteRow
  | DiscardChanges
  | ChangeNoticed
  | DismissError

fun table_step ::
  "(DatabaseResultSet \<Rightarrow> DatabaseTableSchema \<Rightarrow> OptimizeTableState result) \<Rightarrow> (js_error \<Rightarrow> string) \<Rightarrow>
   TableEvent \<Rightarrow> TableTab \<Rightarrow> TableTab" where
  "table_step mk txt Refresh t = (if ttLoading t then t else fetchData t)"
| "table_step mk txt (TypeWhere s) t = t\<lparr>ttWhereInput := s\<rparr>"
| "table_step mk txt EnterWhere t = setWhere (ttWhereInput t) t"
| "table_step mk txt (SetSortColumns cs) t = fetchData (t\<lparr>ttSortColumns := cs\<rparr>)"
| "table_step mk txt PreviousPage t = previousPage t"
| "table_step mk txt NextPage t = nextPage t"
| "table_step mk txt (TypeLimit s) t = t\<lparr>ttLimit := s\<rparr>"
| "table_step mk txt BlurLimit t = blurLimit t"
| "table_step mk txt (TypeOffset s) t = t\<lparr>ttOffset := s\<rparr>"
| "table_step mk txt BlurOffset t = blurOffset t"
| "table_step mk txt (SelectAnswer i ans) t =
     (if length (ttRequests t) \<le> i then t
      else select_answered mk txt ans (t\<lparr>ttRequests := take i (ttRequests t) @ drop (Suc i) (ttRequests t)\<rparr>))"
| "table_step mk txt AddRow t = on_grid onNewRow t"
| "table_step mk txt DeleteRow t = on_grid onRemoveRow t"
| "table_step mk txt DiscardChanges t = on_grid discardAllChange t"
| "table_step mk txt ChangeNoticed t =
     (case ttGrid t of None \<Rightarrow> t | Some g \<Rightarrow> t\<lparr>ttChangeNumber := length (getChangedRows g)\<rparr>)"
| "table_step mk txt DismissError t = t\<lparr>ttExecuteError := None\<rparr>"

end
