(* ===== verification/TableDataFacts.thy ===== *)
theory TableDataFacts
  imports TableData GridFacts
begin

text \<open>
  Facts about the tab of a table: which rows its delete button removes, and the pages it asks for.
\<close>

section \<open>Deleting the selected rows\<close>

definition saved_at :: "OptimizeTableState \<Rightarrow> int \<Rightarrow> bool" where
  "saved_at s i = (i \<noteq> - 1 \<and> (case at_index (data s) i of None \<Rightarrow> True | Some r \<Rightarrow> \<not> rwIsNewRow (rows s ! r)))"

text \<open>What became of the rows after removing those at some places.\<close>

definition removed_by :: "int list \<Rightarrow> OptimizeTableState \<Rightarrow> OptimizeTableState \<Rightarrow> bool" where
  "removed_by is s t =
     (grid_ok t \<and> data t = data s \<and> length (rows t) = length (rows s)
      \<and> (\<forall>r < length (rows s). rwIsNewRow (rows t ! r) = rwIsNewRow (rows s ! r)
           \<and> rwIsRemoved (rows t ! r) = (rwIsRemoved (rows s ! r) \<or> r \<in> set (List.map_filter (at_index (data s)) is)))
      \<and> (\<forall>r \<in> set (List.map_filter (at_index (data s)) is). rwChange (rows t ! r) \<noteq> None))"

lemma removed_by_next:
  assumes "removed_by is s t" and "saved_at s i"
  shows "removed_by (is @ [i]) s (removeRow i t)"
proof (cases "at_index (data s) i")
  case None
  then have "removeRow i t = broadcastChange False t"
    using assms by (simp add: removeRow_def focus_index_def saved_at_def removed_by_def)
  then show ?thesis
    using assms None remove_ok [of t i] by (simp add: removed_by_def map_filter_def)
next
  case (Some r)
  let ?row = "rows t ! r"
  have at: "at_index (data t) (focus_index i t) = Some r"
    using assms Some by (simp add: removed_by_def saved_at_def focus_index_def)
  have ok: "grid_ok t" "grid_ok (removeRow i t)" using assms(1) remove_ok by (auto simp: removed_by_def)
  have r: "r \<in> set (data t)" "r < length (rows t)" "r < length (rows s)"
    using at_index_set [OF at] trackedD(2) [OF ok(1) [unfolded grid_ok_def]] assms(1) by (auto simp: removed_by_def)
  have new: "\<not> rwIsNewRow ?row"
    using assms Some r by (simp add: removed_by_def saved_at_def)
  have change: "has_key ?row \<Longrightarrow> rwChange ?row \<noteq> None"
    using pending_change [OF ok(1) r(1)] by (auto simp: pending_def has_key_def split: option.splits)
  obtain row where row: "rows (removeRow i t) = (rows t)[r := row]" "rwIsRemoved row" "rwIsNewRow row = rwIsNewRow ?row"
    "rwChange row \<noteq> None" "data (removeRow i t) = data t"
    using at new change by (cases "has_key ?row") (auto simp: removeRow_def Let_def set_row_def)
  show ?thesis
    using assms(1) ok(2) row r Some
    by (auto simp: removed_by_def map_filter_def nth_list_update)
qed

lemma removed_by_all:
  assumes "grid_ok s" and "list_all (saved_at s) is"
  shows "removed_by is s (foldl (\<lambda>s i. removeRow i s) s is)"
  using assms(2)
proof (induction "is" rule: rev_induct)
  case Nil
  then show ?case using assms(1) by (simp add: removed_by_def map_filter_def)
next
  case (snoc i js)
  then show ?case using removed_by_next [of js s] by simp
qed

text \<open>
  C13. When none of the selected rows is a new one, the delete button marks exactly the selected
  rows as removed, moves none, and a commit will delete each of them.
\<close>

theorem delete_selected_rows:
  assumes "grid_reachable eq s" and "list_all (saved_at s) (getSelectedRowIndex (selectionRanges s))"
  shows "case List.map_filter (at_index (data s)) (getSelectedRowIndex (selectionRanges s)) of targets \<Rightarrow>
    data (onRemoveRow s) = data s
    \<and> list_all (\<lambda>r. rwIsRemoved (rows (onRemoveRow s) ! r) = (rwIsRemoved (rows s ! r) \<or> r \<in> set targets))
        [0..<length (rows s)]
    \<and> set targets \<subseteq> set (getChangedRows (onRemoveRow s))"
proof -
  let ?targets = "List.map_filter (at_index (data s)) (getSelectedRowIndex (selectionRanges s))"
  have all: "removed_by (getSelectedRowIndex (selectionRanges s)) s (onRemoveRow s)"
    unfolding onRemoveRow_def by (rule removed_by_all [OF reachable_ok [OF assms(1)] assms(2)])
  have "r \<in> set (getChangedRows (onRemoveRow s))" if r: "r \<in> set ?targets" for r
  proof -
    have "r \<in> set (data (onRemoveRow s))"
      using r all by (auto simp: removed_by_def map_filter_def dest: at_index_set)
    moreover have "pending (rows (onRemoveRow s) ! r)" using r all by (simp add: removed_by_def pending_def)
    ultimately show ?thesis using logged_rows(2) all by (simp add: removed_by_def)
  qed
  with all show ?thesis by (auto simp: removed_by_def list_all_iff)
qed

definition two_selected :: OptimizeTableState where
  "two_selected = run_op (=) (GoSelect [\<lparr>rx1 = 0, ry1 = 0, rx2 = 1, ry2 = 1\<rparr>]) example_grid"

theorem delete_selected_rows_witness:
  "data (onRemoveRow two_selected) = [0, 1]
   \<and> list_all (\<lambda>r. rwIsRemoved (rows (onRemoveRow two_selected) ! r)) [0, 1]"
proof -
  have reach: "grid_reachable (=) two_selected" unfolding two_selected_def by (rule example_grid_reachable)
  have saved: "list_all (saved_at two_selected) (getSelectedRowIndex (selectionRanges two_selected))" by code_simp
  have facts: "List.map_filter (at_index [0, Suc 0]) (getSelectedRowIndex (selectionRanges two_selected)) = [0, 1]"
    "length (rows two_selected) = 2" "data two_selected = [0, 1]" by code_simp+
  from delete_selected_rows [OF reach saved] show ?thesis
    by (simp add: facts upt_rec)
qed

lemma filter_out_nth:
  assumes "distinct xs" and "i < length xs"
  shows "filter (\<lambda>d. d \<noteq> xs ! i) xs = take i xs @ drop (Suc i) xs"
proof -
  have xs: "xs = take i xs @ xs ! i # drop (Suc i) xs" using assms(2) by (rule id_take_nth_drop)
  have "distinct (take i xs @ xs ! i # drop (Suc i) xs)" using assms(1) xs by (simp only:)
  then have "\<forall>d \<in> set (take i xs) \<union> set (drop (Suc i) xs). d \<noteq> xs ! i" by auto
  then have "filter (\<lambda>d. d \<noteq> xs ! i) (take i xs) = take i xs"
    "filter (\<lambda>d. d \<noteq> xs ! i) (drop (Suc i) xs) = drop (Suc i) xs" by (auto intro!: filter_True)
  moreover have "filter (\<lambda>d. d \<noteq> xs ! i) xs
      = filter (\<lambda>d. d \<noteq> xs ! i) (take i xs) @ filter (\<lambda>d. d \<noteq> xs ! i) (drop (Suc i) xs)"
    by (subst (2) xs) (simp only: filter_append filter.simps not_True_eq_False if_False refl simp_thms)
  ultimately show ?thesis by simp
qed

text \<open>
  When the first of two selected rows is a new one, the delete button takes it out of the grid,
  and so the second index means the row below: that row, which nobody selected, is marked to be
  deleted from the table, and the selected one is left as it is.
\<close>

theorem delete_hits_row_below:
  assumes "grid_reachable eq s" and "getSelectedRowIndex (selectionRanges s) = [int i, int j]"
    and "i < j" and "Suc j < length (data s)"
    and "rwIsNewRow (rows s ! (data s ! i))" and "has_key (rows s ! (data s ! i))"
    and "\<not> rwIsNewRow (rows s ! (data s ! Suc j))"
  shows "rwIsRemoved (rows (onRemoveRow s) ! (data s ! Suc j))
    \<and> data s ! Suc j \<in> set (getChangedRows (onRemoveRow s))
    \<and> rwIsRemoved (rows (onRemoveRow s) ! (data s ! j)) = rwIsRemoved (rows s ! (data s ! j))"
proof -
  let ?s1 = "removeRow (int i) s" and ?below = "data s ! Suc j"
  have ok: "grid_ok s" by (rule reachable_ok [OF assms(1)])
  then have dist: "distinct (data s)" using trackedD(1) by (auto simp: grid_ok_def)
  have at: "at_index (data s) (int i) = Some (data s ! i)" using assms(3,4) by (simp add: at_index_def)
  have s1: "data ?s1 = filter (\<lambda>d. d \<noteq> data s ! i) (data s)" "rows ?s1 = rows s"
    using at assms(5,6) by (simp_all add: removeRow_def focus_index_def Let_def)
  have cut: "filter (\<lambda>d. d \<noteq> data s ! i) (data s) = take i (data s) @ drop (Suc i) (data s)"
    using assms(3,4) by (intro filter_out_nth dist) simp
  have at1: "at_index (data ?s1) (int j) = Some ?below"
    using assms(3,4) by (simp add: s1 cut at_index_def nth_append)
  have gone: "removed_by [int j] ?s1 (removeRow (int j) ?s1)"
    using removed_by_all [of ?s1 "[int j]"] remove_ok [OF ok] assms(7) at1 s1 by (simp add: saved_at_def)
  have both: "onRemoveRow s = removeRow (int j) ?s1" using assms(2) by (simp add: onRemoveRow_def)
  have other: "data s ! j \<noteq> ?below" using dist assms(4) by (simp add: nth_eq_iff_index_eq)
  have bound: "data s ! j < length (rows s)" "?below < length (rows s)"
    using trackedD(2) [OF ok [unfolded grid_ok_def]] assms(4) by simp_all
  have "?below \<in> set (data ?s1)" using at_index_set [OF at1] .
  then have "?below \<in> set (getChangedRows (onRemoveRow s))"
    using logged_rows(2) [of "removeRow (int j) ?s1"] gone at1
    by (simp add: both removed_by_def pending_def map_filter_simps)
  then show ?thesis
    using gone other bound at1 s1(2) by (simp add: both removed_by_def map_filter_simps)
qed

text \<open>A new row is added above two saved ones, and the new and the first saved row are deleted.\<close>

definition new_selected :: OptimizeTableState where
  "new_selected = run_op (=) (GoSelect [\<lparr>rx1 = 0, ry1 = 0, rx2 = 1, ry2 = 1\<rparr>]) (run_op (=) (GoInsert 0 []) example_grid)"

theorem delete_hits_row_below_witness:
  "data new_selected = [2, 0, 1] \<and> getSelectedRowIndex (selectionRanges new_selected) = [0, 1]
   \<and> rwIsRemoved (rows (onRemoveRow new_selected) ! 1) \<and> \<not> rwIsRemoved (rows (onRemoveRow new_selected) ! 0)"
proof -
  have d: "data new_selected = [2, 0, 1]" "getSelectedRowIndex (selectionRanges new_selected) = [int 0, int 1]"
    "rwIsNewRow (rows new_selected ! 2)" "has_key (rows new_selected ! 2)" "\<not> rwIsNewRow (rows new_selected ! 1)"
    "\<not> rwIsRemoved (rows new_selected ! 0)" by code_simp+
  have "grid_reachable (=) new_selected" unfolding new_selected_def example_grid_def by (intro grid_reachable.intros)
  from delete_hits_row_below [OF this d(2)] d show ?thesis by simp
qed

section \<open>Pages\<close>

text \<open>
  The page before an offset smaller than the limit starts at a negative offset, and an input that
  is no number asks for \<open>LIMIT NaN\<close>.
\<close>

lemma negative_page:
  "let t = fold (table_step mk txt) [TypeOffset ''10'', BlurOffset] (opened_table\<lparr>ttLoading := False\<rparr>);
       u = previousPage (t\<lparr>ttLoading := False\<rparr>)
   in ttFinalOffset u = Some (- 40) \<and> ttOffset u = ''-40'' \<and> optOffset (last (ttRequests u)) = Dec (- 40) 0"
  by code_simp

lemma limit_not_a_number:
  "let t = fold (table_step mk txt) [TypeLimit ''all'', BlurLimit] opened_table
   in ''LIMIT NaN'' = ''LIMIT '' @ escapeValue (Num (optLimit (last (ttRequests t))))"
  by code_simp

end
