(* ===== verification/Connections.thy ===== *)
theory Connections
  imports Effects SqlText Dialects
begin

text \<open>
  The connections behind the drivers: the HTTP connection of a database of the server
  (\<open>drivers/database/filedb.ts\<close>, \<open>system-filedb.ts\<close>), the transformation of results of
  libsql and sql.js (\<open>turso.tsx\<close>, \<open>sqljs.ts\<close>), and the two connections that match
  replies to requests by a number (\<open>drivers/iframe-driver.ts\<close>,
  \<open>drivers/mysql/mysql-playground-driver.ts\<close>).  The server, libsql, sql.js, the parent window
  and the web socket are not in the repository's TypeScript: they are parameters.
\<close>

section \<open>Paths of requests\<close>

text \<open>\<open>encodeURIComponent\<close>, for characters below 256 (two bytes of UTF-8 from 128 on).\<close>

definition is_letter :: "char \<Rightarrow> bool" where
  "is_letter c = (let n = of_char c :: nat in (65 \<le> n \<and> n \<le> 90) \<or> (97 \<le> n \<and> n \<le> 122))"

definition unreserved :: "char \<Rightarrow> bool" where
  "unreserved c = (is_digit c \<or> is_letter c \<or> c \<in> set ''-_.!~*()'' \<or> of_char c = (39 :: nat))"

definition percent_byte :: "nat \<Rightarrow> string" where
  "percent_byte n = [CHR ''%'', ''0123456789ABCDEF'' ! (n div 16), ''0123456789ABCDEF'' ! (n mod 16)]"

definition encode_char :: "char \<Rightarrow> string" where
  "encode_char c =
     (let n = of_char c :: nat in
      if unreserved c then [c]
      else if n < 128 then percent_byte n
      else percent_byte (192 + n div 64) @ percent_byte (128 + n mod 64))"

definition encodeURIComponent :: "string \<Rightarrow> string" where
  "encodeURIComponent s = concat (map encode_char s)"

section \<open>The connection of a database of the server\<close>

text \<open>
  What a \<open>POST\<close> of \<open>{ sql }\<close> is answered with.  \<open>rpBody\<close> is the JSON of the answer, None when
  it is not JSON; \<open>bdResult\<close> is that JSON read at the type \<open>DatabaseResultSet\<close>, which the code
  asserts without a check, and \<open>bdHasRows\<close> says whether its \<open>rows\<close> are an array.
\<close>

record ReplyBody =
  bdError :: "string option"
  bdHasRows :: bool
  bdResult :: DatabaseResultSet
  bdRowsAffected :: "jsnum option"
  bdLastInsertRowid :: "jsnum option"

record Reply =
  rpOk :: bool
  rpStatus :: nat
  rpBody :: "ReplyBody option"

type_synonym 'w Post = "string \<Rightarrow> string \<Rightarrow> ('w, Reply) io"

text \<open>\<open>WRITE_PATTERN\<close>.\<close>

definition sql_word_char :: "char \<Rightarrow> bool" where
  "sql_word_char c = (is_digit c \<or> is_letter c \<or> c = CHR ''_'')"

definition pragma_assigns :: "string \<Rightarrow> bool" where
  "pragma_assigns t =
     (let a = drop 6 t; b = dropWhile is_space a; c = dropWhile sql_word_char b;
          e = dropWhile is_space c
      in js_starts_with t ''PRAGMA'' \<and> a \<noteq> b \<and> b \<noteq> c \<and> js_starts_with e ''='')"

definition write_keywords :: "string list" where
  "write_keywords = [''INSERT'', ''UPDATE'', ''DELETE'', ''DROP'', ''ALTER'', ''CREATE'', ''ATTACH'', ''DETACH'']"

definition write_pattern :: "string \<Rightarrow> bool" where
  "write_pattern stmt =
     (let t = dropWhile is_space (js_upper stmt)
      in list_ex (js_starts_with t) write_keywords \<or> pragma_assigns t)"

text \<open>\<open>res.json().catch(() => null)\<close> of an answer that is not ok, and the error it gives.\<close>

definition failed_reply :: "string \<Rightarrow> Reply \<Rightarrow> js_error" where
  "failed_reply what r =
     (let e = Option.bind (rpBody r) bdError
      in JsError (if truthy_str e then the e
                  else what @ '' failed: '' @ nat_digits (rpStatus r)))"

text \<open>\<open>res.json()\<close> of an answer that is ok: it throws when the body is not JSON.\<close>

definition reply_json :: "Reply \<Rightarrow> ReplyBody result" where
  "reply_json r =
     (case rpBody r of None \<Rightarrow> Inl (JsError ''Unexpected token'') | Some b \<Rightarrow> Inr b)"

definition filedb_url :: "string \<Rightarrow> string \<Rightarrow> string" where
  "filedb_url dbName endpoint = ''/api/db/'' @ encodeURIComponent dbName @ ''/'' @ endpoint"

text \<open>The result of a write: no rows, and the numbers of the answer.\<close>

definition write_result :: "ReplyBody \<Rightarrow> DatabaseResultSet" where
  "write_result b =
     \<lparr>rsRows = [], rsHeaders = [],
      rsStat = \<lparr>rowsAffected = (case bdRowsAffected b of None \<Rightarrow> num_of_int 0 | Some n \<Rightarrow> n),
                rowsRead = None, rowsWritten = bdRowsAffected b, queryDurationMs = None\<rparr>,
      rsLastInsertRowid = bdLastInsertRowid b\<rparr>"

definition filedb_exec :: "'w Post \<Rightarrow> string \<Rightarrow> string \<Rightarrow> ('w, DatabaseResultSet) io" where
  "filedb_exec post dbName stmt =
     io_bind (post (filedb_url dbName ''exec'') stmt) (\<lambda>res.
       if \<not> rpOk res then io_throw (failed_reply ''Exec'' res)
       else io_bind (io_lift (reply_json res)) (\<lambda>b.
         io_return (if bdHasRows b then bdResult b else write_result b)))"

definition filedb_query :: "'w Post \<Rightarrow> string \<Rightarrow> string \<Rightarrow> ('w, DatabaseResultSet) io" where
  "filedb_query post dbName stmt =
     (if write_pattern stmt then filedb_exec post dbName stmt
      else io_bind (post (filedb_url dbName ''query'') stmt) (\<lambda>res.
        if \<not> rpOk res then io_throw (failed_reply ''Query'' res)
        else io_bind (io_lift (reply_json res)) (\<lambda>b. io_return (bdResult b))))"

definition filedb_transaction ::
  "'w Post \<Rightarrow> string \<Rightarrow> string list \<Rightarrow> ('w, DatabaseResultSet list) io" where
  "filedb_transaction post dbName stmts = io_map (filedb_exec post dbName) stmts"

definition filedb_connection :: "'w Post \<Rightarrow> string \<Rightarrow> 'w Connection" where
  "filedb_connection post dbName =
     \<lparr>dbQuery = filedb_query post dbName, dbTransaction = filedb_transaction post dbName\<rparr>"

text \<open>The connection of a database of the system: every statement is a query.\<close>

definition systemdb_query :: "'w Post \<Rightarrow> string \<Rightarrow> string \<Rightarrow> ('w, DatabaseResultSet) io" where
  "systemdb_query post dbName stmt =
     io_bind (post (''/api/system/db/'' @ encodeURIComponent dbName @ ''/query'') stmt) (\<lambda>res.
       if \<not> rpOk res then io_throw (failed_reply ''Query'' res)
       else io_bind (io_lift (reply_json res)) (\<lambda>b. io_return (bdResult b)))"

definition systemdb_exec :: "'w Post \<Rightarrow> string \<Rightarrow> string \<Rightarrow> ('w, DatabaseResultSet) io" where
  "systemdb_exec post dbName stmt = systemdb_query post dbName stmt"

definition systemdb_transaction ::
  "'w Post \<Rightarrow> string \<Rightarrow> string list \<Rightarrow> ('w, DatabaseResultSet list) io" where
  "systemdb_transaction post dbName stmts = io_map (systemdb_query post dbName) stmts"

definition systemdb_connection :: "'w Post \<Rightarrow> string \<Rightarrow> 'w Connection" where
  "systemdb_connection post dbName =
     \<lparr>dbQuery = systemdb_query post dbName, dbTransaction = systemdb_transaction post dbName\<rparr>"

section \<open>Results of libsql\<close>

text \<open>
  The loop that renames a column whose name is taken: \<open>k\<close> turns are left, \<open>i\<close> is the number of
  the turn.  After the last turn the name is used without a test.
\<close>

fun rename_loop :: "string list \<Rightarrow> string \<Rightarrow> string \<Rightarrow> nat \<Rightarrow> nat \<Rightarrow> string" where
  "rename_loop taken column cur i 0 = cur"
| "rename_loop taken column cur i (Suc k) =
     (if cur \<notin> set taken then cur
      else rename_loop taken column (''__'' @ column @ ''_'' @ nat_digits i) (Suc i) k)"

definition rename_column :: "string list \<Rightarrow> string \<Rightarrow> string" where
  "rename_column taken column = rename_loop taken column column 0 20"

definition result_header :: "string \<Rightarrow> string \<Rightarrow> string option \<Rightarrow> ColumnType option \<Rightarrow> DatabaseHeader" where
  "result_header renamed column originalType ty =
     \<lparr>hdName = renamed, hdDisplayName = column, hdOriginalType = originalType, hdType = ty,
      hdTable = None, hdSchema = None, hdOriginalName = None\<rparr>"

fun turso_headers :: "string list \<Rightarrow> (string \<times> string option) list \<Rightarrow> DatabaseHeader list" where
  "turso_headers headerSet [] = []"
| "turso_headers headerSet ((column, declared) # cs) =
     (let renamed = rename_column headerSet column
      in result_header renamed column declared (convertSqliteType declared)
         # turso_headers (renamed # headerSet) cs)"

record RawResult =
  rawColumns :: "string list"
  rawColumnTypes :: "string list"
  rawRows :: "jsval list list"
  rawRowsAffected :: jsnum
  rawRowsRead :: "jsnum option"
  rawRowsWritten :: "jsnum option"
  rawDuration :: "jsnum option"
  rawLastInsertRowid :: "int option"

text \<open>\<open>raw.columns.map\<close> with \<open>raw.columnTypes[colIdx]\<close>, which may be missing.\<close>

definition typed_columns :: "RawResult \<Rightarrow> (string \<times> string option) list" where
  "typed_columns raw =
     map (\<lambda>i. (rawColumns raw ! i,
               if i < length (rawColumnTypes raw) then Some (rawColumnTypes raw ! i) else None))
       [0..<length (rawColumns raw)]"

text \<open>\<open>r[idx]\<close>, and the bytes of a \<open>Uint8Array\<close> as numbers.\<close>

definition raw_cell :: "jsval list \<Rightarrow> nat \<Rightarrow> jsval" where
  "raw_cell r idx = (if idx < length r then r ! idx else Undefined)"

fun turso_cell :: "jsval \<Rightarrow> jsval" where
  "turso_cell (Uint8Array bs) = JsArray (map (\<lambda>b. Num (num_of_int (uint b))) bs)"
| "turso_cell v = v"

definition keyed_row :: "(jsval \<Rightarrow> jsval) \<Rightarrow> DatabaseHeader list \<Rightarrow> jsval list \<Rightarrow> jsval obj" where
  "keyed_row cell headers r =
     foldl (\<lambda>a (idx, b). obj_set (hdName b) (cell (raw_cell r idx)) a) []
       (zip [0..<length headers] headers)"

definition transformRawResult :: "RawResult \<Rightarrow> DatabaseResultSet" where
  "transformRawResult raw =
     (let headers = turso_headers [] (typed_columns raw)
      in \<lparr>rsRows = map (keyed_row turso_cell headers) (rawRows raw), rsHeaders = headers,
          rsStat = \<lparr>rowsAffected = rawRowsAffected raw, rowsRead = rawRowsRead raw,
                    rowsWritten = rawRowsWritten raw, queryDurationMs = rawDuration raw\<rparr>,
          rsLastInsertRowid = map_option num_of_int (rawLastInsertRowid raw)\<rparr>)"

record 'w LibsqlClient =
  clExecute :: "string \<Rightarrow> ('w, RawResult) io"
  clBatch :: "string list \<Rightarrow> ('w, RawResult list) io"

definition turso_query :: "'w LibsqlClient \<Rightarrow> string \<Rightarrow> ('w, DatabaseResultSet) io" where
  "turso_query client stmt =
     io_bind (clExecute client stmt) (\<lambda>r. io_return (transformRawResult r))"

definition turso_transaction ::
  "'w LibsqlClient \<Rightarrow> string list \<Rightarrow> ('w, DatabaseResultSet list) io" where
  "turso_transaction client stmts =
     io_bind (clBatch client stmts) (\<lambda>rs. io_return (map transformRawResult rs))"

text \<open>The three replacements of the scheme of an address, one after the other.\<close>

definition replace_prefix :: "string \<Rightarrow> string \<Rightarrow> string \<Rightarrow> string" where
  "replace_prefix p r s = (if js_starts_with s p then r @ drop (length p) s else s)"

definition turso_url :: "string \<Rightarrow> string" where
  "turso_url url =
     replace_prefix ''wss://'' ''https://''
       (replace_prefix ''ws://'' ''http://'' (replace_prefix ''libsql://'' ''https://'' url))"

definition turso_flags :: "bool \<Rightarrow> DriverFlags" where
  "turso_flags bigInt = (sqlite_flags bigInt)\<lparr>supportBigInt := bigInt, supportModifyColumn := True\<rparr>"

section \<open>Results of sql.js\<close>

text \<open>
  A database of sql.js: \<open>prepare\<close> gives the names of the columns, \<open>step\<close> and \<open>get\<close> the rows one
  by one until there is none; \<open>sjModified\<close> is \<open>getRowsModified()\<close> and \<open>sjNow\<close> the clock.
\<close>

record 'w SqljsDatabase =
  sjPrepare :: "string \<Rightarrow> ('w, string list) io"
  sjStep :: "('w, jsval list option) io"
  sjModified :: "'w \<Rightarrow> nat"
  sjNow :: "'w \<Rightarrow> int"

text \<open>\<open>headerSet\<close> is created and never filled.\<close>

definition sqljs_headers :: "string list \<Rightarrow> DatabaseHeader list" where
  "sqljs_headers headerName =
     map (\<lambda>column. result_header (rename_column [] column) column None None) headerName"

text \<open>\<open>while (s.step())\<close>, which may go on for ever: fuel for the number of rows.\<close>

fun sqljs_rows :: "nat \<Rightarrow> 'w SqljsDatabase \<Rightarrow> DatabaseHeader list \<Rightarrow> 'w \<Rightarrow>
    (jsval obj list result \<times> 'w) option" where
  "sqljs_rows 0 db headers w = None"
| "sqljs_rows (Suc n) db headers w =
     (case sjStep db w of
        (Inl e, w1) \<Rightarrow> Some (Inl e, w1)
      | (Inr None, w1) \<Rightarrow> Some (Inr [], w1)
      | (Inr (Some r), w1) \<Rightarrow>
          (case sqljs_rows n db headers w1 of
             None \<Rightarrow> None
           | Some (Inl e, w2) \<Rightarrow> Some (Inl e, w2)
           | Some (Inr rs, w2) \<Rightarrow> Some (Inr (keyed_row (\<lambda>v. v) headers r # rs), w2)))"

text \<open>The state of the connection is the flag \<open>hasRowsChanged\<close>.\<close>

definition sqljs_query ::
  "nat \<Rightarrow> 'w SqljsDatabase \<Rightarrow> string \<Rightarrow> bool \<times> 'w \<Rightarrow>
   (DatabaseResultSet result \<times> bool \<times> 'w) option" where
  "sqljs_query fuel db sql st =
     (let (changed, w) = st in
      case sjPrepare db sql w of
        (Inl e, w1) \<Rightarrow> Some (Inl e, changed, w1)
      | (Inr headerName, w1) \<Rightarrow>
          (let headers = sqljs_headers headerName in
           case sqljs_rows fuel db headers w1 of
             None \<Rightarrow> None
           | Some (Inl e, w2) \<Rightarrow> Some (Inl e, changed, w2)
           | Some (Inr rs, w2) \<Rightarrow>
               Some (Inr \<lparr>rsRows = rs, rsHeaders = headers,
                          rsStat = \<lparr>rowsAffected = num_of_int (if length headers = 0 then int (sjModified db w2) else 0),
                                    rowsRead = None, rowsWritten = None,
                                    queryDurationMs = Some (num_of_int (sjNow db w1 - sjNow db w))\<rparr>,
                          rsLastInsertRowid = None\<rparr>,
                     if 0 < sjModified db w2 then True else changed, w2)))"

fun sqljs_transaction ::
  "nat \<Rightarrow> 'w SqljsDatabase \<Rightarrow> string list \<Rightarrow> bool \<times> 'w \<Rightarrow>
   (DatabaseResultSet list result \<times> bool \<times> 'w) option" where
  "sqljs_transaction fuel db [] st = Some (Inr [], fst st, snd st)"
| "sqljs_transaction fuel db (s # ss) st =
     (case sqljs_query fuel db s st of
        None \<Rightarrow> None
      | Some (Inl e, c, w) \<Rightarrow> Some (Inl e, c, w)
      | Some (Inr r, c, w) \<Rightarrow>
          (case sqljs_transaction fuel db ss (c, w) of
             None \<Rightarrow> None
           | Some (Inl e, c2, w2) \<Rightarrow> Some (Inl e, c2, w2)
           | Some (Inr rs, c2, w2) \<Rightarrow> Some (Inr (r # rs), c2, w2)))"

text \<open>\<open>reload\<close> makes a new connection, \<open>resetChange\<close> clears its flag.\<close>

definition sqljs_reload :: "'w \<Rightarrow> bool \<times> 'w" where
  "sqljs_reload w = (False, w)"

definition sqljs_resetChange :: "bool \<times> 'w \<Rightarrow> bool \<times> 'w" where
  "sqljs_resetChange st = (False, snd st)"

definition sqljs_hasChanged :: "bool \<times> 'w \<Rightarrow> bool" where
  "sqljs_hasChanged st = fst st"

end
