(* ===== verification/ReplyChannels.thy ===== *)
theory ReplyChannels
  imports JsPrelude
begin

text \<open>
  The two connections that send a request with a number and settle the promise of that number
  when a message carrying it arrives: the window that embeds the studio
  (\<open>drivers/iframe-driver.ts\<close>) and the web socket of the MySQL playground
  (\<open>drivers/mysql/mysql-playground-driver.ts\<close>).  Both implement one contract, a locale, under
  which a promise is settled by the first message that answers it.
\<close>

section \<open>Requests and settled promises\<close>

datatype ConnRequest = CrQuery string | CrTransaction "string list"

datatype 'd Settled = Resolved 'd | Rejected string

text \<open>A history: requests of the studio and messages from outside, in the order they happen.\<close>

datatype ('q, 'm) conn_event = Request 'q | Message 'm

fun conn_step :: "('q \<Rightarrow> 's \<Rightarrow> 's) \<Rightarrow> ('m \<Rightarrow> 's \<Rightarrow> 's) \<Rightarrow> ('q, 'm) conn_event \<Rightarrow> 's \<Rightarrow> 's" where
  "conn_step issue deliver (Request q) s = issue q s"
| "conn_step issue deliver (Message m) s = deliver m s"

definition conn_run ::
  "('q \<Rightarrow> 's \<Rightarrow> 's) \<Rightarrow> ('m \<Rightarrow> 's \<Rightarrow> 's) \<Rightarrow> ('q, 'm) conn_event list \<Rightarrow> 's \<Rightarrow> 's" where
  "conn_run issue deliver es s = foldl (\<lambda>s e. conn_step issue deliver e s) s es"

text \<open>
  The specification on the history alone: the first message that answers the number \<open>n\<close> after
  \<open>k\<close> more requests.
\<close>

fun first_answer :: "('m \<Rightarrow> nat option) \<Rightarrow> nat \<Rightarrow> nat \<Rightarrow> ('q, 'm) conn_event list \<Rightarrow> 'm option" where
  "first_answer addressed n k [] = None"
| "first_answer addressed n k (Request q # es) = first_answer addressed n (k - 1) es"
| "first_answer addressed n k (Message m # es) =
     (if k = 0 \<and> addressed m = Some n then Some m else first_answer addressed n k es)"

lemma conn_run_simps [simp]:
  "conn_run issue deliver [] s = s"
  "conn_run issue deliver (e # es) s = conn_run issue deliver es (conn_step issue deliver e s)"
  by (simp_all add: conn_run_def)

lemma conn_run_append:
  "conn_run issue deliver (es @ fs) s = conn_run issue deliver fs (conn_run issue deliver es s)"
  by (simp add: conn_run_def)

section \<open>The contract of a channel\<close>

text \<open>
  \<open>issued\<close> counts the requests, \<open>outcome\<close> is what the promise of a number was settled with.
  \<open>addressed\<close> is the number a message answers, None for a message that answers none.
\<close>

locale request_channel =
  fixes start :: 's
    and ok :: "'s \<Rightarrow> bool"
    and issue :: "'q \<Rightarrow> 's \<Rightarrow> 's"
    and deliver :: "'m \<Rightarrow> 's \<Rightarrow> 's"
    and issued :: "'s \<Rightarrow> nat"
    and outcome :: "'s \<Rightarrow> nat \<Rightarrow> 'o option"
    and addressed :: "'m \<Rightarrow> nat option"
    and reply :: "'m \<Rightarrow> 'o"
  assumes start_ok: "ok start"
    and start_issued: "issued start = 0"
    and start_outcome: "outcome start n = None"
    and issue_ok: "ok s \<Longrightarrow> ok (issue q s)"
    and issue_issued: "ok s \<Longrightarrow> issued (issue q s) = Suc (issued s)"
    and issue_outcome: "ok s \<Longrightarrow> outcome (issue q s) n = outcome s n"
    and deliver_ok: "ok s \<Longrightarrow> ok (deliver m s)"
    and deliver_issued: "ok s \<Longrightarrow> issued (deliver m s) = issued s"
    and deliver_outcome: "ok s \<Longrightarrow> 1 \<le> n \<Longrightarrow> outcome (deliver m s) n =
      (if addressed m = Some n \<and> n \<le> issued s \<and> outcome s n = None then Some (reply m)
       else outcome s n)"
begin

lemma conn_step_ok: "ok s \<Longrightarrow> ok (conn_step issue deliver e s)"
  by (cases e) (simp_all add: issue_ok deliver_ok)

lemma conn_run_ok: "ok s \<Longrightarrow> ok (conn_run issue deliver es s)"
  by (induction es arbitrary: s) (simp_all add: conn_step_ok)

lemma conn_run_issued:
  "ok s \<Longrightarrow> issued (conn_run issue deliver es s) = issued s + length (filter (\<lambda>e. \<exists>q. e = Request q) es)"
proof (induction es arbitrary: s)
  case (Cons e es)
  then show ?case by (cases e) (simp_all add: issue_ok deliver_ok issue_issued deliver_issued)
qed simp

lemma outcome_run:
  assumes "1 \<le> n" and "ok s"
  shows "outcome (conn_run issue deliver es s) n =
    (case outcome s n of Some x \<Rightarrow> Some x | None \<Rightarrow> map_option reply (first_answer addressed n (n - issued s) es))"
  using assms(2)
proof (induction es arbitrary: s)
  case Nil
  then show ?case by (simp split: option.split)
next
  case (Cons e es)
  show ?case
  proof (cases e)
    case (Request q)
    then show ?thesis
      using Cons.IH [OF issue_ok [OF Cons.prems]] Cons.prems
      by (simp add: Request issue_issued issue_outcome split: option.split)
  next
    case (Message m)
    then show ?thesis
      using Cons.IH [OF deliver_ok [OF Cons.prems]] Cons.prems assms(1)
      by (auto simp: Message deliver_issued deliver_outcome split: option.split)
  qed
qed

text \<open>What the promise of a number is settled with is read off the history.\<close>

lemma outcome_history:
  "1 \<le> n \<Longrightarrow> outcome (conn_run issue deliver es start) n = map_option reply (first_answer addressed n n es)"
  by (simp add: outcome_run start_ok start_outcome start_issued)

text \<open>A promise that was settled stays as it is.\<close>

lemma settled_for_good:
  "1 \<le> n \<Longrightarrow> ok s \<Longrightarrow> outcome s n = Some x \<Longrightarrow> outcome (conn_run issue deliver es s) n = Some x"
  by (simp add: outcome_run)

end

section \<open>The window that embeds the studio\<close>

record 'd IframeMessage =
  imId :: "nat option"
  imError :: "string option"
  imData :: 'd

text \<open>
  \<open>counter\<close>, the numbers in \<open>queryPromise\<close>, the messages posted to the parent, and how the
  promises of the requests were settled.
\<close>

record 'd IframeConnection =
  ifCounter :: nat
  ifWaiting :: "nat list"
  ifPosted :: "(nat \<times> ConnRequest) list"
  ifSettled :: "(nat \<times> 'd Settled) list"

definition iframe_start :: "'d IframeConnection" where
  "iframe_start = \<lparr>ifCounter = 0, ifWaiting = [], ifPosted = [], ifSettled = []\<rparr>"

text \<open>\<open>query\<close> and \<open>transaction\<close> differ in what they post only.\<close>

definition iframe_request :: "ConnRequest \<Rightarrow> 'd IframeConnection \<Rightarrow> 'd IframeConnection" where
  "iframe_request q c =
     (let i = ifCounter c + 1
      in c\<lparr>ifCounter := i, ifWaiting := List.insert i (ifWaiting c),
           ifPosted := ifPosted c @ [(i, q)]\<rparr>)"

definition settle :: "string option \<Rightarrow> 'd \<Rightarrow> 'd Settled" where
  "settle err d = (if truthy_str err then Rejected (the err) else Resolved d)"

definition iframe_message :: "'d IframeMessage \<Rightarrow> 'd IframeConnection \<Rightarrow> 'd IframeConnection" where
  "iframe_message m c =
     (case imId m of
        None \<Rightarrow> c
      | Some i \<Rightarrow>
          if i \<notin> set (ifWaiting c) then c
          else c\<lparr>ifSettled := (i, settle (imError m) (imData m)) # ifSettled c,
                 ifWaiting := removeAll i (ifWaiting c)\<rparr>)"

definition iframe_reply :: "'d IframeMessage \<Rightarrow> 'd Settled" where
  "iframe_reply m = settle (imError m) (imData m)"

text \<open>A request is either waiting or settled, never both.\<close>

definition iframe_ok :: "'d IframeConnection \<Rightarrow> bool" where
  "iframe_ok c = (set (ifWaiting c) \<union> fst ` set (ifSettled c) = {1..ifCounter c}
     \<and> set (ifWaiting c) \<inter> fst ` set (ifSettled c) = {}
     \<and> distinct (ifWaiting c) \<and> distinct (map fst (ifSettled c))
     \<and> map fst (ifPosted c) = [1..<Suc (ifCounter c)])"

section \<open>The web socket of the MySQL playground\<close>

record 'd PlaygroundMessage =
  pmReady :: bool
  pmId :: "nat option"
  pmError :: "string option"
  pmData :: 'd

datatype WsSent = WsPing | WsRequest nat ConnRequest

record 'd PlaygroundConnection =
  pgCounter :: nat
  pgWaiting :: "nat list"
  pgSent :: "WsSent list"
  pgSettled :: "(nat \<times> 'd Settled) list"
  pgReadyCalls :: nat
  pgClosed :: bool

definition playground_start :: "'d PlaygroundConnection" where
  "playground_start =
     \<lparr>pgCounter = 0, pgWaiting = [], pgSent = [], pgSettled = [], pgReadyCalls = 0, pgClosed = False\<rparr>"

definition playground_request :: "ConnRequest \<Rightarrow> 'd PlaygroundConnection \<Rightarrow> 'd PlaygroundConnection" where
  "playground_request q c =
     (let i = pgCounter c + 1
      in c\<lparr>pgCounter := i, pgWaiting := List.insert i (pgWaiting c),
           pgSent := pgSent c @ [WsRequest i q]\<rparr>)"

definition playground_message ::
  "'d PlaygroundMessage \<Rightarrow> 'd PlaygroundConnection \<Rightarrow> 'd PlaygroundConnection" where
  "playground_message m c =
     (if pmReady m then c\<lparr>pgReadyCalls := pgReadyCalls c + 1\<rparr>
      else case pmId m of
        None \<Rightarrow> c
      | Some i \<Rightarrow>
          if i = 0 then c
          else if i \<notin> set (pgWaiting c) then c
          else c\<lparr>pgSettled := (i, settle (pmError m) (pmData m)) # pgSettled c,
                 pgWaiting := removeAll i (pgWaiting c)\<rparr>)"

definition playground_ping :: "'d PlaygroundConnection \<Rightarrow> 'd PlaygroundConnection" where
  "playground_ping c = c\<lparr>pgSent := pgSent c @ [WsPing]\<rparr>"

definition playground_close :: "'d PlaygroundConnection \<Rightarrow> 'd PlaygroundConnection" where
  "playground_close c = c\<lparr>pgClosed := True\<rparr>"

definition playground_reply :: "'d PlaygroundMessage \<Rightarrow> 'd Settled" where
  "playground_reply m = settle (pmError m) (pmData m)"

text \<open>The number a message answers: none for \<open>ready\<close>, and 0 is falsy.\<close>

definition playground_addressed :: "'d PlaygroundMessage \<Rightarrow> nat option" where
  "playground_addressed m = (if pmReady m \<or> pmId m = Some 0 then None else pmId m)"

definition playground_ok :: "'d PlaygroundConnection \<Rightarrow> bool" where
  "playground_ok c = (set (pgWaiting c) \<union> fst ` set (pgSettled c) = {1..pgCounter c}
     \<and> set (pgWaiting c) \<inter> fst ` set (pgSettled c) = {}
     \<and> distinct (pgWaiting c) \<and> distinct (map fst (pgSettled c)))"

section \<open>Both meet the contract\<close>

lemma settled_lookup:
  "W \<union> fst ` set S = {1..k} \<Longrightarrow> W \<inter> fst ` set S = {} \<Longrightarrow>
   n \<in> W \<longleftrightarrow> 1 \<le> n \<and> n \<le> k \<and> map_of S n = None"
  by (metis Int_iff UnCI UnE atLeastAtMost_iff empty_iff map_of_eq_None_iff)

lemma move_waiting:
  assumes "W \<union> fst ` set S = {1..k}" and "W \<inter> fst ` set S = {}" and "i \<in> W"
  shows "(W - {i}) \<union> fst ` set ((i, x) # S) = {1..k}"
    and "(W - {i}) \<inter> fst ` set ((i, x) # S) = {}"
    and "i \<notin> fst ` set S"
  using assms by auto

lemma fresh_number: "W \<union> fst ` set S = {1..k} \<Longrightarrow> (Suc k, b) \<notin> set S \<and> Suc k \<notin> W"
  by (metis Suc_n_not_le_n UnCI atLeastAtMost_iff fst_conv image_eqI)

interpretation iframe: request_channel iframe_start iframe_ok iframe_request iframe_message
    ifCounter "\<lambda>c. map_of (ifSettled c)" imId iframe_reply
proof (unfold_locales, goal_cases)
  case (4 s q)
  then show ?case
    using fresh_number [of "set (ifWaiting s)" "ifSettled s" "ifCounter s"]
    by (auto simp: iframe_ok_def iframe_request_def Let_def atLeastAtMostSuc_conv)
next
  case (7 s m)
  show ?case
  proof (cases "imId m")
    case None
    with 7 show ?thesis by (simp add: iframe_message_def)
  next
    case (Some i)
    with 7 move_waiting [of "set (ifWaiting s)" "ifSettled s" "ifCounter s" i] show ?thesis
      by (auto simp: iframe_message_def iframe_ok_def distinct_removeAll)
  qed
next
  case (9 s n m)
  then show ?case
    using settled_lookup [of "set (ifWaiting s)" "ifSettled s" "ifCounter s"]
    by (auto simp: iframe_message_def iframe_ok_def iframe_reply_def split: option.split)
qed (auto simp: iframe_start_def iframe_ok_def iframe_request_def iframe_message_def Let_def
    split: option.split)

interpretation playground: request_channel playground_start playground_ok playground_request
    playground_message pgCounter "\<lambda>c. map_of (pgSettled c)" playground_addressed playground_reply
proof (unfold_locales, goal_cases)
  case (4 s q)
  then show ?case
    using fresh_number [of "set (pgWaiting s)" "pgSettled s" "pgCounter s"]
    by (auto simp: playground_ok_def playground_request_def Let_def atLeastAtMostSuc_conv)
next
  case (7 s m)
  show ?case
  proof (cases "pmId m")
    case None
    with 7 show ?thesis by (simp add: playground_message_def playground_ok_def)
  next
    case (Some i)
    with 7 move_waiting [of "set (pgWaiting s)" "pgSettled s" "pgCounter s" i] show ?thesis
      by (auto simp: playground_message_def playground_ok_def distinct_removeAll)
  qed
next
  case (9 s n m)
  then show ?case
    using settled_lookup [of "set (pgWaiting s)" "pgSettled s" "pgCounter s"]
    by (auto simp: playground_message_def playground_ok_def playground_reply_def
        playground_addressed_def split: option.split)
qed (auto simp: playground_start_def playground_ok_def playground_request_def playground_message_def
    Let_def split: option.split)

end
