(* ===== verification/ConnectionFacts.thy ===== *)
theory ConnectionFacts
  imports Connections ReplyChannels GridActions RowFacts GridFacts
begin

text \<open>
  What the connections promise: which statements of the studio reach which endpoint, what a
  failed commit leaves in the database, the names and cells of results, and replies that find
  their requests.
\<close>

section \<open>Paths\<close>

lemma encode_char_safe: "c \<in> set (encode_char d) \<Longrightarrow> unreserved c \<or> c = CHR ''%''"
proof -
  assume c: "c \<in> set (encode_char d)"
  have hex: "unreserved (''0123456789ABCDEF'' ! k)" if "k < 16" for k
  proof -
    have "list_all unreserved ''0123456789ABCDEF''" by code_simp
    then show ?thesis using that by (simp add: list_all_length)
  qed
  have "unreserved e \<or> e = CHR ''%''" if "e \<in> set (percent_byte n)" and "n < 256" for e n
  proof -
    have "n div 16 < 16" "n mod 16 < 16" using that(2) by simp_all
    then show ?thesis using that(1) hex unfolding percent_byte_def by auto
  qed
  moreover have "192 + of_char d div 64 < (256 :: nat)" "128 + of_char d mod 64 < (256 :: nat)"
  proof -
    have "of_char d < (256 :: nat)" by (rule nat_of_char_less_256)
    then show "192 + of_char d div 64 < (256 :: nat)" by linarith
    show "128 + of_char d mod 64 < (256 :: nat)" using mod_less_divisor [of 64 "of_char d :: nat"] by linarith
  qed
  ultimately have "unreserved c \<or> c = CHR ''%''" if "c \<in> set (percent_byte (192 + of_char d div 64))
      \<or> c \<in> set (percent_byte (128 + of_char d mod 64)) \<or> c \<in> set (percent_byte (of_char d)) \<and> of_char d < (128 :: nat)"
    using that by (meson less_trans numeral_less_iff semiring_norm(76,78,79))
  then show ?thesis
    using c unfolding encode_char_def Let_def
    by (auto simp del: mod_less_divisor split: if_splits)
qed

text \<open>A name of a database cannot add a segment, a query or a fragment to the path.\<close>

lemma encoded_name_is_one_segment:
  "set (encodeURIComponent s) \<inter> {CHR ''/'', CHR ''?'', CHR ''#''} = {}"
proof -
  have "\<not> unreserved CHR ''/''" "\<not> unreserved CHR ''?''" "\<not> unreserved CHR ''#''"
    by (simp_all add: unreserved_def is_digit_def is_letter_def)
  then show ?thesis
    using encode_char_safe by (fastforce simp: encodeURIComponent_def)
qed

section \<open>Which endpoint a statement reaches\<close>

lemma write_patternI:
  assumes "k \<in> set write_keywords"
  shows "write_pattern (k @ t)"
proof -
  have "list_all (\<lambda>k. js_upper k = k \<and> k \<noteq> [] \<and> \<not> is_space (hd k)) write_keywords" by code_simp
  then have k: "js_upper k = k" "k \<noteq> []" "\<not> is_space (hd k)" using assms by (auto simp: list_all_iff)
  then have "dropWhile is_space (js_upper (k @ t)) = k @ js_upper t"
    by (cases k) (simp_all add: js_upper_def)
  then show ?thesis using assms unfolding write_pattern_def Let_def
    by (auto simp: list_ex_iff intro!: bexI [of _ k])
qed

lemma select_is_no_write: "\<not> write_pattern (''SELECT'' @ t)"
proof -
  have "dropWhile is_space (js_upper (''SELECT'' @ t)) = ''SELECT'' @ js_upper t"
    by (simp add: js_upper_def char_upper_def is_space_def)
  then show ?thesis by (simp add: write_pattern_def write_keywords_def pragma_assigns_def Let_def)
qed

lemma joined_write: "k \<in> set write_keywords \<Longrightarrow> write_pattern (js_join sep ((k @ u) # xs))"
  by (cases xs) (simp_all add: write_patternI)

text \<open>
  Every statement that the studio builds goes to the endpoint that may run it: the
  insertions, updates and deletions of a commit, the statements that drop and empty a table are
  recognised as writes and sent to \<open>exec\<close>, and the selections of a table and of a changed row
  are not, and are sent to \<open>query\<close>; for every dialect, names, values and conditions.
\<close>

theorem studio_statements_routed:
  "write_pattern (operation_sql d schemaName tableName op)
   \<and> dropTable d (filedb_connection post dbName) schemaName tableName
     = io_bind (filedb_exec post dbName (''DROP TABLE '' @ qualifiedName d schemaName tableName @ '';''))
         (\<lambda>_. io_return ())
   \<and> emptyTable d (filedb_connection post dbName) schemaName tableName
     = io_bind (filedb_exec post dbName (''DELETE FROM '' @ qualifiedName d schemaName tableName @ '';''))
         (\<lambda>_. io_return ())
   \<and> \<not> write_pattern (select_sql d prefix schemaName tableName opts)
   \<and> \<not> write_pattern (findFirst_sql d schemaName tableName key)"
proof -
  have kw: "''INSERT'' \<in> set write_keywords" "''UPDATE'' \<in> set write_keywords"
      "''DELETE'' \<in> set write_keywords" "''DROP'' \<in> set write_keywords"
    by (simp_all add: write_keywords_def)
  have "write_pattern (operation_sql d schemaName tableName op)"
    using joined_write [OF kw(1), of _ "'' INTO''"] joined_write [OF kw(2), of _ "[]"]
      joined_write [OF kw(3), of _ "'' FROM''"]
    by (cases op) (simp_all add: operation_sql_def insertInto_def updateTable_def deleteFrom_def
        filter_boolean_def del: js_join.simps)
  moreover have "write_pattern (''DROP TABLE '' @ t)" "write_pattern (''DELETE FROM '' @ t)" for t
    using write_patternI [OF kw(4), of "'' TABLE '' @ t"] write_patternI [OF kw(3), of "'' FROM '' @ t"]
    by simp_all
  moreover have "\<not> write_pattern (select_sql d prefix schemaName tableName opts)"
      "\<not> write_pattern (findFirst_sql d schemaName tableName key)"
    using select_is_no_write by (simp_all add: select_sql_def findFirst_sql_def Let_def)
  ultimately show ?thesis
    by (simp add: dropTable_def emptyTable_def filedb_connection_def filedb_query_def)
qed

section \<open>A commit that fails\<close>

lemma io_map_stops:
  assumes "io_map f xs w = (Inr ys, w1)" and "f x w1 = (Inl e, w2)"
  shows "io_map f (xs @ x # zs) w = (Inl e, w2)"
  using assms(1)
proof (induction xs arbitrary: w ys)
  case Nil
  then show ?case using assms(2) by (simp add: io_bind_run)
next
  case (Cons a xs)
  from Cons.prems obtain y w' ys' where "f a w = (Inr y, w')" and "io_map f xs w' = (Inr ys', w1)"
    by (auto simp: io_bind_Inr_iff)
  with Cons.IH show ?case by (simp add: io_bind_run)
qed

section \<open>Names and cells of a result\<close>

definition candidate :: "string \<Rightarrow> nat \<Rightarrow> string" where
  "candidate c j = (if j = 0 then c else ''__'' @ c @ ''_'' @ nat_digits (j - 1))"

lemma candidate_inj: "candidate c i = candidate c j \<Longrightarrow> i = j"
proof -
  have "c \<noteq> ''__'' @ c @ t" for t
  proof
    assume "c = ''__'' @ c @ t"
    then have "length c = length (''__'' @ c @ t)" by metis
    then show False by simp
  qed
  moreover assume "candidate c i = candidate c j"
  ultimately show ?thesis by (auto simp: candidate_def split: if_splits)
qed

lemma rename_loop_candidate:
  "\<exists>j\<ge>i. j \<le> i + k \<and> rename_loop taken c (candidate c i) i k = candidate c j
     \<and> candidate c ` {i..<j} \<subseteq> set taken \<and> (j < i + k \<longrightarrow> candidate c j \<notin> set taken)"
proof (induction k arbitrary: i)
  case 0
  then show ?case by auto
next
  case (Suc k)
  show ?case
  proof (cases "candidate c i \<in> set taken")
    case True
    obtain j where j: "j \<ge> Suc i" "j \<le> Suc i + k"
        "rename_loop taken c (candidate c (Suc i)) (Suc i) k = candidate c j"
        "candidate c ` {Suc i..<j} \<subseteq> set taken" "j < Suc i + k \<longrightarrow> candidate c j \<notin> set taken"
      using Suc.IH by blast
    have "{i..<j} = insert i {Suc i..<j}" using j(1) by auto
    then show ?thesis using True j by (intro exI [of _ j]) (auto simp: candidate_def)
  next
    case False
    then show ?thesis by (intro exI [of _ i]) simp
  qed
qed

lemma rename_column_fresh:
  assumes "length taken \<le> 20"
  shows "rename_column taken c \<notin> set taken"
proof -
  obtain j where j: "j \<le> 20" "rename_column taken c = candidate c j"
      "candidate c ` {0..<j} \<subseteq> set taken" "j < 20 \<longrightarrow> candidate c j \<notin> set taken"
    using rename_loop_candidate [of 0 20 taken c] by (auto simp: rename_column_def candidate_def)
  show ?thesis
  proof (cases "j < 20")
    case False
    with j(1) have j20: "j = 20" by simp
    have "inj_on (candidate c) {0..20}" using candidate_inj by (auto intro: inj_onI)
    then have "card (candidate c ` {0..20}) = 21" by (simp add: card_image)
    moreover have "card (set taken) \<le> 20" using assms card_length le_trans by blast
    moreover have "candidate c ` {0..20} = insert (candidate c 20) (candidate c ` {0..<20})"
      by (metis atLeast0AtMost atLeast0LessThan image_insert lessThan_Suc lessThan_Suc_atMost eval_nat_numeral(3) semiring_norm(26) semiring_norm(27) semiring_norm(28))
    ultimately show ?thesis
      using j(2,3) card_mono [of "set taken" "candidate c ` {0..20}"] by (auto simp: j20)
  qed (use j in simp)
qed

lemma turso_headers_length [simp]: "length (turso_headers taken cs) = length cs"
  by (induction cs arbitrary: taken) (auto simp: Let_def)

lemma turso_headers_nth:
  "i < length cs \<Longrightarrow> hdDisplayName (turso_headers taken cs ! i) = fst (cs ! i)"
  by (induction cs arbitrary: taken i) (auto simp: Let_def result_header_def nth_Cons split: nat.split)

lemma turso_names:
  "length taken + length cs \<le> 21 \<Longrightarrow>
   distinct (map hdName (turso_headers taken cs)) \<and> hdName ` set (turso_headers taken cs) \<inter> set taken = {}"
proof (induction cs arbitrary: taken)
  case (Cons p cs)
  obtain c t where p: "p = (c, t)" by (cases p)
  have "rename_column taken c \<notin> set taken" using Cons.prems by (intro rename_column_fresh) simp
  moreover have "length (rename_column taken c # taken) + length cs \<le> 21" using Cons.prems by simp
  ultimately show ?case
    using Cons.IH [of "rename_column taken c # taken"] by (auto simp: p Let_def result_header_def)
qed simp

lemma keyed_row_at:
  assumes "distinct (map hdName hs)" and "i < length hs"
  shows "obj_at (keyed_row cell hs r) (hdName (hs ! i)) = cell (raw_cell r i)"
proof -
  let ?put = "\<lambda>a (idx, b). obj_set (hdName b) (cell (raw_cell r idx)) a"
  have other: "obj_at (foldl ?put a xs) k = obj_at a k" if "k \<notin> hdName ` snd ` set xs" for a xs k
    using that by (induction xs arbitrary: a) auto
  have "obj_at (foldl ?put a xs) (hdName b) = cell (raw_cell r idx)"
    if "distinct (map (hdName \<circ> snd) xs)" "(idx, b) \<in> set xs" for a xs idx b
    using that
  proof (induction xs arbitrary: a)
    case (Cons x xs)
    show ?case
    proof (cases "x = (idx, b)")
      case True
      then have "hdName b \<notin> hdName ` snd ` set xs" using Cons.prems by (auto simp: image_image)
      then show ?thesis using True by (simp add: other)
    next
      case False
      then show ?thesis using Cons by simp
    qed
  qed simp
  moreover have "map (hdName \<circ> snd) (zip [0..<length hs] hs) = map hdName hs"
    by (simp flip: map_map)
  moreover have "(i, hs ! i) \<in> set (zip [0..<length hs] hs)"
    using assms(2) by (auto simp: set_zip intro!: exI [of _ i])
  ultimately show ?thesis using assms(1) unfolding keyed_row_def by metis
qed

text \<open>
  A result of libsql with at most 21 columns loses none: the columns get different names,
  the name shown is the name of the column, and reading a row at the name of a column gives the
  cell of that column, also where columns of a join have the same name.
\<close>

theorem turso_keeps_columns:
  assumes "length (rawColumns raw) \<le> 21" and "i < length (rawColumns raw)" and "r < length (rawRows raw)"
  shows "distinct (map hdName (rsHeaders (transformRawResult raw)))
    \<and> hdDisplayName (rsHeaders (transformRawResult raw) ! i) = rawColumns raw ! i
    \<and> obj_at (rsRows (transformRawResult raw) ! r) (hdName (rsHeaders (transformRawResult raw) ! i))
      = turso_cell (raw_cell (rawRows raw ! r) i)"
proof -
  let ?hs = "turso_headers [] (typed_columns raw)"
  have len: "length (typed_columns raw) = length (rawColumns raw)" by (simp add: typed_columns_def)
  then have "distinct (map hdName ?hs)" using turso_names [of "[]" "typed_columns raw"] assms(1) by simp
  moreover have "hdDisplayName (?hs ! i) = rawColumns raw ! i"
    using turso_headers_nth [of i "typed_columns raw" "[]"] assms(2) len by (simp add: typed_columns_def)
  moreover have "obj_at (keyed_row turso_cell ?hs (rawRows raw ! r)) (hdName (?hs ! i))
      = turso_cell (raw_cell (rawRows raw ! r) i)"
    using keyed_row_at [OF calculation(1)] assms(2) len by simp
  ultimately show ?thesis using assms(3) by (simp add: transformRawResult_def Let_def)
qed

definition example_join_result :: RawResult where
  "example_join_result =
     \<lparr>rawColumns = [''id'', ''name'', ''id''], rawColumnTypes = [''INTEGER'', ''TEXT'', ''INTEGER''],
      rawRows = [[Num (Dec 1 0), Str ''x'', Num (Dec 2 0)]], rawRowsAffected = Dec 0 0,
      rawRowsRead = None, rawRowsWritten = None, rawDuration = None, rawLastInsertRowid = None\<rparr>"

theorem turso_keeps_columns_witness:
  "map hdName (rsHeaders (transformRawResult example_join_result)) = [''id'', ''name'', ''__id_0'']
   \<and> obj_at (rsRows (transformRawResult example_join_result) ! 0) ''__id_0'' = Num (Dec 2 0)"
proof -
  have names: "map hdName (rsHeaders (transformRawResult example_join_result)) = [''id'', ''name'', ''__id_0'']"
    by code_simp
  have "hdName (rsHeaders (transformRawResult example_join_result) ! 2) = ''__id_0''" by code_simp
  moreover have "turso_cell (raw_cell (rawRows example_join_result ! 0) 2) = Num (Dec 2 0)" by code_simp
  ultimately show ?thesis
    using turso_keeps_columns [of example_join_result 2 0] names by (simp add: example_join_result_def)
qed

text \<open>The bound is exact: of 22 columns with one name two get the same name.\<close>

lemma turso_22_columns_clash:
  "\<not> distinct (map hdName (turso_headers [] (replicate 22 (''c'', None))))"
  by code_simp

text \<open>With sql.js the set of names is never filled: a column of the same name hides the first.\<close>

lemma sqljs_duplicate_lost:
  "map hdName (sqljs_headers [''id'', ''id'']) = [''id'', ''id'']
   \<and> keyed_row (\<lambda>v. v) (sqljs_headers [''id'', ''id'']) [Num (Dec 1 0), Num (Dec 2 0)] = [(''id'', Num (Dec 2 0))]"
  by code_simp

lemma sqljs_keeps_distinct:
  assumes "distinct columns" and "i < length columns"
  shows "obj_at (keyed_row (\<lambda>v. v) (sqljs_headers columns) r) (columns ! i) = raw_cell r i"
proof -
  have names: "map hdName (sqljs_headers columns) = columns"
    by (simp add: sqljs_headers_def rename_column_def result_header_def comp_def eval_nat_numeral)
  then show ?thesis
    using keyed_row_at [of "sqljs_headers columns" i "\<lambda>v. v" r] assms
    by (metis length_map nth_map)
qed

section \<open>Statements that reach the wrong endpoint\<close>

text \<open>
  The server refuses \<open>REPLACE\<close> and \<open>VACUUM\<close>, and a write behind a comment, at the endpoint of
  queries and names the endpoint of writes; the pattern of the client knows none of them.
\<close>

lemma writes_sent_as_queries:
  "\<not> write_pattern ''REPLACE INTO t VALUES (1)'' \<and> \<not> write_pattern ''VACUUM''
   \<and> \<not> write_pattern ''/* note */ DELETE FROM t'' \<and> write_pattern '' pragma foreign_keys = on''"
  by code_simp

text \<open>A driver of a system database sends a write to the server as it is.\<close>

lemma systemdb_blocks_nothing:
  "systemdb_exec post dbName stmt = systemdb_query post dbName stmt"
  by (rule systemdb_exec_def)

section \<open>A failed commit\<close>

text \<open>
  C26. A commit on a database of the server is not atomic: when the server refuses the statement
  of one change, the changes before it are in the database and those after it are not sent, while
  the grid keeps every change as pending; a second commit runs the first ones again.
\<close>

theorem failed_commit_is_half_done:
  assumes "map snd (generateTableChangePlan ts s) = before @ op # after"
    and "validateUpdateOperation (before @ op # after) ts = Inr ()"
    and "io_map (\<lambda>b. filedb_exec post dbName (operation_sql d schemaName tableName b)) before w = (Inr rs, w1)"
    and "filedb_exec post dbName (operation_sql d schemaName tableName op) w1 = (Inl e, w2)"
  shows "commitChange (\<lambda>ops. updateTableData d (filedb_connection post dbName) findRow
           schemaName tableName ops (Some ts)) ts (\<lambda>g. g) s w = (Some (commit_error e), s, w2)"
proof -
  have map_io: "io_map f (map g xs) = io_map (\<lambda>x. f (g x)) xs" for f g xs
    by (induction xs) simp_all
  have "filedb_transaction post dbName
      (map (operation_sql d schemaName tableName) (before @ op # after)) w = (Inl e, w2)"
    unfolding filedb_transaction_def map_io by (rule io_map_stops [OF assms(3,4)])
  then have "updateTableData d (filedb_connection post dbName) findRow schemaName tableName
      (before @ op # after) (Some ts) w = (Inl e, w2)"
    by (simp add: updateTableData_def filedb_connection_def assms(2) io_bind_run del: map_append list.map)
  then show ?thesis by (simp add: commitChange_def assms(1))
qed

definition example_written :: DatabaseResultSet where
  "example_written = \<lparr>rsRows = [], rsHeaders = [],
     rsStat = \<lparr>rowsAffected = Dec 0 0, rowsRead = None, rowsWritten = None, queryDurationMs = None\<rparr>,
     rsLastInsertRowid = None\<rparr>"

definition example_post :: "string list Post" where
  "example_post url sql seen =
     (if length seen = 1 then (Inr \<lparr>rpOk = False, rpStatus = 409, rpBody = None\<rparr>, seen)
      else (Inr \<lparr>rpOk = True, rpStatus = 200,
                 rpBody = Some \<lparr>bdError = None, bdHasRows = False, bdResult = example_written, bdRowsAffected = None, bdLastInsertRowid = None\<rparr>\<rparr>, seen @ [sql]))"

definition example_two_removed :: OptimizeTableState where
  "example_two_removed = run_op (=) (GoRemove 1) (run_op (=) (GoRemove 0) example_grid)"

theorem failed_commit_is_half_done_witness:
  "commitChange (\<lambda>ops. updateTableData sqlite_dialect (filedb_connection example_post ''shop'')
       (\<lambda>_ _ _. io_throw (JsError [])) ''main'' ''t'' ops (Some example_schema)) example_schema (\<lambda>g. g)
     example_two_removed []
   = (Some ''Exec failed: 409'', example_two_removed,
      [operation_sql sqlite_dialect ''main'' ''t'' (OpDelete [(''id'', Num (Dec 1 0))])])"
proof -
  let ?sql = "operation_sql sqlite_dialect ''main'' ''t''"
  let ?del = "\<lambda>n. OpDelete [(''id'', Num (Dec n 0))]"
  have plan: "map snd (generateTableChangePlan example_schema example_two_removed) = [?del 1] @ ?del 2 # []"
    by code_simp
  have valid: "validateUpdateOperation ([?del 1] @ ?del 2 # []) example_schema = Inr ()" by code_simp
  have first: "io_map (\<lambda>b. filedb_exec example_post ''shop'' (?sql b)) [?del 1] []
      = (Inr [example_written], [?sql (?del 1)])"
    by code_simp
  have second: "filedb_exec example_post ''shop'' (?sql (?del 2)) [?sql (?del 1)]
      = (Inl (JsError ''Exec failed: 409''), [?sql (?del 1)])"
    by code_simp
  show ?thesis
    using failed_commit_is_half_done [OF plan valid first second] by (simp add: commit_error_def)
qed

section \<open>Replies find their requests\<close>

text \<open>
  A promise of the embedding window is settled by the first message that carries its number
  after its request was posted, rejected when that message has an error and resolved with its data
  otherwise, whatever requests are posted and messages arrive in between; later messages with the
  number change nothing.
\<close>

theorem reply_finds_its_request:
  "map_of (ifSettled (conn_run iframe_request iframe_message es iframe_start)) (Suc n)
   = map_option iframe_reply (first_answer imId (Suc n) (Suc n) es)"
  by (rule iframe.outcome_history) simp

lemma playground_reply_finds_its_request:
  "map_of (pgSettled (conn_run playground_request playground_message es playground_start)) (Suc n)
   = map_option playground_reply (first_answer playground_addressed (Suc n) (Suc n) es)"
  by (rule playground.outcome_history) simp

end
