(* ===== verification/CellEdit.thy ===== *)
theory CellEdit
  imports GridState SqlText
begin

text \<open>
  Editing a cell of the grid (\<open>components/gui/table-cell/\<close>,
  \<open>components/gui/table-result/render-cell.tsx\<close>,
  \<open>components/gui/table-optimized/table-cell.tsx\<close>): which editor a value gets, how it is turned
  into text and back, what the keys of the editor do to the state of the grid, and what the mouse
  selects.  \<open>isLinkString\<close>, which needs the URL parser of the browser, \<open>JSON.parse\<close> and the
  decorators of headers are parameters.
\<close>

section \<open>Bytes as text\<close>

definition upper_hex :: "nat \<Rightarrow> char" where
  "upper_hex k = ''0123456789ABCDEF'' ! k"

definition prettify_byte :: "byte \<Rightarrow> string" where
  "prettify_byte b =
     (let n = unat b in
      if n = 0x5C then [CHR 0x5C, CHR 0x5C]
      else if 0x20 \<le> n \<and> n \<noteq> 0x7F then [char_of n]
      else [CHR 0x5C, CHR ''x'', upper_hex (n div 16), upper_hex (n mod 16)])"

definition prettifyBytes :: "byte list \<Rightarrow> string" where
  "prettifyBytes bs = concat (map prettify_byte bs)"

text \<open>A hexadecimal digit of either case, as \<open>parseInt(hex, 16)\<close> reads it.\<close>

definition hex_value :: "char \<Rightarrow> nat option" where
  "hex_value c =
     (let n = of_char c :: nat in
      if 48 \<le> n \<and> n \<le> 57 then Some (n - 48)
      else if 65 \<le> n \<and> n \<le> 70 then Some (n - 55)
      else if 97 \<le> n \<and> n \<le> 102 then Some (n - 87) else None)"

text \<open>
  The matches of \<open>/(\\\\)|\\x([0-9a-f]{2})|(.)/gi\<close> from left to right: two backslashes, an
  escape of two hexadecimal digits, or one character that does not end a line.
\<close>

fun escape_at :: "string \<Rightarrow> (nat \<times> string) option" where
  "escape_at (c # d # e # f # cs) =
     (if c = CHR 0x5C \<and> (d = CHR ''x'' \<or> d = CHR ''X'')
      then (case (hex_value e, hex_value f) of (Some i, Some j) \<Rightarrow> Some (16 * i + j, cs) | _ \<Rightarrow> None)
      else None)"
| "escape_at _ = None"

lemma escape_at_shorter: "escape_at t = Some (n, r) \<Longrightarrow> length r < length t"
  by (induction t rule: escape_at.induct) (auto split: if_splits option.splits)

function read_bytes :: "string \<Rightarrow> nat list" where
  "read_bytes [] = []"
| "read_bytes (c # cs) =
     (if c = CHR 0x5C \<and> js_starts_with cs [CHR 0x5C] then 0x5C # read_bytes (tl cs)
      else case escape_at (c # cs) of
        Some (n, r) \<Rightarrow> n # read_bytes r
      | None \<Rightarrow>
          if c = newline \<or> c = carriage_return then read_bytes cs
          else of_char c # read_bytes cs)"
  by pat_completeness auto
termination
  by (relation "measure length") (auto dest: escape_at_shorter)

section \<open>The editors\<close>

datatype CellKind = TextCell | NumberCell | BigNumberCell | BlobCell

text \<open>\<open>BigInt(v)\<close> of a string; None is the exception.\<close>

definition digit_in :: "nat \<Rightarrow> char \<Rightarrow> bool" where
  "digit_in base c = (case hex_value c of None \<Rightarrow> False | Some n \<Rightarrow> n < base)"

definition radix_value :: "nat \<Rightarrow> string \<Rightarrow> int option" where
  "radix_value base ds =
     (if ds \<noteq> [] \<and> list_all (digit_in base) ds
      then Some (int (foldl (\<lambda>n c. base * n + the (hex_value c)) 0 ds)) else None)"

definition js_BigInt :: "string \<Rightarrow> int option" where
  "js_BigInt s =
     (let t = js_trim s in
      if t = [] then Some 0
      else if js_starts_with t ''0x'' \<or> js_starts_with t ''0X'' then radix_value 16 (drop 2 t)
      else if js_starts_with t ''0o'' \<or> js_starts_with t ''0O'' then radix_value 8 (drop 2 t)
      else if js_starts_with t ''0b'' \<or> js_starts_with t ''0B'' then radix_value 2 (drop 2 t)
      else if hd t = CHR ''-'' then map_option uminus (radix_value 10 (tl t))
      else if hd t = CHR ''+'' then radix_value 10 (tl t)
      else radix_value 10 t)"

text \<open>
  \<open>Uint8Array.from(v)\<close>: the elements of an array or of a \<open>Uint8Array\<close>; an \<open>ArrayBuffer\<close> has
  none, and neither has any other value that gets this editor.
\<close>

fun bytes_from :: "jsval \<Rightarrow> byte list" where
  "bytes_from (JsArray vs) = map to_uint8 vs"
| "bytes_from (Uint8Array bs) = bs"
| "bytes_from v = []"

fun cell_toString :: "CellKind \<Rightarrow> jsval \<Rightarrow> jsval" where
  "cell_toString TextCell v = v"
| "cell_toString k Null = Null"
| "cell_toString k Undefined = Undefined"
| "cell_toString BlobCell v = Str (prettifyBytes (bytes_from v))"
| "cell_toString k v = Str (js_String v)"

text \<open>\<open>toValue\<close> of a text, which is never anything but a string, \<open>null\<close> or \<open>undefined\<close>.\<close>

fun cell_toValue :: "CellKind \<Rightarrow> jsval \<Rightarrow> jsval" where
  "cell_toValue TextCell v = v"
| "cell_toValue k Null = Null"
| "cell_toValue k Undefined = Undefined"
| "cell_toValue NumberCell (Str s) =
     (if s = [] then Null else case js_Number s of Dec m e \<Rightarrow> Num (Dec m e) | _ \<Rightarrow> Null)"
| "cell_toValue BigNumberCell (Str s) =
     (if s = [] then Null else case js_BigInt s of Some i \<Rightarrow> BigInt i | None \<Rightarrow> Null)"
| "cell_toValue BlobCell (Str s) =
     (if s = [] then Null else JsArray (map (\<lambda>n. Num (num_of_int (int n))) (read_bytes s)))"
| "cell_toValue k v = v"

section \<open>Which editor a value gets\<close>

fun determineCellType :: "jsval \<Rightarrow> ColumnType option" where
  "determineCellType (BigInt i) = Some ColumnINTEGER"
| "determineCellType (Num n) = Some ColumnREAL"
| "determineCellType (Str s) = Some ColumnTEXT"
| "determineCellType (ArrayBuffer bs) = Some ColumnBLOB"
| "determineCellType (Uint8Array bs) = Some ColumnBLOB"
| "determineCellType (JsArray vs) = Some ColumnBLOB"
| "determineCellType (JsObject kvs) = Some ColumnBLOB"
| "determineCellType v = None"

definition cell_kind :: "TableHeader \<Rightarrow> jsval \<Rightarrow> CellKind" where
  "cell_kind h v =
     (case (case determineCellType v of Some t \<Rightarrow> Some t | None \<Rightarrow> mdType (thMetadata h)) of
        Some ColumnINTEGER \<Rightarrow> BigNumberCell
      | Some ColumnREAL \<Rightarrow> NumberCell
      | Some ColumnBLOB \<Rightarrow> BlobCell
      | _ \<Rightarrow> TextCell)"

datatype TextEditor = EditInput | EditJson | EditText

text \<open>\<open>detectTextEditorType\<close>; \<open>is_json\<close> says whether \<open>JSON.parse\<close> accepts a text.\<close>

definition detectTextEditorType :: "(string \<Rightarrow> bool) \<Rightarrow> jsval \<Rightarrow> TextEditor" where
  "detectTextEditorType is_json v =
     (case v of
        Str s \<Rightarrow>
          (let t = js_trim s in
           if take 1 t = ''{'' \<and> drop (length t - 1) t = ''}'' \<and> is_json t then EditJson
           else if 200 < length s then EditText
           else if list_ex (\<lambda>c. c = newline \<or> c = carriage_return) s then EditText
           else EditInput)
      | _ \<Rightarrow> EditInput)"

text \<open>Cells that are no text cells have no \<open>editor\<close> and edit in the cell.\<close>

definition cell_editor :: "(string \<Rightarrow> bool) \<Rightarrow> CellKind \<Rightarrow> jsval \<Rightarrow> TextEditor" where
  "cell_editor is_json k v = (if k = TextCell then detectTextEditorType is_json v else EditInput)"

section \<open>The cell as a component\<close>

text \<open>
  The component keeps the text being edited (\<open>editValue\<close>).  It starts with the text of the
  value; entering edit mode by a key replaces it by the character of that key.
\<close>

definition cell_mount :: "CellKind \<Rightarrow> jsval \<Rightarrow> jsval" where
  "cell_mount k v = cell_toString k v"

definition cell_enter :: "OptimizeTableState \<Rightarrow> jsval \<Rightarrow> jsval \<times> OptimizeTableState" where
  "cell_enter s editValue =
     (case consumePendingEditChar s of
        (None, s1) \<Rightarrow> (editValue, s1)
      | (Some pending, s1) \<Rightarrow> (Str pending, s1))"

text \<open>The input is shown when the column can be edited, in edit mode, for values of one line.\<close>

definition shows_input :: "(string \<Rightarrow> bool) \<Rightarrow> TableHeader \<Rightarrow> jsval \<Rightarrow> bool \<Rightarrow> bool" where
  "shows_input is_json h v edit_mode =
     (\<not> thReadonly h \<and> edit_mode \<and> cell_editor is_json (cell_kind h v) v = EditInput)"

definition cell_applyChange ::
  "(jsval \<Rightarrow> jsval \<Rightarrow> bool) \<Rightarrow> CellKind \<Rightarrow> int \<Rightarrow> int \<Rightarrow> jsval \<Rightarrow> bool \<Rightarrow> OptimizeTableState \<Rightarrow> OptimizeTableState"
where
  "cell_applyChange eq k y x v shouldExitEdit s =
     (let s1 = changeValue eq y x (cell_toValue k v) s
      in if shouldExitEdit then exitEditMode s1 else s1)"

definition cell_discardChange :: "CellKind \<Rightarrow> jsval \<Rightarrow> OptimizeTableState \<Rightarrow> jsval \<times> OptimizeTableState" where
  "cell_discardChange k v s = (cell_toString k v, exitEditMode s)"

text \<open>
  The tabulator key: the next cell in reading order, unless it is behind the last row.  The view
  is scrolled to \<open>focus\<close>, the cell that was left.
\<close>

definition cell_tab ::
  "(jsval \<Rightarrow> jsval \<Rightarrow> bool) \<Rightarrow> CellKind \<Rightarrow> int \<Rightarrow> int \<Rightarrow> jsval \<Rightarrow> OptimizeTableState \<Rightarrow> OptimizeTableState" where
  "cell_tab eq k y x v s =
     (case focusAt s of
        None \<Rightarrow> s
      | Some (fy, fx) \<Rightarrow>
          (let n = fy * getHeaderCount s + fx + 1;
               nx = n mod getHeaderCount s;
               ny = n div getHeaderCount s
           in if getRowsCount s \<le> ny then s
              else scrollToCell (nx \<noteq> 0) True fy fx
                     (setFocus ny nx (cell_applyChange eq k y x v False s))))"

datatype CellKey = KeyEnter | KeyEscape | KeyTab | KeyBlur

text \<open>
  What a key, or leaving the input, does to the text and the grid; \<open>shouldExit\<close> is the mutable
  flag that the tabulator key clears.
\<close>

definition cell_key ::
  "(jsval \<Rightarrow> jsval \<Rightarrow> bool) \<Rightarrow> CellKind \<Rightarrow> int \<Rightarrow> int \<Rightarrow> jsval \<Rightarrow> bool \<Rightarrow> CellKey \<Rightarrow> jsval \<Rightarrow>
   OptimizeTableState \<Rightarrow> jsval \<times> OptimizeTableState" where
  "cell_key eq k y x v shouldExit key editValue s =
     (case key of
        KeyEnter \<Rightarrow> (editValue, cell_applyChange eq k y x editValue True s)
      | KeyEscape \<Rightarrow> cell_discardChange k v s
      | KeyTab \<Rightarrow> (editValue, cell_tab eq k y x editValue s)
      | KeyBlur \<Rightarrow> (editValue, cell_applyChange eq k y x editValue shouldExit s))"

text \<open>
  A double click opens the full editor for a JSON or long text, with the texts of its save and
  cancel buttons, and enters edit mode.
\<close>

definition cell_doubleClick ::
  "(string \<Rightarrow> bool) \<Rightarrow> CellKind \<Rightarrow> jsval \<Rightarrow> jsval \<Rightarrow> OptimizeTableState \<Rightarrow>
   (TextEditor \<times> string \<times> bool) option \<times> OptimizeTableState" where
  "cell_doubleClick is_json k v editValue s =
     ((case editValue of
         Str t \<Rightarrow> if cell_editor is_json k v \<noteq> EditInput
                  then Some (cell_editor is_json k v, t, readOnlyMode s) else None
       | _ \<Rightarrow> None), enterEditMode s)"

section \<open>What a cell shows\<close>

datatype CellContent =
    ShowDecorated string
  | ShowNull
  | ShowDefault string
  | ShowLink string
  | ShowText string
  | ShowNumber string
  | ShowBytes string nat
  | ShowVector "byte list"
  | ShowOther string

definition is_vector_type :: "string option \<Rightarrow> bool" where
  "is_vector_type t = (case t of None \<Rightarrow> False
     | Some s \<Rightarrow> js_includes s ''F32_BLOB'' \<or> js_includes s ''FLOAT32 '')"

text \<open>\<open>new Uint8Array(v)\<close>, unlike \<open>Uint8Array.from\<close>, views the bytes of an \<open>ArrayBuffer\<close>.\<close>

fun view_bytes :: "jsval \<Rightarrow> byte list" where
  "view_bytes (ArrayBuffer bs) = bs"
| "view_bytes v = bytes_from v"

definition blob_content :: "string option \<Rightarrow> jsval \<Rightarrow> CellContent" where
  "blob_content originalType v =
     (let bs = view_bytes v in
      if is_vector_type originalType then ShowVector bs
      else ShowBytes (prettifyBytes (take 64 bs)) (length bs))"

text \<open>
  \<open>decorated\<close> is what the decorator of the header gives; \<open>generated\<close> the expression of a generated
  column.
\<close>

definition cell_content ::
  "(string \<Rightarrow> bool) \<Rightarrow> string option \<Rightarrow> string option \<Rightarrow> string option \<Rightarrow> jsval \<Rightarrow> CellContent" where
  "cell_content is_link decorated generated originalType v =
     (case decorated of
        Some t \<Rightarrow> ShowDecorated t
      | None \<Rightarrow>
          (case v of
             Null \<Rightarrow> ShowNull
           | Undefined \<Rightarrow> ShowDefault (case generated of None \<Rightarrow> ''DEFAULT'' | Some e \<Rightarrow> e)
           | Str s \<Rightarrow> if is_link s then ShowLink s else ShowText s
           | Num n \<Rightarrow> ShowNumber (num_str n)
           | BigInt i \<Rightarrow> ShowNumber (int_str i)
           | ArrayBuffer bs \<Rightarrow> blob_content originalType v
           | Uint8Array bs \<Rightarrow> blob_content originalType v
           | JsArray vs \<Rightarrow> blob_content originalType v
           | _ \<Rightarrow> ShowOther (js_String v)))"

text \<open>Outside edit mode the cell shows the value of its own text.\<close>

definition cell_shown ::
  "(string \<Rightarrow> bool) \<Rightarrow> TableHeader \<Rightarrow> string option \<Rightarrow> string option \<Rightarrow> jsval \<Rightarrow> CellContent" where
  "cell_shown is_link h decorated generated v =
     cell_content is_link decorated generated (mdOriginalType (thMetadata h))
       (cell_toValue (cell_kind h v) (cell_mount (cell_kind h v) v))"

section \<open>The mouse\<close>

text \<open>\<open>onMouseDown\<close> of a cell; \<open>button\<close> 2 is the right one.\<close>

definition cell_mouseDown ::
  "nat \<Rightarrow> bool \<Rightarrow> bool \<Rightarrow> int \<Rightarrow> int \<Rightarrow> OptimizeTableState \<Rightarrow> OptimizeTableState" where
  "cell_mouseDown button shiftKey ctrlKey rowIndex colIndex s =
     (if button = 2 \<and> isSelected (getCellStatus (focusAt s) (selectionRanges s) rowIndex colIndex) then s
      else case (shiftKey, focusAt s) of
        (True, Some (fy, fx)) \<Rightarrow> selectCellRange fy fx rowIndex colIndex s
      | _ \<Rightarrow> if ctrlKey then addSelection rowIndex colIndex rowIndex colIndex s
             else selectCell rowIndex colIndex True s)"

text \<open>The colour of a cell.\<close>

definition cell_background :: "bool \<Rightarrow> bool \<Rightarrow> bool \<Rightarrow> bool \<Rightarrow> string" where
  "cell_background selected removed changed added =
     (if selected then
        if removed then ''bg-red-200 dark:bg-red-800''
        else if changed then ''bg-yellow-200 dark:bg-yellow-600''
        else if added then ''bg-green-200 dark:bg-green-700'' else []
      else if changed then ''bg-[#ffe693] dark:bg-[#916b20]''
      else if added then ''bg-green-100 dark:bg-green-900''
      else if removed then ''bg-red-100 dark:bg-red-900'' else ''bg-background'')"

end
