(* ===== verification/CellFacts.thy ===== *)
theory CellFacts
  imports CellEdit GridFacts
begin

text \<open>
  Editing a cell: values survive the way through the text of the editor, leaving a cell without
  typing changes nothing, and the tabulator key walks the grid in reading order.
\<close>

section \<open>Numbers as text\<close>

text \<open>The canonical form of a decimal: no digit 0 at the end of the fraction.\<close>

definition canonical_dec :: "int \<Rightarrow> nat \<Rightarrow> bool" where
  "canonical_dec m s = (s = 0 \<or> m mod 10 \<noteq> 0)"

lemma mk_dec_canonical: "canonical_dec m s \<Longrightarrow> mk_dec m s = Dec m s"
  by (cases s) (auto simp: canonical_dec_def)

lemma digits_all: "list_all is_digit (nat_digits n)"
  by (rule nat_digits_all) (simp add: is_digit_def of_char_of)

lemma digit_not:
  "is_digit c \<Longrightarrow> \<not> is_space c" "is_digit c \<Longrightarrow> c \<noteq> CHR ''-''" "is_digit c \<Longrightarrow> c \<noteq> CHR ''+''"
  "is_digit c \<Longrightarrow> c \<noteq> CHR ''.''" "is_digit c \<Longrightarrow> c \<noteq> CHR ''I''"
  by (auto simp: is_digit_def is_space_def Let_def)

lemma js_trim_solid:
  assumes "t \<noteq> []" and "\<not> is_space (hd t)" and "\<not> is_space (last t)"
  shows "js_trim t = t"
proof -
  have "dropWhile is_space t = t" using assms by (cases t) auto
  moreover have "dropWhile is_space (rev t) = rev t"
    using assms by (cases t rule: rev_cases) auto
  ultimately show ?thesis by (simp add: js_trim_def)
qed

lemma takeWhile_digits:
  assumes "list_all is_digit ds" and "r = [] \<or> \<not> is_digit (hd r)"
  shows "takeWhile is_digit (ds @ r) = ds" "dropWhile is_digit (ds @ r) = r"
proof -
  have "takeWhile is_digit r = []" "dropWhile is_digit r = r" using assms(2) by (cases r; simp)+
  then show "takeWhile is_digit (ds @ r) = ds" "dropWhile is_digit (ds @ r) = r"
    using assms(1) by (simp_all add: list_all_iff)
qed

lemma parse_unsigned_dec:
  assumes "list_all is_digit ip" and "list_all is_digit fp" and "ip \<noteq> []"
  shows "parse_unsigned (ip @ CHR ''.'' # fp) = scale_dec (int (digits_val (ip @ fp))) (- int (length fp))"
    and "parse_unsigned ip = Dec (int (digits_val ip)) 0"
proof -
  have dot: "\<not> is_digit CHR ''.''" by (simp add: is_digit_def)
  have all: "takeWhile is_digit fp = fp" "dropWhile is_digit fp = []"
      "takeWhile is_digit ip = ip" "dropWhile is_digit ip = []"
    using takeWhile_digits [OF assms(2), of "[]"] takeWhile_digits [OF assms(1), of "[]"] by simp_all
  have "hd ip \<noteq> CHR ''I''" using assms digit_not(5) by (cases ip) auto
  then have "ip @ r \<noteq> ''Infinity''" for r using assms(3) by (cases ip) auto
  note ne = this this [of "[]", simplified]
  show "parse_unsigned (ip @ CHR ''.'' # fp) = scale_dec (int (digits_val (ip @ fp))) (- int (length fp))"
    using takeWhile_digits [OF assms(1), of "CHR ''.'' # fp"] dot ne assms(3)
    by (simp add: parse_unsigned_def Let_def all)
  show "parse_unsigned ip = Dec (int (digits_val ip)) 0"
    using ne assms(3) by (simp add: parse_unsigned_def Let_def scale_dec_def all)
qed

lemma digits_val_zeros: "digits_val (replicate k (CHR ''0'') @ ds) = digits_val ds"
  by (induction k) (simp_all add: digits_val_def digit_val_def)

text \<open>The digits of a decimal around its point.\<close>

lemma dec_digits:
  assumes "pad = replicate (Suc s - length (nat_digits n)) (CHR ''0'') @ nat_digits n"
  shows "list_all is_digit pad" and "digits_val pad = n" and "s < length pad"
  using digits_all [of n] by (auto simp: assms digits_val_zeros list_all_iff is_digit_def)

lemma parse_unsigned_num:
  assumes "canonical_dec m s" and "0 \<le> m"
  shows "parse_unsigned (num_str (Dec m s)) = Dec m s"
proof (cases s)
  case 0
  then show ?thesis
    using parse_unsigned_dec(2) [OF digits_all digits_all nat_digits_not_Nil, of "nat m"] assms(2)
    by (simp add: int_str_def)
next
  case (Suc k)
  define pad where "pad = replicate (Suc s - length (nat_digits (nat m))) (CHR ''0'') @ nat_digits (nat m)"
  note pad = dec_digits [OF pad_def]
  have "0 < s" using Suc by simp
  let ?ip = "take (length pad - s) pad" and ?fp = "drop (length pad - s) pad"
  have str: "num_str (Dec m s) = ?ip @ CHR ''.'' # ?fp"
    using assms(2) by (simp add: Suc dec_str_def Let_def pad_def)
  have "list_all is_digit ?ip \<and> list_all is_digit ?fp"
    using pad(1) by (metis append_take_drop_id list_all_append)
  moreover have "?ip \<noteq> []" using pad(3) by auto
  ultimately have "parse_unsigned (num_str (Dec m s)) = scale_dec (int (digits_val pad)) (- int (length ?fp))"
    unfolding str by (subst parse_unsigned_dec(1)) auto
  also have "length ?fp = s" using pad(3) by simp
  finally have "parse_unsigned (num_str (Dec m s)) = mk_dec (int (digits_val pad)) s"
    using \<open>0 < s\<close> by (simp add: scale_dec_def del: num_str.simps mk_dec.simps)
  then show ?thesis using pad(2) assms by (simp add: mk_dec_canonical del: num_str.simps mk_dec.simps)
qed

text \<open>A printed number is a sign and digits around at most one point.\<close>

lemma num_str_sign: "num_str (Dec m s) = (if m < 0 then ''-'' else []) @ num_str (Dec \<bar>m\<bar> s)"
  by (cases s) (auto simp: int_str_def dec_str_def Let_def)

lemma num_str_ends:
  assumes "0 \<le> m"
  shows "num_str (Dec m s) \<noteq> [] \<and> is_digit (hd (num_str (Dec m s))) \<and> is_digit (last (num_str (Dec m s)))"
proof (cases s)
  case 0
  then show ?thesis
    using digits_all [of "nat m"] assms by (cases "nat_digits (nat m)") (auto simp: int_str_def list_all_iff)
next
  case (Suc k)
  define pad where "pad = replicate (Suc s - length (nat_digits (nat m))) (CHR ''0'') @ nat_digits (nat m)"
  note pad = dec_digits [OF pad_def]
  have str: "num_str (Dec m s) = take (length pad - s) pad @ CHR ''.'' # drop (length pad - s) pad"
    using assms by (simp add: Suc dec_str_def Let_def pad_def)
  obtain c cs where c: "take (length pad - s) pad = c # cs" using pad(3) by (cases "take (length pad - s) pad") auto
  obtain ds d where d: "drop (length pad - s) pad = ds @ [d]" using pad(3) Suc by (cases "drop (length pad - s) pad" rule: rev_cases) auto
  have "list_all is_digit (c # cs) \<and> list_all is_digit (ds @ [d])"
    using pad(1) unfolding c [symmetric] d [symmetric] by (metis append_take_drop_id list_all_append)
  then show ?thesis unfolding str c d by simp
qed

lemma js_Number_num_str:
  assumes "canonical_dec m s"
  shows "js_Number (num_str (Dec m s)) = Dec m s"
proof -
  let ?u = "num_str (Dec \<bar>m\<bar> s)"
  note u = num_str_ends [of "\<bar>m\<bar>" s, simplified abs_ge_zero simp_thms]
  have "canonical_dec \<bar>m\<bar> s" using assms by (auto simp: canonical_dec_def abs_if mod_minus_eq zmod_zminus1_eq_if)
  then have pu: "parse_unsigned ?u = Dec \<bar>m\<bar> s" by (simp add: parse_unsigned_num del: num_str.simps)
  have "js_trim (num_str (Dec m s)) = num_str (Dec m s)"
    unfolding num_str_sign [of m] using u digit_not(1) by (intro js_trim_solid) (auto simp: is_space_def)
  then have t: "js_trim (num_str (Dec m s)) = (if m < 0 then ''-'' else []) @ ?u"
    using num_str_sign [of m s] by (simp del: num_str.simps)
  have "hd ?u \<noteq> CHR ''-''" "hd ?u \<noteq> CHR ''+''" using u digit_not(2,3) by blast+
  then show ?thesis
    unfolding js_Number_def Let_def t using u pu by (cases "m < 0") (simp_all del: num_str.simps)
qed

section \<open>Integers as text\<close>

lemma hex_value_digit: "is_digit c \<Longrightarrow> hex_value c = Some (digit_val c)"
  by (auto simp: is_digit_def hex_value_def digit_val_def Let_def)

lemma digit_val_less: "is_digit c \<Longrightarrow> digit_val c < 10"
  by (auto simp: is_digit_def digit_val_def Let_def)

lemma radix_digits:
  assumes "list_all is_digit ds" and "ds \<noteq> []"
  shows "radix_value 10 ds = Some (int (digits_val ds))"
proof -
  have "foldl (\<lambda>n c. 10 * n + the (hex_value c)) a ds = foldl (\<lambda>n c. 10 * n + digit_val c) a ds" for a
    using assms(1) by (induction ds arbitrary: a) (simp_all add: hex_value_digit)
  moreover have "list_all (digit_in 10) ds"
    using assms(1) by (induction ds) (simp_all add: digit_in_def hex_value_digit digit_val_less)
  ultimately show ?thesis using assms(2) by (simp add: radix_value_def digits_val_def)
qed

lemma digits_no_prefix:
  assumes "list_all is_digit ds" and "\<not> is_digit c"
  shows "\<not> js_starts_with ds [d, c]"
  using assms by (cases ds; cases "tl ds") (auto simp: js_starts_with_iff)

lemma js_BigInt_int_str: "js_BigInt (int_str i) = Some i"
proof -
  let ?ds = "nat_digits (nat \<bar>i\<bar>)"
  have ends: "is_digit (hd ?ds)" "is_digit (last ?ds)"
    using digits_all [of "nat \<bar>i\<bar>"] nat_digits_not_Nil [of "nat \<bar>i\<bar>"]
    by (metis hd_in_set list_all_iff, metis last_in_set list_all_iff)
  have str: "int_str i = (if i < 0 then ''-'' else []) @ ?ds" by (simp add: int_str_def)
  have t: "js_trim (int_str i) = int_str i"
    unfolding str using ends digit_not(1) by (intro js_trim_solid) (auto simp: is_space_def)
  have np: "\<not> js_starts_with ?ds [d, c]" if "\<not> is_digit c" for c d
    using digits_no_prefix [OF digits_all that] .
  have "\<not> is_digit CHR ''x''" "\<not> is_digit CHR ''X''" "\<not> is_digit CHR ''o''" "\<not> is_digit CHR ''O''"
      "\<not> is_digit CHR ''b''" "\<not> is_digit CHR ''B''"
    by (simp_all add: is_digit_def)
  note np = this [THEN np]
  show ?thesis
    using np ends digit_not(2,3) [OF ends(1)] unfolding js_BigInt_def Let_def t
    by (cases "i < 0") (simp_all add: str radix_digits [OF digits_all nat_digits_not_Nil] js_starts_with_def)
qed

section \<open>Bytes as text\<close>

lemma hex_value_upper_hex: "k < 16 \<Longrightarrow> hex_value (upper_hex k) = Some k"
proof -
  have "list_all (\<lambda>k. hex_value (upper_hex k) = Some k) [0..<16]" by code_simp
  then show "k < 16 \<Longrightarrow> hex_value (upper_hex k) = Some k" by (simp add: list_all_iff)
qed

lemma read_prettified_byte: "read_bytes (prettify_byte b @ t) = unat b # read_bytes t"
proof -
  have lt: "unat b < 256" using unsigned_less [of b, where ?'a = nat] by simp
  consider "unat b = 0x5C" | "unat b \<noteq> 0x5C" "0x20 \<le> unat b \<and> unat b \<noteq> 0x7F"
    | "\<not> (0x20 \<le> unat b \<and> unat b \<noteq> 0x7F)" "unat b \<noteq> 0x5C" by blast
  then show ?thesis
  proof cases
    case 1
    then show ?thesis by (simp add: prettify_byte_def Let_def)
  next
    case 2
    have oc: "of_char (char_of (unat b) :: char) = unat b" using lt by (simp add: of_char_of)
    moreover have "char_of (unat b) \<noteq> CHR 0x5C"
    proof
      assume "char_of (unat b) = CHR 0x5C"
      then have "of_char (char_of (unat b) :: char) = (0x5C :: nat)" by simp
      with oc 2 show False by simp
    qed
    ultimately show ?thesis
      using 2 by (cases t rule: escape_at.cases)
        (auto simp: prettify_byte_def Let_def newline_def carriage_return_def)
  next
    case 3
    then have "prettify_byte b = [CHR 0x5C, CHR ''x'', upper_hex (unat b div 16), upper_hex (unat b mod 16)]"
      by (auto simp: prettify_byte_def Let_def)
    moreover have "unat b div 16 < 16" "unat b mod 16 < 16" using lt by simp_all
    ultimately show ?thesis by (simp add: hex_value_upper_hex)
  qed
qed

lemma read_prettified: "read_bytes (prettifyBytes bs) = map unat bs"
  by (induction bs) (simp_all add: prettifyBytes_def read_prettified_byte)

section \<open>Through the editor and back\<close>

text \<open>
  The values that survive: a finite number, an integer, a text, \<open>NULL\<close>, the default of a new row,
  and the bytes of a BLOB that is not empty.
\<close>

definition is_byte_value :: "jsval \<Rightarrow> bool" where
  "is_byte_value v = (case v of Num (Dec m 0) \<Rightarrow> 0 \<le> m \<and> m < 256 | _ \<Rightarrow> False)"

fun survives_editor :: "jsval \<Rightarrow> bool" where
  "survives_editor (Num (Dec m s)) = canonical_dec m s"
| "survives_editor (BigInt i) = True"
| "survives_editor (Str t) = True"
| "survives_editor Null = True"
| "survives_editor Undefined = True"
| "survives_editor (JsArray vs) = (vs \<noteq> [] \<and> list_all is_byte_value vs)"
| "survives_editor v = False"

lemma byte_value_back:
  assumes "is_byte_value v"
  shows "Num (num_of_int (int (unat (to_uint8 v)))) = v"
proof -
  obtain m where v: "v = Num (Dec m 0)" "0 \<le> m" "m < 256"
    using assms by (auto simp: is_byte_value_def split: jsval.splits jsnum.splits nat.splits)
  have "sgn m * (\<bar>m\<bar> div 10 ^ 0) = m" by (simp add: mult_sgn_abs)
  moreover have "to_uint8 v = of_int (sgn m * (\<bar>m\<bar> div 10 ^ 0))" by (simp add: to_uint8_def v)
  ultimately have "to_uint8 v = of_int m" by metis
  moreover have "uint (of_int m :: byte) = m" using v by (simp add: uint_word_of_int)
  ultimately show ?thesis using v by (simp add: num_of_int_def)
qed

lemma prettify_not_Nil: "bs \<noteq> [] \<Longrightarrow> prettifyBytes bs \<noteq> []"
  by (cases bs) (auto simp: prettifyBytes_def prettify_byte_def Let_def)

lemma byte_array_back:
  assumes "vs \<noteq> []" and "list_all is_byte_value vs"
  shows "cell_toValue BlobCell (cell_toString BlobCell (JsArray vs)) = JsArray vs"
  using assms prettify_not_Nil [of "map to_uint8 vs"] byte_value_back
  by (auto simp: read_prettified list_all_iff comp_def intro!: map_idI)

lemma text_of_value_back:
  assumes "survives_editor v"
  shows "cell_toValue (cell_kind h v) (cell_toString (cell_kind h v) v) = v"
proof (cases v)
  case (Num n)
  then obtain m e where "n = Dec m e" "canonical_dec m e" using assms by (cases n) auto
  moreover have "num_str (Dec m e) \<noteq> []"
    using num_str_sign [of m e] num_str_ends [of "\<bar>m\<bar>" e] by (simp del: num_str.simps)
  ultimately show ?thesis
    by (simp add: Num cell_kind_def js_Number_num_str del: num_str.simps)
next
  case (BigInt i)
  then show ?thesis by (simp add: cell_kind_def js_BigInt_int_str)
next
  case (JsArray vs)
  then show ?thesis using assms byte_array_back by (simp add: cell_kind_def)
next
  case Null
  then show ?thesis by (cases "cell_kind h Null") simp_all
next
  case Undefined
  then show ?thesis by (cases "cell_kind h Undefined") simp_all
qed (use assms in \<open>simp_all add: cell_kind_def\<close>)

text \<open>
  The values that do not: an empty BLOB and one that is an \<open>ArrayBuffer\<close> become \<open>NULL\<close>, a
  \<open>Uint8Array\<close> becomes an array, and so does a number that is not finite and, in a column of
  integers, a Boolean.
\<close>

lemma empty_blob_becomes_null:
  "cell_toValue BlobCell (cell_toString BlobCell (JsArray [])) = Null"
  by (simp add: prettifyBytes_def)

lemma array_buffer_becomes_null:
  "cell_toValue BlobCell (cell_toString BlobCell (ArrayBuffer bs)) = Null
   \<and> cell_shown is_link h None g (ArrayBuffer bs) = ShowNull"
  by (simp add: prettifyBytes_def cell_shown_def cell_mount_def cell_kind_def cell_content_def)

lemma infinity_becomes_null:
  "cell_toValue NumberCell (cell_toString NumberCell (Num (Infinite False))) = Null"
  by code_simp

lemma boolean_in_integer_column_becomes_null:
  "cell_toValue BigNumberCell (cell_toString BigNumberCell (Boolean b)) = Null"
proof -
  have "cell_toValue BigNumberCell (cell_toString BigNumberCell (Boolean True)) = Null" by code_simp
  moreover have "cell_toValue BigNumberCell (cell_toString BigNumberCell (Boolean False)) = Null" by code_simp
  ultimately show ?thesis by (cases b) metis+
qed

text \<open>
  The bytes of a BLOB that is not empty are read back from the text the editor shows for
  them: every byte, also a backslash, a control character and one above 127.
\<close>

theorem blob_text_roundtrip:
  "cell_toValue BlobCell (Str (prettifyBytes (b # bs)))
   = JsArray (map (\<lambda>b. Num (num_of_int (uint b))) (b # bs))"
  using prettify_not_Nil [of "b # bs"] by (simp add: read_prettified comp_def)

section \<open>The types of edited values\<close>

text \<open>The values of an editor: a text, a finite number, an integer, or bytes.\<close>

fun of_kind :: "CellKind \<Rightarrow> jsval \<Rightarrow> bool" where
  "of_kind TextCell (Str s) = True"
| "of_kind NumberCell (Num (Dec m e)) = True"
| "of_kind BigNumberCell (BigInt i) = True"
| "of_kind BlobCell (JsArray vs) = list_all is_byte_value vs"
| "of_kind k v = False"

definition edit_text :: "TableHeader \<Rightarrow> jsval \<Rightarrow> string \<Rightarrow> jsval" where
  "edit_text h v e = cell_toValue (cell_kind h v) (Str e)"

lemma hex_value_less: "hex_value c = Some n \<Longrightarrow> n < 16"
  by (auto simp: hex_value_def Let_def split: if_splits)

lemma escape_at_byte: "escape_at t = Some (n, r) \<Longrightarrow> n < 256"
  by (induction t rule: escape_at.induct) (auto split: if_splits option.splits dest!: hex_value_less)

lemma read_bytes_are_bytes: "list_all (\<lambda>n. n < 256) (read_bytes t)"
proof (induction t rule: read_bytes.induct)
  case (2 c cs)
  have c: "(of_char c :: nat) < 256" by simp
  show ?case
    using 2 c by (auto split: option.split dest: escape_at_byte)
qed simp

lemma toValue_of_kind: "cell_toValue k (Str e) = Null \<or> of_kind k (cell_toValue k (Str e))"
  using read_bytes_are_bytes [of e]
  by (cases k) (auto simp: list_all_iff is_byte_value_def num_of_int_def split: jsnum.split option.split)

lemma of_kind_kind: "of_kind k v \<Longrightarrow> cell_kind h v = k"
  by (cases "(k, v)" rule: of_kind.cases) (simp_all add: cell_kind_def)

text \<open>
  C23. What is typed keeps the type of the cell: after any sequence of edits the cell has the
  editor of its first value, or the editor its column gives to \<open>NULL\<close>; and whatever text is
  typed next, the value stored is \<open>NULL\<close> or a value of that editor: a text, a finite number, an
  integer, or an array of bytes.  Nothing typed stores \<open>NaN\<close>, an infinite number or a fraction
  for an integer; and nothing of characters below 256, which are those of the model, an element
  that is no byte.
\<close>

theorem edits_keep_the_type:
  "cell_kind h (foldl (edit_text h) v es) \<in> {cell_kind h v, cell_kind h Null}
   \<and> (let w = foldl (edit_text h) v es in
        edit_text h w e = Null \<or> of_kind (cell_kind h w) (edit_text h w e))"
proof -
  have "cell_kind h (foldl (edit_text h) v es) \<in> {cell_kind h v, cell_kind h Null}"
  proof (induction es rule: rev_induct)
    case (snoc e es)
    define w where "w = foldl (edit_text h) v es"
    have "edit_text h w e = Null \<or> cell_kind h (edit_text h w e) = cell_kind h w"
      using toValue_of_kind [of "cell_kind h w" e] of_kind_kind by (auto simp: edit_text_def)
    then show ?case
      using snoc.IH by (auto simp: w_def)
  qed simp
  then show ?thesis
    unfolding Let_def edit_text_def [of h "foldl (edit_text h) v es" e]
    using toValue_of_kind by blast
qed

section \<open>Leaving a cell\<close>

lemma changed_rows_after:
  assumes "grid_ok s" and "\<And>a b. eq a b \<longleftrightarrow> a = b"
  shows "set (getChangedRows (changeValue eq y x (getValue s y x) s)) \<subseteq> set (getChangedRows s)"
proof -
  have rev: "set (getChangedRows (revert_cell r h s)) \<subseteq> set (getChangedRows s)" for r h
    by (auto simp: revert_cell_def getChangedRows_def Let_def log_del_def set_row_def split: option.split)
  have wr: "getChangedRows (write_cell r h v s) = getChangedRows s" if "rwChange (rows s ! r) \<noteq> None" for r h v
    using that by (auto simp: write_cell_def getChangedRows_def Let_def set_row_def)
  have orig: "getValue s y x = getOriginalValue s y x" if "at_index (data s) y = Some r" "rwChange (rows s ! r) = None" for r
    using that by (simp add: getValue_def row_of_def)
  show ?thesis
  proof (cases "changeValue eq y x (getValue s y x) s = s")
    case False
    then obtain r where r: "at_index (data s) y = Some r"
      and c: "changeValue eq y x (getValue s y x) s = broadcastChange False
        (if getOriginalValue s y x = getValue s y x then revert_cell r (header_name s x) s
         else write_cell r (header_name s x) (getValue s y x) s)"
      by (auto simp: changeValue_def assms(2) split: option.splits if_splits)
    show ?thesis
    proof (cases "getOriginalValue s y x = getValue s y x")
      case True
      then show ?thesis using rev [of r "header_name s x"] by (simp add: c getChangedRows_def)
    next
      case False
      then have "rwChange (rows s ! r) \<noteq> None" using orig [OF r] by metis
      then have "getChangedRows (write_cell r (header_name s x) (getValue s y x) s) = getChangedRows s"
        by (rule wr)
      then show ?thesis using False by (simp add: c getChangedRows_def)
    qed
  qed simp
qed


definition example_cell_grid :: OptimizeTableState where
  "example_cell_grid = run_op (=) (GoChange 1 1 (Str ''c'')) example_grid"


section \<open>The tabulator key\<close>

lemma tab_fields [simp]:
  "headers (cell_applyChange eq k y x v e s) = headers s"
  "length (data (cell_applyChange eq k y x v e s)) = length (data s)"
proof -
  have "headers (changeValue eq y x w s) = headers s \<and> data (changeValue eq y x w s) = data s" for w
    by (auto simp: changeValue_def revert_cell_def write_cell_def set_row_def Let_def split: option.split)
  then show "headers (cell_applyChange eq k y x v e s) = headers s"
    "length (data (cell_applyChange eq k y x v e s)) = length (data s)"
    by (simp_all add: cell_applyChange_def Let_def exitEditMode_def)
qed

text \<open>The grid after the tabulator key was pressed in one cell after the other.\<close>

fun tab_times :: "(jsval \<Rightarrow> jsval \<Rightarrow> bool) \<Rightarrow> (int \<Rightarrow> int \<Rightarrow> CellKind) \<Rightarrow> (int \<Rightarrow> int \<Rightarrow> jsval) \<Rightarrow> nat \<Rightarrow>
    OptimizeTableState \<Rightarrow> OptimizeTableState" where
  "tab_times eq kind typed 0 s = s"
| "tab_times eq kind typed (Suc n) s =
     (let t = tab_times eq kind typed n s
      in case focusAt t of None \<Rightarrow> t | Some (y, x) \<Rightarrow> cell_tab eq (kind y x) y x (typed y x) t)"

text \<open>
  The tabulator key walks through all cells in reading order: pressed \<open>n\<close> times while cells
  are edited, whatever is typed into them, it takes the focus from the first cell of a grid to
  the cell number \<open>n\<close>, row by row, and never behind the last row.
\<close>

theorem tab_walks_in_reading_order:
  assumes "focusAt s = Some (0, 0)" and "int n < getRowsCount s * getHeaderCount s"
  shows "focusAt (tab_times eq kind typed n s) = Some (int n div getHeaderCount s, int n mod getHeaderCount s)"
proof -
  let ?c = "getHeaderCount s"
  have c: "0 < ?c"
    using assms(2) by (cases "?c = 0") (auto simp: getHeaderCount_def)
  have "focusAt (tab_times eq kind typed n s) = Some (int n div ?c, int n mod ?c)
      \<and> headers (tab_times eq kind typed n s) = headers s
      \<and> length (data (tab_times eq kind typed n s)) = length (data s)"
    using assms(2)
  proof (induction n)
    case 0
    then show ?case using assms(1) by simp
  next
    case (Suc n)
    let ?t = "tab_times eq kind typed n s"
    have IH: "focusAt ?t = Some (int n div ?c, int n mod ?c)" "headers ?t = headers s"
        "length (data ?t) = length (data s)"
      using Suc by simp_all
    have counts: "getHeaderCount ?t = ?c" "getRowsCount ?t = getRowsCount s"
      using IH by (simp_all add: getHeaderCount_def getRowsCount_def)
    have next_cell: "int n div ?c * ?c + int n mod ?c + 1 = int (Suc n)" "int (Suc n) = int n + 1" by simp_all
    have "int (Suc n) div ?c < getRowsCount s"
    proof (rule ccontr)
      assume "\<not> ?thesis"
      then have "getRowsCount s * ?c \<le> int (Suc n) div ?c * ?c" using c by (simp add: mult_right_mono)
      also have "\<dots> \<le> int (Suc n)" using div_mult_mod_eq [of "int (Suc n)" ?c] pos_mod_sign [OF c, of "int (Suc n)"] by linarith
      finally show False using Suc.prems by simp
    qed
    then show ?case
      using IH by (simp add: cell_tab_def counts next_cell Let_def del: of_nat_Suc)
  qed
  then show ?thesis by simp
qed

theorem tab_walks_in_reading_order_witness:
  "focusAt (tab_times (=) (\<lambda>_ _. TextCell) (\<lambda>_ _. Str ''z'') 3 (setFocus 0 0 example_grid)) = Some (1, 1)"
proof -
  have "getHeaderCount (setFocus 0 0 example_grid) = 2" "getRowsCount (setFocus 0 0 example_grid) = 2"
    "focusAt (setFocus 0 0 example_grid) = Some (0, 0)"
    by code_simp+
  then show ?thesis
    using tab_walks_in_reading_order [of "setFocus 0 0 example_grid" 3 "(=)" "\<lambda>_ _. TextCell" "\<lambda>_ _. Str ''z''"]
    by simp
qed

text \<open>The view is scrolled to the cell that was left, not to the one that got the focus.\<close>

lemma tab_scrolls_to_left_cell:
  assumes "focusAt s = Some (fy, fx)" and "c = getHeaderCount s" and "n = fy * c + fx + 1"
    and "n div c < getRowsCount s"
  shows "cell_tab eq k y x v s
    = scrollToCell (n mod c \<noteq> 0) True fy fx (setFocus (n div c) (n mod c) (cell_applyChange eq k y x v False s))"
  using assms by (simp add: cell_tab_def Let_def)

text \<open>
  A key pressed on a cell without an input, a long text or a read-only column, replaces the text
  that the cell shows although nothing is stored.
\<close>

lemma typed_key_shown_not_stored:
  assumes "cell_editor is_json (cell_kind h v) v \<noteq> EditInput"
  shows "\<not> shows_input is_json h v True
    \<and> fst (cell_enter (enterEditModeWithChar ch s) (cell_mount (cell_kind h v) v)) = Str ch
    \<and> getValue (snd (cell_enter (enterEditModeWithChar ch s) e)) y x = getValue s y x"
proof -
  have "pendingEditChar (enterEditModeWithChar ch s) = Some ch"
    by (simp add: enterEditModeWithChar_def enterEditMode_def broadcastChange_def Let_def)
  then show ?thesis
    using assms by (auto simp: shows_input_def cell_enter_def consumePendingEditChar_def getValue_change_at row_of_def
        header_name_def enterEditModeWithChar_def enterEditMode_def split: option.split)
qed

end
