(* ===== verification/GridViews.thy ===== *)
theory GridViews
  imports GridState SqlText
begin

text \<open>
  What the table shows of the grid's state: the cells that are rendered for a scroll position
  (\<open>components/gui/table-optimized/use-visibility-calculation.ts\<close> and \<open>index.tsx\<close>), the filter of
  columns (\<open>components/gui/table-result/filter-column.tsx\<close>), resizing a column, and the
  aggregates of the selected cells (\<open>components/gui/aggregate-result/\<close>).  Lengths in pixels are
  rational numbers; \<open>Date.parse\<close> and the number format of the browser are parameters.
\<close>

section \<open>The visible range\<close>

text \<open>The rectangle of the scroll container.\<close>

record Viewport =
  vpScrollTop :: rat
  vpScrollLeft :: rat
  vpWidth :: rat
  vpHeight :: rat

record VisibleRange =
  colStart :: int
  colEnd :: int
  rowStart :: int
  rowEnd :: int

definition row_start :: "rat \<Rightarrow> rat \<Rightarrow> int \<Rightarrow> int" where
  "row_start scrolled rowHeight renderAhead = max 0 (floor (scrolled / rowHeight) - 1 - renderAhead)"

definition row_end :: "rat \<Rightarrow> rat \<Rightarrow> rat \<Rightarrow> int \<Rightarrow> int \<Rightarrow> int" where
  "row_end scrolled shown rowHeight totalRowCount renderAhead =
     min totalRowCount (row_start scrolled rowHeight renderAhead + ceiling (shown / rowHeight) + renderAhead)"

text \<open>The loop over the widths: the number of the column, its left edge, and the start found so far.\<close>

fun column_loop :: "rat \<Rightarrow> rat \<Rightarrow> int \<Rightarrow> rat \<Rightarrow> int \<Rightarrow> rat list \<Rightarrow> int \<times> int" where
  "column_loop xStart xEnd i acc start [] = (start, -1)"
| "column_loop xStart xEnd i acc start (w # ws) =
     (let start1 = (if xStart \<le> acc \<and> start < 0 then i - 1 else start)
      in if xEnd \<le> acc + w then (start1, i)
         else column_loop xStart xEnd (i + 1) (acc + w) start1 ws)"

definition getVisibleCellRange ::
  "Viewport \<Rightarrow> rat list \<Rightarrow> int \<Rightarrow> rat \<Rightarrow> int \<Rightarrow> rat \<Rightarrow> VisibleRange" where
  "getVisibleCellRange vp headerSizes totalRowCount rowHeight renderAhead gutterWidth =
     (let n = int (length headerSizes);
          (s, e) = column_loop (vpScrollLeft vp) (vpScrollLeft vp + vpWidth vp) 0 gutterWidth (-1) headerSizes;
          e1 = (if e < 0 then n - 1 else e);
          s1 = (if s < 0 then 0 else s);
          e2 = (if n \<le> e1 then n - 1 else e1)
      in \<lparr>colStart = s1, colEnd = e2,
          rowStart = row_start (vpScrollTop vp) rowHeight renderAhead,
          rowEnd = row_end (vpScrollTop vp) (vpHeight vp) rowHeight totalRowCount renderAhead\<rparr>)"

section \<open>The columns that are shown\<close>

text \<open>
  A column of the table: the index of its header and whether it sticks to the left.  An index
  without a header is \<open>undefined\<close>, and reading its index throws.
\<close>

definition shown_header :: "nat \<Rightarrow> nat option \<Rightarrow> nat \<Rightarrow> (nat \<times> bool) option" where
  "shown_header headerCount sticky i = (if i < headerCount then Some (i, Some i = sticky) else None)"

fun arrange :: "nat \<Rightarrow> nat option \<Rightarrow> nat list \<Rightarrow> (nat \<times> bool) list result" where
  "arrange headerCount sticky [] = Inr []"
| "arrange headerCount sticky (i # is) =
     (case shown_header headerCount sticky i of
        None \<Rightarrow> Inl (TypeError ''Cannot read properties of undefined (reading index)'')
      | Some h \<Rightarrow> rbind (arrange headerCount sticky is) (\<lambda>hs.
          Inr (if Some (fst h) \<noteq> sticky then h # hs else hs)))"

definition headerWithIndex :: "nat \<Rightarrow> nat option \<Rightarrow> nat list \<Rightarrow> (nat \<times> bool) list result" where
  "headerWithIndex headerCount sticky arrangeHeaderIndex =
     rbind (arrange headerCount sticky arrangeHeaderIndex) (\<lambda>hs.
       case sticky of
         None \<Rightarrow> Inr hs
       | Some i \<Rightarrow> (case shown_header headerCount sticky i of
           None \<Rightarrow> Inl (TypeError ''Cannot read properties of undefined (reading index)'')
         | Some h \<Rightarrow> Inr (h # hs)))"

text \<open>\<open>headerSizes[header.index]\<close>; a missing width counts as 0.\<close>

definition shown_widths :: "rat option list \<Rightarrow> (nat \<times> bool) list \<Rightarrow> rat list" where
  "shown_widths widths hs = map (\<lambda>h. width_or_0 widths (int (fst h))) hs"

section \<open>One row of the table\<close>

text \<open>
  The cells of a row in the grid of the page: the number of the row, a cell for a header, or an
  empty cell over some columns.
\<close>

datatype RowItem = GutterItem | CellItem nat | PaddingItem int

fun item_span :: "RowItem \<Rightarrow> int" where
  "item_span (PaddingItem n) = n"
| "item_span _ = 1"

definition fake_padding :: "int \<Rightarrow> int \<Rightarrow> RowItem list" where
  "fake_padding from to = (if 0 < to - from then [PaddingItem (to - from)] else [])"

text \<open>\<open>row.slice(colStart, colEnd + 1)\<close> without the sticky column.\<close>

definition window_cells :: "int \<Rightarrow> int \<Rightarrow> (nat \<times> bool) list \<Rightarrow> RowItem list" where
  "window_cells from to hs =
     concat (map (\<lambda>h. if snd h then [] else [CellItem (fst h)])
       (drop (nat from) (take (nat (to + 1)) hs)))"

definition row_items :: "bool \<Rightarrow> int \<Rightarrow> int \<Rightarrow> (nat \<times> bool) list \<Rightarrow> RowItem list" where
  "row_items hasSticky from to hs =
     [GutterItem]
     @ (if hasSticky then [CellItem (fst (hs ! 0))] else [])
     @ fake_padding (if hasSticky then 1 else 0) from
     @ window_cells from to hs
     @ fake_padding to (int (length hs) - 1)"

definition rendered_rows :: "VisibleRange \<Rightarrow> int list" where
  "rendered_rows vr = [rowStart vr..rowEnd vr - 1]"

text \<open>The empty rows above and below the rendered ones, in pixels.\<close>

definition body_padding :: "VisibleRange \<Rightarrow> int \<Rightarrow> rat \<Rightarrow> rat \<times> rat" where
  "body_padding vr rowCount rowHeight =
     (of_int (rowStart vr) * rowHeight, of_int (rowCount - rowEnd vr) * rowHeight)"

text \<open>The number of a row: mouse down on it.\<close>

definition gutter_mouseDown :: "bool \<Rightarrow> bool \<Rightarrow> int \<Rightarrow> OptimizeTableState \<Rightarrow> OptimizeTableState" where
  "gutter_mouseDown shiftKey ctrlKey row s =
     (case focusAt s of
        Some (fy, fx) \<Rightarrow>
          if shiftKey then selectRowRange fy row s
          else if ctrlKey then setFocus row 0 (addSelectionRow row s)
          else setFocus row 0 (selectRow row s)
      | None \<Rightarrow> setFocus row 0 (selectRow row s))"

text \<open>The header of a column: mouse down on it opens the menu with the right button.\<close>

definition header_mouseDown ::
  "nat \<Rightarrow> bool \<Rightarrow> bool \<Rightarrow> int \<Rightarrow> OptimizeTableState \<Rightarrow> bool \<times> OptimizeTableState" where
  "header_mouseDown button shiftKey ctrlKey col s =
     (if button = 2 then (True, s)
      else (False, case focusAt s of
        Some (fy, fx) \<Rightarrow>
          if shiftKey then selectColRange fx col s
          else if ctrlKey then setFocus 0 col (addSelectionCol col s)
          else setFocus 0 col (selectColumn col s)
      | None \<Rightarrow> setFocus 0 col (selectColumn col s)))"

section \<open>Resizing a column\<close>

text \<open>
  One movement of the mouse while the edge of a column is dragged: the last position of the mouse
  (negative before the first movement), the width of the cell, and where the right edge of the
  table is.  The result is the new last position, the width to set, and how far to scroll.
\<close>

definition resize_move :: "rat \<Rightarrow> rat \<Rightarrow> rat \<Rightarrow> rat \<Rightarrow> rat \<times> (rat \<times> rat) option" where
  "resize_move lastX cellWidth right clientX =
     (if lastX < 0 then (clientX, None)
      else let edgeDirection = (if 0 < right - clientX then 1 else -1);
               edgeResizing = (\<bar>right - clientX\<bar> < 3);
               gain = (if edgeResizing then edgeDirection * 2 else clientX - lastX);
               (width, gain1) = (if 100 \<le> cellWidth + gain then (cellWidth + gain, gain) else (100, 0))
           in (clientX, Some (width, if edgeResizing then 2 * gain1 else 0)))"

text \<open>\<open>onHeaderSizeWithRemap\<close>: the position of a column in the table to the index of its header.\<close>

definition onHeaderResize :: "(nat \<times> bool) list \<Rightarrow> nat \<Rightarrow> rat \<Rightarrow> OptimizeTableState \<Rightarrow> OptimizeTableState" where
  "onHeaderResize hs idx newWidth s =
     setHeaderWidth (if idx < length hs then fst (hs ! idx) else 0) newWidth s"

section \<open>The filter of columns\<close>

definition allColumns :: "OptimizeTableState \<Rightarrow> nat list" where
  "allColumns s = [0..<length (headers s)]"

text \<open>Choosing a column in the list: it is hidden when it was shown, and shown when it was hidden.\<close>

definition toggleColumn :: "nat \<Rightarrow> nat list \<Rightarrow> nat list" where
  "toggleColumn idx columnIndexList =
     (if idx \<in> set columnIndexList then filter (\<lambda>c. c \<noteq> idx) columnIndexList
      else sort (remdups (columnIndexList @ [idx])))"

definition columnFilterBadge :: "OptimizeTableState \<Rightarrow> nat list \<Rightarrow> int" where
  "columnFilterBadge s columnIndexList = int (length (headers s)) - int (length columnIndexList)"

section \<open>Aggregates of the selected cells\<close>

text \<open>Numbers with infinities, for sums and quotients.\<close>

datatype extnum = ENaN | EInf bool | EFin rat

fun ext_of_num :: "jsnum \<Rightarrow> extnum" where
  "ext_of_num NaN = ENaN"
| "ext_of_num (Infinite neg) = EInf neg"
| "ext_of_num (Dec m s) = EFin (of_int m / 10 ^ s)"

fun ext_add :: "extnum \<Rightarrow> extnum \<Rightarrow> extnum" where
  "ext_add (EFin a) (EFin b) = EFin (a + b)"
| "ext_add (EInf a) (EInf b) = (if a = b then EInf a else ENaN)"
| "ext_add (EInf a) (EFin b) = EInf a"
| "ext_add (EFin a) (EInf b) = EInf b"
| "ext_add _ _ = ENaN"

fun ext_less :: "extnum \<Rightarrow> extnum \<Rightarrow> bool" where
  "ext_less (EFin a) (EFin b) = (a < b)"
| "ext_less (EInf a) (EInf b) = (a \<and> \<not> b)"
| "ext_less (EInf a) (EFin b) = a"
| "ext_less (EFin a) (EInf b) = (\<not> b)"
| "ext_less _ _ = False"

fun ext_div :: "extnum \<Rightarrow> nat \<Rightarrow> extnum" where
  "ext_div (EFin a) n = EFin (a / of_nat n)"
| "ext_div x n = x"

datatype AggregateValue = AggNumber extnum | AggText string

record AggregateResult =
  agSum :: "AggregateValue option"
  agAvg :: "AggregateValue option"
  agMin :: "AggregateValue option"
  agMax :: "AggregateValue option"
  agCount :: "nat option"

text \<open>The cells of the ranges in the order of the loops; a cell is skipped when it was taken.\<close>

definition range_cells :: "TableSelectionRange list \<Rightarrow> (int \<times> int) list" where
  "range_cells rs =
     concat (map (\<lambda>r. concat (map (\<lambda>x. map (\<lambda>y. (x, y)) [ry1 r..ry2 r]) [rx1 r..rx2 r])) rs)"

definition empty_cell :: "jsval \<Rightarrow> bool" where
  "empty_cell v = (v = Undefined \<or> v = Null \<or> v = Str [])"

text \<open>\<open>selectedCell\<close> and \<open>values\<close>.\<close>

definition take_cell ::
  "OptimizeTableState \<Rightarrow> (int \<times> int) list \<times> jsval list \<Rightarrow> int \<times> int \<Rightarrow> (int \<times> int) list \<times> jsval list" where
  "take_cell s st c =
     (if c \<in> set (fst st) then st
      else let v = getValue s (snd c) (fst c)
           in if empty_cell v then st else (fst st @ [c], snd st @ [v]))"

definition selected_values :: "OptimizeTableState \<Rightarrow> (int \<times> int) list \<times> jsval list" where
  "selected_values s = foldl (take_cell s) ([], []) (range_cells (selectionRanges s))"

definition number_of :: "jsval \<Rightarrow> extnum" where
  "number_of v = ext_of_num (js_ToNumber v)"

datatype DataType = DataNumber | DataDate | DataNone

definition detect_type :: "(string \<Rightarrow> int option) \<Rightarrow> jsval \<Rightarrow> DataType" where
  "detect_type date_parse v =
     (if number_of v \<noteq> ENaN then DataNumber
      else case v of Str t \<Rightarrow> if date_parse t \<noteq> None then DataDate else DataNone | _ \<Rightarrow> DataNone)"

definition add_number ::
  "(extnum \<times> extnum \<times> extnum) option \<Rightarrow> jsval \<Rightarrow> (extnum \<times> extnum \<times> extnum) option" where
  "add_number st v =
     (let p = number_of v in
      if p = ENaN then st
      else case st of
        None \<Rightarrow> Some (p, p, p)
      | Some (summed, lo, hi) \<Rightarrow>
          Some (ext_add summed p, if ext_less lo p then lo else p, if ext_less p hi then hi else p))"

text \<open>\<open>isValidDate\<close> and \<open>isValidDateTime\<close>: the two forms by their characters.\<close>

fun matches_form :: "string \<Rightarrow> string \<Rightarrow> bool" where
  "matches_form [] [] = True"
| "matches_form (f # fs) (c # cs) = ((if f = CHR ''9'' then is_digit c else f = c) \<and> matches_form fs cs)"
| "matches_form _ _ = False"

definition isValidDate :: "(string \<Rightarrow> int option) \<Rightarrow> string \<Rightarrow> bool" where
  "isValidDate date_parse t = (matches_form ''9999-99-99'' t \<and> date_parse t \<noteq> None)"

definition isValidDateTime :: "(string \<Rightarrow> int option) \<Rightarrow> string \<Rightarrow> bool" where
  "isValidDateTime date_parse t = (matches_form ''9999-99-99 99:99:99'' t \<and> date_parse t \<noteq> None)"

definition add_date ::
  "(string \<Rightarrow> int option) \<Rightarrow> (string \<times> string) option \<Rightarrow> jsval \<Rightarrow> (string \<times> string) option" where
  "add_date date_parse st v =
     (case v of
        Str t \<Rightarrow>
          if isValidDate date_parse t \<or> isValidDateTime date_parse t
          then (case st of
                  None \<Rightarrow> Some (t, t)
                | Some (lo, hi) \<Rightarrow>
                    Some (if the (date_parse lo) < the (date_parse t) then lo else t,
                          if the (date_parse t) < the (date_parse hi) then hi else t))
          else st
      | _ \<Rightarrow> st)"

text \<open>\<open>formatNumber\<close>: \<open>undefined\<close> and 0 stay as they are.\<close>

definition formatNumber :: "(extnum \<Rightarrow> string) \<Rightarrow> extnum \<Rightarrow> AggregateValue" where
  "formatNumber fmt n = (if n = EFin 0 \<or> n = ENaN then AggNumber n else AggText (fmt n))"

definition calculateAggregateResult ::
  "(string \<Rightarrow> int option) \<Rightarrow> (extnum \<Rightarrow> string) \<Rightarrow> OptimizeTableState \<Rightarrow> AggregateResult" where
  "calculateAggregateResult date_parse fmt s =
     (let (cells, vs) = selected_values s;
          none = \<lparr>agSum = None, agAvg = None, agMin = None, agMax = None, agCount = Some (length cells)\<rparr>
      in if length vs = 0 then none
         else case detect_type date_parse (vs ! 0) of
           DataNumber \<Rightarrow>
             (case foldl add_number None vs of
                None \<Rightarrow> none
              | Some (summed, lo, hi) \<Rightarrow>
                  none\<lparr>agSum := Some (formatNumber fmt summed),
                       agAvg := Some (formatNumber fmt (ext_div summed (length vs))),
                       agMin := Some (formatNumber fmt lo), agMax := Some (formatNumber fmt hi)\<rparr>)
         | DataDate \<Rightarrow>
             (case foldl (add_date date_parse) None vs of
                None \<Rightarrow> none
              | Some (lo, hi) \<Rightarrow> none\<lparr>agMin := Some (AggText lo), agMax := Some (AggText hi)\<rparr>)
         | DataNone \<Rightarrow> none)"

datatype AggregateFunction = AfSum | AfAvg | AfMin | AfMax | AfCount

text \<open>What the button shows: a result that is falsy (0 or nothing) falls through to the others.\<close>

definition agg_text :: "(extnum \<Rightarrow> string) \<Rightarrow> AggregateValue \<Rightarrow> string" where
  "agg_text str v = (case v of AggNumber n \<Rightarrow> str n | AggText t \<Rightarrow> t)"

definition agg_truthy :: "AggregateValue option \<Rightarrow> bool" where
  "agg_truthy v = (case v of None \<Rightarrow> False | Some (AggNumber n) \<Rightarrow> n \<noteq> EFin 0 \<and> n \<noteq> ENaN | Some (AggText t) \<Rightarrow> t \<noteq> [])"

definition agg_entry :: "AggregateFunction \<Rightarrow> AggregateResult \<Rightarrow> string \<times> AggregateValue option" where
  "agg_entry f r =
     (case f of
        AfSum \<Rightarrow> (''SUM'', agSum r) | AfAvg \<Rightarrow> (''AVG'', agAvg r) | AfMin \<Rightarrow> (''MIN'', agMin r)
      | AfMax \<Rightarrow> (''MAX'', agMax r)
      | AfCount \<Rightarrow> (''COUNT'', map_option (\<lambda>n. AggNumber (EFin (of_nat n))) (agCount r)))"

definition displayResult :: "(extnum \<Rightarrow> string) \<Rightarrow> AggregateFunction \<Rightarrow> AggregateResult \<Rightarrow> string" where
  "displayResult str f r =
     (let show = (\<lambda>e. fst e @ '': '' @ agg_text str (the (snd e)))
      in if agg_truthy (snd (agg_entry f r)) then show (agg_entry f r)
         else case filter (\<lambda>e. snd e \<noteq> None)
                (map (\<lambda>g. agg_entry g r) [AfSum, AfAvg, AfMin, AfMax, AfCount]) of
           [] \<Rightarrow> []
         | e # _ \<Rightarrow> show e)"

definition aggregate_hidden :: "AggregateResult \<Rightarrow> bool" where
  "aggregate_hidden r = (case agCount r of None \<Rightarrow> False | Some n \<Rightarrow> n \<noteq> 0 \<and> n \<le> 1)"

text \<open>\<open>convertTimeToMilliseconds\<close> of a number with a unit.\<close>

definition convertTimeToMilliseconds :: "string \<Rightarrow> extnum" where
  "convertTimeToMilliseconds time =
     (let extension = drop (length time - 1) time; v = ext_of_num (js_Number (take (length time - 1) time));
          times = (\<lambda>k. case v of EFin q \<Rightarrow> EFin (q * k) | _ \<Rightarrow> v)
      in if v = ENaN then EFin 0
         else if extension = ''s'' then times 1000
         else if extension = ''m'' then times (60 * 1000)
         else if extension = ''h'' then times (60 * 60 * 1000)
         else if extension = ''d'' then times (24 * 60 * 60 * 1000)
         else EFin 0)"

end
