(* ===== verification/GridViewFacts.thy ===== *)
theory GridViewFacts
  imports GridViews GridFacts
begin

text \<open>
  What the table shows: every cell in view is rendered, under the header of its column; the
  aggregates count every selected cell once; the filter keeps a sorted list of columns.
\<close>

section \<open>Rows in view\<close>

text \<open>A row takes the height of a row below the header, which is as high as a row.\<close>

lemma row_start_bound:
  assumes "0 < rh" and "0 \<le> ra" and "0 \<le> y" and "st < of_int (y + 2) * rh"
  shows "row_start st rh ra \<le> y"
proof -
  have "st / rh < of_int (y + 2)" using assms(1,4) by (simp add: divide_less_eq)
  then have "floor (st / rh) < y + 2" by (simp add: floor_less_iff)
  then show ?thesis using assms(2,3) by (simp add: row_start_def)
qed

lemma row_end_bound:
  assumes "0 < rh" and "0 \<le> ra" and "y < n" and "of_int (y + 2) * rh \<le> st + height"
  shows "y < row_end st height rh n ra"
proof -
  have "of_int (y + 2) \<le> (st + height) / rh" using assms(1,4) by (simp add: le_divide_eq)
  also have "\<dots> = st / rh + height / rh" by (rule add_divide_distrib)
  also have "\<dots> < of_int (floor (st / rh) + 1) + of_int (ceiling (height / rh))"
    using floor_correct [of "st / rh"] by (intro add_less_le_mono) (simp_all only: le_of_int_ceiling)
  finally have "y + 2 < floor (st / rh) + 1 + ceiling (height / rh)"
    by (metis of_int_add of_int_less_iff)
  then show ?thesis using assms(2,3) by (simp add: row_end_def row_start_def)
qed

section \<open>Columns in view\<close>

text \<open>The left edge of a column.\<close>

definition left_edge :: "rat \<Rightarrow> rat list \<Rightarrow> nat \<Rightarrow> rat" where
  "left_edge gutter ws x = gutter + sum_list (take x ws)"

lemma left_edge_simps [simp]:
  "left_edge g ws 0 = g"
  "left_edge g (w # ws) (Suc x) = left_edge (g + w) ws x"
  by (simp_all add: left_edge_def)

lemma left_edge_mono:
  assumes "\<forall>w \<in> set ws. 0 \<le> w" and "x \<le> z"
  shows "left_edge g ws x \<le> left_edge g ws z"
proof -
  have "take z ws = take x ws @ take (z - x) (drop x ws)"
    using assms(2) by (metis le_add_diff_inverse take_add)
  moreover have "0 \<le> sum_list (take (z - x) (drop x ws))"
    using assms(1) by (intro sum_list_nonneg) (meson in_set_dropD in_set_takeD)
  ultimately show ?thesis by (simp add: left_edge_def)
qed

lemma column_start_kept: "0 \<le> start \<Longrightarrow> fst (column_loop xs xe i acc start ws) = start"
  by (induction ws arbitrary: i acc) (simp_all add: Let_def)

lemma column_start_bound:
  assumes "k < length ws" and "xs < left_edge acc ws (Suc k)" and "start \<le> i + int k" and "0 \<le> i"
  shows "fst (column_loop xs xe i acc start ws) \<le> i + int k"
  using assms
proof (induction ws arbitrary: i acc start k)
  case (Cons w ws)
  let ?s = "if xs \<le> acc \<and> start < 0 then i - 1 else start"
  show ?case
  proof (cases k)
    case 0
    then have "xs < acc + w" using Cons.prems(2) by simp
    then have "fst (column_loop xs xe (i + 1) (acc + w) ?s ws) \<le> i"
    proof (cases ws)
      case (Cons v vs)
      show ?thesis
      proof (cases "?s < 0")
        case True
        then show ?thesis
          using \<open>xs < acc + w\<close> Cons column_start_kept [of i xs xe "i + 1 + 1" "acc + w + v" vs] \<open>0 \<le> i\<close>
          by (simp add: Let_def)
      next
        case False
        then show ?thesis
          using column_start_kept [of ?s xs xe "i + 1" "acc + w" ws] Cons.prems(3) 0 by auto
      qed
    qed (use Cons.prems 0 in auto)
    then show ?thesis using Cons.prems(3) 0 by (auto simp: Let_def)
  next
    case (Suc j)
    have "fst (column_loop xs xe (i + 1) (acc + w) ?s ws) \<le> i + 1 + int j"
      using Cons.prems Suc by (intro Cons.IH) auto
    then show ?thesis using Cons.prems(3) Suc by (auto simp: Let_def)
  qed
qed simp

lemma column_end:
  "snd (column_loop xs xe i acc start ws) = -1 \<or>
   (\<exists>k < length ws. snd (column_loop xs xe i acc start ws) = i + int k \<and> xe \<le> left_edge acc ws (Suc k))"
proof (induction ws arbitrary: i acc start)
  case (Cons w ws)
  let ?s = "if xs \<le> acc \<and> start < 0 then i - 1 else start"
  show ?case
  proof (cases "xe \<le> acc + w")
    case True
    then show ?thesis by (intro disjI2 exI [of _ 0]) (simp add: Let_def)
  next
    case False
    then have step: "snd (column_loop xs xe i acc start (w # ws)) = snd (column_loop xs xe (i + 1) (acc + w) ?s ws)"
      by (simp add: Let_def)
    from Cons.IH [of "i + 1" "acc + w" ?s] show ?thesis
    proof
      assume "\<exists>k < length ws. snd (column_loop xs xe (i + 1) (acc + w) ?s ws) = i + 1 + int k
          \<and> xe \<le> left_edge (acc + w) ws (Suc k)"
      then obtain k where "k < length ws" "snd (column_loop xs xe (i + 1) (acc + w) ?s ws) = i + 1 + int k"
          "xe \<le> left_edge (acc + w) ws (Suc k)" by blast
      then show ?thesis unfolding step by (intro disjI2 exI [of _ "Suc k"]) simp
    next
      assume "snd (column_loop xs xe (i + 1) (acc + w) ?s ws) = -1"
      then show ?thesis unfolding step by (rule disjI1)
    qed
  qed
qed simp

lemma column_in_range:
  assumes "\<forall>w \<in> set ws. 0 \<le> w" and "x < length ws"
    and "vpScrollLeft vp < left_edge g ws (Suc x)" and "left_edge g ws x < vpScrollLeft vp + vpWidth vp"
    and "vr = getVisibleCellRange vp ws n rh ra g"
  shows "colStart vr \<le> int x \<and> int x \<le> colEnd vr \<and> 0 \<le> colStart vr \<and> colEnd vr < int (length ws)"
proof -
  let ?loop = "column_loop (vpScrollLeft vp) (vpScrollLeft vp + vpWidth vp) 0 g (-1) ws"
  have s: "fst ?loop \<le> int x" using column_start_bound [OF assms(2,3), of "-1" 0] by simp
  from column_end [of "vpScrollLeft vp" "vpScrollLeft vp + vpWidth vp" 0 g "-1" ws]
  have e: "snd ?loop = -1 \<or> int x \<le> snd ?loop \<and> snd ?loop < int (length ws)"
  proof
    assume "\<exists>k < length ws. snd ?loop = 0 + int k \<and> vpScrollLeft vp + vpWidth vp \<le> left_edge g ws (Suc k)"
    then obtain k where k: "k < length ws" "snd ?loop = int k"
        "vpScrollLeft vp + vpWidth vp \<le> left_edge g ws (Suc k)" by auto
    have "x \<le> k"
    proof (rule ccontr)
      assume "\<not> x \<le> k"
      then have "left_edge g ws (Suc k) \<le> left_edge g ws x"
        using left_edge_mono [OF assms(1)] by simp
      then show False using k(3) assms(4) by linarith
    qed
    then show ?thesis using k by simp
  qed simp
  show ?thesis
    using s e assms(2) unfolding assms(5) getVisibleCellRange_def Let_def
    by (cases ?loop) auto
qed

section \<open>The columns of the table\<close>

lemma arrange_indices:
  "arrange n sticky is = Inr hs \<Longrightarrow> hs = map (\<lambda>i. (i, False)) (filter (\<lambda>i. Some i \<noteq> sticky) is) \<and> set is \<subseteq> {0..<n}"
proof (induction "is" arbitrary: hs)
  case (Cons i js)
  then show ?case
    by (auto simp: shown_header_def rbind_Inr_iff split: if_splits)
qed simp

text \<open>A sticky column comes first, the others follow in their order and do not stick.\<close>

lemma header_columns:
  assumes "headerWithIndex n sticky is = Inr hs"
  shows "hs = (case sticky of None \<Rightarrow> [] | Some i \<Rightarrow> [(i, True)])
      @ map (\<lambda>i. (i, False)) (filter (\<lambda>i. Some i \<noteq> sticky) is)"
    and "\<forall>h \<in> set hs. fst h < n"
proof -
  obtain ks where ks: "arrange n sticky is = Inr ks"
    and hs: "hs = (case sticky of None \<Rightarrow> [] | Some i \<Rightarrow> [(i, True)]) @ ks" "\<forall>i. sticky = Some i \<longrightarrow> i < n"
    using assms by (cases sticky) (auto simp: headerWithIndex_def rbind_Inr_iff shown_header_def split: if_splits)
  note ar = arrange_indices [OF ks]
  show "hs = (case sticky of None \<Rightarrow> [] | Some i \<Rightarrow> [(i, True)])
      @ map (\<lambda>i. (i, False)) (filter (\<lambda>i. Some i \<noteq> sticky) is)"
    using hs(1) ar by simp
  show "\<forall>h \<in> set hs. fst h < n"
    using hs ar by (auto split: option.splits)
qed

lemma sticky_first:
  assumes "headerWithIndex n sticky is = Inr hs" and "x < length hs"
  shows "snd (hs ! x) \<longleftrightarrow> x = 0 \<and> sticky \<noteq> None"
  using assms(2) unfolding header_columns(1) [OF assms(1)]
  by (cases sticky) (auto simp: nth_Cons split: nat.splits)

section \<open>The cells of a row\<close>

text \<open>The columns of the page that the items of a row take, from left to right.\<close>

fun item_columns :: "int \<Rightarrow> RowItem list \<Rightarrow> (RowItem \<times> int) list" where
  "item_columns p [] = []"
| "item_columns p (it # its) = (it, p) # item_columns (p + item_span it) its"

definition row_width :: "RowItem list \<Rightarrow> int" where
  "row_width its = sum_list (map item_span its)"

lemma item_columns_append:
  "item_columns p (xs @ ys) = item_columns p xs @ item_columns (p + row_width xs) ys"
  by (induction xs arbitrary: p) (simp_all add: row_width_def add.assoc)

lemma row_width_simps [simp]:
  "row_width [] = 0" "row_width (it # its) = item_span it + row_width its"
  "row_width (xs @ ys) = row_width xs + row_width ys"
  by (simp_all add: row_width_def)

lemma fake_padding_width [simp]: "row_width (fake_padding a b) = max 0 (b - a)"
  by (simp add: fake_padding_def)

lemma fake_padding_cells [simp]: "(CellItem c, p) \<in> set (item_columns q (fake_padding a b)) \<longleftrightarrow> False"
  by (simp add: fake_padding_def)

lemma plain_cells_columns:
  "(CellItem c, p) \<in> set (item_columns q (map (\<lambda>h. CellItem (fst h)) hs))
   \<longleftrightarrow> (\<exists>k < length hs. p = q + int k \<and> fst (hs ! k) = c)"
proof (induction hs arbitrary: q)
  case (Cons h hs)
  have "(\<exists>k < Suc (length hs). p = q + int k \<and> fst ((h # hs) ! k) = c)
      \<longleftrightarrow> p = q \<and> fst h = c \<or> (\<exists>k < length hs. p = q + 1 + int k \<and> fst (hs ! k) = c)"
    by (subst Ex_less_Suc2) auto
  then show ?case using Cons [of "q + 1"] by auto
qed simp

lemma plain_cells_width [simp]: "row_width (map (\<lambda>h. CellItem (fst h)) hs) = int (length hs)"
  by (induction hs) simp_all

lemma nth_window: "k < length (drop m (take n xs)) \<Longrightarrow> drop m (take n xs) ! k = xs ! (m + k)"
proof -
  assume k: "k < length (drop m (take n xs))"
  then have "m \<le> length (take n xs)" "m + k < n" "m \<le> length xs" by auto
  then show ?thesis by simp
qed

lemma window_cells_plain:
  assumes "\<And>x. x < length hs \<Longrightarrow> snd (hs ! x) \<longleftrightarrow> x = 0 \<and> hasSticky"
  shows "window_cells from to hs
    = map (\<lambda>h. CellItem (fst h)) (drop (if hasSticky then max 1 (nat from) else nat from) (take (nat (to + 1)) hs))"
proof -
  have plain: "concat (map (\<lambda>h. if snd h then [] else [CellItem (fst h)]) ks) = map (\<lambda>h. CellItem (fst h)) ks"
    if "\<forall>h \<in> set ks. \<not> snd h" for ks :: "(nat \<times> bool) list"
    using that by (induction ks) auto
  have later: "\<forall>h \<in> set (drop m (take k hs)). \<not> snd h" if "0 < m \<or> \<not> hasSticky" for m k
  proof
    fix h assume "h \<in> set (drop m (take k hs))"
    then obtain i where i: "i < length (drop m (take k hs))" "h = drop m (take k hs) ! i"
      by (auto simp: in_set_conv_nth)
    then have "h = hs ! (m + i)" using nth_window [OF i(1)] by simp
    then show "\<not> snd h" using that assms [of "m + i"] i(1) by auto
  qed
  show ?thesis
  proof (cases "hasSticky \<and> nat from = 0 \<and> take (nat (to + 1)) hs \<noteq> []")
    case True
    then obtain h ks where t: "take (nat (to + 1)) hs = h # ks" by (cases "take (nat (to + 1)) hs") auto
    then have "hs \<noteq> []" "h = hs ! 0" by (cases hs; cases "nat (to + 1)"; simp)+
    then have "snd h" using assms [of 0] True by simp
    then show ?thesis
      using True t later [of 1 "nat (to + 1)"] plain [of ks] by (simp add: window_cells_def)
  next
    case False
    then show ?thesis
      using later [of "if hasSticky then max 1 (nat from) else nat from" "nat (to + 1)"] plain
      by (auto simp: window_cells_def max_def)
  qed
qed

lemma row_cells:
  assumes "\<And>x. x < length hs \<Longrightarrow> snd (hs ! x) \<longleftrightarrow> x = 0 \<and> hasSticky"
    and "0 \<le> from" and "from \<le> to" and "to < int (length hs)"
  shows "(CellItem c, p) \<in> set (item_columns 0 (row_items hasSticky from to hs)) \<longleftrightarrow>
      (\<exists>k < length hs. p = int k + 1 \<and> fst (hs ! k) = c \<and> (hasSticky \<and> k = 0 \<or> from \<le> int k \<and> int k \<le> to))"
    and "row_width (row_items hasSticky from to hs) = int (length hs) + 1"
proof -
  define m where "m = (if hasSticky then max 1 (nat from) else nat from)"
  let ?W = "drop m (take (nat (to + 1)) hs)"
  have win: "window_cells from to hs = map (\<lambda>h. CellItem (fst h)) ?W"
    unfolding m_def by (rule window_cells_plain [OF assms(1)])
  have len: "length ?W = nat (to + 1) - m" using assms by simp
  have nth: "?W ! k = hs ! (m + k)" if "k < length ?W" for k using that by (rule nth_window)
  have W: "(\<exists>k < length ?W. p = int m + 1 + int k \<and> fst (?W ! k) = c)
      \<longleftrightarrow> (\<exists>k < length hs. p = int k + 1 \<and> fst (hs ! k) = c \<and> m \<le> k \<and> int k \<le> to)"
  proof
    assume "\<exists>k < length ?W. p = int m + 1 + int k \<and> fst (?W ! k) = c"
    then obtain k where "k < length ?W" "p = int m + 1 + int k" "fst (?W ! k) = c" by blast
    then show "\<exists>k < length hs. p = int k + 1 \<and> fst (hs ! k) = c \<and> m \<le> k \<and> int k \<le> to"
      using nth len assms by (intro exI [of _ "m + k"]) auto
  next
    assume "\<exists>k < length hs. p = int k + 1 \<and> fst (hs ! k) = c \<and> m \<le> k \<and> int k \<le> to"
    then obtain k where "k < length hs" "p = int k + 1" "fst (hs ! k) = c" "m \<le> k" "int k \<le> to" by blast
    then show "\<exists>k < length ?W. p = int m + 1 + int k \<and> fst (?W ! k) = c"
      using nth [of "k - m"] len assms by (intro exI [of _ "k - m"]) auto
  qed
  define pre where "pre = [GutterItem] @ (if hasSticky then [CellItem (fst (hs ! 0))] else [])
      @ fake_padding (if hasSticky then 1 else 0) from"
  have pw: "row_width pre = int m + 1" using assms(2) by (auto simp: pre_def m_def max_def)
  have pc: "(CellItem c, p) \<in> set (item_columns 0 pre) \<longleftrightarrow> hasSticky \<and> p = 1 \<and> c = fst (hs ! 0)"
    by (auto simp: pre_def)
  have items: "row_items hasSticky from to hs
      = pre @ map (\<lambda>h. CellItem (fst h)) ?W @ fake_padding to (int (length hs) - 1)"
    by (simp add: row_items_def win pre_def)
  show "(CellItem c, p) \<in> set (item_columns 0 (row_items hasSticky from to hs)) \<longleftrightarrow>
      (\<exists>k < length hs. p = int k + 1 \<and> fst (hs ! k) = c \<and> (hasSticky \<and> k = 0 \<or> from \<le> int k \<and> int k \<le> to))"
  proof -
    have sub: "hasSticky \<and> k = 0 \<or> from \<le> int k \<and> int k \<le> to \<longleftrightarrow> hasSticky \<and> k = 0 \<or> m \<le> k \<and> int k \<le> to" for k
      using assms(2) by (auto simp: m_def)
    have "(CellItem c, p) \<in> set (item_columns 0 (row_items hasSticky from to hs)) \<longleftrightarrow>
        hasSticky \<and> p = 1 \<and> c = fst (hs ! 0) \<or> (\<exists>k < length ?W. p = int m + 1 + int k \<and> fst (?W ! k) = c)"
      unfolding items item_columns_append pw by (simp add: pc pw plain_cells_columns del: nth_drop drop_take)
    moreover have "0 < length hs" using assms by auto
    ultimately show ?thesis unfolding sub W by auto
  qed
  show "row_width (row_items hasSticky from to hs) = int (length hs) + 1"
    using assms len by (cases hasSticky) (auto simp: row_items_def win m_def max_def)
qed

section \<open>What is in view is rendered\<close>

text \<open>
  C22. Every cell in view is rendered at its place: for any scroll position, widths of columns,
  sticky column and choice of columns, a row that is wholly in view is among the rendered rows,
  a column that is partly in view has a cell in it, that cell stands in the column of its header,
  and each rendered row fills exactly the columns of the table.
\<close>

theorem cells_in_view_are_rendered:
  assumes "headerWithIndex n sticky chosen = Inr hs"
    and "\<forall>w \<in> set (shown_widths widths hs). 0 \<le> w" and "0 < rowHeight" and "0 \<le> renderAhead"
    and "x < length hs" and "vpScrollLeft vp < left_edge gutter (shown_widths widths hs) (Suc x)"
    and "left_edge gutter (shown_widths widths hs) x < vpScrollLeft vp + vpWidth vp"
    and "0 \<le> y" and "y < rowCount" and "vpScrollTop vp < of_int (y + 2) * rowHeight"
    and "of_int (y + 2) * rowHeight \<le> vpScrollTop vp + vpHeight vp"
    and "vr = getVisibleCellRange vp (shown_widths widths hs) rowCount rowHeight renderAhead gutter"
    and "items = row_items (sticky \<noteq> None) (colStart vr) (colEnd vr) hs"
  shows "y \<in> set (rendered_rows vr)
    \<and> (CellItem (fst (hs ! x)), int x + 1) \<in> set (item_columns 0 items)
    \<and> row_width items = int (length hs) + 1"
proof -
  have len: "length (shown_widths widths hs) = length hs" by (simp add: shown_widths_def)
  have cols: "colStart vr \<le> int x" "int x \<le> colEnd vr" "0 \<le> colStart vr" "colEnd vr < int (length hs)"
    using column_in_range [OF assms(2) _ assms(6,7,12)] assms(5) len by simp_all
  have "rowStart vr \<le> y" "y < rowEnd vr"
    using row_start_bound [OF assms(3,4,8,10)] row_end_bound [OF assms(3,4,9,11)]
    by (simp_all add: assms(12) getVisibleCellRange_def Let_def split: prod.split)
  moreover have st: "snd (hs ! k) \<longleftrightarrow> k = 0 \<and> (sticky \<noteq> None)" if "k < length hs" for k
    by (rule sticky_first [OF assms(1) that])
  have le: "colStart vr \<le> colEnd vr" using cols by simp
  have "(CellItem (fst (hs ! x)), int x + 1) \<in> set (item_columns 0 items)"
    unfolding assms(13) using row_cells(1) [OF st cols(3) le cols(4), of "fst (hs ! x)" "int x + 1"] cols assms(5)
    by blast
  moreover have "row_width items = int (length hs) + 1"
    unfolding assms(13) using row_cells(2) [OF st cols(3) le cols(4)] by blast
  ultimately show ?thesis by (simp add: rendered_rows_def)
qed

definition example_viewport :: Viewport where
  "example_viewport = \<lparr>vpScrollTop = 1067, vpScrollLeft = 0, vpWidth = 200, vpHeight = 350\<rparr>"

theorem cells_in_view_are_rendered_witness:
  "38 \<in> set (rendered_rows (getVisibleCellRange example_viewport [150, 150] 1000 35 20 40))
   \<and> (CellItem 2, 2) \<in> set (item_columns 0 (row_items False
        (colStart (getVisibleCellRange example_viewport [150, 150] 1000 35 20 40))
        (colEnd (getVisibleCellRange example_viewport [150, 150] 1000 35 20 40)) [(0, False), (2, False)]))"
proof -
  have hs: "headerWithIndex 3 None [0, 2] = Inr [(0, False), (2, False)]" by code_simp
  have ws: "shown_widths [Some 150, Some 90, Some 150] [(0, False), (2, False)] = [150, 150]" by code_simp
  show ?thesis
    using cells_in_view_are_rendered [OF hs, of "[Some 150, Some 90, Some 150]" 35 20 1 example_viewport 40 38 1000]
    unfolding ws by (simp add: example_viewport_def left_edge_def)
qed

text \<open>
  A row that is partly in view at the bottom is not always rendered: the rows rendered ahead are
  counted from the first rendered row, which lies as many rows above the view.
\<close>

lemma bottom_row_missing:
  "rowEnd (getVisibleCellRange example_viewport [150, 150] 1000 35 20 40) = 39
   \<and> of_int (39 + 1) * 35 < vpScrollTop example_viewport + vpHeight example_viewport"
  by code_simp

text \<open>A choice of columns that was made for a table with more columns makes the table throw.\<close>

lemma stale_choice_throws:
  assumes "i \<in> set chosen" and "n \<le> i"
  shows "\<exists>e. headerWithIndex n sticky chosen = Inl e"
proof (cases "headerWithIndex n sticky chosen")
  case (Inr hs)
  then obtain ks where "arrange n sticky chosen = Inr ks" by (auto simp: headerWithIndex_def rbind_Inr_iff)
  then show ?thesis using arrange_indices assms by fastforce
qed simp

section \<open>The filter of columns\<close>

lemma toggle_set: "set (toggleColumn i cs) = (if i \<in> set cs then set cs - {i} else insert i (set cs))"
  by (auto simp: toggleColumn_def)

lemma toggle_sorted:
  assumes "sorted cs" and "distinct cs"
  shows "sorted (toggleColumn i cs)" and "distinct (toggleColumn i cs)"
  using assms by (simp_all add: toggleColumn_def sorted_filter [of "\<lambda>x. x", simplified])

lemma toggle_twice:
  assumes "sorted cs" and "distinct cs"
  shows "toggleColumn i (toggleColumn i cs) = cs"
proof (rule sorted_distinct_set_unique)
  show "set (toggleColumn i (toggleColumn i cs)) = set cs"
    using toggle_set [of i "toggleColumn i cs"] toggle_set [of i cs] by auto
qed (use assms toggle_sorted in auto)

section \<open>Aggregates\<close>

lemma set_range_cells:
  "(x, y) \<in> set (range_cells rs) \<longleftrightarrow> (\<exists>r \<in> set rs. rx1 r \<le> x \<and> x \<le> rx2 r \<and> ry1 r \<le> y \<and> y \<le> ry2 r)"
  by (force simp: range_cells_def)

text \<open>Each cell that is not empty is taken once, in the order of the loops.\<close>

lemma taken_cells:
  assumes "distinct (fst st)" and "snd st = map (\<lambda>c. getValue s (snd c) (fst c)) (fst st)"
    and "\<forall>c \<in> set (fst st). \<not> empty_cell (getValue s (snd c) (fst c))"
    and "st' = foldl (take_cell s) st cs"
  shows "distinct (fst st') \<and> snd st' = map (\<lambda>c. getValue s (snd c) (fst c)) (fst st')
    \<and> set (fst st') = set (fst st) \<union> {c \<in> set cs. \<not> empty_cell (getValue s (snd c) (fst c))}"
  using assms
proof (induction cs arbitrary: st)
  case (Cons c cs)
  let ?u = "take_cell s st c" and ?v = "\<lambda>c. getValue s (snd c) (fst c)"
  have u: "distinct (fst ?u)" "snd ?u = map ?v (fst ?u)" "\<forall>c \<in> set (fst ?u). \<not> empty_cell (?v c)"
    "set (fst ?u) = set (fst st) \<union> (if empty_cell (?v c) then {} else {c})"
    using Cons.prems(1-3) by (auto simp: take_cell_def Let_def)
  have "st' = foldl (take_cell s) ?u cs" using Cons.prems(4) by simp
  from Cons.IH [OF u(1-3) this] u(4) show ?case by (simp split: if_splits) blast+
qed auto

lemma add_numbers:
  assumes "\<And>v. v \<in> set vs \<Longrightarrow> number_of v = EFin (f v)" and "finite Q" and "Q \<noteq> {}"
  shows "foldl add_number (Some (EFin a, EFin (Min Q), EFin (Max Q))) vs
    = Some (EFin (a + sum_list (map f vs)), EFin (Min (Q \<union> f ` set vs)), EFin (Max (Q \<union> f ` set vs)))"
  using assms
proof (induction vs arbitrary: a Q)
  case (Cons v vs)
  have lo: "Min (insert (f v) Q) = (if Min Q < f v then Min Q else f v)"
    by (simp only: Min_insert [OF Cons.prems(2,3)] min_def) auto
  have hi: "Max (insert (f v) Q) = (if f v < Max Q then Max Q else f v)"
    by (simp only: Max_insert [OF Cons.prems(2,3)] max_def) auto
  have "number_of v = EFin (f v)" using Cons.prems(1) by simp
  then have step: "add_number (Some (EFin a, EFin (Min Q), EFin (Max Q))) v
      = Some (EFin (a + f v), EFin (Min (insert (f v) Q)), EFin (Max (insert (f v) Q)))"
    unfolding lo hi by (simp only: add_number_def Let_def) simp
  have "foldl add_number (Some (EFin (a + f v), EFin (Min (insert (f v) Q)), EFin (Max (insert (f v) Q)))) vs
      = Some (EFin (a + f v + sum_list (map f vs)), EFin (Min (insert (f v) Q \<union> f ` set vs)),
              EFin (Max (insert (f v) Q \<union> f ` set vs)))"
    using Cons.prems by (intro Cons.IH) auto
  then show ?case by (simp add: step add.assoc)
qed simp

text \<open>
  The aggregates of a selection of numbers are those of the set of its cells: wherever the
  selected ranges overlap, each cell that is not empty counts once in the count, the sum, the
  average, the minimum and the maximum.
\<close>

theorem aggregate_counts_cells_once:
  assumes "S = {(x, y). (\<exists>r \<in> set (selectionRanges s). rx1 r \<le> x \<and> x \<le> rx2 r \<and> ry1 r \<le> y \<and> y \<le> ry2 r)
      \<and> \<not> empty_cell (getValue s y x)}"
    and "S \<noteq> {}" and "\<And>x y. (x, y) \<in> S \<Longrightarrow> number_of (getValue s y x) = EFin (q (x, y))"
  shows "calculateAggregateResult date_parse fmt s =
    \<lparr>agSum = Some (formatNumber fmt (EFin (\<Sum>c \<in> S. q c))),
     agAvg = Some (formatNumber fmt (EFin ((\<Sum>c \<in> S. q c) / of_nat (card S)))),
     agMin = Some (formatNumber fmt (EFin (Min (q ` S)))),
     agMax = Some (formatNumber fmt (EFin (Max (q ` S)))),
     agCount = Some (card S)\<rparr>"
proof -
  let ?v = "\<lambda>c. getValue s (snd c) (fst c)"
  obtain cells vs where sel: "selected_values s = (cells, vs)" by fastforce
  have "(cells, vs) = foldl (take_cell s) ([], []) (range_cells (selectionRanges s))"
    using sel by (simp add: selected_values_def)
  note taken = taken_cells [OF _ _ _ this]
  have facts: "distinct cells" "vs = map ?v cells"
      "set cells = {c \<in> set (range_cells (selectionRanges s)). \<not> empty_cell (?v c)}"
    using taken by simp_all
  have "{c \<in> set (range_cells (selectionRanges s)). \<not> empty_cell (?v c)} = S"
    unfolding assms(1) using set_range_cells by fastforce
  note facts = facts [unfolded this]
  obtain c cs where cells: "cells = c # cs" using facts(3) assms(2) by (cases cells) auto
  have num: "number_of (?v e) = EFin (q e)" if "e \<in> S" for e
    using assms(3) [of "fst e" "snd e"] that by simp
  have rest: "number_of v = EFin ((\<lambda>v. case number_of v of EFin r \<Rightarrow> r | _ \<Rightarrow> 0) v)" if "v \<in> set (map ?v cs)" for v
    using that num facts(3) cells by auto
  have same: "map (\<lambda>v. case number_of v of EFin r \<Rightarrow> r | _ \<Rightarrow> 0) (map ?v cs) = map q cs"
    using num facts(3) cells by auto
  have image: "(\<lambda>v. case number_of v of EFin r \<Rightarrow> r | _ \<Rightarrow> 0) ` set (map ?v cs) = q ` set cs"
    using same by (metis list.set_map)
  have "c \<in> S" using facts(3) cells by auto
  then have first: "number_of (?v c) = EFin (q c)" by (rule num)
  then have "add_number None (?v c) = Some (EFin (q c), EFin (q c), EFin (q c))"
    by (simp add: add_number_def Let_def)
  then have "foldl add_number None vs = Some (EFin (q c + sum_list (map q cs)),
      EFin (Min ({q c} \<union> q ` set cs)), EFin (Max ({q c} \<union> q ` set cs)))"
    using add_numbers [of "map ?v cs" _ "{q c}" "q c", OF rest, unfolded same image] facts(2) cells by simp
  moreover have "q c + sum_list (map q cs) = (\<Sum>e \<in> S. q e)"
    using facts(1,3) cells by (metis list.simps(9) sum_list.Cons sum_list_distinct_conv_sum_set)
  moreover have "{q c} \<union> q ` set cs = q ` S" using facts(3) cells by auto
  ultimately have fold: "foldl add_number None vs
      = Some (EFin (\<Sum>e \<in> S. q e), EFin (Min (q ` S)), EFin (Max (q ` S)))" by simp
  have "length cells = card S" using facts(1,3) distinct_card by fastforce
  moreover have "detect_type date_parse (vs ! 0) = DataNumber"
    using first facts(2) cells by (simp add: detect_type_def)
  ultimately show ?thesis
    using fold facts(2) cells by (simp add: calculateAggregateResult_def sel Let_def)
qed

definition example_selection :: "jsval \<Rightarrow> OptimizeTableState" where
  "example_selection v =
     (newTableState [example_header ''id''] [[(''id'', Num (Dec 10 0))], [(''id'', v)]])
       \<lparr>selectionRanges := [\<lparr>rx1 = 0, ry1 = 0, rx2 = 0, ry2 = 1\<rparr>, \<lparr>rx1 = 0, ry1 = 1, rx2 = 0, ry2 = 1\<rparr>]\<rparr>"

theorem aggregate_counts_cells_once_witness:
  "agSum (calculateAggregateResult (\<lambda>_. None) (\<lambda>_. ''n'') (example_selection (Num (Dec 4 0)))) = Some (AggText ''n'')
   \<and> agCount (calculateAggregateResult (\<lambda>_. None) (\<lambda>_. ''n'') (example_selection (Num (Dec 4 0)))) = Some 2"
proof -
  let ?s = "example_selection (Num (Dec 4 0))"
  have v: "getValue ?s 0 0 = Num (Dec 10 0)" "getValue ?s 1 0 = Num (Dec 4 0)" by code_simp+
  define S where "S = {(x, y). (\<exists>r \<in> set (selectionRanges ?s). rx1 r \<le> x \<and> x \<le> rx2 r \<and> ry1 r \<le> y \<and> y \<le> ry2 r)
      \<and> \<not> empty_cell (getValue ?s y x)}"
  have S: "S = {(0, 0), (0, 1)}"
    using v by (auto simp: S_def example_selection_def empty_cell_def)
  have num: "number_of (getValue ?s y x) = EFin (if (x, y) = (0, 0) then 10 else 4)" if "(x, y) \<in> S" for x y
    using that v by (auto simp: S number_of_def)
  have "S \<noteq> {}" by (simp add: S)
  from aggregate_counts_cells_once [OF S_def this, of "\<lambda>c. if c = (0, 0) then 10 else 4" "\<lambda>_. None" "\<lambda>_. ''n''", OF num]
  show ?thesis by (simp add: S formatNumber_def)
qed

text \<open>A text among the numbers is no part of the sum, but it is counted for the average.\<close>

lemma average_counts_texts:
  "agSum (calculateAggregateResult (\<lambda>_. None) (\<lambda>n. if n = EFin 10 then ''10'' else if n = EFin 5 then ''5'' else [])
     (example_selection (Str ''x''))) = Some (AggText ''10'')
   \<and> agAvg (calculateAggregateResult (\<lambda>_. None) (\<lambda>n. if n = EFin 10 then ''10'' else if n = EFin 5 then ''5'' else [])
     (example_selection (Str ''x''))) = Some (AggText ''5'')"
  by code_simp

end
