(* ===== verification/ApiRoutes.thy ===== *)
theory ApiRoutes
  imports Middleware Connections
begin

text \<open>
  The route handlers of \<open>admin/src/app/api\<close> and of the file links
  (\<open>app/[dbName]/file/[fileId]\<close>): one definition per exported method, the table of the
  routes, and the whole way of a request through the middleware and its handler.  The backend,
  the file system, the encrypted session and the decoding of path segments are not in these
  files: they are parameters of a site.
\<close>

section \<open>Requests, calls and answers\<close>

text \<open>
  A body that is sent: a text, the \<open>JSON.stringify\<close> of a value, or the form of the request
  passed on.
\<close>

datatype Body = NoBody | RawText string | JsonText jsval | FormData string

record BackendCall = FetchCall +
  callMethod :: string
  callBody :: Body

text \<open>\<open>brJson\<close> is what \<open>res.json()\<close> reads, None when it rejects; \<open>brText\<close> is the body as it is.\<close>

record BackendReply =
  brStatus :: nat
  brHeaders :: headers
  brJson :: "jsval option"
  brText :: string

definition reply_is_ok :: "BackendReply \<Rightarrow> bool" where
  "reply_is_ok r = (200 \<le> brStatus r \<and> brStatus r \<le> 299)"

type_synonym 'w Backend = "BackendCall \<Rightarrow> ('w, BackendReply) io"

text \<open>
  What a handler sees of a request: the headers the middleware forwards, \<open>url.search\<close>, and the
  body as text, as JSON and as a form (None where reading it that way rejects).
\<close>

record RouteRequest =
  rqHeaders :: headers
  rqSearch :: string
  rqText :: string
  rqJson :: "jsval option"
  rqForm :: "string option"

datatype ResponseBody = JsonBody jsval | TextBody string | EmptyBody

record RouteResponse =
  rrStatus :: nat
  rrHeaders :: headers
  rrBody :: ResponseBody

record 'w Site =
  siteGo :: GoEnvironment
  siteFilesEnabled :: bool
  siteBackend :: "'w Backend"
  siteReadFile :: "string \<Rightarrow> ('w, string) io"
  siteDataPath :: "string option"
  siteSaveSession :: "('w, headers) io"
  siteDestroySession :: "('w, unit) io"
  siteUptime :: jsnum

type_synonym 'w Handler = "'w Site \<Rightarrow> RouteRequest \<Rightarrow> ('w, RouteResponse) io"

text \<open>
  \<open>NextResponse.json(v, { status })\<close>: a status outside 200 to 599 is a \<open>RangeError\<close>, and a
  status that has no body (204, 205, 304) a \<open>TypeError\<close>.
\<close>

definition null_body_status :: "nat \<Rightarrow> bool" where
  "null_body_status s = (s = 204 \<or> s = 205 \<or> s = 304)"

definition next_json :: "nat \<Rightarrow> jsval \<Rightarrow> RouteResponse result" where
  "next_json s v =
     (if \<not> (200 \<le> s \<and> s \<le> 599) then Inl (RangeError ''status'')
      else if null_body_status s then Inl (TypeError (''Invalid response status code '' @ nat_digits s))
      else Inr \<lparr>rrStatus = s, rrHeaders = [(''content-type'', ''application/json'')], rrBody = JsonBody v\<rparr>)"

definition json_error :: "nat \<Rightarrow> string \<Rightarrow> RouteResponse" where
  "json_error s message =
     \<lparr>rrStatus = s, rrHeaders = [(''content-type'', ''application/json'')],
      rrBody = JsonBody (JsObject [(''error'', Str message)])\<rparr>"

definition json_success :: jsval where
  "json_success = JsObject [(''success'', Boolean True)]"

text \<open>The two helpers of \<open>go-api.ts\<close> with the method and the body of \<open>init\<close>.\<close>

definition fetch_admin ::
  "'w Site \<Rightarrow> string \<Rightarrow> string \<Rightarrow> string obj \<Rightarrow> Body \<Rightarrow> ('w, BackendReply) io" where
  "fetch_admin st m path hs b =
     siteBackend st (FetchCall.extend (goFetchAdmin (siteGo st) path hs) \<lparr>callMethod = m, callBody = b\<rparr>)"

definition fetch_db ::
  "'w Site \<Rightarrow> RouteRequest \<Rightarrow> string \<Rightarrow> string \<Rightarrow> string obj \<Rightarrow> Body \<Rightarrow> ('w, BackendReply) io" where
  "fetch_db st req m path hs b =
     siteBackend st (FetchCall.extend (goFetchDb (siteGo st) path (rqHeaders req) hs)
       \<lparr>callMethod = m, callBody = b\<rparr>)"

text \<open>\<open>const data = await res.json(); return NextResponse.json(data, { status: res.status })\<close>.\<close>

definition relay :: "BackendReply \<Rightarrow> ('w, RouteResponse) io" where
  "relay res =
     (case brJson res of
        None \<Rightarrow> io_throw (JsError ''Unexpected token'')
      | Some data \<Rightarrow> io_lift (next_json (brStatus res) data))"

text \<open>\<open>res.json().catch(() => null)\<close> and \<open>data ?? d\<close>.\<close>

definition relay_or :: "jsval \<Rightarrow> BackendReply \<Rightarrow> ('w, RouteResponse) io" where
  "relay_or d res =
     io_lift (next_json (brStatus res)
       (case brJson res of None \<Rightarrow> d | Some data \<Rightarrow> if nullish data then d else data))"

definition json_header :: "string obj" where
  "json_header = [(''Content-Type'', ''application/json'')]"

definition body_or :: "jsval \<Rightarrow> RouteRequest \<Rightarrow> Body" where
  "body_or d req = JsonText (case rqJson req of None \<Rightarrow> d | Some v \<Rightarrow> v)"

section \<open>Databases\<close>

definition db_path :: "string \<Rightarrow> string" where
  "db_path name = ''/api/db/'' @ encodeURIComponent name"

definition db_GET :: "'w Handler" where
  "db_GET st req = io_bind (fetch_admin st ''GET'' ''/api/db'' [] NoBody) relay"

definition db_POST :: "'w Handler" where
  "db_POST st req = io_bind (fetch_admin st ''POST'' ''/api/db'' [] (body_or Null req)) relay"

definition name_GET :: "string \<Rightarrow> 'w Handler" where
  "name_GET name st req = io_bind (fetch_admin st ''GET'' (db_path name) [] NoBody) relay"

definition name_PATCH :: "string \<Rightarrow> 'w Handler" where
  "name_PATCH name st req = io_bind (fetch_admin st ''PATCH'' (db_path name) [] (body_or Null req)) relay"

definition name_DELETE :: "string \<Rightarrow> 'w Handler" where
  "name_DELETE name st req =
     io_bind (fetch_admin st ''DELETE'' (db_path name) [] NoBody) (relay_or json_success)"

definition deleted_GET :: "'w Handler" where
  "deleted_GET st req = io_bind (fetch_admin st ''GET'' ''/api/db/deleted'' [] NoBody) relay"

definition deleted_name_POST :: "string \<Rightarrow> 'w Handler" where
  "deleted_name_POST name st req =
     io_bind (fetch_admin st ''POST'' (''/api/db/deleted/'' @ encodeURIComponent name) [] (body_or Null req)) relay"

text \<open>
  \<open>exec\<close> and \<open>query\<close> pass the text of the body on, and the body and the content type of the
  answer back.  The body of an answer with status 204, 205 or 304 is null.
\<close>

definition stream_body :: "BackendReply \<Rightarrow> ResponseBody" where
  "stream_body res = (if null_body_status (brStatus res) then EmptyBody else TextBody (brText res))"

definition stream_answer :: "BackendReply \<Rightarrow> headers \<Rightarrow> ResponseBody \<Rightarrow> RouteResponse result" where
  "stream_answer res hs b =
     (if \<not> (200 \<le> brStatus res \<and> brStatus res \<le> 599) then Inl (RangeError ''status'')
      else Inr \<lparr>rrStatus = brStatus res, rrHeaders = hs, rrBody = b\<rparr>)"

definition content_type_of :: "BackendReply \<Rightarrow> headers" where
  "content_type_of res =
     [(''content-type'', case header_get (brHeaders res) ''Content-Type'' of
         None \<Rightarrow> ''application/json'' | Some t \<Rightarrow> t)]"

definition raw_body :: "RouteRequest \<Rightarrow> Body" where
  "raw_body req = RawText (if rqText req = [] then ''null'' else rqText req)"

definition exec_POST :: "string \<Rightarrow> 'w Handler" where
  "exec_POST name st req =
     io_bind (fetch_db st req ''POST'' (db_path name @ ''/exec'') json_header (raw_body req))
       (\<lambda>res. io_lift (stream_answer res (content_type_of res) (stream_body res)))"

definition query_POST :: "string \<Rightarrow> 'w Handler" where
  "query_POST name st req =
     io_bind (fetch_db st req ''POST'' (db_path name @ ''/query'') json_header (raw_body req))
       (\<lambda>res. io_lift (stream_answer res (content_type_of res) (stream_body res)))"

section \<open>Lists of files\<close>

text \<open>\<open>v?.k\<close>.  JSON values other than objects have none of the names that are read here.\<close>

definition opt_prop :: "jsval \<Rightarrow> string \<Rightarrow> jsval" where
  "opt_prop v k = (case v of JsObject ob \<Rightarrow> obj_at ob k | _ \<Rightarrow> Undefined)"

text \<open>\<open>a ?? b\<close>.\<close>

definition nn :: "jsval \<Rightarrow> jsval \<Rightarrow> jsval" where
  "nn a b = (if nullish a then b else a)"

definition normalize_file :: "jsval \<Rightarrow> jsval" where
  "normalize_file f = JsObject
     [(''id'', nn (opt_prop f ''id'') (opt_prop f ''ID'')),
      (''filename'', nn (opt_prop f ''filename'') (opt_prop f ''Filename'')),
      (''folder_path'', nn (nn (opt_prop f ''folder_path'') (opt_prop f ''FolderPath'')) (Str [])),
      (''content_type'', nn (nn (opt_prop f ''content_type'') (opt_prop f ''ContentType'')) Null),
      (''size_bytes'', Num (js_ToNumber
         (nn (nn (opt_prop f ''size_bytes'') (opt_prop f ''SizeBytes'')) (Num (num_of_int 0))))),
      (''uploaded_at'', nn (opt_prop f ''uploaded_at'') (opt_prop f ''UploadedAt'')),
      (''expires_at'', nn (nn (opt_prop f ''expires_at'') (opt_prop f ''ExpiresAt'')) Null)]"

definition raw_files :: "jsval \<Rightarrow> jsval list" where
  "raw_files payload =
     (case opt_prop payload ''files'' of JsArray fs \<Rightarrow> fs
      | _ \<Rightarrow> (case opt_prop payload ''Files'' of JsArray fs \<Rightarrow> fs | _ \<Rightarrow> []))"

definition normalizeListPayload :: "jsval \<Rightarrow> jsval" where
  "normalizeListPayload payload =
     (let files = map normalize_file (raw_files payload);
          len = Num (num_of_int (int (length files)));
          number = (\<lambda>a b d. Num (js_ToNumber (nn (nn (opt_prop payload a) (opt_prop payload b)) d)))
      in JsObject
        [(''files'', JsArray files),
         (''total'', number ''total'' ''Total'' len),
         (''offset'', number ''offset'' ''Offset'' (Num (num_of_int 0))),
         (''limit'', number ''limit'' ''Limit'' len)])"

definition relay_list :: "BackendReply \<Rightarrow> ('w, RouteResponse) io" where
  "relay_list res =
     (case brJson res of
        None \<Rightarrow> io_throw (JsError ''Unexpected token'')
      | Some data \<Rightarrow> io_lift (next_json (brStatus res)
          (if reply_is_ok res then normalizeListPayload data else data)))"

text \<open>\<open>await req.formData()\<close>, passed on as the body of a \<open>POST\<close>.\<close>

definition post_form :: "'w Site \<Rightarrow> RouteRequest \<Rightarrow> string \<Rightarrow> ('w, RouteResponse) io" where
  "post_form st req path =
     (case rqForm req of
        None \<Rightarrow> io_throw (TypeError ''Failed to parse body as FormData.'')
      | Some f \<Rightarrow> io_bind (fetch_db st req ''POST'' path [] (FormData f)) relay)"

definition files_GET :: "string \<Rightarrow> 'w Handler" where
  "files_GET name st req =
     io_bind (fetch_db st req ''GET'' (db_path name @ ''/files'' @ rqSearch req) [] NoBody) relay_list"

definition files_POST :: "string \<Rightarrow> 'w Handler" where
  "files_POST name st req = post_form st req (db_path name @ ''/files'')"

section \<open>One file\<close>

definition file_path :: "string \<Rightarrow> string \<Rightarrow> string" where
  "file_path name i = db_path name @ ''/files/'' @ encodeURIComponent i"

definition cors_preflight :: RouteResponse where
  "cors_preflight =
     \<lparr>rrStatus = 204,
      rrHeaders = [(''access-control-allow-origin'', ''*''),
                   (''access-control-allow-methods'', ''GET, HEAD, OPTIONS''),
                   (''access-control-allow-headers'', ''Authorization, Content-Type''),
                   (''access-control-max-age'', ''86400'')],
      rrBody = EmptyBody\<rparr>"

definition file_OPTIONS :: "'w Handler" where
  "file_OPTIONS st req = io_return cors_preflight"

definition file_HEAD :: "string \<Rightarrow> string \<Rightarrow> 'w Handler" where
  "file_HEAD name i st req =
     io_bind (fetch_db st req ''HEAD'' (file_path name i @ rqSearch req) [] NoBody)
       (\<lambda>res. io_lift (stream_answer res (brHeaders res) EmptyBody))"

definition file_GET :: "string \<Rightarrow> string \<Rightarrow> 'w Handler" where
  "file_GET name i st req =
     io_bind (fetch_db st req ''GET'' (file_path name i @ rqSearch req) [] NoBody)
       (\<lambda>res. io_lift (stream_answer res (brHeaders res) (stream_body res)))"

definition no_content :: RouteResponse where
  "no_content = \<lparr>rrStatus = 204, rrHeaders = [], rrBody = EmptyBody\<rparr>"

definition relay_deleted :: "BackendReply \<Rightarrow> ('w, RouteResponse) io" where
  "relay_deleted res = (if brStatus res = 204 then io_return no_content else relay_or json_success res)"

definition file_DELETE :: "string \<Rightarrow> string \<Rightarrow> 'w Handler" where
  "file_DELETE name i st req =
     io_bind (fetch_db st req ''DELETE'' (file_path name i) [] NoBody) relay_deleted"

definition meta_GET :: "string \<Rightarrow> string \<Rightarrow> 'w Handler" where
  "meta_GET name i st req =
     io_bind (fetch_db st req ''GET'' (file_path name i @ ''/meta'' @ rqSearch req) [] NoBody) relay"

text \<open>The handlers that post the JSON of the request, or an empty object.\<close>

definition post_json :: "'w Site \<Rightarrow> RouteRequest \<Rightarrow> string \<Rightarrow> ('w, RouteResponse) io" where
  "post_json st req path =
     io_bind (fetch_db st req ''POST'' path json_header (body_or (JsObject []) req)) relay"

definition presign_POST :: "string \<Rightarrow> string \<Rightarrow> 'w Handler" where
  "presign_POST name i st req = post_json st req (file_path name i @ ''/presign'')"

definition presign_batch_POST :: "string \<Rightarrow> 'w Handler" where
  "presign_batch_POST name st req = post_json st req (db_path name @ ''/files/presign/batch'')"

definition bulk_delete_POST :: "string \<Rightarrow> 'w Handler" where
  "bulk_delete_POST name st req = post_json st req (db_path name @ ''/files/bulk-delete'')"

definition tokens_POST :: "string \<Rightarrow> 'w Handler" where
  "tokens_POST name st req = post_json st req (db_path name @ ''/tokens/files'')"

definition revoke_POST :: "string \<Rightarrow> 'w Handler" where
  "revoke_POST name st req = post_json st req (db_path name @ ''/tokens/files/revoke'')"

section \<open>Buckets\<close>

definition bucket_char :: "char \<Rightarrow> bool" where
  "bucket_char c = (let n = of_char c :: nat in (97 \<le> n \<and> n \<le> 122) \<or> is_digit c \<or> c = CHR ''_'' \<or> c = CHR ''-'')"

definition isValidBucketName :: "string \<Rightarrow> bool" where
  "isValidBucketName name = (name \<noteq> [] \<and> list_all bucket_char name)"

definition trimmed_prop :: "jsval option \<Rightarrow> string \<Rightarrow> string" where
  "trimmed_prop body k =
     (case body of None \<Rightarrow> []
      | Some v \<Rightarrow> (case opt_prop v k of Str s \<Rightarrow> js_trim s | _ \<Rightarrow> []))"

text \<open>\<open>res.text()\<close> and \<open>JSON.parse\<close> of it: an empty text is null, another text that is not JSON an error.\<close>

definition text_or_json :: "BackendReply \<Rightarrow> jsval" where
  "text_or_json res =
     (if brText res = [] then Null
      else case brJson res of Some v \<Rightarrow> v
           | None \<Rightarrow> JsObject [(''error'', Str (brText res))])"

definition buckets_POST :: "'w Handler" where
  "buckets_POST st req =
     (if \<not> siteFilesEnabled st then io_return (json_error 404 ''File storage is disabled'')
      else
        let name = trimmed_prop (rqJson req) ''name'';
            desc = trimmed_prop (rqJson req) ''description'';
            description = (if desc = [] then Null else Str desc)
        in if name = [] then io_return (json_error 400 ''name is required'')
           else if \<not> isValidBucketName name then
             io_return (json_error 400 ''name must contain only lowercase letters, numbers, hyphens, or underscores'')
           else io_bind (fetch_admin st ''POST'' ''/api/buckets'' []
                  (JsonText (JsObject [(''name'', Str name), (''display_name'', Str name), (''description'', description)])))
                  (\<lambda>res. io_lift (next_json (brStatus res) (text_or_json res))))"

definition bucket_path :: "string \<Rightarrow> string" where
  "bucket_path name = ''/api/buckets/'' @ encodeURIComponent name @ ''/files''"

definition bucket_files_GET :: "string \<Rightarrow> 'w Handler" where
  "bucket_files_GET name st req =
     io_bind (fetch_db st req ''GET'' (bucket_path name @ rqSearch req) [] NoBody) relay_list"

definition bucket_files_POST :: "string \<Rightarrow> 'w Handler" where
  "bucket_files_POST name st req = post_form st req (bucket_path name)"

definition bucket_file_path :: "string \<Rightarrow> string \<Rightarrow> string" where
  "bucket_file_path name i = bucket_path name @ ''/'' @ encodeURIComponent i"

definition HOP_BY_HOP :: "string list" where
  "HOP_BY_HOP = [''transfer-encoding'', ''connection'', ''keep-alive'', ''proxy-authenticate'',
                 ''proxy-authorization'', ''te'', ''trailer'', ''upgrade'']"

definition forwardHeaders :: "headers \<Rightarrow> headers" where
  "forwardHeaders src =
     foldl (\<lambda>out (key, v). if js_lower key \<in> set HOP_BY_HOP then out else header_set key v out) [] src"

text \<open>\<open>path.basename\<close>: trailing separators are left out, then what is behind the last one.\<close>

definition path_basename :: "string \<Rightarrow> string" where
  "path_basename p =
     rev (takeWhile (\<lambda>c. c \<noteq> CHR ''/'') (dropWhile (\<lambda>c. c = CHR ''/'') (rev p)))"

text \<open>
  \<open>path.join(dataPath, "files", "blobs", blobName)\<close>, for a name that is not empty, \<open>.\<close> or
  \<open>..\<close>; those name directories, which cannot be read as files.  The data path is one without
  a trailing separator.
\<close>

definition blob_path :: "'w Site \<Rightarrow> string \<Rightarrow> string" where
  "blob_path st blobName =
     (case siteDataPath st of None \<Rightarrow> ''/data'' | Some p \<Rightarrow> p) @ ''/files/blobs/'' @ blobName"

definition read_blob_file :: "'w Site \<Rightarrow> string \<Rightarrow> ('w, string) io" where
  "read_blob_file st blobName =
     (if blobName \<in> {[], ''.'', ''..''} then io_throw (JsError ''EISDIR'')
      else siteReadFile st (blob_path st blobName))"

definition not_found :: RouteResponse where
  "not_found = \<lparr>rrStatus = 404, rrHeaders = [], rrBody = EmptyBody\<rparr>"

definition handleXSendfile :: "'w Site \<Rightarrow> BackendReply \<Rightarrow> ('w, RouteResponse option) io" where
  "handleXSendfile st res =
     (let sendfile = header_get (brHeaders res) ''x-sendfile'' in
      if \<not> truthy_str sendfile then io_return None
      else io_catch
        (io_bind (read_blob_file st (path_basename (the sendfile))) (\<lambda>data.
           io_return (Some \<lparr>rrStatus = 200,
             rrHeaders = header_set ''content-length'' (nat_digits (length data))
                          (header_delete ''x-sendfile'' (forwardHeaders (brHeaders res))),
             rrBody = TextBody data\<rparr>)))
        (\<lambda>_. io_return (Some not_found)))"

definition bucket_file_HEAD :: "string \<Rightarrow> string \<Rightarrow> 'w Handler" where
  "bucket_file_HEAD name i st req =
     io_bind (fetch_db st req ''HEAD'' (bucket_file_path name i @ rqSearch req) [] NoBody)
       (\<lambda>res. io_lift (stream_answer res (forwardHeaders (brHeaders res)) EmptyBody))"

definition bucket_file_GET :: "string \<Rightarrow> string \<Rightarrow> 'w Handler" where
  "bucket_file_GET name i st req =
     io_bind (fetch_db st req ''GET'' (bucket_file_path name i @ rqSearch req) [] NoBody) (\<lambda>res.
       if \<not> reply_is_ok res then relay_or (JsObject [(''error'', Str ''Not found'')]) res
       else io_bind (handleXSendfile st res) (\<lambda>fromDisk.
         case fromDisk of
           Some r \<Rightarrow> io_return r
         | None \<Rightarrow>
             if null_body_status (brStatus res)
             then io_throw (TypeError (''Invalid response status code '' @ nat_digits (brStatus res)))
             else io_lift (stream_answer res (forwardHeaders (brHeaders res)) (TextBody (brText res)))))"

definition bucket_file_DELETE :: "string \<Rightarrow> string \<Rightarrow> 'w Handler" where
  "bucket_file_DELETE name i st req =
     io_bind (fetch_db st req ''DELETE'' (bucket_file_path name i) [] NoBody) relay_deleted"

section \<open>Administration\<close>

definition metrics_GET :: "'w Handler" where
  "metrics_GET st req = io_bind (fetch_admin st ''GET'' ''/api/metrics'' [] NoBody) relay"

definition cleanup_POST :: "'w Handler" where
  "cleanup_POST st req =
     io_bind (fetch_admin st ''POST'' ''/api/maintenance/cleanup'' [] (body_or (JsObject []) req)) relay"

definition system_query_POST :: "string \<Rightarrow> 'w Handler" where
  "system_query_POST name st req =
     io_bind (fetch_admin st ''POST'' (''/api/system/db/'' @ encodeURIComponent name @ ''/query'')
       json_header (body_or Null req)) relay"

definition health_GET :: "'w Handler" where
  "health_GET st req =
     io_lift (next_json 200 (JsObject [(''status'', Str ''ok''), (''uptime'', Num (siteUptime st))]))"

section \<open>Logging in and out\<close>

text \<open>\<open>Buffer.from\<close> of a text, for characters below 256.\<close>

definition utf8_char :: "char \<Rightarrow> nat list" where
  "utf8_char c = (let n = of_char c :: nat in
     if n < 128 then [n] else [192 + n div 64, 128 + n mod 64])"

definition utf8 :: "string \<Rightarrow> nat list" where
  "utf8 s = concat (map utf8_char s)"

definition padEnd :: "string \<Rightarrow> nat \<Rightarrow> string" where
  "padEnd s n = s @ replicate (n - length s) (CHR '' '')"

definition token_matches :: "string \<Rightarrow> string \<Rightarrow> bool" where
  "token_matches adminTok tok =
     (let provided = utf8 (padEnd tok (length adminTok));
          expected = utf8 (padEnd adminTok (length tok))
      in length provided = length expected \<and> provided = expected)"

definition login_POST :: "'w Handler" where
  "login_POST st req =
     (case (case rqJson req of None \<Rightarrow> Undefined | Some body \<Rightarrow> opt_prop body ''token'') of
        Str tok \<Rightarrow>
          let adminTok = adminToken (siteGo st) in
          if adminTok = [] then io_return (json_error 500 ''ADMIN_TOKEN not configured'')
          else if \<not> token_matches adminTok tok then io_return (json_error 401 ''Invalid token'')
          else io_bind (siteSaveSession st) (\<lambda>cookie.
            io_return \<lparr>rrStatus = 200, rrHeaders = (''content-type'', ''application/json'') # cookie,
                       rrBody = JsonBody json_success\<rparr>)
      | _ \<Rightarrow> io_return (json_error 400 ''token is required''))"

definition logout_POST :: "'w Handler" where
  "logout_POST st req = io_bind (siteDestroySession st) (\<lambda>_. io_lift (next_json 200 json_success))"

section \<open>File links\<close>

text \<open>These call \<open>fetch\<close> themselves, with the caller's own \<open>Authorization\<close> or an empty one.\<close>

definition link_call :: "'w Site \<Rightarrow> RouteRequest \<Rightarrow> string \<Rightarrow> string \<Rightarrow> string \<Rightarrow> BackendCall" where
  "link_call st req m dbName fileId =
     \<lparr>callUrl = goApiUrl (siteGo st) @ ''/'' @ encodeURIComponent dbName @ ''/file/'' @ encodeURIComponent fileId
                @ rqSearch req,
      callHeaders = [(''Authorization'', case header_get (rqHeaders req) ''authorization'' of
                        None \<Rightarrow> [] | Some a \<Rightarrow> a)],
      callMethod = m, callBody = NoBody\<rparr>"

definition link_GET :: "string \<Rightarrow> string \<Rightarrow> 'w Handler" where
  "link_GET dbName fileId st req =
     io_bind (siteBackend st (link_call st req ''GET'' dbName fileId))
       (\<lambda>res. io_lift (stream_answer res (brHeaders res) (stream_body res)))"

definition link_HEAD :: "string \<Rightarrow> string \<Rightarrow> 'w Handler" where
  "link_HEAD dbName fileId st req =
     io_bind (siteBackend st (link_call st req ''HEAD'' dbName fileId))
       (\<lambda>res. io_lift (stream_answer res (brHeaders res) EmptyBody))"

section \<open>The table of the routes\<close>

text \<open>
  The directories of \<open>app/api\<close>: a segment written out comes before a parameter, and the
  directory \<open>deleted\<close> before \<open>[name]\<close>.  Parameters reach the handlers decoded.
\<close>

datatype Route =
    Dbs | Db string | DeletedDbs | DeletedDb string
  | DbExec string | DbQuery string | DbFiles string | DbFile string string
  | DbBulkDelete string | DbTokens string | DbMeta string string | DbPresign string string
  | DbPresignBatch string | DbRevoke string
  | Buckets | BucketFiles string | BucketFile string string
  | Metrics | Cleanup | SystemQuery string | Health | OpenApi | Login | Logout

definition path_segments :: "string \<Rightarrow> string list" where
  "path_segments p = (if js_starts_with p ''/'' then js_split ''/'' (drop 1 p) else [])"

definition route_below_db :: "(string \<Rightarrow> string) \<Rightarrow> string list \<Rightarrow> Route option" where
  "route_below_db dec segs =
     (case segs of
        [] \<Rightarrow> Some Dbs
      | [n] \<Rightarrow> Some (if n = ''deleted'' then DeletedDbs else Db (dec n))
      | [n, a] \<Rightarrow>
          (if n = ''deleted'' then Some (DeletedDb (dec a))
           else if a = ''exec'' then Some (DbExec (dec n))
           else if a = ''query'' then Some (DbQuery (dec n))
           else if a = ''files'' then Some (DbFiles (dec n)) else None)
      | [n, a, i] \<Rightarrow>
          (if a = ''files'' then Some (if i = ''bulk-delete'' then DbBulkDelete (dec n) else DbFile (dec n) (dec i))
           else if a = ''tokens'' \<and> i = ''files'' then Some (DbTokens (dec n)) else None)
      | [n, a, i, b] \<Rightarrow>
          (if a = ''files'' \<and> i = ''presign'' \<and> b = ''batch'' then Some (DbPresignBatch (dec n))
           else if a = ''files'' \<and> b = ''presign'' then Some (DbPresign (dec n) (dec i))
           else if a = ''files'' \<and> b = ''meta'' then Some (DbMeta (dec n) (dec i))
           else if a = ''tokens'' \<and> i = ''files'' \<and> b = ''revoke'' then Some (DbRevoke (dec n)) else None)
      | _ \<Rightarrow> None)"

definition route_below_buckets :: "(string \<Rightarrow> string) \<Rightarrow> string list \<Rightarrow> Route option" where
  "route_below_buckets dec segs =
     (case segs of
        [] \<Rightarrow> Some Buckets
      | [n, a] \<Rightarrow> if a = ''files'' then Some (BucketFiles (dec n)) else None
      | [n, a, i] \<Rightarrow> if a = ''files'' then Some (BucketFile (dec n) (dec i)) else None
      | _ \<Rightarrow> None)"

definition route_elsewhere :: "(string \<Rightarrow> string) \<Rightarrow> string list \<Rightarrow> Route option" where
  "route_elsewhere dec segs =
     (if segs = [''metrics''] then Some Metrics
      else if segs = [''health''] then Some Health
      else if segs = [''openapi''] then Some OpenApi
      else if segs = [''maintenance'', ''cleanup''] then Some Cleanup
      else if segs = [''auth'', ''login''] then Some Login
      else if segs = [''auth'', ''logout''] then Some Logout
      else case segs of
          [s, d, n, q] \<Rightarrow> if s = ''system'' \<and> d = ''db'' \<and> q = ''query'' then Some (SystemQuery (dec n)) else None
        | _ \<Rightarrow> None)"

definition find_route :: "(string \<Rightarrow> string) \<Rightarrow> string \<Rightarrow> Route option" where
  "find_route dec p =
     (case path_segments p of
        api # kind # segs \<Rightarrow>
          (if api \<noteq> ''api'' \<or> [] \<in> set (kind # segs) then None
           else if kind = ''db'' then route_below_db dec segs
           else if kind = ''buckets'' then route_below_buckets dec segs
           else route_elsewhere dec (kind # segs))
      | _ \<Rightarrow> None)"

text \<open>The methods a file exports.  The document of \<open>openapi\<close> is a constant and not modelled.\<close>

definition handlers :: "Route \<Rightarrow> (string \<times> 'w Handler) list" where
  "handlers r =
     (case r of
        Dbs \<Rightarrow> [(''GET'', db_GET), (''POST'', db_POST)]
      | Db n \<Rightarrow> [(''GET'', name_GET n), (''PATCH'', name_PATCH n), (''DELETE'', name_DELETE n)]
      | DeletedDbs \<Rightarrow> [(''GET'', deleted_GET)]
      | DeletedDb n \<Rightarrow> [(''POST'', deleted_name_POST n)]
      | DbExec n \<Rightarrow> [(''POST'', exec_POST n)]
      | DbQuery n \<Rightarrow> [(''POST'', query_POST n)]
      | DbFiles n \<Rightarrow> [(''GET'', files_GET n), (''POST'', files_POST n)]
      | DbFile n i \<Rightarrow> [(''OPTIONS'', file_OPTIONS), (''HEAD'', file_HEAD n i), (''GET'', file_GET n i),
                      (''DELETE'', file_DELETE n i)]
      | DbBulkDelete n \<Rightarrow> [(''POST'', bulk_delete_POST n)]
      | DbTokens n \<Rightarrow> [(''POST'', tokens_POST n)]
      | DbMeta n i \<Rightarrow> [(''GET'', meta_GET n i)]
      | DbPresign n i \<Rightarrow> [(''POST'', presign_POST n i)]
      | DbPresignBatch n \<Rightarrow> [(''POST'', presign_batch_POST n)]
      | DbRevoke n \<Rightarrow> [(''POST'', revoke_POST n)]
      | Buckets \<Rightarrow> [(''POST'', buckets_POST)]
      | BucketFiles n \<Rightarrow> [(''GET'', bucket_files_GET n), (''POST'', bucket_files_POST n)]
      | BucketFile n i \<Rightarrow> [(''OPTIONS'', file_OPTIONS), (''HEAD'', bucket_file_HEAD n i),
                          (''GET'', bucket_file_GET n i), (''DELETE'', bucket_file_DELETE n i)]
      | Metrics \<Rightarrow> [(''GET'', metrics_GET)]
      | Cleanup \<Rightarrow> [(''POST'', cleanup_POST)]
      | SystemQuery n \<Rightarrow> [(''POST'', system_query_POST n)]
      | Health \<Rightarrow> [(''GET'', health_GET)]
      | OpenApi \<Rightarrow> []
      | Login \<Rightarrow> [(''POST'', login_POST)]
      | Logout \<Rightarrow> [(''POST'', logout_POST)])"

section \<open>The way of a request\<close>

text \<open>
  The middleware first; when it continues, the handler of the path it continues to, with the
  headers it forwards.  \<open>NoHandler\<close> is a page, a file link or a path that has no such method.
\<close>

datatype Served = Filtered response_action | NoHandler | Handled RouteResponse

definition forwarded_request :: "headers \<Rightarrow> RouteRequest \<Rightarrow> RouteRequest" where
  "forwarded_request hs rq = rq\<lparr>rqHeaders := hs\<rparr>"

definition serve ::
  "Environment \<Rightarrow> (NextRequest \<Rightarrow> bool) \<Rightarrow> (string \<Rightarrow> string) \<Rightarrow> 'w Site \<Rightarrow> NextRequest \<Rightarrow> RouteRequest
   \<Rightarrow> ('w, Served) io" where
  "serve env isLoggedIn dec st req rq =
     (case resAction (middleware env isLoggedIn req) of
        Continue rw hs \<Rightarrow>
          (case Option.bind (find_route dec (case rw of None \<Rightarrow> reqPathname req | Some p \<Rightarrow> p))
                  (\<lambda>r. map_of (handlers r) (reqMethod req)) of
             None \<Rightarrow> io_return NoHandler
           | Some h \<Rightarrow> io_bind (h st (forwarded_request hs rq)) (\<lambda>res. io_return (Handled res)))
      | a \<Rightarrow> io_return (Filtered a))"

end
