(* ===== verification/ApiRouteFacts.thy ===== *)
theory ApiRouteFacts
  imports ApiRoutes
begin

text \<open>
  What the routes let a caller do: on whose authority every call of the backend is made, the
  routes that act as the administrator for anybody, what the login accepts, and what the
  handlers of files keep of the answers they pass on.
\<close>

section \<open>Calls of a recording backend\<close>

text \<open>
  A site whose backend records the calls and answers as it likes, and whose files and sessions
  have any contents.
\<close>

definition recording_site ::
  "GoEnvironment \<Rightarrow> bool \<Rightarrow> (BackendCall \<Rightarrow> BackendReply result) \<Rightarrow> (string \<Rightarrow> string result)
   \<Rightarrow> string option \<Rightarrow> headers result \<Rightarrow> BackendCall list Site" where
  "recording_site go files answer content dataPath cookie =
     \<lparr>siteGo = go, siteFilesEnabled = files,
      siteBackend = (\<lambda>c log. (answer c, log @ [c])),
      siteReadFile = (\<lambda>p log. (content p, log)), siteDataPath = dataPath,
      siteSaveSession = (\<lambda>log. (cookie, log)), siteDestroySession = (\<lambda>log. (Inr (), log)),
      siteUptime = num_of_int 0\<rparr>"

lemma recording_site_simps [simp]:
  "siteGo (recording_site go files answer content dp ck) = go"
  "siteFilesEnabled (recording_site go files answer content dp ck) = files"
  "siteBackend (recording_site go files answer content dp ck) c log = (answer c, log @ [c])"
  "siteReadFile (recording_site go files answer content dp ck) p log = (content p, log)"
  "siteSaveSession (recording_site go files answer content dp ck) log = (ck, log)"
  "siteDestroySession (recording_site go files answer content dp ck) log = (Inr (), log)"
  by (simp_all add: recording_site_def)

text \<open>Computations that leave the record as it is, and computations whose calls all satisfy \<open>P\<close>.\<close>

definition only_calls :: "('c \<Rightarrow> bool) \<Rightarrow> ('c list, 'a) io \<Rightarrow> bool" where
  "only_calls P m = (\<forall>log. \<exists>cs. snd (m log) = log @ cs \<and> list_all P cs)"

lemma only_callsI: "(\<And>log. \<exists>cs. snd (m log) = log @ cs \<and> list_all P cs) \<Longrightarrow> only_calls P m"
  by (simp add: only_calls_def)

lemma only_calls_silent: "(\<And>log. snd (m log) = log) \<Longrightarrow> only_calls P m"
  by (rule only_callsI) (simp add: exI [where x = "[]"])

lemma only_calls_return [simp, intro]:
  "only_calls P (io_return x)" "only_calls P (io_throw e)" "only_calls P (io_lift r)"
  by (rule only_calls_silent, simp)+

lemma only_calls_bind [intro]:
  assumes "only_calls P m" and "\<And>x. only_calls P (f x)"
  shows "only_calls P (io_bind m f)"
proof (rule only_callsI)
  fix log
  obtain r l where ml: "m log = (r, l)" by (cases "m log")
  obtain cs where cs: "l = log @ cs" "list_all P cs"
    using assms(1) ml unfolding only_calls_def by (metis snd_conv)
  show "\<exists>cs. snd (io_bind m f log) = log @ cs \<and> list_all P cs"
  proof (cases r)
    case (Inl e)
    then show ?thesis using ml cs by (auto simp: io_bind_def)
  next
    case (Inr x)
    obtain ds where "snd (f x l) = l @ ds" "list_all P ds"
      using assms(2) [of x] unfolding only_calls_def by blast
    then show ?thesis using ml cs Inr by (intro exI [where x = "cs @ ds"]) (simp add: io_bind_def)
  qed
qed

lemma only_calls_catch [intro]:
  assumes "only_calls P m" and "\<And>e. only_calls P (h e)"
  shows "only_calls P (io_catch m h)"
proof (rule only_callsI)
  fix log
  obtain r l where ml: "m log = (r, l)" by (cases "m log")
  obtain cs where cs: "l = log @ cs" "list_all P cs"
    using assms(1) ml unfolding only_calls_def by (metis snd_conv)
  show "\<exists>cs. snd (io_catch m h log) = log @ cs \<and> list_all P cs"
  proof (cases r)
    case (Inr x)
    then show ?thesis using ml cs by (auto simp: io_catch_def)
  next
    case (Inl e)
    obtain ds where "snd (h e l) = l @ ds" "list_all P ds"
      using assms(2) [of e] unfolding only_calls_def by blast
    then show ?thesis using ml cs Inl by (intro exI [where x = "cs @ ds"]) (simp add: io_catch_def)
  qed
qed

lemma only_calls_answers [simp, intro]:
  "only_calls P (relay res)" "only_calls P (relay_or d res)" "only_calls P (relay_list res)"
  "only_calls P (relay_deleted res)"
  by (auto simp: relay_def relay_or_def relay_list_def relay_deleted_def split: option.splits)

lemma only_calls_xsendfile [intro]:
  "only_calls P (handleXSendfile (recording_site go files answer content dp ck) res)"
proof -
  have "only_calls P (read_blob_file (recording_site go files answer content dp ck) n)" for n
    by (auto simp: read_blob_file_def intro: only_calls_silent)
  then show ?thesis
    unfolding handleXSendfile_def Let_def by auto
qed

text \<open>The authority of a call of the backend.\<close>

definition authority :: "BackendCall \<Rightarrow> string option" where
  "authority c = map_of (callHeaders c) ''Authorization''"

definition as_admin :: "GoEnvironment \<Rightarrow> BackendCall \<Rightarrow> bool" where
  "as_admin go c = (authority c = Some (''Bearer '' @ adminToken go))"

definition own_authority :: "headers \<Rightarrow> string option" where
  "own_authority hs =
     (case header_get hs ''authorization'' of None \<Rightarrow> None | Some a \<Rightarrow> if a = [] then None else Some a)"

definition on_behalf :: "GoEnvironment \<Rightarrow> headers \<Rightarrow> BackendCall \<Rightarrow> bool" where
  "on_behalf go hs c =
     (if header_get hs ADMIN_SESSION_HEADER = Some ''1'' then as_admin go c
      else authority c = own_authority hs)"

lemma authority_extend [simp]:
  "authority (FetchCall.extend f x) = map_of (callHeaders f) ''Authorization''"
  by (simp add: authority_def FetchCall.extend_def)

lemma goFetchAdmin_authority: "map_of (callHeaders (goFetchAdmin go path hs)) ''Authorization'' = Some (''Bearer '' @ adminToken go)"
  by (simp add: goFetchAdmin_def obj_set_def update_conv')

lemma only_calls_fetch_admin:
  "only_calls (as_admin go) (fetch_admin (recording_site go files answer content dp ck) m path hs b)"
  by (rule only_callsI) (simp add: fetch_admin_def as_admin_def goFetchAdmin_authority)

lemma only_calls_fetch_db [intro]:
  "only_calls (on_behalf go (rqHeaders req))
     (fetch_db (recording_site go files answer content dp ck) req m path [] b)"
  "only_calls (on_behalf go (rqHeaders req))
     (fetch_db (recording_site go files answer content dp ck) req m path json_header b)"
  by (rule only_callsI, auto simp: fetch_db_def on_behalf_def as_admin_def goFetchDb_def Let_def
       obj_spread_def obj_set_def json_header_def own_authority_def split: option.splits)+

section \<open>Who acts as the administrator\<close>

text \<open>The routes whose handlers call the backend as the administrator, whoever asks.\<close>

definition admin_route :: "Route \<Rightarrow> bool" where
  "admin_route r = (case r of Dbs \<Rightarrow> True | Db _ \<Rightarrow> True | DeletedDbs \<Rightarrow> True | DeletedDb _ \<Rightarrow> True
     | Buckets \<Rightarrow> True | Metrics \<Rightarrow> True | Cleanup \<Rightarrow> True | SystemQuery _ \<Rightarrow> True | _ \<Rightarrow> False)"

lemmas admin_handlers = db_GET_def db_POST_def name_GET_def name_PATCH_def name_DELETE_def deleted_GET_def
  deleted_name_POST_def buckets_POST_def metrics_GET_def cleanup_POST_def system_query_POST_def

lemma admin_route_calls:
  assumes "admin_route r" "map_of (handlers r) m = Some h"
  shows "only_calls (as_admin go) (h (recording_site go files answer content dp ck) req)"
  using assms
  by (auto simp: admin_route_def handlers_def admin_handlers Let_def split: Route.splits if_splits
      intro!: only_calls_bind only_calls_fetch_admin)

lemma only_calls_post [intro]:
  "only_calls (on_behalf go (rqHeaders req)) (post_json (recording_site go files answer content dp ck) req path)"
  "only_calls (on_behalf go (rqHeaders req)) (post_form (recording_site go files answer content dp ck) req path)"
  by (auto simp: post_json_def post_form_def split: option.split)

lemma only_calls_session [intro]:
  "only_calls P (login_POST (recording_site go files answer content dp ck) req)"
  "only_calls P (logout_POST (recording_site go files answer content dp ck) req)"
  by (auto simp: login_POST_def logout_POST_def Let_def split: jsval.split
      intro!: only_calls_bind intro: only_calls_silent)

lemma only_calls_bucket_file [intro]:
  "only_calls (on_behalf go (rqHeaders req)) (bucket_file_GET n i (recording_site go files answer content dp ck) req)"
  unfolding bucket_file_GET_def
  by (intro only_calls_bind only_calls_fetch_db) (auto intro!: only_calls_bind split: option.split)

lemmas resource_handlers = exec_POST_def query_POST_def files_GET_def files_POST_def file_OPTIONS_def file_HEAD_def
  file_GET_def file_DELETE_def meta_GET_def presign_POST_def presign_batch_POST_def bulk_delete_POST_def
  tokens_POST_def revoke_POST_def bucket_files_GET_def bucket_files_POST_def bucket_file_HEAD_def
  bucket_file_DELETE_def health_GET_def

lemma resource_route_calls:
  assumes "\<not> admin_route r" "map_of (handlers r) m = Some h"
  shows "only_calls (on_behalf go (rqHeaders req)) (h (recording_site go files answer content dp ck) req)"
  using assms
  by (auto simp: admin_route_def handlers_def resource_handlers split: Route.splits if_splits
      intro!: only_calls_bind)


text \<open>A path is its segments.\<close>

lemma split_from_not_Nil: "split_from k sep acc s \<noteq> []"
  by (induction k sep acc s rule: split_from.induct) auto

lemma join_split_from: "js_join [c] (split_from 0 [c] acc s) = rev acc @ s"
proof (induction s arbitrary: acc)
  case Nil
  then show ?case by simp
next
  case (Cons d s)
  then show ?case
    by (auto simp: js_starts_with_def js_join_Cons split_from_not_Nil)
qed

lemma path_of_segments:
  assumes "path_segments p = segs" "segs \<noteq> []"
  shows "p = ''/'' @ js_join ''/'' segs"
proof -
  from assms have st: "js_starts_with p ''/''" by (auto simp: path_segments_def split: if_splits)
  then obtain q where q: "p = CHR ''/'' # q"
    by (cases p) (auto simp: js_starts_with_def)
  with assms st have "js_join ''/'' segs = q"
    by (auto simp: path_segments_def js_split_def join_split_from)
  with q show ?thesis by simp
qed

lemma find_route_path:
  assumes "find_route dec p = Some r"
  obtains kind segs where "p = ''/api/'' @ js_join ''/'' (kind # segs)"
    "(kind = ''db'' \<and> route_below_db dec segs = Some r)
     \<or> (kind = ''buckets'' \<and> route_below_buckets dec segs = Some r)
     \<or> (kind \<noteq> ''db'' \<and> kind \<noteq> ''buckets'' \<and> route_elsewhere dec (kind # segs) = Some r)"
proof -
  from assms obtain kind segs where ps: "path_segments p = ''api'' # kind # segs"
    and k: "(kind = ''db'' \<and> route_below_db dec segs = Some r)
     \<or> (kind = ''buckets'' \<and> route_below_buckets dec segs = Some r)
     \<or> (kind \<noteq> ''db'' \<and> kind \<noteq> ''buckets'' \<and> route_elsewhere dec (kind # segs) = Some r)"
    by (auto simp: find_route_def split: list.splits if_splits)
  have "p = ''/api/'' @ js_join ''/'' (kind # segs)"
    using path_of_segments [OF ps] by (simp add: js_join_Cons)
  from that [OF this k] show ?thesis .
qed

text \<open>The routes of the administrator that the middleware does not guard by a session.\<close>

definition open_admin_route :: "Route \<Rightarrow> bool" where
  "open_admin_route r = (case r of Dbs \<Rightarrow> True | Db _ \<Rightarrow> True | DeletedDbs \<Rightarrow> True | DeletedDb _ \<Rightarrow> True
     | Buckets \<Rightarrow> True | _ \<Rightarrow> False)"

lemma db_routes: "pred_option (\<lambda>r. admin_route r \<longrightarrow> open_admin_route r) (route_below_db dec segs)"
  unfolding route_below_db_def
  by (simp add: admin_route_def open_admin_route_def split: list.split)

lemma bucket_routes: "pred_option (\<lambda>r. admin_route r \<longrightarrow> open_admin_route r) (route_below_buckets dec segs)"
  unfolding route_below_buckets_def
  by (simp add: admin_route_def open_admin_route_def split: list.split)

definition guarded_segments :: "string list \<Rightarrow> bool" where
  "guarded_segments segs =
     (segs = [''metrics''] \<or> segs = [''maintenance'', ''cleanup'']
      \<or> (length segs = 4 \<and> segs ! 0 = ''system'' \<and> segs ! 1 = ''db'' \<and> segs ! 3 = ''query''))"

lemma other_routes: "pred_option (\<lambda>r. admin_route r \<longrightarrow> guarded_segments segs) (route_elsewhere dec segs)"
proof (cases "segs = [''metrics''] \<or> segs = [''maintenance'', ''cleanup'']")
  case True
  then have "guarded_segments segs" by (auto simp: guarded_segments_def)
  then show ?thesis by (simp add: pred_option_def)
next
  case False
  show ?thesis
  proof (cases "\<exists>s d n q. segs = [s, d, n, q]")
    case True
    then obtain s d n q where "segs = [s, d, n, q]" by blast
    then show ?thesis by (simp add: route_elsewhere_def guarded_segments_def)
  next
    case f4: False
    have "(case segs of [s, d, n, q] \<Rightarrow> F s d n q | _ \<Rightarrow> None) = (None :: Route option)" for F
      using f4 by (simp split: list.split)
    then show ?thesis
      using False by (simp add: route_elsewhere_def admin_route_def)
  qed
qed

lemma guarded_segments_path:
  assumes "guarded_segments segs"
  shows "\<not> open_path (''/api/'' @ js_join ''/'' segs)"
proof -
  from assms consider "segs = [''metrics'']" | "segs = [''maintenance'', ''cleanup'']"
    | n where "segs = [''system'', ''db'', n, ''query'']"
    by (auto simp: guarded_segments_def numeral_eq_Suc length_Suc_conv)
  then show ?thesis
  proof cases
    case 1
    have "\<not> open_path (''/api/'' @ js_join ''/'' [''metrics''])" by code_simp
    with 1 show ?thesis by simp
  next
    case 2
    have "\<not> open_path (''/api/'' @ js_join ''/'' [''maintenance'', ''cleanup''])" by code_simp
    with 2 show ?thesis by simp
  next
    case 3
    then show ?thesis
      by (simp add: open_path_def PUBLIC_PREFIXES_def js_starts_with_def FILE_SHORTLINK_def RESOURCE_SCOPED_def
          after_def after_segment_def optional_ok_def)
  qed
qed

lemma guarded_paths:
  assumes "find_route dec p = Some r" "admin_route r" "\<not> open_admin_route r"
  shows "\<not> open_path p"
proof -
  obtain kind segs where p: "p = ''/api/'' @ js_join ''/'' (kind # segs)"
    and k: "(kind = ''db'' \<and> route_below_db dec segs = Some r)
     \<or> (kind = ''buckets'' \<and> route_below_buckets dec segs = Some r)
     \<or> (kind \<noteq> ''db'' \<and> kind \<noteq> ''buckets'' \<and> route_elsewhere dec (kind # segs) = Some r)"
    using find_route_path [OF assms(1)] by blast
  have "route_elsewhere dec (kind # segs) = Some r"
    using k db_routes [of dec segs] bucket_routes [of dec segs] assms(2,3) by auto
  then have "guarded_segments (kind # segs)"
    using other_routes [of "kind # segs" dec] assms(2) by simp
  from guarded_segments_path [OF this] p show ?thesis by simp
qed

text \<open>The path a continued request goes on with, and the call it is served by.\<close>

lemma continue_path:
  assumes "resAction (middleware env isLoggedIn req) = Continue rw hs"
  shows "(case rw of None \<Rightarrow> reqPathname req | Some p \<Rightarrow> p) = stripApiVersionPrefix (reqPathname req)"
  using assms by (auto simp: middleware_def Let_def split: if_splits)

lemma continue_open:
  assumes "resAction (middleware env isLoggedIn req) = Continue rw hs"
  shows "isLoggedIn req \<or> open_path (stripApiVersionPrefix (reqPathname req))"
  using assms by (auto simp: middleware_def open_path_def Let_def split: if_splits)

lemma only_calls_set:
  assumes "only_calls P m" "c \<in> set (snd (m []))"
  shows "P c"
  using assms unfolding only_calls_def by (metis append_Nil list_all_iff)

text \<open>
  C5. Who can make the backend act as the administrator: whatever a site answers, every call of
  the backend that a request leads to carries the caller's own \<open>Authorization\<close> and nothing
  else, or the administrator's for a request with a session, or it was made by one of the routes
  that list, create, change, restore and delete databases and create buckets.  No other route,
  and no header of the request, gives administrator rights to a caller without a session.
\<close>

theorem who_acts_as_admin:
  assumes "c \<in> set (snd (serve env isLoggedIn dec (recording_site go files answer content dp ck) req rq []))"
  shows "authority c = own_authority (reqHeaders req)
    \<or> (as_admin go c \<and>
        (if isLoggedIn req then True
         else pred_option open_admin_route (find_route dec (stripApiVersionPrefix (reqPathname req)))))"
proof (cases "resAction (middleware env isLoggedIn req)")
  case (Continue rw hs)
  let ?p = "stripApiVersionPrefix (reqPathname req)"
  let ?st = "recording_site go files answer content dp ck"
  note path = continue_path [OF Continue]
  obtain r h where r: "find_route dec ?p = Some r" and h: "map_of (handlers r) (reqMethod req) = Some h"
    and c: "c \<in> set (snd (io_bind (h ?st (forwarded_request hs rq)) (\<lambda>res. io_return (Handled res)) []))"
    using assms Continue path by (auto simp: serve_def split: option.splits elim: bind_eq_Some_conv [THEN iffD1, elim_format])
  have calls: "P c" if "only_calls P (h ?st (forwarded_request hs rq))" for P
    using only_calls_set [OF only_calls_bind [OF that] c] by blast
  have auth: "own_authority hs = own_authority (reqHeaders req)"
    using forwarded_authorization [OF Continue] by (simp add: own_authority_def)
  show ?thesis
  proof (cases "admin_route r")
    case True
    have "as_admin go c" by (rule calls) (rule admin_route_calls [OF True h])
    moreover have "isLoggedIn req \<or> open_admin_route r"
      using guarded_paths [OF r True] continue_open [OF Continue] by blast
    ultimately show ?thesis using r by auto
  next
    case False
    have "on_behalf go hs c"
      using calls [of "on_behalf go hs"] resource_route_calls [OF False h, where req = "forwarded_request hs rq"]
      by (simp add: forwarded_request_def)
    then show ?thesis
      using admin_header_origin [OF Continue] auth by (auto simp: on_behalf_def split: if_splits)
  qed
qed (use assms in \<open>auto simp: serve_def\<close>)

definition example_site :: "BackendCall list Site" where
  "example_site = recording_site \<lparr>goApiUrl = ''g'', adminToken = ''secret''\<rparr> True
     (\<lambda>c. Inr \<lparr>brStatus = 200, brHeaders = [], brJson = Some Null, brText = ''null''\<rparr>)
     (\<lambda>p. Inr []) None (Inr [])"

definition example_body :: RouteRequest where
  "example_body = \<lparr>rqHeaders = [], rqSearch = [], rqText = [], rqJson = None, rqForm = None\<rparr>"

theorem who_acts_as_admin_witness:
  "authority (hd (snd (serve \<lparr>filesEnabled = True, corsAllowedOrigins = []\<rparr> (\<lambda>_. False) id example_site
     \<lparr>reqMethod = ''POST'', reqPathname = ''/api/v1/db/x/query'',
      reqHeaders = [(''x-mesahub-admin'', ''1''), (''authorization'', ''Bearer k'')]\<rparr> example_body [])))
   = Some ''Bearer k''"
proof -
  let ?req = "\<lparr>reqMethod = ''POST'', reqPathname = ''/api/v1/db/x/query'',
      reqHeaders = [(''x-mesahub-admin'', ''1''), (''authorization'', ''Bearer k'')]\<rparr>"
  let ?log = "snd (serve \<lparr>filesEnabled = True, corsAllowedOrigins = []\<rparr> (\<lambda>_. False) id example_site
     ?req example_body [])"
  have one: "length ?log = 1" by code_simp
  then have "hd ?log \<in> set ?log" by (cases ?log) auto
  from who_acts_as_admin [OF this [unfolded example_site_def]]
  have "authority (hd ?log) = own_authority (reqHeaders ?req)
    \<or> pred_option open_admin_route (find_route id (stripApiVersionPrefix (reqPathname ?req)))"
    by (auto simp: example_site_def)
  moreover have "\<not> pred_option open_admin_route (find_route id (stripApiVersionPrefix (reqPathname ?req)))"
  proof -
    have "find_route id (stripApiVersionPrefix (reqPathname ?req)) = Some (DbQuery ''x'')" by code_simp
    then show ?thesis by (simp add: open_admin_route_def)
  qed
  moreover have "own_authority (reqHeaders ?req) = Some ''Bearer k''" by code_simp
  ultimately show ?thesis by metis
qed

section \<open>Routes that are open to everybody\<close>

lemma db_name_route:
  assumes "n \<noteq> []" "CHR ''/'' \<notin> set n" "n \<noteq> ''deleted''"
  shows "find_route dec (''/api/db/'' @ n) = Some (Db (dec n))"
proof -
  have "''/api/db/'' @ n = ''/'' @ js_join ''/'' [''api'', ''db'', n]" by simp
  moreover have "js_split ''/'' (js_join ''/'' [''api'', ''db'', n]) = [''api'', ''db'', n]"
    by (rule js_split_join) (use assms in auto)
  ultimately have "path_segments (''/api/db/'' @ n) = [''api'', ''db'', n]"
    by (simp add: path_segments_def js_starts_with_def)
  then show ?thesis using assms by (simp add: find_route_def route_below_db_def)
qed

lemma db_name_continues:
  assumes "n \<noteq> []" "CHR ''/'' \<notin> set n" "m \<noteq> ''OPTIONS''"
  shows "\<exists>fwd. resAction (middleware env isLoggedIn \<lparr>reqMethod = m, reqPathname = ''/api/db/'' @ n, reqHeaders = hs\<rparr>)
     = Continue None fwd"
proof -
  let ?p = "''/api/db/'' @ n"
  have nosl: "takeWhile (\<lambda>c. c \<noteq> CHR ''/'') n = n" "dropWhile (\<lambda>c. c \<noteq> CHR ''/'') n = []"
    using assms(2) by (auto simp: takeWhile_eq_all_conv dropWhile_eq_Nil_conv)
  have "stripApiVersionPrefix ?p = ?p"
    by (simp add: stripApiVersionPrefix_def API_VERSION_PREFIX_def js_starts_with_def)
  moreover have "\<not> DB_FILES_PAGE ?p" "\<not> DB_FILES_API ?p" "\<not> FILE_SHORTLINK ?p" "\<not> BUCKET_PAGE ?p" "\<not> BUCKET_API ?p"
    "RESOURCE_SCOPED ?p"
    by (simp_all add: DB_FILES_PAGE_def DB_FILES_API_def FILE_SHORTLINK_def BUCKET_PAGE_def BUCKET_API_def
        RESOURCE_SCOPED_def after_def after_segment_def optional_ok_def rest_ok_def js_starts_with_def assms(1) nosl)
  ultimately show ?thesis
    using assms(3) by (simp add: middleware_def Let_def)
qed

text \<open>
  C6. Anybody may delete a database: for every name of one path segment other than \<open>deleted\<close>,
  a \<open>DELETE\<close> is answered by asking the backend, with the administrator's token, to delete that
  database; the session, the headers of the request and the settings of the site make no
  difference.
\<close>

theorem anybody_deletes_databases:
  assumes "n \<noteq> []" "CHR ''/'' \<notin> set n" "n \<noteq> ''deleted''"
  shows "serve env isLoggedIn dec st \<lparr>reqMethod = ''DELETE'', reqPathname = ''/api/db/'' @ n, reqHeaders = hs\<rparr> rq =
     io_bind (siteBackend st
        \<lparr>callUrl = goApiUrl (siteGo st) @ ''/api/db/'' @ encodeURIComponent (dec n),
         callHeaders = [(''Content-Type'', ''application/json''), (''Authorization'', ''Bearer '' @ adminToken (siteGo st))],
         callMethod = ''DELETE'', callBody = NoBody\<rparr>)
       (\<lambda>res. io_bind (relay_or json_success res) (\<lambda>a. io_return (Handled a)))"
proof -
  obtain fwd where m: "resAction (middleware env isLoggedIn
      \<lparr>reqMethod = ''DELETE'', reqPathname = ''/api/db/'' @ n, reqHeaders = hs\<rparr>) = Continue None fwd"
    using db_name_continues [OF assms(1,2)] by fastforce
  have "serve env isLoggedIn dec st \<lparr>reqMethod = ''DELETE'', reqPathname = ''/api/db/'' @ n, reqHeaders = hs\<rparr> rq =
     io_bind (name_DELETE (dec n) st (forwarded_request fwd rq)) (\<lambda>a. io_return (Handled a))"
    using m db_name_route [OF assms] by (simp add: serve_def handlers_def)
  then show ?thesis
    by (simp add: name_DELETE_def io_bind_assoc fetch_admin_def goFetchAdmin_def FetchCall.extend_def db_path_def
        obj_spread_def obj_set_def)
qed

theorem anybody_deletes_databases_witness:
  "map callMethod (snd (serve \<lparr>filesEnabled = False, corsAllowedOrigins = []\<rparr> (\<lambda>_. False) id example_site
     \<lparr>reqMethod = ''DELETE'', reqPathname = ''/api/db/crm'', reqHeaders = []\<rparr> example_body [])) = [''DELETE'']"
  using anybody_deletes_databases [of "''crm''" "\<lparr>filesEnabled = False, corsAllowedOrigins = []\<rparr>" "\<lambda>_. False" id
      example_site "[]" example_body]
  by (simp add: example_site_def io_bind_def relay_or_def next_json_def null_body_status_def nat_digits.simps)

section \<open>Logging in\<close>

text \<open>A text without the spaces at its end.\<close>

definition strip_end :: "string \<Rightarrow> string" where
  "strip_end s = rev (dropWhile (\<lambda>c. c = CHR '' '') (rev s))"

lemma strip_end_spaces: "strip_end (s @ replicate k (CHR '' '')) = strip_end s"
proof -
  have "dropWhile (\<lambda>c. c = CHR '' '') (replicate k (CHR '' '') @ t) = dropWhile (\<lambda>c. c = CHR '' '') t" for t
    by (induction k) simp_all
  then show ?thesis by (simp add: strip_end_def)
qed

lemma strip_end_eq: "\<exists>k. s = strip_end s @ replicate k (CHR '' '')"
proof -
  let ?t = "takeWhile (\<lambda>c. c = CHR '' '') (rev s)"
  have "?t = replicate (length ?t) (CHR '' '')"
    by (rule replicate_length_same [symmetric]) (auto dest: set_takeWhileD)
  then have "rev ?t = replicate (length ?t) (CHR '' '')" by (metis rev_replicate)
  moreover have "s = strip_end s @ rev ?t"
    unfolding strip_end_def by (metis rev_append rev_rev_ident takeWhile_dropWhile_id)
  ultimately show ?thesis by metis
qed

lemma utf8_char_inj: "utf8_char c @ xs = utf8_char d @ ys \<Longrightarrow> c = d \<and> xs = ys"
proof -
  assume a: "utf8_char c @ xs = utf8_char d @ ys"
  let ?m = "of_char c :: nat" and ?n = "of_char d :: nat"
  have lt: "?m < 256" "?n < 256" by simp_all
  have two: "192 + ?m div 64 = 192 + ?n div 64 \<Longrightarrow> 128 + ?m mod 64 = 128 + ?n mod 64 \<Longrightarrow> ?m = ?n"
    by (metis add_left_cancel div_mult_mod_eq)
  have "?m = ?n \<and> xs = ys"
  proof (cases "?m < 128"; cases "?n < 128")
    assume "\<not> ?m < 128" "\<not> ?n < 128"
    then show ?thesis using a two by (simp add: utf8_char_def Let_def)
  qed (use a in \<open>simp_all add: utf8_char_def Let_def\<close>)
  then show ?thesis by simp
qed

lemma utf8_inj: "utf8 s = utf8 t \<longleftrightarrow> s = t"
proof
  assume "utf8 s = utf8 t"
  then show "s = t"
  proof (induction s arbitrary: t)
    case Nil
    then show ?case by (cases t) (auto simp: utf8_def utf8_char_def Let_def split: if_splits)
  next
    case (Cons c s)
    show ?case
    proof (cases t)
      case Nil
      with Cons.prems show ?thesis by (auto simp: utf8_def utf8_char_def Let_def split: if_splits)
    next
      case t: (Cons d u)
      with Cons.prems have "utf8_char c @ utf8 s = utf8_char d @ utf8 u" by (simp add: utf8_def)
      from utf8_char_inj [OF this] Cons.IH t show ?thesis by simp
    qed
  qed
qed simp

lemma token_matches_padded:
  "token_matches a t \<longleftrightarrow> padEnd t (length a) = padEnd a (length t)"
  by (auto simp: token_matches_def utf8_inj Let_def)

lemma token_matches_iff: "token_matches a t \<longleftrightarrow> strip_end t = strip_end a"
proof
  assume "token_matches a t"
  then have "strip_end (padEnd t (length a)) = strip_end (padEnd a (length t))"
    by (simp add: token_matches_padded)
  then show "strip_end t = strip_end a"
    by (simp add: padEnd_def strip_end_spaces)
next
  assume e: "strip_end t = strip_end a"
  obtain j where j: "t = strip_end a @ replicate j (CHR '' '')" using strip_end_eq [of t] e by auto
  obtain k where k: "a = strip_end a @ replicate k (CHR '' '')" using strip_end_eq by blast
  define b where "b = strip_end a"
  have "t = b @ replicate j (CHR '' '')" "a = b @ replicate k (CHR '' '')"
    using j k by (simp_all add: b_def)
  then show "token_matches a t"
    by (auto simp: token_matches_padded padEnd_def replicate_add [symmetric] max_def simp del: replicate_add)
qed

definition login_token :: "RouteRequest \<Rightarrow> string option" where
  "login_token req = (case rqJson req of Some (JsObject ob) \<Rightarrow>
      (case obj_at ob ''token'' of Str s \<Rightarrow> Some s | _ \<Rightarrow> None) | _ \<Rightarrow> None)"

text \<open>
  C27. The login: a body without a text as its token is refused with 400, a site without a token
  answers 500, and the session is written exactly when the token sent and the site's token are
  the same text up to spaces at their ends; every other token is refused with 401 and no
  session is written.
\<close>

theorem login_checks_token:
  "login_POST st req =
     (case login_token req of
        None \<Rightarrow> io_return (json_error 400 ''token is required'')
      | Some tok \<Rightarrow>
          if adminToken (siteGo st) = [] then io_return (json_error 500 ''ADMIN_TOKEN not configured'')
          else if strip_end tok = strip_end (adminToken (siteGo st)) then
            io_bind (siteSaveSession st) (\<lambda>cookie.
              io_return \<lparr>rrStatus = 200, rrHeaders = (''content-type'', ''application/json'') # cookie,
                         rrBody = JsonBody json_success\<rparr>)
          else io_return (json_error 401 ''Invalid token''))"
  by (simp add: login_POST_def login_token_def opt_prop_def token_matches_iff Let_def
      split: option.split jsval.split)

section \<open>What is passed on\<close>

text \<open>
  A blob is read from the directory of the blobs itself: the name the backend sends is cut down
  to its last segment.
\<close>

lemma blob_stays_in_directory: "CHR ''/'' \<notin> set (path_basename p)"
  by (auto simp: path_basename_def dest: set_takeWhileD)

lemma forwardHeaders_set: "header_get (forwardHeaders src) n \<noteq> None \<Longrightarrow> js_lower n \<notin> set HOP_BY_HOP"
proof -
  have gen: "header_get (foldl (\<lambda>out (key, v). if js_lower key \<in> set HOP_BY_HOP then out else header_set key v out) acc src) n \<noteq> None
      \<Longrightarrow> header_get acc n \<noteq> None \<or> js_lower n \<notin> set HOP_BY_HOP" for acc
    by (induction src arbitrary: acc) (fastforce simp: header_get_set split: if_splits)+
  then show "header_get (forwardHeaders src) n \<noteq> None \<Longrightarrow> js_lower n \<notin> set HOP_BY_HOP"
    using gen [of "[]"] by (auto simp: forwardHeaders_def header_get_def)
qed

text \<open>A preflight request for a file never reaches the handler written for it.\<close>

lemma preflight_is_filtered:
  assumes "js_starts_with (stripApiVersionPrefix (reqPathname req)) ''/api/''" "reqMethod req = ''OPTIONS''"
  shows "\<exists>a. serve env isLoggedIn dec st req rq = io_return (Filtered a)"
  using assms by (auto simp: serve_def middleware_def Let_def)

text \<open>A token followed by spaces is accepted as the token.\<close>

lemma padded_token_accepted: "token_matches ''secret'' ''secret   ''"
  by code_simp

text \<open>
  Databases are listed for everybody as well, with the administrator's token.
\<close>

lemma anybody_lists_databases:
  "map authority (snd (serve \<lparr>filesEnabled = True, corsAllowedOrigins = []\<rparr> (\<lambda>_. False) id example_site
     \<lparr>reqMethod = ''GET'', reqPathname = ''/api/db'', reqHeaders = []\<rparr> example_body []))
   = [Some ''Bearer secret'']"
  by code_simp

text \<open>The list of files is the same under both spellings of the backend's fields.\<close>

definition written_file :: "(string \<Rightarrow> string) \<Rightarrow> jsval list \<Rightarrow> jsval" where
  "written_file sp vs = JsObject (zip (map sp
     [''id'', ''filename'', ''folder_path'', ''content_type'', ''size_bytes'', ''uploaded_at'', ''expires_at'']) vs)"

definition go_name :: "string \<Rightarrow> string" where
  "go_name k =
     (if k = ''id'' then ''ID'' else if k = ''filename'' then ''Filename''
      else if k = ''folder_path'' then ''FolderPath'' else if k = ''content_type'' then ''ContentType''
      else if k = ''size_bytes'' then ''SizeBytes'' else if k = ''uploaded_at'' then ''UploadedAt'' else ''ExpiresAt'')"

lemma both_spellings:
  assumes "length vs = 7" "\<not> nullish (vs ! 0)" "\<not> nullish (vs ! 1)" "\<not> nullish (vs ! 5)"
  shows "normalize_file (written_file go_name vs) = normalize_file (written_file id vs)"
proof -
  obtain a b c d e f g where vs: "vs = [a, b, c, d, e, f, g]"
    using assms(1) by (auto simp: numeral_eq_Suc length_Suc_conv)
  show ?thesis
    using assms(2-4) unfolding vs
    by (simp add: normalize_file_def written_file_def go_name_def opt_prop_def obj_at_def nn_def)
qed

end
