(* ===== verification/QueryTab.thy ===== *)
theory QueryTab
  imports Statements SqlCursor Sidebar Explain Dialects
begin

text \<open>
  The tab of a query (\<open>components/gui/tabs/query-tab.tsx\<close> with \<open>query-placeholder.tsx\<close>): the values
  of its placeholders, choosing the statements to run, putting the values in, running them and the
  tabs of the results; and \<open>extractInputValue\<close> of \<open>drivers/sqlite/sql-helper.ts\<close>, which reads a
  value.  The tokenizer, the parser of the editor and the database are parameters.  A run is one
  step: its answers come before the next event of the tab.
\<close>

section \<open>The value that is typed for a placeholder\<close>

text \<open>\<open>parseFloat\<close>: the longest decimal number the text begins with.\<close>

definition exponent_prefix :: "string \<Rightarrow> int" where
  "exponent_prefix s =
     (case s of
        [] \<Rightarrow> 0
      | c # cs \<Rightarrow>
          if c \<noteq> CHR ''e'' \<and> c \<noteq> CHR ''E'' then 0
          else let neg = (cs \<noteq> [] \<and> hd cs = CHR ''-'');
                   ds = takeWhile is_digit (if cs \<noteq> [] \<and> (hd cs = CHR ''-'' \<or> hd cs = CHR ''+'') then tl cs else cs)
               in if neg then - int (digits_val ds) else int (digits_val ds))"

definition float_prefix :: "string \<Rightarrow> jsnum" where
  "float_prefix t =
     (let ip = takeWhile is_digit t;
          r1 = dropWhile is_digit t;
          point = (r1 \<noteq> [] \<and> hd r1 = CHR ''.'');
          fp = (if point then takeWhile is_digit (tl r1) else []);
          r2 = (if point then dropWhile is_digit (tl r1) else r1)
      in if js_starts_with t ''Infinity'' then Infinite False
         else if ip = [] \<and> fp = [] then NaN
         else scale_dec (int (digits_val (ip @ fp))) (exponent_prefix r2 - int (length fp)))"

definition js_parseFloat :: "string \<Rightarrow> jsnum" where
  "js_parseFloat s =
     (let t = dropWhile is_space s in
      if t = [] then NaN
      else if hd t = CHR ''-'' then num_neg (float_prefix (tl t))
      else if hd t = CHR ''+'' then float_prefix (tl t)
      else float_prefix t)"

definition quoted_by :: "char \<Rightarrow> string \<Rightarrow> bool" where
  "quoted_by q s = (js_starts_with s [q] \<and> js_ends_with s [q])"

definition extractInputValue :: "string \<Rightarrow> jsval" where
  "extractInputValue input =
     (let t = js_trim input in
      if quoted_by (CHR 0x22) t \<or> quoted_by quote1 t then Str (take (length t - 2) (drop 1 t))
      else case js_parseFloat t of NaN \<Rightarrow> Str t | n \<Rightarrow> Num n)"

section \<open>Placeholders\<close>

text \<open>
  The values are the properties of an object literal: reading a name that it does not have gives
  \<open>undefined\<close>, or what the object inherits, which is no text.
\<close>

datatype PlaceholderValue = PhText string | PhInherited

type_synonym placeholders = "(string \<times> PlaceholderValue) list"

definition placeholder_value :: "placeholders \<Rightarrow> string \<Rightarrow> PlaceholderValue option" where
  "placeholder_value ps p =
     (case map_of ps p of
        Some v \<Rightarrow> Some v
      | None \<Rightarrow> if p \<in> set object_prototype then Some PhInherited else None)"

definition is_placeholder :: "token \<Rightarrow> bool" where
  "is_placeholder t = (tkType t = OtherType ''PLACEHOLDER'')"

definition variable :: "token \<Rightarrow> string" where
  "variable t = drop 1 (tkValue t)"

definition variables :: "token list \<Rightarrow> string list" where
  "variables ts = map variable (filter is_placeholder ts)"

text \<open>A second after the code was changed: its placeholders, with the values they had.\<close>

definition collectPlaceholders :: "token list \<Rightarrow> placeholders \<Rightarrow> placeholders" where
  "collectPlaceholders ts prev =
     foldl (\<lambda>ps p. obj_set p (case placeholder_value prev p of None \<Rightarrow> PhText [] | Some v \<Rightarrow> v) ps) [] (variables ts)"

text \<open>A value typed into the table of the variables.\<close>

definition typePlaceholder :: "string \<Rightarrow> string \<Rightarrow> placeholders \<Rightarrow> placeholders" where
  "typePlaceholder key v ps = obj_set key (PhText v) ps"

text \<open>The numbers of the button: how many are filled in, and of how many.\<close>

definition placeholder_counts :: "placeholders \<Rightarrow> nat \<times> nat" where
  "placeholder_counts ps =
     (length ps - length (filter (\<lambda>(k, v). v = PhText []) ps), length ps)"

section \<open>Choosing and preparing statements\<close>

definition explain_prefix :: "SupportedDialect \<Rightarrow> string" where
  "explain_prefix d = (case d of Sqlite \<Rightarrow> ''explain query plan '' | Mysql \<Rightarrow> ''explain format=json ''
     | Postgres \<Rightarrow> ''explain (format json) '' | Dolt \<Rightarrow> [])"

definition explained_statement :: "SupportedDialect \<Rightarrow> bool \<Rightarrow> string \<Rightarrow> string" where
  "explained_statement d explained statement =
     (if explained \<and> \<not> js_starts_with (js_lower statement) ''explain query plan''
      then explain_prefix d @ statement else statement)"

text \<open>None: there is nothing under the cursor.\<close>

definition chooseStatements ::
  "SupportedDialect \<Rightarrow> bool \<Rightarrow> bool \<Rightarrow> string \<Rightarrow> SyntaxNode list \<Rightarrow> nat \<Rightarrow> string list option" where
  "chooseStatements d all explained doc nodes cursor =
     (if all then Some (map segText (splitSqlQuery doc nodes True))
      else case resolveToNearestStatement doc nodes cursor of
             None \<Rightarrow> None
           | Some seg \<Rightarrow>
               let statement = explained_statement d explained (sliceString doc (segFrom seg) (segTo seg))
               in Some (if statement = [] then [] else [statement]))"

text \<open>
  What takes the place of a token.  Reading a value that is not there, or is inherited, fails in
  \<open>extractInputValue\<close>, which calls \<open>trim\<close>.
\<close>

definition token_text :: "placeholders \<Rightarrow> token \<Rightarrow> string result" where
  "token_text ps t =
     (if is_placeholder t
      then case placeholder_value ps (variable t) of
             Some (PhText s) \<Rightarrow> Inr (escapeValue (extractInputValue s))
           | _ \<Rightarrow> Inl (TypeError ''input.trim is not a function'')
      else Inr (tkValue t))"

fun texts :: "placeholders \<Rightarrow> token list \<Rightarrow> string list result" where
  "texts ps [] = Inr []"
| "texts ps (t # ts) = rbind (token_text ps t) (\<lambda>s. rbind (texts ps ts) (\<lambda>ss. Inr (s # ss)))"

text \<open>
  The test for a tokenizer that loses text joins the tokens themselves, which are objects.  The
  outer sum are exceptions, the inner one the messages that refuse to run.
\<close>

definition joined_tokens :: "token list \<Rightarrow> string" where
  "joined_tokens ts = concat (map (\<lambda>_. ''[object Object]'') ts)"

definition prepareStatement ::
  "(string \<Rightarrow> token list) \<Rightarrow> placeholders \<Rightarrow> string \<Rightarrow> (string + string) result" where
  "prepareStatement tokenize ps statement =
     (let ts = tokenize statement in
      if joined_tokens ts = statement then Inr (Inl ''Failed to tokenize SQL statement'')
      else if list_ex (\<lambda>p. placeholder_value ps p = Some (PhText [])) (variables ts)
      then Inr (Inl ''Please fill in all placeholders'')
      else rbind (texts ps ts) (\<lambda>ss. Inr (Inr (concat ss))))"

fun prepareAll ::
  "(string \<Rightarrow> token list) \<Rightarrow> placeholders \<Rightarrow> string list \<Rightarrow> (string + string list) result" where
  "prepareAll tokenize ps [] = Inr (Inr [])"
| "prepareAll tokenize ps (s # ss) =
     rbind (prepareStatement tokenize ps s) (\<lambda>r. case r of
         Inl message \<Rightarrow> Inr (Inl message)
       | Inr sql \<Rightarrow> rbind (prepareAll tokenize ps ss) (\<lambda>rest. case rest of
             Inl message \<Rightarrow> Inr (Inl message)
           | Inr sqls \<Rightarrow> Inr (Inr (sql # sqls))))"

section \<open>Running\<close>

record QueryTabState =
  qtPlaceholders :: placeholders
  qtData :: "MultipleQueryResult list option"
  qtProgress :: "MultipleQueryProgress option"
  qtTabIndex :: nat
  qtToasts :: "string list"
  qtRefreshes :: nat

text \<open>Whether the log of a run has a statement that makes the studio load the schema again.\<close>

definition alters_schema :: "bool \<Rightarrow> string \<Rightarrow> bool" where
  "alters_schema supportUse sql =
     (let t = js_trim sql in
      js_lower (take 7 t) = ''create '' \<or> js_lower (take 5 t) = ''drop ''
      \<or> (supportUse \<and> js_lower (take 4 t) = ''use ''))"

definition hasAlterSchema :: "bool \<Rightarrow> MultipleQueryProgressItem list \<Rightarrow> bool" where
  "hasAlterSchema supportUse logs = list_ex (\<lambda>l. alters_schema supportUse (logSql l)) logs"

definition last_event :: "MultipleQueryProgress list \<Rightarrow> MultipleQueryProgress option" where
  "last_event es = (if es = [] then None else Some (last es))"

definition reset_results :: "QueryTabState \<Rightarrow> QueryTabState" where
  "reset_results q = q\<lparr>qtData := None, qtProgress := None, qtTabIndex := 0\<rparr>"

definition runStatements ::
  "(string \<Rightarrow> token list) \<Rightarrow> bool \<Rightarrow> 'w Connection \<Rightarrow> ('w \<Rightarrow> int) \<Rightarrow> string list \<Rightarrow> QueryTabState \<Rightarrow> 'w \<Rightarrow>
   js_error option \<times> QueryTabState \<times> 'w" where
  "runStatements tokenize supportUse db now statements q w =
     (if statements = [] then (None, q, w)
      else let q1 = reset_results q in
        case prepareAll tokenize (qtPlaceholders q) statements of
          Inl e \<Rightarrow> (Some e, q1, w)
        | Inr (Inl message) \<Rightarrow> (None, q1\<lparr>qtToasts := qtToasts q1 @ [message]\<rparr>, w)
        | Inr (Inr sqls) \<Rightarrow>
            (case multipleQuery db now sqls w of
               (m, w1) \<Rightarrow>
                 (None, q1\<lparr>qtProgress := last_event (mqEvents m), qtData := Some (mqResults m),
                          qtRefreshes := (if hasAlterSchema supportUse (mqLogs m)
                                          then Suc (qtRefreshes q1) else qtRefreshes q1)\<rparr>, w1)))"

definition onRunClicked ::
  "(string \<Rightarrow> token list) \<Rightarrow> SupportedDialect \<Rightarrow> bool \<Rightarrow> 'w Connection \<Rightarrow> ('w \<Rightarrow> int) \<Rightarrow> bool \<Rightarrow> bool \<Rightarrow>
   string \<Rightarrow> SyntaxNode list \<Rightarrow> nat \<Rightarrow> QueryTabState \<Rightarrow> 'w \<Rightarrow> js_error option \<times> QueryTabState \<times> 'w" where
  "onRunClicked tokenize d supportUse db now all explained doc nodes cursor q w =
     (case chooseStatements d all explained doc nodes cursor of
        None \<Rightarrow> (None, q, w)
      | Some statements \<Rightarrow> runStatements tokenize supportUse db now statements q w)"

section \<open>The tabs of the results\<close>

definition result_title :: "MultipleQueryResult \<Rightarrow> string" where
  "result_title r =
     (case getSingleTableName (mqSql r) of None \<Rightarrow> ''Query '' @ nat_digits (mqOrder r + 1) | Some t \<Rightarrow> t)
     @ '' ('' @ nat_digits (length (rsRows (mqResult r))) @ ''x'' @ nat_digits (length (rsHeaders (mqResult r))) @ '')''"

text \<open>The key and the title of each tab.\<close>

definition result_tabs :: "SupportedDialect \<Rightarrow> MultipleQueryResult \<Rightarrow> (string \<times> string) list" where
  "result_tabs d r =
     (if isExplainQueryPlan (mqSql r) d
      then [(''explain_'' @ nat_digits (mqOrder r), ''Explain (Visual)'')] else [])
     @ [(''query_'' @ nat_digits (mqOrder r), result_title r)]"

definition query_tabs ::
  "SupportedDialect \<Rightarrow> MultipleQueryResult list option \<Rightarrow> MultipleQueryProgress option \<Rightarrow> (string \<times> string) list" where
  "query_tabs d results progress =
     concat (map (result_tabs d) (case results of None \<Rightarrow> [] | Some rs \<Rightarrow> rs))
     @ (case progress of None \<Rightarrow> [] | Some _ \<Rightarrow> [(''summary'', ''Summary'')])"

end
