(* ===== verification/QueryTabFacts.thy ===== *)
theory QueryTabFacts
  imports QueryTab
begin

text \<open>
  What a run of the tab of a query sends to the database: all statements with their placeholders
  filled in or none at all, and each value as one literal; the keys of the tabs of its results.
\<close>

section \<open>Preparing is all or nothing\<close>

definition filled_in :: "placeholders \<Rightarrow> token \<Rightarrow> bool" where
  "filled_in ps t =
     (is_placeholder t \<longrightarrow> (\<exists>s. placeholder_value ps (variable t) = Some (PhText s) \<and> s \<noteq> []))"

definition ready :: "(string \<Rightarrow> token list) \<Rightarrow> placeholders \<Rightarrow> string \<Rightarrow> bool" where
  "ready tokenize ps s = (joined_tokens (tokenize s) \<noteq> s \<and> list_all (filled_in ps) (tokenize s))"

text \<open>The text of a token when its value is there.\<close>

definition fill_token :: "placeholders \<Rightarrow> token \<Rightarrow> string" where
  "fill_token ps t =
     (if is_placeholder t
      then case placeholder_value ps (variable t) of
             Some (PhText s) \<Rightarrow> escapeValue (extractInputValue s) | _ \<Rightarrow> []
      else tkValue t)"

definition fill :: "(string \<Rightarrow> token list) \<Rightarrow> placeholders \<Rightarrow> string \<Rightarrow> string" where
  "fill tokenize ps s = concat (map (fill_token ps) (tokenize s))"

lemma token_text_filled: "filled_in ps t \<Longrightarrow> token_text ps t = Inr (fill_token ps t)"
  by (auto simp: token_text_def fill_token_def filled_in_def)

lemma texts_filled: "list_all (filled_in ps) ts \<Longrightarrow> texts ps ts = Inr (map (fill_token ps) ts)"
  by (induction ts) (simp_all add: token_text_filled)

lemma texts_Inr:
  "texts ps ts = Inr ss \<Longrightarrow> list_all (\<lambda>t. is_placeholder t \<longrightarrow> (\<exists>s. placeholder_value ps (variable t) = Some (PhText s))) ts"
  by (induction ts arbitrary: ss)
     (auto simp: token_text_def rbind_Inr_iff split: if_splits option.splits PlaceholderValue.splits)

lemma no_empty_value:
  "\<not> list_ex (\<lambda>p. placeholder_value ps p = Some (PhText [])) (variables ts) \<Longrightarrow> t \<in> set ts \<Longrightarrow> is_placeholder t \<Longrightarrow>
     placeholder_value ps (variable t) \<noteq> Some (PhText [])"
  by (auto simp: variables_def list_ex_iff)

lemma prepare_ready: "ready tokenize ps s \<Longrightarrow> prepareStatement tokenize ps s = Inr (Inr (fill tokenize ps s))"
proof -
  assume r: "ready tokenize ps s"
  then have "\<not> list_ex (\<lambda>p. placeholder_value ps p = Some (PhText [])) (variables (tokenize s))"
    by (fastforce simp: ready_def list_all_iff filled_in_def variables_def list_ex_iff)
  with r show ?thesis
    by (simp add: prepareStatement_def ready_def texts_filled fill_def Let_def)
qed

lemma prepare_only_ready: "prepareStatement tokenize ps s = Inr (Inr sql) \<Longrightarrow> ready tokenize ps s"
proof -
  assume p: "prepareStatement tokenize ps s = Inr (Inr sql)"
  have ne: "\<not> list_ex (\<lambda>p. placeholder_value ps p = Some (PhText [])) (variables (tokenize s))"
    and j: "joined_tokens (tokenize s) \<noteq> s"
    using p by (auto simp: prepareStatement_def Let_def split: if_splits)
  obtain ss where t: "texts ps (tokenize s) = Inr ss"
    using p ne j by (auto simp: prepareStatement_def Let_def rbind_Inr_iff)
  show ?thesis
    using texts_Inr [OF t] no_empty_value [OF ne] j
    by (fastforce simp: ready_def list_all_iff filled_in_def)
qed

lemma prepareAll_ready:
  "list_all (ready tokenize ps) ss \<Longrightarrow> prepareAll tokenize ps ss = Inr (Inr (map (fill tokenize ps) ss))"
  by (induction ss) (simp_all add: prepare_ready)

lemma prepareAll_only_ready: "prepareAll tokenize ps ss = Inr (Inr sqls) \<Longrightarrow> list_all (ready tokenize ps) ss"
proof (induction ss arbitrary: sqls)
  case (Cons s ss)
  then obtain sql rest where "prepareStatement tokenize ps s = Inr (Inr sql)" "prepareAll tokenize ps ss = Inr (Inr rest)"
    by (cases "prepareStatement tokenize ps s"; cases "prepareAll tokenize ps ss") (auto split: sum.splits)
  with Cons.IH show ?case by (simp add: prepare_only_ready)
qed simp

text \<open>The database after a script, whatever is logged.\<close>

lemma multipleQuery_world: "snd (multipleQuery db now ss w) = fst (snd (executed db ss w))"
  using query_loop_logs [of db now "length ss" 0 ss _ w "fst (multipleQuery db now ss w)" "snd (multipleQuery db now ss w)"]
  by (simp add: multipleQuery_def)

text \<open>
  C33. A run sends everything or nothing: when every placeholder of every statement has a value
  that is not empty, the database sees exactly the statements with the values filled in, in
  order, up to the first that fails; when a value is missing in any of them, the last one
  included, the database sees nothing at all.  The only other refusal is that of a statement
  that is the text of its token objects.
\<close>

theorem run_all_or_nothing:
  "snd (snd (runStatements tokenize supportUse db now statements q w)) =
     (if list_all (ready tokenize (qtPlaceholders q)) statements
      then fst (snd (executed db (map (fill tokenize (qtPlaceholders q)) statements) w)) else w)"
proof (cases "list_all (ready tokenize (qtPlaceholders q)) statements")
  case True
  show ?thesis
  proof (cases "statements = []")
    case False
    then show ?thesis
      using True multipleQuery_world [of db now "map (fill tokenize (qtPlaceholders q)) statements" w]
      by (auto simp: runStatements_def prepareAll_ready [OF True] Let_def split: prod.split)
  qed (simp add: runStatements_def)
next
  case False
  then have "\<nexists>sqls. prepareAll tokenize (qtPlaceholders q) statements = Inr (Inr sqls)"
    using prepareAll_only_ready by blast
  with False show ?thesis
    by (auto simp: runStatements_def Let_def split: sum.split prod.split)
qed

section \<open>Values are literals\<close>

lemma extracted_sql_value: "sql_value (extractInputValue s)"
  by (auto simp: extractInputValue_def Let_def split: jsnum.split)

definition placed :: "placeholders \<Rightarrow> token \<Rightarrow> string \<Rightarrow> bool" where
  "placed ps t p =
     (if is_placeholder t
      then \<exists>s. placeholder_value ps (variable t) = Some (PhText s) \<and> s \<noteq> []
           \<and> (\<forall>r. ends r \<longrightarrow> read_literal (p @ r) = Some (value_literal (extractInputValue s), r))
      else p = tkValue t)"


definition example_tokens :: "string \<Rightarrow> token list" where
  "example_tokens s = [\<lparr>tkType = OtherType ''WORD'', tkValue = ''SELECT ''\<rparr>,
     \<lparr>tkType = OtherType ''PLACEHOLDER'', tkValue = '':a''\<rparr>]"


section \<open>What a value is read as\<close>

text \<open>A quoted value is the text between the quotation marks.\<close>

lemma quoted_value: "extractInputValue (quote1 # s @ [quote1]) = Str s"
proof -
  have "js_trim (quote1 # s @ [quote1]) = quote1 # s @ [quote1]"
    by (simp add: js_trim_def quote1_def is_space_def)
  moreover have "quoted_by quote1 (quote1 # s @ [quote1])"
    by (simp add: quoted_by_def js_starts_with_def js_ends_with_def)
  ultimately show ?thesis by (simp add: extractInputValue_def Let_def)
qed

text \<open>A value that only begins like a number becomes that number: a date is its year.\<close>

lemma date_becomes_year:
  "extractInputValue ''2024-01-05'' = Num (Dec 2024 0)" "extractInputValue ''12abc'' = Num (Dec 12 0)"
  by code_simp+

lemma infinity_is_a_word: "escapeValue (extractInputValue ''Infinity'') = ''Infinity''"
  by code_simp

text \<open>A placeholder written less than a second ago has no value, not even an empty one: the run throws.\<close>

lemma fresh_placeholder_throws:
  "fst (runStatements example_tokens False failing_db (\<lambda>w. 0) [''SELECT :a'']
     \<lparr>qtPlaceholders = [], qtData = None, qtProgress = None, qtTabIndex = 0, qtToasts = [], qtRefreshes = 0\<rparr> [])
   = Some (TypeError ''input.trim is not a function'')"
  by code_simp

text \<open>The test for a tokenizer that loses text does not notice one.\<close>

lemma lossy_tokenizer_unnoticed:
  "prepareStatement (\<lambda>s. [\<lparr>tkType = OtherType ''WORD'', tkValue = ''DELETE FROM t''\<rparr>]) []
     ''DELETE FROM t WHERE id = 1'' = Inr (Inr ''DELETE FROM t'')"
  by code_simp

text \<open>\<open>ALTER TABLE\<close> does not make the studio load the schema again.\<close>

lemma alter_is_not_seen:
  "\<not> alters_schema True ''ALTER TABLE t RENAME TO u''" "\<not> alters_schema False ''ALTER TABLE t RENAME TO u''"
  by code_simp+

lemma explained_twice:
  "explained_statement Mysql True ''explain format=json select 1'' = ''explain format=json explain format=json select 1''"
  by code_simp

section \<open>Tabs of results\<close>

lemma query_loop_orders:
  "query_loop db now n i ss st w = (st1, w1) \<Longrightarrow> list_all (\<lambda>r. mqOrder r < i) (mqResults st) \<Longrightarrow>
     distinct (map mqOrder (mqResults st)) \<Longrightarrow> distinct (map mqOrder (mqResults st1))"
proof (induction ss arbitrary: i st w)
  case (Cons s ss)
  obtain a w2 where q: "dbQuery db s w = (a, w2)" by (cases "dbQuery db s w")
  show ?case
  proof (cases a)
    case (Inl e)
    with q Cons.prems show ?thesis by (auto simp: Let_def emit_def)
  next
    case (Inr r)
    have later: "list_all (\<lambda>r. mqOrder r < Suc i) (mqResults st)"
      using Cons.prems(2) by (auto simp: list_all_iff)
    obtain st2 where loop: "query_loop db now n (Suc i) ss st2 w2 = (st1, w1)"
      and st2: "mqResults st2 = mqResults st \<or> mqResults st2 = mqResults st @ [\<lparr>mqSql = s, mqOrder = i, mqResult = r\<rparr>]"
      using Cons.prems(1) Inr q by (auto simp: Let_def)
    show ?thesis
      by (rule Cons.IH [OF loop]) (use st2 later Cons.prems(2,3) in \<open>auto simp: list_all_iff\<close>)
  qed
qed simp

text \<open>The tabs of a run have different keys.\<close>

lemma first_letters:
  "''explain_'' @ a \<noteq> ''query_'' @ b" "''explain_'' @ a \<noteq> ''summary''" "''query_'' @ a \<noteq> ''summary''"
  by simp_all

lemma result_tabs_distinct:
  "distinct (map mqOrder rs) \<Longrightarrow> distinct (map fst (query_tabs d (Some rs) progress))"
proof -
  assume o: "distinct (map mqOrder rs)"
  have mem: "k \<in> fst ` set (concat (map (result_tabs d) rs)) \<Longrightarrow>
      \<exists>r \<in> set rs. k = ''explain_'' @ nat_digits (mqOrder r) \<or> k = ''query_'' @ nat_digits (mqOrder r)" for k rs
    by (auto simp: result_tabs_def split: if_splits)
  have "distinct (map fst (concat (map (result_tabs d) rs)))"
    using o
  proof (induction rs)
    case (Cons r rs)
    have "k \<notin> set (map fst (concat (map (result_tabs d) rs)))" if "k \<in> set (map fst (result_tabs d r))" for k
      using mem [of k rs] that Cons.prems by (auto simp: result_tabs_def image_iff split: if_splits)
    then show ?case
      using Cons by (auto simp: result_tabs_def)
  qed simp
  moreover have "''summary'' \<notin> set (map fst (concat (map (result_tabs d) rs)))"
    using mem [of "''summary''" rs] by auto
  ultimately show ?thesis by (auto simp: query_tabs_def split: option.split)
qed

end
