(* ===== verification/SavedDocs.thy ===== *)
theory SavedDocs
  imports Effects
begin

text \<open>
  The saved queries of the studio and the namespaces they are in: the interface
  \<open>drivers/saved-doc/saved-doc-driver.ts\<close> and its two implementations, over the browser's
  database (\<open>indexdb-saved-doc.ts\<close>, the tables of \<open>indexdb.ts\<close>) and over a file of the desktop
  program (\<open>electron-saved-doc.ts\<close>).  The clock (in milliseconds) and the generated identifier are
  arguments.  An operation is a function of the state of its store that returns a value or an
  error.
\<close>

section \<open>The interface\<close>

record SavedDocNamespace =
  nsId :: string
  nsName :: string
  nsCreatedAt :: int
  nsUpdatedAt :: int

record SavedDocInput =
  diName :: string
  diContent :: string

datatype SavedDocType = SqlDoc

record SavedDocData = SavedDocInput +
  sdId :: string
  sdType :: SavedDocType
  sdNamespace :: "string \<times> string"
  sdCreatedAt :: int
  sdUpdatedAt :: int

record SavedDocGroup =
  sgNamespace :: SavedDocNamespace
  sgDocs :: "SavedDocData list"

definition seconds :: "int \<Rightarrow> int" where
  "seconds now = now div 1000"

section \<open>Tables of the browser's database\<close>

text \<open>A table is its rows in the order of their primary key, the identifier.\<close>

definition row_get :: "('r \<Rightarrow> string) \<Rightarrow> string \<Rightarrow> 'r list \<Rightarrow> 'r option" where
  "row_get key k t = find (\<lambda>r. key r = k) t"

definition row_add :: "('r \<Rightarrow> string) \<Rightarrow> 'r \<Rightarrow> 'r list \<Rightarrow> 'r list result" where
  "row_add key r t =
     (if row_get key (key r) t \<noteq> None then Inl (JsError ''ConstraintError'')
      else Inr (insert_by (\<lambda>a b. text_le (key a) (key b)) r t))"

definition row_update :: "('r \<Rightarrow> string) \<Rightarrow> string \<Rightarrow> ('r \<Rightarrow> 'r) \<Rightarrow> 'r list \<Rightarrow> 'r list" where
  "row_update key k f t = map (\<lambda>r. if key r = k then f r else r) t"

definition row_delete :: "('r \<Rightarrow> string) \<Rightarrow> string \<Rightarrow> 'r list \<Rightarrow> 'r list" where
  "row_delete key k t = filter (\<lambda>r. key r \<noteq> k) t"

record IndexDbNamespace =
  nrId :: string
  nrDatabase :: string
  nrName :: string
  nrCreated :: int
  nrUpdated :: int

record IndexDbDoc =
  drId :: string
  drDatabase :: string
  drNamespace :: string
  drName :: string
  drType :: SavedDocType
  drContent :: string
  drCreated :: int
  drUpdated :: int

text \<open>
  The listeners are numbered; \<open>ixCalls\<close> is the order in which they were called.
\<close>

record IndexdbSavedDoc =
  ixDatabaseId :: string
  ixNamespaces :: "IndexDbNamespace list"
  ixDocs :: "IndexDbDoc list"
  ixListeners :: "nat list"
  ixCalls :: "nat list"

definition ix_triggerChange :: "IndexdbSavedDoc \<Rightarrow> IndexdbSavedDoc" where
  "ix_triggerChange s = s\<lparr>ixCalls := ixCalls s @ ixListeners s\<rparr>"

definition ix_addChangeListener :: "nat \<Rightarrow> IndexdbSavedDoc \<Rightarrow> IndexdbSavedDoc" where
  "ix_addChangeListener cb s = s\<lparr>ixListeners := ixListeners s @ [cb]\<rparr>"

definition ix_removeChangeListener :: "nat \<Rightarrow> IndexdbSavedDoc \<Rightarrow> IndexdbSavedDoc" where
  "ix_removeChangeListener cb s = s\<lparr>ixListeners := filter (\<lambda>c. c \<noteq> cb) (ixListeners s)\<rparr>"

definition namespace_of_row :: "IndexDbNamespace \<Rightarrow> SavedDocNamespace" where
  "namespace_of_row r =
     \<lparr>nsId = nrId r, nsName = nrName r, nsCreatedAt = nrCreated r, nsUpdatedAt = nrUpdated r\<rparr>"

definition doc_of_row :: "string \<times> string \<Rightarrow> IndexDbDoc \<Rightarrow> SavedDocData" where
  "doc_of_row ns r =
     \<lparr>diName = drName r, diContent = drContent r, sdId = drId r, sdType = drType r, sdNamespace = ns,
      sdCreatedAt = drCreated r, sdUpdatedAt = drUpdated r\<rparr>"

definition ix_createNamespace ::
  "int \<Rightarrow> string \<Rightarrow> string \<Rightarrow> (IndexdbSavedDoc, SavedDocNamespace) io" where
  "ix_createNamespace now i name s =
     (let row = \<lparr>nrId = i, nrDatabase = ixDatabaseId s, nrName = name,
                 nrCreated = seconds now, nrUpdated = seconds now\<rparr>
      in case row_add nrId row (ixNamespaces s) of
           Inl e \<Rightarrow> (Inl e, s)
         | Inr t \<Rightarrow> (Inr (namespace_of_row row), ix_triggerChange (s\<lparr>ixNamespaces := t\<rparr>)))"

definition ix_removeNamespace :: "string \<Rightarrow> (IndexdbSavedDoc, unit) io" where
  "ix_removeNamespace i s =
     (Inr (), ix_triggerChange (s\<lparr>ixNamespaces := row_delete nrId i (ixNamespaces s),
        ixDocs := filter (\<lambda>d. drNamespace d \<noteq> i) (ixDocs s)\<rparr>))"

definition ix_updateNamespace ::
  "int \<Rightarrow> string \<Rightarrow> string \<Rightarrow> (IndexdbSavedDoc, SavedDocNamespace) io" where
  "ix_updateNamespace now i name s =
     (case row_get nrId i (ixNamespaces s) of
        None \<Rightarrow> (Inl (JsError ''Namespace does not exist''), s)
      | Some r \<Rightarrow>
          (let f = (\<lambda>old. old\<lparr>nrDatabase := nrDatabase r, nrCreated := nrCreated r, nrName := name,
                             nrUpdated := seconds now\<rparr>)
           in (Inr (namespace_of_row (f r)),
               ix_triggerChange (s\<lparr>ixNamespaces := row_update nrId i f (ixNamespaces s)\<rparr>))))"

definition ix_rows :: "IndexdbSavedDoc \<Rightarrow> IndexDbNamespace list" where
  "ix_rows s = filter (\<lambda>r. nrDatabase r = ixDatabaseId s) (ixNamespaces s)"

definition ix_getNamespaces :: "int \<Rightarrow> string \<Rightarrow> (IndexdbSavedDoc, SavedDocNamespace list) io" where
  "ix_getNamespaces now i s =
     (if ix_rows s = []
      then io_bind (ix_createNamespace now i ''Workplace'') (\<lambda>n. io_return [n]) s
      else (Inr (map namespace_of_row (ix_rows s)), s))"

definition ix_createDoc ::
  "int \<Rightarrow> string \<Rightarrow> SavedDocType \<Rightarrow> string \<Rightarrow> SavedDocInput \<Rightarrow> (IndexdbSavedDoc, SavedDocData) io" where
  "ix_createDoc now i ty namespace inp s =
     (case row_get nrId namespace (ixNamespaces s) of
        None \<Rightarrow> (Inl (JsError ''Namespace does not exist''), s)
      | Some n \<Rightarrow>
          (let row = \<lparr>drId = i, drDatabase = ixDatabaseId s, drNamespace = namespace, drName = diName inp,
                      drType = ty, drContent = diContent inp, drCreated = seconds now, drUpdated = seconds now\<rparr>
           in case row_add drId row (ixDocs s) of
                Inl e \<Rightarrow> (Inl e, s)
              | Inr t \<Rightarrow> (Inr (doc_of_row (namespace, nrName n) row), ix_triggerChange (s\<lparr>ixDocs := t\<rparr>))))"

definition ix_removeDoc :: "string \<Rightarrow> (IndexdbSavedDoc, unit) io" where
  "ix_removeDoc i s = (Inr (), ix_triggerChange (s\<lparr>ixDocs := row_delete drId i (ixDocs s)\<rparr>))"

definition ix_updateDoc :: "int \<Rightarrow> string \<Rightarrow> SavedDocInput \<Rightarrow> (IndexdbSavedDoc, SavedDocData) io" where
  "ix_updateDoc now i inp s =
     (case row_get drId i (ixDocs s) of
        None \<Rightarrow> (Inl (JsError ''Document does not exist''), s)
      | Some d \<Rightarrow>
          (case row_get nrId (drNamespace d) (ixNamespaces s) of
             None \<Rightarrow> (Inl (JsError ''Namespace does not exist''), s)
           | Some n \<Rightarrow>
               (let f = (\<lambda>old. d\<lparr>drContent := diContent inp, drUpdated := seconds now, drName := diName inp\<rparr>)
                in (Inr (doc_of_row (nrId n, nrName n) (f d)),
                    ix_triggerChange (s\<lparr>ixDocs := row_update drId i f (ixDocs s)\<rparr>)))))"

definition ix_groups :: "IndexdbSavedDoc \<Rightarrow> SavedDocNamespace list \<Rightarrow> SavedDocGroup list" where
  "ix_groups s ns =
     map (\<lambda>n. \<lparr>sgNamespace = n,
                sgDocs = map (doc_of_row (nsId n, nsName n))
                  (filter (\<lambda>d. drNamespace d = nsId n) (filter (\<lambda>d. drDatabase d = ixDatabaseId s) (ixDocs s)))\<rparr>) ns"

definition ix_getDocs :: "int \<Rightarrow> string \<Rightarrow> (IndexdbSavedDoc, SavedDocGroup list) io" where
  "ix_getDocs now i = io_bind (ix_getNamespaces now i) (\<lambda>ns s. (Inr (ix_groups s ns), s))"

section \<open>The store of the desktop program\<close>

text \<open>
  The objects of namespaces are shared by the list and by the documents created in them, so
  they are kept in a store and named by their place in it; documents read from the file have
  copies of their own.  \<open>elFile\<close> is what the file holds, and \<open>elIpc\<close> whether the program gives
  access to it.
\<close>

record 'n ElectronDoc = SavedDocInput +
  edId :: string
  edType :: SavedDocType
  edNamespace :: 'n
  edCreatedAt :: int
  edUpdatedAt :: int

type_synonym DocsFile =
  "SavedDocNamespace list \<times> (string \<times> SavedDocNamespace ElectronDoc list) list"

record ElectronSavedDocs =
  elObjects :: "SavedDocNamespace list"
  elList :: "nat list option"
  elDocs :: "(string \<times> nat ElectronDoc list) list"
  elFile :: "DocsFile option"
  elIpc :: bool
  elListeners :: "nat list"
  elCalls :: "nat list"

definition el_triggerChange :: "ElectronSavedDocs \<Rightarrow> ElectronSavedDocs" where
  "el_triggerChange s = s\<lparr>elCalls := elCalls s @ elListeners s\<rparr>"

definition el_addChangeListener :: "nat \<Rightarrow> ElectronSavedDocs \<Rightarrow> ElectronSavedDocs" where
  "el_addChangeListener cb s = s\<lparr>elListeners := elListeners s @ [cb]\<rparr>"

definition el_removeChangeListener :: "nat \<Rightarrow> ElectronSavedDocs \<Rightarrow> ElectronSavedDocs" where
  "el_removeChangeListener cb s = s\<lparr>elListeners := filter (\<lambda>c. c \<noteq> cb) (elListeners s)\<rparr>"

definition with_namespace :: "'m \<Rightarrow> 'n ElectronDoc \<Rightarrow> 'm ElectronDoc" where
  "with_namespace m d =
     \<lparr>diName = diName d, diContent = diContent d, edId = edId d, edType = edType d, edNamespace = m,
      edCreatedAt = edCreatedAt d, edUpdatedAt = edUpdatedAt d\<rparr>"

text \<open>The objects of the documents of one namespace, each with a new object for its copy.\<close>

fun load_docs ::
  "SavedDocNamespace list \<Rightarrow> SavedDocNamespace ElectronDoc list \<Rightarrow> SavedDocNamespace list \<times> nat ElectronDoc list" where
  "load_docs objs [] = (objs, [])"
| "load_docs objs (d # ds) =
     (let (objs1, ds1) = load_docs (objs @ [edNamespace d]) ds
      in (objs1, with_namespace (length objs) d # ds1))"

fun load_all ::
  "SavedDocNamespace list \<Rightarrow> (string \<times> SavedDocNamespace ElectronDoc list) list \<Rightarrow>
   SavedDocNamespace list \<times> (string \<times> nat ElectronDoc list) list" where
  "load_all objs [] = (objs, [])"
| "load_all objs ((k, ds) # rest) =
     (let (objs1, ds1) = load_docs objs ds; (objs2, rest1) = load_all objs1 rest
      in (objs2, (k, ds1) # rest1))"

definition default_workspace :: "int \<Rightarrow> SavedDocNamespace" where
  "default_workspace now =
     \<lparr>nsId = ''workspace'', nsName = ''Workspace'', nsCreatedAt = seconds now, nsUpdatedAt = seconds now\<rparr>"

definition el_load :: "int \<Rightarrow> ElectronSavedDocs \<Rightarrow> ElectronSavedDocs" where
  "el_load now s =
     (let n = length (elObjects s) in
      case elFile s of
        Some (ns # nss, docs) \<Rightarrow>
          (let (objs, ds) = load_all (elObjects s @ ns # nss) docs
           in s\<lparr>elObjects := objs, elList := Some [n..<n + length (ns # nss)], elDocs := ds\<rparr>)
      | _ \<Rightarrow> s\<lparr>elObjects := elObjects s @ [default_workspace now], elList := Some [n],
              elDocs := [(''workspace'', [])]\<rparr>)"

definition el_getNamespaces :: "int \<Rightarrow> (ElectronSavedDocs, nat list) io" where
  "el_getNamespaces now s =
     (case elList s of
        Some ns \<Rightarrow> (Inr ns, s)
      | None \<Rightarrow>
          if \<not> elIpc s then (Inl (JsError ''Docs driver not found''), s)
          else (let s1 = el_load now s in (Inr (the (elList s1)), s1)))"

definition file_of :: "ElectronSavedDocs \<Rightarrow> DocsFile" where
  "file_of s =
     (map (\<lambda>a. elObjects s ! a) (case elList s of None \<Rightarrow> [] | Some l \<Rightarrow> l),
      map (\<lambda>(k, ds). (k, map (\<lambda>d. with_namespace (elObjects s ! edNamespace d) d) ds)) (elDocs s))"

text \<open>\<open>save\<close>: the file is written in the background, and a failure of that is not noticed.\<close>

definition el_save :: "(ElectronSavedDocs, unit) io" where
  "el_save s =
     (if \<not> elIpc s then (Inl (JsError ''Docs driver not found''), s)
      else (Inr (), s\<lparr>elFile := Some (file_of s)\<rparr>))"

definition el_saved :: "'a \<Rightarrow> (ElectronSavedDocs, 'a) io" where
  "el_saved x = io_bind el_save (\<lambda>_. io_return x)"

text \<open>The same with the listeners called.\<close>

definition el_announced :: "'a \<Rightarrow> (ElectronSavedDocs, 'a) io" where
  "el_announced x = io_bind el_save (\<lambda>_ s. (Inr x, el_triggerChange s))"

definition el_find :: "ElectronSavedDocs \<Rightarrow> nat list \<Rightarrow> string \<Rightarrow> nat option" where
  "el_find s ns i = find (\<lambda>a. nsId (elObjects s ! a) = i) ns"

definition el_createNamespace ::
  "int \<Rightarrow> string \<Rightarrow> string \<Rightarrow> (ElectronSavedDocs, SavedDocNamespace) io" where
  "el_createNamespace now i name =
     io_bind (el_getNamespaces now) (\<lambda>ns s.
       let n = \<lparr>nsId = i, nsName = name, nsCreatedAt = seconds now, nsUpdatedAt = seconds now\<rparr>
       in el_saved n (s\<lparr>elObjects := elObjects s @ [n], elList := Some (ns @ [length (elObjects s)])\<rparr>))"

definition el_updateNamespace ::
  "int \<Rightarrow> string \<Rightarrow> string \<Rightarrow> (ElectronSavedDocs, SavedDocNamespace) io" where
  "el_updateNamespace now i name =
     io_bind (el_getNamespaces now) (\<lambda>ns s.
       case el_find s ns i of
         None \<Rightarrow> (Inl (JsError ''Namespace not found''), s)
       | Some a \<Rightarrow>
           let n = (elObjects s ! a)\<lparr>nsUpdatedAt := seconds now, nsName := name\<rparr>
           in el_saved n (s\<lparr>elObjects := (elObjects s)[a := n]\<rparr>))"

definition el_removeNamespace :: "int \<Rightarrow> string \<Rightarrow> (ElectronSavedDocs, unit) io" where
  "el_removeNamespace now i =
     io_bind (el_getNamespaces now) (\<lambda>ns s.
       el_saved () (s\<lparr>elList := Some (filter (\<lambda>a. nsId (elObjects s ! a) \<noteq> i) ns)\<rparr>))"

definition shown_doc :: "ElectronSavedDocs \<Rightarrow> nat ElectronDoc \<Rightarrow> SavedDocData" where
  "shown_doc s d =
     (let n = elObjects s ! edNamespace d
      in \<lparr>diName = diName d, diContent = diContent d, sdId = edId d, sdType = edType d,
          sdNamespace = (nsId n, nsName n), sdCreatedAt = edCreatedAt d, sdUpdatedAt = edUpdatedAt d\<rparr>)"

definition docs_at :: "(string \<times> 'd list) list \<Rightarrow> string \<Rightarrow> 'd list" where
  "docs_at docs k = (case map_of docs k of None \<Rightarrow> [] | Some ds \<Rightarrow> ds)"

definition el_createDoc ::
  "int \<Rightarrow> string \<Rightarrow> SavedDocType \<Rightarrow> string \<Rightarrow> SavedDocInput \<Rightarrow> (ElectronSavedDocs, SavedDocData) io" where
  "el_createDoc now i ty namespace inp =
     io_bind (el_getNamespaces now) (\<lambda>ns s.
       case el_find s ns namespace of
         None \<Rightarrow> (Inl (TypeError ''Cannot read properties of undefined''), s)
       | Some a \<Rightarrow>
           let r = \<lparr>diName = diName inp, diContent = diContent inp, edId = i, edType = ty, edNamespace = a,
                    edCreatedAt = seconds now, edUpdatedAt = seconds now\<rparr>;
               k = nsId (elObjects s ! a)
           in el_announced (shown_doc s r)
                (s\<lparr>elDocs := AList.update k (r # docs_at (elDocs s) k) (elDocs s)\<rparr>))"

definition el_groups :: "ElectronSavedDocs \<Rightarrow> nat list \<Rightarrow> SavedDocGroup list" where
  "el_groups s ns =
     map (\<lambda>a. \<lparr>sgNamespace = elObjects s ! a,
                sgDocs = map (shown_doc s) (docs_at (elDocs s) (nsId (elObjects s ! a)))\<rparr>) ns"

definition el_getDocs :: "int \<Rightarrow> (ElectronSavedDocs, SavedDocGroup list) io" where
  "el_getDocs now = io_bind (el_getNamespaces now) (\<lambda>ns s. (Inr (el_groups s ns), s))"

text \<open>The first document with the identifier is changed in place.\<close>

fun change_first :: "('d \<Rightarrow> bool) \<Rightarrow> ('d \<Rightarrow> 'd) \<Rightarrow> 'd list \<Rightarrow> 'd list" where
  "change_first P f [] = []"
| "change_first P f (d # ds) = (if P d then f d # ds else d # change_first P f ds)"

definition first_holder :: "('d \<Rightarrow> bool) \<Rightarrow> (string \<times> 'd list) list \<Rightarrow> string option" where
  "first_holder P docs = map_option fst (find (\<lambda>(k, ds). list_ex P ds) (obj_entries docs))"

definition el_updateDoc :: "int \<Rightarrow> string \<Rightarrow> SavedDocInput \<Rightarrow> (ElectronSavedDocs, SavedDocData) io" where
  "el_updateDoc now i inp =
     io_bind (el_getNamespaces now) (\<lambda>_ s.
       case first_holder (\<lambda>d. edId d = i) (elDocs s) of
         None \<Rightarrow> (Inl (JsError ''Doc not found''), s)
       | Some k \<Rightarrow>
           let ds = docs_at (elDocs s) k;
               f = (\<lambda>d. d\<lparr>diContent := diContent inp, diName := diName inp, edUpdatedAt := seconds now\<rparr>)
           in el_announced (shown_doc s (f (the (find (\<lambda>d. edId d = i) ds))))
                (s\<lparr>elDocs := AList.update k (change_first (\<lambda>d. edId d = i) f ds) (elDocs s)\<rparr>))"

definition el_removeDoc :: "int \<Rightarrow> string \<Rightarrow> (ElectronSavedDocs, unit) io" where
  "el_removeDoc now i =
     io_bind (el_getNamespaces now) (\<lambda>_ s.
       el_announced () (s\<lparr>elDocs := map (\<lambda>(k, ds). (k, filter (\<lambda>d. edId d \<noteq> i) ds)) (elDocs s)\<rparr>))"

section \<open>Events of a session\<close>

datatype DocEvent =
    CreateNamespace string string
  | UpdateNamespace string string
  | RemoveNamespace string
  | CreateDoc string string SavedDocInput
  | UpdateDoc string SavedDocInput
  | RemoveDoc string

text \<open>
  One operation of the interface, with the identifier it generates as the first argument of the
  creating ones; an operation that fails leaves what it has done.
\<close>

fun ix_step :: "int \<times> DocEvent \<Rightarrow> IndexdbSavedDoc \<Rightarrow> IndexdbSavedDoc" where
  "ix_step (now, CreateNamespace i name) s = snd (ix_createNamespace now i name s)"
| "ix_step (now, UpdateNamespace i name) s = snd (ix_updateNamespace now i name s)"
| "ix_step (now, RemoveNamespace i) s = snd (ix_removeNamespace i s)"
| "ix_step (now, CreateDoc i namespace inp) s = snd (ix_createDoc now i SqlDoc namespace inp s)"
| "ix_step (now, UpdateDoc i inp) s = snd (ix_updateDoc now i inp s)"
| "ix_step (now, RemoveDoc i) s = snd (ix_removeDoc i s)"

fun el_step :: "int \<times> DocEvent \<Rightarrow> ElectronSavedDocs \<Rightarrow> ElectronSavedDocs" where
  "el_step (now, CreateNamespace i name) s = snd (el_createNamespace now i name s)"
| "el_step (now, UpdateNamespace i name) s = snd (el_updateNamespace now i name s)"
| "el_step (now, RemoveNamespace i) s = snd (el_removeNamespace now i s)"
| "el_step (now, CreateDoc i namespace inp) s = snd (el_createDoc now i SqlDoc namespace inp s)"
| "el_step (now, UpdateDoc i inp) s = snd (el_updateDoc now i inp s)"
| "el_step (now, RemoveDoc i) s = snd (el_removeDoc now i s)"

end
