(* ===== verification/SavedDocFacts.thy ===== *)
theory SavedDocFacts
  imports SavedDocs
begin

text \<open>
  Both stores of saved queries keep the same thing: namespaces with names, and documents with a
  namespace, a name and a content.  That is the locale \<open>doc_store\<close>, interpreted on both; what
  the lists of both show follows from it.
\<close>

section \<open>What a store promises\<close>

record Store =
  stSpaces :: "string \<rightharpoonup> string"
  stDocs :: "string \<rightharpoonup> string \<times> string \<times> string"

fun spec_step :: "DocEvent \<Rightarrow> Store \<Rightarrow> Store" where
  "spec_step (CreateNamespace i name) S = S\<lparr>stSpaces := (stSpaces S)(i \<mapsto> name)\<rparr>"
| "spec_step (UpdateNamespace i name) S =
     (if stSpaces S i = None then S else S\<lparr>stSpaces := (stSpaces S)(i \<mapsto> name)\<rparr>)"
| "spec_step (RemoveNamespace i) S =
     \<lparr>stSpaces = (stSpaces S)(i := None),
      stDocs = (\<lambda>j. case stDocs S j of None \<Rightarrow> None | Some (k, x) \<Rightarrow> if k = i then None else Some (k, x))\<rparr>"
| "spec_step (CreateDoc i k inp) S =
     (if stSpaces S k = None then S
      else S\<lparr>stDocs := (stDocs S)(i \<mapsto> (k, diName inp, diContent inp))\<rparr>)"
| "spec_step (UpdateDoc i inp) S =
     (case stDocs S i of None \<Rightarrow> S
      | Some (k, x) \<Rightarrow> S\<lparr>stDocs := (stDocs S)(i \<mapsto> (k, diName inp, diContent inp))\<rparr>)"
| "spec_step (RemoveDoc i) S = S\<lparr>stDocs := (stDocs S)(i := None)\<rparr>"

text \<open>The identifiers that an event generates are new.\<close>

fun new_ids :: "DocEvent \<Rightarrow> string set" where
  "new_ids (CreateNamespace i name) = {i}"
| "new_ids (CreateDoc i k inp) = {i}"
| "new_ids e = {}"

fun fresh_events :: "string set \<Rightarrow> (int \<times> DocEvent) list \<Rightarrow> bool" where
  "fresh_events U [] = True"
| "fresh_events U (e # es) = (new_ids (snd e) \<inter> U = {} \<and> fresh_events (U \<union> new_ids (snd e)) es)"

lemma fresh_events_mono: "fresh_events U es \<Longrightarrow> V \<subseteq> U \<Longrightarrow> fresh_events V es"
  by (induction es arbitrary: U V) (auto, metis Un_mono subset_refl)

locale doc_store =
  fixes view :: "'s \<Rightarrow> Store"
    and inv :: "'s \<Rightarrow> bool"
    and used :: "'s \<Rightarrow> string set"
    and step :: "int \<times> DocEvent \<Rightarrow> 's \<Rightarrow> 's"
  assumes step_inv: "inv s \<Longrightarrow> new_ids e \<inter> used s = {} \<Longrightarrow> inv (step (now, e) s)"
    and step_view: "inv s \<Longrightarrow> new_ids e \<inter> used s = {} \<Longrightarrow> view (step (now, e) s) = spec_step e (view s)"
    and step_used: "inv s \<Longrightarrow> new_ids e \<inter> used s = {} \<Longrightarrow> used (step (now, e) s) \<subseteq> used s \<union> new_ids e"
begin

lemma run_view:
  "inv s \<Longrightarrow> fresh_events (used s) es \<Longrightarrow>
     inv (fold step es s) \<and> view (fold step es s) = fold (\<lambda>e. spec_step (snd e)) es (view s)"
proof (induction es arbitrary: s)
  case (Cons e es)
  obtain now ev where e: "e = (now, ev)" by (cases e)
  with Cons.prems have new: "new_ids ev \<inter> used s = {}" by simp
  have "fresh_events (used (step e s)) es"
    using Cons.prems(2) step_used [OF Cons.prems(1) new, of now] e by (auto intro: fresh_events_mono)
  with Cons.IH [of "step e s"] step_inv [OF Cons.prems(1) new, of now] step_view [OF Cons.prems(1) new, of now] e
  show ?case by simp
qed simp

end

section \<open>Tables\<close>

lemma row_get_map_of: "row_get key k t = map_of (map (\<lambda>r. (key r, r)) t) k"
  by (induction t) (auto simp: row_get_def)

lemma row_get_Cons: "row_get key k (r # t) = (if key r = k then Some r else row_get key k t)"
  by (simp add: row_get_def)

lemma row_get_None: "row_get key k t = None \<longleftrightarrow> k \<notin> key ` set t"
  by (auto simp: row_get_def find_None_iff)

lemma row_get_key: "row_get key k t = Some r \<Longrightarrow> key r = k \<and> r \<in> set t"
  by (auto simp: row_get_def find_Some_iff)

lemma set_insert_by: "set (insert_by le x xs) = insert x (set xs)"
  by (metis mset_insert_by set_mset_add_mset_insert set_mset_mset)

lemma row_add_cases:
  "row_add key r t = (if key r \<in> key ` set t then Inl (JsError ''ConstraintError'')
     else Inr (insert_by (\<lambda>a b. text_le (key a) (key b)) r t))"
  using row_get_None [of key "key r" t] by (auto simp: row_add_def)

lemma row_get_insert:
  "key r \<notin> key ` set t \<Longrightarrow> row_get key k (insert_by le r t) = (if k = key r then Some r else row_get key k t)"
  by (induction t) (auto simp: row_get_Cons row_get_def)

lemma distinct_insert:
  "key r \<notin> key ` set t \<Longrightarrow> distinct (map key t) \<Longrightarrow> distinct (map key (insert_by le r t))"
  by (induction t) (auto simp: set_insert_by)

lemma row_get_update:
  "(\<And>r. key r = i \<Longrightarrow> key (f r) = i) \<Longrightarrow>
     row_get key k (row_update key i f t) = (if k = i then map_option f (row_get key k t) else row_get key k t)"
  by (induction t) (auto simp: row_update_def row_get_def)

lemma keys_update: "(\<And>r. key r = i \<Longrightarrow> key (f r) = i) \<Longrightarrow> map key (row_update key i f t) = map key t"
  by (auto simp: row_update_def)

lemma row_get_filter:
  "distinct (map key t) \<Longrightarrow>
     row_get key k (filter P t) = (case row_get key k t of None \<Rightarrow> None | Some r \<Rightarrow> if P r then Some r else None)"
proof (induction t)
  case (Cons r t)
  then show ?case
    using row_get_None [of key k t] by (auto simp: row_get_Cons split: option.split)
qed (simp add: row_get_def)

lemma row_get_delete: "row_get key k (row_delete key i t) = (if k = i then None else row_get key k t)"
  by (induction t) (auto simp: row_delete_def row_get_def)

lemma distinct_map_filter': "distinct (map key t) \<Longrightarrow> distinct (map key (filter P t))"
  by (induction t) auto

section \<open>The browser's store\<close>

definition ix_spaces :: "IndexdbSavedDoc \<Rightarrow> string \<rightharpoonup> string" where
  "ix_spaces s i =
     (case row_get nrId i (ixNamespaces s) of
        None \<Rightarrow> None | Some r \<Rightarrow> if nrDatabase r = ixDatabaseId s then Some (nrName r) else None)"

definition ix_view :: "IndexdbSavedDoc \<Rightarrow> Store" where
  "ix_view s =
     \<lparr>stSpaces = ix_spaces s,
      stDocs = (\<lambda>i. case row_get drId i (ixDocs s) of
          None \<Rightarrow> None
        | Some d \<Rightarrow> if drDatabase d = ixDatabaseId s \<and> ix_spaces s (drNamespace d) \<noteq> None
                   then Some (drNamespace d, drName d, drContent d) else None)\<rparr>"

definition ix_inv :: "IndexdbSavedDoc \<Rightarrow> bool" where
  "ix_inv s = (distinct (map nrId (ixNamespaces s)) \<and> distinct (map drId (ixDocs s)))"

definition ix_used :: "IndexdbSavedDoc \<Rightarrow> string set" where
  "ix_used s = nrId ` set (ixNamespaces s) \<union> drId ` set (ixDocs s) \<union> drNamespace ` set (ixDocs s)"

lemma ix_trigger [simp]:
  "ix_view (ix_triggerChange s) = ix_view s" "ix_inv (ix_triggerChange s) = ix_inv s"
  "ix_used (ix_triggerChange s) = ix_used s"
  by (simp_all add: ix_triggerChange_def ix_view_def ix_spaces_def ix_inv_def ix_used_def fun_eq_iff cong: option.case_cong)

lemma ix_trigger_fields [simp]:
  "ixNamespaces (ix_triggerChange s) = ixNamespaces s" "ixDocs (ix_triggerChange s) = ixDocs s"
  by (simp_all add: ix_triggerChange_def)

lemma ix_spaces_docs [simp]: "ix_spaces (s\<lparr>ixDocs := t\<rparr>) = ix_spaces s"
  by (simp add: ix_spaces_def fun_eq_iff split: option.split)

lemma ix_view_eqI:
  assumes "\<And>i. ix_spaces s i = stSpaces S i" and "\<And>i. stDocs (ix_view s) i = stDocs S i"
  shows "ix_view s = S"
  using assms by (cases S) (auto simp: ix_view_def fun_eq_iff)

lemma ix_view_createNamespace:
  assumes "ix_inv s" "i \<notin> ix_used s"
  shows "ix_view (snd (ix_createNamespace now i name s)) = spec_step (CreateNamespace i name) (ix_view s)
    \<and> ix_inv (snd (ix_createNamespace now i name s))
    \<and> ix_used (snd (ix_createNamespace now i name s)) \<subseteq> ix_used s \<union> {i}"
proof -
  have new: "i \<notin> nrId ` set (ixNamespaces s)" and nodoc: "\<And>d. d \<in> set (ixDocs s) \<Longrightarrow> drNamespace d \<noteq> i"
    using assms(2) by (auto simp: ix_used_def)
  let ?row = "\<lparr>nrId = i, nrDatabase = ixDatabaseId s, nrName = name, nrCreated = seconds now, nrUpdated = seconds now\<rparr>"
  let ?t = "insert_by (\<lambda>a b. text_le (nrId a) (nrId b)) ?row (ixNamespaces s)"
  have run: "snd (ix_createNamespace now i name s) = ix_triggerChange (s\<lparr>ixNamespaces := ?t\<rparr>)"
    using new by (simp add: ix_createNamespace_def row_add_cases Let_def)
  have get: "row_get nrId k ?t = (if k = i then Some ?row else row_get nrId k (ixNamespaces s))" for k
    using new row_get_insert [of nrId ?row "ixNamespaces s" k] by simp
  have sp: "ix_spaces (s\<lparr>ixNamespaces := ?t\<rparr>) = (ix_spaces s)(i \<mapsto> name)"
    by (auto simp: ix_spaces_def get fun_eq_iff split: option.split)
  have "ix_view (s\<lparr>ixNamespaces := ?t\<rparr>) = spec_step (CreateNamespace i name) (ix_view s)"
  proof (rule ix_view_eqI)
    fix j
    show "stDocs (ix_view (s\<lparr>ixNamespaces := ?t\<rparr>)) j = stDocs (spec_step (CreateNamespace i name) (ix_view s)) j"
      using nodoc row_get_key [of drId j "ixDocs s"]
      by (auto simp: ix_view_def sp split: option.split)
  qed (simp add: sp ix_view_def)
  moreover have "distinct (map nrId ?t)"
    using distinct_insert [of nrId ?row "ixNamespaces s"] new assms(1) by (simp add: ix_inv_def)
  ultimately show ?thesis
    using assms(1) by (auto simp: run ix_inv_def ix_used_def set_insert_by)
qed

lemma ix_view_updateNamespace:
  assumes "ix_inv s"
  shows "ix_view (snd (ix_updateNamespace now i name s)) = spec_step (UpdateNamespace i name) (ix_view s)
    \<and> ix_inv (snd (ix_updateNamespace now i name s))
    \<and> ix_used (snd (ix_updateNamespace now i name s)) \<subseteq> ix_used s"
proof (cases "row_get nrId i (ixNamespaces s)")
  case None
  then show ?thesis
    using assms by (simp add: ix_updateNamespace_def ix_view_def ix_spaces_def)
next
  case (Some r)
  let ?f = "\<lambda>old. old\<lparr>nrDatabase := nrDatabase r, nrCreated := nrCreated r, nrName := name, nrUpdated := seconds now\<rparr>"
  let ?t = "row_update nrId i ?f (ixNamespaces s)"
  have run: "snd (ix_updateNamespace now i name s) = ix_triggerChange (s\<lparr>ixNamespaces := ?t\<rparr>)"
    using Some by (simp add: ix_updateNamespace_def Let_def)
  have get: "row_get nrId k ?t = (if k = i then Some (?f r) else row_get nrId k (ixNamespaces s))" for k
    using row_get_update [of nrId i ?f k "ixNamespaces s"] Some by simp
  have sp: "ix_spaces (s\<lparr>ixNamespaces := ?t\<rparr>) =
      (if ix_spaces s i = None then ix_spaces s else (ix_spaces s)(i \<mapsto> name))"
    using Some by (auto simp: ix_spaces_def get fun_eq_iff split: option.split)
  have "ix_view (s\<lparr>ixNamespaces := ?t\<rparr>) = spec_step (UpdateNamespace i name) (ix_view s)"
    by (rule ix_view_eqI) (auto simp: sp ix_view_def split: option.split)
  moreover have "map nrId ?t = map nrId (ixNamespaces s)" by (rule keys_update) simp
  moreover from this have "nrId ` set ?t = nrId ` set (ixNamespaces s)" by (metis list.set_map)
  ultimately show ?thesis
    using assms by (auto simp: run ix_inv_def ix_used_def)
qed

lemma ix_view_removeNamespace:
  assumes "ix_inv s"
  shows "ix_view (snd (ix_removeNamespace i s)) = spec_step (RemoveNamespace i) (ix_view s)
    \<and> ix_inv (snd (ix_removeNamespace i s)) \<and> ix_used (snd (ix_removeNamespace i s)) \<subseteq> ix_used s"
proof -
  let ?s = "s\<lparr>ixNamespaces := row_delete nrId i (ixNamespaces s), ixDocs := filter (\<lambda>d. drNamespace d \<noteq> i) (ixDocs s)\<rparr>"
  have sp: "ix_spaces (s\<lparr>ixNamespaces := row_delete nrId i (ixNamespaces s)\<rparr>) = (ix_spaces s)(i := None)"
    by (auto simp: ix_spaces_def row_get_delete fun_eq_iff split: option.split)
  have "ix_view ?s = spec_step (RemoveNamespace i) (ix_view s)"
    using assms by (intro ix_view_eqI)
      (auto simp: sp ix_view_def ix_inv_def row_get_filter split: option.split)
  moreover have "ix_inv ?s" using assms by (simp add: ix_inv_def row_delete_def distinct_map_filter')
  ultimately show ?thesis
    by (auto simp: ix_removeNamespace_def ix_used_def row_delete_def)
qed

lemma ix_view_createDoc:
  assumes "ix_inv s" "i \<notin> ix_used s"
  shows "ix_view (snd (ix_createDoc now i ty k inp s)) = spec_step (CreateDoc i k inp) (ix_view s)
    \<and> ix_inv (snd (ix_createDoc now i ty k inp s)) \<and> ix_used (snd (ix_createDoc now i ty k inp s)) \<subseteq> ix_used s \<union> {i}"
proof (cases "row_get nrId k (ixNamespaces s)")
  case None
  then show ?thesis
    using assms by (auto simp: ix_createDoc_def ix_view_def ix_spaces_def)
next
  case (Some n)
  have new: "i \<notin> drId ` set (ixDocs s)" using assms(2) by (auto simp: ix_used_def)
  let ?row = "\<lparr>drId = i, drDatabase = ixDatabaseId s, drNamespace = k, drName = diName inp, drType = ty,
      drContent = diContent inp, drCreated = seconds now, drUpdated = seconds now\<rparr>"
  let ?t = "insert_by (\<lambda>a b. text_le (drId a) (drId b)) ?row (ixDocs s)"
  have run: "snd (ix_createDoc now i ty k inp s) = ix_triggerChange (s\<lparr>ixDocs := ?t\<rparr>)"
    using Some new by (simp add: ix_createDoc_def row_add_cases Let_def)
  have get: "row_get drId j ?t = (if j = i then Some ?row else row_get drId j (ixDocs s))" for j
    using new row_get_insert [of drId ?row "ixDocs s" j] by simp
  have none: "row_get drId i (ixDocs s) = None" using new by (simp add: row_get_None)
  have "ix_view (s\<lparr>ixDocs := ?t\<rparr>) = spec_step (CreateDoc i k inp) (ix_view s)"
    by (rule ix_view_eqI) (auto simp: ix_view_def get none split: option.split)
  moreover have "distinct (map drId ?t)"
    using distinct_insert [of drId ?row "ixDocs s"] new assms(1) by (simp add: ix_inv_def)
  moreover have "k \<in> nrId ` set (ixNamespaces s)"
    using row_get_key [OF Some] by auto
  ultimately show ?thesis
    using assms(1) by (auto simp: run ix_inv_def ix_used_def set_insert_by)
qed

lemma ix_view_updateDoc:
  assumes "ix_inv s"
  shows "ix_view (snd (ix_updateDoc now i inp s)) = spec_step (UpdateDoc i inp) (ix_view s)
    \<and> ix_inv (snd (ix_updateDoc now i inp s)) \<and> ix_used (snd (ix_updateDoc now i inp s)) \<subseteq> ix_used s"
proof (cases "row_get drId i (ixDocs s)")
  case None
  then show ?thesis using assms by (simp add: ix_updateDoc_def ix_view_def)
next
  case (Some d)
  show ?thesis
  proof (cases "row_get nrId (drNamespace d) (ixNamespaces s)")
    case None
    then show ?thesis using assms Some by (simp add: ix_updateDoc_def ix_view_def ix_spaces_def)
  next
    case ns: (Some n)
    let ?f = "\<lambda>old. d\<lparr>drContent := diContent inp, drUpdated := seconds now, drName := diName inp\<rparr>"
    let ?t = "row_update drId i ?f (ixDocs s)"
    have d: "drId d = i" "d \<in> set (ixDocs s)" using row_get_key [OF Some] by auto
    have run: "snd (ix_updateDoc now i inp s) = ix_triggerChange (s\<lparr>ixDocs := ?t\<rparr>)"
      using Some ns by (simp add: ix_updateDoc_def Let_def)
    have get: "row_get drId j ?t = (if j = i then Some (?f d) else row_get drId j (ixDocs s))" for j
      using row_get_update [of drId i ?f j "ixDocs s"] Some d by simp
    have "ix_view (s\<lparr>ixDocs := ?t\<rparr>) = spec_step (UpdateDoc i inp) (ix_view s)"
      by (rule ix_view_eqI) (auto simp: ix_view_def get Some split: option.split)
    moreover have "map drId ?t = map drId (ixDocs s)" by (rule keys_update) (simp add: d)
    moreover from this have "drId ` set ?t = drId ` set (ixDocs s)" by (metis list.set_map)
    moreover have "drNamespace ` set ?t \<subseteq> drNamespace ` set (ixDocs s)"
      using d by (auto simp: row_update_def)
    ultimately show ?thesis
      using assms by (auto simp: run ix_inv_def ix_used_def)
  qed
qed

lemma ix_view_removeDoc:
  assumes "ix_inv s"
  shows "ix_view (snd (ix_removeDoc i s)) = spec_step (RemoveDoc i) (ix_view s)
    \<and> ix_inv (snd (ix_removeDoc i s)) \<and> ix_used (snd (ix_removeDoc i s)) \<subseteq> ix_used s"
proof -
  let ?s = "s\<lparr>ixDocs := row_delete drId i (ixDocs s)\<rparr>"
  have "ix_view ?s = spec_step (RemoveDoc i) (ix_view s)"
    by (rule ix_view_eqI) (auto simp: ix_view_def row_get_delete split: option.split)
  moreover have "ix_inv ?s" using assms by (simp add: ix_inv_def row_delete_def distinct_map_filter')
  ultimately show ?thesis
    by (auto simp: ix_removeDoc_def ix_used_def row_delete_def)
qed

interpretation browser: doc_store ix_view ix_inv ix_used ix_step
proof
  fix s e now
  assume s: "ix_inv s" and new: "new_ids e \<inter> ix_used s = {}"
  have all: "ix_view (ix_step (now, e) s) = spec_step e (ix_view s) \<and> ix_inv (ix_step (now, e) s)
      \<and> ix_used (ix_step (now, e) s) \<subseteq> ix_used s \<union> new_ids e"
    using s new
    by (cases e; simp only: ix_step.simps new_ids.simps Un_empty_right;
        intro ix_view_createNamespace ix_view_updateNamespace ix_view_removeNamespace ix_view_createDoc
          ix_view_updateDoc ix_view_removeDoc; simp)
  show "ix_inv (ix_step (now, e) s)" "ix_view (ix_step (now, e) s) = spec_step e (ix_view s)"
    "ix_used (ix_step (now, e) s) \<subseteq> ix_used s \<union> new_ids e"
    using all by blast+
qed

section \<open>The store of the desktop program\<close>

text \<open>All documents, also those of namespaces that were removed, with the key they are under.\<close>

definition tag_docs :: "string \<times> 'n ElectronDoc list \<Rightarrow> (string \<times> string \<times> string \<times> string) list" where
  "tag_docs p = map (\<lambda>d. (edId d, (fst p, diName d, diContent d))) (snd p)"

definition all_docs :: "(string \<times> 'n ElectronDoc list) list \<Rightarrow> (string \<times> string \<times> string \<times> string) list" where
  "all_docs docs = concat (map tag_docs docs)"

definition el_ids :: "ElectronSavedDocs \<Rightarrow> nat list" where
  "el_ids s = (case elList s of None \<Rightarrow> [] | Some ns \<Rightarrow> ns)"

definition el_spaces :: "ElectronSavedDocs \<Rightarrow> string \<rightharpoonup> string" where
  "el_spaces s i = map_option (\<lambda>a. nsName (elObjects s ! a)) (el_find s (el_ids s) i)"

definition el_view :: "ElectronSavedDocs \<Rightarrow> Store" where
  "el_view s =
     \<lparr>stSpaces = el_spaces s,
      stDocs = (\<lambda>i. case map_of (all_docs (elDocs s)) i of
          None \<Rightarrow> None | Some (k, x) \<Rightarrow> if el_spaces s k \<noteq> None then Some (k, x) else None)\<rparr>"

definition el_inv :: "ElectronSavedDocs \<Rightarrow> bool" where
  "el_inv s = (elIpc s \<and> elList s \<noteq> None \<and> distinct (map (\<lambda>a. nsId (elObjects s ! a)) (el_ids s))
     \<and> list_all (\<lambda>a. a < length (elObjects s)) (el_ids s)
     \<and> distinct (map fst (elDocs s)) \<and> distinct (map fst (all_docs (elDocs s))))"

definition el_used :: "ElectronSavedDocs \<Rightarrow> string set" where
  "el_used s = (\<lambda>a. nsId (elObjects s ! a)) ` set (el_ids s) \<union> fst ` set (elDocs s)
     \<union> fst ` set (all_docs (elDocs s))"

definition same_store :: "ElectronSavedDocs \<Rightarrow> ElectronSavedDocs \<Rightarrow> bool" where
  "same_store s t = (elObjects s = elObjects t \<and> elList s = elList t \<and> elDocs s = elDocs t \<and> elIpc s = elIpc t)"

lemma same_store_facts:
  assumes "same_store s t"
  shows "el_view s = el_view t" "el_inv s = el_inv t" "el_used s = el_used t"
  using assms
  by (simp_all add: same_store_def el_view_def el_spaces_def el_find_def el_inv_def el_used_def el_ids_def fun_eq_iff
      cong: option.case_cong)

lemma saved_same: "elIpc s \<Longrightarrow> same_store (snd (el_saved x s)) s"
  "elIpc s \<Longrightarrow> same_store (snd (el_announced x s)) s"
  by (simp_all add: el_saved_def el_announced_def el_save_def io_bind_def same_store_def el_triggerChange_def)

lemma loaded_namespaces: "el_inv s \<Longrightarrow> io_bind (el_getNamespaces now) f s = f (el_ids s) s"
  by (auto simp: el_inv_def el_getNamespaces_def io_bind_def el_ids_def)

text \<open>What an operation leaves, when it ends with saving the state \<open>t\<close>.\<close>

lemma store_after_save:
  assumes "elIpc t"
  shows "el_view (snd (el_saved x t)) = el_view t" "el_inv (snd (el_saved x t)) = el_inv t"
    "el_used (snd (el_saved x t)) = el_used t" "el_view (snd (el_announced y t)) = el_view t"
    "el_inv (snd (el_announced y t)) = el_inv t" "el_used (snd (el_announced y t)) = el_used t"
  by (simp_all only: same_store_facts [OF saved_same(1) [OF assms]] same_store_facts [OF saved_same(2) [OF assms]])

lemma find_append: "find P (xs @ ys) = (case find P xs of None \<Rightarrow> find P ys | Some x \<Rightarrow> Some x)"
  by (induction xs) auto

lemma find_cong': "(\<And>x. x \<in> set xs \<Longrightarrow> P x = Q x) \<Longrightarrow> find P xs = find Q xs"
  by (induction xs) auto

lemma el_findD: "el_find s ns i = Some a \<Longrightarrow> a \<in> set ns \<and> nsId (elObjects s ! a) = i"
  by (auto simp: el_find_def find_Some_iff)

lemma el_find_None: "el_find s ns i = None \<longleftrightarrow> i \<notin> (\<lambda>a. nsId (elObjects s ! a)) ` set ns"
  by (auto simp: el_find_def find_None_iff)

lemma el_view_eqI:
  assumes "\<And>i. el_spaces s i = stSpaces S i" and "\<And>i. stDocs (el_view s) i = stDocs S i"
  shows "el_view s = S"
  using assms by (cases S) (auto simp: el_view_def fun_eq_iff)

text \<open>Changing the documents of one key.\<close>

lemma update_old: "k \<notin> fst ` set A \<Longrightarrow> AList.update k ds (A @ (k, es) # B) = A @ (k, ds) # B"
  by (induction A) auto

lemma update_new: "k \<notin> fst ` set A \<Longrightarrow> AList.update k ds A = A @ [(k, ds)]"
  by (induction A) auto

lemma all_docs_update:
  assumes "distinct (map fst docs)"
  obtains X Y where "all_docs docs = X @ tag_docs (k, docs_at docs k) @ Y"
    "\<And>ds. all_docs (AList.update k ds docs) = X @ tag_docs (k, ds) @ Y"
proof (cases "k \<in> fst ` set docs")
  case True
  then obtain A es B where d: "docs = A @ (k, es) # B" by (metis imageE prod.collapse split_list)
  with assms have k: "k \<notin> fst ` set A" by auto
  have "docs_at docs k = es"
    using k by (simp add: d docs_at_def map_of_eq_None_iff [THEN iffD2] map_add_def split: option.split)
  then show ?thesis
    using that [of "all_docs A" "all_docs B"] k by (simp add: d update_old all_docs_def)
next
  case False
  have "docs_at docs k = []"
    using False by (simp add: docs_at_def map_of_eq_None_iff [THEN iffD2])
  then show ?thesis
    using that [of "all_docs docs" "[]"] False by (simp add: update_new all_docs_def tag_docs_def)
qed

lemma map_of_middle: "i \<notin> fst ` set X \<Longrightarrow> map_of (X @ (i, v) # T) = (map_of (X @ T))(i \<mapsto> v)"
  by (induction X) (auto simp: fun_upd_twist)

lemma keys_after_update: "fst ` set (AList.update k ds docs) = insert k (fst ` set docs)"
  by (simp add: dom_update)

definition simulates :: "DocEvent \<Rightarrow> ElectronSavedDocs \<Rightarrow> ElectronSavedDocs \<Rightarrow> bool" where
  "simulates e s t = (el_view t = spec_step e (el_view s) \<and> el_inv t \<and> el_used t \<subseteq> el_used s \<union> new_ids e)"

lemma simulates_saved:
  "elIpc t \<Longrightarrow> simulates e s t \<Longrightarrow> simulates e s (snd (el_saved x t))"
  "elIpc t \<Longrightarrow> simulates e s t \<Longrightarrow> simulates e s (snd (el_announced y t))"
  by (simp_all add: simulates_def store_after_save)

lemma el_fields [simp]:
  "el_ids (s\<lparr>elDocs := d\<rparr>) = el_ids s" "el_spaces (s\<lparr>elDocs := d\<rparr>) = el_spaces s"
  "el_ids (s\<lparr>elList := Some ns\<rparr>) = ns" "el_ids (s\<lparr>elObjects := os\<rparr>) = el_ids s"
  "el_ids (s\<lparr>elObjects := os, elList := Some ns\<rparr>) = ns"
  by (simp_all add: el_ids_def el_spaces_def el_find_def fun_eq_iff)

lemma el_createNamespace_sim:
  assumes "el_inv s" "i \<notin> el_used s"
  shows "simulates (CreateNamespace i name) s (snd (el_createNamespace now i name s))"
proof -
  let ?n = "\<lparr>nsId = i, nsName = name, nsCreatedAt = seconds now, nsUpdatedAt = seconds now\<rparr>"
  let ?a = "length (elObjects s)"
  let ?t = "s\<lparr>elObjects := elObjects s @ [?n], elList := Some (el_ids s @ [?a])\<rparr>"
  have old: "(elObjects s @ [?n]) ! a = elObjects s ! a" if "a \<in> set (el_ids s)" for a
    using assms(1) that by (auto simp: el_inv_def list_all_iff nth_append)
  have new: "(elObjects s @ [?n]) ! ?a = ?n" by simp
  have ids: "map (\<lambda>a. nsId ((elObjects s @ [?n]) ! a)) (el_ids s) = map (\<lambda>a. nsId (elObjects s ! a)) (el_ids s)"
    using old by simp
  have unused: "i \<notin> set (map (\<lambda>a. nsId (elObjects s ! a)) (el_ids s))" "i \<notin> fst ` set (elDocs s)"
    using assms(2) by (auto simp: el_used_def)
  have fnd: "el_find ?t (el_ids s) j = el_find s (el_ids s) j" for j
    unfolding el_find_def by (rule find_cong') (simp add: old)
  have none: "el_find s (el_ids s) i = None" using unused(1) by (auto simp: el_find_None)
  have sp: "el_spaces ?t = (el_spaces s)(i \<mapsto> name)"
  proof
    fix j
    have "el_find ?t (el_ids s @ [?a]) j = (case el_find s (el_ids s) j of None \<Rightarrow> if j = i then Some ?a else None | Some a \<Rightarrow> Some a)"
      using fnd [of j] by (auto simp: el_find_def find_append split: option.split)
    then show "el_spaces ?t j = ((el_spaces s)(i \<mapsto> name)) j"
      using none old el_findD [of s "el_ids s" j]
      by (auto simp: el_spaces_def split: option.split)
  qed
  have keys: "k \<noteq> i" if "map_of (all_docs (elDocs s)) j = Some (k, x)" for j k x
    using map_of_SomeD [OF that] unused(2) by (auto simp: all_docs_def tag_docs_def)
  have "el_view ?t = spec_step (CreateNamespace i name) (el_view s)"
    by (rule el_view_eqI) (use keys in \<open>auto simp: sp el_view_def split: option.split\<close>)
  moreover have "el_inv ?t"
    using assms(1) unused(1) ids
    by (auto simp: el_inv_def list_all_iff simp del: map_eq_conv)
  moreover have "el_used ?t \<subseteq> el_used s \<union> {i}"
    using old by (auto simp: el_used_def)
  ultimately have "simulates (CreateNamespace i name) s ?t" by (simp add: simulates_def)
  then show ?thesis
    using assms(1) by (simp add: el_createNamespace_def loaded_namespaces [OF assms(1)] Let_def simulates_saved el_inv_def)
qed

lemma el_updateNamespace_sim:
  assumes "el_inv s"
  shows "simulates (UpdateNamespace i name) s (snd (el_updateNamespace now i name s))"
proof (cases "el_find s (el_ids s) i")
  case None
  then show ?thesis
    using assms by (simp add: el_updateNamespace_def loaded_namespaces simulates_def el_view_def el_spaces_def)
next
  case (Some a)
  let ?n = "(elObjects s ! a)\<lparr>nsUpdatedAt := seconds now, nsName := name\<rparr>"
  let ?t = "s\<lparr>elObjects := (elObjects s)[a := ?n]\<rparr>"
  have a: "a \<in> set (el_ids s)" "nsId (elObjects s ! a) = i" using el_findD [OF Some] by auto
  then have lt: "a < length (elObjects s)" using assms by (auto simp: el_inv_def list_all_iff)
  have nsid: "nsId ((elObjects s)[a := ?n] ! b) = nsId (elObjects s ! b)" for b
    using lt by (simp add: nth_list_update)
  have fnd: "el_find ?t (el_ids s) j = el_find s (el_ids s) j" for j
    unfolding el_find_def by (rule find_cong') (simp add: nsid)
  have other: "el_find s (el_ids s) x = Some a \<Longrightarrow> x = i" for x
    using el_findD [of s "el_ids s" x a] a(2) by simp
  have sp: "el_spaces ?t = (el_spaces s)(i \<mapsto> name)"
  proof
    fix j
    have "el_spaces ?t j = map_option (\<lambda>b. nsName ((elObjects s)[a := ?n] ! b)) (el_find s (el_ids s) j)"
      by (simp add: el_spaces_def fnd)
    also have "\<dots> = ((el_spaces s)(i \<mapsto> name)) j"
    proof (cases "j = i")
      case True
      with Some lt show ?thesis by simp
    next
      case False
      then have "a \<noteq> b" if "el_find s (el_ids s) j = Some b" for b
        using other [of j] that by blast
      with False show ?thesis
        by (cases "el_find s (el_ids s) j") (simp_all add: el_spaces_def)
    qed
    finally show "el_spaces ?t j = ((el_spaces s)(i \<mapsto> name)) j" .
  qed
  have "el_spaces s i \<noteq> None" using Some by (simp add: el_spaces_def)
  then have "el_view ?t = spec_step (UpdateNamespace i name) (el_view s)"
    by (intro el_view_eqI) (auto simp: sp el_view_def split: option.split)
  moreover have "el_inv ?t" using assms by (simp add: el_inv_def nsid)
  moreover have "el_used ?t = el_used s" by (simp add: el_used_def nsid)
  ultimately have "simulates (UpdateNamespace i name) s ?t" by (simp add: simulates_def)
  then show ?thesis
    using assms Some
    by (simp add: el_updateNamespace_def loaded_namespaces [OF assms] Let_def simulates_saved el_inv_def)
qed

lemma el_removeNamespace_sim:
  assumes "el_inv s"
  shows "simulates (RemoveNamespace i) s (snd (el_removeNamespace now i s))"
proof -
  let ?ns = "filter (\<lambda>a. nsId (elObjects s ! a) \<noteq> i) (el_ids s)"
  let ?t = "s\<lparr>elList := Some ?ns\<rparr>"
  have "find (\<lambda>a. nsId (elObjects s ! a) = j) (filter (\<lambda>a. nsId (elObjects s ! a) \<noteq> i) xs)
      = (if j = i then None else find (\<lambda>a. nsId (elObjects s ! a) = j) xs)" for j xs
    by (induction xs) auto
  then have sp: "el_spaces ?t = (el_spaces s)(i := None)"
    by (auto simp: el_spaces_def el_find_def fun_eq_iff)
  have "el_view ?t = spec_step (RemoveNamespace i) (el_view s)"
    by (rule el_view_eqI) (auto simp: sp el_view_def split: option.split)
  moreover have "el_inv ?t"
    using assms by (auto simp: el_inv_def list_all_iff intro: distinct_map_filter')
  moreover have "el_used ?t \<subseteq> el_used s" by (auto simp: el_used_def)
  ultimately have "simulates (RemoveNamespace i) s ?t" by (simp add: simulates_def)
  then show ?thesis
    using assms by (simp add: el_removeNamespace_def loaded_namespaces [OF assms] simulates_saved el_inv_def)
qed

lemma el_createDoc_sim:
  assumes "el_inv s" "i \<notin> el_used s"
  shows "simulates (CreateDoc i k inp) s (snd (el_createDoc now i ty k inp s))"
proof (cases "el_find s (el_ids s) k")
  case None
  then show ?thesis
    using assms by (auto simp: el_createDoc_def loaded_namespaces simulates_def el_view_def el_spaces_def)
next
  case (Some a)
  have k: "nsId (elObjects s ! a) = k" "k \<in> el_used s" using el_findD [OF Some] by (auto simp: el_used_def)
  let ?r = "\<lparr>diName = diName inp, diContent = diContent inp, edId = i, edType = ty, edNamespace = a,
      edCreatedAt = seconds now, edUpdatedAt = seconds now\<rparr>"
  let ?d = "AList.update k (?r # docs_at (elDocs s) k) (elDocs s)"
  let ?t = "s\<lparr>elDocs := ?d\<rparr>"
  have dk: "distinct (map fst (elDocs s))" and dd: "distinct (map fst (all_docs (elDocs s)))"
    using assms(1) by (auto simp: el_inv_def)
  obtain X Y where XY: "all_docs (elDocs s) = X @ tag_docs (k, docs_at (elDocs s) k) @ Y"
    "\<And>ds. all_docs (AList.update k ds (elDocs s)) = X @ tag_docs (k, ds) @ Y"
    using all_docs_update [OF dk] by blast
  have alld: "all_docs ?d = X @ (i, (k, diName inp, diContent inp)) # tag_docs (k, docs_at (elDocs s) k) @ Y"
    by (simp add: XY(2)) (simp add: tag_docs_def)
  have new: "i \<notin> fst ` set (all_docs (elDocs s))" using assms(2) by (auto simp: el_used_def)
  have mo: "map_of (all_docs ?d) = (map_of (all_docs (elDocs s)))(i \<mapsto> (k, diName inp, diContent inp))"
    unfolding alld XY(1) by (rule map_of_middle) (use new XY(1) in auto)
  have "el_spaces s k \<noteq> None" using Some by (simp add: el_spaces_def)
  then have "el_view ?t = spec_step (CreateDoc i k inp) (el_view s)"
    by (intro el_view_eqI) (auto simp: el_view_def mo split: option.split)
  moreover have "el_inv ?t"
    using assms(1) dd new unfolding alld XY(1)
    by (auto simp: el_inv_def distinct_update alld XY(1))
  moreover have "el_used ?t \<subseteq> el_used s \<union> {i}"
    using k(2) by (auto simp: el_used_def keys_after_update alld XY(1) dom_update)
  ultimately have "simulates (CreateDoc i k inp) s ?t" by (simp add: simulates_def)
  then show ?thesis
    using assms Some k(1)
    by (simp add: el_createDoc_def loaded_namespaces [OF assms(1)] Let_def simulates_saved el_inv_def)
qed

lemma change_first_splits:
  "list_ex P ds \<Longrightarrow> \<exists>xs d ys. ds = xs @ d # ys \<and> P d \<and> change_first P f ds = xs @ f d # ys"
proof (induction ds)
  case (Cons e ds)
  show ?case
  proof (cases "P e")
    case True
    then show ?thesis by (intro exI [where x = "[]"]) auto
  next
    case False
    with Cons obtain xs d ys where "ds = xs @ d # ys \<and> P d \<and> change_first P f ds = xs @ f d # ys" by auto
    with False show ?thesis by (intro exI [where x = "e # xs"]) auto
  qed
qed simp

lemma find_SomeD: "find P xs = Some x \<Longrightarrow> x \<in> set xs \<and> P x"
  by (auto simp: find_Some_iff)

lemma first_holderD:
  assumes "first_holder P docs = Some k" "distinct (map fst docs)"
  shows "list_ex P (docs_at docs k)"
proof -
  obtain ds where "(k, ds) \<in> set (obj_entries docs)" "list_ex P ds"
    using assms(1) by (auto simp: first_holder_def dest!: find_SomeD)
  with assms(2) show ?thesis by (simp add: docs_at_def)
qed

lemma first_holder_None: "first_holder P docs = None \<longleftrightarrow> (\<forall>(k, ds) \<in> set docs. \<not> list_ex P ds)"
  by (auto simp: first_holder_def find_None_iff)

lemma el_updateDoc_sim:
  assumes "el_inv s"
  shows "simulates (UpdateDoc i inp) s (snd (el_updateDoc now i inp s))"
proof (cases "first_holder (\<lambda>d. edId d = i) (elDocs s)")
  case None
  then have "i \<notin> fst ` set (all_docs (elDocs s))"
    by (fastforce simp: first_holder_None all_docs_def tag_docs_def list_ex_iff)
  then have "map_of (all_docs (elDocs s)) i = None" by (simp add: map_of_eq_None_iff)
  then show ?thesis
    using assms None by (simp add: el_updateDoc_def loaded_namespaces simulates_def el_view_def)
next
  case (Some k)
  let ?f = "\<lambda>d. d\<lparr>diContent := diContent inp, diName := diName inp, edUpdatedAt := seconds now\<rparr>"
  let ?ds = "change_first (\<lambda>d. edId d = i) ?f (docs_at (elDocs s) k)"
  let ?d = "AList.update k ?ds (elDocs s)"
  let ?t = "s\<lparr>elDocs := ?d\<rparr>"
  let ?v = "(k, diName inp, diContent inp)"
  have dk: "distinct (map fst (elDocs s))" and dd: "distinct (map fst (all_docs (elDocs s)))"
    using assms by (auto simp: el_inv_def)
  obtain xs d ys where ds: "docs_at (elDocs s) k = xs @ d # ys" "edId d = i" "?ds = xs @ ?f d # ys"
    using change_first_splits [OF first_holderD [OF Some dk], of ?f] by blast
  obtain X Y where XY: "all_docs (elDocs s) = X @ tag_docs (k, docs_at (elDocs s) k) @ Y"
    "\<And>es. all_docs (AList.update k es (elDocs s)) = X @ tag_docs (k, es) @ Y"
    using all_docs_update [OF dk] by blast
  define A where "A = X @ tag_docs (k, xs)"
  define B where "B = tag_docs (k, ys) @ Y"
  have old: "all_docs (elDocs s) = A @ (i, (k, diName d, diContent d)) # B"
    using ds by (simp add: XY(1) A_def B_def tag_docs_def)
  have alld: "all_docs ?d = A @ (i, ?v) # B"
    using ds by (simp add: XY(2) A_def B_def) (simp add: tag_docs_def)
  have iA: "i \<notin> fst ` set A" using dd unfolding old by auto
  have mo: "map_of (all_docs ?d) = (map_of (all_docs (elDocs s)))(i \<mapsto> ?v)"
    unfolding alld old map_of_middle [OF iA] by simp
  have at: "map_of (all_docs (elDocs s)) i = Some (k, diName d, diContent d)"
    unfolding old map_of_middle [OF iA] by simp
  have "el_view ?t = spec_step (UpdateDoc i inp) (el_view s)"
    by (rule el_view_eqI) (auto simp: el_view_def mo at split: option.split)
  moreover have "distinct (map fst (all_docs ?d))" using dd by (simp add: alld old)
  moreover have "fst ` set (all_docs ?d) = fst ` set (all_docs (elDocs s))" by (simp add: alld old)
  moreover have "k \<in> fst ` set (elDocs s)"
    using ds(1) by (auto simp: docs_at_def split: option.splits dest!: map_of_SomeD intro: rev_image_eqI)
  ultimately have "simulates (UpdateDoc i inp) s ?t"
    using assms dk
    by (auto simp: simulates_def el_inv_def el_used_def distinct_update keys_after_update)
  then show ?thesis
    using assms Some
    by (simp add: el_updateDoc_def loaded_namespaces [OF assms] Let_def simulates_saved el_inv_def)
qed

lemma el_removeDoc_sim:
  assumes "el_inv s"
  shows "simulates (RemoveDoc i) s (snd (el_removeDoc now i s))"
proof -
  let ?d = "map (\<lambda>(k, ds). (k, filter (\<lambda>d. edId d \<noteq> i) ds)) (elDocs s)"
  let ?t = "s\<lparr>elDocs := ?d\<rparr>"
  have app: "AList.delete i (xs @ ys) = AList.delete i xs @ AList.delete i ys" for xs ys :: "(string \<times> 'x) list"
    by (induction xs) auto
  have one: "tag_docs (k, filter (\<lambda>d. edId d \<noteq> i) ds) = AList.delete i (tag_docs (k, ds))"
    for k and ds :: "nat ElectronDoc list"
    by (induction ds) (auto simp: tag_docs_def)
  have "all_docs (map (\<lambda>(k, ds). (k, filter (\<lambda>d. edId d \<noteq> i) ds)) docs) = AList.delete i (all_docs docs)"
    for docs :: "(string \<times> nat ElectronDoc list) list"
    by (induction docs) (auto simp: all_docs_def app one)
  then have alld: "all_docs ?d = AList.delete i (all_docs (elDocs s))" .
  have mo: "map_of (all_docs ?d) = (map_of (all_docs (elDocs s)))(i := None)"
    by (simp add: alld delete_conv')
  have "el_view ?t = spec_step (RemoveDoc i) (el_view s)"
    by (rule el_view_eqI) (auto simp: el_view_def mo split: option.split)
  moreover have "distinct (map fst ?d)"
    using assms by (simp add: el_inv_def split_def comp_def)
  moreover have "fst ` set ?d = fst ` set (elDocs s)" by (simp add: image_image split_def)
  moreover have "distinct (map fst (all_docs ?d))"
    using assms by (simp add: alld el_inv_def distinct_delete)
  moreover have "fst ` set (all_docs ?d) \<subseteq> fst ` set (all_docs (elDocs s))"
    unfolding alld by (metis delete_keys list.set_map set_removeAll Diff_subset)
  ultimately have "simulates (RemoveDoc i) s ?t"
    using assms by (simp add: simulates_def el_inv_def el_used_def del: set_map) blast
  then show ?thesis
    using assms by (simp add: el_removeDoc_def loaded_namespaces [OF assms] simulates_saved el_inv_def)
qed

interpretation desktop: doc_store el_view el_inv el_used el_step
proof
  fix s e now
  assume s: "el_inv s" and new: "new_ids e \<inter> el_used s = {}"
  have all: "simulates e s (el_step (now, e) s)"
    using s new
    by (cases e; simp only: el_step.simps new_ids.simps;
        intro el_createNamespace_sim el_updateNamespace_sim el_removeNamespace_sim el_createDoc_sim
          el_updateDoc_sim el_removeDoc_sim; simp)
  then show "el_inv (el_step (now, e) s)" "el_view (el_step (now, e) s) = spec_step e (el_view s)"
    "el_used (el_step (now, e) s) \<subseteq> el_used s \<union> new_ids e"
    by (simp_all add: simulates_def)
qed

section \<open>What the lists show\<close>

definition view_groups :: "SavedDocGroup list \<Rightarrow> Store" where
  "view_groups gs =
     \<lparr>stSpaces = map_of (map (\<lambda>g. (nsId (sgNamespace g), nsName (sgNamespace g))) gs),
      stDocs = map_of (concat (map (\<lambda>g. map (\<lambda>d. (sdId d, (nsId (sgNamespace g), diName d, diContent d))) (sgDocs g)) gs))\<rparr>"

text \<open>
  Lists of pairs with different keys and the same elements are the same map.
\<close>

lemma map_of_eqI:
  assumes "distinct (map fst xs)" "distinct (map fst ys)" "set xs = set ys"
  shows "map_of xs = map_of ys"
  using assms by (simp add: map_of_inject_set)

lemma row_get_Some_iff: "distinct (map key t) \<Longrightarrow> row_get key k t = Some r \<longleftrightarrow> r \<in> set t \<and> key r = k"
  by (auto simp: row_get_map_of comp_def)

text \<open>A map that is given by the elements of a list.\<close>

lemma map_of_char:
  assumes "distinct (map fst xs)" and "\<And>k v. m k = Some v \<longleftrightarrow> (k, v) \<in> set xs"
  shows "map_of xs = m"
proof
  fix k
  show "map_of xs k = m k"
  proof -
    have "map_of xs k = Some v \<longleftrightarrow> m k = Some v" for v
      using assms(2) [of k] map_of_eq_Some_iff [OF assms(1), of k] by simp
    then show ?thesis by (metis option.exhaust)
  qed
qed

lemma distinct_groups:
  assumes "distinct ks" "\<And>k. distinct (map fst (f k))" "\<And>j k x. x \<in> fst ` set (f j) \<Longrightarrow> x \<in> fst ` set (f k) \<Longrightarrow> j = k"
  shows "distinct (map fst (concat (map f ks)))"
  using assms(1)
proof (induction ks)
  case (Cons k ks)
  have "set (map fst (f k)) \<inter> set (map fst (concat (map f ks))) = {}"
    using Cons.prems assms(3) [of _ k] by fastforce
  with Cons assms(2) show ?case by simp
qed simp

lemma ix_spaces_iff:
  assumes "distinct (map nrId (ixNamespaces s))"
  shows "ix_spaces s i = Some n \<longleftrightarrow> (\<exists>r \<in> set (ix_rows s). nrId r = i \<and> nrName r = n)"
proof -
  have "ix_spaces s i = Some n \<longleftrightarrow>
      (\<exists>r. row_get nrId i (ixNamespaces s) = Some r \<and> nrDatabase r = ixDatabaseId s \<and> nrName r = n)"
    by (auto simp: ix_spaces_def split: option.split)
  then show ?thesis
    by (auto simp: row_get_Some_iff [OF assms] ix_rows_def)
qed

lemma ix_list_shows:
  assumes "ix_inv s" "ix_rows s \<noteq> []"
  shows "\<exists>gs. ix_getDocs now i s = (Inr gs, s) \<and> view_groups gs = ix_view s"
proof (intro exI conjI)
  let ?gs = "ix_groups s (map namespace_of_row (ix_rows s))"
  show "ix_getDocs now i s = (Inr ?gs, s)"
    using assms(2) by (simp add: ix_getDocs_def ix_getNamespaces_def io_bind_def)
  have dn: "distinct (map nrId (ixNamespaces s))" and dd: "distinct (map drId (ixDocs s))"
    using assms(1) by (auto simp: ix_inv_def)
  have dr: "distinct (map nrId (ix_rows s))" unfolding ix_rows_def by (rule distinct_map_filter' [OF dn])
  let ?f = "\<lambda>k. map (\<lambda>d. (drId d, (k, drName d, drContent d)))
      (filter (\<lambda>d. drNamespace d = k) (filter (\<lambda>d. drDatabase d = ixDatabaseId s) (ixDocs s)))"
  have spaces: "stSpaces (view_groups ?gs) = ix_spaces s"
  proof -
    have "map_of (map (\<lambda>r. (nrId r, nrName r)) (ix_rows s)) = ix_spaces s"
      by (rule map_of_char) (use dr in \<open>auto simp: comp_def ix_spaces_iff [OF dn]\<close>)
    then show ?thesis
      by (simp add: view_groups_def ix_groups_def namespace_of_row_def comp_def)
  qed
  have docs: "stDocs (view_groups ?gs) = map_of (concat (map ?f (map nrId (ix_rows s))))"
    by (simp add: view_groups_def ix_groups_def namespace_of_row_def doc_of_row_def comp_def)
  have "distinct (map fst (concat (map ?f (map nrId (ix_rows s)))))"
  proof (rule distinct_groups [OF dr])
    show "distinct (map fst (?f k))" for k
      using distinct_map_filter' [OF distinct_map_filter' [OF dd]] by (simp add: comp_def)
    show "j = k" if "x \<in> fst ` set (?f j)" "x \<in> fst ` set (?f k)" for j k x
      using that dd by (auto dest: inj_onD [OF distinct_map [THEN iffD1, THEN conjunct2]])
  qed
  moreover have "stDocs (ix_view s) k = Some v \<longleftrightarrow> (k, v) \<in> set (concat (map ?f (map nrId (ix_rows s))))" for k v
  proof -
    have nsp: "ix_spaces s (drNamespace d) \<noteq> None \<longleftrightarrow> drNamespace d \<in> nrId ` set (ix_rows s)" for d
      using ix_spaces_iff [OF dn, of "drNamespace d"] by (auto simp: image_iff) metis+
    have iff: "stDocs (ix_view s) k = Some v \<longleftrightarrow> (\<exists>d. row_get drId k (ixDocs s) = Some d
        \<and> drDatabase d = ixDatabaseId s \<and> ix_spaces s (drNamespace d) \<noteq> None
        \<and> v = (drNamespace d, drName d, drContent d))"
      by (auto simp: ix_view_def split: option.split)
    show ?thesis
      unfolding iff nsp row_get_Some_iff [OF dd] by auto
  qed
  ultimately have "stDocs (view_groups ?gs) = stDocs (ix_view s)"
    unfolding docs by (rule map_of_char)
  with spaces show "view_groups ?gs = ix_view s" by (simp add: ix_view_def)
qed

lemma list_ids_distinct: "distinct (map f xs) \<Longrightarrow> distinct xs"
  by (rule distinct_map [THEN iffD1, THEN conjunct1])

lemma el_spaces_iff:
  assumes "el_inv s"
  shows "el_spaces s i = Some n \<longleftrightarrow> (\<exists>a \<in> set (el_ids s). nsId (elObjects s ! a) = i \<and> nsName (elObjects s ! a) = n)"
proof -
  have d: "distinct (map (\<lambda>a. nsId (elObjects s ! a)) (el_ids s))" using assms by (simp add: el_inv_def)
  have "el_find s (el_ids s) i = Some a \<longleftrightarrow> a \<in> set (el_ids s) \<and> nsId (elObjects s ! a) = i" for a
    using row_get_Some_iff [OF d, of i a] by (simp add: el_find_def row_get_def)
  then show ?thesis by (auto simp: el_spaces_def)
qed

lemma set_tag_docs:
  "(i, (j, v)) \<in> set (tag_docs (k, ds)) \<longleftrightarrow> j = k \<and> (\<exists>d \<in> set ds. edId d = i \<and> (diName d, diContent d) = v)"
  by (auto simp: tag_docs_def)

lemma set_all_docs:
  "(i, (k, v)) \<in> set (all_docs docs) \<longleftrightarrow>
     (\<exists>ds d. (k, ds) \<in> set docs \<and> d \<in> set ds \<and> edId d = i \<and> (diName d, diContent d) = v)"
proof (induction docs)
  case (Cons p docs)
  obtain j es where p: "p = (j, es)" by (cases p)
  have "(i, (k, v)) \<in> set (all_docs (p # docs)) \<longleftrightarrow>
      (j = k \<and> (\<exists>d \<in> set es. edId d = i \<and> (diName d, diContent d) = v)) \<or> (i, (k, v)) \<in> set (all_docs docs)"
    using set_tag_docs [of i k v j es] by (auto simp: all_docs_def p)
  then show ?case unfolding Cons.IH p by auto
qed (simp add: all_docs_def)

lemma el_list_shows:
  assumes "el_inv s"
  shows "\<exists>gs. el_getDocs now s = (Inr gs, s) \<and> view_groups gs = el_view s"
proof (intro exI conjI)
  let ?gs = "el_groups s (el_ids s)"
  show "el_getDocs now s = (Inr ?gs, s)"
    by (simp add: el_getDocs_def loaded_namespaces [OF assms])
  let ?id = "\<lambda>a. nsId (elObjects s ! a)"
  have di: "distinct (map ?id (el_ids s))" and dk: "distinct (map fst (elDocs s))"
    and dd: "distinct (map fst (all_docs (elDocs s)))"
    using assms by (auto simp: el_inv_def)
  let ?f = "\<lambda>k. tag_docs (k, docs_at (elDocs s) k)"
  have mem: "x \<in> set (?f k) \<longleftrightarrow> x \<in> set (all_docs (elDocs s)) \<and> fst (snd x) = k" for x k
  proof -
    have "d \<in> set (docs_at (elDocs s) k) \<longleftrightarrow> (\<exists>ds. (k, ds) \<in> set (elDocs s) \<and> d \<in> set ds)" for d
      using map_of_eq_Some_iff [OF dk, of k] by (auto simp: docs_at_def map_of_eq_None_iff split: option.split) force+
    then show ?thesis by (cases x) (auto simp: set_all_docs set_tag_docs)
  qed
  have spaces: "stSpaces (view_groups ?gs) = el_spaces s"
  proof -
    have "map_of (map (\<lambda>a. (?id a, nsName (elObjects s ! a))) (el_ids s)) = el_spaces s"
      by (rule map_of_char) (use di in \<open>auto simp: comp_def el_spaces_iff [OF assms]\<close>)
    then show ?thesis by (simp add: view_groups_def el_groups_def comp_def)
  qed
  have docs: "stDocs (view_groups ?gs) = map_of (concat (map ?f (map ?id (el_ids s))))"
    by (simp add: view_groups_def el_groups_def shown_doc_def tag_docs_def comp_def Let_def)
  have "distinct (map fst (concat (map ?f (map ?id (el_ids s)))))"
  proof (rule distinct_groups [OF di])
    show "distinct (map fst (?f k))" for k
    proof -
      obtain X Y where "all_docs (elDocs s) = X @ ?f k @ Y" by (rule all_docs_update [OF dk, of k])
      with dd show ?thesis by (metis distinct_append map_append)
    qed
    show "j = k" if xj: "x \<in> fst ` set (?f j)" and xk: "x \<in> fst ` set (?f k)" for j k x
    proof -
      obtain p where p: "x = fst p" "p \<in> set (?f j)" using xj by (rule imageE)
      obtain q where q: "x = fst q" "q \<in> set (?f k)" using xk by (rule imageE)
      have pq: "p \<in> set (all_docs (elDocs s))" "q \<in> set (all_docs (elDocs s))" "fst (snd p) = j" "fst (snd q) = k"
        using mem [of p j] mem [of q k] p(2) q(2) by simp_all
      have "inj_on fst (set (all_docs (elDocs s)))" using dd by (simp add: distinct_map)
      then have "p = q" using pq(1,2) p(1) q(1) by (metis inj_onD)
      with pq show ?thesis by simp
    qed
  qed
  moreover have "stDocs (el_view s) k = Some v \<longleftrightarrow> (k, v) \<in> set (concat (map ?f (map ?id (el_ids s))))" for k v
  proof -
    have "el_spaces s j \<noteq> None \<longleftrightarrow> j \<in> ?id ` set (el_ids s)" for j
      using el_spaces_iff [OF assms, of j] by (auto simp: image_iff)
    moreover have "stDocs (el_view s) k = Some v \<longleftrightarrow> (k, v) \<in> set (all_docs (elDocs s)) \<and> el_spaces s (fst v) \<noteq> None"
      unfolding map_of_eq_Some_iff [OF dd, symmetric] by (cases v) (auto simp: el_view_def split: option.split)
    ultimately show ?thesis
      using mem by (auto simp: image_iff)
  qed
  ultimately have "stDocs (view_groups ?gs) = stDocs (el_view s)"
    unfolding docs by (rule map_of_char)
  with spaces show "view_groups ?gs = el_view s" by (simp add: el_view_def)
qed


section \<open>Opening the file again\<close>

text \<open>A new session of the desktop program on the file of an earlier one.\<close>

definition reopened :: "ElectronSavedDocs \<Rightarrow> ElectronSavedDocs" where
  "reopened s = \<lparr>elObjects = [], elList = None, elDocs = [], elFile = elFile s, elIpc = elIpc s, elListeners = [], elCalls = []\<rparr>"

definition written :: "ElectronSavedDocs \<Rightarrow> bool" where
  "written s = (elFile s = Some (file_of s))"

lemma file_of_fields [simp]:
  "file_of (s\<lparr>elFile := f\<rparr>) = file_of s" "file_of (s\<lparr>elCalls := n\<rparr>) = file_of s"
  by (simp_all add: file_of_def)

lemma written_saved: "elIpc s \<Longrightarrow> written (snd (el_saved x s))" "elIpc s \<Longrightarrow> written (snd (el_announced y s))"
  by (simp_all add: el_saved_def el_announced_def el_save_def io_bind_def written_def el_triggerChange_def)

lemma written_step:
  assumes "el_inv s" "written s"
  shows "written (el_step e s)"
proof -
  have ipc: "elIpc s" using assms(1) by (simp add: el_inv_def)
  obtain now ev where e: "e = (now, ev)" by (cases e)
  show ?thesis
    using assms(2) ipc unfolding e
    by (cases ev)
      (auto simp: el_createNamespace_def el_updateNamespace_def el_removeNamespace_def el_createDoc_def
        el_updateDoc_def el_removeDoc_def loaded_namespaces [OF assms(1)] Let_def written_saved split: option.split)
qed

lemma written_run:
  "el_inv s \<Longrightarrow> written s \<Longrightarrow> fresh_events (el_used s) es \<Longrightarrow> written (fold el_step es s)"
proof (induction es arbitrary: s)
  case (Cons e es)
  obtain now ev where e: "e = (now, ev)" by (cases e)
  have new: "new_ids ev \<inter> el_used s = {}" using Cons.prems(3) e by simp
  have "fresh_events (el_used (el_step e s)) es"
    using Cons.prems(3) desktop.step_used [OF Cons.prems(1) new, of now] e by (auto intro: fresh_events_mono)
  with Cons.IH [of "el_step e s"] written_step [OF Cons.prems(1,2)]
    desktop.step_inv [OF Cons.prems(1) new, of now] e
  show ?case by simp
qed simp

lemma load_docs_objects:
  "\<exists>copies. fst (load_docs objs ds) = objs @ copies \<and> map edId (snd (load_docs objs ds)) = map edId ds
     \<and> tag_docs (k, snd (load_docs objs ds)) = tag_docs (k, ds)"
  by (induction objs ds rule: load_docs.induct)
     (auto simp: Let_def tag_docs_def with_namespace_def split: prod.split)

lemma load_all_objects:
  "\<exists>copies. fst (load_all objs docs) = objs @ copies \<and> map fst (snd (load_all objs docs)) = map fst docs
     \<and> all_docs (snd (load_all objs docs)) = all_docs docs"
proof (induction objs docs rule: load_all.induct)
  case (2 objs k ds rest)
  obtain objs1 ds1 where d: "load_docs objs ds = (objs1, ds1)" by (cases "load_docs objs ds")
  obtain objs2 rest1 where r: "load_all objs1 rest = (objs2, rest1)" by (cases "load_all objs1 rest")
  from load_docs_objects [of objs ds k] 2 [OF d [symmetric]] show ?case
    by (auto simp: d r all_docs_def)
qed (simp add: all_docs_def)

text \<open>What is seen depends on the listed objects and the documents only.\<close>

lemma el_spaces_objects:
  "el_spaces s i = map_option nsName (find (\<lambda>n. nsId n = i) (map (\<lambda>a. elObjects s ! a) (el_ids s)))"
proof -
  have "map_option (\<lambda>a. nsName (os ! a)) (find (\<lambda>a. nsId (os ! a) = i) ns)
      = map_option nsName (find (\<lambda>n. nsId n = i) (map (\<lambda>a. os ! a) ns))" for os ns
    by (induction ns) auto
  then show ?thesis by (simp add: el_spaces_def el_find_def)
qed

lemma el_view_objects:
  assumes "map (\<lambda>a. elObjects s ! a) (el_ids s) = map (\<lambda>a. elObjects t ! a) (el_ids t)"
    and "all_docs (elDocs s) = all_docs (elDocs t)"
  shows "el_view s = el_view t"
proof -
  have "el_spaces s = el_spaces t" by (rule ext) (simp add: el_spaces_objects assms(1))
  then show ?thesis by (simp only: el_view_def assms(2))
qed

lemma all_docs_file: "all_docs (snd (file_of s)) = all_docs (elDocs s)"
proof -
  have "tag_docs (k, map (\<lambda>d. with_namespace (g d) d) ds) = tag_docs (k, ds)"
    for k and ds :: "nat ElectronDoc list" and g :: "nat ElectronDoc \<Rightarrow> SavedDocNamespace"
    by (simp add: tag_docs_def with_namespace_def)
  then show ?thesis
    by (simp add: file_of_def all_docs_def comp_def split_def)
qed

lemma el_load_file:
  assumes "elFile s = Some (n # nss, docs)" "load_all (elObjects s @ n # nss) docs = (objs, ds)"
  shows "elObjects (el_load now s) = objs
    \<and> el_ids (el_load now s) = [length (elObjects s)..<length (elObjects s) + length (n # nss)]
    \<and> elDocs (el_load now s) = ds"
  using assms by (simp add: el_load_def el_ids_def Let_def)


section \<open>Two stores to begin with\<close>

text \<open>Both start with one namespace, and no documents; the file of the desktop program is up to date.\<close>

definition browser_start :: IndexdbSavedDoc where
  "browser_start = \<lparr>ixDatabaseId = ''db'', ixNamespaces =
       [\<lparr>nrId = ''workspace'', nrDatabase = ''db'', nrName = ''Workspace'', nrCreated = 1, nrUpdated = 1\<rparr>],
     ixDocs = [], ixListeners = [], ixCalls = []\<rparr>"

definition desktop_start :: ElectronSavedDocs where
  "desktop_start = snd (el_save (el_load 1000
     \<lparr>elObjects = [], elList = None, elDocs = [], elFile = None, elIpc = True, elListeners = [], elCalls = []\<rparr>))"

definition doc_events :: "(int \<times> DocEvent) list" where
  "doc_events = [(2000, CreateDoc ''d'' ''workspace'' \<lparr>diName = ''q'', diContent = ''SELECT 1''\<rparr>),
     (3000, CreateNamespace ''n'' ''More''), (4000, UpdateNamespace ''workspace'' ''Old''),
     (5000, UpdateDoc ''d'' \<lparr>diName = ''q'', diContent = ''SELECT 2''\<rparr>)]"

lemma starts:
  "desktop_start = \<lparr>elObjects = [default_workspace 1000], elList = Some [0], elDocs = [(''workspace'', [])],
     elFile = Some ([default_workspace 1000], [(''workspace'', [])]), elIpc = True, elListeners = [], elCalls = []\<rparr>"
  by code_simp

lemma desktop_start_ok: "el_inv desktop_start" "written desktop_start" "ix_inv browser_start"
  by code_simp+

lemma same_start: "ix_view browser_start = el_view desktop_start"
  by (rule ix_view_eqI)
     (simp_all add: starts el_view_def el_spaces_def el_find_def el_ids_def browser_start_def ix_spaces_def row_get_def
       default_workspace_def ix_view_def all_docs_def tag_docs_def)

lemma example_fresh: "fresh_events (ix_used browser_start \<union> el_used desktop_start) doc_events"
  by (simp add: starts browser_start_def ix_used_def el_used_def el_ids_def doc_events_def default_workspace_def
      all_docs_def tag_docs_def)



section \<open>What differs\<close>

text \<open>
  A document shows the name its namespace had when the file was loaded: in the session that
  created it the new name is seen, after opening the file again a later change is not.
\<close>

definition shown_names :: "ElectronSavedDocs \<Rightarrow> (string \<times> string list) list" where
  "shown_names s = map (\<lambda>g. (nsName (sgNamespace g), map (\<lambda>d. snd (sdNamespace d)) (sgDocs g)))
     (el_groups s (el_ids s))"

lemma renamed_namespace_stale:
  "shown_names (fold el_step doc_events desktop_start) = [(''Old'', [''Old'']), (''More'', [])]"
  "shown_names (el_step (9000, UpdateNamespace ''workspace'' ''New'')
      (el_load 9000 (reopened (fold el_step doc_events desktop_start)))) = [(''New'', [''Old'']), (''More'', [])]"
  by code_simp+

text \<open>
  The documents of a namespace that is removed stay in the file of the desktop program, and
  nobody who listens is told about a change of the namespaces; the browser's store does both.
\<close>

lemma removed_documents_stay:
  "map_option (\<lambda>(ns, docs). (map nsId ns, map (\<lambda>(k, ds). (k, map edId ds)) docs))
     (elFile (el_step (7000, RemoveNamespace ''workspace'') (fold el_step doc_events desktop_start)))
   = Some ([''n''], [(''workspace'', [''d''])])"
  "ixDocs (ix_step (7000, RemoveNamespace ''workspace'') (fold ix_step doc_events browser_start)) = []"
  by code_simp+

lemma namespaces_not_announced:
  "elCalls (el_step (2000, CreateNamespace ''n'' ''More'') (el_addChangeListener 1 desktop_start)) = []"
  "ixCalls (ix_step (2000, CreateNamespace ''n'' ''More'') (ix_addChangeListener 1 browser_start)) = [1]"
  by code_simp+

end
