(* ===== verification/RelationDiagram.thy ===== *)
theory RelationDiagram
  imports Complex_Main Tabs
begin

text \<open>
  The entity relationship diagram of a schema,
  \<open>components/gui/tabs/relational-diagram-tab/index.tsx\<close>: the edges of the foreign keys, the nodes of
  the tables, where they are put, and the state of the tab.  The layout of dagre is a parameter: from
  the direction, the edges and the sizes of the nodes it gives the centre of every node.
  Coordinates are rational numbers.  \<open>Math.ceil(Math.sqrt(area) / 300)\<close> is the least number of columns
  whose square is large enough, which the arithmetic of doubles gives for areas below \<open>2 ^ 50\<close>.
\<close>

section \<open>Nodes and edges\<close>

definition NODE_MARGIN :: nat where "NODE_MARGIN = 50"

definition MAX_NODE_WIDTH :: nat where "MAX_NODE_WIDTH = 300"

record ErdEdge =
  eeId :: string
  eeSource :: string
  eeTarget :: string
  eeSourceHandle :: "string option"
  eeTargetHandle :: "string option"

record ErdColumn =
  ecTitle :: string
  ecType :: string
  ecPk :: bool
  ecFk :: bool
  ecUnique :: bool

record ErdNode =
  enId :: string
  enX :: rat
  enY :: rat
  enWidth :: nat
  enHeight :: nat
  enSchemaName :: string
  enColumns :: "ErdColumn list option"

section \<open>The foreign keys of a schema\<close>

text \<open>
  The names of tables with a relationship, the columns \<open>table.column\<close> with a foreign key, and the
  edges, as the loop over the tables collects them.
\<close>

record ErdScan =
  scNames :: "string list"
  scForeignKeys :: "string list"
  scEdges :: "ErdEdge list"

text \<open>\<open>xs ? xs[0] : ''''\<close>, which is \<open>undefined\<close> for an empty list.\<close>

definition first_name :: "string list option \<Rightarrow> string option" where
  "first_name xs = (case xs of None \<Rightarrow> Some [] | Some [] \<Rightarrow> None | Some (x # _) \<Rightarrow> Some x)"

definition fk_target :: "DatabaseForeignKeyClause \<Rightarrow> string" where
  "fk_target fk = (case foreignTableName fk of None \<Rightarrow> [] | Some t \<Rightarrow> t)"

definition column_path :: "string \<Rightarrow> string option \<Rightarrow> string" where
  "column_path table column = table @ ''.'' @ template_str column"

definition erd_edge :: "DatabaseSchemaItem \<Rightarrow> DatabaseForeignKeyClause \<Rightarrow> string option \<Rightarrow> ErdEdge" where
  "erd_edge item fk column =
     \<lparr>eeId = itemName item @ ''-'' @ template_str (foreignTableName fk), eeSource = itemName item,
      eeTarget = fk_target fk, eeSourceHandle = column, eeTargetHandle = first_name (foreignColumns fk)\<rparr>"

definition add_relation ::
  "DatabaseSchemaItem \<Rightarrow> DatabaseForeignKeyClause \<Rightarrow> string option \<Rightarrow> ErdScan \<Rightarrow> ErdScan" where
  "add_relation item fk column st =
     st\<lparr>scNames := scNames st @ [itemName item, fk_target fk],
        scForeignKeys := scForeignKeys st @ [column_path (itemName item) column],
        scEdges := scEdges st @ [erd_edge item fk column]\<rparr>"

definition erd_columns_of :: "DatabaseSchemaItem \<Rightarrow> DatabaseTableColumn list" where
  "erd_columns_of item = (case itemTableSchema item of None \<Rightarrow> [] | Some ts \<Rightarrow> tsColumns ts)"

definition erd_constraints_of :: "DatabaseSchemaItem \<Rightarrow> DatabaseTableColumnConstraint list" where
  "erd_constraints_of item =
     (case itemTableSchema item of
        None \<Rightarrow> []
      | Some ts \<Rightarrow> (case tsConstraints ts of None \<Rightarrow> [] | Some cs \<Rightarrow> cs))"

definition scan_column :: "DatabaseSchemaItem \<Rightarrow> DatabaseTableColumn \<Rightarrow> ErdScan \<Rightarrow> ErdScan" where
  "scan_column item col st =
     (case con_get col foreignKey of None \<Rightarrow> st | Some fk \<Rightarrow> add_relation item fk (Some (colName col)) st)"

definition shown_key :: "DatabaseSchemaItem \<Rightarrow> DatabaseForeignKeyClause \<Rightarrow> bool" where
  "shown_key item fk =
     (foreignTableName fk \<noteq> Some (itemName item)
      \<and> length (case foreignColumns fk of None \<Rightarrow> [] | Some cs \<Rightarrow> cs) = 1)"

definition scan_constraint ::
  "DatabaseSchemaItem \<Rightarrow> DatabaseTableColumnConstraint \<Rightarrow> ErdScan \<Rightarrow> ErdScan" where
  "scan_constraint item c st =
     (case field_opt (foreignKey c) of
        None \<Rightarrow> st
      | Some fk \<Rightarrow> if shown_key item fk then add_relation item fk (first_name (fkColumns fk)) st else st)"

definition is_table :: "DatabaseSchemaItem \<Rightarrow> bool" where
  "is_table item = (itemType item = KindTable)"

definition scan_item :: "DatabaseSchemaItem \<Rightarrow> ErdScan \<Rightarrow> ErdScan" where
  "scan_item item st =
     (if \<not> is_table item then st
      else fold (scan_constraint item) (erd_constraints_of item) (fold (scan_column item) (erd_columns_of item) st))"

definition scan_schema :: "DatabaseSchemaItem list \<Rightarrow> ErdScan" where
  "scan_schema items = fold scan_item items \<lparr>scNames = [], scForeignKeys = [], scEdges = []\<rparr>"

section \<open>Nodes of the tables\<close>

definition erd_column :: "ErdScan \<Rightarrow> DatabaseSchemaItem \<Rightarrow> DatabaseTableColumn \<Rightarrow> ErdColumn" where
  "erd_column sc item col =
     \<lparr>ecTitle = colName col, ecType = colType col, ecPk = (colPk col = Some True),
      ecFk = (column_path (itemName item) (Some (colName col)) \<in> set (scForeignKeys sc)),
      ecUnique = (con_get col unique = Some True)\<rparr>"

definition node_height :: "DatabaseSchemaItem \<Rightarrow> nat" where
  "node_height item = length (erd_columns_of item) * 32 + 32"

definition erd_node :: "ErdScan \<Rightarrow> string \<Rightarrow> rat \<Rightarrow> rat \<Rightarrow> DatabaseSchemaItem \<Rightarrow> ErdNode" where
  "erd_node sc schemaName x y item =
     \<lparr>enId = itemName item, enX = x, enY = y, enWidth = 300, enHeight = node_height item,
      enSchemaName = schemaName,
      enColumns = map_option (\<lambda>ts. map (erd_column sc item) (tsColumns ts)) (itemTableSchema item)\<rparr>"

definition has_relationship :: "ErdScan \<Rightarrow> DatabaseSchemaItem \<Rightarrow> bool" where
  "has_relationship sc item = (itemName item \<in> set (scNames sc))"

text \<open>Direction, edges and nodes with their sizes to the centre of the node of a name.\<close>

type_synonym layout = "string \<Rightarrow> (string \<times> string) list \<Rightarrow> (string \<times> nat \<times> nat) list \<Rightarrow> string \<Rightarrow> rat \<times> rat"

definition getLayoutElements :: "layout \<Rightarrow> string \<Rightarrow> ErdEdge list \<Rightarrow> ErdNode list \<Rightarrow> ErdNode list" where
  "getLayoutElements dagre rankdir edges nodes =
     map (\<lambda>n. case dagre rankdir (map (\<lambda>e. (eeSource e, eeTarget e)) edges)
                  (map (\<lambda>m. (enId m, enWidth m, enHeight m)) nodes) (enId n) of
            (x, y) \<Rightarrow> n\<lparr>enX := x - of_nat (enWidth n) / 2, enY := y - of_nat (enHeight n) / 2\<rparr>) nodes"

section \<open>Tables without relationships\<close>

definition estimated_area :: "DatabaseSchemaItem list \<Rightarrow> nat" where
  "estimated_area items = foldl (\<lambda>a b. a + node_height b + NODE_MARGIN) 0 items * MAX_NODE_WIDTH"

lemma square_grows: "k \<le> (MAX_NODE_WIDTH * k)\<^sup>2"
proof -
  have "k \<le> 300 * k" by simp
  also have "\<dots> \<le> (300 * k) * (300 * k)" by (rule le_square)
  finally show ?thesis by (simp add: MAX_NODE_WIDTH_def power2_eq_square)
qed

function columns_from :: "nat \<Rightarrow> nat \<Rightarrow> nat" where
  "columns_from area k = (if area \<le> (MAX_NODE_WIDTH * k)\<^sup>2 then k else columns_from area (Suc k))"
  by pat_completeness auto

termination
  by (relation "measure (\<lambda>(area, k). area - k)")
     (use square_grows in \<open>auto simp: not_le intro: diff_less_mono2 le_less_trans\<close>)

declare columns_from.simps [simp del]

definition column_count :: "nat \<Rightarrow> nat" where
  "column_count area = columns_from area 0"

text \<open>The first index of the least height.\<close>

definition min_index :: "nat list \<Rightarrow> nat" where
  "min_index hs = length (takeWhile (\<lambda>h. h \<noteq> Min (set hs)) hs)"

record ErdColumns =
  clHeights :: "nat list"
  clNodes :: "ErdNode list list"

definition place_node ::
  "ErdScan \<Rightarrow> string \<Rightarrow> rat \<Rightarrow> rat \<Rightarrow> DatabaseSchemaItem \<Rightarrow> ErdColumns \<Rightarrow> ErdColumns" where
  "place_node sc schemaName xr yt item cl =
     (let i = min_index (clHeights cl); h = clHeights cl ! i;
          node = erd_node sc schemaName (xr + of_nat NODE_MARGIN + of_nat (i * MAX_NODE_WIDTH))
                   (yt + of_nat h) item
      in cl\<lparr>clHeights := (clHeights cl)[i := h + (node_height item + NODE_MARGIN)],
            clNodes := (clNodes cl)[i := clNodes cl ! i @ [node]]\<rparr>)"

definition place_nodes ::
  "ErdScan \<Rightarrow> string \<Rightarrow> rat \<Rightarrow> rat \<Rightarrow> DatabaseSchemaItem list \<Rightarrow> ErdColumns" where
  "place_nodes sc schemaName xr yt items =
     (let n = column_count (estimated_area items)
      in fold (place_node sc schemaName xr yt) items
           \<lparr>clHeights = replicate n 0, clNodes = replicate n []\<rparr>)"

section \<open>The diagram\<close>

definition right_of :: "ErdNode list \<Rightarrow> rat" where
  "right_of nodes = (if nodes = [] then 0
     else Max (set (map enX nodes)) + of_nat NODE_MARGIN + of_nat MAX_NODE_WIDTH)"

definition top_of :: "ErdNode list \<Rightarrow> rat" where
  "top_of nodes = (if nodes = [] then 0 else Min (set (map enY nodes)))"

definition mapItems :: "layout \<Rightarrow> DatabaseSchemaItem list \<Rightarrow> string \<Rightarrow> string option \<Rightarrow> ErdNode list \<times> ErdEdge list" where
  "mapItems dagre items schemaName rankdir =
     (let sc = scan_schema items;
          withRelationship = filter (\<lambda>x. is_table x \<and> has_relationship sc x) items;
          withoutRelationship = filter (\<lambda>x. is_table x \<and> \<not> has_relationship sc x) items;
          nodes = getLayoutElements dagre (case rankdir of None \<Rightarrow> ''LR'' | Some d \<Rightarrow> if d = [] then ''LR'' else d)
                    (scEdges sc) (map (erd_node sc schemaName 0 0) withRelationship);
          cl = place_nodes sc schemaName (right_of nodes) (top_of nodes) withoutRelationship
      in (nodes @ concat (clNodes cl), scEdges sc))"

definition mapSchema ::
  "layout \<Rightarrow> DatabaseSchemas \<Rightarrow> string \<Rightarrow> string option \<Rightarrow> (ErdNode list \<times> ErdEdge list) result" where
  "mapSchema dagre schema selected rankdir =
     (case map_of schema selected of
        None \<Rightarrow> Inl (TypeError ''schema[selectedSchema] is not iterable'')
      | Some items \<Rightarrow> Inr (mapItems dagre items selected rankdir))"

section \<open>The tab\<close>

record LayoutFlow =
  lfSchema :: DatabaseSchemas
  lfSelected :: "string option"
  lfNodes :: "ErdNode list"
  lfEdges :: "ErdEdge list"

definition lf_map :: "layout \<Rightarrow> string option \<Rightarrow> LayoutFlow \<Rightarrow> LayoutFlow result" where
  "lf_map dagre rankdir f =
     (if \<not> truthy_str (lfSelected f) then Inr f
      else rbind (mapSchema dagre (lfSchema f) (the (lfSelected f)) rankdir) (\<lambda>(ns, es).
        Inr (f\<lparr>lfNodes := ns, lfEdges := es\<rparr>)))"

text \<open>The schema of the first rendering is kept.\<close>

definition lf_open :: "layout \<Rightarrow> DatabaseSchemas \<Rightarrow> string option \<Rightarrow> LayoutFlow result" where
  "lf_open dagre schema current =
     lf_map dagre None \<lparr>lfSchema = schema, lfSelected = current, lfNodes = [], lfEdges = []\<rparr>"

datatype DiagramEvent =
    SelectSchema string
  | AlignVertical
  | AlignHorizontal
  | SchemaLoaded DatabaseSchemas

text \<open>\<open>SchemaLoaded\<close>: the studio has loaded its schema again, also when the tab asked for it.\<close>

definition lf_step :: "layout \<Rightarrow> DiagramEvent \<Rightarrow> LayoutFlow \<Rightarrow> LayoutFlow result" where
  "lf_step dagre e f =
     (case e of
        SelectSchema s \<Rightarrow> if lfSelected f = Some s then Inr f else lf_map dagre None (f\<lparr>lfSelected := Some s\<rparr>)
      | AlignVertical \<Rightarrow> lf_map dagre None f
      | AlignHorizontal \<Rightarrow> lf_map dagre (Some ''TB'') f
      | SchemaLoaded s \<Rightarrow> Inr f)"

end
