(* ===== verification/RelationDiagramFacts.thy ===== *)
theory RelationDiagramFacts
  imports RelationDiagram
begin

text \<open>
  The entity relationship diagram draws every table once, no table without relationships over
  another table whatever the layout library answers, in columns of heights_balanced heights; edges start
  at tables of the diagram.
\<close>

section \<open>The number of columns\<close>

lemma columns_from_enough: "area \<le> (MAX_NODE_WIDTH * columns_from area k)\<^sup>2"
proof (induction area k rule: columns_from.induct)
  case (1 area k)
  then show ?case by (subst columns_from.simps) auto
qed

lemma columns_from_least: "k \<le> m \<Longrightarrow> area \<le> (MAX_NODE_WIDTH * m)\<^sup>2 \<Longrightarrow> columns_from area k \<le> m"
proof (induction area k rule: columns_from.induct)
  case (1 area k)
  show ?case
  proof (cases "area \<le> (MAX_NODE_WIDTH * k)\<^sup>2")
    case False
    with 1(3) have "k \<noteq> m" by auto
    with 1 False show ?thesis by (subst columns_from.simps) auto
  qed (use 1 in \<open>subst columns_from.simps, simp\<close>)
qed

text \<open>It is what the code computes with real numbers.\<close>

lemma column_count_sqrt: "int (column_count area) = \<lceil>sqrt (real area) / 300\<rceil>"
proof (rule sym, rule ceiling_unique)
  let ?k = "column_count area"
  have iff: "sqrt (real area) / 300 \<le> real m \<longleftrightarrow> area \<le> (MAX_NODE_WIDTH * m)\<^sup>2" for m
  proof -
    have "sqrt (real area) / 300 \<le> real m \<longleftrightarrow> sqrt (real area) \<le> real (300 * m)" by auto
    also have "\<dots> \<longleftrightarrow> real area \<le> (real (300 * m))\<^sup>2" 
      using real_sqrt_le_iff [of "real area" "(real (300 * m))\<^sup>2"] by (simp only: real_sqrt_abs abs_of_nat)
    also have "\<dots> \<longleftrightarrow> area \<le> (300 * m)\<^sup>2"
      by (metis of_nat_le_iff of_nat_power)
    finally show ?thesis by (simp add: MAX_NODE_WIDTH_def)
  qed
  show "sqrt (real area) / 300 \<le> of_int (int ?k)"
    using iff [of ?k] columns_from_enough [of area 0] by (simp add: column_count_def)
  show "of_int (int ?k) - 1 < sqrt (real area) / 300"
  proof (cases ?k)
    case (Suc m)
    then have "\<not> area \<le> (MAX_NODE_WIDTH * m)\<^sup>2"
      using columns_from_least [of 0 m area] by (auto simp: column_count_def)
    with iff [of m] Suc show ?thesis by simp
  next
    case 0
    have "0 \<le> sqrt (real area) / 300" by simp
    with 0 show ?thesis by linarith
  qed
qed

section \<open>Placing\<close>

lemma min_index_least:
  assumes "hs \<noteq> []"
  shows "min_index hs < length hs" "j < length hs \<Longrightarrow> hs ! min_index hs \<le> hs ! j"
proof -
  have m: "Min (set hs) \<in> set hs" using assms by (intro Min_in) auto
  have l: "min_index hs < length hs"
  proof (rule ccontr)
    assume "\<not> min_index hs < length hs"
    then have "takeWhile (\<lambda>h. h \<noteq> Min (set hs)) hs = hs"
      unfolding min_index_def by (metis length_takeWhile_le le_neq_implies_less takeWhile_eq_take take_all_iff)
    with m show False by (metis set_takeWhileD)
  qed
  then have "hs ! min_index hs = Min (set hs)"
    using nth_length_takeWhile [of "\<lambda>h. h \<noteq> Min (set hs)" hs] by (simp add: min_index_def)
  with l show "min_index hs < length hs" "j < length hs \<Longrightarrow> hs ! min_index hs \<le> hs ! j"
    by simp_all
qed

text \<open>Two rectangles that have no area in common.\<close>

definition drawn_apart :: "ErdNode \<Rightarrow> ErdNode \<Rightarrow> bool" where
  "drawn_apart a b =
     (enX a + of_nat (enWidth a) \<le> enX b \<or> enX b + of_nat (enWidth b) \<le> enX a
      \<or> enY a + of_nat (enHeight a) \<le> enY b \<or> enY b + of_nat (enHeight b) \<le> enY a)"

lemma apart_sym: "drawn_apart a b = drawn_apart b a"
  by (auto simp: drawn_apart_def)

text \<open>
  What holds of the columns while tables are placed: a column is at its place, its nodes follow
  each other, and all end above its height.
\<close>

definition in_column :: "rat \<Rightarrow> rat \<Rightarrow> nat \<Rightarrow> nat \<Rightarrow> ErdNode \<Rightarrow> bool" where
  "in_column xr yt i h n =
     (enX n = xr + of_nat NODE_MARGIN + of_nat (i * MAX_NODE_WIDTH) \<and> enWidth n = MAX_NODE_WIDTH
      \<and> enY n + of_nat (enHeight n) \<le> yt + of_nat h)"

definition column_ok :: "rat \<Rightarrow> rat \<Rightarrow> ErdColumns \<Rightarrow> nat \<Rightarrow> bool" where
  "column_ok xr yt cl i =
     (list_all (in_column xr yt i (clHeights cl ! i)) (clNodes cl ! i)
      \<and> sorted_wrt (\<lambda>a b. enY a + of_nat (enHeight a) \<le> enY b) (clNodes cl ! i))"

definition columns_ok :: "rat \<Rightarrow> rat \<Rightarrow> ErdColumns \<Rightarrow> bool" where
  "columns_ok xr yt cl =
     (clHeights cl \<noteq> [] \<and> length (clNodes cl) = length (clHeights cl)
      \<and> (\<forall>i < length (clHeights cl). column_ok xr yt cl i))"

lemma in_column_grows: "in_column xr yt i h n \<Longrightarrow> h \<le> k \<Longrightarrow> in_column xr yt i k n"
proof -
  assume n: "in_column xr yt i h n" and "h \<le> k"
  then have "(of_nat h :: rat) \<le> of_nat k" by simp
  with n show ?thesis unfolding in_column_def by linarith
qed

lemma place_node_ok:
  assumes "columns_ok xr yt cl"
  shows "columns_ok xr yt (place_node sc sn xr yt item cl)"
proof -
  let ?i = "min_index (clHeights cl)" and ?h = "clHeights cl ! min_index (clHeights cl)"
  let ?n = "erd_node sc sn (xr + of_nat NODE_MARGIN + of_nat (?i * MAX_NODE_WIDTH)) (yt + of_nat ?h) item"
  let ?cl = "place_node sc sn xr yt item cl"
  have ne: "clHeights cl \<noteq> []" and len: "length (clNodes cl) = length (clHeights cl)"
    and ok: "\<And>i. i < length (clHeights cl) \<Longrightarrow> column_ok xr yt cl i"
    using assms by (auto simp: columns_ok_def)
  note i = min_index_least(1) [OF ne]
  have cl: "clHeights ?cl = (clHeights cl)[?i := ?h + (node_height item + NODE_MARGIN)]"
    "clNodes ?cl = (clNodes cl)[?i := clNodes cl ! ?i @ [?n]]"
    by (simp_all add: place_node_def Let_def)
  have "column_ok xr yt ?cl j" if "j < length (clHeights cl)" for j
  proof (cases "j = ?i")
    case True
    have old: "list_all (in_column xr yt ?i ?h) (clNodes cl ! ?i)"
      "sorted_wrt (\<lambda>a b. enY a + of_nat (enHeight a) \<le> enY b) (clNodes cl ! ?i)"
      using ok [OF i] by (auto simp: column_ok_def)
    have "in_column xr yt ?i (?h + (node_height item + NODE_MARGIN)) ?n"
      by (simp add: in_column_def erd_node_def MAX_NODE_WIDTH_def)
    moreover have "list_all (in_column xr yt ?i (?h + (node_height item + NODE_MARGIN))) (clNodes cl ! ?i)"
      using old(1) by (auto simp: list_all_iff intro: in_column_grows)
    moreover have "enY a + of_nat (enHeight a) \<le> enY ?n" if "a \<in> set (clNodes cl ! ?i)" for a
      using old(1) that by (auto simp: list_all_iff in_column_def erd_node_def)
    ultimately show ?thesis
      using old(2) i len by (simp add: True column_ok_def cl sorted_wrt_append)
  next
    case False
    with ok [OF that] show ?thesis by (simp add: column_ok_def cl)
  qed
  then show ?thesis using ne len by (simp add: columns_ok_def cl)
qed

lemma place_all_ok: "columns_ok xr yt cl \<Longrightarrow> columns_ok xr yt (fold (place_node sc sn xr yt) items cl)"
  by (induction items arbitrary: cl) (simp_all add: place_node_ok)

lemma columns_exist: "items \<noteq> [] \<Longrightarrow> 0 < column_count (estimated_area items)"
proof -
  assume "items \<noteq> []"
  then obtain xs x where items: "items = xs @ [x]" by (metis rev_exhaust)
  have "0 < estimated_area items"
    by (simp add: items estimated_area_def node_height_def MAX_NODE_WIDTH_def)
  then show ?thesis
    using columns_from_enough [of "estimated_area items" 0] by (cases "column_count (estimated_area items)")
      (auto simp: column_count_def)
qed

lemma placed_ok:
  assumes "items \<noteq> []"
  shows "columns_ok xr yt (place_nodes sc sn xr yt items)"
  unfolding place_nodes_def Let_def
  by (rule place_all_ok) (use columns_exist [OF assms] in \<open>simp add: columns_ok_def column_ok_def\<close>)

text \<open>Nodes of one column and of two.\<close>

lemma columns_apart:
  assumes "in_column xr yt i h a" "in_column xr yt j k b" "i < j"
  shows "drawn_apart a b"
proof -
  have "i * MAX_NODE_WIDTH + MAX_NODE_WIDTH \<le> j * MAX_NODE_WIDTH"
    using assms(3) by (metis Suc_leI add.commute mult_Suc mult_le_mono1)
  then have "(of_nat (i * MAX_NODE_WIDTH) + of_nat MAX_NODE_WIDTH :: rat) \<le> of_nat (j * MAX_NODE_WIDTH)"
    by (metis of_nat_add of_nat_le_iff)
  then show ?thesis using assms(1,2) unfolding in_column_def drawn_apart_def by auto
qed

lemma sorted_wrt_concat:
  assumes "\<And>i. i < length xss \<Longrightarrow> sorted_wrt R (xss ! i)"
    and "\<And>i j a b. i < j \<Longrightarrow> j < length xss \<Longrightarrow> a \<in> set (xss ! i) \<Longrightarrow> b \<in> set (xss ! j) \<Longrightarrow> R a b"
  shows "sorted_wrt R (concat xss)"
  using assms
proof (induction xss)
  case (Cons xs xss)
  have "sorted_wrt R (concat xss)"
  proof (rule Cons.IH)
    show "sorted_wrt R (xss ! i)" if "i < length xss" for i
      using Cons.prems(1) [of "Suc i"] that by simp
    show "R a b" if "i < j" "j < length xss" "a \<in> set (xss ! i)" "b \<in> set (xss ! j)" for i j a b
      using Cons.prems(2) [of "Suc i" "Suc j" a b] that by simp
  qed
  moreover have "R a b" if "a \<in> set xs" "ys \<in> set xss" "b \<in> set ys" for a b ys
  proof -
    obtain k where "k < length xss" "xss ! k = ys" using \<open>ys \<in> set xss\<close> by (metis in_set_conv_nth)
    then show ?thesis using Cons.prems(2) [of 0 "Suc k" a b] that by simp
  qed
  ultimately show ?case
    using Cons.prems(1) [of 0] by (auto simp: sorted_wrt_append)
qed simp

lemma columns_ok_apart:
  assumes "columns_ok xr yt cl"
  shows "sorted_wrt drawn_apart (concat (clNodes cl))"
proof (rule sorted_wrt_concat)
  have ok: "column_ok xr yt cl i" if "i < length (clNodes cl)" for i
    using assms that by (simp add: columns_ok_def)
  show "sorted_wrt drawn_apart (clNodes cl ! i)" if "i < length (clNodes cl)" for i
    using ok [OF that] by (auto simp: column_ok_def drawn_apart_def elim: sorted_wrt_mono_rel [rotated])
  show "drawn_apart a b" if "i < j" "j < length (clNodes cl)" "a \<in> set (clNodes cl ! i)" "b \<in> set (clNodes cl ! j)" for i j a b
    using ok [of i] ok [of j] that by (auto simp: column_ok_def list_all_iff intro: columns_apart)
qed

lemma columns_ok_right:
  assumes "columns_ok xr yt cl" "n \<in> set (concat (clNodes cl))"
  shows "xr + of_nat NODE_MARGIN \<le> enX n"
proof -
  obtain i where "i < length (clNodes cl)" "n \<in> set (clNodes cl ! i)"
    using assms(2) by (metis UN_E in_set_conv_nth set_concat)
  then have "in_column xr yt i (clHeights cl ! i) n"
    using assms(1) by (auto simp: columns_ok_def column_ok_def list_all_iff)
  then show ?thesis by (simp add: in_column_def)
qed

section \<open>Balance\<close>

text \<open>No column is higher than another by more than one table with its margin.\<close>

definition heights_balanced :: "nat \<Rightarrow> ErdColumns \<Rightarrow> bool" where
  "heights_balanced m cl = (\<forall>i < length (clHeights cl). \<forall>j < length (clHeights cl). clHeights cl ! i \<le> clHeights cl ! j + m)"

lemma place_node_balanced:
  assumes "heights_balanced m cl" "clHeights cl \<noteq> []" "node_height item + NODE_MARGIN \<le> m"
  shows "heights_balanced m (place_node sc sn xr yt item cl)"
proof -
  let ?i = "min_index (clHeights cl)" and ?h = "clHeights cl ! min_index (clHeights cl)"
  have cl: "clHeights (place_node sc sn xr yt item cl) = (clHeights cl)[?i := ?h + (node_height item + NODE_MARGIN)]"
    by (simp add: place_node_def Let_def)
  show ?thesis
    unfolding heights_balanced_def cl length_list_update
  proof (intro allI impI)
    fix i j assume ij: "i < length (clHeights cl)" "j < length (clHeights cl)"
    have "clHeights cl ! i \<le> clHeights cl ! j + m" using assms(1) ij by (simp add: heights_balanced_def)
    moreover have "?h \<le> clHeights cl ! j" "clHeights cl ! i \<le> ?h + m"
      using min_index_least(2) [OF assms(2) ij(2)] assms(1) ij(1) min_index_least(1) [OF assms(2)] by (simp_all add: heights_balanced_def)
    ultimately show "(clHeights cl)[?i := ?h + (node_height item + NODE_MARGIN)] ! i
        \<le> (clHeights cl)[?i := ?h + (node_height item + NODE_MARGIN)] ! j + m"
      using ij assms(3) min_index_least(1) [OF assms(2)] by (auto simp: nth_list_update)
  qed
qed

lemma place_node_heights: "length (clHeights (place_node sc sn xr yt item cl)) = length (clHeights cl)"
  by (simp add: place_node_def Let_def)

lemma place_all_balanced:
  "heights_balanced m cl \<Longrightarrow> clHeights cl \<noteq> [] \<Longrightarrow> \<forall>x \<in> set items. node_height x + NODE_MARGIN \<le> m \<Longrightarrow>
     heights_balanced m (fold (place_node sc sn xr yt) items cl)"
proof (induction items arbitrary: cl)
  case (Cons x items)
  have "clHeights (place_node sc sn xr yt x cl) \<noteq> []"
    using Cons.prems(2) place_node_heights [of sc sn xr yt x cl] by (metis length_0_conv)
  with Cons show ?case by (simp add: place_node_balanced)
qed simp

section \<open>Which tables are drawn\<close>

lemma place_node_nodes:
  assumes "columns_ok xr yt cl"
  shows "image_mset f (mset (concat (clNodes (place_node sc sn xr yt item cl)))) =
    image_mset f (mset (concat (clNodes cl)))
    + {#f (erd_node sc sn (xr + of_nat NODE_MARGIN + of_nat (min_index (clHeights cl) * MAX_NODE_WIDTH))
        (yt + of_nat (clHeights cl ! min_index (clHeights cl))) item)#}"
proof -
  have "mset (concat (xss[i := xss ! i @ [x]])) = mset (concat xss) + {#x#}" if "i < length xss" for xss i and x :: ErdNode
    using that
  proof (induction xss arbitrary: i)
    case (Cons xs xss)
    then show ?case by (cases i) auto
  qed simp
  with assms min_index_least(1) [of "clHeights cl"] show ?thesis
    by (simp add: place_node_def Let_def columns_ok_def)
qed

text \<open>What a node shows that does not depend on its place.\<close>

definition shown :: "ErdNode \<Rightarrow> string \<times> nat \<times> string \<times> ErdColumn list option" where
  "shown n = (enId n, enHeight n, enSchemaName n, enColumns n)"

definition shown_item :: "ErdScan \<Rightarrow> string \<Rightarrow> DatabaseSchemaItem \<Rightarrow> string \<times> nat \<times> string \<times> ErdColumn list option" where
  "shown_item sc sn item =
     (itemName item, node_height item, sn, map_option (\<lambda>ts. map (erd_column sc item) (tsColumns ts)) (itemTableSchema item))"

lemma shown_erd_node [simp]: "shown (erd_node sc sn x y item) = shown_item sc sn item"
  by (simp add: shown_def shown_item_def erd_node_def)

lemma place_all_nodes:
  "columns_ok xr yt cl \<Longrightarrow>
     image_mset shown (mset (concat (clNodes (fold (place_node sc sn xr yt) items cl)))) =
     image_mset shown (mset (concat (clNodes cl))) + image_mset (shown_item sc sn) (mset items)"
proof (induction items arbitrary: cl)
  case (Cons x items)
  from Cons.IH [OF place_node_ok [OF Cons.prems]] show ?case
    by (simp add: place_node_nodes [OF Cons.prems])
qed simp

lemma placed_nodes:
  "image_mset shown (mset (concat (clNodes (place_nodes sc sn xr yt items)))) = image_mset (shown_item sc sn) (mset items)"
proof (cases "items = []")
  case False
  have "columns_ok xr yt \<lparr>clHeights = replicate n 0, clNodes = replicate n []\<rparr>" if "0 < n" for n
    using that by (simp add: columns_ok_def column_ok_def)
  note start = this [OF columns_exist [OF False]]
  have "concat (replicate n []) = []" for n by (induction n) auto
  then show ?thesis
    using place_all_nodes [OF start, of sc sn items] by (simp add: place_nodes_def Let_def)
qed (simp add: place_nodes_def estimated_area_def column_count_def columns_from.simps)

lemma layout_nodes:
  "length (getLayoutElements dagre d es ns) = length ns"
  "map shown (getLayoutElements dagre d es ns) = map shown ns"
  "map enWidth (getLayoutElements dagre d es ns) = map enWidth ns"
  by (simp_all add: getLayoutElements_def shown_def split: prod.split)

lemma filter_parts:
  "mset (filter P xs) = mset (filter (\<lambda>x. P x \<and> Q x) xs) + mset (filter (\<lambda>x. P x \<and> \<not> Q x) xs)"
  by (induction xs) auto

definition related_tables :: "DatabaseSchemaItem list \<Rightarrow> DatabaseSchemaItem list" where
  "related_tables items = filter (\<lambda>x. is_table x \<and> has_relationship (scan_schema items) x) items"

definition unrelated_tables :: "DatabaseSchemaItem list \<Rightarrow> DatabaseSchemaItem list" where
  "unrelated_tables items = filter (\<lambda>x. is_table x \<and> \<not> has_relationship (scan_schema items) x) items"

text \<open>A diagram is the tables with relationships and, right of them, the columns of the others.\<close>

lemma diagram_parts:
  assumes "mapSchema dagre schema selected rankdir = Inr (nodes, edges)"
  obtains items rel where "map_of schema selected = Some items" "edges = scEdges (scan_schema items)"
    "nodes = rel @ concat (clNodes (place_nodes (scan_schema items) selected (right_of rel) (top_of rel)
        (unrelated_tables items)))"
    "map shown rel = map (shown_item (scan_schema items) selected) (related_tables items)"
    "list_all (\<lambda>n. enWidth n = MAX_NODE_WIDTH) rel"
proof -
  obtain items where items: "map_of schema selected = Some items"
    and r: "(nodes, edges) = mapItems dagre items selected rankdir"
    using assms by (auto simp: mapSchema_def split: option.splits)
  let ?rel = "getLayoutElements dagre (case rankdir of None \<Rightarrow> ''LR'' | Some d \<Rightarrow> if d = [] then ''LR'' else d)
      (scEdges (scan_schema items)) (map (erd_node (scan_schema items) selected 0 0) (related_tables items))"
  show thesis
  proof (rule that [OF items, of ?rel])
    show "map shown ?rel = map (shown_item (scan_schema items) selected) (related_tables items)"
      by (simp add: layout_nodes comp_def)
    show "list_all (\<lambda>n. enWidth n = MAX_NODE_WIDTH) ?rel"
      by (auto simp: getLayoutElements_def list_all_iff erd_node_def MAX_NODE_WIDTH_def split: prod.split)
    show "edges = scEdges (scan_schema items)" "nodes = ?rel @ concat (clNodes (place_nodes (scan_schema items)
        selected (right_of ?rel) (top_of ?rel) (unrelated_tables items)))"
      using r by (simp_all only: mapItems_def Let_def related_tables_def unrelated_tables_def prod.inject)
  qed
qed

text \<open>
  C37. Every table of a schema is drawn exactly once and nothing else is: the nodes of the diagram
  are the tables of the schema, each with its name, its height and all its columns, whatever the
  relationships are and wherever dagre puts them.
\<close>

theorem every_table_drawn_once:
  assumes "mapSchema dagre schema selected rankdir = Inr (nodes, edges)"
  shows "\<exists>items. map_of schema selected = Some items
    \<and> image_mset shown (mset nodes) = image_mset (shown_item (scan_schema items) selected) (mset (filter is_table items))"
  using assms
proof (rule diagram_parts)
  fix items rel
  let ?sc = "scan_schema items"
  assume items: "map_of schema selected = Some items"
    and nodes: "nodes = rel @ concat (clNodes (place_nodes ?sc selected (right_of rel) (top_of rel) (unrelated_tables items)))"
    and rel: "map shown rel = map (shown_item ?sc selected) (related_tables items)"
  have "image_mset shown (mset rel) = image_mset (shown_item ?sc selected) (mset (related_tables items))"
    using rel by (metis mset_map)
  moreover have "mset (filter is_table items) = mset (related_tables items) + mset (unrelated_tables items)"
    unfolding related_tables_def unrelated_tables_def by (rule filter_parts)
  ultimately show ?thesis
    using items by (simp add: nodes placed_nodes del: mset_concat)
qed


section \<open>Edges\<close>

definition scan_ok :: "DatabaseSchemaItem list \<Rightarrow> ErdScan \<Rightarrow> bool" where
  "scan_ok tables st =
     (\<forall>e \<in> set (scEdges st). eeSource e \<in> itemName ` set tables \<and> eeSource e \<in> set (scNames st) \<and> eeTarget e \<in> set (scNames st))"

lemma add_relation_ok: "scan_ok tables st \<Longrightarrow> item \<in> set tables \<Longrightarrow> scan_ok tables (add_relation item fk col st)"
  by (auto simp: scan_ok_def add_relation_def erd_edge_def)

lemma fold_scan_ok:
  "(\<And>x st. x \<in> set xs \<Longrightarrow> scan_ok tables st \<Longrightarrow> scan_ok tables (f x st)) \<Longrightarrow> scan_ok tables st \<Longrightarrow> scan_ok tables (fold f xs st)"
  by (induction xs arbitrary: st) simp_all

lemma scan_item_ok: "scan_ok (filter is_table items) st \<Longrightarrow> item \<in> set items \<Longrightarrow> scan_ok (filter is_table items) (scan_item item st)"
  unfolding scan_item_def
  by (auto intro!: fold_scan_ok add_relation_ok simp: scan_column_def scan_constraint_def split: option.split)

lemma scan_schema_ok: "scan_ok (filter is_table items) (scan_schema items)"
  unfolding scan_schema_def by (rule fold_scan_ok) (auto simp: scan_item_ok, simp add: scan_ok_def)

text \<open>
  An edge starts at a table of the diagram that dagre has put somewhere, and ends at one too when
  the table it refers to is in the schema.
\<close>

lemma edges_start_at_tables:
  assumes "mapSchema dagre schema selected rankdir = Inr (nodes, edges)" "e \<in> set edges"
  shows "\<exists>items. map_of schema selected = Some items \<and> eeSource e \<in> itemName ` set (related_tables items)
    \<and> (eeTarget e \<in> itemName ` set (filter is_table items) \<longrightarrow> eeTarget e \<in> itemName ` set (related_tables items))"
  using assms(1)
proof (rule diagram_parts)
  fix items rel
  assume items: "map_of schema selected = Some items" and edges: "edges = scEdges (scan_schema items)"
  have "eeSource e \<in> itemName ` set (filter is_table items) \<and> eeSource e \<in> set (scNames (scan_schema items))
      \<and> eeTarget e \<in> set (scNames (scan_schema items))"
    using scan_schema_ok [of items] assms(2) by (auto simp: edges scan_ok_def)
  then show ?thesis
    using items by (auto simp: related_tables_def has_relationship_def)
qed

text \<open>The columns of the other tables differ by at most the highest table and its margin.\<close>

lemma columns_balanced:
  assumes "\<forall>x \<in> set items. node_height x + NODE_MARGIN \<le> m"
  shows "heights_balanced m (place_nodes sc sn xr yt items)"
proof (cases "items = []")
  case False
  show ?thesis
    unfolding place_nodes_def Let_def
    by (rule place_all_balanced [OF _ _ assms]) (use columns_exist [OF False] in \<open>simp_all add: heights_balanced_def\<close>)
qed (simp add: place_nodes_def estimated_area_def column_count_def columns_from.simps heights_balanced_def)

section \<open>Examples\<close>

definition erd_example_column :: "string \<Rightarrow> DatabaseForeignKeyClause option \<Rightarrow> DatabaseTableColumn" where
  "erd_example_column c fk = \<lparr>colName = c, colType = ''INTEGER'', colPk = None,
     colConstraint = map_option (\<lambda>k. no_constraint\<lparr>foreignKey := Is k\<rparr>) fk\<rparr>"

definition key_to :: "string \<Rightarrow> DatabaseForeignKeyClause" where
  "key_to t = \<lparr>foreignSchemaName = None, foreignTableName = Some t, foreignColumns = Some [''id''], fkColumns = None\<rparr>"

definition erd_example_table :: "string \<Rightarrow> DatabaseTableColumn list \<Rightarrow> DatabaseTableColumnConstraint list \<Rightarrow> DatabaseSchemaItem" where
  "erd_example_table t cols cons =
     \<lparr>itemType = KindTable, itemName = t, itemSchemaName = ''main'', itemTableName = Some t,
      itemTableSchema = Some \<lparr>tsColumns = cols, tsPk = [], tsAutoIncrement = False, tsSchemaName = ''main'',
        tsTableName = Some t, tsConstraints = Some cons, tsCreateScript = None, tsFts5 = None, tsType = None,
        tsWithoutRowId = None, tsStrict = None, tsSizeInByte = None\<rparr>\<rparr>"

definition example_items :: "DatabaseSchemaItem list" where
  "example_items =
     [erd_example_table ''a'' [erd_example_column ''x'' (Some (key_to ''b'')), erd_example_column ''y'' (Some (key_to ''b''))] [],
      erd_example_table ''b'' [erd_example_column ''id'' None] [], erd_example_table ''c'' [erd_example_column ''z'' None] [],
      erd_example_table ''d'' [] []]"

theorem every_table_drawn_once_witness:
  "\<exists>nodes. image_mset shown (mset nodes)
     = image_mset (shown_item (scan_schema example_items) ''main'') (mset (filter is_table example_items))"
  using every_table_drawn_once [of "\<lambda>_ _ _ _. (0, 0)" "[(''main'', example_items)]" "''main''" None
      "fst (mapItems (\<lambda>_ _ _ _. (0, 0)) example_items ''main'' None)"
      "snd (mapItems (\<lambda>_ _ _ _. (0, 0)) example_items ''main'' None)"]
  by (auto simp: mapSchema_def)


text \<open>Which tables have relationships.\<close>

lemma example_parts:
  "map itemName (related_tables example_items) = [''a'', ''b'']"
  "map itemName (unrelated_tables example_items) = [''c'', ''d'']"
  by code_simp+

text \<open>Both of the others fit into one column.\<close>

lemma example_columns: "column_count (estimated_area (unrelated_tables example_items)) = 1"
proof -
  have "map node_height (unrelated_tables example_items) = [64, 32]" by code_simp
  then have "estimated_area (unrelated_tables example_items) = 58800"
    by (auto simp: estimated_area_def NODE_MARGIN_def MAX_NODE_WIDTH_def)
  then show ?thesis
    by (simp add: column_count_def columns_from.simps [of 58800 0] columns_from.simps [of 58800 "Suc 0"]
        MAX_NODE_WIDTH_def)
qed

text \<open>Two foreign keys to one table give two edges with one identifier.\<close>

lemma edges_share_identifier:
  "map eeId (scEdges (scan_schema example_items)) = [''a-b'', ''a-b'']"
  by code_simp

text \<open>
  A foreign key to the table itself is drawn when it is written at its column, and not when it
  is a constraint of the table.
\<close>

lemma self_reference_depends_on_spelling:
  "length (scEdges (scan_schema [erd_example_table ''a'' [erd_example_column ''x'' (Some (key_to ''a''))] []])) = 1"
  "scEdges (scan_schema [erd_example_table ''a'' [erd_example_column ''x'' None]
      [no_constraint\<lparr>foreignKey := Is (key_to ''a''\<lparr>fkColumns := Some [''x'']\<rparr>)\<rparr>]]) = []"
  by code_simp+

text \<open>Columns are compared by the text \<open>table.column\<close>, which two columns can share.\<close>

lemma paths_clash: "column_path ''a'' (Some ''b.c'') = column_path ''a.b'' (Some ''c'')"
  by code_simp

text \<open>The diagram keeps the schema it was opened with, also after its own button loads it again.\<close>

lemma diagram_is_stale: "lf_step dagre (SchemaLoaded s) f = Inr f"
  by (simp add: lf_step_def)

lemma step_keeps_schema: "lf_step dagre e f = Inr g \<Longrightarrow> lfSchema g = lfSchema f"
  by (cases e) (auto simp: lf_step_def lf_map_def rbind_Inr_iff split: if_splits)

end
