(* ===== verification/DataCatalog.thy ===== *)
theory DataCatalog
  imports DatabaseTypes
begin

text \<open>
  The data catalog: definitions of columns, tables and terms, \<open>extensions/data-catalog/driver.tsx\<close>,
  and the driver that keeps them in memory, \<open>driver-inmemory.ts\<close>, with what the dialogs send to it
  (\<open>table-metadata-modal.tsx\<close>, \<open>data-catalog-table-column-modal.tsx\<close>, \<open>table-result-header.tsx\<close>) and
  which tables the model tab shows (\<open>data-model-tab.tsx\<close>, \<open>data-catalog-table-accordion.tsx\<close>).
  Generated identifiers are arguments, and waiting is left out.  Schemas and tables are the
  properties of objects; the names that every object inherits are not considered.
\<close>

section \<open>Data\<close>

record TermDefinition =
  tdId :: string
  tdName :: string
  tdDefinition :: "string field"
  tdOtherNames :: "string field"

record DataCatalogColumnInput =
  dcDefinition :: string
  dcSamples :: "string list"
  dcHide :: bool

record DataCatalogColumn = DataCatalogColumnInput +
  dcSchemaName :: string
  dcTableName :: string
  dcColumnName :: string

record DataCatalogTableMetadata = DataCatalogColumn +
  dmAlias :: "string option"

record DataCatalogTableRelationship =
  drlId :: string
  drlSchemaName :: string
  drlTableName :: string
  drlColumnName :: string
  drlReferenceTableName :: string
  drlReferenceColumnName :: string
  drlHide :: bool

text \<open>\<open>dtSpread\<close>: the further properties a table gets from the object spread over it.\<close>

record DataCatalogTable =
  dtSchemaName :: string
  dtTableName :: string
  dtColumns :: "DataCatalogColumn list"
  dtRelations :: "DataCatalogTableRelationship list"
  dtMetadata :: "DataCatalogTableMetadata option"
  dtSpread :: "DataCatalogTableMetadata option"

type_synonym DataCatalogSchemas = "DataCatalogTable obj obj"

text \<open>Subscribers are numbered; \<open>ctCalls\<close> is the order in which they were called.\<close>

record DataCatalogInmemoryDriver =
  ctSchemas :: DataCatalogSchemas
  ctDefinitions :: "TermDefinition list option"
  ctSubscribers :: "nat list"
  ctCalls :: "nat list"

definition ct_notify :: "DataCatalogInmemoryDriver \<Rightarrow> DataCatalogInmemoryDriver" where
  "ct_notify s = s\<lparr>ctCalls := ctCalls s @ ctSubscribers s\<rparr>"

definition ct_listen :: "nat \<Rightarrow> DataCatalogInmemoryDriver \<Rightarrow> DataCatalogInmemoryDriver" where
  "ct_listen cb s =
     s\<lparr>ctSubscribers := (if cb \<in> set (ctSubscribers s) then ctSubscribers s else ctSubscribers s @ [cb])\<rparr>"

definition ct_unlisten :: "nat \<Rightarrow> DataCatalogInmemoryDriver \<Rightarrow> DataCatalogInmemoryDriver" where
  "ct_unlisten cb s = s\<lparr>ctSubscribers := removeAll cb (ctSubscribers s)\<rparr>"

section \<open>Tables and columns\<close>

definition catalog_tables_of :: "string \<Rightarrow> DataCatalogSchemas \<Rightarrow> DataCatalogTable obj" where
  "catalog_tables_of sn schemas = (case map_of schemas sn of None \<Rightarrow> [] | Some ts \<Rightarrow> ts)"

definition table_or_new :: "string \<Rightarrow> string \<Rightarrow> DataCatalogSchemas \<Rightarrow> DataCatalogTable" where
  "table_or_new sn tn schemas =
     (case map_of (catalog_tables_of sn schemas) tn of
        Some t \<Rightarrow> t
      | None \<Rightarrow> \<lparr>dtSchemaName = sn, dtTableName = tn, dtColumns = [], dtRelations = [], dtMetadata = None,
                dtSpread = None\<rparr>)"

definition set_table :: "string \<Rightarrow> string \<Rightarrow> DataCatalogTable \<Rightarrow> DataCatalogSchemas \<Rightarrow> DataCatalogSchemas" where
  "set_table sn tn t schemas = obj_set sn (obj_set tn t (catalog_tables_of sn schemas)) schemas"

definition same_column :: "string \<Rightarrow> string \<Rightarrow> string \<Rightarrow> DataCatalogColumn \<Rightarrow> bool" where
  "same_column sn tn cn col =
     (js_lower (dcColumnName col) = cn \<and> js_lower (dcSchemaName col) = sn \<and> js_lower (dcTableName col) = tn)"

definition with_input :: "DataCatalogColumnInput \<Rightarrow> DataCatalogColumn \<Rightarrow> DataCatalogColumn" where
  "with_input d col = col\<lparr>dcDefinition := dcDefinition d, dcSamples := dcSamples d, dcHide := dcHide d\<rparr>"

definition new_column :: "string \<Rightarrow> string \<Rightarrow> string \<Rightarrow> DataCatalogColumnInput \<Rightarrow> DataCatalogColumn" where
  "new_column sn tn cn d =
     \<lparr>dcDefinition = dcDefinition d, dcSamples = dcSamples d, dcHide = dcHide d,
      dcSchemaName = sn, dcTableName = tn, dcColumnName = cn\<rparr>"

text \<open>What \<open>updateColumn\<close> returns is the element at the index found before, \<open>-1\<close> for a new column.\<close>

definition ct_updateColumn ::
  "string \<Rightarrow> string \<Rightarrow> string \<Rightarrow> DataCatalogColumnInput \<Rightarrow> DataCatalogInmemoryDriver \<Rightarrow>
   DataCatalogColumn option \<times> DataCatalogInmemoryDriver" where
  "ct_updateColumn schemaName tableName columnName d s =
     (let sn = js_lower schemaName; tn = js_lower tableName; cn = js_lower columnName;
          t = table_or_new sn tn (ctSchemas s);
          found = find_index (same_column sn tn cn) (dtColumns t);
          cols = (case found of
              Some i \<Rightarrow> (dtColumns t)[i := with_input d (dtColumns t ! i)]
            | None \<Rightarrow> dtColumns t @ [new_column sn tn cn d])
      in (map_option (\<lambda>i. cols ! i) found,
          ct_notify (s\<lparr>ctSchemas := set_table sn tn (t\<lparr>dtColumns := cols\<rparr>) (ctSchemas s)\<rparr>)))"

definition ct_updateTable ::
  "string \<Rightarrow> string \<Rightarrow> DataCatalogTableMetadata \<Rightarrow> DataCatalogInmemoryDriver \<Rightarrow>
   DataCatalogTable \<times> DataCatalogInmemoryDriver" where
  "ct_updateTable schemaName tableName d s =
     (let sn = js_lower schemaName; tn = js_lower tableName;
          t = (table_or_new sn tn (ctSchemas s))
                \<lparr>dtSchemaName := dcSchemaName d, dtTableName := dcTableName d, dtSpread := Some d\<rparr>
      in (t, ct_notify (s\<lparr>ctSchemas := set_table sn tn t (ctSchemas s)\<rparr>)))"

definition ct_getTable :: "string \<Rightarrow> string \<Rightarrow> DataCatalogInmemoryDriver \<Rightarrow> DataCatalogTable option" where
  "ct_getTable schemaName tableName s =
     (case map_of (ctSchemas s) (js_lower schemaName) of
        None \<Rightarrow> None
      | Some ts \<Rightarrow> map_of ts (js_lower tableName))"

definition ct_getColumn :: "string \<Rightarrow> string \<Rightarrow> string \<Rightarrow> DataCatalogInmemoryDriver \<Rightarrow> DataCatalogColumn option" where
  "ct_getColumn schemaName tableName columnName s =
     (case ct_getTable schemaName tableName s of
        None \<Rightarrow> None
      | Some t \<Rightarrow> find (\<lambda>col. js_lower (dcColumnName col) = js_lower columnName) (dtColumns t))"

section \<open>Relations and terms\<close>

definition ct_updateVirtualJoin :: "DataCatalogInmemoryDriver \<Rightarrow> bool \<times> DataCatalogInmemoryDriver" where
  "ct_updateVirtualJoin s = (True, ct_notify s)"

definition ct_addVirtualJoin ::
  "string \<Rightarrow> DataCatalogTableRelationship \<Rightarrow> DataCatalogInmemoryDriver \<Rightarrow>
   DataCatalogTableRelationship \<times> DataCatalogInmemoryDriver" where
  "ct_addVirtualJoin i r s = (r\<lparr>drlId := i\<rparr>, ct_notify s)"

definition ct_deleteVirtualColumn :: "DataCatalogInmemoryDriver \<Rightarrow> bool \<times> DataCatalogInmemoryDriver" where
  "ct_deleteVirtualColumn s = (True, ct_notify s)"

definition ct_getTermDefinitions :: "DataCatalogInmemoryDriver \<Rightarrow> TermDefinition list" where
  "ct_getTermDefinitions s = (case ctDefinitions s of None \<Rightarrow> [] | Some ds \<Rightarrow> ds)"

definition ct_addTermDefinition ::
  "string \<Rightarrow> TermDefinition \<Rightarrow> DataCatalogInmemoryDriver \<Rightarrow> TermDefinition \<times> DataCatalogInmemoryDriver" where
  "ct_addTermDefinition i d s =
     (d\<lparr>tdId := i\<rparr>, ct_notify (s\<lparr>ctDefinitions := Some (d\<lparr>tdId := i\<rparr> # ct_getTermDefinitions s)\<rparr>))"

definition spread_term :: "TermDefinition \<Rightarrow> TermDefinition \<Rightarrow> TermDefinition" where
  "spread_term a b =
     \<lparr>tdId = tdId b, tdName = tdName b, tdDefinition = field_over (tdDefinition a) (tdDefinition b),
      tdOtherNames = field_over (tdOtherNames a) (tdOtherNames b)\<rparr>"

definition ct_updateTermDefinition ::
  "TermDefinition \<Rightarrow> DataCatalogInmemoryDriver \<Rightarrow> TermDefinition \<times> DataCatalogInmemoryDriver" where
  "ct_updateTermDefinition d s =
     (let ds = ct_getTermDefinitions s
      in (d, ct_notify (s\<lparr>ctDefinitions := Some
            (case find_index (\<lambda>t. tdId t = tdId d) ds of
               None \<Rightarrow> ds | Some i \<Rightarrow> ds[i := spread_term (ds ! i) d])\<rparr>)))"

definition ct_deleteTermDefinition :: "string \<Rightarrow> DataCatalogInmemoryDriver \<Rightarrow> bool \<times> DataCatalogInmemoryDriver" where
  "ct_deleteTermDefinition i s =
     (case ctDefinitions s of
        None \<Rightarrow> (False, s)
      | Some ds \<Rightarrow>
          (let kept = filter (\<lambda>t. tdId t \<noteq> i) ds
           in (length kept < length ds, ct_notify (s\<lparr>ctDefinitions := Some kept\<rparr>))))"

section \<open>What the dialogs do\<close>

definition metadata_input :: "string \<Rightarrow> string \<Rightarrow> DataCatalogTableMetadata option \<Rightarrow> DataCatalogTableMetadata" where
  "metadata_input schemaName tableName d =
     (case d of
        Some m \<Rightarrow> m
      | None \<Rightarrow> \<lparr>dcDefinition = [], dcSamples = [], dcHide = False, dcSchemaName = schemaName,
                dcTableName = tableName, dcColumnName = [], dmAlias = Some tableName\<rparr>)"

definition save_metadata ::
  "string \<Rightarrow> string \<Rightarrow> DataCatalogTableMetadata \<Rightarrow> DataCatalogInmemoryDriver \<Rightarrow> DataCatalogInmemoryDriver" where
  "save_metadata schemaName tableName m s =
     snd (ct_updateTable schemaName tableName
       (m\<lparr>dcTableName := tableName, dcSchemaName := schemaName, dcSamples := [], dcHide := True\<rparr>) s)"

text \<open>The text in the header of a result: only the definition is changed.\<close>

definition save_header_definition ::
  "string \<Rightarrow> string \<Rightarrow> string \<Rightarrow> string \<Rightarrow> DataCatalogInmemoryDriver \<Rightarrow> DataCatalogInmemoryDriver" where
  "save_header_definition schemaName tableName columnName definition s =
     (let col = ct_getColumn schemaName tableName columnName s
      in snd (ct_updateColumn schemaName tableName columnName
           \<lparr>dcDefinition = definition, dcSamples = (case col of None \<Rightarrow> [] | Some c \<Rightarrow> dcSamples c),
            dcHide = (case col of None \<Rightarrow> False | Some c \<Rightarrow> dcHide c)\<rparr> s))"

text \<open>The title of a table in the model tab.\<close>

definition table_title :: "DatabaseTableSchema \<Rightarrow> DataCatalogInmemoryDriver \<Rightarrow> string option" where
  "table_title table s =
     (case ct_getTable (tsSchemaName table) (the (tsTableName table)) s of
        None \<Rightarrow> tsTableName table
      | Some t \<Rightarrow> (case dtMetadata t of None \<Rightarrow> tsTableName table | Some m \<Rightarrow> dmAlias m))"

definition match_columns :: "string \<Rightarrow> DatabaseTableSchema \<Rightarrow> DatabaseTableColumn list" where
  "match_columns search table =
     (if search = [] \<or> js_lower search = js_lower (the (tsTableName table)) then tsColumns table
      else filter (\<lambda>c. js_includes (js_lower (colName c)) (js_lower search)) (tsColumns table))"

definition matched_table :: "string \<Rightarrow> DatabaseTableSchema \<Rightarrow> bool" where
  "matched_table search table =
     (search = [] \<or> js_includes (js_lower (the (tsTableName table))) (js_lower search))"

definition has_definition :: "DatabaseTableSchema \<Rightarrow> DataCatalogInmemoryDriver \<Rightarrow> bool" where
  "has_definition table s =
     list_ex (\<lambda>c. truthy_str (map_option dcDefinition
        (ct_getColumn (tsSchemaName table) (the (tsTableName table)) (colName c) s))) (tsColumns table)"

definition table_shown :: "string \<Rightarrow> bool \<Rightarrow> DataCatalogInmemoryDriver \<Rightarrow> DatabaseTableSchema \<Rightarrow> bool" where
  "table_shown search definitionsOnly s table =
     (\<not> (definitionsOnly \<and> \<not> has_definition table s)
      \<and> \<not> (\<not> matched_table search table \<and> match_columns search table = [] \<and> search \<noteq> []))"

section \<open>Events of a session\<close>

datatype CatalogEvent =
    UpdateColumn string string string DataCatalogColumnInput
  | UpdateTable string string DataCatalogTableMetadata
  | AddTerm string TermDefinition
  | UpdateTerm TermDefinition
  | DeleteTerm string
  | UpdateJoin
  | AddJoin string DataCatalogTableRelationship
  | DeleteJoin

fun ct_step :: "CatalogEvent \<Rightarrow> DataCatalogInmemoryDriver \<Rightarrow> DataCatalogInmemoryDriver" where
  "ct_step (UpdateColumn sn tn cn d) s = snd (ct_updateColumn sn tn cn d s)"
| "ct_step (UpdateTable sn tn d) s = snd (ct_updateTable sn tn d s)"
| "ct_step (AddTerm i d) s = snd (ct_addTermDefinition i d s)"
| "ct_step (UpdateTerm d) s = snd (ct_updateTermDefinition d s)"
| "ct_step (DeleteTerm i) s = snd (ct_deleteTermDefinition i s)"
| "ct_step UpdateJoin s = snd (ct_updateVirtualJoin s)"
| "ct_step (AddJoin i r) s = snd (ct_addVirtualJoin i r s)"
| "ct_step DeleteJoin s = snd (ct_deleteVirtualColumn s)"

end
