(* ===== verification/DataCatalogFacts.thy ===== *)
theory DataCatalogFacts
  imports DataCatalog
begin

text \<open>
  The catalog in memory is a map from columns, whatever the case of their names, to what was last
  entered for them.
\<close>

section \<open>The map of a catalog\<close>

definition stored_columns :: "string \<Rightarrow> string \<Rightarrow> DataCatalogSchemas \<Rightarrow> DataCatalogColumn list" where
  "stored_columns sn tn schemas = dtColumns (table_or_new sn tn schemas)"

definition catalog_view :: "DataCatalogInmemoryDriver \<Rightarrow> string \<times> string \<times> string \<rightharpoonup> DataCatalogColumnInput" where
  "catalog_view s k =
     (case k of (sn, tn, cn) \<Rightarrow>
        map_option DataCatalogColumnInput.truncate
          (find (\<lambda>col. js_lower (dcColumnName col) = cn) (stored_columns sn tn (ctSchemas s))))"

text \<open>A column is kept in the table that it names.\<close>

definition catalog_placed :: "DataCatalogInmemoryDriver \<Rightarrow> bool" where
  "catalog_placed s =
     (\<forall>sn tn. list_all (\<lambda>col. js_lower (dcSchemaName col) = sn \<and> js_lower (dcTableName col) = tn)
        (stored_columns sn tn (ctSchemas s)))"

fun catalog_spec ::
  "CatalogEvent \<Rightarrow> (string \<times> string \<times> string \<rightharpoonup> DataCatalogColumnInput) \<Rightarrow>
   (string \<times> string \<times> string \<rightharpoonup> DataCatalogColumnInput)" where
  "catalog_spec (UpdateColumn sn tn cn d) m = m((js_lower sn, js_lower tn, js_lower cn) \<mapsto> d)"
| "catalog_spec _ m = m"

lemma getColumn_view:
  "map_option DataCatalogColumnInput.truncate (ct_getColumn sn tn cn s)
     = catalog_view s (js_lower sn, js_lower tn, js_lower cn)"
  by (auto simp: ct_getColumn_def ct_getTable_def catalog_view_def stored_columns_def table_or_new_def
      catalog_tables_of_def split: option.split)

lemma stored_set_table:
  "stored_columns sn tn (set_table an bn t schemas) =
     (if (sn, tn) = (an, bn) then dtColumns t else stored_columns sn tn schemas)"
  by (auto simp: stored_columns_def table_or_new_def catalog_tables_of_def set_table_def obj_set_def update_conv
      split: option.split)

lemma notify_view [simp]:
  "ctSchemas (ct_notify s) = ctSchemas s" "catalog_view (ct_notify s) = catalog_view s"
  "catalog_placed (ct_notify s) = catalog_placed s"
  by (simp_all add: ct_notify_def catalog_view_def catalog_placed_def fun_eq_iff)

lemma find_index_split:
  "find_index P xs = Some i \<Longrightarrow> find P xs = Some (xs ! i)
     \<and> (\<forall>y. P y \<longrightarrow> find P (xs[i := y]) = Some y)
     \<and> (\<forall>y Q. \<not> Q y \<longrightarrow> \<not> Q (xs ! i) \<longrightarrow> find Q (xs[i := y]) = find Q xs)"
proof (induction xs arbitrary: i)
  case (Cons x xs)
  show ?case
  proof (cases "P x")
    case False
    with Cons.prems obtain j where "i = Suc j" "find_index P xs = Some j" by auto
    with Cons.IH [of j] False show ?thesis by simp
  qed (use Cons.prems in auto)
qed simp

lemma find_index_None: "find_index P xs = None \<Longrightarrow> find P xs = None"
  by (induction xs) (auto split: if_splits)

lemma find_snoc: "find P (xs @ [x]) = (case find P xs of None \<Rightarrow> if P x then Some x else None | r \<Rightarrow> r)"
  by (induction xs) auto

lemma find_index_same: "(\<And>x. x \<in> set xs \<Longrightarrow> P x = Q x) \<Longrightarrow> find_index P xs = find_index Q xs"
  by (induction xs) auto

section \<open>Steps\<close>

text \<open>The columns of a table after a column is updated, and what is found in them.\<close>

definition put_column ::
  "string \<Rightarrow> string \<Rightarrow> string \<Rightarrow> DataCatalogColumnInput \<Rightarrow> DataCatalogColumn list \<Rightarrow> DataCatalogColumn list" where
  "put_column sn tn cn d cols =
     (case find_index (same_column sn tn cn) cols of
        Some i \<Rightarrow> cols[i := with_input d (cols ! i)] | None \<Rightarrow> cols @ [new_column sn tn cn d])"

lemma updateColumn_schemas:
  "ctSchemas (snd (ct_updateColumn s1 t1 c1 d s)) =
     (let sn = js_lower s1; tn = js_lower t1; t = table_or_new sn tn (ctSchemas s)
      in set_table sn tn (t\<lparr>dtColumns := put_column sn tn (js_lower c1) d (dtColumns t)\<rparr>) (ctSchemas s))"
  by (simp add: ct_updateColumn_def put_column_def Let_def)

lemma put_column_found:
  assumes "list_all (\<lambda>col. js_lower (dcSchemaName col) = sn \<and> js_lower (dcTableName col) = tn) cols"
    and "js_lower c1 = c1"
  shows "map_option DataCatalogColumnInput.truncate (find (\<lambda>col. js_lower (dcColumnName col) = cn) (put_column sn tn c1 d cols))
    = (if cn = c1 then Some d else map_option DataCatalogColumnInput.truncate (find (\<lambda>col. js_lower (dcColumnName col) = cn) cols))"
proof -
  have same: "find_index (same_column sn tn c1) cols = find_index (\<lambda>col. js_lower (dcColumnName col) = c1) cols"
    using assms(1) by (intro find_index_same) (auto simp: same_column_def list_all_iff)
  have input: "DataCatalogColumnInput.truncate (with_input d col) = d" "dcColumnName (with_input d col) = dcColumnName col"
    "DataCatalogColumnInput.truncate (new_column sn tn c1 d) = d" "dcColumnName (new_column sn tn c1 d) = c1" for col
    by (simp_all add: with_input_def new_column_def DataCatalogColumnInput.truncate_def)
  show ?thesis
  proof (cases "find_index (\<lambda>col. js_lower (dcColumnName col) = c1) cols")
    case None
    then show ?thesis
      using find_index_None [OF None] assms(2)
      by (auto simp: put_column_def same find_snoc input split: option.split)
  next
    case (Some i)
    have at: "js_lower (dcColumnName (cols ! i)) = c1" using find_index_Some [OF Some] by simp
    from find_index_split [OF Some] show ?thesis
      by (auto simp: put_column_def same Some input at)
  qed
qed

lemma put_column_ok:
  assumes "list_all (\<lambda>col. js_lower (dcSchemaName col) = sn \<and> js_lower (dcTableName col) = tn) cols"
    and "js_lower sn = sn" "js_lower tn = tn"
  shows "list_all (\<lambda>col. js_lower (dcSchemaName col) = sn \<and> js_lower (dcTableName col) = tn) (put_column sn tn cn d cols)"
proof (cases "find_index (same_column sn tn cn) cols")
  case (Some i)
  then have "i < length cols" by (simp add: find_index_Some)
  with Some assms show ?thesis
    by (auto simp: put_column_def with_input_def list_all_length nth_list_update)
qed (use assms in \<open>simp add: put_column_def new_column_def\<close>)

lemma step_view:
  assumes "catalog_placed s"
  shows "catalog_view (ct_step e s) = catalog_spec e (catalog_view s) \<and> catalog_placed (ct_step e s)"
proof (cases e)
  case (UpdateColumn s1 t1 c1 d)
  let ?sn = "js_lower s1" and ?tn = "js_lower t1"
  have here: "list_all (\<lambda>col. js_lower (dcSchemaName col) = ?sn \<and> js_lower (dcTableName col) = ?tn)
      (stored_columns ?sn ?tn (ctSchemas s))"
    using assms by (simp add: catalog_placed_def)
  have stored: "stored_columns a b (ctSchemas (ct_step e s)) = (if (a, b) = (?sn, ?tn)
      then put_column ?sn ?tn (js_lower c1) d (stored_columns ?sn ?tn (ctSchemas s))
      else stored_columns a b (ctSchemas s))" for a b
    using stored_set_table [of a b ?sn ?tn _ "ctSchemas s"]
    by (simp add: UpdateColumn updateColumn_schemas Let_def stored_columns_def)
  have "catalog_view (ct_step e s) = catalog_spec e (catalog_view s)"
    using put_column_found [OF here, of "js_lower c1" _ d]
    by (simp add: UpdateColumn catalog_view_def stored [unfolded UpdateColumn] fun_eq_iff split_paired_all
        del: ct_step.simps)
  moreover have "catalog_placed (ct_step e s)"
    using assms put_column_ok [OF here, of "js_lower c1" d]
    by (simp add: catalog_placed_def stored del: ct_step.simps)
  ultimately show ?thesis by simp
next
  case (UpdateTable s1 t1 d)
  have "stored_columns a b (ctSchemas (ct_step e s)) = stored_columns a b (ctSchemas s)" for a b
    by (simp add: UpdateTable ct_updateTable_def Let_def stored_set_table) (auto simp: stored_columns_def)
  then show ?thesis
    using assms by (simp add: UpdateTable catalog_view_def catalog_placed_def fun_eq_iff del: ct_step.simps)
qed (use assms in \<open>auto simp: ct_addTermDefinition_def ct_updateTermDefinition_def ct_deleteTermDefinition_def
    ct_updateVirtualJoin_def ct_addVirtualJoin_def ct_deleteVirtualColumn_def catalog_view_def catalog_placed_def
    Let_def fun_eq_iff split: option.split\<close>)

text \<open>
  C39. The catalog is a map: after any operations of a session, what is read for a column, written
  in any case, is what was last saved for that column in that table of that schema, and saving
  never changes what is read for another one; metadata of tables, terms and relationships do not
  touch it.
\<close>

theorem catalog_is_a_map:
  assumes "catalog_placed s"
  shows "map_option DataCatalogColumnInput.truncate (ct_getColumn sn tn cn (fold ct_step es s))
    = fold catalog_spec es (catalog_view s) (js_lower sn, js_lower tn, js_lower cn)"
proof -
  have "catalog_view (fold ct_step es s) = fold catalog_spec es (catalog_view s)"
    using assms by (induction es arbitrary: s) (simp_all add: step_view)
  then show ?thesis by (simp add: getColumn_view)
qed

definition new_catalog :: DataCatalogInmemoryDriver where
  "new_catalog = \<lparr>ctSchemas = [], ctDefinitions = Some [], ctSubscribers = [], ctCalls = []\<rparr>"

lemma empty_catalog_ok: "catalog_placed new_catalog"
  by (simp add: catalog_placed_def stored_columns_def table_or_new_def catalog_tables_of_def new_catalog_def)

definition example_input :: DataCatalogColumnInput where
  "example_input = \<lparr>dcDefinition = ''the key'', dcSamples = [], dcHide = False\<rparr>"

theorem catalog_is_a_map_witness:
  "map_option DataCatalogColumnInput.truncate
     (ct_getColumn ''MAIN'' ''users'' ''ID'' (fold ct_step [UpdateColumn ''main'' ''Users'' ''Id'' example_input] new_catalog))
   = Some example_input"
proof -
  have "js_lower ''MAIN'' = js_lower ''main''" "js_lower ''users'' = js_lower ''Users''" "js_lower ''ID'' = js_lower ''Id''"
    by code_simp+
  then show ?thesis
    using catalog_is_a_map [OF empty_catalog_ok, of "''MAIN''" "''users''" "''ID''"
        "[UpdateColumn ''main'' ''Users'' ''Id'' example_input]"] by simp
qed

section \<open>What does not happen\<close>

text \<open>The first time a column is saved, nothing is returned for it.\<close>

lemma new_column_not_returned: "fst (ct_updateColumn ''main'' ''t'' ''c'' example_input new_catalog) = None"
  by code_simp

text \<open>
  The alias saved for a table is spread over the table and not kept as its metadata, so the model
  tab never shows it.
\<close>

lemma metadata_never_kept:
  "dtMetadata (fst (ct_updateTable sn tn d s)) = dtMetadata (table_or_new (js_lower sn) (js_lower tn) (ctSchemas s))"
  by (simp add: ct_updateTable_def Let_def)

lemma alias_never_shown:
  "map_option dtMetadata (ct_getTable ''main'' ''t''
     (save_metadata ''main'' ''t'' (metadata_input ''main'' ''t'' None\<lparr>dmAlias := Some ''People''\<rparr>) new_catalog)) = Some None"
  by code_simp

text \<open>Relationships are announced, and not stored.\<close>

lemma relationships_not_stored:
  "ctSchemas (snd (ct_addVirtualJoin i r s)) = ctSchemas s" "ctSchemas (snd (ct_updateVirtualJoin s)) = ctSchemas s"
  "ctSchemas (snd (ct_deleteVirtualColumn s)) = ctSchemas s"
  by (simp_all add: ct_addVirtualJoin_def ct_updateVirtualJoin_def ct_deleteVirtualColumn_def)

text \<open>A search for a table by a part of its name shows the table without its columns.\<close>

lemma part_of_name_hides_columns:
  assumes "search \<noteq> []" "matched_table search table" "js_lower search \<noteq> js_lower (the (tsTableName table))"
    and "list_all (\<lambda>c. \<not> js_includes (js_lower (colName c)) (js_lower search)) (tsColumns table)"
  shows "table_shown search False s table \<and> match_columns search table = []"
  using assms by (auto simp: table_shown_def match_columns_def filter_empty_conv list_all_iff)

end
