(* ===== verification/Spec2Isabelle.thy ===== *)
theory Spec2Isabelle
  imports ParserFacts RowFacts SchemaFacts SqliteFacts V8Facts Middleware Statements
    ExportFacts ActionFacts TableResult MysqlFacts PostgresFacts SchemaEditorFacts TabsFacts
    ExplainFacts ImportFacts SidebarFacts MassDropFacts FileExplorerFacts TableDataFacts
    ConnectionFacts CellFacts GridViewFacts ApiRouteFacts QueryTabFacts SavedDocFacts
    RelationDiagramFacts DataCatalogFacts
begin

text \<open>
  Mesahub Core, the studio (\<open>admin/src\<close>): the code that turns what a user does with a database
  into SQL text, reads a database's own SQL text back, executes scripts, decodes stored values
  and guards the way to the backend.

  \<^bold>\<open>The parts and their theories.\<close>

  \<^item> \<open>JsPrelude\<close>, \<open>JsValue\<close>: what the code uses of JavaScript: strings, objects (association
    lists in insertion order), numbers, truthiness, conversions to text; the lemmas shared by
    all other theories.
  \<^item> \<open>DatabaseTypes\<close>: the data model, \<open>drivers/base-driver.ts\<close>.
  \<^item> \<open>SqlText\<close>: escaping and reading SQL text, \<open>drivers/sqlite/sql-helper.ts\<close>,
    \<open>lib/bit-operation.ts\<close>, \<open>drivers/sql-helper.ts\<close>, \<open>escapeId\<close> of MySQL.  The locale \<open>quoting\<close> is
    the promise that quoted text reads back.
  \<^item> \<open>SqlCursor\<close>, \<open>ParseTable\<close>, \<open>ParseTriggerView\<close>: the class \<open>CursorV2\<close> and the parsers of
    \<open>drivers/sqlite/sql-parse-table.ts\<close>, \<open>sql-parse-trigger.ts\<close>, \<open>sql-parse-view.ts\<close>, function by
    function.  The locale \<open>token_stream\<close> says that a cursor behaves as the list of the tokens that
    are left.  \<open>ParserFacts\<close>: column definitions as abstract syntax, and the parsers reading it.
  \<^item> \<open>Effects\<close>: effects on a connection (\<open>query\<close>, \<open>transaction\<close>) as functions of a state that
    return a value or an error; the records \<open>Connection\<close> and \<open>Dialect\<close>.
  \<^item> \<open>QueryBuilder\<close>: \<open>drivers/query-builder.ts\<close>, \<open>lib/validation.ts\<close>, \<open>drivers/common-sql-imp.ts\<close>.
    \<open>Dialects\<close>: the escaping and the flags of the three drivers; the locale \<open>row_dialect\<close> is what
    statements on rows need of a driver, interpreted on all three.  \<open>RowFacts\<close>: what the generated
    statements say, and what validation guarantees of them.
  \<^item> \<open>SchemaGen\<close>, \<open>SchemaFacts\<close>: \<open>CREATE\<close> and \<open>ALTER TABLE\<close> of the three dialects and the drafts of
    the schema editor.
  \<^item> \<open>SqliteDriver\<close>, \<open>SqliteFacts\<close>: the class \<open>SqliteLikeBaseDriver\<close>,
    \<open>drivers/sqlite-base-driver.ts\<close>, which calls the parsers, the generators and the statements.
  \<^item> \<open>MysqlDriver\<close>, \<open>PostgresDriver\<close>: the catalogue queries of the other two drivers,
    \<open>drivers/mysql/mysql-driver.ts\<close> and \<open>drivers/postgres/postgres-driver.ts\<close>: the assembly of
    \<open>schemas()\<close> from the rows of \<open>information_schema\<close>, \<open>tableSchema()\<close>, triggers and views.
    \<open>CatalogFacts\<close>, \<open>MysqlFacts\<close>, \<open>PostgresFacts\<close>: the loops over shared records against one
    definition per table; the locale \<open>table_registry\<close> is what both assemblies need of their
    records.
  \<^item> \<open>SchemaEditor\<close>, \<open>SchemaEditorFacts\<close>: the draft of the schema editor and what every control of
    \<open>components/gui/schema-editor/\<close> does to it, discarding and saving.
  \<^item> \<open>Tabs\<close>, \<open>TabsFacts\<close>: the tabs of the studio, \<open>components/gui/database-gui.tsx\<close> and
    \<open>windows-tab.tsx\<close>, and the commands that open them, \<open>core/extension-tab.tsx\<close>.
  \<^item> \<open>Explain\<close>, \<open>ExplainFacts\<close>: the diagram of a query explanation,
    \<open>components/gui/query-explanation-diagram/build-query-explanation-flow.ts\<close>, and the tree of
    \<open>components/gui/query-explanation.tsx\<close>: which nodes, edges and details it shows of the rows.
  \<^item> \<open>V8\<close>, \<open>V8Facts\<close>: the reader of serialized JavaScript values, \<open>lib/v8-derialization/index.ts\<close>.
  \<^item> \<open>Middleware\<close>: the request filter \<open>middleware.ts\<close> and the headers of \<open>lib/go-api.ts\<close>.
  \<^item> \<open>ApiRoutes\<close>, \<open>ApiRouteFacts\<close>: the route handlers of \<open>app/api\<close> and of the file links, the table
    of the routes, and \<open>serve\<close>, the way of a request through the middleware to its handler and the
    backend: on whose authority each call is made, and what the login accepts.
  \<^item> \<open>Connections\<close>, \<open>ReplyChannels\<close>, \<open>ConnectionFacts\<close>: what is behind \<open>Connection\<close>: the requests to
    the server (\<open>drivers/database/filedb.ts\<close>, \<open>system-filedb.ts\<close>), results of libsql and sql.js
    (\<open>turso.tsx\<close>, \<open>sqljs.ts\<close>), and the replies of a parent window or a socket
    (\<open>drivers/iframe-driver.ts\<close>, \<open>drivers/mysql/mysql-playground-driver.ts\<close>): the locale
    \<open>request_channel\<close> matches them to requests.
  \<^item> \<open>Statements\<close>: grouping the statements of a script and running them,
    \<open>components/gui/sql-editor/statement-highlight.ts\<close> and \<open>lib/sql/multiple-query.ts\<close>.
  \<^item> \<open>QueryTab\<close>, \<open>QueryTabFacts\<close>: the tab of a query, \<open>components/gui/tabs/query-tab.tsx\<close> and
    \<open>query-placeholder.tsx\<close>: which statements a click runs, the values of their placeholders
    (\<open>extractInputValue\<close> of \<open>drivers/sqlite/sql-helper.ts\<close>), and the tabs of the results.
  \<^item> \<open>SavedDocs\<close>, \<open>SavedDocFacts\<close>: saved queries and their namespaces, \<open>drivers/saved-doc/\<close>: the
    store in IndexedDB and the one of the desktop program, in which records are shared until the
    file is opened again.  The locale \<open>doc_store\<close> is what both promise: maps from identifiers.
  \<^item> \<open>RelationDiagram\<close>, \<open>RelationDiagramFacts\<close>: the diagram of tables and foreign keys,
    \<open>components/gui/tabs/relational-diagram-tab/index.tsx\<close>: which tables it draws and where.
  \<^item> \<open>DataCatalog\<close>, \<open>DataCatalogFacts\<close>: definitions of columns, tables and terms,
    \<open>extensions/data-catalog/driver-inmemory.ts\<close>, and the dialogs that write them.
  \<^item> \<open>GridSelection\<close>, \<open>GridState\<close>, \<open>GridFacts\<close>: the editable grid, the class \<open>OptimizeTableState\<close>
    of \<open>components/gui/table-optimized/optimize-table-state.tsx\<close>: selection ranges as sets of
    cells, rows with pending changes and the change log, debounced notifications.  Row objects
    live in a store and are compared by their place in it.  \<open>grid_reachable\<close> are the states that
    the operations reach.
  \<^item> \<open>GridActions\<close>, \<open>ActionFacts\<close>: keyboard and clipboard (\<open>components/gui/query-result-table.tsx\<close>,
    \<open>lib/key-matcher.ts\<close>), duplicating rows (\<open>table-result/table-state-actions.ts\<close>), and commits
    (\<open>lib/sql/sql-execute-helper.ts\<close>), also with edits made while a commit waits.
  \<^item> \<open>CellEdit\<close>, \<open>CellFacts\<close>: one cell, \<open>components/gui/table-cell/\<close> and
    \<open>table-optimized/table-cell.tsx\<close>: the editor a value gets, its text and back, keys and mouse.
  \<^item> \<open>GridViews\<close>, \<open>GridViewFacts\<close>: which cells are rendered
    (\<open>table-optimized/use-visibility-calculation.ts\<close> and \<open>index.tsx\<close>), the choice of columns, and the
    aggregates of a selection (\<open>aggregate-result/aggregate-result-button.tsx\<close>).
  \<^item> \<open>TableData\<close>, \<open>TableDataFacts\<close>: the tab of a table, \<open>components/gui/tabs/table-data-tab.tsx\<close>:
    paging, selections that wait for their answer, and the buttons that act on the grid.
  \<^item> \<open>TableResult\<close>: the headers of a result and which columns can be edited,
    \<open>lib/build-table-result.ts\<close>.
  \<^item> \<open>Exports\<close>, \<open>ExportFacts\<close>: the export formats, \<open>lib/export-helper.ts\<close>, and what they read back to.
  \<^item> \<open>ImportFile\<close>, \<open>ImportFacts\<close>: importing a file into a table,
    \<open>components/gui/schema-sidebar-list.tsx\<close>: what a CSV export reads back to here, and which
    statements are run.
  \<^item> \<open>Sidebar\<close>, \<open>SidebarFacts\<close>: the tree of tables, views and triggers of the same file, what a search
    shows of it, \<open>components/listview/index.tsx\<close>, and the completions of
    \<open>context/schema-provider.tsx\<close>: every entry is counted over the tree.
  \<^item> \<open>MassDrop\<close>, \<open>MassDropFacts\<close>: dropping and emptying several tables,
    \<open>components/gui/tabs/mass-drop-table.tsx\<close> with \<open>components/selectable-table.tsx\<close>: a machine of
    events, in which confirmed operations run side by side.
  \<^item> \<open>FileExplorer\<close>, \<open>FileExplorerFacts\<close>: the files of a database,
    \<open>app/(admin)/db/[name]/files/page.tsx\<close>: folders made of paths, counts and sizes, created folders in
    the browser's storage, and the page with the requests that wait for an answer.

  \<^bold>\<open>State and errors.\<close>  A cursor is the record \<open>CursorV2\<close> and every method that moves it returns
  the new one; the registry of the V8 reader is a list indexed by identifiers; a database is a
  state of any type with the operations of \<open>Connection\<close>, and an operation is a function of the
  state that returns \<open>Inl\<close> of the error thrown or \<open>Inr\<close> of the value, with the new state.

  \<^bold>\<open>Loops and fuel.\<close>  The loops of the parsers are functions whose termination is proved with the
  number of tokens left.  The V8 reader recurses on what the bytes say, so its definitions carry
  fuel: the length of the buffer for the nesting, and one more than it for the elements of one
  object.  \<open>V8Facts\<close> shows that each level and each round reads a byte, that the fuel therefore
  never runs out, and that the reader returns for every buffer.  The conversion of explain rows
  recurses from a row to the rows that name it as their parent and carries fuel too: one more
  than the number of rows is enough when no row is its own ancestor (\<open>convert_returns\<close>); a row that
  is its own parent makes the code recurse forever.  The children of full text indices carry the
  length of the longest name as fuel, for names grow on the way down (\<open>fts_item_fuel\<close>).

  \<^bold>\<open>Parameters.\<close>  Code from packages: \<open>tokenizeSql\<close>, \<open>isEqual\<close> and \<open>deepEqual\<close>, \<open>TextDecoder\<close>, the
  parser of the editor (a syntax tree with ranges), the verification of a session token, the layout
  of dagre, \<open>formatCost\<close>, \<open>localeCompare\<close>, \<open>Date.parse\<close>, \<open>arrayMove\<close> of dnd-kit, \<open>JSON.parse\<close>, generated identifiers, the
  decoding of path segments, the files and the session behind the routes, the backend, libsql, sql.js,
  and the database itself.  Strings are lists of characters below 256.

  \<^bold>\<open>Not modelled.\<close>  Markup and event wiring, browser APIs, editor plugins, constant tables and
  documents, the full editor windows and the preview of a key-value store, calls of language models,
  and the server, which is another program.  Boards and charts are stores and
  option objects of packages around which little logic of the program is left.
\<close>

end
